(* ===== verification/Prelude.thy ===== *)
theory Prelude
  imports Main "HOL-Library.AList" "HOL-Library.Sublist" "HOL-Library.Char_ord"
    "HOL-Library.List_Lexorder"
begin

text \<open>
  The vocabulary every component of the development shares:
  \<^item> the exceptions of the program as values (\<open>error\<close>), and the command type
    \<open>('s, 'a) M\<close>: a command reads and writes a state and returns a value or raises. A raised
    exception does not undo the writes made before it, as in Python;
  \<^item> a weakest-precondition calculus (\<open>wp\<close>) for such commands, and commands that evolve the state
    along a preorder (\<open>evolves\<close>, the locale \<open>evolution\<close>);
  \<^item> Python dictionaries with their insertion order (\<open>dict_get\<close>, \<open>dict_set\<close>, \<open>dict_values\<close>),
    an interface locale for dictionaries and its interpretation on association lists;
  \<^item> the process state \<open>world\<close>: where \<^verbatim>\<open>uuid4()\<close> and \<^verbatim>\<open>datetime.now(UTC)\<close> draw from.
\<close>

named_theorems exec \<open>how a command runs to a given outcome\<close>
named_theorems wp_rules \<open>weakest preconditions of the command constructors\<close>
named_theorems evolve \<open>commands that move the state along a preorder\<close>

section \<open>Exceptions and commands\<close>

text \<open>
  The exception classes the program raises: the three of \<^verbatim>\<open>runtime/errors.py\<close>, the two of
  \<^verbatim>\<open>patchpanel/errors.py\<close>, SQLAlchemy's \<^verbatim>\<open>IntegrityError\<close>, and the built-in ones its
  expressions can raise.
\<close>

datatype error =
    NotFoundError string
  | ConflictError string
  | InvalidOperationError string
  | PatchPanelValidationError "string list"
  | PatchPanelLoadError string
  | ValueError string
  | TypeError string
  | KeyError string
  | IndexError string
  | OverflowError string
  | PermissionError string
  | LookupError string
  | RuntimeError string
  | IntegrityError string
  | HTTPException nat string

text \<open>\<^verbatim>\<open>except ValueError\<close> also catches the subclasses of \<^verbatim>\<open>ValueError\<close>.\<close>

fun is_value_error :: "error \<Rightarrow> bool" where
  "is_value_error (NotFoundError _) = True"
| "is_value_error (ConflictError _) = True"
| "is_value_error (InvalidOperationError _) = True"
| "is_value_error (PatchPanelValidationError _) = True"
| "is_value_error (PatchPanelLoadError _) = True"
| "is_value_error (ValueError _) = True"
| "is_value_error _ = False"

type_synonym 'a res = "error + 'a"
type_synonym ('s, 'a) M = "'s \<Rightarrow> 'a res \<times> 's"

definition returnM :: "'a \<Rightarrow> ('s, 'a) M" where
  "returnM x = (\<lambda>s. (Inr x, s))"

definition raiseM :: "error \<Rightarrow> ('s, 'a) M" where
  "raiseM e = (\<lambda>s. (Inl e, s))"

definition bindM :: "('s, 'a) M \<Rightarrow> ('a \<Rightarrow> ('s, 'b) M) \<Rightarrow> ('s, 'b) M" where
  "bindM m f = (\<lambda>s. case m s of (Inl e, s') \<Rightarrow> (Inl e, s') | (Inr x, s') \<Rightarrow> f x s')"

definition getsM :: "('s \<Rightarrow> 'a) \<Rightarrow> ('s, 'a) M" where
  "getsM f = (\<lambda>s. (Inr (f s), s))"

definition modifyM :: "('s \<Rightarrow> 's) \<Rightarrow> ('s, unit) M" where
  "modifyM f = (\<lambda>s. (Inr (), f s))"

text \<open>A pure expression that may raise, used inside a command.\<close>

definition liftM :: "'a res \<Rightarrow> ('s, 'a) M" where
  "liftM r = (\<lambda>s. (r, s))"

text \<open>\<^verbatim>\<open>for x in xs: body(x)\<close>, collecting the values of the body.\<close>

fun forM :: "'a list \<Rightarrow> ('a \<Rightarrow> ('s, 'b) M) \<Rightarrow> ('s, 'b list) M" where
  "forM [] f = returnM []"
| "forM (x # xs) f = bindM (f x) (\<lambda>y. bindM (forM xs f) (\<lambda>ys. returnM (y # ys)))"

text \<open>A pure check repeated over a list: the first raised error is the outcome.\<close>

fun check_all :: "('a \<Rightarrow> unit res) \<Rightarrow> 'a list \<Rightarrow> unit res" where
  "check_all f [] = Inr ()"
| "check_all f (x # xs) = (case f x of Inl e \<Rightarrow> Inl e | Inr _ \<Rightarrow> check_all f xs)"

lemma check_all_ok: "check_all f xs = Inr () \<longleftrightarrow> (\<forall>x \<in> set xs. f x = Inr ())"
  by (induction xs) (auto split: sum.splits)

subsection \<open>Running commands\<close>

lemma run_return [exec]: "returnM x s = (r, s') \<longleftrightarrow> r = Inr x \<and> s' = s"
  by (auto simp: returnM_def)

lemma run_raise [exec]: "raiseM e s = (r, s') \<longleftrightarrow> r = Inl e \<and> s' = s"
  by (auto simp: raiseM_def)

lemma run_gets [exec]: "getsM f s = (r, s') \<longleftrightarrow> r = Inr (f s) \<and> s' = s"
  by (auto simp: getsM_def)

lemma run_modify [exec]: "modifyM f s = (r, s') \<longleftrightarrow> r = Inr () \<and> s' = f s"
  by (auto simp: modifyM_def)

lemma run_lift [exec]: "liftM p s = (r, s') \<longleftrightarrow> r = p \<and> s' = s"
  by (auto simp: liftM_def)

lemma run_bind_ok [exec]:
  "bindM m f s = (Inr y, s') \<longleftrightarrow> (\<exists>x t. m s = (Inr x, t) \<and> f x t = (Inr y, s'))"
  by (auto simp: bindM_def split: prod.splits sum.splits)

lemma run_bind_err [exec]:
  "bindM m f s = (Inl e, s') \<longleftrightarrow>
     m s = (Inl e, s') \<or> (\<exists>x t. m s = (Inr x, t) \<and> f x t = (Inl e, s'))"
  by (auto simp: bindM_def split: prod.splits sum.splits)

lemma bindM_return [simp]: "bindM (returnM x) f = f x"
  by (simp add: bindM_def returnM_def)

lemma bindM_Inr: "m s = (Inr x, t) \<Longrightarrow> bindM m f s = f x t"
  by (simp add: bindM_def)

lemma bindM_Inl: "m s = (Inl e, t) \<Longrightarrow> bindM m f s = (Inl e, t)"
  by (simp add: bindM_def)

lemmas run_defs = returnM_def raiseM_def bindM_def getsM_def modifyM_def liftM_def

subsection \<open>Weakest preconditions\<close>

definition wp :: "('s, 'a) M \<Rightarrow> ('a \<Rightarrow> 's \<Rightarrow> bool) \<Rightarrow> (error \<Rightarrow> 's \<Rightarrow> bool) \<Rightarrow> 's \<Rightarrow> bool" where
  "wp m Q E s = (case m s of (Inl e, s') \<Rightarrow> E e s' | (Inr x, s') \<Rightarrow> Q x s')"

lemma wp_return [wp_rules]: "wp (returnM x) Q E s = Q x s"
  by (simp add: wp_def returnM_def)

lemma wp_raise [wp_rules]: "wp (raiseM e) Q E s = E e s"
  by (simp add: wp_def raiseM_def)

lemma wp_gets [wp_rules]: "wp (getsM f) Q E s = Q (f s) s"
  by (simp add: wp_def getsM_def)

lemma wp_modify [wp_rules]: "wp (modifyM f) Q E s = Q () (f s)"
  by (simp add: wp_def modifyM_def)

lemma wp_lift [wp_rules]: "wp (liftM r) Q E s = (case r of Inl e \<Rightarrow> E e s | Inr x \<Rightarrow> Q x s)"
  by (simp add: wp_def liftM_def)

lemma wp_bind [wp_rules]: "wp (bindM m f) Q E s = wp m (\<lambda>x. wp (f x) Q E) E s"
  by (auto simp: wp_def bindM_def split: prod.splits sum.splits)

lemma wp_if [wp_rules]: "wp (if b then m else n) Q E s = (if b then wp m Q E s else wp n Q E s)"
  by simp

lemma wp_case_option [wp_rules]:
  "wp (case x of None \<Rightarrow> m | Some y \<Rightarrow> f y) Q E s =
     (case x of None \<Rightarrow> wp m Q E s | Some y \<Rightarrow> wp (f y) Q E s)"
  by (cases x) simp_all

lemma wp_case_sum [wp_rules]:
  "wp (case x of Inl e \<Rightarrow> f e | Inr y \<Rightarrow> g y) Q E s =
     (case x of Inl e \<Rightarrow> wp (f e) Q E s | Inr y \<Rightarrow> wp (g y) Q E s)"
  by (cases x) simp_all

lemma wp_case_prod [wp_rules]:
  "wp (case x of (a, b) \<Rightarrow> f a b) Q E s = (case x of (a, b) \<Rightarrow> wp (f a b) Q E s)"
  by (cases x) simp

lemma wp_mono:
  assumes "wp m Q E s"
    and "\<And>x t. m s = (Inr x, t) \<Longrightarrow> Q x t \<Longrightarrow> Q' x t"
    and "\<And>e t. m s = (Inl e, t) \<Longrightarrow> E e t \<Longrightarrow> E' e t"
  shows "wp m Q' E' s"
  using assms by (auto simp: wp_def split: prod.splits sum.splits)

lemma wp_okD: "wp m Q E s \<Longrightarrow> m s = (Inr x, t) \<Longrightarrow> Q x t"
  by (simp add: wp_def)

lemma wp_errD: "wp m Q E s \<Longrightarrow> m s = (Inl e, t) \<Longrightarrow> E e t"
  by (simp add: wp_def)

text \<open>An invariant that a command keeps whether it returns or raises.\<close>

definition preserves :: "('s \<Rightarrow> bool) \<Rightarrow> ('s, 'a) M \<Rightarrow> bool" where
  "preserves I m \<longleftrightarrow> (\<forall>s. I s \<longrightarrow> wp m (\<lambda>_. I) (\<lambda>_. I) s)"

lemma preservesI: "(\<And>s. I s \<Longrightarrow> wp m (\<lambda>_. I) (\<lambda>_. I) s) \<Longrightarrow> preserves I m"
  by (simp add: preserves_def)

lemma preservesD: "preserves I m \<Longrightarrow> I s \<Longrightarrow> m s = (r, s') \<Longrightarrow> I s'"
  by (auto simp: preserves_def wp_def split: sum.splits prod.splits)

lemma preserves_wp: "preserves I m \<Longrightarrow> I s \<Longrightarrow> wp m (\<lambda>_. I) (\<lambda>_. I) s"
  by (simp add: preserves_def)

lemma preserves_bind:
  "preserves I m \<Longrightarrow> (\<And>x. preserves I (f x)) \<Longrightarrow> preserves I (bindM m f)"
  unfolding preserves_def wp_bind by (blast intro: wp_mono)

lemma preserves_forM: "(\<And>x. preserves I (f x)) \<Longrightarrow> preserves I (forM xs f)"
proof (induction xs)
  case Nil
  then show ?case by (simp add: preserves_def wp_return)
next
  case (Cons x xs)
  have "preserves I (returnM (y # ys))" for y ys by (simp add: preserves_def wp_return)
  with Cons show ?case by (auto intro!: preserves_bind)
qed

subsection \<open>Commands that evolve the state along a preorder\<close>

definition evolves :: "('s \<Rightarrow> 's \<Rightarrow> bool) \<Rightarrow> ('s, 'a) M \<Rightarrow> bool" where
  "evolves R m \<longleftrightarrow> (\<forall>s. R s (snd (m s)))"

lemma evolvesI: "(\<And>s. R s (snd (m s))) \<Longrightarrow> evolves R m"
  by (simp add: evolves_def)

lemma evolvesD: "evolves R m \<Longrightarrow> m s = (r, s') \<Longrightarrow> R s s'"
  by (metis evolves_def snd_conv)

lemma evolves_modify: "(\<And>s. R s (f s)) \<Longrightarrow> evolves R (modifyM f)"
  by (simp add: evolves_def modifyM_def)

text \<open>
  The interface: a reflexive and transitive relation on states. What every command constructor
  keeps of it is proved once here.
\<close>

locale evolution =
  fixes R :: "'s \<Rightarrow> 's \<Rightarrow> bool"
  assumes R_refl: "R s s"
    and R_trans: "R s t \<Longrightarrow> R t u \<Longrightarrow> R s u"
begin

lemma evolves_return: "evolves R (returnM x)"
  by (simp add: evolves_def returnM_def R_refl)

lemma evolves_raise: "evolves R (raiseM e)"
  by (simp add: evolves_def raiseM_def R_refl)

lemma evolves_gets: "evolves R (getsM f)"
  by (simp add: evolves_def getsM_def R_refl)

lemma evolves_lift: "evolves R (liftM r)"
  by (simp add: evolves_def liftM_def R_refl)

lemma evolves_bind:
  assumes "evolves R m" and "\<And>x. evolves R (f x)"
  shows "evolves R (bindM m f)"
proof (rule evolvesI)
  fix s
  have m: "R s (snd (m s))" using assms(1) by (simp add: evolves_def)
  show "R s (snd (bindM m f s))"
  proof (cases "m s")
    case (Pair r t)
    with m have "R s t" by simp
    moreover have "R t (snd (f x t))" for x using assms(2) by (simp add: evolves_def)
    ultimately show ?thesis
      using Pair by (cases r) (auto simp: bindM_def intro: R_trans)
  qed
qed

lemma evolves_forM: "(\<And>x. evolves R (f x)) \<Longrightarrow> evolves R (forM xs f)"
  by (induction xs) (auto intro: evolves_bind evolves_return)

lemmas evolves_basic = evolves_return evolves_raise evolves_gets evolves_lift evolves_bind
  evolves_forM

end

subsection \<open>Commands that keep an invariant and a preorder\<close>

text \<open>
  The two together: from a state with the invariant \<open>ok\<close> every outcome, a value or an exception, has the
  invariant and is related to the start by the preorder \<open>grown\<close>.
\<close>

locale kept =
  fixes ok :: "'s \<Rightarrow> bool"
    and grown :: "'s \<Rightarrow> 's \<Rightarrow> bool"
  assumes kept_refl: "grown s s"
    and kept_trans: "grown s t \<Longrightarrow> grown t u \<Longrightarrow> grown s u"
begin

definition tame :: "('s, 'a) M \<Rightarrow> bool" where
  "tame m \<longleftrightarrow> (\<forall>s. ok s \<longrightarrow> wp m (\<lambda>_ s'. ok s' \<and> grown s s') (\<lambda>_ s'. ok s' \<and> grown s s') s)"

lemma tameI: "(\<And>s. ok s \<Longrightarrow> wp m (\<lambda>_ s'. ok s' \<and> grown s s') (\<lambda>_ s'. ok s' \<and> grown s s') s) \<Longrightarrow> tame m"
  by (simp add: tame_def)

lemma tame_wp: "tame m \<Longrightarrow> ok s \<Longrightarrow> wp m (\<lambda>_ s'. ok s' \<and> grown s s') (\<lambda>_ s'. ok s' \<and> grown s s') s"
  by (simp add: tame_def)

lemma tame_return: "tame (returnM x)"
  by (simp add: tame_def wp_return kept_refl)

lemma tame_raise: "tame (raiseM e)"
  by (simp add: tame_def wp_raise kept_refl)

lemma tame_lift: "tame (liftM r)"
  by (simp add: tame_def wp_lift kept_refl split: sum.split)

lemma tame_gets: "tame (getsM f)"
  by (simp add: tame_def wp_gets kept_refl)

lemma tame_bind:
  assumes "tame m" and "\<And>x. tame (f x)"
  shows "tame (bindM m f)"
  unfolding tame_def wp_bind
proof (intro allI impI)
  fix s assume "ok s"
  with assms(1) have m: "wp m (\<lambda>_ t. ok t \<and> grown s t) (\<lambda>_ t. ok t \<and> grown s t) s"
    by (simp add: tame_def)
  show "wp m (\<lambda>x. wp (f x) (\<lambda>_ s'. ok s' \<and> grown s s') (\<lambda>_ s'. ok s' \<and> grown s s')) (\<lambda>_ s'. ok s' \<and> grown s s') s"
  proof (rule wp_mono [OF m])
    fix x t assume t: "ok t \<and> grown s t"
    with assms(2) have "wp (f x) (\<lambda>_ s'. ok s' \<and> grown t s') (\<lambda>_ s'. ok s' \<and> grown t s') t"
      by (simp add: tame_def)
    then show "wp (f x) (\<lambda>_ s'. ok s' \<and> grown s s') (\<lambda>_ s'. ok s' \<and> grown s s') t"
      by (rule wp_mono) (use t kept_trans in blast)+
  qed
qed

lemma tame_forM: "(\<And>x. tame (f x)) \<Longrightarrow> tame (forM xs f)"
  by (induction xs) (auto intro!: tame_return tame_bind)

lemmas tame_basic = tame_return tame_raise tame_lift tame_bind tame_forM

end

section \<open>Dictionaries\<close>

text \<open>
  A Python \<^verbatim>\<open>dict\<close> is an association list with distinct keys: assigning to a present key keeps
  its position, assigning to a new key appends, and \<^verbatim>\<open>values()\<close> iterates in that order.
\<close>

type_synonym ('k, 'v) dict = "('k \<times> 'v) list"

abbreviation dict_get :: "('k, 'v) dict \<Rightarrow> 'k \<Rightarrow> 'v option" where
  "dict_get \<equiv> map_of"

abbreviation dict_set :: "'k \<Rightarrow> 'v \<Rightarrow> ('k, 'v) dict \<Rightarrow> ('k, 'v) dict" where
  "dict_set \<equiv> AList.update"

abbreviation dict_values :: "('k, 'v) dict \<Rightarrow> 'v list" where
  "dict_values d \<equiv> map snd d"

abbreviation dict_keys :: "('k, 'v) dict \<Rightarrow> 'k list" where
  "dict_keys d \<equiv> map fst d"

abbreviation dict_ok :: "('k, 'v) dict \<Rightarrow> bool" where
  "dict_ok d \<equiv> distinct (map fst d)"

text \<open>\<^verbatim>\<open>d.update(e)\<close> and the display \<^verbatim>\<open>{**d, **e}\<close>: the items of \<^verbatim>\<open>e\<close> assigned in order.\<close>

definition dict_update :: "('k, 'v) dict \<Rightarrow> ('k, 'v) dict \<Rightarrow> ('k, 'v) dict" where
  "dict_update d e = fold (\<lambda>(k, v). dict_set k v) e d"

text \<open>What the program relies on of a dictionary.\<close>

locale dictionary =
  fixes empty :: 'd
    and get :: "'d \<Rightarrow> 'k \<Rightarrow> 'v option"
    and put :: "'k \<Rightarrow> 'v \<Rightarrow> 'd \<Rightarrow> 'd"
    and vals :: "'d \<Rightarrow> 'v list"
    and ok :: "'d \<Rightarrow> bool"
  assumes get_empty: "get empty k = None"
    and get_put: "ok d \<Longrightarrow> get (put k v d) = (get d)(k \<mapsto> v)"
    and ok_empty: "ok empty"
    and ok_put: "ok d \<Longrightarrow> ok (put k v d)"
    and vals_get: "ok d \<Longrightarrow> set (vals d) = ran (get d)"
begin

lemma vals_put:
  "ok d \<Longrightarrow> x \<in> set (vals (put k v d)) \<longleftrightarrow> x = v \<or> (\<exists>k'. k' \<noteq> k \<and> get d k' = Some x)"
  by (auto simp: vals_get get_put ok_put ran_def)

text \<open>A store keyed by a field of its values.\<close>

definition keyed :: "('v \<Rightarrow> 'k) \<Rightarrow> 'd \<Rightarrow> bool" where
  "keyed key d \<longleftrightarrow> ok d \<and> (\<forall>k v. get d k = Some v \<longrightarrow> key v = k)"

lemma keyed_empty: "keyed key empty"
  by (simp add: keyed_def get_empty ok_empty)

lemma keyed_put: "keyed key d \<Longrightarrow> key v = k \<Longrightarrow> keyed key (put k v d)"
  by (auto simp: keyed_def get_put ok_put)

lemma keyed_get: "keyed key d \<Longrightarrow> get d k = Some v \<Longrightarrow> key v = k"
  by (simp add: keyed_def)

lemma keyed_vals: "keyed key d \<Longrightarrow> v \<in> set (vals d) \<longleftrightarrow> get d (key v) = Some v"
  by (auto simp: keyed_def vals_get ran_def)

lemma keyed_vals_put:
  "keyed key d \<Longrightarrow> key v = k \<Longrightarrow> x \<in> set (vals (put k v d)) \<longleftrightarrow>
     x = v \<or> (x \<in> set (vals d) \<and> key x \<noteq> k)"
  by (auto simp: keyed_def vals_put vals_get ran_def)

end

lemma map_of_ran: "dict_ok d \<Longrightarrow> set (dict_values d) = ran (dict_get d)"
  by (simp add: ran_distinct)

interpretation py: dictionary "[]" dict_get dict_set dict_values dict_ok
  by unfold_locales (auto simp: update_conv' distinct_update ran_distinct)

lemma dict_get_set [simp]: "dict_get (dict_set k v d) = (dict_get d)(k \<mapsto> v)"
  by (rule update_conv')

lemma dict_ok_set [simp, intro]: "dict_ok d \<Longrightarrow> dict_ok (dict_set k v d)"
  by (rule distinct_update)

lemma dict_set_value [simp]: "v \<in> snd ` set (dict_set k v d)"
  by (induction d) auto

lemma dict_keys_set: "set (dict_keys (dict_set k v d)) = insert k (set (dict_keys d))"
  by (simp add: dom_update)

lemma dict_get_update: "dict_get (dict_update d e) = (dict_get d) ++ dict_get (rev e)"
proof (induction e arbitrary: d)
  case Nil
  then show ?case by (simp add: dict_update_def)
next
  case (Cons p e)
  obtain k v where p: "p = (k, v)" by (cases p)
  have "dict_update d (p # e) = dict_update (dict_set k v d) e"
    by (simp add: dict_update_def p)
  moreover have "dict_get (dict_update (dict_set k v d) e) x
      = (dict_get d ++ dict_get (rev (p # e))) x" for x
    by (simp only: Cons.IH) (simp add: p map_add_def split: option.splits)
  ultimately show ?case by (simp add: fun_eq_iff)
qed

text \<open>A list of messages built by appending under conditions is empty when no condition holds.\<close>

named_theorems messages \<open>when a list of messages is empty\<close>

lemma concat_map_Nil [messages]: "concat (map f xs) = [] \<longleftrightarrow> (\<forall>x \<in> set xs. f x = [])"
  by simp

lemma if_message [messages]: "(if b then [m] else []) = [] \<longleftrightarrow> \<not> b"
  by simp

lemma case_message [messages]:
  "(case x of None \<Rightarrow> [] | Some y \<Rightarrow> f y) = [] \<longleftrightarrow> (\<forall>y. x = Some y \<longrightarrow> f y = [])"
  by (cases x) auto

text \<open>\<^verbatim>\<open>next((x for x in xs if p(x)), None)\<close>.\<close>

lemma find_SomeD: "find P xs = Some x \<Longrightarrow> x \<in> set xs \<and> P x"
  by (auto simp: find_Some_iff)

lemma find_NoneD: "find P xs = None \<Longrightarrow> x \<in> set xs \<Longrightarrow> \<not> P x"
  by (auto simp: find_None_iff)

lemma distinct_singleton: "distinct xs \<Longrightarrow> set xs = {x} \<Longrightarrow> xs = [x]"
proof (cases xs)
  case (Cons y ys)
  assume "distinct xs" "set xs = {x}"
  with Cons have "y = x" "set ys \<subseteq> {x}" "x \<notin> set ys" by auto
  then have "set ys = {}" by (simp add: subset_insert)
  with Cons \<open>y = x\<close> show ?thesis by simp
qed simp

end
