(* ===== verification/PyData.thy ===== *)
theory PyData
  imports Prelude
begin

text \<open>
  The Python data the program computes with: strings and the operations it uses of them
  (\<open>quoted\<close>, \<open>rsplit_colon\<close>, \<open>split_colon\<close>, \<open>strip\<close>), values of type \<^verbatim>\<open>Any\<close> as they
  come out of JSON (\<open>json\<close>, with \<^verbatim>\<open>str()\<close>, \<^verbatim>\<open>int()\<close> and truth testing), and the process state
  \<open>world\<close> behind \<^verbatim>\<open>uuid4()\<close> and \<^verbatim>\<open>datetime.now(UTC)\<close>.

  A string is a list of characters with code points below 256. A datetime is the number of
  microseconds since the epoch in UTC; a naive datetime that the program reads as UTC is the same
  number.
\<close>

section \<open>Strings\<close>

definition quoted :: "string \<Rightarrow> string" where
  "quoted s = [CHR 0x27] @ s @ [CHR 0x27]"

text \<open>Truth of an optional string: \<^verbatim>\<open>if s:\<close>.\<close>

definition truthy :: "string option \<Rightarrow> bool" where
  "truthy s \<longleftrightarrow> s \<noteq> None \<and> s \<noteq> Some []"

text \<open>\<^verbatim>\<open>a or b\<close> on optional strings.\<close>

definition or_else :: "string option \<Rightarrow> string option \<Rightarrow> string option" where
  "or_else a b = (if truthy a then a else b)"

lemma truthy_simps [simp]: "truthy None = False" "truthy (Some s) \<longleftrightarrow> s \<noteq> []"
  by (auto simp: truthy_def)

text \<open>\<^verbatim>\<open>s.split(":", maxsplit=1)[0]\<close>: what stands before the first colon.\<close>

definition split_colon :: "string \<Rightarrow> string" where
  "split_colon s = takeWhile (\<lambda>c. c \<noteq> CHR '':'') s"

text \<open>\<^verbatim>\<open>s.rsplit(":", 1)[0]\<close>: what stands before the last colon, or \<^verbatim>\<open>s\<close> when it has none.\<close>

definition rsplit_colon :: "string \<Rightarrow> string" where
  "rsplit_colon s =
     (if CHR '':'' \<in> set s then rev (tl (dropWhile (\<lambda>c. c \<noteq> CHR '':'') (rev s))) else s)"

lemma rsplit_colon_append:
  assumes "CHR '':'' \<notin> set v"
  shows "rsplit_colon (a @ [CHR '':''] @ v) = a"
proof -
  have "dropWhile (\<lambda>c. c \<noteq> CHR '':'') (rev v @ CHR '':'' # rev a) = CHR '':'' # rev a"
    using assms by (subst dropWhile_append2) auto
  then show ?thesis by (simp add: rsplit_colon_def)
qed

lemma split_colon_append:
  "CHR '':'' \<notin> set a \<Longrightarrow> split_colon (a @ [CHR '':''] @ v) = a"
  by (auto simp: split_colon_def takeWhile_append)

text \<open>\<^verbatim>\<open>s.strip()\<close>: ASCII and Latin-1 white space removed at both ends.\<close>

definition py_space :: "char \<Rightarrow> bool" where
  "py_space c \<longleftrightarrow> (let n = (of_char c :: nat) in
     9 \<le> n \<and> n \<le> 13 \<or> 28 \<le> n \<and> n \<le> 32 \<or> n = 133 \<or> n = 160)"

definition strip :: "string \<Rightarrow> string" where
  "strip s = rev (dropWhile py_space (rev (dropWhile py_space s)))"

text \<open>\<^verbatim>\<open>", ".join(sorted(xs))\<close> for a set of strings, as the error messages use it.\<close>

definition join :: "string \<Rightarrow> string list \<Rightarrow> string" where
  "join sep xs = (case xs of [] \<Rightarrow> [] | y # ys \<Rightarrow> y @ concat (map (\<lambda>z. sep @ z) ys))"

definition join_sorted :: "string list \<Rightarrow> string" where
  "join_sorted xs = join '', '' (sort (remdups xs))"

text \<open>Decimal text of an integer, \<^verbatim>\<open>str(n)\<close>.\<close>

definition digit :: "nat \<Rightarrow> char" where
  "digit n = char_of (48 + n)"

fun nat_text :: "nat \<Rightarrow> string" where
  "nat_text n = (if n < 10 then [digit n] else nat_text (n div 10) @ [digit (n mod 10)])"

declare nat_text.simps [simp del]

definition int_text :: "int \<Rightarrow> string" where
  "int_text i = (if i < 0 then ''-'' @ nat_text (nat (- i)) else nat_text (nat i))"

section \<open>Values of type Any\<close>

text \<open>
  A value decoded from JSON. A float is kept as the text \<^verbatim>\<open>repr\<close> gives it, which determines it.
\<close>

datatype json =
    JNull
  | JBool bool
  | JInt int
  | JFloat string
  | JStr string
  | JList "json list"
  | JDict "(string \<times> json) list"

type_synonym jdict = "(string, json) dict"

fun is_JList :: "json \<Rightarrow> bool" where
  "is_JList (JList _) = True"
| "is_JList _ = False"

definition hex_digit :: "nat \<Rightarrow> char" where
  "hex_digit n = char_of (if n < 10 then 48 + n else 87 + n)"

text \<open>\<^verbatim>\<open>repr\<close> of one character of a string quoted with \<^verbatim>\<open>q\<close>.\<close>

definition repr_char :: "char \<Rightarrow> char \<Rightarrow> string" where
  "repr_char q c = (let n = (of_char c :: nat) in
     if c = q \<or> n = 92 then [CHR 0x5C, c]
     else if n = 10 then [CHR 0x5C, CHR ''n'']
     else if n = 13 then [CHR 0x5C, CHR ''r'']
     else if n = 9 then [CHR 0x5C, CHR ''t'']
     else if n < 32 \<or> 127 \<le> n \<and> n \<le> 160 \<or> n = 173
       then [CHR 0x5C, CHR ''x'', hex_digit (n div 16), hex_digit (n mod 16)]
     else [c])"

definition repr_str :: "string \<Rightarrow> string" where
  "repr_str s =
     (let q = (if CHR 0x27 \<in> set s \<and> CHR 0x22 \<notin> set s then CHR 0x22 else CHR 0x27)
      in [q] @ concat (map (repr_char q) s) @ [q])"

primrec py_repr :: "json \<Rightarrow> string" where
  "py_repr JNull = ''None''"
| "py_repr (JBool b) = (if b then ''True'' else ''False'')"
| "py_repr (JInt i) = int_text i"
| "py_repr (JFloat t) = t"
| "py_repr (JStr s) = repr_str s"
| "py_repr (JList xs) = ''['' @ join '', '' (map py_repr xs) @ '']''"
| "py_repr (JDict d) =
     ''{'' @ join '', '' (map (\<lambda>p. repr_str (fst p) @ '': '' @ snd p)
       (map (map_prod (\<lambda>k. k) py_repr) d)) @ ''}''"

text \<open>\<^verbatim>\<open>str(v)\<close>: the string itself, \<^verbatim>\<open>repr\<close> for everything else.\<close>

definition py_str :: "json \<Rightarrow> string" where
  "py_str v = (case v of JStr s \<Rightarrow> s | _ \<Rightarrow> py_repr v)"

text \<open>Truth testing, \<^verbatim>\<open>if v:\<close>.\<close>

definition json_true :: "json \<Rightarrow> bool" where
  "json_true v = (case v of JNull \<Rightarrow> False | JBool b \<Rightarrow> b | JInt i \<Rightarrow> i \<noteq> 0
     | JFloat t \<Rightarrow> t \<noteq> ''0.0'' \<and> t \<noteq> ''-0.0'' | JStr s \<Rightarrow> s \<noteq> [] | JList xs \<Rightarrow> xs \<noteq> []
     | JDict d \<Rightarrow> d \<noteq> [])"

text \<open>The JSON value of an optional string.\<close>

definition opt_json :: "string option \<Rightarrow> json" where
  "opt_json s = (case s of None \<Rightarrow> JNull | Some x \<Rightarrow> JStr x)"

subsection \<open>Decimal text read as an integer\<close>

definition is_digit :: "char \<Rightarrow> bool" where
  "is_digit c \<longleftrightarrow> 48 \<le> (of_char c :: nat) \<and> (of_char c :: nat) \<le> 57"

fun digits_value :: "nat \<Rightarrow> string \<Rightarrow> nat" where
  "digits_value acc [] = acc"
| "digits_value acc (c # cs) = digits_value (10 * acc + (of_char c - 48)) cs"

text \<open>Digits with single underscores between them, as \<^verbatim>\<open>int(s)\<close> accepts.\<close>

fun digit_groups :: "string \<Rightarrow> string option" where
  "digit_groups [] = None"
| "digit_groups [c] = (if is_digit c then Some [c] else None)"
| "digit_groups (c # d # cs) =
     (if is_digit c then
        (if d = CHR ''_'' then map_option (Cons c) (digit_groups cs)
         else map_option (Cons c) (digit_groups (d # cs)))
      else None)"

definition int_of_text :: "string \<Rightarrow> int option" where
  "int_of_text s =
     (case strip s of
        [] \<Rightarrow> None
      | c # cs \<Rightarrow>
          if c = CHR ''-'' then map_option (\<lambda>ds. - int (digits_value 0 ds)) (digit_groups cs)
          else if c = CHR ''+'' then map_option (\<lambda>ds. int (digits_value 0 ds)) (digit_groups cs)
          else map_option (\<lambda>ds. int (digits_value 0 ds)) (digit_groups (c # cs)))"

text \<open>
  \<^verbatim>\<open>int(x)\<close> of a float, from its text: the digits of the mantissa scaled by the exponent and
  truncated towards zero. Infinities and not-a-number raise.
\<close>

definition float_int :: "string \<Rightarrow> int res" where
  "float_int t =
     (let neg = (t \<noteq> [] \<and> hd t = CHR ''-'');
          u = (if neg then tl t else t);
          mant = takeWhile (\<lambda>c. c \<noteq> CHR ''e'') u;
          ex = (case dropWhile (\<lambda>c. c \<noteq> CHR ''e'') u of [] \<Rightarrow> Some 0 | _ # e \<Rightarrow> int_of_text e);
          whole = takeWhile (\<lambda>c. c \<noteq> CHR ''.'') mant;
          frac = drop 1 (dropWhile (\<lambda>c. c \<noteq> CHR ''.'') mant)
      in if t = ''inf'' \<or> t = ''-inf'' then Inl (OverflowError ''cannot convert float infinity to integer'')
         else if list_all is_digit whole \<and> list_all is_digit frac \<and> whole \<noteq> [] then
           (case ex of
              None \<Rightarrow> Inl (ValueError ''cannot convert float NaN to integer'')
            | Some x \<Rightarrow>
                let p = x - int (length frac); d = digits_value 0 (whole @ frac);
                    m = (if 0 \<le> p then d * 10 ^ nat p else d div 10 ^ nat (- p))
                in Inr (if neg then - int m else int m))
         else Inl (ValueError ''cannot convert float NaN to integer''))"

text \<open>\<^verbatim>\<open>int(v)\<close> on a value of type Any.\<close>

definition py_int :: "json \<Rightarrow> int res" where
  "py_int v = (case v of
       JBool b \<Rightarrow> Inr (if b then 1 else 0)
     | JInt i \<Rightarrow> Inr i
     | JFloat t \<Rightarrow> float_int t
     | JStr s \<Rightarrow> (case int_of_text s of Some i \<Rightarrow> Inr i
                  | None \<Rightarrow> Inl (ValueError (''invalid literal for int() with base 10: '' @ repr_str s)))
     | JNull \<Rightarrow> Inl (TypeError ''int() argument must be a string, not NoneType'')
     | JList _ \<Rightarrow> Inl (TypeError ''int() argument must be a string, not list'')
     | JDict _ \<Rightarrow> Inl (TypeError ''int() argument must be a string, not dict''))"

section \<open>Identifiers and time\<close>

text \<open>A UUID, by its canonical text; \<^verbatim>\<open>str(u)\<close> is \<open>uuid_str\<close>.\<close>

datatype uuid = UUID (uuid_str: string)

type_synonym datetime = int

definition datetime_min :: datetime where
  "datetime_min = - 62135596800000000"

definition datetime_max :: datetime where
  "datetime_max = 253402300799999999"

text \<open>\<^verbatim>\<open>t + timedelta(seconds=n)\<close>: raises when the result leaves the years 1 to 9999.\<close>

definition plus_seconds :: "datetime \<Rightarrow> int \<Rightarrow> datetime res" where
  "plus_seconds t n =
     (let r = t + n * 1000000
      in if datetime_min \<le> r \<and> r \<le> datetime_max then Inr r else Inl (OverflowError ''date value out of range''))"

text \<open>
  \<^verbatim>\<open>t.isoformat()\<close> of a datetime in UTC: the civil date of the day number, the time of day, and the
  microseconds only when there are any.
\<close>

definition civil_date :: "int \<Rightarrow> int \<times> int \<times> int" where
  "civil_date days =
     (let z = days + 719468; era = z div 146097; doe = z mod 146097;
          yoe = (doe - doe div 1460 + doe div 36524 - doe div 146096) div 365;
          doy = doe - (365 * yoe + yoe div 4 - yoe div 100);
          mp = (5 * doy + 2) div 153;
          d = doy - (153 * mp + 2) div 5 + 1;
          m = (if mp < 10 then mp + 3 else mp - 9);
          y = yoe + era * 400 + (if m \<le> 2 then 1 else 0)
      in (y, m, d))"

definition pad_text :: "nat \<Rightarrow> int \<Rightarrow> string" where
  "pad_text n i = (let t = int_text i in replicate (n - length t) CHR ''0'' @ t)"

definition isoformat :: "datetime \<Rightarrow> string" where
  "isoformat t =
     (let us = t mod 1000000; secs = t div 1000000; days = secs div 86400; sod = secs mod 86400;
          (y, m, d) = civil_date days
      in pad_text 4 y @ ''-'' @ pad_text 2 m @ ''-'' @ pad_text 2 d @ ''T''
         @ pad_text 2 (sod div 3600) @ '':'' @ pad_text 2 (sod div 60 mod 60) @ '':''
         @ pad_text 2 (sod mod 60) @ (if us = 0 then [] else ''.'' @ pad_text 6 us) @ ''+00:00'')"

text \<open>
  The part of the process that is not deterministic: the sequence of identifiers \<^verbatim>\<open>uuid4()\<close>
  returns and the sequence of readings of the clock, each with the number drawn so far.
\<close>

record world =
  uuid_src :: "nat \<Rightarrow> uuid"
  uuid_pos :: nat
  clock_src :: "nat \<Rightarrow> datetime"
  clock_pos :: nat

definition uuid4 :: "('z world_scheme, uuid) M" where
  "uuid4 = (\<lambda>s. (Inr (uuid_src s (uuid_pos s)), s\<lparr>uuid_pos := Suc (uuid_pos s)\<rparr>))"

definition now_utc :: "('z world_scheme, datetime) M" where
  "now_utc = (\<lambda>s. (Inr (clock_src s (clock_pos s)), s\<lparr>clock_pos := Suc (clock_pos s)\<rparr>))"

lemma wp_uuid4 [wp_rules]:
  "wp uuid4 Q E s = Q (uuid_src s (uuid_pos s)) (s\<lparr>uuid_pos := Suc (uuid_pos s)\<rparr>)"
  by (simp add: wp_def uuid4_def)

lemma wp_now [wp_rules]:
  "wp now_utc Q E s = Q (clock_src s (clock_pos s)) (s\<lparr>clock_pos := Suc (clock_pos s)\<rparr>)"
  by (simp add: wp_def now_utc_def)

lemma run_uuid4 [exec]:
  "uuid4 s = (r, s') \<longleftrightarrow> r = Inr (uuid_src s (uuid_pos s)) \<and> s' = s\<lparr>uuid_pos := Suc (uuid_pos s)\<rparr>"
  by (auto simp: uuid4_def)

lemma run_now [exec]:
  "now_utc s = (r, s') \<longleftrightarrow> r = Inr (clock_src s (clock_pos s)) \<and> s' = s\<lparr>clock_pos := Suc (clock_pos s)\<rparr>"
  by (auto simp: now_utc_def)

text \<open>
  What the program relies on: \<^verbatim>\<open>uuid4()\<close> does not repeat, and the clock does not run backwards.
\<close>

definition fresh_uuids :: "'z world_scheme \<Rightarrow> bool" where
  "fresh_uuids s \<longleftrightarrow> inj (uuid_src s)"

definition steady_clock :: "'z world_scheme \<Rightarrow> bool" where
  "steady_clock s \<longleftrightarrow> mono (clock_src s)"

text \<open>The next reading of the clock; every later reading is at least this when it is steady.\<close>

definition next_reading :: "'z world_scheme \<Rightarrow> datetime" where
  "next_reading s = clock_src s (clock_pos s)"

definition issued :: "'z world_scheme \<Rightarrow> uuid set" where
  "issued s = uuid_src s ` {..< uuid_pos s}"

lemma fresh_not_issued: "fresh_uuids s \<Longrightarrow> uuid_src s (uuid_pos s) \<notin> issued s"
  by (auto simp: fresh_uuids_def issued_def inj_def)

text \<open>
  The process moving on without a write: identifiers drawn and the clock read. \<open>drawn s t i\<close> says
  that \<open>i\<close> was drawn between two such states, \<open>observed s t x\<close> that the clock showed \<open>x\<close>.
\<close>

definition advance :: "'z world_scheme \<Rightarrow> 'z world_scheme \<Rightarrow> bool" where
  "advance s t \<longleftrightarrow> (\<exists>u k. uuid_pos s \<le> u \<and> clock_pos s \<le> k \<and>
     t = s\<lparr>uuid_pos := u, clock_pos := k\<rparr>)"

definition drawn :: "'z world_scheme \<Rightarrow> 'z world_scheme \<Rightarrow> uuid \<Rightarrow> bool" where
  "drawn s t i \<longleftrightarrow> (\<exists>n. uuid_pos s \<le> n \<and> n < uuid_pos t \<and> i = uuid_src s n)"

definition observed :: "'z world_scheme \<Rightarrow> 'z world_scheme \<Rightarrow> datetime \<Rightarrow> bool" where
  "observed s t x \<longleftrightarrow> (\<exists>k. clock_pos s \<le> k \<and> k < clock_pos t \<and> x = clock_src s k)"

lemma advance_trans: "advance s t \<Longrightarrow> advance t u \<Longrightarrow> advance s u"
  unfolding advance_def by (elim exE conjE) (simp, blast intro: order_trans)

lemma advance_refl: "advance s s"
  unfolding advance_def by (rule exI [of _ "uuid_pos s"], rule exI [of _ "clock_pos s"]) simp

interpretation ticking: evolution advance
  by unfold_locales (rule advance_refl, rule advance_trans)

lemma advance_src:
  "advance s t \<Longrightarrow> uuid_src t = uuid_src s" "advance s t \<Longrightarrow> clock_src t = clock_src s"
  "advance s t \<Longrightarrow> uuid_pos s \<le> uuid_pos t" "advance s t \<Longrightarrow> clock_pos s \<le> clock_pos t"
  by (auto simp: advance_def)

lemma advance_now: "advance s (s\<lparr>clock_pos := Suc (clock_pos s)\<rparr>)"
  unfolding advance_def by (rule exI [of _ "uuid_pos s"], rule exI [of _ "Suc (clock_pos s)"]) simp

lemma advance_uuid: "advance s (s\<lparr>uuid_pos := Suc (uuid_pos s)\<rparr>)"
  unfolding advance_def by (rule exI [of _ "Suc (uuid_pos s)"], rule exI [of _ "clock_pos s"]) simp

lemma drawn_not_issued: "fresh_uuids s \<Longrightarrow> drawn s t i \<Longrightarrow> i \<notin> issued s"
  by (auto simp: drawn_def issued_def fresh_uuids_def dest: injD)

lemma drawn_issued: "advance s t \<Longrightarrow> drawn s t i \<Longrightarrow> i \<in> issued t"
  by (auto simp: drawn_def issued_def advance_src)

lemma advance_issued: "advance s t \<Longrightarrow> issued s \<subseteq> issued t"
  by (auto simp: issued_def advance_src dest: advance_src(3))

text \<open>On a steady clock a reading lies between the next reading before and the next one after.\<close>

lemma observed_bounds:
  assumes "steady_clock s" and "advance s t" and "observed s t x"
  shows "next_reading s \<le> x" and "x \<le> next_reading t"
  using assms by (auto simp: observed_def next_reading_def steady_clock_def advance_src mono_def)

lemma advance_reading: "steady_clock s \<Longrightarrow> advance s t \<Longrightarrow> next_reading s \<le> next_reading t"
  by (auto simp: next_reading_def steady_clock_def advance_src mono_def)

lemma advance_ideal:
  "advance s t \<Longrightarrow> fresh_uuids t = fresh_uuids s" "advance s t \<Longrightarrow> steady_clock t = steady_clock s"
  by (simp_all add: fresh_uuids_def steady_clock_def advance_src)

lemma advance_counters:
  "uuid_pos s \<le> u \<Longrightarrow> clock_pos s \<le> k \<Longrightarrow> advance s (s\<lparr>uuid_pos := u, clock_pos := k\<rparr>)"
  by (auto simp: advance_def)

lemma advance_later: "clock_pos s \<le> k \<Longrightarrow> advance s (s\<lparr>clock_pos := k\<rparr>)"
  using advance_counters [of s "uuid_pos s" k] by simp

lemma drawn_at: "uuid_pos s \<le> n \<Longrightarrow> n < uuid_pos t \<Longrightarrow> drawn s t (uuid_src s n)"
  by (auto simp: drawn_def)

lemma observed_at: "clock_pos s \<le> k \<Longrightarrow> k < clock_pos t \<Longrightarrow> observed s t (clock_src s k)"
  by (auto simp: observed_def)

end
