(* ===== verification/Domain.thy ===== *)
theory Domain
  imports PyData
begin

text \<open>
  The data model: \<^verbatim>\<open>src/src/ghostmesh/domain/models.py\<close> and \<^verbatim>\<open>domain/authority.py\<close>. A pydantic
  class is a \<^theory_text>\<open>record\<close> whose fields carry the class name as prefix, an enumeration is a
  \<^theory_text>\<open>datatype\<close>, a \<^verbatim>\<open>model_validator\<close> is a function that returns the object or raises.
  A field with a \<^verbatim>\<open>default_factory\<close> that draws an identifier or reads the clock makes the
  constructor a command; factories run in field order after the arguments are evaluated.
\<close>

section \<open>Authority: enumerations\<close>

datatype participant_type = HUMAN | AGENT | SCRIPT | SERVICE | SYSTEM_SERVICE | VENDOR
  | ORGANIZATION_PARTICIPANT | EXTERNAL_INTEGRATION | SUBWORKFLOW_PARTICIPANT

datatype participant_status = ACTIVE | SUSPENDED | ARCHIVED_PARTICIPANT

fun participant_status_value :: "participant_status \<Rightarrow> string" where
  "participant_status_value ACTIVE = ''active''"
| "participant_status_value SUSPENDED = ''suspended''"
| "participant_status_value ARCHIVED_PARTICIPANT = ''archived''"

datatype role_name = WORKFLOW_OWNER | WORKFLOW_DESIGNER | WORKER_ROLE | VALIDATOR_ROLE
  | ROUTING_VALIDATOR | SOURCE_OPERATOR | SINK_OPERATOR | REVIEWER_APPROVER | SHADOW_PARTICIPANT
  | LEARNING_OPTIMIZER | OBSERVER | ADMIN | INTENT_OPERATOR | WORKFLOW_ARCHITECT

fun role_name_value :: "role_name \<Rightarrow> string" where
  "role_name_value WORKFLOW_OWNER = ''workflow_owner''"
| "role_name_value WORKFLOW_DESIGNER = ''workflow_designer''"
| "role_name_value WORKER_ROLE = ''worker''"
| "role_name_value VALIDATOR_ROLE = ''validator''"
| "role_name_value ROUTING_VALIDATOR = ''routing_validator''"
| "role_name_value SOURCE_OPERATOR = ''source_operator''"
| "role_name_value SINK_OPERATOR = ''sink_operator''"
| "role_name_value REVIEWER_APPROVER = ''reviewer_approver''"
| "role_name_value SHADOW_PARTICIPANT = ''shadow_participant''"
| "role_name_value LEARNING_OPTIMIZER = ''learning_optimizer''"
| "role_name_value OBSERVER = ''observer''"
| "role_name_value ADMIN = ''admin''"
| "role_name_value INTENT_OPERATOR = ''intent_operator''"
| "role_name_value WORKFLOW_ARCHITECT = ''workflow_architect''"

datatype permission_name = PATCH_PANEL_CREATE | PATCH_PANEL_EDIT_DRAFT
  | PATCH_PANEL_PUBLISH_VERSION | PATCH_PANEL_ARCHIVE | PATCH_PANEL_DISCOVER | BUCKET_CREATE
  | NODE_CREATE | EDGE_CREATE | PIPE_BINDING_CREATE | CARD_CREATE | CARD_CLAIM
  | CARD_SUBMIT_ARTIFACT | CARD_RELEASE | CARD_VIEW | VALIDATION_SUBMIT | MUTATION_PROPOSE
  | MUTATION_VALIDATE | MUTATION_PROMOTE | SHADOW_CREATE | SHADOW_COMPLETE | SINK_EXECUTE
  | BOUNDARY_SOURCE_INGRESS | BOUNDARY_SINK_EGRESS | PARTICIPANT_MANAGE | PERMISSION_GRANT
  | AUDIT_VIEW

text \<open>\<^verbatim>\<open>tuple(PermissionName)\<close>: every permission in declaration order.\<close>

definition all_permissions :: "permission_name list" where
  "all_permissions =
     [PATCH_PANEL_CREATE, PATCH_PANEL_EDIT_DRAFT, PATCH_PANEL_PUBLISH_VERSION, PATCH_PANEL_ARCHIVE,
      PATCH_PANEL_DISCOVER, BUCKET_CREATE, NODE_CREATE, EDGE_CREATE, PIPE_BINDING_CREATE,
      CARD_CREATE, CARD_CLAIM, CARD_SUBMIT_ARTIFACT, CARD_RELEASE, CARD_VIEW, VALIDATION_SUBMIT,
      MUTATION_PROPOSE, MUTATION_VALIDATE, MUTATION_PROMOTE, SHADOW_CREATE, SHADOW_COMPLETE,
      SINK_EXECUTE, BOUNDARY_SOURCE_INGRESS, BOUNDARY_SINK_EGRESS, PARTICIPANT_MANAGE,
      PERMISSION_GRANT, AUDIT_VIEW]"

datatype scope_type = GLOBAL | DEVELOPMENT_GLOBAL | ORGANIZATION | WORKFLOW | PATCH_PANEL
  | BUCKET | NODE | CARD | ARTIFACT | VERSION

fun scope_type_value :: "scope_type \<Rightarrow> string" where
  "scope_type_value GLOBAL = ''global''"
| "scope_type_value DEVELOPMENT_GLOBAL = ''development_global''"
| "scope_type_value ORGANIZATION = ''organization''"
| "scope_type_value WORKFLOW = ''workflow''"
| "scope_type_value PATCH_PANEL = ''patch_panel''"
| "scope_type_value BUCKET = ''bucket''"
| "scope_type_value NODE = ''node''"
| "scope_type_value CARD = ''card''"
| "scope_type_value ARTIFACT = ''artifact''"
| "scope_type_value VERSION = ''version''"

datatype audit_action = AUTHORIZATION_ALLOWED | AUTHORIZATION_DENIED | GENESIS_INTENT_RECEIVED
  | GENESIS_REGISTRY_SEARCHED | GENESIS_CANDIDATE_SELECTED | GENESIS_CARD_CREATED
  | GENESIS_PROPOSAL_SUBMITTED | GENESIS_DESIGN_REQUIRED | PARTICIPANT_CREATED
  | PARTICIPANT_UPDATED | PARTICIPANT_SUSPENDED | PARTICIPANT_ARCHIVED | ROLE_ASSIGNED
  | ROLE_REVOKED | PERMISSION_GRANTED | PERMISSION_REVOKED

section \<open>Authority: classes\<close>

record scope =
  scope_type :: scope_type
  scope_id :: "string option"

definition global_scope :: scope where
  "global_scope = \<lparr>scope_type = GLOBAL, scope_id = None\<rparr>"

definition development_global :: scope where
  "development_global = \<lparr>scope_type = DEVELOPMENT_GLOBAL, scope_id = None\<rparr>"

definition validate_scope_id :: "scope \<Rightarrow> scope res" where
  "validate_scope_id s =
     (if scope_type s \<in> {GLOBAL, DEVELOPMENT_GLOBAL} then
        (if scope_id s \<noteq> None
         then Inl (ValueError (scope_type_value (scope_type s) @ '' scope must not include an id''))
         else Inr s)
      else if \<not> truthy (scope_id s)
      then Inl (ValueError (scope_type_value (scope_type s) @ '' scope requires an id''))
      else Inr s)"

record participant =
  participant_id :: string
  participant_type :: participant_type
  participant_display_name :: "string option"
  participant_status :: participant_status
  participant_trust_level :: "string option"
  participant_auth_method :: "string option"
  participant_metadata :: jdict
  participant_created_at :: datetime
  participant_archived_at :: "datetime option"

definition legacy_actor_to_participant_id :: "string \<Rightarrow> string res" where
  "legacy_actor_to_participant_id actor_id =
     (let normalized = strip actor_id
      in if normalized = [] then Inl (ValueError ''actor_id must not be empty'')
         else Inr (''legacy:'' @ normalized))"

definition from_legacy_actor ::
  "string \<Rightarrow> participant_type \<Rightarrow> ('z world_scheme, participant) M" where
  "from_legacy_actor actor_id ptype =
     bindM (liftM (legacy_actor_to_participant_id actor_id)) (\<lambda>pid.
     bindM now_utc (\<lambda>t.
     returnM \<lparr>participant_id = pid, participant_type = ptype,
       participant_display_name = Some actor_id, participant_status = ACTIVE,
       participant_trust_level = None, participant_auth_method = Some ''legacy_actor_string'',
       participant_metadata = [(''legacy_actor_id'', JStr actor_id)],
       participant_created_at = t, participant_archived_at = None\<rparr>))"

record role =
  role_id :: string
  role_name :: role_name
  role_description :: "string option"
  role_permissions :: "permission_name list"
  role_metadata :: jdict
  role_created_at :: datetime

record role_assignment =
  assignment_id :: uuid
  assignment_participant_id :: string
  assignment_role_id :: string
  assignment_scope :: scope
  assignment_assigned_by :: "string option"
  assignment_expires_at :: "datetime option"
  assignment_created_at :: datetime
  assignment_revoked_at :: "datetime option"
  assignment_metadata :: jdict

definition assignment_is_active :: "role_assignment \<Rightarrow> datetime \<Rightarrow> bool" where
  "assignment_is_active a checked_at \<longleftrightarrow>
     assignment_revoked_at a = None \<and>
     (case assignment_expires_at a of None \<Rightarrow> True | Some e \<Rightarrow> e > checked_at)"

record permission_grant =
  grant_id :: uuid
  grant_permission :: permission_name
  grant_scope :: scope
  grant_participant_id :: "string option"
  grant_role_id :: "string option"
  grant_granted_by :: "string option"
  grant_expires_at :: "datetime option"
  grant_created_at :: datetime
  grant_revoked_at :: "datetime option"
  grant_metadata :: jdict

definition validate_grant_target :: "permission_grant \<Rightarrow> permission_grant res" where
  "validate_grant_target g =
     (let targets = [grant_participant_id g \<noteq> None, grant_role_id g \<noteq> None]
      in if count_list targets True \<noteq> 1
         then Inl (ValueError ''permission grant must target exactly one participant_id or role_id'')
         else Inr g)"

definition grant_is_active :: "permission_grant \<Rightarrow> datetime \<Rightarrow> bool" where
  "grant_is_active g checked_at \<longleftrightarrow>
     grant_revoked_at g = None \<and>
     (case grant_expires_at g of None \<Rightarrow> True | Some e \<Rightarrow> e > checked_at)"

record authorization_decision =
  decision_id :: uuid
  decision_participant_id :: string
  decision_permission :: permission_name
  decision_scope :: scope
  decision_allowed :: bool
  decision_reason :: string
  decision_evaluated_at :: datetime
  decision_matched_grant_ids :: "uuid list"
  decision_metadata :: jdict

definition decision_audit_action :: "authorization_decision \<Rightarrow> audit_action" where
  "decision_audit_action d =
     (if decision_allowed d then AUTHORIZATION_ALLOWED else AUTHORIZATION_DENIED)"

record authorization_audit_event =
  audit_id :: uuid
  audit_action :: audit_action
  audit_participant_id :: "string option"
  audit_permission :: "permission_name option"
  audit_scope :: "scope option"
  audit_allowed :: "bool option"
  audit_reason :: "string option"
  audit_request_ref :: "string option"
  audit_target_ref :: "string option"
  audit_metadata :: jdict
  audit_created_at :: datetime

definition from_decision ::
  "authorization_decision \<Rightarrow> string option \<Rightarrow> string option \<Rightarrow>
     ('z world_scheme, authorization_audit_event) M" where
  "from_decision d request_ref target_ref =
     bindM uuid4 (\<lambda>i. bindM now_utc (\<lambda>t.
     returnM \<lparr>audit_id = i, audit_action = decision_audit_action d,
       audit_participant_id = Some (decision_participant_id d),
       audit_permission = Some (decision_permission d), audit_scope = Some (decision_scope d),
       audit_allowed = Some (decision_allowed d), audit_reason = Some (decision_reason d),
       audit_request_ref = request_ref, audit_target_ref = target_ref,
       audit_metadata = decision_metadata d, audit_created_at = t\<rparr>))"

section \<open>Topology: enumerations and classes\<close>

datatype node_type = SOURCE | WORKER | VALIDATOR | LEARNING | SINK | SUBWORKFLOW

fun node_type_value :: "node_type \<Rightarrow> string" where
  "node_type_value SOURCE = ''source''"
| "node_type_value WORKER = ''worker''"
| "node_type_value VALIDATOR = ''validator''"
| "node_type_value LEARNING = ''learning''"
| "node_type_value SINK = ''sink''"
| "node_type_value SUBWORKFLOW = ''subworkflow''"

datatype mutation_status = PROPOSED | SHADOWING | VALIDATED | REJECTED | PROMOTED

datatype registry_status = DRAFT | REVIEW | APPROVED | PUBLISHED | ARCHIVED | SUPERSEDED

datatype genesis_status = RECEIVED | LAUNCHED | DESIGN_REQUIRED | INTENT_PROPOSED

text \<open>The pattern \<^verbatim>\<open>^(input|output)$\<close> of a pipe direction.\<close>

datatype direction = Input | Output

fun direction_value :: "direction \<Rightarrow> string" where
  "direction_value Input = ''input''"
| "direction_value Output = ''output''"

record acceptance_contract =
  contract_id :: string
  contract_description :: string
  contract_schema_ref :: "string option"
  contract_rules :: "jdict list"

record bucket_definition =
  bucket_id :: string
  bucket_description :: "string option"
  bucket_input_requirements :: "string list"
  bucket_output_requirements :: "string list"
  bucket_acceptance_contract :: "string option"
  bucket_shadow_eligible :: bool

record node_definition =
  node_id :: string
  node_type :: node_type
  node_validator_kind :: "string option"
  node_description :: "string option"
  node_input_pipes :: "string list"
  node_output_pipes :: "string list"
  node_acceptance_contract :: "string option"
  node_config :: jdict

record edge_definition =
  edge_from_node :: string
  edge_to_node :: string
  edge_on :: string
  edge_condition :: "jdict option"

record pipe_binding =
  binding_bucket :: string
  binding_node :: "string option"
  binding_direction :: "direction option"

record patch_panel =
  panel_id :: string
  panel_version :: string
  panel_description :: "string option"
  panel_buckets :: "bucket_definition list"
  panel_nodes :: "node_definition list"
  panel_edges :: "edge_definition list"
  panel_pipe_bindings :: "(string, pipe_binding) dict"
  panel_acceptance_contracts :: "acceptance_contract list"
  panel_metadata :: jdict

text \<open>\<^verbatim>\<open>f"{patch_panel.id}:{patch_panel.version}"\<close>.\<close>

definition workflow_version_id :: "patch_panel \<Rightarrow> string" where
  "workflow_version_id p = panel_id p @ [CHR '':''] @ panel_version p"

fun collect_duplicates :: "string list \<Rightarrow> string list \<Rightarrow> string list" where
  "collect_duplicates seen [] = []"
| "collect_duplicates seen (v # vs) =
     (if v \<in> set seen then v # collect_duplicates (v # seen) vs
      else collect_duplicates (v # seen) vs)"

definition ensure_unique :: "string \<Rightarrow> string list \<Rightarrow> unit res" where
  "ensure_unique label values =
     (let duplicates = collect_duplicates [] values
      in if duplicates \<noteq> []
         then Inl (ValueError (''duplicate '' @ label @ '' id(s): '' @ join_sorted duplicates))
         else Inr ())"

definition validate_unique_local_ids :: "patch_panel \<Rightarrow> patch_panel res" where
  "validate_unique_local_ids p =
     (case ensure_unique ''bucket'' (map bucket_id (panel_buckets p)) of Inl e \<Rightarrow> Inl e | Inr _ \<Rightarrow>
      (case ensure_unique ''node'' (map node_id (panel_nodes p)) of Inl e \<Rightarrow> Inl e | Inr _ \<Rightarrow>
       (case ensure_unique ''acceptance contract''
               (map contract_id (panel_acceptance_contracts p)) of Inl e \<Rightarrow> Inl e | Inr _ \<Rightarrow>
        Inr p)))"

section \<open>Runtime objects\<close>

record artifact_reference =
  artifact_id :: uuid
  artifact_card_id :: uuid
  artifact_event_id :: "uuid option"
  artifact_storage_ref :: string
  artifact_content_hash :: string
  artifact_content_type :: string
  artifact_size_bytes :: int
  artifact_metadata :: jdict
  artifact_created_at :: datetime

record lease =
  lease_id :: uuid
  lease_card_id :: uuid
  lease_node_id :: string
  lease_worker_id :: string
  lease_input_pipe :: string
  lease_claimed_at :: datetime
  lease_expires_at :: datetime
  lease_released_at :: "datetime option"

record card_event =
  event_id :: uuid
  event_card_id :: uuid
  event_type :: string
  event_actor_id :: "string option"
  event_payload :: jdict
  event_occurred_at :: datetime

record card =
  card_id :: uuid
  card_workflow_version :: string
  card_current_bucket :: string
  card_payload :: jdict
  card_metadata :: jdict
  card_created_at :: datetime

record shadow_card_link =
  link_id :: uuid
  link_production_card_id :: uuid
  link_shadow_card_id :: uuid
  link_candidate_id :: string
  link_status :: string
  link_metrics :: jdict
  link_created_at :: datetime

record proposed_mutation =
  mutation_id :: uuid
  mutation_type :: string
  mutation_proposed_by :: string
  mutation_payload :: jdict
  mutation_status :: mutation_status
  mutation_created_at :: datetime
  mutation_validated_at :: "datetime option"
  mutation_promoted_at :: "datetime option"

text \<open>The constructors with their default factories: the identifier first, the time stamp last.\<close>

definition new_card_event ::
  "uuid \<Rightarrow> string \<Rightarrow> string option \<Rightarrow> jdict \<Rightarrow> ('z world_scheme, card_event) M" where
  "new_card_event cid etype actor payload =
     bindM uuid4 (\<lambda>i. bindM now_utc (\<lambda>t.
     returnM \<lparr>event_id = i, event_card_id = cid, event_type = etype, event_actor_id = actor,
       event_payload = payload, event_occurred_at = t\<rparr>))"

definition new_card :: "string \<Rightarrow> string \<Rightarrow> jdict \<Rightarrow> jdict \<Rightarrow> ('z world_scheme, card) M" where
  "new_card wv bucket payload metadata =
     bindM uuid4 (\<lambda>i. bindM now_utc (\<lambda>t.
     returnM \<lparr>card_id = i, card_workflow_version = wv, card_current_bucket = bucket,
       card_payload = payload, card_metadata = metadata, card_created_at = t\<rparr>))"

definition new_shadow_card_link ::
  "uuid \<Rightarrow> uuid \<Rightarrow> string \<Rightarrow> ('z world_scheme, shadow_card_link) M" where
  "new_shadow_card_link production shadow candidate =
     bindM uuid4 (\<lambda>i. bindM now_utc (\<lambda>t.
     returnM \<lparr>link_id = i, link_production_card_id = production, link_shadow_card_id = shadow,
       link_candidate_id = candidate, link_status = ''active'', link_metrics = [],
       link_created_at = t\<rparr>))"

definition new_proposed_mutation ::
  "string \<Rightarrow> string \<Rightarrow> jdict \<Rightarrow> mutation_status \<Rightarrow> ('z world_scheme, proposed_mutation) M" where
  "new_proposed_mutation mtype proposed_by payload status =
     bindM uuid4 (\<lambda>i. bindM now_utc (\<lambda>t.
     returnM \<lparr>mutation_id = i, mutation_type = mtype, mutation_proposed_by = proposed_by,
       mutation_payload = payload, mutation_status = status, mutation_created_at = t,
       mutation_validated_at = None, mutation_promoted_at = None\<rparr>))"

section \<open>Registry entries and genesis intents\<close>

record registry_metadata =
  meta_name :: string
  meta_description :: "string option"
  meta_tags :: "string list"
  meta_input_types :: "string list"
  meta_output_types :: "string list"
  meta_required_tools :: "string list"
  meta_required_permissions :: "permission_name list"
  meta_risk_level :: "string option"
  meta_estimated_cost :: "string option"
  meta_estimated_latency :: "string option"
  meta_owner_participant_id :: "string option"
  meta_status :: registry_status

record registry_entry =
  entry_id :: uuid
  entry_patch_panel_id :: string
  entry_version :: string
  entry_name :: string
  entry_description :: "string option"
  entry_tags :: "string list"
  entry_input_types :: "string list"
  entry_output_types :: "string list"
  entry_required_tools :: "string list"
  entry_required_permissions :: "permission_name list"
  entry_risk_level :: "string option"
  entry_estimated_cost :: "string option"
  entry_estimated_latency :: "string option"
  entry_owner_participant_id :: "string option"
  entry_status :: registry_status
  entry_supersedes_entry_id :: "uuid option"
  entry_metadata :: jdict
  entry_created_at :: datetime
  entry_updated_at :: datetime
  entry_archived_at :: "datetime option"

definition from_patch_panel ::
  "patch_panel \<Rightarrow> registry_metadata \<Rightarrow> uuid option \<Rightarrow> jdict option \<Rightarrow>
     ('z world_scheme, registry_entry) M" where
  "from_patch_panel p m supersedes metadata =
     bindM uuid4 (\<lambda>i. bindM now_utc (\<lambda>t1. bindM now_utc (\<lambda>t2.
     returnM \<lparr>entry_id = i, entry_patch_panel_id = panel_id p, entry_version = panel_version p,
       entry_name = meta_name m, entry_description = meta_description m, entry_tags = meta_tags m,
       entry_input_types = meta_input_types m, entry_output_types = meta_output_types m,
       entry_required_tools = meta_required_tools m,
       entry_required_permissions = meta_required_permissions m,
       entry_risk_level = meta_risk_level m, entry_estimated_cost = meta_estimated_cost m,
       entry_estimated_latency = meta_estimated_latency m,
       entry_owner_participant_id = meta_owner_participant_id m, entry_status = meta_status m,
       entry_supersedes_entry_id = supersedes,
       entry_metadata = (case metadata of None \<Rightarrow> [] | Some d \<Rightarrow> d),
       entry_created_at = t1, entry_updated_at = t2, entry_archived_at = None\<rparr>)))"

record intent_constraints =
  constraint_risk_level :: "string option"
  constraint_max_latency :: "string option"
  constraint_requires_human_approval :: bool
  constraint_metadata :: jdict

record genesis_intent =
  intent_id :: uuid
  intent_requested_by :: string
  intent_deduplication_key :: string
  intent_goal :: string
  intent_input_type :: string
  intent_desired_outputs :: "string list"
  intent_tags :: "string list"
  intent_constraints :: intent_constraints
  intent_launch_if_existing :: bool
  intent_propose_if_missing :: bool
  intent_status :: genesis_status
  intent_candidate_registry_entry_ids :: "uuid list"
  intent_selected_registry_entry_id :: "uuid option"
  intent_launched_card_id :: "uuid option"
  intent_proposal_card_id :: "uuid option"
  intent_created_at :: datetime
  intent_updated_at :: datetime
  intent_metadata :: jdict

section \<open>Facts about the data model\<close>

lemma collect_duplicates_empty:
  "collect_duplicates seen vs = [] \<longleftrightarrow> distinct vs \<and> set vs \<inter> set seen = {}"
  by (induction vs arbitrary: seen) auto

lemma ensure_unique_ok: "ensure_unique label vs = Inr () \<longleftrightarrow> distinct vs"
  by (simp add: ensure_unique_def collect_duplicates_empty)

text \<open>Reading the panel id back from a workflow version.\<close>

lemma rsplit_workflow_version:
  "CHR '':'' \<notin> set (panel_version p) \<Longrightarrow> rsplit_colon (workflow_version_id p) = panel_id p"
  unfolding workflow_version_id_def by (rule rsplit_colon_append)

lemma split_workflow_version:
  "CHR '':'' \<notin> set (panel_id p) \<Longrightarrow> split_colon (workflow_version_id p) = panel_id p"
  unfolding workflow_version_id_def by (rule split_colon_append)

lemma all_permissions_complete: "p \<in> set all_permissions"
  by (cases p) (simp_all add: all_permissions_def)

end
