(* ===== verification/Artifacts.thy ===== *)
theory Artifacts
  imports Domain
begin

text \<open>
  Acceptance of artifact references: \<^verbatim>\<open>src/src/ghostmesh/artifacts/validation.py\<close>. A contract is a
  list of rules of type Any; a rule of an unknown type is skipped. The lemmas characterise the
  references a contract accepts.
\<close>

section \<open>The checks\<close>

text \<open>Iterating over a value of type Any.\<close>

fun py_iter :: "json \<Rightarrow> json list res" where
  "py_iter (JList xs) = Inr xs"
| "py_iter (JDict d) = Inr (map (JStr \<circ> fst) d)"
| "py_iter (JStr s) = Inr (map (\<lambda>c. JStr [c]) s)"
| "py_iter JNull = Inl (TypeError ''NoneType object is not iterable'')"
| "py_iter (JBool _) = Inl (TypeError ''bool object is not iterable'')"
| "py_iter (JInt _) = Inl (TypeError ''int object is not iterable'')"
| "py_iter (JFloat _) = Inl (TypeError ''float object is not iterable'')"

definition validate_structure_ref :: "artifact_reference \<Rightarrow> unit res" where
  "validate_structure_ref r =
     (if artifact_storage_ref r = []
      then Inl (InvalidOperationError ''artifact reference is missing storage_ref'')
      else if \<not> prefix ''sha256:'' (artifact_content_hash r)
      then Inl (InvalidOperationError
             (''artifact '' @ quoted (uuid_str (artifact_id r)) @ '' content_hash must use sha256''))
      else if artifact_size_bytes r < 0
      then Inl (InvalidOperationError
             (''artifact '' @ quoted (uuid_str (artifact_id r)) @ '' has invalid size''))
      else Inr ())"

definition validate_structure :: "artifact_reference list \<Rightarrow> unit res" where
  "validate_structure refs = check_all validate_structure_ref refs"

text \<open>\<^verbatim>\<open>str(ref.metadata.get("role"))\<close>: a reference without a role presents the role \<^verbatim>\<open>None\<close>.\<close>

definition role_of :: "artifact_reference \<Rightarrow> string" where
  "role_of r = py_str (case dict_get (artifact_metadata r) ''role'' of None \<Rightarrow> JNull | Some v \<Rightarrow> v)"

definition validate_required_artifacts :: "artifact_reference list \<Rightarrow> jdict \<Rightarrow> unit res" where
  "validate_required_artifacts refs rule =
     (case py_int (case dict_get rule ''min_count'' of None \<Rightarrow> JInt 1 | Some v \<Rightarrow> v) of
        Inl e \<Rightarrow> Inl e
      | Inr min_count \<Rightarrow>
          if int (length refs) < min_count
          then Inl (InvalidOperationError (''acceptance contract requires at least ''
                 @ int_text min_count @ '' artifact reference(s)''))
          else (case py_iter (case dict_get rule ''roles'' of None \<Rightarrow> JList [] | Some v \<Rightarrow> v) of
              Inl e \<Rightarrow> Inl e
            | Inr roles \<Rightarrow>
                let required_roles = map py_str roles;
                    present_roles = map role_of refs;
                    missing = filter (\<lambda>r. r \<notin> set present_roles) required_roles
                in if required_roles = [] then Inr ()
                   else if missing \<noteq> []
                   then Inl (InvalidOperationError
                          (''missing required artifact role(s): '' @ join_sorted missing))
                   else Inr ()))"

definition validate_rule :: "artifact_reference list \<Rightarrow> jdict \<Rightarrow> unit res" where
  "validate_rule refs rule =
     (let rule_type = dict_get rule ''type''
      in if rule_type = Some (JStr ''artifact_reference_structure'') then validate_structure refs
         else if rule_type = Some (JStr ''required_artifacts'')
         then validate_required_artifacts refs rule
         else Inr ())"

definition validate_artifact_references ::
  "artifact_reference list \<Rightarrow> acceptance_contract option \<Rightarrow> unit res" where
  "validate_artifact_references refs contract =
     (case contract of None \<Rightarrow> Inr () | Some c \<Rightarrow> check_all (validate_rule refs) (contract_rules c))"

section \<open>What a contract accepts\<close>

definition well_structured :: "artifact_reference \<Rightarrow> bool" where
  "well_structured r \<longleftrightarrow> artifact_storage_ref r \<noteq> [] \<and>
     prefix ''sha256:'' (artifact_content_hash r) \<and> 0 \<le> artifact_size_bytes r"

lemma validate_structure_ok: "validate_structure refs = Inr () \<longleftrightarrow> (\<forall>r \<in> set refs. well_structured r)"
  by (auto simp: validate_structure_def check_all_ok validate_structure_ref_def well_structured_def
      not_less)

lemma unit_res_cases: "(r :: unit res) = Inr () \<or> (\<exists>e. r = Inl e)"
  by (cases r) auto

text \<open>A rule whose count and roles are readable accepts exactly the references that meet both.\<close>

lemma validate_required_artifacts_ok:
  assumes "py_int (case dict_get rule ''min_count'' of None \<Rightarrow> JInt 1 | Some v \<Rightarrow> v) = Inr n"
    and "py_iter (case dict_get rule ''roles'' of None \<Rightarrow> JList [] | Some v \<Rightarrow> v) = Inr roles"
  shows "validate_required_artifacts refs rule = Inr () \<longleftrightarrow>
     n \<le> int (length refs) \<and> py_str ` set roles \<subseteq> role_of ` set refs"
  using assms by (auto simp: validate_required_artifacts_def Let_def filter_empty_conv)

text \<open>An unreadable count or role list makes the contract raise, never accept.\<close>

lemma validate_required_artifacts_readable:
  assumes "validate_required_artifacts refs rule = Inr ()"
  shows "\<exists>n roles. py_int (case dict_get rule ''min_count'' of None \<Rightarrow> JInt 1 | Some v \<Rightarrow> v) = Inr n
     \<and> py_iter (case dict_get rule ''roles'' of None \<Rightarrow> JList [] | Some v \<Rightarrow> v) = Inr roles"
  using assms by (auto simp: validate_required_artifacts_def split: sum.splits if_splits)

definition rule_met :: "artifact_reference list \<Rightarrow> jdict \<Rightarrow> bool" where
  "rule_met refs rule \<longleftrightarrow>
     (dict_get rule ''type'' = Some (JStr ''artifact_reference_structure'') \<longrightarrow>
        (\<forall>r \<in> set refs. well_structured r)) \<and>
     (dict_get rule ''type'' = Some (JStr ''required_artifacts'') \<longrightarrow>
        (\<exists>n roles.
           py_int (case dict_get rule ''min_count'' of None \<Rightarrow> JInt 1 | Some v \<Rightarrow> v) = Inr n \<and>
           py_iter (case dict_get rule ''roles'' of None \<Rightarrow> JList [] | Some v \<Rightarrow> v) = Inr roles \<and>
           n \<le> int (length refs) \<and> py_str ` set roles \<subseteq> role_of ` set refs))"

lemma validate_rule_ok: "validate_rule refs rule = Inr () \<longleftrightarrow> rule_met refs rule"
proof (cases "dict_get rule ''type'' = Some (JStr ''required_artifacts'')")
  case True
  show ?thesis
  proof
    assume ok: "validate_rule refs rule = Inr ()"
    with True have req: "validate_required_artifacts refs rule = Inr ()"
      by (simp add: validate_rule_def)
    from validate_required_artifacts_readable [OF req] obtain n roles where
      "py_int (case dict_get rule ''min_count'' of None \<Rightarrow> JInt 1 | Some v \<Rightarrow> v) = Inr n"
      "py_iter (case dict_get rule ''roles'' of None \<Rightarrow> JList [] | Some v \<Rightarrow> v) = Inr roles"
      by blast
    with req True show "rule_met refs rule"
      by (auto simp: rule_met_def validate_required_artifacts_ok)
  next
    assume "rule_met refs rule"
    with True show "validate_rule refs rule = Inr ()"
      by (auto simp: rule_met_def validate_rule_def validate_required_artifacts_ok)
  qed
next
  case False
  then show ?thesis by (auto simp: validate_rule_def rule_met_def validate_structure_ok Let_def)
qed

lemma validate_artifact_references_ok:
  "validate_artifact_references refs (Some c) = Inr () \<longleftrightarrow>
     (\<forall>rule \<in> set (contract_rules c). rule_met refs rule)"
  by (simp add: validate_artifact_references_def check_all_ok validate_rule_ok)

end
