(* ===== verification/Topology.thy ===== *)
theory Topology
  imports Domain "HOL-Library.While_Combinator"
begin

text \<open>
  Patch Panel validation: \<^verbatim>\<open>src/src/ghostmesh/patchpanel/validator.py\<close>. The graph library
  \<^verbatim>\<open>networkx\<close> is a parameter (the record \<open>networkx\<close> of the operations the validator calls); the
  locale \<open>networkx_graph\<close> states their documented behaviour, and the validator's correctness is
  proved inside it: a panel passes exactly when it is \<open>well_formed_panel\<close>. \<open>list_networkx\<close> is an
  executable graph library that satisfies the locale.

  Every \<^verbatim>\<open>_validate_*\<close> method appends to a list of messages; here it returns the messages it
  appends.
\<close>

section \<open>The graph library\<close>

record 'g networkx =
  nx_DiGraph :: 'g
  nx_add_node :: "'g \<Rightarrow> string \<Rightarrow> node_type \<Rightarrow> 'g"
  nx_add_edge :: "'g \<Rightarrow> string \<Rightarrow> string \<Rightarrow> string \<Rightarrow> jdict option \<Rightarrow> 'g"
  nx_number_of_nodes :: "'g \<Rightarrow> nat"
  nx_number_of_edges :: "'g \<Rightarrow> nat"
  nx_in_degree :: "'g \<Rightarrow> string \<Rightarrow> nat"
  nx_out_degree :: "'g \<Rightarrow> string \<Rightarrow> nat"
  nx_descendants :: "'g \<Rightarrow> string \<Rightarrow> string set"
  nx_simple_cycles :: "'g \<Rightarrow> string list list"

section \<open>The validator\<close>

record graph_validation_report =
  report_node_count :: nat
  report_edge_count :: nat
  report_cycles :: "string list list"

definition build_graph :: "'g networkx \<Rightarrow> patch_panel \<Rightarrow> 'g" where
  "build_graph nx p =
     fold (\<lambda>e g. nx_add_edge nx g (edge_from_node e) (edge_to_node e) (edge_on e) (edge_condition e))
       (panel_edges p)
       (fold (\<lambda>n g. nx_add_node nx g (node_id n) (node_type n)) (panel_nodes p) (nx_DiGraph nx))"

definition validate_contract_references :: "patch_panel \<Rightarrow> string list \<Rightarrow> string list" where
  "validate_contract_references p contract_ids =
     concat (map (\<lambda>b. case bucket_acceptance_contract b of
         Some c \<Rightarrow> if c \<noteq> [] \<and> c \<notin> set contract_ids
           then [''bucket '' @ quoted (bucket_id b) @ '' references unknown acceptance contract '' @ quoted c]
           else []
       | None \<Rightarrow> []) (panel_buckets p)) @
     concat (map (\<lambda>n. case node_acceptance_contract n of
         Some c \<Rightarrow> if c \<noteq> [] \<and> c \<notin> set contract_ids
           then [''node '' @ quoted (node_id n) @ '' references unknown acceptance contract '' @ quoted c]
           else []
       | None \<Rightarrow> []) (panel_nodes p))"

definition validate_edges :: "patch_panel \<Rightarrow> string list \<Rightarrow> string list" where
  "validate_edges p node_ids =
     concat (map (\<lambda>e.
       (if edge_from_node e \<notin> set node_ids
        then [''edge from '' @ quoted (edge_from_node e) @ '' references an unknown node''] else []) @
       (if edge_to_node e \<notin> set node_ids
        then [''edge to '' @ quoted (edge_to_node e) @ '' references an unknown node''] else []))
     (panel_edges p))"

text \<open>\<^verbatim>\<open>{node.id: set(node.output_pipes) for node in nodes if node.type == VALIDATOR}\<close>.\<close>

definition validator_outputs :: "patch_panel \<Rightarrow> (string, string list) dict" where
  "validator_outputs p =
     fold (\<lambda>n d. dict_set (node_id n) (node_output_pipes n) d)
       (filter (\<lambda>n. node_type n = VALIDATOR) (panel_nodes p)) []"

definition validate_validator_edges :: "patch_panel \<Rightarrow> string list" where
  "validate_validator_edges p =
     concat (map (\<lambda>e. case dict_get (validator_outputs p) (edge_from_node e) of
         None \<Rightarrow> []
       | Some output_pipes \<Rightarrow>
           if edge_on e \<notin> set output_pipes
           then [''validator edge from '' @ quoted (edge_from_node e) @ '' uses exit ''
                 @ quoted (edge_on e) @ '' that is not declared in output_pipes'']
           else []) (panel_edges p))"

definition is_routing_validator :: "node_definition \<Rightarrow> bool" where
  "is_routing_validator n \<longleftrightarrow>
     node_validator_kind n = Some ''routing'' \<or> length (node_output_pipes n) > 1"

text \<open>
  \<^verbatim>\<open>accept_exit not in output_pipes\<close> hashes the entry: a list or a dict is not hashable and
  raises, any other value that is not a string is not in the set.
\<close>

fun accept_exit_errors :: "node_definition \<Rightarrow> json list \<Rightarrow> string list res" where
  "accept_exit_errors n [] = Inr []"
| "accept_exit_errors n (x # xs) =
     (case x of
        JList _ \<Rightarrow> Inl (TypeError ''unhashable type: list'')
      | JDict _ \<Rightarrow> Inl (TypeError ''unhashable type: dict'')
      | _ \<Rightarrow> (case accept_exit_errors n xs of
            Inl e \<Rightarrow> Inl e
          | Inr es \<Rightarrow> Inr ((if \<exists>s \<in> set (node_output_pipes n). x = JStr s then []
              else [''routing validator '' @ quoted (node_id n) @ '' accept_exits entry ''
                    @ quoted (py_str x) @ '' is not declared in output_pipes'']) @ es)))"

fun validate_routing_nodes :: "node_definition list \<Rightarrow> string list res" where
  "validate_routing_nodes [] = Inr []"
| "validate_routing_nodes (n # ns) =
     (case (if node_type n \<noteq> VALIDATOR \<or> \<not> is_routing_validator n then Inr []
            else (case dict_get (node_config n) ''accept_exits'' of
                Some (JList xs) \<Rightarrow> accept_exit_errors n xs
              | _ \<Rightarrow> Inr [''routing validator '' @ quoted (node_id n)
                          @ '' must declare config.accept_exits as a list''])) of
        Inl e \<Rightarrow> Inl e
      | Inr es \<Rightarrow> (case validate_routing_nodes ns of Inl e \<Rightarrow> Inl e | Inr fs \<Rightarrow> Inr (es @ fs)))"

definition validate_routing_validator_accept_exits :: "patch_panel \<Rightarrow> string list res" where
  "validate_routing_validator_accept_exits p = validate_routing_nodes (panel_nodes p)"

text \<open>\<^verbatim>\<open>declared_pipes\<close>: a pipe declared twice keeps the last declaration.\<close>

definition declared_pipes :: "patch_panel \<Rightarrow> (string, string \<times> direction) dict" where
  "declared_pipes p =
     fold (\<lambda>n d.
       fold (\<lambda>pipe d. dict_set pipe (node_id n, Output) d) (node_output_pipes n)
         (fold (\<lambda>pipe d. dict_set pipe (node_id n, Input) d) (node_input_pipes n) d))
     (panel_nodes p) []"

definition validate_binding ::
  "(string, string \<times> direction) dict \<Rightarrow> string list \<Rightarrow> string list \<Rightarrow> string \<times> pipe_binding \<Rightarrow>
     string list" where
  "validate_binding declared node_ids bucket_ids pb =
     (let pipe = fst pb; binding = snd pb in
      case dict_get declared pipe of
        None \<Rightarrow> [''pipe binding '' @ quoted pipe @ '' is not declared by any node'']
      | Some (declared_node_id, declared_direction) \<Rightarrow>
          (case binding_node binding of None \<Rightarrow> [] | Some bn \<Rightarrow>
             (if bn \<noteq> [] \<and> bn \<notin> set node_ids
              then [''pipe binding '' @ quoted pipe @ '' references unknown node '' @ quoted bn]
              else []) @
             (if bn \<noteq> [] \<and> bn \<noteq> declared_node_id
              then [''pipe binding '' @ quoted pipe @ '' is assigned to node '' @ quoted bn
                    @ '' but is declared by node '' @ quoted declared_node_id]
              else [])) @
          (case binding_direction binding of None \<Rightarrow> [] | Some bd \<Rightarrow>
             if bd \<noteq> declared_direction
             then [''pipe binding '' @ quoted pipe @ '' declares direction ''
                   @ quoted (direction_value bd) @ '' but the node declares it as ''
                   @ quoted (direction_value declared_direction)]
             else []) @
          (if binding_bucket binding \<notin> set bucket_ids
           then [''pipe binding '' @ quoted pipe @ '' references unknown bucket ''
                 @ quoted (binding_bucket binding)]
           else []))"

definition validate_pipe_bindings ::
  "patch_panel \<Rightarrow> string list \<Rightarrow> string list \<Rightarrow> string list" where
  "validate_pipe_bindings p node_ids bucket_ids =
     (let declared = declared_pipes p in
      concat (map (validate_binding declared node_ids bucket_ids) (panel_pipe_bindings p)) @
      concat (map (\<lambda>pipe. if dict_get (panel_pipe_bindings p) pipe = None
          then [''declared pipe '' @ quoted pipe @ '' is missing a pipe binding''] else [])
        (dict_keys declared)))"

definition source_nodes :: "patch_panel \<Rightarrow> node_definition list" where
  "source_nodes p = filter (\<lambda>n. node_type n = SOURCE) (panel_nodes p)"

definition sink_nodes :: "patch_panel \<Rightarrow> node_definition list" where
  "sink_nodes p = filter (\<lambda>n. node_type n = SINK) (panel_nodes p)"

definition validate_boundaries :: "'g networkx \<Rightarrow> patch_panel \<Rightarrow> 'g \<Rightarrow> string list" where
  "validate_boundaries nx p graph =
     (if source_nodes p = [] then [''Patch Panel must declare at least one source node''] else []) @
     (if sink_nodes p = [] then [''Patch Panel must declare at least one sink node''] else []) @
     concat (map (\<lambda>n. if nx_in_degree nx graph (node_id n) > 0
       then [''source node '' @ quoted (node_id n) @ '' must not have incoming edges''] else [])
       (source_nodes p)) @
     concat (map (\<lambda>n. if nx_out_degree nx graph (node_id n) > 0
       then [''sink node '' @ quoted (node_id n) @ '' must not have outgoing edges''] else [])
       (sink_nodes p))"

definition validate_reachability :: "'g networkx \<Rightarrow> patch_panel \<Rightarrow> 'g \<Rightarrow> string list" where
  "validate_reachability nx p graph =
     (let source_ids = map node_id (source_nodes p)
      in if source_ids = [] then []
         else let reachable = set source_ids \<union> (\<Union>s \<in> set source_ids. nx_descendants nx graph s)
           in concat (map (\<lambda>n. if node_id n \<notin> reachable
                then [''node '' @ quoted (node_id n) @ '' is not reachable from any source node'']
                else []) (panel_nodes p)))"

definition validate_dead_ends :: "'g networkx \<Rightarrow> patch_panel \<Rightarrow> 'g \<Rightarrow> string list" where
  "validate_dead_ends nx p graph =
     (let sink_ids = map node_id (sink_nodes p)
      in concat (map (\<lambda>n. if node_id n \<notin> set sink_ids \<and> nx_out_degree nx graph (node_id n) = 0
           then [''node '' @ quoted (node_id n) @ '' is a dead end and is not a sink''] else [])
         (panel_nodes p)))"

definition validate :: "'g networkx \<Rightarrow> patch_panel \<Rightarrow> graph_validation_report res" where
  "validate nx p =
     (let node_ids = map node_id (panel_nodes p);
          bucket_ids = map bucket_id (panel_buckets p);
          contract_ids = map contract_id (panel_acceptance_contracts p);
          errors1 = validate_contract_references p contract_ids @ validate_edges p node_ids
                    @ validate_validator_edges p
      in case validate_routing_validator_accept_exits p of
           Inl e \<Rightarrow> Inl e
         | Inr errors2 \<Rightarrow>
             let errors3 = validate_pipe_bindings p node_ids bucket_ids;
                 graph = build_graph nx p;
                 errors = errors1 @ errors2 @ errors3 @ validate_boundaries nx p graph
                   @ validate_reachability nx p graph @ validate_dead_ends nx p graph
             in if errors \<noteq> [] then Inl (PatchPanelValidationError errors)
                else Inr \<lparr>report_node_count = nx_number_of_nodes nx graph,
                          report_edge_count = nx_number_of_edges nx graph,
                          report_cycles = nx_simple_cycles nx graph\<rparr>)"

section \<open>What a valid panel is\<close>

definition panel_edge_set :: "patch_panel \<Rightarrow> (string \<times> string) set" where
  "panel_edge_set p = (\<lambda>e. (edge_from_node e, edge_to_node e)) ` set (panel_edges p)"

definition panel_node_ids :: "patch_panel \<Rightarrow> string set" where
  "panel_node_ids p = node_id ` set (panel_nodes p)"

definition panel_bucket_ids :: "patch_panel \<Rightarrow> string set" where
  "panel_bucket_ids p = bucket_id ` set (panel_buckets p)"

definition contracts_resolved :: "patch_panel \<Rightarrow> bool" where
  "contracts_resolved p \<longleftrightarrow>
     (\<forall>c. Some c \<in> bucket_acceptance_contract ` set (panel_buckets p)
             \<union> node_acceptance_contract ` set (panel_nodes p) \<longrightarrow> c \<noteq> [] \<longrightarrow>
           c \<in> contract_id ` set (panel_acceptance_contracts p))"

definition edges_resolved :: "patch_panel \<Rightarrow> bool" where
  "edges_resolved p \<longleftrightarrow> panel_edge_set p \<subseteq> panel_node_ids p \<times> panel_node_ids p"

definition exits_declared :: "patch_panel \<Rightarrow> bool" where
  "exits_declared p \<longleftrightarrow>
     (\<forall>e \<in> set (panel_edges p). \<forall>pipes.
        dict_get (validator_outputs p) (edge_from_node e) = Some pipes \<longrightarrow> edge_on e \<in> set pipes) \<and>
     (\<forall>n \<in> set (panel_nodes p). node_type n = VALIDATOR \<and> is_routing_validator n \<longrightarrow>
        (\<exists>exits. dict_get (node_config n) ''accept_exits'' = Some (JList (map JStr exits)) \<and>
           set exits \<subseteq> set (node_output_pipes n)))"

definition binding_ok :: "patch_panel \<Rightarrow> string \<times> pipe_binding \<Rightarrow> bool" where
  "binding_ok p pb \<longleftrightarrow>
     (\<exists>n d. dict_get (declared_pipes p) (fst pb) = Some (n, d) \<and>
        (truthy (binding_node (snd pb)) \<longrightarrow> binding_node (snd pb) = Some n \<and> n \<in> panel_node_ids p) \<and>
        (binding_direction (snd pb) \<noteq> None \<longrightarrow> binding_direction (snd pb) = Some d)) \<and>
     binding_bucket (snd pb) \<in> panel_bucket_ids p"

definition pipes_bound :: "patch_panel \<Rightarrow> bool" where
  "pipes_bound p \<longleftrightarrow>
     (\<forall>pb \<in> set (panel_pipe_bindings p). binding_ok p pb) \<and>
     dom (dict_get (declared_pipes p)) \<subseteq> dom (dict_get (panel_pipe_bindings p))"

definition boundaries_ok :: "patch_panel \<Rightarrow> bool" where
  "boundaries_ok p \<longleftrightarrow> source_nodes p \<noteq> [] \<and> sink_nodes p \<noteq> [] \<and>
     (\<forall>n \<in> set (source_nodes p). node_id n \<notin> Range (panel_edge_set p)) \<and>
     (\<forall>n \<in> set (sink_nodes p). node_id n \<notin> Domain (panel_edge_set p))"

definition all_reachable :: "patch_panel \<Rightarrow> bool" where
  "all_reachable p \<longleftrightarrow>
     (\<forall>n \<in> panel_node_ids p. \<exists>s \<in> set (source_nodes p). (node_id s, n) \<in> (panel_edge_set p)\<^sup>*)"

definition no_dead_ends :: "patch_panel \<Rightarrow> bool" where
  "no_dead_ends p \<longleftrightarrow>
     (\<forall>n \<in> panel_node_ids p. n \<in> node_id ` set (sink_nodes p) \<or> n \<in> Domain (panel_edge_set p))"

definition well_formed_panel :: "patch_panel \<Rightarrow> bool" where
  "well_formed_panel p \<longleftrightarrow> contracts_resolved p \<and> edges_resolved p \<and> exits_declared p \<and>
     pipes_bound p \<and> boundaries_ok p \<and> all_reachable p \<and> no_dead_ends p"

section \<open>The documented behaviour of the graph library\<close>

text \<open>A cycle without repeated nodes, closed by an edge from its last node to its first.\<close>

definition simple_cycle :: "(string \<times> string) set \<Rightarrow> string list \<Rightarrow> bool" where
  "simple_cycle E c \<longleftrightarrow> c \<noteq> [] \<and> distinct c \<and>
     (\<forall>i. Suc i < length c \<longrightarrow> (c ! i, c ! Suc i) \<in> E) \<and> (last c, hd c) \<in> E"

locale networkx_graph =
  fixes nx :: "'g networkx"
    and gnodes :: "'g \<Rightarrow> string set"
    and gedges :: "'g \<Rightarrow> (string \<times> string) set"
  assumes gnodes_empty: "gnodes (nx_DiGraph nx) = {}"
    and gedges_empty: "gedges (nx_DiGraph nx) = {}"
    and gnodes_add_node: "gnodes (nx_add_node nx g n t) = insert n (gnodes g)"
    and gedges_add_node: "gedges (nx_add_node nx g n t) = gedges g"
    and gnodes_add_edge: "gnodes (nx_add_edge nx g u v l a) = insert u (insert v (gnodes g))"
    and gedges_add_edge: "gedges (nx_add_edge nx g u v l a) = insert (u, v) (gedges g)"
    and number_of_nodes: "nx_number_of_nodes nx g = card (gnodes g)"
    and number_of_edges: "nx_number_of_edges nx g = card (gedges g)"
    and in_degree: "n \<in> gnodes g \<Longrightarrow> nx_in_degree nx g n = card {u. (u, n) \<in> gedges g}"
    and out_degree: "n \<in> gnodes g \<Longrightarrow> nx_out_degree nx g n = card {v. (n, v) \<in> gedges g}"
    and descendants:
      "n \<in> gnodes g \<Longrightarrow> nx_descendants nx g n = {m. (n, m) \<in> (gedges g)\<^sup>* \<and> m \<noteq> n}"
    and simple_cycles: "c \<in> set (nx_simple_cycles nx g) \<Longrightarrow> simple_cycle (gedges g) c"
begin

lemma gnodes_add_nodes:
  "gnodes (fold (\<lambda>n g. nx_add_node nx g (node_id n) (node_type n)) ns g)
     = node_id ` set ns \<union> gnodes g"
  by (induction ns arbitrary: g) (auto simp: gnodes_add_node)

lemma gedges_add_nodes:
  "gedges (fold (\<lambda>n g. nx_add_node nx g (node_id n) (node_type n)) ns g) = gedges g"
  by (induction ns arbitrary: g) (auto simp: gedges_add_node)

lemma gnodes_add_edges:
  "gnodes (fold (\<lambda>e g. nx_add_edge nx g (edge_from_node e) (edge_to_node e) (edge_on e)
       (edge_condition e)) es g)
     = edge_from_node ` set es \<union> edge_to_node ` set es \<union> gnodes g"
  by (induction es arbitrary: g) (auto simp: gnodes_add_edge)

lemma gedges_add_edges:
  "gedges (fold (\<lambda>e g. nx_add_edge nx g (edge_from_node e) (edge_to_node e) (edge_on e)
       (edge_condition e)) es g)
     = (\<lambda>e. (edge_from_node e, edge_to_node e)) ` set es \<union> gedges g"
  by (induction es arbitrary: g) (auto simp: gedges_add_edge)

lemma build_graph_nodes:
  "gnodes (build_graph nx p) = panel_node_ids p \<union> edge_from_node ` set (panel_edges p)
     \<union> edge_to_node ` set (panel_edges p)"
  by (auto simp: build_graph_def gnodes_add_edges gnodes_add_nodes gnodes_empty panel_node_ids_def)

lemma build_graph_edges: "gedges (build_graph nx p) = panel_edge_set p"
  by (simp add: build_graph_def gedges_add_edges gedges_add_nodes gedges_empty panel_edge_set_def)

lemma finite_panel_edges: "finite (panel_edge_set p)"
  by (simp add: panel_edge_set_def)

lemma in_degree_build:
  assumes "n \<in> panel_node_ids p"
  shows "nx_in_degree nx (build_graph nx p) n > 0 \<longleftrightarrow> n \<in> Range (panel_edge_set p)"
proof -
  have "{u. (u, n) \<in> panel_edge_set p} \<subseteq> Domain (panel_edge_set p)" by auto
  then have "finite {u. (u, n) \<in> panel_edge_set p}"
    by (rule finite_subset) (simp add: finite_Domain finite_panel_edges)
  with assms show ?thesis
    by (auto simp: in_degree build_graph_nodes build_graph_edges card_gt_0_iff)
qed

lemma out_degree_build:
  assumes "n \<in> panel_node_ids p"
  shows "nx_out_degree nx (build_graph nx p) n = 0 \<longleftrightarrow> n \<notin> Domain (panel_edge_set p)"
proof -
  have "{v. (n, v) \<in> panel_edge_set p} \<subseteq> Range (panel_edge_set p)" by auto
  then have "finite {v. (n, v) \<in> panel_edge_set p}"
    by (rule finite_subset) (simp add: finite_Range finite_panel_edges)
  with assms show ?thesis
    by (auto simp: out_degree build_graph_nodes build_graph_edges)
qed

lemma out_degree_build_pos:
  "n \<in> panel_node_ids p \<Longrightarrow>
     0 < nx_out_degree nx (build_graph nx p) n \<longleftrightarrow> n \<in> Domain (panel_edge_set p)"
  using out_degree_build by (metis neq0_conv)

lemma source_in_panel: "n \<in> set (source_nodes p) \<Longrightarrow> node_id n \<in> panel_node_ids p"
  by (auto simp: source_nodes_def panel_node_ids_def)

lemma sink_in_panel: "n \<in> set (sink_nodes p) \<Longrightarrow> node_id n \<in> panel_node_ids p"
  by (auto simp: sink_nodes_def panel_node_ids_def)

lemma validate_boundaries_empty:
  "validate_boundaries nx p (build_graph nx p) = [] \<longleftrightarrow> boundaries_ok p"
  unfolding validate_boundaries_def boundaries_ok_def append_is_Nil_conv messages
  by (simp add: in_degree_build source_in_panel out_degree_build_pos sink_in_panel
      del: concat_eq_Nil_conv cong: ball_cong)

lemma validate_dead_ends_empty:
  "validate_dead_ends nx p (build_graph nx p) = [] \<longleftrightarrow> no_dead_ends p"
proof -
  have "node_id n \<in> panel_node_ids p" if "n \<in> set (panel_nodes p)" for n
    using that by (simp add: panel_node_ids_def)
  then have "validate_dead_ends nx p (build_graph nx p) = [] \<longleftrightarrow>
      (\<forall>n \<in> set (panel_nodes p). \<not> (node_id n \<notin> node_id ` set (sink_nodes p) \<and>
         node_id n \<notin> Domain (panel_edge_set p)))"
    unfolding validate_dead_ends_def Let_def messages by (simp add: out_degree_build cong: ball_cong)
  then show ?thesis by (auto simp: no_dead_ends_def panel_node_ids_def)
qed

lemma reachable_build:
  assumes "s \<in> set (source_nodes p)"
  shows "insert (node_id s) (nx_descendants nx (build_graph nx p) (node_id s))
     = (panel_edge_set p)\<^sup>* `` {node_id s}"
  using source_in_panel [OF assms]
  by (auto simp: descendants build_graph_nodes build_graph_edges)

lemma validate_reachability_empty:
  assumes "source_nodes p \<noteq> []"
  shows "validate_reachability nx p (build_graph nx p) = [] \<longleftrightarrow> all_reachable p"
proof -
  from assms have ne: "map node_id (source_nodes p) \<noteq> []" by simp
  let ?R = "set (map node_id (source_nodes p)) \<union>
    (\<Union>s \<in> set (map node_id (source_nodes p)). nx_descendants nx (build_graph nx p) s)"
  have "?R = (\<Union>s \<in> set (source_nodes p).
      insert (node_id s) (nx_descendants nx (build_graph nx p) (node_id s)))" by auto
  also have "\<dots> = (\<Union>s \<in> set (source_nodes p). (panel_edge_set p)\<^sup>* `` {node_id s})"
    by (simp add: reachable_build)
  finally have R: "?R = (\<Union>s \<in> set (source_nodes p). (panel_edge_set p)\<^sup>* `` {node_id s})" .
  have "validate_reachability nx p (build_graph nx p) = [] \<longleftrightarrow>
      (\<forall>n \<in> set (panel_nodes p). node_id n \<in> ?R)"
    unfolding validate_reachability_def Let_def if_not_P [OF ne] messages by simp
  then show ?thesis unfolding R by (auto simp: all_reachable_def panel_node_ids_def)
qed

end

section \<open>The checks that do not use the graph\<close>

lemma validate_contract_references_empty:
  "validate_contract_references p (map contract_id (panel_acceptance_contracts p)) = [] \<longleftrightarrow>
     contracts_resolved p"
  unfolding validate_contract_references_def contracts_resolved_def append_is_Nil_conv messages
  by (auto simp: image_iff; metis)

lemma validate_edges_empty:
  "validate_edges p (map node_id (panel_nodes p)) = [] \<longleftrightarrow> edges_resolved p"
  by (auto simp: validate_edges_def edges_resolved_def panel_edge_set_def panel_node_ids_def)

lemma map_JStr_Cons:
  "(\<exists>ys. JStr s # xs = map JStr ys \<and> set ys \<subseteq> S) \<longleftrightarrow>
     s \<in> S \<and> (\<exists>ys. xs = map JStr ys \<and> set ys \<subseteq> S)" (is "?L \<longleftrightarrow> ?R")
proof
  assume ?L
  then show ?R by (auto simp: Cons_eq_map_conv)
next
  assume ?R
  then obtain ys where "s \<in> S" "xs = map JStr ys" "set ys \<subseteq> S" by blast
  then have "JStr s # xs = map JStr (s # ys) \<and> set (s # ys) \<subseteq> S" by simp
  then show ?L by (rule exI)
qed

lemma accept_exit_errors_empty:
  "accept_exit_errors n xs = Inr [] \<longleftrightarrow>
     (\<exists>exits. xs = map JStr exits \<and> set exits \<subseteq> set (node_output_pipes n))"
proof (induction xs)
  case Nil
  then show ?case by simp
next
  case (Cons x xs)
  show ?case
  proof (cases "\<exists>s. x = JStr s")
    case True
    then obtain s where "x = JStr s" by blast
    then show ?thesis
      using Cons.IH by (auto simp: map_JStr_Cons simp del: set_map split: sum.splits)
  next
    case False
    then show ?thesis
      by (cases x) (auto simp: Cons_eq_map_conv split: sum.splits)
  qed
qed

lemma validate_routing_nodes_empty:
  "validate_routing_nodes ns = Inr [] \<longleftrightarrow>
     (\<forall>n \<in> set ns. node_type n = VALIDATOR \<and> is_routing_validator n \<longrightarrow>
        (\<exists>exits. dict_get (node_config n) ''accept_exits'' = Some (JList (map JStr exits)) \<and>
           set exits \<subseteq> set (node_output_pipes n)))"
proof (induction ns)
  case Nil
  then show ?case by simp
next
  case (Cons n ns)
  have node: "(case dict_get (node_config n) ''accept_exits'' of
        Some (JList xs) \<Rightarrow> accept_exit_errors n xs
      | _ \<Rightarrow> Inr [m]) = Inr [] \<longleftrightarrow>
      (\<exists>exits. dict_get (node_config n) ''accept_exits'' = Some (JList (map JStr exits)) \<and>
           set exits \<subseteq> set (node_output_pipes n))" for m :: string
    by (auto split: option.splits json.splits simp: accept_exit_errors_empty)
  show ?case
  proof (cases "node_type n = VALIDATOR \<and> is_routing_validator n")
    case True
    then show ?thesis
      using node [of "''routing validator '' @ quoted (node_id n)
        @ '' must declare config.accept_exits as a list''"] Cons.IH
      by (auto split: sum.splits simp del: accept_exit_errors.simps)
  next
    case False
    then show ?thesis using Cons.IH by (auto split: sum.splits)
  qed
qed

lemma validate_validator_edges_empty:
  "validate_validator_edges p = [] \<and> validate_routing_validator_accept_exits p = Inr [] \<longleftrightarrow>
     exits_declared p"
  by (auto simp: validate_validator_edges_def validate_routing_validator_accept_exits_def
      exits_declared_def validate_routing_nodes_empty split: option.splits)

lemma validate_binding_empty:
  "validate_binding (declared_pipes p) (map node_id (panel_nodes p)) (map bucket_id (panel_buckets p))
     pb = [] \<longleftrightarrow> binding_ok p pb"
proof (cases "dict_get (declared_pipes p) (fst pb)")
  case None
  then show ?thesis by (simp add: validate_binding_def binding_ok_def Let_def)
next
  case (Some nd)
  then show ?thesis
    by (cases nd; cases "binding_node (snd pb)"; cases "binding_direction (snd pb)")
      (auto simp: validate_binding_def binding_ok_def Let_def panel_node_ids_def panel_bucket_ids_def)
qed

lemma validate_pipe_bindings_empty:
  "validate_pipe_bindings p (map node_id (panel_nodes p)) (map bucket_id (panel_buckets p)) = [] \<longleftrightarrow>
     pipes_bound p"
proof -
  have "set (dict_keys (declared_pipes p)) = dom (dict_get (declared_pipes p))"
    by (simp add: dom_map_of_conv_image_fst)
  then show ?thesis
    unfolding validate_pipe_bindings_def Let_def append_is_Nil_conv messages validate_binding_empty
      pipes_bound_def
    by (auto simp: subset_iff domIff)
qed

section \<open>The validator accepts exactly the well-formed panels\<close>

text \<open>The report of a panel that passes.\<close>

definition panel_report :: "'g networkx \<Rightarrow> patch_panel \<Rightarrow> graph_validation_report" where
  "panel_report nx p =
     \<lparr>report_node_count = nx_number_of_nodes nx (build_graph nx p),
      report_edge_count = nx_number_of_edges nx (build_graph nx p),
      report_cycles = nx_simple_cycles nx (build_graph nx p)\<rparr>"

context networkx_graph
begin

lemma validate_iff: "validate nx p = Inr r \<longleftrightarrow> well_formed_panel p \<and> r = panel_report nx p"
proof -
  let ?B = "validate_boundaries nx p (build_graph nx p)"
  let ?R = "validate_reachability nx p (build_graph nx p)"
  have B: "?B = [] \<and> ?R = [] \<longleftrightarrow> boundaries_ok p \<and> all_reachable p"
    by (cases "source_nodes p = []")
      (auto simp: validate_boundaries_empty validate_reachability_empty boundaries_ok_def)
  have "validate nx p = Inr r \<longleftrightarrow>
      validate_contract_references p (map contract_id (panel_acceptance_contracts p)) = [] \<and>
      validate_edges p (map node_id (panel_nodes p)) = [] \<and>
      (validate_validator_edges p = [] \<and> validate_routing_validator_accept_exits p = Inr []) \<and>
      validate_pipe_bindings p (map node_id (panel_nodes p)) (map bucket_id (panel_buckets p)) = [] \<and>
      (?B = [] \<and> ?R = []) \<and>
      validate_dead_ends nx p (build_graph nx p) = [] \<and> r = panel_report nx p"
    unfolding validate_def Let_def
    by (cases "validate_routing_validator_accept_exits p") (auto simp: panel_report_def)
  then show ?thesis
    unfolding validate_contract_references_empty validate_edges_empty validate_validator_edges_empty
      validate_pipe_bindings_empty B validate_dead_ends_empty well_formed_panel_def
    by blast
qed

lemma report_counts:
  assumes "validate nx p = Inr r"
  shows "report_node_count r = card (panel_node_ids p)"
    and "report_edge_count r = card (panel_edge_set p)"
    and "c \<in> set (report_cycles r) \<Longrightarrow> simple_cycle (panel_edge_set p) c"
proof -
  from assms have wf: "edges_resolved p" and r: "r = panel_report nx p"
    by (auto simp: validate_iff well_formed_panel_def)
  from wf have "gnodes (build_graph nx p) = panel_node_ids p"
    by (auto simp: build_graph_nodes edges_resolved_def panel_edge_set_def)
  then show "report_node_count r = card (panel_node_ids p)"
    by (simp add: r panel_report_def number_of_nodes)
  show "report_edge_count r = card (panel_edge_set p)"
    by (simp add: r panel_report_def number_of_edges build_graph_edges)
  show "c \<in> set (report_cycles r) \<Longrightarrow> simple_cycle (panel_edge_set p) c"
    using simple_cycles [of c "build_graph nx p"] by (simp add: r panel_report_def build_graph_edges)
qed

end

section \<open>An executable graph library\<close>

text \<open>
  A graph as a list of nodes and a list of edges, both without repetition. Descendants are
  computed by the work-list search of \<open>rtrancl_while\<close>; the cycles through a node are the simple
  paths from it back to it, each cycle being listed at its first node.
\<close>

type_synonym list_graph = "string list \<times> (string \<times> string) list"

definition successors :: "list_graph \<Rightarrow> string \<Rightarrow> string list" where
  "successors g n = map snd (filter (\<lambda>e. fst e = n) (snd g))"

definition list_descendants :: "list_graph \<Rightarrow> string \<Rightarrow> string set" where
  "list_descendants g n =
     (case rtrancl_while (\<lambda>_. True) (successors g) n of None \<Rightarrow> {} | Some (_, Z) \<Rightarrow> Z - {n})"

text \<open>Extensions of a path (kept reversed) to simple cycles, by at most \<open>fuel\<close> further nodes.\<close>

fun cycles_from :: "list_graph \<Rightarrow> nat \<Rightarrow> string \<Rightarrow> string list \<Rightarrow> string list list" where
  "cycles_from g 0 start path = []"
| "cycles_from g (Suc fuel) start path =
     (if start \<in> set (successors g (hd path)) then [rev path] else []) @
     concat (map (\<lambda>v. cycles_from g fuel start (v # path))
       (filter (\<lambda>v. v \<notin> set path) (successors g (hd path))))"

definition list_simple_cycles :: "list_graph \<Rightarrow> string list list" where
  "list_simple_cycles g =
     concat (map (\<lambda>n. cycles_from g (Suc (length (fst g))) n [n]) (fst g))"

definition list_networkx :: "list_graph networkx" where
  "list_networkx =
     \<lparr>nx_DiGraph = ([], []),
      nx_add_node = (\<lambda>g n t. (List.insert n (fst g), snd g)),
      nx_add_edge = (\<lambda>g u v l a. (List.insert u (List.insert v (fst g)), List.insert (u, v) (snd g))),
      nx_number_of_nodes = (\<lambda>g. length (remdups (fst g))),
      nx_number_of_edges = (\<lambda>g. length (remdups (snd g))),
      nx_in_degree = (\<lambda>g n. length (remdups (map fst (filter (\<lambda>e. snd e = n) (snd g))))),
      nx_out_degree = (\<lambda>g n. length (remdups (successors g n))),
      nx_descendants = list_descendants,
      nx_simple_cycles = list_simple_cycles\<rparr>"

lemma successors_set: "set (successors g n) = {v. (n, v) \<in> set (snd g)}"
  by (force simp: successors_def)

lemma list_descendants_correct:
  "list_descendants g n = {m. (n, m) \<in> (set (snd g))\<^sup>* \<and> m \<noteq> n}"
proof -
  have rel: "{(x, y). y \<in> set (successors g x)} = set (snd g)"
    by (auto simp: successors_set)
  have "(set (snd g))\<^sup>* `` {n} \<subseteq> insert n (Range (set (snd g)))"
    by (auto elim: rtranclE)
  then have fin: "finite ({(x, y). y \<in> set (successors g x)}\<^sup>* `` {n})"
    unfolding rel by (rule finite_subset) (simp add: finite_Range)
  then obtain ws Z where run: "rtrancl_while (\<lambda>_. True) (successors g) n = Some (ws, Z)"
    using rtrancl_while_finite_Some by (metis surj_pair)
  from rtrancl_while_Some [OF run] have "Z = (set (snd g))\<^sup>* `` {n}"
    by (simp add: rel split: if_splits)
  with run show ?thesis by (auto simp: list_descendants_def)
qed

text \<open>What \<open>cycles_from\<close> keeps of its path: it starts at \<open>start\<close> and follows edges.\<close>

definition path_from :: "(string \<times> string) set \<Rightarrow> string \<Rightarrow> string list \<Rightarrow> bool" where
  "path_from E start path \<longleftrightarrow> path \<noteq> [] \<and> last path = start \<and> distinct path \<and>
     (\<forall>i. Suc i < length path \<longrightarrow> (path ! Suc i, path ! i) \<in> E)"

lemma path_from_single: "path_from E n [n]"
  by (simp add: path_from_def)

lemma path_from_Cons:
  assumes "path_from E start path" and "(hd path, v) \<in> E" and "v \<notin> set path"
  shows "path_from E start (v # path)"
  using assms by (auto simp: path_from_def hd_conv_nth nth_Cons split: nat.split)

lemma path_from_cycle:
  assumes "path_from E start path" and "(hd path, start) \<in> E"
  shows "simple_cycle E (rev path)"
proof -
  from assms(1) have p: "path \<noteq> []" "last path = start" "distinct path"
    "\<And>i. Suc i < length path \<Longrightarrow> (path ! Suc i, path ! i) \<in> E"
    by (auto simp: path_from_def)
  have "(rev path ! i, rev path ! Suc i) \<in> E" if "Suc i < length path" for i
    using p(4) [of "length path - Suc (Suc i)"] that
    by (simp add: rev_nth Suc_diff_Suc)
  with p assms(2) show ?thesis by (simp add: simple_cycle_def last_rev hd_rev)
qed

lemma cycles_from_sound:
  "path_from (set (snd g)) start path \<Longrightarrow> c \<in> set (cycles_from g fuel start path) \<Longrightarrow>
     simple_cycle (set (snd g)) c"
proof (induction g fuel start path rule: cycles_from.induct)
  case (1 g start path)
  then show ?case by simp
next
  case (2 g fuel start path)
  from "2.prems"(2) consider "start \<in> set (successors g (hd path))" "c = rev path"
    | v where "v \<in> set (successors g (hd path))" "v \<notin> set path"
        "c \<in> set (cycles_from g fuel start (v # path))"
    by (auto split: if_splits)
  then show ?case
  proof cases
    case 1
    with "2.prems"(1) show ?thesis by (auto simp: successors_set intro: path_from_cycle)
  next
    case 2
    with "2.prems"(1) have "path_from (set (snd g)) start (v # path)"
      by (auto simp: successors_set intro: path_from_Cons)
    with 2 "2.IH" show ?thesis by auto
  qed
qed

interpretation list_nx: networkx_graph list_networkx "\<lambda>g. set (fst g)" "\<lambda>g. set (snd g)"
proof unfold_locales
  fix g :: list_graph and n
  show "nx_in_degree list_networkx g n = card {u. (u, n) \<in> set (snd g)}"
    unfolding list_networkx_def
    by (simp add: length_remdups_card_conv) (rule arg_cong [where f = card], force)
  show "nx_out_degree list_networkx g n = card {v. (n, v) \<in> set (snd g)}"
    by (simp add: list_networkx_def length_remdups_card_conv successors_set)
  show "nx_descendants list_networkx g n = {m. (n, m) \<in> (set (snd g))\<^sup>* \<and> m \<noteq> n}"
    by (simp add: list_networkx_def list_descendants_correct)
  show "simple_cycle (set (snd g)) c" if "c \<in> set (nx_simple_cycles list_networkx g)" for c
    using that path_from_single
    by (auto simp: list_networkx_def list_simple_cycles_def simp del: cycles_from.simps
        intro: cycles_from_sound)
qed (simp_all add: list_networkx_def length_remdups_card_conv)

end
