(* ===== verification/RuntimeService.thy ===== *)
theory RuntimeService
  imports Artifacts Topology
begin

text \<open>
  The shared part of the runtimes: \<^verbatim>\<open>src/src/ghostmesh/runtime/service.py\<close>. The functions resolve
  pipes and buckets of a panel and guard leases and artifacts; \<open>card_runtime\<close> is the protocol
  \<^verbatim>\<open>CardRuntime\<close>, a record of the operations a runtime offers to its clients. The lemmas say what
  a resolved pipe is on a well-formed panel and when a guard lets an operation pass.
\<close>

section \<open>Resolution and guards\<close>

definition validate_patch_panel :: "'g networkx \<Rightarrow> patch_panel \<Rightarrow> patch_panel res" where
  "validate_patch_panel nx p = (case validate nx p of Inl e \<Rightarrow> Inl e | Inr _ \<Rightarrow> Inr p)"

definition resolve_initial_bucket :: "patch_panel \<Rightarrow> string res" where
  "resolve_initial_bucket p =
     (case find (\<lambda>n. node_type n = SOURCE) (panel_nodes p) of
        None \<Rightarrow> Inl (InvalidOperationError ''Patch Panel has no source node'')
      | Some source \<Rightarrow>
          (case node_output_pipes source of
             [] \<Rightarrow> Inl (InvalidOperationError
                    (''source node '' @ quoted (node_id source) @ '' has no output pipe''))
           | pipe # _ \<Rightarrow>
               (case dict_get (panel_pipe_bindings p) pipe of
                  None \<Rightarrow> Inl (InvalidOperationError (''source pipe '' @ quoted pipe @ '' is not bound''))
                | Some binding \<Rightarrow> Inr (binding_bucket binding))))"

definition node_pipes :: "direction \<Rightarrow> node_definition \<Rightarrow> string list" where
  "node_pipes d n = (if d = Input then node_input_pipes n else node_output_pipes n)"

definition find_node_for_pipe :: "patch_panel \<Rightarrow> string \<Rightarrow> direction \<Rightarrow> string res" where
  "find_node_for_pipe p pipe d =
     (case find (\<lambda>n. pipe \<in> set (node_pipes d n)) (panel_nodes p) of
        None \<Rightarrow> Inl (NotFoundError (''pipe '' @ quoted pipe @ '' is not declared by any node''))
      | Some n \<Rightarrow> Inr (node_id n))"

definition resolve_pipe_bucket ::
  "patch_panel \<Rightarrow> string \<Rightarrow> direction \<Rightarrow> (string \<times> string) res" where
  "resolve_pipe_bucket p pipe d =
     (case dict_get (panel_pipe_bindings p) pipe of
        None \<Rightarrow> Inl (InvalidOperationError (''pipe '' @ quoted pipe @ '' is not bound''))
      | Some binding \<Rightarrow>
          if binding_direction binding \<noteq> None \<and> binding_direction binding \<noteq> Some d
          then Inl (InvalidOperationError (''pipe '' @ quoted pipe @ '' is configured as ''
                 @ quoted (direction_value (the (binding_direction binding))) @ '', not ''
                 @ quoted (direction_value d)))
          else (case binding_node binding of
              Some (c # cs) \<Rightarrow> Inr (binding_bucket binding, c # cs)
            | _ \<Rightarrow> (case find_node_for_pipe p pipe d of
                  Inl e \<Rightarrow> Inl e
                | Inr n \<Rightarrow> Inr (binding_bucket binding, n))))"

definition ensure_bucket_exists :: "patch_panel \<Rightarrow> string \<Rightarrow> unit res" where
  "ensure_bucket_exists p b =
     (if b \<notin> bucket_id ` set (panel_buckets p)
      then Inl (InvalidOperationError (''bucket '' @ quoted b @ '' is not declared'')) else Inr ())"

definition ensure_active_lease :: "lease \<Rightarrow> ('z world_scheme, unit) M" where
  "ensure_active_lease l =
     (if lease_released_at l \<noteq> None
      then raiseM (ConflictError (''lease '' @ quoted (uuid_str (lease_id l))
             @ '' has already been released''))
      else bindM now_utc (\<lambda>t.
        if lease_expires_at l \<le> t
        then raiseM (ConflictError (''lease '' @ quoted (uuid_str (lease_id l)) @ '' has expired''))
        else returnM ()))"

text \<open>The argument \<^verbatim>\<open>expires_at\<close> is evaluated before the default factories of the class run.\<close>

definition new_lease ::
  "card \<Rightarrow> string \<Rightarrow> string \<Rightarrow> string \<Rightarrow> int \<Rightarrow> ('z world_scheme, lease) M" where
  "new_lease c node worker pipe seconds =
     bindM now_utc (\<lambda>t.
     bindM (liftM (plus_seconds t seconds)) (\<lambda>expires.
     bindM uuid4 (\<lambda>i. bindM now_utc (\<lambda>claimed.
     returnM \<lparr>lease_id = i, lease_card_id = card_id c, lease_node_id = node,
       lease_worker_id = worker, lease_input_pipe = pipe, lease_claimed_at = claimed,
       lease_expires_at = expires, lease_released_at = None\<rparr>))))"

definition ensure_artifacts_accepted ::
  "patch_panel \<Rightarrow> string \<Rightarrow> artifact_reference list \<Rightarrow> unit res" where
  "ensure_artifacts_accepted p dest refs =
     (case find (\<lambda>b. bucket_id b = dest) (panel_buckets p) of
        None \<Rightarrow> Inl (InvalidOperationError (''bucket '' @ quoted dest @ '' is not declared''))
      | Some b \<Rightarrow>
          (case bucket_acceptance_contract b of
             None \<Rightarrow> Inr ()
           | Some cid \<Rightarrow>
               (case find (\<lambda>c. contract_id c = cid) (panel_acceptance_contracts p) of
                  None \<Rightarrow> Inl (InvalidOperationError (''bucket '' @ quoted dest
                          @ '' references unknown acceptance contract '' @ quoted cid))
                | Some c \<Rightarrow> validate_artifact_references refs (Some c))))"

definition ensure_artifact_refs_belong_to_card ::
  "uuid \<Rightarrow> artifact_reference list \<Rightarrow> unit res" where
  "ensure_artifact_refs_belong_to_card cid refs =
     (if refs = [] then Inl (InvalidOperationError ''submit requires at least one artifact reference'')
      else check_all (\<lambda>r. if artifact_card_id r \<noteq> cid
        then Inl (InvalidOperationError (''artifact '' @ quoted (uuid_str (artifact_id r))
               @ '' belongs to card '' @ quoted (uuid_str (artifact_card_id r)) @ '', not ''
               @ quoted (uuid_str cid)))
        else Inr ()) refs)"

section \<open>The CardRuntime protocol\<close>

text \<open>The operations of a runtime over a state \<open>'s\<close>, in the order of the protocol class.\<close>

record 's card_runtime =
  rt_register_patch_panel :: "patch_panel \<Rightarrow> ('s, patch_panel) M"
  rt_list_patch_panels :: "('s, patch_panel list) M"
  rt_create_card :: "string \<Rightarrow> jdict \<Rightarrow> jdict option \<Rightarrow> string option \<Rightarrow> ('s, card) M"
  rt_list_cards :: "('s, card list) M"
  rt_get_card :: "uuid \<Rightarrow> ('s, card) M"
  rt_get_lease :: "uuid \<Rightarrow> ('s, lease) M"
  rt_list_leases :: "('s, lease list) M"
  rt_claim_card :: "string \<Rightarrow> string \<Rightarrow> int \<Rightarrow> string option \<Rightarrow> ('s, lease) M"
  rt_submit_artifact ::
    "uuid \<Rightarrow> string \<Rightarrow> artifact_reference list \<Rightarrow> string option \<Rightarrow> ('s, artifact_reference list) M"
  rt_renew_lease :: "uuid \<Rightarrow> int \<Rightarrow> string option \<Rightarrow> ('s, lease) M"
  rt_release_lease :: "uuid \<Rightarrow> string option \<Rightarrow> string option \<Rightarrow> ('s, lease) M"
  rt_expire_leases :: "('s, lease list) M"
  rt_validate_card ::
    "uuid \<Rightarrow> string \<Rightarrow> bool \<Rightarrow> string option \<Rightarrow> string option \<Rightarrow> jdict option \<Rightarrow> string option \<Rightarrow>
       ('s, card_event) M"
  rt_move_card ::
    "uuid \<Rightarrow> string \<Rightarrow> string option \<Rightarrow> string option \<Rightarrow> string option \<Rightarrow> ('s, card) M"
  rt_card_history :: "uuid \<Rightarrow> ('s, card_event list) M"
  rt_record_event ::
    "uuid \<Rightarrow> string \<Rightarrow> string option \<Rightarrow> jdict option \<Rightarrow> string option \<Rightarrow> ('s, card_event) M"

section \<open>Resolution on well-formed panels\<close>

lemma well_formed_binding:
  assumes "well_formed_panel p" and "dict_get (panel_pipe_bindings p) pipe = Some b"
  shows "binding_ok p (pipe, b)"
  using assms by (auto simp: well_formed_panel_def pipes_bound_def dest: map_of_SomeD)

lemma resolve_pipe_bucket_declared:
  assumes "well_formed_panel p" and "resolve_pipe_bucket p pipe d = Inr (b, n)"
  shows "b \<in> panel_bucket_ids p"
  using assms(2) well_formed_binding [OF assms(1), of pipe]
  by (auto simp: resolve_pipe_bucket_def binding_ok_def split: option.splits list.splits
      sum.splits if_splits)

lemma resolve_initial_bucket_declared:
  assumes "well_formed_panel p" and "resolve_initial_bucket p = Inr b"
  shows "b \<in> panel_bucket_ids p"
  using assms(2) well_formed_binding [OF assms(1)]
  by (auto simp: resolve_initial_bucket_def binding_ok_def split: option.splits list.splits)

text \<open>The declarations \<open>declared_pipes\<close> collects are those of the nodes.\<close>

lemma fold_set_dom:
  "dom (dict_get (fold (\<lambda>pipe. dict_set pipe v) ps d)) = set ps \<union> dom (dict_get d)"
  by (induction ps arbitrary: d) auto

definition declare_node ::
  "node_definition \<Rightarrow> (string, string \<times> direction) dict \<Rightarrow> (string, string \<times> direction) dict" where
  "declare_node n d =
     fold (\<lambda>pipe. dict_set pipe (node_id n, Output)) (node_output_pipes n)
       (fold (\<lambda>pipe. dict_set pipe (node_id n, Input)) (node_input_pipes n) d)"

lemma declared_pipes_fold: "declared_pipes p = fold declare_node (panel_nodes p) []"
  unfolding declared_pipes_def declare_node_def [abs_def] ..

lemma declare_node_dom:
  "dom (dict_get (declare_node n d)) =
     set (node_input_pipes n) \<union> set (node_output_pipes n) \<union> dom (dict_get d)"
  by (auto simp: declare_node_def fold_set_dom)

lemma declare_nodes_dom:
  "dom (dict_get (fold declare_node ns d)) =
     (\<Union>n \<in> set ns. set (node_input_pipes n) \<union> set (node_output_pipes n)) \<union> dom (dict_get d)"
  by (induction ns arbitrary: d) (auto simp: declare_node_dom)

lemma declared_pipes_dom:
  "dom (dict_get (declared_pipes p)) =
     (\<Union>n \<in> set (panel_nodes p). set (node_input_pipes n) \<union> set (node_output_pipes n))"
  by (simp add: declared_pipes_fold declare_nodes_dom)

text \<open>On a well-formed panel whose first source has a pipe, a card can be placed.\<close>

lemma resolve_initial_bucket_total:
  assumes wf: "well_formed_panel p"
    and pipe: "\<And>n. n \<in> set (source_nodes p) \<Longrightarrow> node_output_pipes n \<noteq> []"
  shows "\<exists>b. resolve_initial_bucket p = Inr b \<and> b \<in> panel_bucket_ids p"
proof -
  from wf have "source_nodes p \<noteq> []" by (simp add: well_formed_panel_def boundaries_ok_def)
  then obtain n where n: "find (\<lambda>n. node_type n = SOURCE) (panel_nodes p) = Some n"
    by (cases "find (\<lambda>n. node_type n = SOURCE) (panel_nodes p)")
      (auto simp: source_nodes_def filter_empty_conv find_None_iff)
  then have mem: "n \<in> set (panel_nodes p)" and src: "n \<in> set (source_nodes p)"
    by (auto simp: source_nodes_def dest: find_SomeD)
  then obtain q qs where q: "node_output_pipes n = q # qs" using pipe by (meson neq_Nil_conv)
  with mem have "q \<in> dom (dict_get (declared_pipes p))"
    unfolding declared_pipes_dom by fastforce
  with wf obtain b where "dict_get (panel_pipe_bindings p) q = Some b"
    by (auto simp: well_formed_panel_def pipes_bound_def)
  with n q have "resolve_initial_bucket p = Inr (binding_bucket b)"
    by (simp add: resolve_initial_bucket_def)
  with wf show ?thesis by (blast intro: resolve_initial_bucket_declared)
qed

section \<open>When a guard passes\<close>

lemma ensure_active_lease_run:
  "ensure_active_lease l s = (Inr u, s') \<longleftrightarrow>
     lease_released_at l = None \<and> next_reading s < lease_expires_at l \<and>
     s' = s\<lparr>clock_pos := Suc (clock_pos s)\<rparr>"
  by (auto simp: ensure_active_lease_def next_reading_def exec not_le)

lemma wp_ensure_active_lease [wp_rules]:
  "wp (ensure_active_lease l) Q E s =
     (if lease_released_at l \<noteq> None
      then E (ConflictError (''lease '' @ quoted (uuid_str (lease_id l))
             @ '' has already been released'')) s
      else if lease_expires_at l \<le> next_reading s
      then E (ConflictError (''lease '' @ quoted (uuid_str (lease_id l)) @ '' has expired''))
             (s\<lparr>clock_pos := Suc (clock_pos s)\<rparr>)
      else Q () (s\<lparr>clock_pos := Suc (clock_pos s)\<rparr>))"
  by (simp add: ensure_active_lease_def wp_rules next_reading_def)

lemma ensure_artifact_refs_ok:
  "ensure_artifact_refs_belong_to_card cid refs = Inr u \<longleftrightarrow>
     refs \<noteq> [] \<and> (\<forall>r \<in> set refs. artifact_card_id r = cid)"
proof -
  have "check_all f refs = Inr u \<longleftrightarrow> check_all f refs = Inr ()" for f
    by simp
  then show ?thesis
    by (auto simp: ensure_artifact_refs_belong_to_card_def check_all_ok)
qed

lemma ensure_artifacts_accepted_ok:
  assumes "ensure_artifacts_accepted p dest refs = Inr u"
    and "b \<in> set (panel_buckets p)" and "distinct (map bucket_id (panel_buckets p))"
    and "bucket_id b = dest" and "bucket_acceptance_contract b = Some cid"
  shows "\<exists>c \<in> set (panel_acceptance_contracts p).
     contract_id c = cid \<and> (\<forall>rule \<in> set (contract_rules c). rule_met refs rule)"
proof -
  have "find (\<lambda>b. bucket_id b = dest) (panel_buckets p) = Some b"
  proof (cases "find (\<lambda>b. bucket_id b = dest) (panel_buckets p)")
    case None
    with assms(2,4) show ?thesis by (auto dest: find_NoneD)
  next
    case (Some b')
    with find_SomeD [OF Some] assms(2-4) show ?thesis
      by (auto simp: distinct_map dest: inj_onD)
  qed
  with assms(1,5) obtain c where
    c: "find (\<lambda>c. contract_id c = cid) (panel_acceptance_contracts p) = Some c"
    and ok: "validate_artifact_references refs (Some c) = Inr ()"
    by (auto simp: ensure_artifacts_accepted_def split: option.splits)
  from find_SomeD [OF c] ok show ?thesis
    by (auto simp: validate_artifact_references_ok)
qed

end
