(* ===== verification/MemoryRuntime.thy ===== *)
theory MemoryRuntime
  imports RuntimeService
begin

text \<open>
  The in-memory runtime: \<^verbatim>\<open>src/src/ghostmesh/runtime/memory.py\<close>, class \<^verbatim>\<open>InMemoryCardRuntime\<close>. Its
  six dictionaries are the fields \<open>mem_runtime\<close> adds to the process state; one command per method.
  \<open>memory_runtime\<close> packs the public methods as the protocol \<open>card_runtime\<close>.
\<close>

section \<open>State\<close>

text \<open>
  An entry of \<^verbatim>\<open>_idempotency\<close>, a dictionary of objects: the classes the operations store there.
\<close>

datatype idempotent =
    ICard card
  | ILease lease
  | IEvent card_event
  | IArtifacts "artifact_reference list"

record mem_runtime = world +
  mem_patch_panels :: "(string, patch_panel) dict"
  mem_cards :: "(uuid, card) dict"
  mem_leases :: "(uuid, lease) dict"
  mem_artifacts :: "(uuid, artifact_reference) dict"
  mem_events :: "(uuid, card_event list) dict"
  mem_idempotency :: "(string, idempotent) dict"

definition empty_runtime :: "(nat \<Rightarrow> uuid) \<Rightarrow> (nat \<Rightarrow> datetime) \<Rightarrow> mem_runtime" where
  "empty_runtime us cs =
     \<lparr>uuid_src = us, uuid_pos = 0, clock_src = cs, clock_pos = 0,
      mem_patch_panels = [], mem_cards = [], mem_leases = [], mem_artifacts = [],
      mem_events = [], mem_idempotency = []\<rparr>"

section \<open>Lookups\<close>

definition get_patch_panel :: "string \<Rightarrow> ('z mem_runtime_scheme, patch_panel) M" where
  "get_patch_panel pid =
     bindM (getsM (\<lambda>s. dict_get (mem_patch_panels s) pid)) (\<lambda>r. case r of
       None \<Rightarrow> raiseM (NotFoundError (''Patch Panel '' @ quoted pid @ '' is not registered''))
     | Some p \<Rightarrow> returnM p)"

definition get_patch_panel_for_card :: "card \<Rightarrow> ('z mem_runtime_scheme, patch_panel) M" where
  "get_patch_panel_for_card c = get_patch_panel (rsplit_colon (card_workflow_version c))"

definition get_card :: "uuid \<Rightarrow> ('z mem_runtime_scheme, card) M" where
  "get_card cid =
     bindM (getsM (\<lambda>s. dict_get (mem_cards s) cid)) (\<lambda>r. case r of
       None \<Rightarrow> raiseM (NotFoundError (''card '' @ quoted (uuid_str cid) @ '' does not exist''))
     | Some c \<Rightarrow> returnM c)"

definition get_lease :: "uuid \<Rightarrow> ('z mem_runtime_scheme, lease) M" where
  "get_lease lid =
     bindM (getsM (\<lambda>s. dict_get (mem_leases s) lid)) (\<lambda>r. case r of
       None \<Rightarrow> raiseM (NotFoundError (''lease '' @ quoted (uuid_str lid) @ '' does not exist''))
     | Some l \<Rightarrow> returnM l)"

definition list_patch_panels :: "('z mem_runtime_scheme, patch_panel list) M" where
  "list_patch_panels = getsM (\<lambda>s. dict_values (mem_patch_panels s))"

definition list_cards :: "('z mem_runtime_scheme, card list) M" where
  "list_cards = getsM (\<lambda>s. dict_values (mem_cards s))"

definition list_leases :: "('z mem_runtime_scheme, lease list) M" where
  "list_leases = getsM (\<lambda>s. dict_values (mem_leases s))"

section \<open>Idempotency\<close>

text \<open>Truth of a cached object: a list of artifacts is false when it is empty.\<close>

fun idempotent_true :: "idempotent \<Rightarrow> bool" where
  "idempotent_true (IArtifacts refs) \<longleftrightarrow> refs \<noteq> []"
| "idempotent_true _ \<longleftrightarrow> True"

text \<open>\<^verbatim>\<open>if cached := self._get_idempotent(key):\<close>, the cached object that makes it true.\<close>

definition cached :: "string option \<Rightarrow> (string, idempotent) dict \<Rightarrow> idempotent option" where
  "cached key store =
     (if truthy key then
        (case dict_get store (the key) of
           Some v \<Rightarrow> if idempotent_true v then Some v else None
         | None \<Rightarrow> None)
      else None)"

definition get_idempotent :: "string option \<Rightarrow> ('z mem_runtime_scheme, idempotent option) M" where
  "get_idempotent key = getsM (\<lambda>s. cached key (mem_idempotency s))"

definition remember ::
  "string option \<Rightarrow> idempotent \<Rightarrow> (string, idempotent) dict \<Rightarrow> (string, idempotent) dict" where
  "remember key v store = (if truthy key then dict_set (the key) v store else store)"

definition store_idempotent :: "string option \<Rightarrow> idempotent \<Rightarrow> ('z mem_runtime_scheme, unit) M" where
  "store_idempotent key v = modifyM (\<lambda>s. s\<lparr>mem_idempotency := remember key v (mem_idempotency s)\<rparr>)"

definition reused_key :: error where
  "reused_key = ConflictError ''idempotency key was already used for a different operation''"

fun typed_card :: "idempotent \<Rightarrow> card res" where
  "typed_card (ICard c) = Inr c"
| "typed_card _ = Inl reused_key"

fun typed_lease :: "idempotent \<Rightarrow> lease res" where
  "typed_lease (ILease l) = Inr l"
| "typed_lease _ = Inl reused_key"

fun typed_event :: "idempotent \<Rightarrow> card_event res" where
  "typed_event (IEvent e) = Inr e"
| "typed_event _ = Inl reused_key"

fun typed_artifacts :: "idempotent \<Rightarrow> artifact_reference list res" where
  "typed_artifacts (IArtifacts refs) = Inr refs"
| "typed_artifacts _ = Inl reused_key"

text \<open>
  The prologue every operation shares: the cached object, cast to the type the operation returns,
  or the body when there is none.
\<close>

definition idempotently ::
  "(idempotent \<Rightarrow> 'a res) \<Rightarrow> string option \<Rightarrow> ('z mem_runtime_scheme, 'a) M \<Rightarrow>
     ('z mem_runtime_scheme, 'a) M" where
  "idempotently typed key body =
     bindM (get_idempotent key) (\<lambda>cached. case cached of
       Some v \<Rightarrow> liftM (typed v)
     | None \<Rightarrow> body)"

section \<open>Writes\<close>

definition put_card :: "card \<Rightarrow> ('z mem_runtime_scheme, unit) M" where
  "put_card c = modifyM (\<lambda>s. s\<lparr>mem_cards := dict_set (card_id c) c (mem_cards s)\<rparr>)"

definition put_lease :: "lease \<Rightarrow> ('z mem_runtime_scheme, unit) M" where
  "put_lease l = modifyM (\<lambda>s. s\<lparr>mem_leases := dict_set (lease_id l) l (mem_leases s)\<rparr>)"

text \<open>\<^verbatim>\<open>self._events.setdefault(event.card_id, []).append(event)\<close>.\<close>

definition recorded_events :: "(uuid, card_event list) dict \<Rightarrow> uuid \<Rightarrow> card_event list" where
  "recorded_events d cid = (case dict_get d cid of None \<Rightarrow> [] | Some evs \<Rightarrow> evs)"

abbreviation history :: "'z mem_runtime_scheme \<Rightarrow> uuid \<Rightarrow> card_event list" where
  "history s \<equiv> recorded_events (mem_events s)"

definition logged :: "card_event \<Rightarrow> (uuid, card_event list) dict \<Rightarrow> (uuid, card_event list) dict" where
  "logged e d = dict_set (event_card_id e) (recorded_events d (event_card_id e) @ [e]) d"

definition append_event :: "card_event \<Rightarrow> ('z mem_runtime_scheme, unit) M" where
  "append_event e = modifyM (\<lambda>s. s\<lparr>mem_events := logged e (mem_events s)\<rparr>)"

definition store_artifacts ::
  "artifact_reference list \<Rightarrow> (uuid, artifact_reference) dict \<Rightarrow> (uuid, artifact_reference) dict" where
  "store_artifacts refs d = fold (\<lambda>r. dict_set (artifact_id r) r) refs d"

definition put_artifacts :: "artifact_reference list \<Rightarrow> ('z mem_runtime_scheme, unit) M" where
  "put_artifacts refs = modifyM (\<lambda>s. s\<lparr>mem_artifacts := store_artifacts refs (mem_artifacts s)\<rparr>)"

section \<open>Operations\<close>

definition register_patch_panel ::
  "'g networkx \<Rightarrow> patch_panel \<Rightarrow> ('z mem_runtime_scheme, patch_panel) M" where
  "register_patch_panel nx p =
     bindM (liftM (validate_patch_panel nx p)) (\<lambda>_.
     bindM (modifyM (\<lambda>s. s\<lparr>mem_patch_panels := dict_set (panel_id p) p (mem_patch_panels s)\<rparr>)) (\<lambda>_.
     returnM p))"

definition create_card ::
  "string \<Rightarrow> jdict \<Rightarrow> jdict option \<Rightarrow> string option \<Rightarrow> ('z mem_runtime_scheme, card) M" where
  "create_card pid payload metadata key =
     idempotently typed_card key (
       bindM (get_patch_panel pid) (\<lambda>p.
       bindM (liftM (resolve_initial_bucket p)) (\<lambda>bucket.
       bindM (new_card (workflow_version_id p) bucket payload
                (case metadata of None \<Rightarrow> [] | Some m \<Rightarrow> m)) (\<lambda>c.
       bindM (put_card c) (\<lambda>_.
       bindM (new_card_event (card_id c) ''card_created'' None
                [(''patch_panel_id'', JStr (panel_id p)), (''version'', JStr (panel_version p)),
                 (''bucket'', JStr (card_current_bucket c))]) (\<lambda>e.
       bindM (append_event e) (\<lambda>_.
       bindM (store_idempotent key (ICard c)) (\<lambda>_.
       returnM c))))))))"

definition lease_active :: "datetime \<Rightarrow> lease \<Rightarrow> bool" where
  "lease_active t l \<longleftrightarrow> lease_released_at l = None \<and> lease_expires_at l > t"

definition has_active_lease :: "uuid \<Rightarrow> ('z mem_runtime_scheme, bool) M" where
  "has_active_lease cid =
     bindM now_utc (\<lambda>t.
     getsM (\<lambda>s. \<exists>l \<in> set (dict_values (mem_leases s)). lease_card_id l = cid \<and> lease_active t l))"

fun find_claimable :: "string \<Rightarrow> string \<Rightarrow> card list \<Rightarrow> ('z mem_runtime_scheme, card option) M" where
  "find_claimable wv bucket [] = returnM None"
| "find_claimable wv bucket (c # cs) =
     (if card_workflow_version c = wv \<and> card_current_bucket c = bucket
      then bindM (has_active_lease (card_id c)) (\<lambda>busy.
             if busy then find_claimable wv bucket cs else returnM (Some c))
      else find_claimable wv bucket cs)"

type_synonym claim_match = "patch_panel \<times> string \<times> string \<times> card option"

fun claim_matches :: "string \<Rightarrow> patch_panel list \<Rightarrow> ('z mem_runtime_scheme, claim_match list) M" where
  "claim_matches pipe [] = returnM []"
| "claim_matches pipe (p # ps) =
     (case resolve_pipe_bucket p pipe Input of
        Inl (InvalidOperationError _) \<Rightarrow> claim_matches pipe ps
      | Inl e \<Rightarrow> raiseM e
      | Inr (bucket, node) \<Rightarrow>
          bindM (getsM (\<lambda>s. dict_values (mem_cards s))) (\<lambda>cs.
          bindM (find_claimable (workflow_version_id p) bucket cs) (\<lambda>c.
          bindM (claim_matches pipe ps) (\<lambda>ms.
          returnM ((p, bucket, node, c) # ms)))))"

definition with_card :: "claim_match \<Rightarrow> bool" where
  "with_card m \<longleftrightarrow> snd (snd (snd m)) \<noteq> None"

definition choose_match :: "string \<Rightarrow> claim_match list \<Rightarrow> claim_match res" where
  "choose_match pipe matches =
     (case matches of
        [] \<Rightarrow> Inl (NotFoundError (''input pipe '' @ quoted pipe @ '' is not bound to a Patch Panel''))
      | first # rest \<Rightarrow>
          (let with_cards = filter with_card matches
           in if length with_cards = 1 then Inr (hd with_cards)
              else if rest = [] then Inr first
              else if with_cards \<noteq> []
              then Inl (ConflictError (''input pipe '' @ quoted pipe
                     @ '' has claimable cards in multiple workflows''))
              else Inr (fst first, fst (snd first), fst (snd (snd first)), None)))"

definition claim_target :: "string \<Rightarrow> ('z mem_runtime_scheme, claim_match) M" where
  "claim_target pipe =
     bindM (getsM (\<lambda>s. dict_values (mem_patch_panels s))) (\<lambda>ps.
     bindM (claim_matches pipe ps) (\<lambda>matches.
     liftM (choose_match pipe matches)))"

definition claim_card ::
  "string \<Rightarrow> string \<Rightarrow> int \<Rightarrow> string option \<Rightarrow> ('z mem_runtime_scheme, lease) M" where
  "claim_card pipe worker seconds key =
     idempotently typed_lease key (
       bindM (claim_target pipe) (\<lambda>target.
         case target of (p, bucket, node, None) \<Rightarrow>
           raiseM (NotFoundError (''no claimable cards in bucket '' @ quoted bucket))
         | (p, bucket, node, Some c) \<Rightarrow>
           bindM (new_lease c node worker pipe seconds) (\<lambda>l.
           bindM (put_lease l) (\<lambda>_.
           bindM (new_card_event (card_id c) ''card_claimed'' (Some worker)
                    [(''lease_id'', JStr (uuid_str (lease_id l))), (''input_pipe'', JStr pipe)]) (\<lambda>e.
           bindM (append_event e) (\<lambda>_.
           bindM (store_idempotent key (ILease l)) (\<lambda>_.
           returnM l)))))))"

definition artifact_json :: "artifact_reference \<Rightarrow> json" where
  "artifact_json r =
     JDict [(''id'', JStr (uuid_str (artifact_id r))), (''storage_ref'', JStr (artifact_storage_ref r)),
       (''content_hash'', JStr (artifact_content_hash r)),
       (''content_type'', JStr (artifact_content_type r)),
       (''size_bytes'', JInt (artifact_size_bytes r)), (''metadata'', JDict (artifact_metadata r))]"

definition submit_artifact ::
  "uuid \<Rightarrow> string \<Rightarrow> artifact_reference list \<Rightarrow> string option \<Rightarrow>
     ('z mem_runtime_scheme, artifact_reference list) M" where
  "submit_artifact lid pipe refs key =
     idempotently typed_artifacts key (
       bindM (get_lease lid) (\<lambda>l.
       bindM (ensure_active_lease l) (\<lambda>_.
       bindM (get_card (lease_card_id l)) (\<lambda>c.
       bindM (get_patch_panel_for_card c) (\<lambda>p.
       bindM (liftM (resolve_pipe_bucket p pipe Output)) (\<lambda>(dest, node).
       bindM (liftM (ensure_artifact_refs_belong_to_card (card_id c) refs)) (\<lambda>_.
       bindM (liftM (ensure_artifacts_accepted p dest refs)) (\<lambda>_.
       if node \<noteq> lease_node_id l
       then raiseM (ConflictError (''lease node '' @ quoted (lease_node_id l)
              @ '' cannot submit through node '' @ quoted node))
       else
         bindM (put_card (c\<lparr>card_current_bucket := dest\<rparr>)) (\<lambda>_.
         bindM now_utc (\<lambda>t.
         bindM (put_lease (l\<lparr>lease_released_at := Some t\<rparr>)) (\<lambda>_.
         bindM (new_card_event (card_id c) ''artifact_submitted'' (Some (lease_worker_id l))
                  [(''artifact_ids'', JList (map (JStr \<circ> uuid_str \<circ> artifact_id) refs)),
                   (''artifact_refs'', JList (map artifact_json refs)),
                   (''lease_id'', JStr (uuid_str (lease_id l))),
                   (''output_pipe'', JStr pipe), (''destination_bucket'', JStr dest)]) (\<lambda>e.
         let stored = map (\<lambda>r. r\<lparr>artifact_card_id := card_id c, artifact_event_id := Some (event_id e)\<rparr>) refs
         in
         bindM (put_artifacts stored) (\<lambda>_.
         bindM (append_event e) (\<lambda>_.
         bindM (store_idempotent key (IArtifacts stored)) (\<lambda>_.
         returnM stored)))))))))))))))"

definition renew_lease ::
  "uuid \<Rightarrow> int \<Rightarrow> string option \<Rightarrow> ('z mem_runtime_scheme, lease) M" where
  "renew_lease lid seconds key =
     idempotently typed_lease key (
       bindM (get_lease lid) (\<lambda>l.
       bindM (ensure_active_lease l) (\<lambda>_.
       bindM now_utc (\<lambda>t.
       bindM (liftM (plus_seconds t seconds)) (\<lambda>expires.
       let renewed = l\<lparr>lease_expires_at := expires\<rparr> in
       bindM (put_lease renewed) (\<lambda>_.
       bindM (new_card_event (lease_card_id l) ''lease_renewed'' (Some (lease_worker_id l))
                [(''lease_id'', JStr (uuid_str (lease_id l))),
                 (''expires_at'', JStr (isoformat expires))]) (\<lambda>e.
       bindM (append_event e) (\<lambda>_.
       bindM (store_idempotent key (ILease renewed)) (\<lambda>_.
       returnM renewed)))))))))"

definition release_lease ::
  "uuid \<Rightarrow> string option \<Rightarrow> string option \<Rightarrow> ('z mem_runtime_scheme, lease) M" where
  "release_lease lid actor key =
     idempotently typed_lease key (
       bindM (get_lease lid) (\<lambda>l.
       if lease_released_at l \<noteq> None then returnM l
       else
         bindM now_utc (\<lambda>t.
         let released = l\<lparr>lease_released_at := Some t\<rparr> in
         bindM (put_lease released) (\<lambda>_.
         bindM (new_card_event (lease_card_id l) ''lease_released''
                  (or_else actor (Some (lease_worker_id l)))
                  [(''lease_id'', JStr (uuid_str (lease_id l)))]) (\<lambda>e.
         bindM (append_event e) (\<lambda>_.
         bindM (store_idempotent key (ILease released)) (\<lambda>_.
         returnM released)))))))"

fun expire_each :: "datetime \<Rightarrow> lease list \<Rightarrow> ('z mem_runtime_scheme, lease list) M" where
  "expire_each t [] = returnM []"
| "expire_each t (l # ls) =
     (if lease_released_at l = None \<and> lease_expires_at l \<le> t
      then
        let released = l\<lparr>lease_released_at := Some t\<rparr> in
        bindM (put_lease released) (\<lambda>_.
        bindM (new_card_event (lease_card_id l) ''lease_expired'' (Some (lease_worker_id l))
                 [(''lease_id'', JStr (uuid_str (lease_id l)))]) (\<lambda>e.
        bindM (append_event e) (\<lambda>_.
        bindM (expire_each t ls) (\<lambda>rest.
        returnM (released # rest)))))
      else expire_each t ls)"

definition expire_leases :: "('z mem_runtime_scheme, lease list) M" where
  "expire_leases =
     bindM now_utc (\<lambda>t.
     bindM (getsM (\<lambda>s. dict_values (mem_leases s))) (\<lambda>ls.
     expire_each t ls))"

definition validate_card ::
  "uuid \<Rightarrow> string \<Rightarrow> bool \<Rightarrow> string option \<Rightarrow> string option \<Rightarrow> jdict option \<Rightarrow> string option \<Rightarrow>
     ('z mem_runtime_scheme, card_event) M" where
  "validate_card cid validator accepted reason pipe payload key =
     idempotently typed_event key (
       bindM (get_card cid) (\<lambda>c.
       let event_payload = dict_update [(''accepted'', JBool accepted), (''reason'', opt_json reason)]
             (case payload of None \<Rightarrow> [] | Some d \<Rightarrow> d) in
       bindM (if truthy pipe then
                bindM (get_patch_panel_for_card c) (\<lambda>p.
                bindM (liftM (resolve_pipe_bucket p (the pipe) Output)) (\<lambda>(dest, _).
                bindM (put_card (c\<lparr>card_current_bucket := dest\<rparr>)) (\<lambda>_.
                returnM (dict_set ''destination_bucket'' (JStr dest)
                  (dict_set ''output_pipe'' (JStr (the pipe)) event_payload)))))
              else returnM event_payload) (\<lambda>full_payload.
       bindM (new_card_event (card_id c) ''card_validated'' (Some validator) full_payload) (\<lambda>e.
       bindM (append_event e) (\<lambda>_.
       bindM (store_idempotent key (IEvent e)) (\<lambda>_.
       returnM e))))))"

definition move_card ::
  "uuid \<Rightarrow> string \<Rightarrow> string option \<Rightarrow> string option \<Rightarrow> string option \<Rightarrow>
     ('z mem_runtime_scheme, card) M" where
  "move_card cid to_bucket actor reason key =
     idempotently typed_card key (
       bindM (get_card cid) (\<lambda>c.
       bindM (get_patch_panel_for_card c) (\<lambda>p.
       bindM (liftM (ensure_bucket_exists p to_bucket)) (\<lambda>_.
       let moved = c\<lparr>card_current_bucket := to_bucket\<rparr> in
       bindM (put_card moved) (\<lambda>_.
       bindM (new_card_event (card_id c) ''card_moved'' actor
                [(''from_bucket'', JStr (card_current_bucket c)), (''to_bucket'', JStr to_bucket),
                 (''reason'', opt_json reason)]) (\<lambda>e.
       bindM (append_event e) (\<lambda>_.
       bindM (store_idempotent key (ICard moved)) (\<lambda>_.
       returnM moved))))))))"

definition card_history :: "uuid \<Rightarrow> ('z mem_runtime_scheme, card_event list) M" where
  "card_history cid = bindM (get_card cid) (\<lambda>_. getsM (\<lambda>s. history s cid))"

definition record_event ::
  "uuid \<Rightarrow> string \<Rightarrow> string option \<Rightarrow> jdict option \<Rightarrow> string option \<Rightarrow>
     ('z mem_runtime_scheme, card_event) M" where
  "record_event cid etype actor payload key =
     idempotently typed_event key (
       bindM (get_card cid) (\<lambda>_.
       bindM (new_card_event cid etype actor (case payload of None \<Rightarrow> [] | Some d \<Rightarrow> d)) (\<lambda>e.
       bindM (append_event e) (\<lambda>_.
       bindM (store_idempotent key (IEvent e)) (\<lambda>_.
       returnM e)))))"

definition single_patch_panel :: "('z mem_runtime_scheme, patch_panel) M" where
  "single_patch_panel =
     bindM (getsM (\<lambda>s. dict_values (mem_patch_panels s))) (\<lambda>ps. case ps of
       [] \<Rightarrow> raiseM (NotFoundError ''no Patch Panels are registered'')
     | [p] \<Rightarrow> returnM p
     | _ \<Rightarrow> raiseM (ConflictError
         ''operation requires an explicit Patch Panel when multiple are registered''))"

definition memory_runtime :: "'g networkx \<Rightarrow> 'z mem_runtime_scheme card_runtime" where
  "memory_runtime nx =
     \<lparr>rt_register_patch_panel = register_patch_panel nx,
      rt_list_patch_panels = list_patch_panels,
      rt_create_card = create_card,
      rt_list_cards = list_cards,
      rt_get_card = get_card,
      rt_get_lease = get_lease,
      rt_list_leases = list_leases,
      rt_claim_card = claim_card,
      rt_submit_artifact = submit_artifact,
      rt_renew_lease = renew_lease,
      rt_release_lease = release_lease,
      rt_expire_leases = expire_leases,
      rt_validate_card = validate_card,
      rt_move_card = move_card,
      rt_card_history = card_history,
      rt_record_event = record_event\<rparr>"

end
