(* ===== verification/MemorySteps.thy ===== *)
theory MemorySteps
  imports MemoryRuntime
begin

text \<open>
  What the in-memory runtime promises, as a step relation. \<open>mem_step\<close> has one rule per kind of
  change: each carries the guards of the operation and the whole change of the six dictionaries.
  \<open>mem_ok\<close> is the invariant of the store and \<open>exclusive_leases\<close> the promise that a card has at
  most one holder; both are kept by every step, and histories only grow. The theory
  \<^verbatim>\<open>MemoryRefinement\<close> shows that the operations take exactly these steps.
\<close>

section \<open>Steps\<close>

text \<open>No lease of the card is active at time \<open>x\<close>.\<close>

definition unleased :: "(uuid, lease) dict \<Rightarrow> uuid \<Rightarrow> datetime \<Rightarrow> bool" where
  "unleased leases cid x \<longleftrightarrow>
     (\<forall>i l. dict_get leases i = Some l \<and> lease_card_id l = cid \<longrightarrow> \<not> lease_active x l)"

inductive mem_step :: "'z mem_runtime_scheme \<Rightarrow> 'z mem_runtime_scheme \<Rightarrow> bool" where
  tick: "advance s t \<Longrightarrow> mem_step s t"
| register: "well_formed_panel p \<Longrightarrow>
    mem_step s (s\<lparr>mem_patch_panels := dict_set (panel_id p) p (mem_patch_panels s)\<rparr>)"
| create: "\<lbrakk>advance s t; drawn s t (card_id c); drawn s t (event_id e);
    dict_get (mem_patch_panels s) (panel_id p) = Some p;
    card_workflow_version c = workflow_version_id p;
    resolve_initial_bucket p = Inr (card_current_bucket c);
    event_card_id e = card_id c; event_type e = ''card_created'';
    cached key (mem_idempotency s) = None\<rbrakk> \<Longrightarrow>
    mem_step s (t\<lparr>mem_cards := dict_set (card_id c) c (mem_cards s),
      mem_events := logged e (mem_events s),
      mem_idempotency := remember key (ICard c) (mem_idempotency s)\<rparr>)"
| claim: "\<lbrakk>advance s t; drawn s t (lease_id l); drawn s t (event_id e); observed s t x;
    dict_get (mem_cards s) (lease_card_id l) = Some c; unleased (mem_leases s) (lease_card_id l) x;
    lease_released_at l = None; event_card_id e = lease_card_id l;
    cached key (mem_idempotency s) = None\<rbrakk> \<Longrightarrow>
    mem_step s (t\<lparr>mem_leases := dict_set (lease_id l) l (mem_leases s),
      mem_events := logged e (mem_events s),
      mem_idempotency := remember key (ILease l) (mem_idempotency s)\<rparr>)"
| renew: "\<lbrakk>advance s t; drawn s t (event_id e); observed s t x;
    dict_get (mem_leases s) (lease_id l) = Some l; lease_active x l;
    event_card_id e = lease_card_id l; cached key (mem_idempotency s) = None\<rbrakk> \<Longrightarrow>
    mem_step s (t\<lparr>mem_leases := dict_set (lease_id l) (l\<lparr>lease_expires_at := y\<rparr>) (mem_leases s),
      mem_events := logged e (mem_events s),
      mem_idempotency := remember key (ILease (l\<lparr>lease_expires_at := y\<rparr>)) (mem_idempotency s)\<rparr>)"
| release: "\<lbrakk>advance s t; drawn s t (event_id e);
    dict_get (mem_leases s) (lease_id l) = Some l; lease_released_at l = None;
    event_card_id e = lease_card_id l; cached key (mem_idempotency s) = None\<rbrakk> \<Longrightarrow>
    mem_step s (t\<lparr>mem_leases := dict_set (lease_id l) (l\<lparr>lease_released_at := Some y\<rparr>) (mem_leases s),
      mem_events := logged e (mem_events s),
      mem_idempotency := remember key (ILease (l\<lparr>lease_released_at := Some y\<rparr>)) (mem_idempotency s)\<rparr>)"
| submit: "\<lbrakk>advance s t; drawn s t (event_id e); observed s t x;
    dict_get (mem_leases s) (lease_id l) = Some l; lease_active x l;
    dict_get (mem_cards s) (card_id c) = Some c; lease_card_id l = card_id c;
    dict_get (mem_patch_panels s) (rsplit_colon (card_workflow_version c)) = Some p;
    resolve_pipe_bucket p pipe Output = Inr (dest, lease_node_id l);
    ensure_artifacts_accepted p dest refs = Inr ();
    refs \<noteq> []; \<forall>r \<in> set refs. artifact_card_id r = card_id c;
    event_card_id e = card_id c; cached key (mem_idempotency s) = None;
    stored = map (\<lambda>r. r\<lparr>artifact_event_id := Some (event_id e)\<rparr>) refs\<rbrakk> \<Longrightarrow>
    mem_step s (t\<lparr>mem_cards := dict_set (card_id c) (c\<lparr>card_current_bucket := dest\<rparr>) (mem_cards s),
      mem_leases := dict_set (lease_id l) (l\<lparr>lease_released_at := Some y\<rparr>) (mem_leases s),
      mem_artifacts := store_artifacts stored (mem_artifacts s),
      mem_events := logged e (mem_events s),
      mem_idempotency := remember key (IArtifacts stored) (mem_idempotency s)\<rparr>)"
| place: "\<lbrakk>advance s t; drawn s t (event_id e);
    dict_get (mem_cards s) (card_id c) = Some c; event_card_id e = card_id c;
    dict_get (mem_patch_panels s) (rsplit_colon (card_workflow_version c)) = Some p;
    well_formed_panel p \<Longrightarrow> dest \<in> panel_bucket_ids p;
    cached key (mem_idempotency s) = None;
    v = ICard (c\<lparr>card_current_bucket := dest\<rparr>) \<or> v = IEvent e\<rbrakk> \<Longrightarrow>
    mem_step s (t\<lparr>mem_cards := dict_set (card_id c) (c\<lparr>card_current_bucket := dest\<rparr>) (mem_cards s),
      mem_events := logged e (mem_events s),
      mem_idempotency := remember key v (mem_idempotency s)\<rparr>)"
| annotate: "\<lbrakk>advance s t; drawn s t (event_id e);
    dict_get (mem_cards s) (event_card_id e) = Some c;
    cached key (mem_idempotency s) = None\<rbrakk> \<Longrightarrow>
    mem_step s (t\<lparr>mem_events := logged e (mem_events s),
      mem_idempotency := remember key (IEvent e) (mem_idempotency s)\<rparr>)"

abbreviation mem_steps :: "'z mem_runtime_scheme \<Rightarrow> 'z mem_runtime_scheme \<Rightarrow> bool" where
  "mem_steps \<equiv> mem_step\<^sup>*\<^sup>*"

section \<open>The invariant of the store\<close>

definition panels_ok :: "'z mem_runtime_scheme \<Rightarrow> bool" where
  "panels_ok s \<longleftrightarrow> py.keyed panel_id (mem_patch_panels s) \<and>
     (\<forall>i p. dict_get (mem_patch_panels s) i = Some p \<longrightarrow> well_formed_panel p)"

definition cards_ok :: "'z mem_runtime_scheme \<Rightarrow> bool" where
  "cards_ok s \<longleftrightarrow> py.keyed card_id (mem_cards s) \<and> dom (dict_get (mem_cards s)) \<subseteq> issued s"

definition leases_ok :: "'z mem_runtime_scheme \<Rightarrow> bool" where
  "leases_ok s \<longleftrightarrow> py.keyed lease_id (mem_leases s) \<and> dom (dict_get (mem_leases s)) \<subseteq> issued s \<and>
     (\<forall>i l. dict_get (mem_leases s) i = Some l \<longrightarrow> lease_card_id l \<in> dom (dict_get (mem_cards s)))"

text \<open>
  Every card has a history, which starts with its creation and holds only its own events, no
  identifier twice.
\<close>

definition history_ok :: "uuid set \<Rightarrow> uuid \<Rightarrow> card_event list \<Rightarrow> bool" where
  "history_ok ids cid evs \<longleftrightarrow> evs \<noteq> [] \<and> event_type (hd evs) = ''card_created'' \<and>
     (\<forall>e \<in> set evs. event_card_id e = cid) \<and> distinct (map event_id evs) \<and> event_id ` set evs \<subseteq> ids"

definition events_ok :: "'z mem_runtime_scheme \<Rightarrow> bool" where
  "events_ok s \<longleftrightarrow> dict_ok (mem_events s) \<and>
     dom (dict_get (mem_events s)) = dom (dict_get (mem_cards s)) \<and>
     (\<forall>cid \<in> dom (dict_get (mem_cards s)). history_ok (issued s) cid (history s cid))"

text \<open>A stored artifact belongs to a card and to an event of that card.\<close>

definition artifacts_ok :: "'z mem_runtime_scheme \<Rightarrow> bool" where
  "artifacts_ok s \<longleftrightarrow> py.keyed artifact_id (mem_artifacts s) \<and>
     (\<forall>i r. dict_get (mem_artifacts s) i = Some r \<longrightarrow>
        (\<exists>e \<in> set (history s (artifact_card_id r)). artifact_event_id r = Some (event_id e)))"

text \<open>A remembered result is an object of the store.\<close>

fun result_ok :: "'z mem_runtime_scheme \<Rightarrow> idempotent \<Rightarrow> bool" where
  "result_ok s (ICard c) \<longleftrightarrow> card_id c \<in> dom (dict_get (mem_cards s))"
| "result_ok s (ILease l) \<longleftrightarrow> lease_id l \<in> dom (dict_get (mem_leases s))"
| "result_ok s (IEvent e) \<longleftrightarrow> e \<in> set (history s (event_card_id e))"
| "result_ok s (IArtifacts refs) \<longleftrightarrow> refs \<noteq> [] \<and>
     (\<forall>r \<in> set refs. artifact_id r \<in> dom (dict_get (mem_artifacts s)))"

definition results_ok :: "'z mem_runtime_scheme \<Rightarrow> bool" where
  "results_ok s \<longleftrightarrow> dict_ok (mem_idempotency s) \<and>
     (\<forall>key v. dict_get (mem_idempotency s) key = Some v \<longrightarrow> result_ok s v)"

definition mem_ok :: "'z mem_runtime_scheme \<Rightarrow> bool" where
  "mem_ok s \<longleftrightarrow> fresh_uuids s \<and> panels_ok s \<and> cards_ok s \<and> leases_ok s \<and> events_ok s \<and>
     artifacts_ok s \<and> results_ok s"

lemmas mem_ok_defs = panels_ok_def cards_ok_def leases_ok_def events_ok_def artifacts_ok_def
  results_ok_def

text \<open>At most one lease of a card is active, now and at any later reading of the clock.\<close>

definition exclusive_leases :: "'z mem_runtime_scheme \<Rightarrow> bool" where
  "exclusive_leases s \<longleftrightarrow>
     (\<forall>i l j m. dict_get (mem_leases s) i = Some l \<and> dict_get (mem_leases s) j = Some m \<and>
        lease_card_id l = lease_card_id m \<and> lease_active (next_reading s) l \<and>
        lease_active (next_reading s) m \<longrightarrow> i = j)"

section \<open>How the writes act on the dictionaries\<close>

named_theorems store_simps \<open>the dictionaries after a write\<close>

lemma advance_store [store_simps]:
  assumes "advance s t"
  shows "mem_patch_panels t = mem_patch_panels s" "mem_cards t = mem_cards s"
    "mem_leases t = mem_leases s" "mem_artifacts t = mem_artifacts s"
    "mem_events t = mem_events s" "mem_idempotency t = mem_idempotency s"
  using assms by (auto simp: advance_def)

lemma recorded_logged [store_simps]:
  "recorded_events (logged e d) cid =
     (if cid = event_card_id e then recorded_events d cid @ [e] else recorded_events d cid)"
  by (simp add: logged_def recorded_events_def)

lemma logged_dom [store_simps]:
  "dom (dict_get (logged e d)) = insert (event_card_id e) (dom (dict_get d))"
  by (simp add: logged_def)

lemma logged_ok [store_simps]: "dict_ok d \<Longrightarrow> dict_ok (logged e d)"
  unfolding logged_def by (rule dict_ok_set)

lemma remember_ok: "dict_ok d \<Longrightarrow> dict_ok (remember key v d)"
  by (simp add: remember_def)

lemma remember_get [store_simps]:
  "dict_get (remember key v d) k = (if key = Some k \<and> k \<noteq> [] then Some v else dict_get d k)"
  by (cases key) (auto simp: remember_def)

lemma store_artifacts_keyed:
  "py.keyed artifact_id d \<Longrightarrow> py.keyed artifact_id (store_artifacts refs d)"
  unfolding store_artifacts_def by (induction refs arbitrary: d) (auto intro: py.keyed_put)

lemma store_artifacts_get:
  "dict_get (store_artifacts refs d) i = Some r \<Longrightarrow>
     r \<in> set refs \<or> dict_get d i = Some r"
  unfolding store_artifacts_def
  by (induction refs arbitrary: d) (fastforce split: if_splits)+

lemma store_artifacts_dom [store_simps]:
  "dom (dict_get (store_artifacts refs d)) = artifact_id ` set refs \<union> dom (dict_get d)"
  unfolding store_artifacts_def by (induction refs arbitrary: d) auto

lemma issued_writes [store_simps]:
  "issued (s\<lparr>mem_patch_panels := a\<rparr>) = issued s" "issued (s\<lparr>mem_cards := b\<rparr>) = issued s"
  "issued (s\<lparr>mem_leases := c\<rparr>) = issued s" "issued (s\<lparr>mem_artifacts := d\<rparr>) = issued s"
  "issued (s\<lparr>mem_events := f\<rparr>) = issued s" "issued (s\<lparr>mem_idempotency := g\<rparr>) = issued s"
  by (simp_all add: issued_def)

lemma next_reading_writes [store_simps]:
  "next_reading (s\<lparr>mem_patch_panels := a\<rparr>) = next_reading s"
  "next_reading (s\<lparr>mem_cards := b\<rparr>) = next_reading s"
  "next_reading (s\<lparr>mem_leases := c\<rparr>) = next_reading s"
  "next_reading (s\<lparr>mem_artifacts := d\<rparr>) = next_reading s"
  "next_reading (s\<lparr>mem_events := f\<rparr>) = next_reading s"
  "next_reading (s\<lparr>mem_idempotency := g\<rparr>) = next_reading s"
  by (simp_all add: next_reading_def)

section \<open>Every step keeps the invariant\<close>

lemma step_world:
  assumes "mem_step s s'"
  shows "fresh_uuids s' = fresh_uuids s" and "steady_clock s' = steady_clock s"
    and "issued s \<subseteq> issued s'"
  using assms
  by (cases rule: mem_step.cases; auto simp: fresh_uuids_def steady_clock_def advance_src store_simps
      dest: advance_issued)+

lemma step_panels:
  assumes "mem_step s s'" and "panels_ok s"
  shows "panels_ok s'"
  using assms
  by (cases rule: mem_step.cases) (auto simp: panels_ok_def store_simps intro: py.keyed_put)

lemma step_cards:
  assumes "mem_step s s'" and "cards_ok s"
  shows "cards_ok s'"
  using assms step_world(3) [OF assms(1)]
  by (cases rule: mem_step.cases)
     (auto simp: cards_ok_def store_simps intro: py.keyed_put drawn_issued)

lemma step_leases:
  assumes "mem_step s s'" and "leases_ok s"
  shows "leases_ok s'"
  using assms step_world(3) [OF assms(1)]
  by (cases rule: mem_step.cases)
     (auto simp: leases_ok_def store_simps intro: py.keyed_put drawn_issued)

text \<open>
  What a step does to the histories: nothing, or one event with a new identifier, appended to the
  history of a card of the store or starting the history of a new card.
\<close>

definition appends :: "'z mem_runtime_scheme \<Rightarrow> 'z mem_runtime_scheme \<Rightarrow> card_event \<Rightarrow> bool" where
  "appends s s' e \<longleftrightarrow> mem_events s' = logged e (mem_events s) \<and>
     event_id e \<in> issued s' - issued s \<and>
     dom (dict_get (mem_cards s')) = insert (event_card_id e) (dom (dict_get (mem_cards s))) \<and>
     (event_card_id e \<in> dom (dict_get (mem_cards s)) \<or>
      event_card_id e \<notin> issued s \<and> event_type e = ''card_created'')"

lemma appends_intro:
  assumes "advance s t" and "fresh_uuids s" and "drawn s t (event_id e)"
    and "mem_events s' = logged e (mem_events s)" and "issued s' = issued t"
    and "dom (dict_get (mem_cards s')) = insert (event_card_id e) (dom (dict_get (mem_cards s)))"
    and "event_card_id e \<in> dom (dict_get (mem_cards s)) \<or>
      event_card_id e \<notin> issued s \<and> event_type e = ''card_created''"
  shows "\<exists>e. appends s s' e"
  using assms by (auto simp: appends_def drawn_issued drawn_not_issued)

definition quiet :: "'z mem_runtime_scheme \<Rightarrow> 'z mem_runtime_scheme \<Rightarrow> bool" where
  "quiet s s' \<longleftrightarrow> mem_events s' = mem_events s \<and>
     dom (dict_get (mem_cards s')) = dom (dict_get (mem_cards s))"

lemma quiet_tick: "advance s t \<Longrightarrow> quiet s t"
  by (simp add: quiet_def store_simps)

lemma quiet_register: "quiet s (s\<lparr>mem_patch_panels := d\<rparr>)"
  by (simp add: quiet_def)

lemma lease_card_known:
  "leases_ok s \<Longrightarrow> dict_get (mem_leases s) i = Some l \<Longrightarrow>
     \<exists>c. dict_get (mem_cards s) (lease_card_id l) = Some c"
  by (auto simp: leases_ok_def)

lemma step_appends:
  assumes "mem_step s s'" and "fresh_uuids s" and "leases_ok s"
  shows "quiet s s' \<or> (\<exists>e. appends s s' e)"
proof (cases "quiet s s'")
  case loud: False
  have "\<exists>e. appends s s' e"
    using assms loud
    by (cases rule: mem_step.cases)
       (auto simp: store_simps quiet_tick quiet_register insert_absorb intro!: appends_intro
         dest: drawn_not_issued lease_card_known)
  then show ?thesis ..
qed simp

text \<open>So histories only grow, and stay well formed.\<close>

lemma history_ok_append:
  "history_ok ids cid evs \<Longrightarrow> event_card_id e = cid \<Longrightarrow> event_id e \<in> ids' - ids \<Longrightarrow> ids \<subseteq> ids' \<Longrightarrow>
     history_ok ids' cid (evs @ [e])"
  by (auto simp: history_ok_def)

lemma history_ok_mono: "history_ok ids cid evs \<Longrightarrow> ids \<subseteq> ids' \<Longrightarrow> history_ok ids' cid evs"
  by (auto simp: history_ok_def)

lemma step_events:
  assumes step: "mem_step s s'" and ok: "fresh_uuids s" "leases_ok s" "cards_ok s" "events_ok s"
  shows "events_ok s'"
proof -
  have ids: "issued s \<subseteq> issued s'" using step by (rule step_world)
  from step_appends [OF step ok(1,2)] show ?thesis
  proof (elim disjE exE)
    assume "quiet s s'"
    with ok(4) ids show ?thesis by (auto simp: quiet_def events_ok_def intro: history_ok_mono)
  next
    fix e assume e: "appends s s' e"
    have "history_ok (issued s') cid (history s' cid)" if "cid \<in> dom (dict_get (mem_cards s'))" for cid
    proof (cases "cid = event_card_id e")
      case False
      with e ok(4) ids that show ?thesis
        by (auto simp: appends_def events_ok_def store_simps intro: history_ok_mono)
    next
      case True
      show ?thesis
      proof (cases "cid \<in> dom (dict_get (mem_cards s))")
        case old: True
        with ok(4) have "history_ok (issued s) cid (history s cid)" by (auto simp: events_ok_def)
        with e ids True show ?thesis
          by (auto simp: appends_def store_simps intro: history_ok_append)
      next
        case False
        with ok(4) have "history s cid = []"
          by (auto simp: events_ok_def recorded_events_def split: option.splits)
        with e True False show ?thesis by (auto simp: appends_def store_simps history_ok_def)
      qed
    qed
    with e ok(4) show ?thesis by (auto simp: appends_def events_ok_def store_simps)
  qed
qed

lemma step_history:
  assumes "mem_step s s'" and "fresh_uuids s" and "leases_ok s"
  shows "prefix (history s cid) (history s' cid)"
  using step_appends [OF assms] by (auto simp: quiet_def appends_def store_simps)

lemma step_history_set:
  assumes "mem_step s s'" and "fresh_uuids s" and "leases_ok s"
  shows "set (history s cid) \<subseteq> set (history s' cid)"
  using step_history [OF assms] by (rule set_mono_prefix)

lemma step_artifacts:
  assumes step: "mem_step s s'" and ok: "fresh_uuids s" "leases_ok s" "artifacts_ok s"
  shows "artifacts_ok s'"
proof -
  have keep: "\<exists>e \<in> set (history s' (artifact_card_id r)). artifact_event_id r = Some (event_id e)"
    if "dict_get (mem_artifacts s) i = Some r" for i r
    using that ok(3) step_history_set [OF step ok(1,2)] by (fastforce simp: artifacts_ok_def)
  have "dict_get (mem_artifacts s') i = Some r \<longrightarrow> dict_get (mem_artifacts s) i = Some r \<or>
     (\<exists>e \<in> set (history s' (artifact_card_id r)). artifact_event_id r = Some (event_id e))" for i r
    using step
    by (cases rule: mem_step.cases) (auto simp: store_simps dest!: store_artifacts_get)
  moreover have "py.keyed artifact_id (mem_artifacts s')"
    using step ok(3)
    by (cases rule: mem_step.cases) (auto simp: artifacts_ok_def store_simps store_artifacts_keyed)
  ultimately show ?thesis unfolding artifacts_ok_def using keep by blast
qed

text \<open>The identifiers of cards, leases and artifacts stay known.\<close>

lemma step_known:
  assumes "mem_step s s'"
  shows "dom (dict_get (mem_cards s)) \<subseteq> dom (dict_get (mem_cards s'))"
    and "dom (dict_get (mem_leases s)) \<subseteq> dom (dict_get (mem_leases s'))"
    and "dom (dict_get (mem_artifacts s)) \<subseteq> dom (dict_get (mem_artifacts s'))"
  using assms by (cases rule: mem_step.cases; auto simp: store_simps store_artifacts_dom)+

lemma step_result_ok:
  assumes step: "mem_step s s'" and ok: "fresh_uuids s" "leases_ok s" and "result_ok s v"
  shows "result_ok s' v"
  using assms(4) step_known [OF step] step_history_set [OF step ok]
  by (cases v) (simp_all, blast+)

lemma step_results:
  assumes step: "mem_step s s'" and ok: "fresh_uuids s" "leases_ok s" "results_ok s"
  shows "results_ok s'"
proof -
  have "dict_get (mem_idempotency s') k = Some v \<longrightarrow> dict_get (mem_idempotency s) k = Some v \<or>
     result_ok s' v" for k v
    using step by (cases rule: mem_step.cases) (auto simp: store_simps store_artifacts_dom image_image)
  moreover have "dict_ok (mem_idempotency s')"
    using step ok(3)
    by (cases rule: mem_step.cases) (auto simp: results_ok_def store_simps remember_ok)
  ultimately show ?thesis
    using ok(3) step_result_ok [OF step ok(1,2)] unfolding results_ok_def by blast
qed

lemma step_mem_ok: "mem_step s s' \<Longrightarrow> mem_ok s \<Longrightarrow> mem_ok s'"
  by (simp add: mem_ok_def step_world step_panels step_cards step_leases step_events step_artifacts
      step_results)

text \<open>A remembered result is never replaced.\<close>

lemma step_idempotency:
  assumes "mem_step s s'" and "results_ok s" and "dict_get (mem_idempotency s) k = Some v"
  shows "dict_get (mem_idempotency s') k = Some v"
proof -
  have "idempotent_true v" using assms(2,3) by (cases v) (force simp: results_ok_def)+
  with assms(3) have "k \<noteq> [] \<Longrightarrow> cached (Some k) (mem_idempotency s) = Some v"
    by (simp add: cached_def)
  with assms show ?thesis
    by (cases rule: mem_step.cases) (auto simp: store_simps)
qed

section \<open>One holder per card\<close>

lemma lease_active_mono: "lease_active x l \<Longrightarrow> y \<le> x \<Longrightarrow> lease_active y l"
  by (simp add: lease_active_def)

lemma exclusiveD:
  "exclusive_leases s \<Longrightarrow> dict_get (mem_leases s) i = Some l \<Longrightarrow> dict_get (mem_leases s) j = Some m \<Longrightarrow>
     lease_card_id l = lease_card_id m \<Longrightarrow> next_reading s \<le> x \<Longrightarrow> next_reading s \<le> y \<Longrightarrow>
     lease_active x l \<Longrightarrow> lease_active y m \<Longrightarrow> i = j"
  unfolding exclusive_leases_def by (blast intro: lease_active_mono)

lemma exclusive_shrink:
  assumes "exclusive_leases s" and "next_reading s \<le> next_reading s'"
    and "\<And>i l. dict_get (mem_leases s') i = Some l \<Longrightarrow> lease_released_at l = None \<Longrightarrow>
      dict_get (mem_leases s) i = Some l"
  shows "exclusive_leases s'"
  unfolding exclusive_leases_def
  using exclusiveD [OF assms(1)] assms(2,3) by (auto simp: lease_active_def)

lemma step_reading: "mem_step s s' \<Longrightarrow> steady_clock s \<Longrightarrow> next_reading s \<le> next_reading s'"
  by (cases rule: mem_step.cases) (auto simp: store_simps advance_reading)

lemma step_exclusive:
  assumes step: "mem_step s s'" and clock: "steady_clock s" and ok: "leases_ok s"
    and ex: "exclusive_leases s"
  shows "exclusive_leases s'"
  using step
proof (cases rule: mem_step.cases)
  case (claim t l e x c key)
  have now: "next_reading s \<le> next_reading t" "x \<le> next_reading t"
    using clock claim by (auto intro: advance_reading observed_bounds)
  have free: "\<not> lease_active (next_reading t) m"
    if "dict_get (mem_leases s) j = Some m" "lease_card_id m = lease_card_id l" for j m
    using claim that now lease_active_mono by (fastforce simp: unleased_def)
  show ?thesis
    unfolding exclusive_leases_def claim store_simps
    using free now(1) exclusiveD [OF ex] by (auto simp: claim store_simps)
next
  case (renew t e x l key y)
  have now: "next_reading s \<le> next_reading t" "next_reading s \<le> x"
    using clock renew by (auto intro: advance_reading observed_bounds)
  have only: "j = lease_id l"
    if "dict_get (mem_leases s) j = Some m" "lease_card_id m = lease_card_id l"
      "lease_active (next_reading t) m" for j m
    using exclusiveD [OF ex that(1) _ that(2) now(1) now(2) that(3)] renew by blast
  show ?thesis
    unfolding exclusive_leases_def renew store_simps
    using only now(1) exclusiveD [OF ex] by (auto simp: renew store_simps)
qed (rule exclusive_shrink [OF ex step_reading [OF step clock]];
  auto simp: store_simps split: if_splits)+

section \<open>Runs of the store\<close>

lemma steps_mem_ok: "mem_steps s s' \<Longrightarrow> mem_ok s \<Longrightarrow> mem_ok s'"
  by (induction rule: rtranclp_induct) (auto intro: step_mem_ok)

lemma steps_history:
  assumes "mem_steps s s'" and "mem_ok s"
  shows "prefix (history s cid) (history s' cid)"
  using assms
proof (induction rule: rtranclp_induct)
  case (step t u)
  from steps_mem_ok [OF step.hyps(1) step.prems] have "prefix (history t cid) (history u cid)"
    by (auto simp: mem_ok_def intro: step_history [OF step.hyps(2)])
  with step show ?case by (meson prefix_order.trans)
qed simp

lemma steps_clock: "mem_steps s s' \<Longrightarrow> steady_clock s' = steady_clock s"
  by (induction rule: rtranclp_induct) (auto simp: step_world)

lemma steps_exclusive:
  assumes "mem_steps s s'" and "mem_ok s" and "steady_clock s" and "exclusive_leases s"
  shows "exclusive_leases s'"
  using assms
proof (induction rule: rtranclp_induct)
  case (step t u)
  then show ?case
    using steps_mem_ok [OF step.hyps(1)] steps_clock [OF step.hyps(1)]
    by (auto simp: mem_ok_def intro: step_exclusive [OF step.hyps(2)])
qed

lemma steps_idempotency:
  assumes "mem_steps s s'" and "mem_ok s" and "dict_get (mem_idempotency s) k = Some v"
  shows "dict_get (mem_idempotency s') k = Some v"
  using assms
proof (induction rule: rtranclp_induct)
  case (step t u)
  then show ?case
    using steps_mem_ok [OF step.hyps(1)] step_idempotency [OF step.hyps(2)] by (auto simp: mem_ok_def)
qed

text \<open>
  What never changes: the workflow version, payload, metadata and creation time of a card, the
  card, node, worker, pipe and claim time of a lease, and everything of a released lease.
\<close>

definition same_card :: "card \<Rightarrow> card \<Rightarrow> bool" where
  "same_card c d \<longleftrightarrow> (\<exists>b. d = c\<lparr>card_current_bucket := b\<rparr>)"

definition same_lease :: "lease \<Rightarrow> lease \<Rightarrow> bool" where
  "same_lease l m \<longleftrightarrow> (\<exists>x y. m = l\<lparr>lease_expires_at := x, lease_released_at := y\<rparr>) \<and>
     (lease_released_at l \<noteq> None \<longrightarrow> m = l)"

definition identities_kept :: "'z mem_runtime_scheme \<Rightarrow> 'z mem_runtime_scheme \<Rightarrow> bool" where
  "identities_kept s s' \<longleftrightarrow>
     (\<forall>i c. dict_get (mem_cards s) i = Some c \<longrightarrow>
        (\<exists>d. dict_get (mem_cards s') i = Some d \<and> same_card c d)) \<and>
     (\<forall>i l. dict_get (mem_leases s) i = Some l \<longrightarrow>
        (\<exists>m. dict_get (mem_leases s') i = Some m \<and> same_lease l m))"

lemma same_card_refl: "same_card c c"
  unfolding same_card_def by (rule exI [of _ "card_current_bucket c"]) simp

lemma same_card_trans: "same_card c d \<Longrightarrow> same_card d f \<Longrightarrow> same_card c f"
  unfolding same_card_def by auto

lemma same_lease_refl: "same_lease l l"
  unfolding same_lease_def
  by (rule conjI, rule exI [of _ "lease_expires_at l"], rule exI [of _ "lease_released_at l"]) simp_all

lemma same_lease_trans: "same_lease l m \<Longrightarrow> same_lease m n \<Longrightarrow> same_lease l n"
  unfolding same_lease_def by (auto, blast+)

interpretation identities: evolution identities_kept
proof unfold_locales
  show "identities_kept s s" for s :: "'a mem_runtime_scheme"
    by (auto simp: identities_kept_def intro: same_card_refl same_lease_refl)
  show "identities_kept s t \<Longrightarrow> identities_kept t u \<Longrightarrow> identities_kept s u"
    for s t u :: "'a mem_runtime_scheme"
    unfolding identities_kept_def by (meson same_card_trans same_lease_trans)
qed

lemma same_card_bucket: "same_card c (c\<lparr>card_current_bucket := b\<rparr>)"
  by (auto simp: same_card_def)

lemma same_lease_open:
  "lease_released_at l = None \<Longrightarrow> same_lease l (l\<lparr>lease_released_at := y\<rparr>)"
  "lease_released_at l = None \<Longrightarrow> same_lease l (l\<lparr>lease_expires_at := x\<rparr>)"
  unfolding same_lease_def
  by (rule conjI, rule exI [of _ "lease_expires_at l"], rule exI [of _ y], simp_all)
     (rule exI [of _ x], rule exI [of _ None], simp)

lemma step_identities:
  assumes step: "mem_step s s'" and ok: "fresh_uuids s" "cards_ok s" "leases_ok s"
  shows "identities_kept s s'"
proof -
  have new: "drawn s t i \<Longrightarrow> i \<notin> dom (dict_get (mem_cards s)) \<and> i \<notin> dom (dict_get (mem_leases s))" for t i
    using ok drawn_not_issued [OF ok(1)] by (auto simp: cards_ok_def leases_ok_def)
  have cards: "\<exists>d. dict_get (mem_cards s') i = Some d \<and> same_card c d"
    if "dict_get (mem_cards s) i = Some c" for i c
    using step that
    by (cases rule: mem_step.cases)
       (auto simp: store_simps intro: same_card_refl same_card_bucket dest!: new)
  have leases: "\<exists>m. dict_get (mem_leases s') i = Some m \<and> same_lease l m"
    if "dict_get (mem_leases s) i = Some l" for i l
    using step that
    by (cases rule: mem_step.cases)
       (auto simp: store_simps lease_active_def intro: same_lease_refl same_lease_open dest!: new)
  from cards leases show ?thesis by (auto simp: identities_kept_def)
qed

lemma steps_identities:
  assumes "mem_steps s s'" and "mem_ok s"
  shows "identities_kept s s'"
  using assms
proof (induction rule: rtranclp_induct)
  case (step t u)
  from steps_mem_ok [OF step.hyps(1) step.prems] have "identities_kept t u"
    by (auto simp: mem_ok_def intro: step_identities [OF step.hyps(2)])
  with step show ?case by (meson identities.R_trans)
qed (rule identities.R_refl)

end
