(* ===== verification/MemoryRefinement.thy ===== *)
theory MemoryRefinement
  imports MemorySteps
begin

text \<open>
  The operations of \<^verbatim>\<open>InMemoryCardRuntime\<close> refine the step relation: an operation that returns
  takes the step its name says (a replay of a remembered call takes none), an operation that raises
  changes nothing but the identifiers drawn and the clock. The invariants of \<^verbatim>\<open>MemorySteps\<close> then
  hold after every sequence of calls.
\<close>

section \<open>Weakest preconditions of the building blocks\<close>

lemma wp_idempotently [wp_rules]:
  "wp (idempotently typed key body) Q E s =
     (case cached key (mem_idempotency s) of
        None \<Rightarrow> wp body Q E s
      | Some v \<Rightarrow> (case typed v of Inl e \<Rightarrow> E e s | Inr x \<Rightarrow> Q x s))"
  unfolding idempotently_def get_idempotent_def wp_rules ..

lemma wp_get_card [wp_rules]:
  "wp (get_card cid) Q E s =
     (case dict_get (mem_cards s) cid of
        None \<Rightarrow> E (NotFoundError (''card '' @ quoted (uuid_str cid) @ '' does not exist'')) s
      | Some c \<Rightarrow> Q c s)"
  unfolding get_card_def wp_rules ..

lemma wp_get_lease [wp_rules]:
  "wp (get_lease lid) Q E s =
     (case dict_get (mem_leases s) lid of
        None \<Rightarrow> E (NotFoundError (''lease '' @ quoted (uuid_str lid) @ '' does not exist'')) s
      | Some l \<Rightarrow> Q l s)"
  unfolding get_lease_def wp_rules ..

lemma wp_get_patch_panel [wp_rules]:
  "wp (get_patch_panel pid) Q E s =
     (case dict_get (mem_patch_panels s) pid of
        None \<Rightarrow> E (NotFoundError (''Patch Panel '' @ quoted pid @ '' is not registered'')) s
      | Some p \<Rightarrow> Q p s)"
  unfolding get_patch_panel_def wp_rules ..

lemma wp_get_patch_panel_for_card [wp_rules]:
  "wp (get_patch_panel_for_card c) Q E s = wp (get_patch_panel (rsplit_colon (card_workflow_version c))) Q E s"
  by (simp add: get_patch_panel_for_card_def)

section \<open>Creating a card\<close>

text \<open>The objects an operation makes from the identifiers and readings at given positions.\<close>

definition event_at ::
  "'z world_scheme \<Rightarrow> nat \<Rightarrow> nat \<Rightarrow> uuid \<Rightarrow> string \<Rightarrow> string option \<Rightarrow> jdict \<Rightarrow> card_event" where
  "event_at s n k cid etype actor payload =
     \<lparr>event_id = uuid_src s n, event_card_id = cid, event_type = etype, event_actor_id = actor,
      event_payload = payload, event_occurred_at = clock_src s k\<rparr>"

definition card_at :: "'z world_scheme \<Rightarrow> nat \<Rightarrow> nat \<Rightarrow> string \<Rightarrow> string \<Rightarrow> jdict \<Rightarrow> jdict \<Rightarrow> card" where
  "card_at s n k wv bucket payload metadata =
     \<lparr>card_id = uuid_src s n, card_workflow_version = wv, card_current_bucket = bucket,
      card_payload = payload, card_metadata = metadata, card_created_at = clock_src s k\<rparr>"

lemma event_at_sel [simp]:
  "event_id (event_at s n k cid ty a d) = uuid_src s n"
  "event_card_id (event_at s n k cid ty a d) = cid" "event_type (event_at s n k cid ty a d) = ty"
  "event_payload (event_at s n k cid ty a d) = d" "event_actor_id (event_at s n k cid ty a d) = a"
  by (simp_all add: event_at_def)

lemma card_at_sel [simp]:
  "card_id (card_at s n k wv b d m) = uuid_src s n"
  "card_workflow_version (card_at s n k wv b d m) = wv"
  "card_current_bucket (card_at s n k wv b d m) = b"
  "card_payload (card_at s n k wv b d m) = d" "card_metadata (card_at s n k wv b d m) = m"
  by (simp_all add: card_at_def)

lemma run_new_card_event [exec]:
  "new_card_event cid ty a d s =
     (Inr (event_at s (uuid_pos s) (clock_pos s) cid ty a d),
      s\<lparr>uuid_pos := Suc (uuid_pos s), clock_pos := Suc (clock_pos s)\<rparr>)"
  by (simp add: new_card_event_def event_at_def run_defs uuid4_def now_utc_def)

lemma run_new_card [exec]:
  "new_card wv b d m s =
     (Inr (card_at s (uuid_pos s) (clock_pos s) wv b d m),
      s\<lparr>uuid_pos := Suc (uuid_pos s), clock_pos := Suc (clock_pos s)\<rparr>)"
  by (simp add: new_card_def card_at_def run_defs uuid4_def now_utc_def)

lemma wp_run: "m s = (Inr x, t) \<Longrightarrow> wp m Q E s = Q x t"
  by (simp add: wp_def)

lemmas wp_new_card_event [wp_rules] = wp_run [OF run_new_card_event]
lemmas wp_new_card [wp_rules] = wp_run [OF run_new_card]

lemma event_at_writes [simp]:
  "event_at (s\<lparr>uuid_pos := u\<rparr>) = event_at s" "event_at (s\<lparr>clock_pos := v\<rparr>) = event_at s"
  by (simp_all add: event_at_def fun_eq_iff)

lemma event_at_writes_mem [simp]:
  "event_at (s\<lparr>mem_cards := b\<rparr>) = event_at s" "event_at (s\<lparr>mem_leases := c\<rparr>) = event_at s"
  "event_at (s\<lparr>mem_artifacts := d\<rparr>) = event_at s" "event_at (s\<lparr>mem_events := f\<rparr>) = event_at s"
  by (simp_all add: event_at_def fun_eq_iff)

lemmas writes = put_card_def put_lease_def put_artifacts_def append_event_def store_idempotent_def

lemma typed_Inr [simp]:
  "typed_card v = Inr c \<longleftrightarrow> v = ICard c" "typed_lease v = Inr l \<longleftrightarrow> v = ILease l"
  "typed_event v = Inr e \<longleftrightarrow> v = IEvent e" "typed_artifacts v = Inr refs \<longleftrightarrow> v = IArtifacts refs"
  by (cases v; simp)+

text \<open>The prologue: a replay returns what is remembered and changes nothing.\<close>

lemma wp_replay:
  assumes "cached key (mem_idempotency s) = None \<Longrightarrow> wp body Q E s"
    and "\<And>v x. cached key (mem_idempotency s) = Some v \<Longrightarrow> typed v = Inr x \<Longrightarrow> Q x s"
    and "\<And>v e. cached key (mem_idempotency s) = Some v \<Longrightarrow> typed v = Inl e \<Longrightarrow> E e s"
  shows "wp (idempotently typed key body) Q E s"
  using assms unfolding wp_idempotently by (auto split: option.split sum.split)

lemma create_card_wp:
  "wp (create_card pid payload md key)
     (\<lambda>c s'. if cached key (mem_idempotency s) \<noteq> None
        then cached key (mem_idempotency s) = Some (ICard c) \<and> s' = s
        else \<exists>p b. dict_get (mem_patch_panels s) pid = Some p \<and> resolve_initial_bucket p = Inr b \<and>
          c = card_at s (uuid_pos s) (clock_pos s) (workflow_version_id p) b payload
            (case md of None \<Rightarrow> [] | Some m \<Rightarrow> m) \<and>
          s' = s\<lparr>uuid_pos := Suc (Suc (uuid_pos s)), clock_pos := Suc (Suc (clock_pos s)),
            mem_cards := dict_set (card_id c) c (mem_cards s),
            mem_events := logged (event_at s (Suc (uuid_pos s)) (Suc (clock_pos s)) (card_id c)
              ''card_created'' None [(''patch_panel_id'', JStr (panel_id p)),
                (''version'', JStr (panel_version p)), (''bucket'', JStr b)]) (mem_events s),
            mem_idempotency := remember key (ICard c) (mem_idempotency s)\<rparr>)
     (\<lambda>_. advance s) s"
  unfolding create_card_def
proof (rule wp_replay, goal_cases)
  case 1
  show ?case
  proof (cases "dict_get (mem_patch_panels s) pid")
    case (Some p)
    with 1 show ?thesis unfolding writes wp_rules
      by (cases "resolve_initial_bucket p") (simp_all add: advance_refl)
  qed (simp add: wp_rules advance_refl)
qed (simp_all add: advance_refl)

section \<open>Renewing and releasing a lease\<close>

lemma renew_lease_wp:
  "wp (renew_lease lid seconds key)
     (\<lambda>r s'. if cached key (mem_idempotency s) \<noteq> None
        then cached key (mem_idempotency s) = Some (ILease r) \<and> s' = s
        else \<exists>l y. dict_get (mem_leases s) lid = Some l \<and> lease_active (next_reading s) l \<and>
          plus_seconds (clock_src s (Suc (clock_pos s))) seconds = Inr y \<and>
          r = l\<lparr>lease_expires_at := y\<rparr> \<and>
          s' = s\<lparr>uuid_pos := Suc (uuid_pos s), clock_pos := Suc (Suc (Suc (clock_pos s))),
            mem_leases := dict_set (lease_id l) r (mem_leases s),
            mem_events := logged (event_at s (uuid_pos s) (Suc (Suc (clock_pos s))) (lease_card_id l)
              ''lease_renewed'' (Some (lease_worker_id l)) [(''lease_id'', JStr (uuid_str (lease_id l))),
                (''expires_at'', JStr (isoformat y))]) (mem_events s),
            mem_idempotency := remember key (ILease r) (mem_idempotency s)\<rparr>)
     (\<lambda>_. advance s) s"
  unfolding renew_lease_def
proof (rule wp_replay, goal_cases)
  case 1
  show ?case
  proof (cases "dict_get (mem_leases s) lid")
    case (Some l)
    with 1 show ?thesis unfolding writes wp_rules Let_def
      by (cases "plus_seconds (clock_src s (Suc (clock_pos s))) seconds")
         (simp_all add: advance_refl advance_now advance_later lease_active_def)
  qed (simp add: wp_rules advance_refl)
qed (simp_all add: advance_refl)

lemma release_lease_wp:
  "wp (release_lease lid actor key)
     (\<lambda>r s'. if cached key (mem_idempotency s) \<noteq> None
        then cached key (mem_idempotency s) = Some (ILease r) \<and> s' = s
        else \<exists>l. dict_get (mem_leases s) lid = Some l \<and>
          (if lease_released_at l \<noteq> None then r = l \<and> s' = s
           else r = l\<lparr>lease_released_at := Some (next_reading s)\<rparr> \<and>
             s' = s\<lparr>uuid_pos := Suc (uuid_pos s), clock_pos := Suc (Suc (clock_pos s)),
               mem_leases := dict_set (lease_id l) r (mem_leases s),
               mem_events := logged (event_at s (uuid_pos s) (Suc (clock_pos s)) (lease_card_id l)
                 ''lease_released'' (or_else actor (Some (lease_worker_id l)))
                 [(''lease_id'', JStr (uuid_str (lease_id l)))]) (mem_events s),
               mem_idempotency := remember key (ILease r) (mem_idempotency s)\<rparr>))
     (\<lambda>_. advance s) s"
  unfolding release_lease_def
proof (rule wp_replay, goal_cases)
  case 1
  show ?case
  proof (cases "dict_get (mem_leases s) lid")
    case (Some l)
    with 1 show ?thesis unfolding writes wp_rules Let_def by (simp add: next_reading_def)
  qed (simp add: wp_rules advance_refl)
qed (simp_all add: advance_refl)

section \<open>Submitting artifacts\<close>

definition submitted_refs :: "uuid \<Rightarrow> uuid \<Rightarrow> artifact_reference list \<Rightarrow> artifact_reference list" where
  "submitted_refs cid eid refs =
     map (\<lambda>r. r\<lparr>artifact_card_id := cid, artifact_event_id := Some eid\<rparr>) refs"

definition submitted_payload ::
  "lease \<Rightarrow> string \<Rightarrow> string \<Rightarrow> artifact_reference list \<Rightarrow> jdict" where
  "submitted_payload l pipe dest refs =
     [(''artifact_ids'', JList (map (JStr \<circ> uuid_str \<circ> artifact_id) refs)),
      (''artifact_refs'', JList (map artifact_json refs)),
      (''lease_id'', JStr (uuid_str (lease_id l))),
      (''output_pipe'', JStr pipe), (''destination_bucket'', JStr dest)]"

lemma submit_artifact_wp:
  "wp (submit_artifact lid pipe refs key)
     (\<lambda>stored s'. if cached key (mem_idempotency s) \<noteq> None
        then cached key (mem_idempotency s) = Some (IArtifacts stored) \<and> s' = s
        else \<exists>l c p dest. dict_get (mem_leases s) lid = Some l \<and> lease_active (next_reading s) l \<and>
          dict_get (mem_cards s) (lease_card_id l) = Some c \<and>
          dict_get (mem_patch_panels s) (rsplit_colon (card_workflow_version c)) = Some p \<and>
          resolve_pipe_bucket p pipe Output = Inr (dest, lease_node_id l) \<and>
          ensure_artifact_refs_belong_to_card (card_id c) refs = Inr () \<and>
          ensure_artifacts_accepted p dest refs = Inr () \<and>
          stored = submitted_refs (card_id c) (uuid_src s (uuid_pos s)) refs \<and>
          s' = s\<lparr>uuid_pos := Suc (uuid_pos s), clock_pos := Suc (Suc (Suc (clock_pos s))),
            mem_cards := dict_set (card_id c) (c\<lparr>card_current_bucket := dest\<rparr>) (mem_cards s),
            mem_leases := dict_set (lease_id l)
              (l\<lparr>lease_released_at := Some (clock_src s (Suc (clock_pos s)))\<rparr>) (mem_leases s),
            mem_artifacts := store_artifacts stored (mem_artifacts s),
            mem_events := logged (event_at s (uuid_pos s) (Suc (Suc (clock_pos s))) (card_id c)
              ''artifact_submitted'' (Some (lease_worker_id l)) (submitted_payload l pipe dest refs))
              (mem_events s),
            mem_idempotency := remember key (IArtifacts stored) (mem_idempotency s)\<rparr>)
     (\<lambda>_. advance s) s"
  unfolding submit_artifact_def
proof (rule wp_replay, goal_cases)
  case 1
  show ?case
  proof (cases "dict_get (mem_leases s) lid")
    case l: (Some l)
    show ?thesis
    proof (cases "dict_get (mem_cards s) (lease_card_id l)")
      case c: (Some c)
      show ?thesis
      proof (cases "dict_get (mem_patch_panels s) (rsplit_colon (card_workflow_version c))")
        case p: (Some p)
        show ?thesis
        proof (cases "resolve_pipe_bucket p pipe Output")
          case (Inl e)
          with 1 l c p show ?thesis unfolding wp_rules by (simp add: advance_refl advance_now)
        next
          case (Inr dn)
          with 1 l c p show ?thesis unfolding writes wp_rules Let_def
            by (cases dn; cases "ensure_artifact_refs_belong_to_card (card_id c) refs";
                cases "ensure_artifacts_accepted p (fst dn) refs")
               (simp_all add: advance_refl advance_now lease_active_def submitted_refs_def
                 submitted_payload_def next_reading_def not_le)
        qed
      qed (use 1 l c in \<open>simp add: wp_rules advance_refl advance_now\<close>)
    qed (use 1 l in \<open>simp add: wp_rules advance_refl advance_now\<close>)
  qed (simp add: wp_rules advance_refl)
qed (simp_all add: advance_refl)

section \<open>Moving, validating and annotating a card\<close>

lemma move_card_wp:
  "wp (move_card cid b actor reason key)
     (\<lambda>m s'. if cached key (mem_idempotency s) \<noteq> None
        then cached key (mem_idempotency s) = Some (ICard m) \<and> s' = s
        else \<exists>c p. dict_get (mem_cards s) cid = Some c \<and>
          dict_get (mem_patch_panels s) (rsplit_colon (card_workflow_version c)) = Some p \<and>
          b \<in> panel_bucket_ids p \<and> m = c\<lparr>card_current_bucket := b\<rparr> \<and>
          s' = s\<lparr>uuid_pos := Suc (uuid_pos s), clock_pos := Suc (clock_pos s),
            mem_cards := dict_set (card_id c) m (mem_cards s),
            mem_events := logged (event_at s (uuid_pos s) (clock_pos s) (card_id c) ''card_moved'' actor
              [(''from_bucket'', JStr (card_current_bucket c)), (''to_bucket'', JStr b),
               (''reason'', opt_json reason)]) (mem_events s),
            mem_idempotency := remember key (ICard m) (mem_idempotency s)\<rparr>)
     (\<lambda>_. advance s) s"
  unfolding move_card_def
proof (rule wp_replay, goal_cases)
  case 1
  show ?case
  proof (cases "dict_get (mem_cards s) cid")
    case c: (Some c)
    show ?thesis
    proof (cases "dict_get (mem_patch_panels s) (rsplit_colon (card_workflow_version c))")
      case (Some p)
      with 1 c show ?thesis unfolding writes wp_rules Let_def
        by (cases "b \<in> panel_bucket_ids p")
           (simp_all add: ensure_bucket_exists_def panel_bucket_ids_def advance_refl)
    qed (use 1 c in \<open>simp add: wp_rules advance_refl\<close>)
  qed (simp add: wp_rules advance_refl)
qed (simp_all add: advance_refl)

lemma record_event_wp:
  "wp (record_event cid ty actor payload key)
     (\<lambda>e s'. if cached key (mem_idempotency s) \<noteq> None
        then cached key (mem_idempotency s) = Some (IEvent e) \<and> s' = s
        else \<exists>c. dict_get (mem_cards s) cid = Some c \<and>
          e = event_at s (uuid_pos s) (clock_pos s) cid ty actor
            (case payload of None \<Rightarrow> [] | Some d \<Rightarrow> d) \<and>
          s' = s\<lparr>uuid_pos := Suc (uuid_pos s), clock_pos := Suc (clock_pos s),
            mem_events := logged e (mem_events s),
            mem_idempotency := remember key (IEvent e) (mem_idempotency s)\<rparr>)
     (\<lambda>_. advance s) s"
  unfolding record_event_def
proof (rule wp_replay, goal_cases)
  case 1
  show ?case
  proof (cases "dict_get (mem_cards s) cid")
    case c: (Some c)
    with 1 show ?thesis unfolding writes wp_rules by simp
  qed (simp add: wp_rules advance_refl)
qed (simp_all add: advance_refl)

text \<open>The payload of a validation event before a destination is added.\<close>

definition validated_payload :: "bool \<Rightarrow> string option \<Rightarrow> jdict option \<Rightarrow> jdict" where
  "validated_payload accepted reason payload =
     dict_update [(''accepted'', JBool accepted), (''reason'', opt_json reason)]
       (case payload of None \<Rightarrow> [] | Some d \<Rightarrow> d)"

lemma validate_card_wp:
  "wp (validate_card cid validator accepted reason pipe payload key)
     (\<lambda>e s'. if cached key (mem_idempotency s) \<noteq> None
        then cached key (mem_idempotency s) = Some (IEvent e) \<and> s' = s
        else \<exists>c. dict_get (mem_cards s) cid = Some c \<and>
          (if truthy pipe then
             \<exists>p dest node. dict_get (mem_patch_panels s) (rsplit_colon (card_workflow_version c)) = Some p \<and>
               resolve_pipe_bucket p (the pipe) Output = Inr (dest, node) \<and>
               e = event_at s (uuid_pos s) (clock_pos s) (card_id c) ''card_validated'' (Some validator)
                 (dict_set ''destination_bucket'' (JStr dest) (dict_set ''output_pipe'' (JStr (the pipe))
                   (validated_payload accepted reason payload))) \<and>
               s' = s\<lparr>uuid_pos := Suc (uuid_pos s), clock_pos := Suc (clock_pos s),
                 mem_cards := dict_set (card_id c) (c\<lparr>card_current_bucket := dest\<rparr>) (mem_cards s),
                 mem_events := logged e (mem_events s),
                 mem_idempotency := remember key (IEvent e) (mem_idempotency s)\<rparr>
           else
             e = event_at s (uuid_pos s) (clock_pos s) (card_id c) ''card_validated'' (Some validator)
               (validated_payload accepted reason payload) \<and>
             s' = s\<lparr>uuid_pos := Suc (uuid_pos s), clock_pos := Suc (clock_pos s),
               mem_events := logged e (mem_events s),
               mem_idempotency := remember key (IEvent e) (mem_idempotency s)\<rparr>))
     (\<lambda>_. advance s) s"
  unfolding validate_card_def
proof (rule wp_replay, goal_cases)
  case 1
  show ?case
  proof (cases "dict_get (mem_cards s) cid")
    case c: (Some c)
    show ?thesis
    proof (cases "truthy pipe")
      case False
      with 1 c show ?thesis unfolding writes wp_rules Let_def by (simp add: validated_payload_def)
    next
      case True
      show ?thesis
      proof (cases "dict_get (mem_patch_panels s) (rsplit_colon (card_workflow_version c))")
        case (Some p)
        with 1 c True show ?thesis unfolding writes wp_rules Let_def
          by (cases "resolve_pipe_bucket p (the pipe) Output")
             (auto simp: advance_refl validated_payload_def)
      qed (use 1 c True in \<open>simp add: wp_rules advance_refl Let_def\<close>)
    qed
  qed (simp add: wp_rules advance_refl)
qed (simp_all add: advance_refl)

section \<open>Claiming a card\<close>

lemma observed_later: "observed s t x \<Longrightarrow> advance t u \<Longrightarrow> observed s u x"
  unfolding observed_def using advance_src(4) by fastforce

lemma observed_earlier: "advance s t \<Longrightarrow> observed t u x \<Longrightarrow> observed s u x"
  unfolding observed_def by (metis advance_src(2,4) order_trans)

lemma wp_has_active_lease:
  assumes "leases_ok s"
  shows "wp (has_active_lease cid) Q E s =
    Q (\<not> unleased (mem_leases s) cid (next_reading s)) (s\<lparr>clock_pos := Suc (clock_pos s)\<rparr>)"
proof -
  have "set (dict_values (mem_leases s)) = ran (dict_get (mem_leases s))"
    using assms by (intro py.vals_get) (auto simp: leases_ok_def py.keyed_def)
  then have "(\<exists>l \<in> set (dict_values (mem_leases s)). lease_card_id l = cid \<and>
      lease_active (next_reading s) l) \<longleftrightarrow> \<not> unleased (mem_leases s) cid (next_reading s)"
    by (auto simp: unleased_def ran_def)
  then show ?thesis by (simp add: has_active_lease_def wp_rules next_reading_def)
qed

lemma observed_now: "advance (s\<lparr>clock_pos := Suc (clock_pos s)\<rparr>) t \<Longrightarrow> observed s t (next_reading s)"
  unfolding observed_def next_reading_def by (rule exI [of _ "clock_pos s"]) (auto dest: advance_src(4))

text \<open>
  The card a scan of the cards finds: the first of the workflow version in the bucket that no
  active lease holds. Every card it passes over was held when the scan looked at it.
\<close>

definition held :: "'z mem_runtime_scheme \<Rightarrow> 'z mem_runtime_scheme \<Rightarrow> card \<Rightarrow> bool" where
  "held s t c \<longleftrightarrow> (\<exists>x. observed s t x \<and> \<not> unleased (mem_leases s) (card_id c) x)"

definition free :: "'z mem_runtime_scheme \<Rightarrow> 'z mem_runtime_scheme \<Rightarrow> card \<Rightarrow> bool" where
  "free s t c \<longleftrightarrow> (\<exists>x. observed s t x \<and> unleased (mem_leases s) (card_id c) x)"

definition located :: "string \<Rightarrow> string \<Rightarrow> card \<Rightarrow> bool" where
  "located wv bucket c \<longleftrightarrow> card_workflow_version c = wv \<and> card_current_bucket c = bucket"

definition first_free ::
  "'z mem_runtime_scheme \<Rightarrow> 'z mem_runtime_scheme \<Rightarrow> string \<Rightarrow> string \<Rightarrow> card list \<Rightarrow> card \<Rightarrow> bool" where
  "first_free s t wv bucket cs c \<longleftrightarrow> (\<exists>pre post. cs = pre @ c # post \<and> located wv bucket c \<and> free s t c \<and>
     (\<forall>d \<in> set pre. located wv bucket d \<longrightarrow> held s t d))"

definition scanned ::
  "'z mem_runtime_scheme \<Rightarrow> 'z mem_runtime_scheme \<Rightarrow> string \<Rightarrow> string \<Rightarrow> card list \<Rightarrow> card option \<Rightarrow> bool" where
  "scanned s t wv bucket cs r \<longleftrightarrow> advance s t \<and> (case r of
       None \<Rightarrow> \<forall>d \<in> set cs. located wv bucket d \<longrightarrow> held s t d
     | Some c \<Rightarrow> first_free s t wv bucket cs c)"

lemma held_earlier: "advance s t \<Longrightarrow> held t u c \<Longrightarrow> held s u c"
  by (auto simp: held_def store_simps intro: observed_earlier)

lemma free_earlier: "advance s t \<Longrightarrow> free t u c \<Longrightarrow> free s u c"
  by (auto simp: free_def store_simps intro: observed_earlier)

lemma scanned_Cons:
  assumes "scanned t u wv bucket cs r" and "advance s t" and "located wv bucket c \<Longrightarrow> held s u c"
  shows "scanned s u wv bucket (c # cs) r"
proof (cases r)
  case None
  with assms show ?thesis
    by (auto simp: scanned_def intro: advance_trans held_earlier)
next
  case (Some d)
  with assms(1) obtain pre post where "cs = pre @ d # post" "located wv bucket d" "free t u d"
    "\<forall>d \<in> set pre. located wv bucket d \<longrightarrow> held t u d" and adv: "advance t u"
    by (auto simp: scanned_def first_free_def)
  with assms(2,3) have "first_free s u wv bucket (c # cs) d"
    unfolding first_free_def
    by (intro exI [of _ "c # pre"] exI [of _ post]) (auto intro: held_earlier free_earlier)
  with Some adv assms(2) show ?thesis by (auto simp: scanned_def intro: advance_trans)
qed

lemma find_claimable_wp:
  "leases_ok s \<Longrightarrow> wp (find_claimable wv bucket cs) (\<lambda>r t. scanned s t wv bucket cs r) (\<lambda>_ _. False) s"
proof (induction cs arbitrary: s)
  case Nil
  then show ?case by (simp add: wp_rules scanned_def advance_refl)
next
  case (Cons c cs)
  let ?s = "s\<lparr>clock_pos := Suc (clock_pos s)\<rparr>"
  show ?case
  proof (cases "located wv bucket c")
    case False
    with Cons.IH [OF Cons.prems] show ?thesis
      by (auto simp: located_def intro!: scanned_Cons advance_refl elim!: wp_mono)
  next
    case here: True
    have ok: "leases_ok ?s" using Cons.prems by (simp add: leases_ok_def issued_def)
    show ?thesis
    proof (cases "unleased (mem_leases s) (card_id c) (next_reading s)")
      case True
      have "first_free s ?s wv bucket (c # cs) c"
        unfolding first_free_def free_def using here True observed_now [OF advance_refl]
        by (intro exI [of _ "[]"] exI [of _ cs]) auto
      with here True show ?thesis
        by (simp add: located_def wp_rules wp_has_active_lease [OF Cons.prems] scanned_def advance_now)
    next
      case False
      have "wp (find_claimable wv bucket cs) (\<lambda>r t. scanned s t wv bucket (c # cs) r) (\<lambda>_ _. False) ?s"
        using Cons.IH [OF ok]
      proof (rule wp_mono)
        fix r t assume r: "scanned ?s t wv bucket cs r"
        then have "held s t c" using False observed_now by (auto simp: held_def scanned_def)
        with r show "scanned s t wv bucket (c # cs) r" by (auto intro: scanned_Cons advance_now)
      qed simp
      with here False show ?thesis
        by (simp add: located_def wp_rules wp_has_active_lease [OF Cons.prems])
    qed
  qed
qed

text \<open>
  A match of a panel: the bucket and node its input pipe resolves to, and the outcome of the scan.
\<close>

definition match_ok ::
  "'z mem_runtime_scheme \<Rightarrow> 'z mem_runtime_scheme \<Rightarrow> string \<Rightarrow> claim_match \<Rightarrow> bool" where
  "match_ok s t pipe m \<longleftrightarrow> (case m of (p, bucket, node, r) \<Rightarrow>
     resolve_pipe_bucket p pipe Input = Inr (bucket, node) \<and>
     scanned s t (workflow_version_id p) bucket (dict_values (mem_cards s)) r)"

lemma held_later: "advance t u \<Longrightarrow> held s t c \<Longrightarrow> held s u c"
  by (auto simp: held_def intro: observed_later)

lemma free_later: "advance t u \<Longrightarrow> free s t c \<Longrightarrow> free s u c"
  by (auto simp: free_def intro: observed_later)

lemma scanned_earlier: "advance s t \<Longrightarrow> scanned t u wv b cs r \<Longrightarrow> scanned s u wv b cs r"
  by (auto simp: scanned_def first_free_def split: option.splits
      intro: advance_trans held_earlier free_earlier)

lemma scanned_later: "advance t u \<Longrightarrow> scanned s t wv b cs r \<Longrightarrow> scanned s u wv b cs r"
  by (auto simp: scanned_def first_free_def split: option.splits
      intro: advance_trans held_later free_later)

definition resolves :: "string \<Rightarrow> patch_panel \<Rightarrow> bool" where
  "resolves pipe p \<longleftrightarrow> (\<exists>bn. resolve_pipe_bucket p pipe Input = Inr bn)"

lemma advance_leases_ok: "advance s t \<Longrightarrow> leases_ok s \<Longrightarrow> leases_ok t"
  by (rule step_leases [OF mem_step.tick])

lemma match_earlier: "advance s t \<Longrightarrow> match_ok t u pipe m \<Longrightarrow> match_ok s u pipe m"
  by (auto simp: match_ok_def store_simps intro: scanned_earlier)

lemma claim_matches_wp:
  "leases_ok s \<Longrightarrow> wp (claim_matches pipe ps)
     (\<lambda>ms t. advance s t \<and> map fst ms = filter (resolves pipe) ps \<and> (\<forall>m \<in> set ms. match_ok s t pipe m))
     (\<lambda>_. advance s) s"
proof (induction ps arbitrary: s)
  case Nil
  then show ?case by (simp add: wp_rules advance_refl)
next
  case (Cons p ps)
  show ?case
  proof (cases "resolve_pipe_bucket p pipe Input")
    case (Inl e)
    with Cons.IH [OF Cons.prems] show ?thesis
      by (cases e) (auto simp: resolves_def wp_rules advance_refl elim!: wp_mono)
  next
    case (Inr bn)
    obtain b n where bn: "bn = (b, n)" by (cases bn)
    let ?Q = "\<lambda>ms t. advance s t \<and> map fst ms = filter (resolves pipe) (p # ps) \<and>
      (\<forall>m \<in> set ms. match_ok s t pipe m)"
    have scan: "wp (find_claimable (workflow_version_id p) b (dict_values (mem_cards s)))
      (\<lambda>c. wp (claim_matches pipe ps) (\<lambda>ms. ?Q ((p, b, n, c) # ms)) (\<lambda>_. advance s)) (\<lambda>_. advance s) s"
    proof (rule wp_mono [OF find_claimable_wp [OF Cons.prems]])
      fix c t assume c: "scanned s t (workflow_version_id p) b (dict_values (mem_cards s)) c"
      then have t: "advance s t" by (simp add: scanned_def)
      show "wp (claim_matches pipe ps) (\<lambda>ms. ?Q ((p, b, n, c) # ms)) (\<lambda>_. advance s) t"
      proof (rule wp_mono [OF Cons.IH [OF advance_leases_ok [OF t Cons.prems]]])
        fix ms u
        assume u: "advance t u \<and> map fst ms = filter (resolves pipe) ps \<and> (\<forall>m \<in> set ms. match_ok t u pipe m)"
        then have "match_ok s u pipe (p, b, n, c)"
          using Inr bn c by (auto simp: match_ok_def intro: scanned_later)
        with u t Inr show "?Q ((p, b, n, c) # ms) u"
          by (auto simp: resolves_def intro: advance_trans match_earlier)
      qed (use t in \<open>auto intro: advance_trans\<close>)
    qed simp
    show ?thesis
      unfolding claim_matches.simps Inr bn sum.case prod.case wp_rules by (rule scan)
  qed
qed

lemma choose_match_mem:
  assumes "choose_match pipe ms = Inr m"
  shows "m \<in> set ms"
proof (cases ms)
  case Nil
  with assms show ?thesis by (simp add: choose_match_def)
next
  case (Cons first rest)
  have one: "length (filter with_card ms) = 1 \<Longrightarrow> hd (filter with_card ms) \<in> set ms"
    by (metis filter_is_subset hd_in_set length_0_conv subsetD zero_neq_one)
  have none: "first = (fst first, fst (snd first), fst (snd (snd first)), None)"
    if "filter with_card ms = []"
    using that Cons by (cases first) (auto simp: with_card_def split: if_splits)
  show ?thesis
  proof (cases "length (filter with_card ms) = 1")
    case True
    with assms one Cons show ?thesis by (auto simp: choose_match_def Let_def)
  next
    case False
    with assms Cons none show ?thesis
      unfolding choose_match_def Let_def by (auto split: if_splits)
  qed
qed

lemma claim_target_wp:
  assumes "leases_ok s"
  shows "wp (claim_target pipe)
    (\<lambda>m t. advance s t \<and> match_ok s t pipe m \<and> fst m \<in> set (dict_values (mem_patch_panels s)))
    (\<lambda>_. advance s) s"
  unfolding claim_target_def wp_bind wp_gets
proof (rule wp_mono [OF claim_matches_wp [OF assms]])
  fix ms t
  assume ms: "advance s t \<and> map fst ms = filter (resolves pipe) (dict_values (mem_patch_panels s)) \<and>
    (\<forall>m \<in> set ms. match_ok s t pipe m)"
  then have "fst ` set ms \<subseteq> set (dict_values (mem_patch_panels s))"
    by (metis filter_is_subset set_map)
  with ms show "wp (liftM (choose_match pipe ms))
      (\<lambda>m t. advance s t \<and> match_ok s t pipe m \<and> fst m \<in> set (dict_values (mem_patch_panels s)))
      (\<lambda>_. advance s) t"
    by (auto simp: wp_lift split: sum.split dest!: choose_match_mem simp del: set_map)
qed simp

text \<open>The lease a claim makes.\<close>

definition lease_at :: "'z world_scheme \<Rightarrow> card \<Rightarrow> string \<Rightarrow> string \<Rightarrow> string \<Rightarrow> datetime \<Rightarrow> lease" where
  "lease_at t c node worker pipe expires =
     \<lparr>lease_id = uuid_src t (uuid_pos t), lease_card_id = card_id c, lease_node_id = node,
      lease_worker_id = worker, lease_input_pipe = pipe,
      lease_claimed_at = clock_src t (Suc (clock_pos t)), lease_expires_at = expires,
      lease_released_at = None\<rparr>"

lemma lease_at_sel [simp]:
  "lease_id (lease_at t c n w q x) = uuid_src t (uuid_pos t)"
  "lease_card_id (lease_at t c n w q x) = card_id c" "lease_node_id (lease_at t c n w q x) = n"
  "lease_worker_id (lease_at t c n w q x) = w" "lease_input_pipe (lease_at t c n w q x) = q"
  "lease_expires_at (lease_at t c n w q x) = x" "lease_released_at (lease_at t c n w q x) = None"
  by (simp_all add: lease_at_def)

lemma wp_new_lease [wp_rules]:
  "wp (new_lease c node worker pipe seconds) Q E t =
     (case plus_seconds (next_reading t) seconds of
        Inl e \<Rightarrow> E e (t\<lparr>clock_pos := Suc (clock_pos t)\<rparr>)
      | Inr x \<Rightarrow> Q (lease_at t c node worker pipe x)
          (t\<lparr>uuid_pos := Suc (uuid_pos t), clock_pos := Suc (Suc (clock_pos t))\<rparr>))"
  by (simp add: new_lease_def wp_rules lease_at_def next_reading_def split: sum.split)

text \<open>
  A claim returns a lease on the first free card of the bucket its pipe resolves to in a
  registered panel.
\<close>

lemma claim_card_wp:
  assumes "leases_ok s"
  shows "wp (claim_card pipe worker seconds key)
     (\<lambda>l s'. if cached key (mem_idempotency s) \<noteq> None
        then cached key (mem_idempotency s) = Some (ILease l) \<and> s' = s
        else \<exists>t p bucket node c x. advance s t \<and> match_ok s t pipe (p, bucket, node, Some c) \<and>
          p \<in> set (dict_values (mem_patch_panels s)) \<and>
          plus_seconds (next_reading t) seconds = Inr x \<and> l = lease_at t c node worker pipe x \<and>
          s' = t\<lparr>uuid_pos := Suc (Suc (uuid_pos t)), clock_pos := Suc (Suc (Suc (clock_pos t))),
            mem_leases := dict_set (lease_id l) l (mem_leases s),
            mem_events := logged (event_at t (Suc (uuid_pos t)) (Suc (Suc (clock_pos t))) (card_id c)
              ''card_claimed'' (Some worker) [(''lease_id'', JStr (uuid_str (lease_id l))),
                (''input_pipe'', JStr pipe)]) (mem_events s),
            mem_idempotency := remember key (ILease l) (mem_idempotency s)\<rparr>)
     (\<lambda>_. advance s) s"
  unfolding claim_card_def
proof (rule wp_replay, goal_cases)
  case 1
  show ?case
    unfolding wp_bind
  proof (rule wp_mono [OF claim_target_wp [OF assms]], goal_cases)
    case (1 m t)
    obtain p bucket node r where m: "m = (p, bucket, node, r)" by (cases m)
    have t: "advance s t" using 1 by simp
    show ?case
    proof (cases r)
      case None
      with m t show ?thesis by (simp add: wp_rules)
    next
      case r: (Some c)
      show ?thesis
      proof (cases "plus_seconds (next_reading t) seconds")
        case (Inl e)
        with m r t show ?thesis unfolding wp_rules by (auto simp: wp_rules intro: advance_trans advance_now)
      next
        case (Inr x)
        have "match_ok s t pipe (p, bucket, node, Some c)" "p \<in> set (dict_values (mem_patch_panels s))"
          using 1 m r by simp_all
        note facts = this Inr t \<open>cached key (mem_idempotency s) = None\<close> advance_store [OF t]
        show ?thesis
          unfolding m r prod.case option.case writes wp_rules Inr sum.case
          by (subst if_not_P, simp add: facts, rule exI [of _ t], rule exI [of _ p],
              rule exI [of _ bucket], rule exI [of _ node], rule exI [of _ c], rule exI [of _ x])
             (use facts in simp)
      qed
    qed
  qed simp
qed (simp_all add: advance_refl)

section \<open>Every operation takes its step\<close>

lemma step_refl: "mem_step s s"
  by (rule mem_step.tick) (rule advance_refl)

lemma stepI: "mem_step s t \<Longrightarrow> t = s' \<Longrightarrow> mem_step s s'"
  by simp

lemma observed_next: "clock_pos s < clock_pos t \<Longrightarrow> observed s t (next_reading s)"
  unfolding next_reading_def by (rule observed_at) simp_all

lemmas at_rules = advance_counters drawn_at observed_next

lemma keyedD:
  "mem_ok s \<Longrightarrow> dict_get (mem_cards s) i = Some c \<Longrightarrow> card_id c = i"
  "mem_ok s \<Longrightarrow> dict_get (mem_leases s) j = Some l \<Longrightarrow> lease_id l = j"
  "mem_ok s \<Longrightarrow> dict_get (mem_patch_panels s) k = Some p \<Longrightarrow> panel_id p = k"
  by (auto simp: mem_ok_def mem_ok_defs dest: py.keyed_get)

lemma register_patch_panel_step:
  assumes "\<And>p r. validate nx p = Inr r \<Longrightarrow> well_formed_panel p"
  shows "wp (register_patch_panel nx p) (\<lambda>_. mem_step s) (\<lambda>_. advance s) s"
  unfolding register_patch_panel_def validate_patch_panel_def wp_rules
  using assms by (auto simp: advance_refl intro: mem_step.register split: sum.split)

lemma create_card_step:
  assumes ok: "mem_ok s"
  shows "wp (create_card pid payload md key) (\<lambda>_. mem_step s) (\<lambda>_. advance s) s"
proof (rule wp_mono [OF create_card_wp], goal_cases)
  case (1 c s')
  show ?case
  proof (cases "cached key (mem_idempotency s)")
    case new: None
    with 1 obtain p b where p: "dict_get (mem_patch_panels s) pid = Some p"
      and b: "resolve_initial_bucket p = Inr b"
      and c: "c = card_at s (uuid_pos s) (clock_pos s) (workflow_version_id p) b payload
        (case md of None \<Rightarrow> [] | Some m \<Rightarrow> m)"
      and s': "s' = s\<lparr>uuid_pos := Suc (Suc (uuid_pos s)), clock_pos := Suc (Suc (clock_pos s)),
        mem_cards := dict_set (card_id c) c (mem_cards s),
        mem_events := logged (event_at s (Suc (uuid_pos s)) (Suc (clock_pos s)) (card_id c)
          ''card_created'' None [(''patch_panel_id'', JStr (panel_id p)),
            (''version'', JStr (panel_version p)), (''bucket'', JStr b)]) (mem_events s),
        mem_idempotency := remember key (ICard c) (mem_idempotency s)\<rparr>"
      by auto
    show ?thesis unfolding s'
      by (rule mem_step.create [where p = p])
         (use ok p b new keyedD(3) [OF ok p] in \<open>auto simp: c intro: at_rules\<close>)
  qed (use 1 in \<open>auto simp: step_refl\<close>)
qed simp

lemma own_key:
  "mem_ok s \<Longrightarrow> dict_get (mem_cards s) i = Some c \<Longrightarrow> dict_get (mem_cards s) (card_id c) = Some c"
  "mem_ok s \<Longrightarrow> dict_get (mem_leases s) j = Some l \<Longrightarrow> dict_get (mem_leases s) (lease_id l) = Some l"
  by (auto dest: keyedD)

lemma renew_lease_step:
  assumes ok: "mem_ok s"
  shows "wp (renew_lease lid seconds key) (\<lambda>_. mem_step s) (\<lambda>_. advance s) s"
proof (rule wp_mono [OF renew_lease_wp], goal_cases)
  case (1 r s')
  then show ?case
    by (cases "cached key (mem_idempotency s)")
       (auto simp: step_refl intro!: mem_step.renew [where x = "next_reading s"]
         intro!: at_rules intro: own_key [OF ok])
qed simp

lemma release_lease_step:
  assumes ok: "mem_ok s"
  shows "wp (release_lease lid actor key) (\<lambda>_. mem_step s) (\<lambda>_. advance s) s"
proof (rule wp_mono [OF release_lease_wp], goal_cases)
  case (1 r s')
  then show ?case
    by (cases "cached key (mem_idempotency s)")
       (auto simp: step_refl intro!: mem_step.release intro!: at_rules intro: own_key [OF ok] split: if_splits)
qed simp

lemma record_event_step: "wp (record_event cid ty actor payload key) (\<lambda>_. mem_step s) (\<lambda>_. advance s) s"
proof (rule wp_mono [OF record_event_wp], goal_cases)
  case (1 e s')
  then show ?case
    by (cases "cached key (mem_idempotency s)")
       (auto simp: step_refl intro!: mem_step.annotate intro!: at_rules)
qed simp

lemma move_card_step:
  assumes ok: "mem_ok s"
  shows "wp (move_card cid b actor reason key) (\<lambda>_. mem_step s) (\<lambda>_. advance s) s"
proof (rule wp_mono [OF move_card_wp], goal_cases)
  case (1 m s')
  then show ?case
    by (cases "cached key (mem_idempotency s)")
       (auto simp: step_refl intro!: mem_step.place intro!: at_rules intro: own_key [OF ok])
qed simp

lemma validate_card_step:
  assumes ok: "mem_ok s"
  shows "wp (validate_card cid validator accepted reason pipe payload key) (\<lambda>_. mem_step s) (\<lambda>_. advance s) s"
proof (rule wp_mono [OF validate_card_wp], goal_cases)
  case (1 e s')
  show ?case
  proof (cases "cached key (mem_idempotency s)")
    case new: None
    with 1 obtain c where c: "dict_get (mem_cards s) cid = Some c" by auto
    show ?thesis
    proof (cases "truthy pipe")
      case True
      with 1 new c show ?thesis
        by (auto intro!: mem_step.place intro!: at_rules intro: own_key [OF ok] resolve_pipe_bucket_declared)
    next
      case False
      with 1 new c show ?thesis
        by (auto intro!: mem_step.annotate intro!: at_rules intro: own_key [OF ok])
    qed
  qed (use 1 in \<open>auto simp: step_refl\<close>)
qed simp

lemma submit_artifact_step:
  assumes ok: "mem_ok s"
  shows "wp (submit_artifact lid pipe refs key) (\<lambda>_. mem_step s) (\<lambda>_. advance s) s"
proof (rule wp_mono [OF submit_artifact_wp], goal_cases)
  case (1 stored s')
  then show ?case
  proof (cases "cached key (mem_idempotency s)")
    case None
    have same: "submitted_refs i n refs = map (\<lambda>r. r\<lparr>artifact_event_id := Some n\<rparr>) refs"
      if "\<forall>r \<in> set refs. artifact_card_id r = i" for i n
      using that by (auto simp: submitted_refs_def)
    from None 1 show ?thesis
      by (auto simp: ensure_artifact_refs_ok same dest: keyedD(1) [OF ok]
          intro!: mem_step.submit [where x = "next_reading s"] intro!: at_rules intro: own_key [OF ok])
  qed (auto simp: step_refl)
qed simp

lemma first_freeD:
  assumes "mem_ok s" and "match_ok s t pipe (p, b, n, Some c)"
  shows "dict_get (mem_cards s) (card_id c) = Some c" and "free s t c"
proof -
  from assms(2) have "c \<in> set (dict_values (mem_cards s))" and "free s t c"
    by (auto simp: match_ok_def scanned_def first_free_def simp del: set_map)
  with assms(1) show "dict_get (mem_cards s) (card_id c) = Some c" "free s t c"
    by (auto simp: mem_ok_def cards_ok_def py.keyed_vals simp del: set_map)
qed

lemma claim_card_step:
  assumes ok: "mem_ok s"
  shows "wp (claim_card pipe worker seconds key) (\<lambda>_. mem_step s) (\<lambda>_. advance s) s"
proof (rule wp_mono [OF claim_card_wp], goal_cases)
  case 1
  then show ?case using ok by (simp add: mem_ok_def)
next
  case (2 l s')
  then show ?case
  proof (cases "cached key (mem_idempotency s)")
    case new: None
    with 2 obtain t p bucket node c x where t: "advance s t"
      and m: "match_ok s t pipe (p, bucket, node, Some c)" and l: "l = lease_at t c node worker pipe x"
      and s': "s' = t\<lparr>uuid_pos := Suc (Suc (uuid_pos t)), clock_pos := Suc (Suc (Suc (clock_pos t))),
        mem_leases := dict_set (lease_id l) l (mem_leases s),
        mem_events := logged (event_at t (Suc (uuid_pos t)) (Suc (Suc (clock_pos t))) (card_id c)
          ''card_claimed'' (Some worker) [(''lease_id'', JStr (uuid_str (lease_id l))),
            (''input_pipe'', JStr pipe)]) (mem_events s),
        mem_idempotency := remember key (ILease l) (mem_idempotency s)\<rparr>" by auto
    from first_freeD [OF ok m] obtain y where y: "observed s t y" "unleased (mem_leases s) (card_id c) y"
      and c: "dict_get (mem_cards s) (card_id c) = Some c" by (auto simp: free_def)
    let ?t = "t\<lparr>uuid_pos := Suc (Suc (uuid_pos t)), clock_pos := Suc (Suc (Suc (clock_pos t)))\<rparr>"
    have t': "advance t ?t" by (rule advance_counters) simp_all
    have "uuid_pos s \<le> uuid_pos t" "uuid_src t = uuid_src s" using t by (simp_all add: advance_src)
    then have "drawn s ?t (uuid_src t (uuid_pos t))" "drawn s ?t (uuid_src t (Suc (uuid_pos t)))"
      by (auto intro: drawn_at)
    then show ?thesis unfolding s'
      by (intro mem_step.claim [where x = y and c = c])
         (use t t' y c new l in \<open>auto intro: advance_trans observed_later\<close>)
  qed (auto simp: step_refl)
qed simp

section \<open>Expiring leases\<close>

definition expired :: "datetime \<Rightarrow> lease \<Rightarrow> bool" where
  "expired x l \<longleftrightarrow> lease_released_at l = None \<and> lease_expires_at l \<le> x"

text \<open>What the loop does to one lease: released at the time of the sweep when it has expired.\<close>

definition swept :: "datetime \<Rightarrow> lease \<Rightarrow> lease" where
  "swept x l = (if expired x l then l\<lparr>lease_released_at := Some x\<rparr> else l)"

lemma swept_id [simp]: "lease_id (swept x l) = lease_id l"
  by (simp add: swept_def)

lemma wp_expire_one:
  "wp (bindM (put_lease m) (\<lambda>_. bindM (new_card_event cid ty a d) (\<lambda>e. bindM (append_event e) (\<lambda>_. k)))) Q E s =
     wp k Q E (s\<lparr>uuid_pos := Suc (uuid_pos s), clock_pos := Suc (clock_pos s),
       mem_leases := dict_set (lease_id m) m (mem_leases s),
       mem_events := logged (event_at s (uuid_pos s) (clock_pos s) cid ty a d) (mem_events s)\<rparr>)"
  unfolding writes wp_rules by (rule arg_cong [of _ _ "wp k Q E"]) simp

lemma expire_each_wp:
  "\<lbrakk>mem_ok s; distinct (map lease_id ls); \<forall>l \<in> set ls. dict_get (mem_leases s) (lease_id l) = Some l\<rbrakk> \<Longrightarrow>
   wp (expire_each x ls)
     (\<lambda>out s'. mem_steps s s' \<and> out = map (swept x) (filter (expired x) ls) \<and>
        (\<forall>i. dict_get (mem_leases s') i = (if i \<in> lease_id ` set ls
           then map_option (swept x) (dict_get (mem_leases s) i) else dict_get (mem_leases s) i)) \<and>
        mem_cards s' = mem_cards s)
     (\<lambda>_ _. False) s"
proof (induction ls arbitrary: s)
  case Nil
  then show ?case by (simp add: wp_rules)
next
  case (Cons l ls)
  show ?case
  proof (cases "expired x l")
    case False
    then have eq: "expire_each x (l # ls) = expire_each x ls" by (auto simp: expired_def)
    show ?thesis
      unfolding eq
      by (rule wp_mono [OF Cons.IH [OF Cons.prems(1)]]) (use Cons.prems False in \<open>auto simp: swept_def\<close>)
  next
    case True
    let ?m = "l\<lparr>lease_released_at := Some x\<rparr>"
    let ?s = "s\<lparr>uuid_pos := Suc (uuid_pos s), clock_pos := Suc (clock_pos s),
      mem_leases := dict_set (lease_id l) ?m (mem_leases s),
      mem_events := logged (event_at s (uuid_pos s) (clock_pos s) (lease_card_id l) ''lease_expired''
        (Some (lease_worker_id l)) [(''lease_id'', JStr (uuid_str (lease_id l)))]) (mem_events s)\<rparr>"
    have "mem_step s (?s\<lparr>mem_idempotency := remember None (ILease ?m) (mem_idempotency s)\<rparr>)"
      using Cons.prems True
      by (intro mem_step.release) (auto simp: expired_def cached_def intro!: at_rules)
    then have step: "mem_step s ?s" by (simp add: remember_def)
    have ok: "mem_ok ?s" using step Cons.prems(1) by (rule step_mem_ok)
    have rest: "wp (expire_each x ls)
      (\<lambda>out s'. mem_steps s s' \<and> swept x l # out = map (swept x) (filter (expired x) (l # ls)) \<and>
        (\<forall>i. dict_get (mem_leases s') i = (if i \<in> lease_id ` set (l # ls)
           then map_option (swept x) (dict_get (mem_leases s) i) else dict_get (mem_leases s) i)) \<and>
        mem_cards s' = mem_cards s)
      (\<lambda>_ _. False) ?s"
    proof (rule wp_mono [OF Cons.IH [OF ok]], goal_cases)
      case 2
      show ?case using Cons.prems by (auto simp: image_iff)
    next
      case (3 out s')
      have "mem_steps s s'" using step 3(2) by (meson converse_rtranclp_into_rtranclp)
      with 3 True Cons.prems show ?case by (auto simp: swept_def)
    qed (use Cons.prems in simp_all)
    have eq: "expire_each x (l # ls) = bindM (put_lease ?m) (\<lambda>_.
        bindM (new_card_event (lease_card_id l) ''lease_expired'' (Some (lease_worker_id l))
          [(''lease_id'', JStr (uuid_str (lease_id l)))]) (\<lambda>e.
        bindM (append_event e) (\<lambda>_.
        bindM (expire_each x ls) (\<lambda>rest. returnM (swept x l # rest)))))"
      using True by (simp add: expired_def swept_def Let_def)
    have id: "lease_id ?m = lease_id l" by simp
    show ?thesis
      unfolding eq wp_expire_one wp_bind [of "expire_each x ls"] wp_return id by (rule rest)
  qed
qed

lemma current_leases:
  assumes "mem_ok s"
  shows "distinct (map lease_id (dict_values (mem_leases s)))"
    and "\<forall>l \<in> set (dict_values (mem_leases s)). dict_get (mem_leases s) (lease_id l) = Some l"
    and "dict_get (mem_leases s) i = Some l \<Longrightarrow> i \<in> lease_id ` set (dict_values (mem_leases s))"
proof -
  have keyed: "py.keyed lease_id (mem_leases s)" using assms by (simp add: mem_ok_def leases_ok_def)
  then have "map lease_id (dict_values (mem_leases s)) = map fst (mem_leases s)"
    by (auto simp: py.keyed_def)
  with keyed show "distinct (map lease_id (dict_values (mem_leases s)))"
    by (simp only: py.keyed_def)
  show "\<forall>l \<in> set (dict_values (mem_leases s)). dict_get (mem_leases s) (lease_id l) = Some l"
    using py.keyed_vals [OF keyed] by blast
  show "i \<in> lease_id ` set (dict_values (mem_leases s))" if "dict_get (mem_leases s) i = Some l"
    using that py.keyed_vals [OF keyed] py.keyed_get [OF keyed] by (metis image_eqI)
qed

lemma expire_leases_wp:
  assumes ok: "mem_ok s"
  shows "wp expire_leases
     (\<lambda>out s'. mem_steps s s' \<and>
        out = map (swept (next_reading s)) (filter (expired (next_reading s)) (dict_values (mem_leases s))) \<and>
        (\<forall>i. dict_get (mem_leases s') i = map_option (swept (next_reading s)) (dict_get (mem_leases s) i)) \<and>
        mem_cards s' = mem_cards s)
     (\<lambda>_ _. False) s"
proof -
  let ?s = "s\<lparr>clock_pos := Suc (clock_pos s)\<rparr>"
  have tick: "mem_step s ?s" by (rule mem_step.tick) (rule advance_now)
  have ok': "mem_ok ?s" using tick ok by (rule step_mem_ok)
  have "wp (expire_each (next_reading s) (dict_values (mem_leases s)))
     (\<lambda>out s'. mem_steps s s' \<and>
        out = map (swept (next_reading s)) (filter (expired (next_reading s)) (dict_values (mem_leases s))) \<and>
        (\<forall>i. dict_get (mem_leases s') i = map_option (swept (next_reading s)) (dict_get (mem_leases s) i)) \<and>
        mem_cards s' = mem_cards s)
     (\<lambda>_ _. False) ?s"
  proof (rule wp_mono [OF expire_each_wp [OF ok']], goal_cases)
    case (3 out s')
    have "mem_steps s s'" using tick 3(2) by (meson converse_rtranclp_into_rtranclp)
    moreover have "dict_get (mem_leases s') i = map_option (swept (next_reading s)) (dict_get (mem_leases s) i)" for i
      using 3 current_leases(3) [OF ok, of i] by (cases "dict_get (mem_leases s) i") auto
    ultimately show ?case using 3 by simp
  qed (use current_leases [OF ok] in simp_all)
  then show ?thesis unfolding expire_leases_def wp_rules next_reading_def by simp
qed

section \<open>Sequences of calls\<close>

text \<open>The calls a client can make of the runtime, and the state after one call and after many.\<close>

datatype call =
    Register patch_panel
  | Create string jdict "jdict option" "string option"
  | Claim string string int "string option"
  | Submit uuid string "artifact_reference list" "string option"
  | Renew uuid int "string option"
  | Release uuid "string option" "string option"
  | Expire
  | Validate uuid string bool "string option" "string option" "jdict option" "string option"
  | Move uuid string "string option" "string option" "string option"
  | Record uuid string "string option" "jdict option" "string option"

text \<open>The idempotency key of a call.\<close>

fun call_key :: "call \<Rightarrow> string option" where
  "call_key (Create _ _ _ key) = key"
| "call_key (Claim _ _ _ key) = key"
| "call_key (Submit _ _ _ key) = key"
| "call_key (Renew _ _ key) = key"
| "call_key (Release _ _ key) = key"
| "call_key (Validate _ _ _ _ _ _ key) = key"
| "call_key (Move _ _ _ _ key) = key"
| "call_key (Record _ _ _ _ key) = key"
| "call_key _ = None"

datatype outcome =
    OPanel patch_panel
  | OCard card
  | OLease lease
  | OLeases "lease list"
  | OArtifacts "artifact_reference list"
  | OEvent card_event

definition mapM :: "('a \<Rightarrow> 'b) \<Rightarrow> ('s, 'a) M \<Rightarrow> ('s, 'b) M" where
  "mapM f m = (\<lambda>s. case m s of (Inl e, s') \<Rightarrow> (Inl e, s') | (Inr x, s') \<Rightarrow> (Inr (f x), s'))"

fun execute :: "'g networkx \<Rightarrow> call \<Rightarrow> ('z mem_runtime_scheme, outcome) M" where
  "execute nx (Register p) = mapM OPanel (register_patch_panel nx p)"
| "execute nx (Create pid payload md key) = mapM OCard (create_card pid payload md key)"
| "execute nx (Claim pipe worker seconds key) = mapM OLease (claim_card pipe worker seconds key)"
| "execute nx (Submit lid pipe refs key) = mapM OArtifacts (submit_artifact lid pipe refs key)"
| "execute nx (Renew lid seconds key) = mapM OLease (renew_lease lid seconds key)"
| "execute nx (Release lid actor key) = mapM OLease (release_lease lid actor key)"
| "execute nx Expire = mapM OLeases expire_leases"
| "execute nx (Validate cid v a r pipe payload key) = mapM OEvent (validate_card cid v a r pipe payload key)"
| "execute nx (Move cid b actor r key) = mapM OCard (move_card cid b actor r key)"
| "execute nx (Record cid ty actor payload key) = mapM OEvent (record_event cid ty actor payload key)"

definition perform :: "'g networkx \<Rightarrow> call \<Rightarrow> 'z mem_runtime_scheme \<Rightarrow> 'z mem_runtime_scheme" where
  "perform nx c s = snd (execute nx c s)"

definition perform_all :: "'g networkx \<Rightarrow> call list \<Rightarrow> 'z mem_runtime_scheme \<Rightarrow> 'z mem_runtime_scheme" where
  "perform_all nx calls s = fold (perform nx) calls s"

lemma wp_mapM [wp_rules]: "wp (mapM f m) Q E s = wp m (\<lambda>x. Q (f x)) E s"
  by (auto simp: wp_def mapM_def split: prod.splits sum.splits)

lemma execute_wp:
  assumes "networkx_graph nx gnodes gedges" and ok: "mem_ok s"
  shows "wp (execute nx c) (\<lambda>_. mem_steps s) (\<lambda>_. advance s) s"
proof -
  have nx: "validate nx p = Inr r \<Longrightarrow> well_formed_panel p" for p r
    using networkx_graph.validate_iff [OF assms(1)] by blast
  have one: "wp m (\<lambda>_. mem_steps s) (\<lambda>_. advance s) s" if "wp m (\<lambda>_. mem_step s) (\<lambda>_. advance s) s"
    for m :: "('b mem_runtime_scheme, 'd) M"
    using that by (rule wp_mono) auto
  have "wp expire_leases (\<lambda>_. mem_steps s) (\<lambda>_. advance s) s"
    using expire_leases_wp [OF ok] by (rule wp_mono) simp_all
  then show ?thesis
    by (cases c)
       (auto simp: wp_mapM intro: one register_patch_panel_step [OF nx] create_card_step [OF ok]
         claim_card_step [OF ok] submit_artifact_step [OF ok] renew_lease_step [OF ok]
         release_lease_step [OF ok] validate_card_step [OF ok] move_card_step [OF ok]
         record_event_step)
qed

lemma perform_steps:
  assumes "networkx_graph nx gnodes gedges" and "mem_ok s"
  shows "mem_steps s (perform nx c s)"
  using execute_wp [OF assms, of c] unfolding perform_def wp_def
  by (auto split: prod.splits sum.splits intro: mem_step.tick)

lemma perform_all_steps:
  assumes "networkx_graph nx gnodes gedges" and "mem_ok s"
  shows "mem_steps s (perform_all nx calls s)"
  using assms(2) unfolding perform_all_def
proof (induction calls arbitrary: s)
  case (Cons c calls)
  have step: "mem_steps s (perform nx c s)" using assms(1) Cons.prems by (rule perform_steps)
  from Cons.IH [OF steps_mem_ok [OF step Cons.prems]] step show ?case by simp
qed simp

lemma empty_runtime_ok:
  assumes "inj us"
  shows "mem_ok (empty_runtime us cs)" and "exclusive_leases (empty_runtime us cs)"
  using assms
  by (auto simp: mem_ok_def mem_ok_defs empty_runtime_def fresh_uuids_def exclusive_leases_def
      py.keyed_empty)

end
