(* ===== verification/Samples.thy ===== *)
theory Samples
  imports MemoryRefinement
begin

text \<open>
  Concrete data the witnesses of the properties evaluate: a small workflow, a source of distinct
  identifiers, a clock that
  advances by a second per reading for a million readings and then stops, and states of the runtime.
\<close>

definition sample_ids :: "nat \<Rightarrow> uuid" where
  "sample_ids n = UUID (replicate n CHR ''x'')"

definition sample_clock :: "nat \<Rightarrow> datetime" where
  "sample_clock n = 1000000 * min (int n) 1000000"

definition sample_bucket :: "string \<Rightarrow> string option \<Rightarrow> bucket_definition" where
  "sample_bucket b contract = \<lparr>bucket_id = b, bucket_description = None, bucket_input_requirements = [],
     bucket_output_requirements = [], bucket_acceptance_contract = contract, bucket_shadow_eligible = False\<rparr>"

definition sample_node :: "string \<Rightarrow> node_type \<Rightarrow> string list \<Rightarrow> string list \<Rightarrow> node_definition" where
  "sample_node n ty ins outs = \<lparr>node_id = n, node_type = ty, node_validator_kind = None,
     node_description = None, node_input_pipes = ins, node_output_pipes = outs,
     node_acceptance_contract = None, node_config = []\<rparr>"

definition sample_panel :: patch_panel where
  "sample_panel = \<lparr>panel_id = ''p'', panel_version = ''1'', panel_description = None,
     panel_buckets = [sample_bucket ''todo'' None, sample_bucket ''done'' (Some ''report'')],
     panel_nodes = [sample_node ''src'' SOURCE [] [''s.out''],
       sample_node ''work'' WORKER [''w.in''] [''w.out''], sample_node ''end'' SINK [''e.in''] []],
     panel_edges = [\<lparr>edge_from_node = ''src'', edge_to_node = ''work'', edge_on = ''ok'', edge_condition = None\<rparr>,
       \<lparr>edge_from_node = ''work'', edge_to_node = ''end'', edge_on = ''ok'', edge_condition = None\<rparr>],
     panel_pipe_bindings =
       [(''s.out'', \<lparr>binding_bucket = ''todo'', binding_node = None, binding_direction = None\<rparr>),
        (''w.in'', \<lparr>binding_bucket = ''todo'', binding_node = None, binding_direction = None\<rparr>),
        (''w.out'', \<lparr>binding_bucket = ''done'', binding_node = None, binding_direction = None\<rparr>),
        (''e.in'', \<lparr>binding_bucket = ''done'', binding_node = None, binding_direction = None\<rparr>)],
     panel_acceptance_contracts = [\<lparr>contract_id = ''report'', contract_description = [],
       contract_schema_ref = None, contract_rules = []\<rparr>],
     panel_metadata = []\<rparr>"

definition sample_start :: mem_runtime where
  "sample_start = empty_runtime sample_ids sample_clock"

text \<open>The states after the panel is registered, a card created, the card claimed.\<close>

definition sample_registered :: mem_runtime where
  "sample_registered = perform list_networkx (Register sample_panel) sample_start"

lemma sample_valid: "\<exists>r. validate list_networkx sample_panel = Inr r"
proof -
  have "(case validate list_networkx sample_panel of Inr _ \<Rightarrow> True | Inl _ \<Rightarrow> False)" by code_simp
  then show ?thesis by (auto split: sum.splits)
qed

lemma sample_well_formed: "well_formed_panel sample_panel"
  using sample_valid list_nx.validate_iff by blast

lemma sample_registered_code [code]:
  "sample_registered = sample_start\<lparr>mem_patch_panels := [(''p'', sample_panel)]\<rparr>"
proof -
  obtain r where "validate list_networkx sample_panel = Inr r" using sample_valid by blast
  moreover have "panel_id sample_panel = ''p''" by (simp add: sample_panel_def)
  ultimately show ?thesis
    by (simp add: sample_registered_def perform_def register_patch_panel_def validate_patch_panel_def
        mapM_def run_defs sample_start_def empty_runtime_def)
qed

definition sample_created :: mem_runtime where
  "sample_created = perform list_networkx (Create ''p'' [] None (Some ''k'')) sample_registered"

definition sample_claimed :: mem_runtime where
  "sample_claimed = perform list_networkx (Claim ''w.in'' ''ann'' 60 None) sample_created"

definition sample_ref :: artifact_reference where
  "sample_ref = \<lparr>artifact_id = UUID ''a'', artifact_card_id = sample_ids 0, artifact_event_id = None,
     artifact_storage_ref = ''s3://x'', artifact_content_hash = ''h'', artifact_content_type = ''text'',
     artifact_size_bytes = 1, artifact_metadata = [], artifact_created_at = 0\<rparr>"

lemma sample_ids_inj: "inj sample_ids"
  by (rule injI) (auto simp: sample_ids_def replicate_eq_replicate)

lemma sample_clock_mono: "mono sample_clock"
  by (rule monoI) (simp add: sample_clock_def)

lemma sample_clock_valid: "\<exists>x. plus_seconds (sample_clock k) 60 = Inr x"
  by (simp add: plus_seconds_def sample_clock_def datetime_min_def datetime_max_def Let_def)

lemma sample_graph: "networkx_graph list_networkx (\<lambda>g. set (fst g)) (\<lambda>g. set (snd g))"
  by (rule list_nx.networkx_graph_axioms)

lemma sample_ok:
  "mem_ok sample_start" "mem_ok sample_registered" "mem_ok sample_created" "mem_ok sample_claimed"
proof -
  show start: "mem_ok sample_start"
    unfolding sample_start_def by (rule empty_runtime_ok [OF sample_ids_inj])
  show registered: "mem_ok sample_registered"
    unfolding sample_registered_def by (rule steps_mem_ok [OF perform_steps [OF sample_graph start] start])
  show created: "mem_ok sample_created" unfolding sample_created_def
    by (rule steps_mem_ok [OF perform_steps [OF sample_graph registered] registered])
  show "mem_ok sample_claimed" unfolding sample_claimed_def
    by (rule steps_mem_ok [OF perform_steps [OF sample_graph created] created])
qed

lemma step_clock_src: "mem_step s s' \<Longrightarrow> clock_src s' = clock_src s"
  by (cases rule: mem_step.cases) (auto simp: advance_src)

lemma steps_clock_src: "mem_steps s s' \<Longrightarrow> clock_src s' = clock_src s"
  by (induction rule: rtranclp_induct) (auto simp: step_clock_src)

lemma sample_created_clock: "clock_src sample_created = sample_clock"
proof -
  have "clock_src sample_registered = clock_src sample_start"
    unfolding sample_registered_def by (rule steps_clock_src [OF perform_steps [OF sample_graph sample_ok(1)]])
  moreover have "clock_src sample_created = clock_src sample_registered"
    unfolding sample_created_def by (rule steps_clock_src [OF perform_steps [OF sample_graph sample_ok(2)]])
  ultimately show ?thesis by (simp add: sample_start_def empty_runtime_def)
qed

text \<open>Splitting a run whose outcome was evaluated.\<close>

lemma run_outcome: "fst p = r \<Longrightarrow> p = (r, snd p)"
  by (cases p) simp

text \<open>The sample submission succeeds.\<close>

lemma sample_submission:
  "\<exists>stored. submit_artifact (sample_ids 2) ''w.out'' [sample_ref] None sample_claimed =
     (Inr stored, snd (submit_artifact (sample_ids 2) ''w.out'' [sample_ref] None sample_claimed))"
proof -
  have "(case fst (submit_artifact (sample_ids 2) ''w.out'' [sample_ref] None sample_claimed) of
    Inr _ \<Rightarrow> True | Inl _ \<Rightarrow> False)" by code_simp
  then obtain stored where
    "fst (submit_artifact (sample_ids 2) ''w.out'' [sample_ref] None sample_claimed) = Inr stored"
    by (auto split: sum.splits)
  from run_outcome [OF this] show ?thesis by blast
qed

text \<open>The state with the one card, written out.\<close>

definition sample_card :: card where
  "sample_card = \<lparr>card_id = sample_ids 0, card_workflow_version = ''p:1'', card_current_bucket = ''todo'',
     card_payload = [], card_metadata = [], card_created_at = 0\<rparr>"

lemma sample_panel_facts:
  "resolve_initial_bucket sample_panel = Inr ''todo''" "workflow_version_id sample_panel = ''p:1''"
  "panel_id sample_panel = ''p''" "panel_version sample_panel = ''1''"
  by (simp_all add: resolve_initial_bucket_def workflow_version_id_def sample_panel_def sample_node_def)

lemma sample_created_state:
  "sample_created = sample_registered\<lparr>uuid_pos := 2, clock_pos := 2,
     mem_cards := [(sample_ids 0, sample_card)],
     mem_events := [(sample_ids 0, [event_at sample_start 1 1 (sample_ids 0) ''card_created'' None
       [(''patch_panel_id'', JStr ''p''), (''version'', JStr ''1''), (''bucket'', JStr ''todo'')]])],
     mem_idempotency := [(''k'', ICard sample_card)]\<rparr>"
  by (simp add: sample_created_def perform_def mapM_def create_card_def idempotently_def get_idempotent_def
      cached_def get_patch_panel_def run_defs sample_registered_code sample_start_def empty_runtime_def
      sample_panel_facts new_card_def new_card_event_def uuid4_def now_utc_def put_card_def append_event_def
      store_idempotent_def remember_def logged_def recorded_events_def event_at_def sample_card_def
      sample_clock_def numeral_2_eq_2)

end
