(* ===== verification/MemoryProperties.thy ===== *)
theory MemoryProperties
  imports Samples
begin

text \<open>
  The properties of the in-memory runtime, over sequences of calls (\<open>perform_all\<close>) that start in
  the empty runtime, and over single operations. Each rests on the steps the operations take
  (\<^verbatim>\<open>MemoryRefinement\<close>) and what the steps keep (\<^verbatim>\<open>MemorySteps\<close>).
\<close>

section \<open>Idempotency\<close>

text \<open>What a call answers when its key is remembered with \<open>v\<close>.\<close>

fun replayed :: "call \<Rightarrow> idempotent \<Rightarrow> outcome res" where
  "replayed (Create _ _ _ _) (ICard c) = Inr (OCard c)"
| "replayed (Move _ _ _ _ _) (ICard c) = Inr (OCard c)"
| "replayed (Claim _ _ _ _) (ILease l) = Inr (OLease l)"
| "replayed (Renew _ _ _) (ILease l) = Inr (OLease l)"
| "replayed (Release _ _ _) (ILease l) = Inr (OLease l)"
| "replayed (Submit _ _ _ _) (IArtifacts refs) = Inr (OArtifacts refs)"
| "replayed (Validate _ _ _ _ _ _ _) (IEvent e) = Inr (OEvent e)"
| "replayed (Record _ _ _ _ _) (IEvent e) = Inr (OEvent e)"
| "replayed _ _ = Inl reused_key"

lemma idempotently_cached:
  "cached key (mem_idempotency s) = Some v \<Longrightarrow> idempotently typed key body s = (typed v, s)"
  by (simp add: idempotently_def get_idempotent_def run_defs)

lemmas keyed_op_defs = create_card_def claim_card_def submit_artifact_def renew_lease_def
  release_lease_def validate_card_def move_card_def record_event_def

lemma execute_cached:
  assumes "call_key c = Some k" and "cached (Some k) (mem_idempotency s) = Some v"
  shows "execute nx c s = (replayed c v, s)"
  using assms
  by (cases c; cases v; simp add: keyed_op_defs mapM_def idempotently_cached)

lemma cached_remembered:
  assumes "results_ok s" and "k \<noteq> []"
  shows "cached (Some k) (mem_idempotency s) = dict_get (mem_idempotency s) k"
proof (cases "dict_get (mem_idempotency s) k")
  case (Some v)
  with assms have "idempotent_true v" by (cases v) (force simp: results_ok_def)+
  with Some assms(2) show ?thesis by (simp add: cached_def)
qed (simp add: cached_def)

text \<open>The release of a lease that has been released before: it returns the lease and stores no key.\<close>

fun releases_again :: "'z mem_runtime_scheme \<Rightarrow> call \<Rightarrow> bool" where
  "releases_again s (Release lid actor key) =
     (case dict_get (mem_leases s) lid of None \<Rightarrow> False | Some l \<Rightarrow> lease_released_at l \<noteq> None)"
| "releases_again s _ = False"

text \<open>Every other call that returns leaves its own outcome under its key.\<close>

lemma remembered_outcome:
  assumes ok: "mem_ok s" and key: "call_key c = Some k" "k \<noteq> []" and effect: "\<not> releases_again s c"
  shows "wp (execute nx c)
    (\<lambda>out s'. \<exists>v. dict_get (mem_idempotency s') k = Some v \<and> replayed c v = Inr out) (\<lambda>_ _. True) s"
proof (cases "dict_get (mem_idempotency s) k")
  case (Some v)
  then have "execute nx c s = (replayed c v, s)"
    using execute_cached [OF key(1)] cached_remembered [OF _ key(2), of s] ok by (simp add: mem_ok_def)
  with Some show ?thesis by (simp add: wp_def split: sum.split)
next
  case None
  then have none: "cached (Some k) (mem_idempotency s) = None" by (simp add: cached_def)
  have leases: "leases_ok s" using ok by (simp add: mem_ok_def)
  have release: "wp (release_lease lid actor (Some k))
      (\<lambda>l s'. dict_get (mem_idempotency s') k = Some (ILease l)) (\<lambda>_ _. True) s"
    if "c = Release lid actor (Some k)" for lid actor
  proof (rule wp_mono [OF release_lease_wp], goal_cases)
    case (1 l t)
    from 1(2) obtain l' where l': "dict_get (mem_leases s) lid = Some l'" by (auto simp: none)
    then have "lease_released_at l' = None" using effect that by simp
    with 1(2) l' show ?case using key(2) by (auto simp: none remember_get)
  qed simp
  show ?thesis
    using key
    by (cases c; simp add: wp_mapM)
       (rule wp_mono [OF create_card_wp] wp_mono [OF claim_card_wp [OF leases]]
         wp_mono [OF submit_artifact_wp] wp_mono [OF renew_lease_wp] wp_mono [OF release]
         wp_mono [OF validate_card_wp] wp_mono [OF move_card_wp] wp_mono [OF record_event_wp];
        use key None none in \<open>auto simp: remember_get split: if_splits\<close>)+
qed

section \<open>Properties of every sequence of calls\<close>

text \<open>
  Property C1. After any sequence of calls on a new runtime, failed calls included, the store is
  consistent: dictionaries are keyed by the identifiers of their values, registered panels are well
  formed, leases and artifacts refer to cards and events that exist, every card has a history that
  starts with its creation and repeats no event, and remembered results are objects of the store.
\<close>

theorem runtime_invariant:
  assumes "networkx_graph nx gnodes gedges" and "inj us"
  shows "mem_ok (perform_all nx calls (empty_runtime us cs))"
  using empty_runtime_ok(1) [OF assms(2)] perform_all_steps [OF assms(1)] by (blast intro: steps_mem_ok)

theorem runtime_invariant_witness:
  "mem_ok (perform_all list_networkx
     [Register sample_panel, Create ''p'' [] None None, Claim ''w.in'' ''ann'' 60 None, Expire]
     (empty_runtime sample_ids sample_clock))"
  by (rule runtime_invariant [OF sample_graph sample_ids_inj])

text \<open>
  Property C2. One holder per card: after any sequence of calls, on a clock that does not run
  backwards, two leases of one card that are both active at a time not before the next reading of
  the clock are the same lease.
\<close>

theorem one_lease_holder:
  assumes "networkx_graph nx gnodes gedges" and "inj us" and "mono cs"
    and "s = perform_all nx calls (empty_runtime us cs)"
    and "dict_get (mem_leases s) i = Some l" and "dict_get (mem_leases s) j = Some m"
    and "lease_card_id l = lease_card_id m" and "next_reading s \<le> x"
    and "lease_active x l" and "lease_active x m"
  shows "i = j \<and> l = m"
proof -
  let ?s0 = "empty_runtime us cs"
  have start: "mem_ok ?s0" "exclusive_leases ?s0" using assms(2) by (rule empty_runtime_ok)+
  have "steady_clock ?s0" using assms(3) by (simp add: steady_clock_def empty_runtime_def)
  then have "exclusive_leases s"
    using steps_exclusive [OF perform_all_steps [OF assms(1) start(1)] start(1)] start(2) assms(4) by simp
  with assms(5-) have "i = j" by (blast intro: exclusiveD)
  with assms(5,6) show ?thesis by simp
qed

definition sample_calls :: "call list" where
  "sample_calls = [Register sample_panel, Create ''p'' [] None None, Claim ''w.in'' ''ann'' 60 None,
     Claim ''w.in'' ''bob'' 60 None]"

theorem one_lease_holder_witness:
  "{j. \<exists>m. dict_get (mem_leases (perform_all list_networkx sample_calls
          (empty_runtime sample_ids sample_clock))) j = Some m \<and>
        lease_card_id m = sample_ids 0 \<and> lease_active 9000000 m} = {sample_ids 2}"
proof -
  let ?s = "perform_all list_networkx sample_calls (empty_runtime sample_ids sample_clock)"
  have "map_option (\<lambda>l. (lease_card_id l = sample_ids 0, lease_active 9000000 l))
      (dict_get (mem_leases ?s) (sample_ids 2)) = Some (True, True)"
    by code_simp
  then obtain l where l: "dict_get (mem_leases ?s) (sample_ids 2) = Some l" "lease_active 9000000 l"
    "lease_card_id l = sample_ids 0" by auto
  have now: "next_reading ?s \<le> 9000000" by code_simp
  have "j = sample_ids 2" if "dict_get (mem_leases ?s) j = Some m" "lease_card_id m = sample_ids 0"
    "lease_active 9000000 m" for j m
    using one_lease_holder [OF sample_graph sample_ids_inj sample_clock_mono refl that(1) l(1) _ now
      that(3) l(2)] that(2) l(3) by simp
  with l show ?thesis by blast
qed

text \<open>
  Property C3. The history of a card is append-only: whatever calls follow, what was recorded stays
  recorded, in its place.
\<close>

theorem history_append_only:
  assumes "networkx_graph nx gnodes gedges" and "inj us"
  shows "prefix (history (perform_all nx calls (empty_runtime us cs)) cid)
    (history (perform_all nx (calls @ later) (empty_runtime us cs)) cid)"
proof -
  let ?s = "perform_all nx calls (empty_runtime us cs)"
  have ok: "mem_ok ?s"
    using empty_runtime_ok(1) [OF assms(2)] perform_all_steps [OF assms(1)] by (blast intro: steps_mem_ok)
  have "perform_all nx (calls @ later) (empty_runtime us cs) = perform_all nx later ?s"
    by (simp add: perform_all_def)
  with steps_history [OF perform_all_steps [OF assms(1) ok] ok] show ?thesis by simp
qed

theorem history_append_only_witness:
  "prefix (history (perform_all list_networkx [Register sample_panel, Create ''p'' [] None None]
      (empty_runtime sample_ids sample_clock)) (sample_ids 0))
    (history (perform_all list_networkx ([Register sample_panel, Create ''p'' [] None None]
      @ [Claim ''w.in'' ''ann'' 60 None]) (empty_runtime sample_ids sample_clock)) (sample_ids 0))"
  by (rule history_append_only [OF sample_graph sample_ids_inj])

text \<open>
  Property C4. A call that raises leaves no partial change: all six dictionaries are as before,
  only identifiers were drawn and the clock was read.
\<close>

theorem failed_call_changes_nothing:
  assumes "networkx_graph nx gnodes gedges" and "mem_ok s" and "execute nx c s = (Inl e, s')"
  shows "mem_patch_panels s' = mem_patch_panels s \<and> mem_cards s' = mem_cards s \<and>
    mem_leases s' = mem_leases s \<and> mem_artifacts s' = mem_artifacts s \<and>
    mem_events s' = mem_events s \<and> mem_idempotency s' = mem_idempotency s"
  using wp_errD [OF execute_wp [OF assms(1,2)] assms(3)] by (simp add: advance_store)

theorem failed_call_changes_nothing_witness:
  "mem_cards (snd (execute list_networkx (Submit (sample_ids 2) ''w.in'' [sample_ref] None) sample_claimed))
     = mem_cards sample_claimed"
proof -
  have "case fst (execute list_networkx (Submit (sample_ids 2) ''w.in'' [sample_ref] None) sample_claimed)
    of Inl _ \<Rightarrow> True | Inr _ \<Rightarrow> False" by code_simp
  then obtain e where
    "fst (execute list_networkx (Submit (sample_ids 2) ''w.in'' [sample_ref] None) sample_claimed) = Inl e"
    by (auto split: sum.splits)
  from failed_call_changes_nothing [OF sample_graph sample_ok(4) run_outcome [OF this]] show ?thesis by simp
qed

text \<open>
  Cards and leases keep their identity through any calls: of a card only the bucket
  can change, of a lease only its expiry and release, and a released lease never changes again.
\<close>

theorem identities_stable:
  assumes "networkx_graph nx gnodes gedges" and "mem_ok s"
  shows "identities_kept s (perform_all nx calls s)"
  by (rule steps_identities [OF perform_all_steps [OF assms] assms(2)])

theorem identities_stable_witness:
  "identities_kept sample_claimed
     (perform_all list_networkx [Submit (sample_ids 2) ''w.out'' [sample_ref] None, Expire] sample_claimed)"
  by (rule identities_stable [OF sample_graph sample_ok(4)])

text \<open>
  Property C8. Idempotency: when a call with a key has returned, its key is remembered, and making the same call
  again after any other calls, with the same key or not, returns the same object and changes nothing. The one exception is the
  release of a lease that had been released before, which returns the lease and remembers no key.
\<close>

theorem idempotent_replay:
  assumes nx: "networkx_graph nx gnodes gedges" and ok: "mem_ok s"
    and run: "execute nx c s = (Inr out, s1)"
    and key: "call_key c = Some k" "k \<noteq> []" and effect: "\<not> releases_again s c"
  shows "k \<in> dom (dict_get (mem_idempotency s1)) \<and>
    execute nx c (perform_all nx calls s1) = (Inr out, perform_all nx calls s1)"
proof -
  obtain v where v: "dict_get (mem_idempotency s1) k = Some v" and out: "replayed c v = Inr out"
    using wp_okD [OF remembered_outcome [OF ok key effect] run] by blast
  have ok1: "mem_ok s1"
    using wp_okD [OF execute_wp [OF nx ok] run] ok by (blast intro: steps_mem_ok)
  let ?s = "perform_all nx calls s1"
  have steps: "mem_steps s1 ?s" by (rule perform_all_steps [OF nx ok1])
  have "dict_get (mem_idempotency ?s) k = Some v" by (rule steps_idempotency [OF steps ok1 v])
  moreover have "results_ok ?s" using steps_mem_ok [OF steps ok1] by (simp add: mem_ok_def)
  ultimately have "cached (Some k) (mem_idempotency ?s) = Some v"
    using key(2) by (simp add: cached_remembered)
  from execute_cached [OF key(1) this] out v show ?thesis by auto
qed

theorem idempotent_replay_witness:
  "\<exists>out t. execute list_networkx (Claim ''w.in'' ''ann'' 60 (Some ''q'')) sample_created = (Inr out, t) \<and>
     execute list_networkx (Claim ''w.in'' ''ann'' 60 (Some ''q'')) (perform_all list_networkx [Expire] t) =
     (Inr out, perform_all list_networkx [Expire] t)"
proof -
  let ?c = "Claim ''w.in'' ''ann'' 60 (Some ''q'')"
  have "case execute list_networkx ?c sample_created of (Inr _, _) \<Rightarrow> True | (Inl _, _) \<Rightarrow> False"
    by code_simp
  then obtain out t where run: "execute list_networkx ?c sample_created = (Inr out, t)"
    by (auto split: sum.splits prod.splits)
  have "\<not> releases_again sample_created ?c" by simp
  from idempotent_replay [OF sample_graph sample_ok(3) run _ _ this, of "''q''" "[Expire]"] run show ?thesis by auto
qed

text \<open>
  A remembered key answers every later call that carries it, without touching the
  store: with the remembered object when the call returns objects of that kind, and with a
  \<^verbatim>\<open>ConflictError\<close> when the key was used for a different operation.
\<close>

theorem key_answers_call:
  assumes "mem_ok s" and "dict_get (mem_idempotency s) k = Some v" and "call_key c = Some k" and "k \<noteq> []"
  shows "execute nx c s = (replayed c v, s)"
  using assms cached_remembered [of s k] execute_cached [OF assms(3)] by (simp add: mem_ok_def)

theorem key_answers_call_witness:
  "execute list_networkx (Claim ''w.in'' ''ann'' 60 (Some ''k'')) sample_created =
     (Inl (ConflictError ''idempotency key was already used for a different operation''), sample_created)"
proof -
  have "(case dict_get (mem_idempotency sample_created) ''k'' of Some (ICard c) \<Rightarrow> True | _ \<Rightarrow> False)"
    by code_simp
  then obtain c where "dict_get (mem_idempotency sample_created) ''k'' = Some (ICard c)"
    by (auto split: option.splits idempotent.splits)
  from key_answers_call [OF sample_ok(3) this, of "Claim ''w.in'' ''ann'' 60 (Some ''k'')" list_networkx]
  show ?thesis by (simp add: reused_key_def)
qed

section \<open>Properties of the operations\<close>

text \<open>
  Property C6. A claim that is not a replay leases the first card, in creation order, that has the
  workflow version of a registered panel, stands in the bucket the input pipe resolves to and is
  not held by an active lease: every earlier such card was held when the scan looked at it. The
  lease names the node of the pipe and the worker, expires the given seconds after a reading of the
  clock, and the claim is recorded in the history of the card.
\<close>

theorem claim_takes_first_free:
  assumes "mem_ok s" and "cached key (mem_idempotency s) = None"
    and "claim_card pipe worker seconds key s = (Inr l, s')"
  shows "\<exists>t p bucket c e. advance s t \<and> p \<in> set (dict_values (mem_patch_panels s)) \<and>
    resolve_pipe_bucket p pipe Input = Inr (bucket, lease_node_id l) \<and>
    first_free s t (workflow_version_id p) bucket (dict_values (mem_cards s)) c \<and>
    lease_card_id l = card_id c \<and> lease_worker_id l = worker \<and> lease_released_at l = None \<and>
    plus_seconds (next_reading t) seconds = Inr (lease_expires_at l) \<and>
    mem_leases s' = dict_set (lease_id l) l (mem_leases s) \<and> mem_cards s' = mem_cards s \<and>
    history s' (card_id c) = history s (card_id c) @ [e] \<and> event_type e = ''card_claimed''"
proof -
  have "leases_ok s" using assms(1) by (simp add: mem_ok_def)
  from wp_okD [OF claim_card_wp [OF this] assms(3), unfolded assms(2) simp_thms if_False]
  obtain t p bucket node c x where t: "advance s t" and m: "match_ok s t pipe (p, bucket, node, Some c)"
    and p: "p \<in> set (dict_values (mem_patch_panels s))"
    and x: "plus_seconds (next_reading t) seconds = Inr x" and l: "l = lease_at t c node worker pipe x"
    and s': "s' = t\<lparr>uuid_pos := Suc (Suc (uuid_pos t)), clock_pos := Suc (Suc (Suc (clock_pos t))),
      mem_leases := dict_set (lease_id l) l (mem_leases s),
      mem_events := logged (event_at t (Suc (uuid_pos t)) (Suc (Suc (clock_pos t))) (card_id c)
        ''card_claimed'' (Some worker) [(''lease_id'', JStr (uuid_str (lease_id l))),
          (''input_pipe'', JStr pipe)]) (mem_events s),
      mem_idempotency := remember key (ILease l) (mem_idempotency s)\<rparr>"
    by blast
  let ?e = "event_at t (Suc (uuid_pos t)) (Suc (Suc (clock_pos t))) (card_id c)
    ''card_claimed'' (Some worker) [(''lease_id'', JStr (uuid_str (lease_id l))), (''input_pipe'', JStr pipe)]"
  have "history s' (card_id c) = history s (card_id c) @ [?e]" by (simp add: s' recorded_logged)
  moreover have "event_type ?e = ''card_claimed''" by simp
  moreover have "mem_cards s' = mem_cards s" by (simp add: s' advance_store [OF t])
  moreover have "mem_leases s' = dict_set (lease_id l) l (mem_leases s)" by (simp add: s')
  moreover have "first_free s t (workflow_version_id p) bucket (dict_values (mem_cards s)) c"
    and "resolve_pipe_bucket p pipe Input = Inr (bucket, lease_node_id l)"
    using m by (simp_all add: match_ok_def scanned_def l)
  ultimately show ?thesis using t p x by (fastforce simp: l)
qed

theorem claim_takes_first_free_witness:
  "\<exists>t c. first_free sample_created t ''p:1'' ''todo'' (dict_values (mem_cards sample_created)) c"
proof -
  let ?r = "claim_card ''w.in'' ''ann'' 60 None sample_created"
  have "(case fst ?r of Inr _ \<Rightarrow> True | Inl _ \<Rightarrow> False)" by code_simp
  then obtain l where "fst ?r = Inr l" by (auto split: sum.splits)
  note run = run_outcome [OF this]
  have "cached None (mem_idempotency sample_created) = None" by (simp add: cached_def)
  from claim_takes_first_free [OF sample_ok(3) this run] obtain t p bucket c where
    p: "p \<in> set (dict_values (mem_patch_panels sample_created))"
    and b: "resolve_pipe_bucket p ''w.in'' Input = Inr (bucket, lease_node_id l)"
    and c: "first_free sample_created t (workflow_version_id p) bucket (dict_values (mem_cards sample_created)) c"
    by blast
  have "list_all (\<lambda>p. workflow_version_id p = ''p:1'' \<and>
      (case resolve_pipe_bucket p ''w.in'' Input of Inr (b, _) \<Rightarrow> b = ''todo'' | Inl _ \<Rightarrow> False))
    (dict_values (mem_patch_panels sample_created))" by code_simp
  with p b have "workflow_version_id p = ''p:1''" "bucket = ''todo''"
    by (fastforce simp: list_all_iff split: sum.splits)+
  with c show ?thesis by auto
qed

lemma unleased_not_held:
  assumes "steady_clock s" and "advance s t" and "unleased (mem_leases s) (card_id c) (next_reading s)"
  shows "\<not> held s t c"
proof
  assume "held s t c"
  then obtain x i l where "observed s t x" "dict_get (mem_leases s) i = Some l"
    "lease_card_id l = card_id c" "lease_active x l"
    by (auto simp: held_def unleased_def)
  moreover have "next_reading s \<le> x" using assms(1,2) \<open>observed s t x\<close> by (rule observed_bounds)
  ultimately show False using assms(3) by (auto simp: unleased_def intro: lease_active_mono)
qed

lemma claim_target_single:
  assumes "leases_ok s" and "steady_clock s" and "mem_patch_panels s = [(pid, p)]"
    and "resolve_pipe_bucket p pipe Input = Inr (bucket, node)"
    and "c \<in> set (dict_values (mem_cards s))" and "located (workflow_version_id p) bucket c"
    and "unleased (mem_leases s) (card_id c) (next_reading s)"
  shows "wp (claim_target pipe) (\<lambda>m t. advance s t \<and> (\<exists>d. m = (p, bucket, node, Some d) \<and>
    d \<in> set (dict_values (mem_cards s)) \<and> located (workflow_version_id p) bucket d)) (\<lambda>_ _. False) s"
proof -
  have "wp (find_claimable (workflow_version_id p) bucket (dict_values (mem_cards s)))
      (\<lambda>r t. advance s t \<and> (\<exists>d. r = Some d \<and> d \<in> set (dict_values (mem_cards s)) \<and>
        located (workflow_version_id p) bucket d)) (\<lambda>_ _. False) s"
  proof (rule wp_mono [OF find_claimable_wp [OF assms(1)]])
    fix r t assume r: "scanned s t (workflow_version_id p) bucket (dict_values (mem_cards s)) r"
    then have "\<not> held s t c" using unleased_not_held [OF assms(2) _ assms(7)] by (simp add: scanned_def)
    with r assms(5,6) show "advance s t \<and> (\<exists>d. r = Some d \<and> d \<in> set (dict_values (mem_cards s)) \<and>
        located (workflow_version_id p) bucket d)"
      by (cases r) (auto simp: scanned_def first_free_def simp del: set_map)
  qed simp
  then have "wp (find_claimable (workflow_version_id p) bucket (dict_values (mem_cards s)))
      (\<lambda>r. wp (liftM (choose_match pipe [(p, bucket, node, r)]))
        (\<lambda>m t. advance s t \<and> (\<exists>d. m = (p, bucket, node, Some d) \<and>
          d \<in> set (dict_values (mem_cards s)) \<and> located (workflow_version_id p) bucket d)) (\<lambda>_ _. False))
      (\<lambda>_ _. False) s"
    by (rule wp_mono) (auto simp: wp_lift choose_match_def with_card_def simp del: set_map)
  then show ?thesis
    unfolding claim_target_def wp_bind wp_gets assms(3) list.map snd_conv claim_matches.simps assms(4)
      sum.case prod.case wp_return .
qed

text \<open>
  Property C7. A claim succeeds when it should: on a clock that does not run backwards, with one
  registered panel whose input pipe resolves to a bucket that holds a card of that panel with no
  active lease, a claim with a new key whose expiry is a valid date returns a lease on a card of
  that bucket.
\<close>

theorem claim_succeeds:
  assumes ok: "mem_ok s" and clock: "steady_clock s" and new: "cached key (mem_idempotency s) = None"
    and panel: "mem_patch_panels s = [(pid, p)]"
    and pipe: "resolve_pipe_bucket p pipe Input = Inr (bucket, node)"
    and card: "dict_get (mem_cards s) cid = Some c" "card_workflow_version c = workflow_version_id p"
      "card_current_bucket c = bucket" "unleased (mem_leases s) cid (next_reading s)"
    and valid: "\<And>k. \<exists>x. plus_seconds (clock_src s k) seconds = Inr x"
  shows "\<exists>l s' d. claim_card pipe worker seconds key s = (Inr l, s') \<and> lease_card_id l = card_id d \<and>
    dict_get (mem_cards s) (card_id d) = Some d \<and> card_current_bucket d = bucket \<and>
    lease_node_id l = node \<and> lease_worker_id l = worker"
proof -
  have leases: "leases_ok s" using ok by (simp add: mem_ok_def)
  have id: "card_id c = cid" using ok card(1) by (rule keyedD)
  have mem: "c \<in> set (dict_values (mem_cards s))" using card(1) by (force dest: map_of_SomeD)
  have "wp (claim_card pipe worker seconds key)
      (\<lambda>l _. \<exists>d \<in> set (dict_values (mem_cards s)). lease_card_id l = card_id d \<and> located (workflow_version_id p) bucket d \<and>
        lease_node_id l = node \<and> lease_worker_id l = worker) (\<lambda>_ _. False) s"
    unfolding claim_card_def wp_idempotently new option.case wp_bind
  proof (rule wp_mono [OF claim_target_single [OF leases clock panel pipe mem]], goal_cases)
    case (3 m t)
    then obtain d where t: "advance s t" and d: "m = (p, bucket, node, Some d)"
      "d \<in> set (dict_values (mem_cards s))" "located (workflow_version_id p) bucket d" by blast
    from valid [of "clock_pos t"] obtain x where "plus_seconds (next_reading t) seconds = Inr x"
      by (auto simp: next_reading_def advance_src [OF t])
    with d show ?case by (auto simp: wp_rules writes simp del: set_map)
  qed (use card id in \<open>simp_all add: located_def\<close>)
  then show ?thesis
    using ok by (auto simp: wp_def mem_ok_def cards_ok_def py.keyed_vals located_def
      split: prod.splits sum.splits simp del: set_map)
qed

theorem claim_succeeds_witness:
  "\<exists>l s' d. claim_card ''w.in'' ''ann'' 60 None sample_created = (Inr l, s') \<and> lease_card_id l = card_id d \<and>
    dict_get (mem_cards sample_created) (card_id d) = Some d \<and> card_current_bucket d = ''todo'' \<and>
    lease_node_id l = ''work'' \<and> lease_worker_id l = ''ann''"
proof -
  have "map_option (\<lambda>c. (card_workflow_version c = workflow_version_id sample_panel, card_current_bucket c = ''todo''))
      (dict_get (mem_cards sample_created) (sample_ids 0)) = Some (True, True)" by code_simp
  then obtain c where c: "dict_get (mem_cards sample_created) (sample_ids 0) = Some c"
    "card_workflow_version c = workflow_version_id sample_panel" "card_current_bucket c = ''todo''" by auto
  have panel: "mem_patch_panels sample_created = [(''p'', sample_panel)]" by code_simp
  have pipe: "resolve_pipe_bucket sample_panel ''w.in'' Input = Inr (''todo'', ''work'')" by code_simp
  have "mem_leases sample_created = []" by code_simp
  then have free: "unleased (mem_leases sample_created) (sample_ids 0) (next_reading sample_created)"
    by (simp add: unleased_def)
  have clock: "steady_clock sample_created"
    by (simp add: steady_clock_def sample_created_clock sample_clock_mono)
  have valid: "\<exists>x. plus_seconds (clock_src sample_created k) 60 = Inr x" for k
    by (simp only: sample_created_clock sample_clock_valid)
  have "cached None (mem_idempotency sample_created) = None" by (simp add: cached_def)
  from claim_succeeds [OF sample_ok(3) clock this panel pipe c free valid] show ?thesis .
qed

text \<open>
  Property C5. A submission that is not a replay was made on an active lease, through an output
  pipe of the node that holds the lease, with at least one artifact, all of the leased card and
  meeting every rule of the acceptance contract of the destination bucket. It moves the card to
  that bucket, which the panel declares, releases the lease, stores the artifacts and records the
  submission.
\<close>

theorem submit_moves_card:
  assumes ok: "mem_ok s" and "cached key (mem_idempotency s) = None"
    and "submit_artifact lid pipe refs key s = (Inr stored, s')"
  shows "\<exists>l c p dest e. dict_get (mem_leases s) lid = Some l \<and> lease_active (next_reading s) l \<and>
    dict_get (mem_cards s) (lease_card_id l) = Some c \<and>
    dict_get (mem_patch_panels s) (rsplit_colon (card_workflow_version c)) = Some p \<and>
    resolve_pipe_bucket p pipe Output = Inr (dest, lease_node_id l) \<and> dest \<in> panel_bucket_ids p \<and>
    refs \<noteq> [] \<and> (\<forall>r \<in> set refs. artifact_card_id r = card_id c) \<and>
    ensure_artifacts_accepted p dest refs = Inr () \<and>
    dict_get (mem_cards s') = (dict_get (mem_cards s))(card_id c \<mapsto> c\<lparr>card_current_bucket := dest\<rparr>) \<and>
    (\<exists>t. dict_get (mem_leases s') = (dict_get (mem_leases s))(lid \<mapsto> l\<lparr>lease_released_at := Some t\<rparr>)) \<and>
    mem_artifacts s' = store_artifacts stored (mem_artifacts s) \<and>
    map artifact_id stored = map artifact_id refs \<and>
    history s' (card_id c) = history s (card_id c) @ [e] \<and>
    e = event_at s (uuid_pos s) (Suc (Suc (clock_pos s))) (card_id c) ''artifact_submitted''
      (Some (lease_worker_id l)) (submitted_payload l pipe dest refs)"
proof -
  from wp_okD [OF submit_artifact_wp assms(3), unfolded assms(2) simp_thms if_False]
  obtain l c p dest where l: "dict_get (mem_leases s) lid = Some l" "lease_active (next_reading s) l"
    and c: "dict_get (mem_cards s) (lease_card_id l) = Some c"
    and p: "dict_get (mem_patch_panels s) (rsplit_colon (card_workflow_version c)) = Some p"
    and dest: "resolve_pipe_bucket p pipe Output = Inr (dest, lease_node_id l)"
    and refs: "ensure_artifact_refs_belong_to_card (card_id c) refs = Inr ()"
    and acc: "ensure_artifacts_accepted p dest refs = Inr ()"
    and st: "stored = submitted_refs (card_id c) (uuid_src s (uuid_pos s)) refs"
    and s': "s' = s\<lparr>uuid_pos := Suc (uuid_pos s), clock_pos := Suc (Suc (Suc (clock_pos s))),
      mem_cards := dict_set (card_id c) (c\<lparr>card_current_bucket := dest\<rparr>) (mem_cards s),
      mem_leases := dict_set (lease_id l)
        (l\<lparr>lease_released_at := Some (clock_src s (Suc (clock_pos s)))\<rparr>) (mem_leases s),
      mem_artifacts := store_artifacts stored (mem_artifacts s),
      mem_events := logged (event_at s (uuid_pos s) (Suc (Suc (clock_pos s))) (card_id c)
        ''artifact_submitted'' (Some (lease_worker_id l)) (submitted_payload l pipe dest refs))
        (mem_events s),
      mem_idempotency := remember key (IArtifacts stored) (mem_idempotency s)\<rparr>"
    by blast
  have wf: "well_formed_panel p" using ok p by (auto simp: mem_ok_def panels_ok_def)
  have id: "lease_id l = lid" using keyedD(2) [OF ok l(1)] .
  have "map artifact_id stored = map artifact_id refs" by (simp add: st submitted_refs_def)
  then show ?thesis
    using l c p dest acc refs resolve_pipe_bucket_declared [OF wf dest]
    by (auto simp: s' id recorded_logged ensure_artifact_refs_ok)
qed

theorem submit_moves_card_witness:
  "\<exists>c. dict_get (mem_cards (snd (submit_artifact (sample_ids 2) ''w.out'' [sample_ref] None sample_claimed)))
     (card_id c) = Some (c\<lparr>card_current_bucket := ''done''\<rparr>)"
proof -
  let ?r = "submit_artifact (sample_ids 2) ''w.out'' [sample_ref] None sample_claimed"
  obtain stored where run: "?r = (Inr stored, snd ?r)" using sample_submission by blast
  have "cached None (mem_idempotency sample_claimed) = None" by (simp add: cached_def)
  from submit_moves_card [OF sample_ok(4) this run] obtain c p dest node where
    p: "dict_get (mem_patch_panels sample_claimed) (rsplit_colon (card_workflow_version c)) = Some p"
    and d: "resolve_pipe_bucket p ''w.out'' Output = Inr (dest, node)"
    and c: "dict_get (mem_cards (snd ?r)) = (dict_get (mem_cards sample_claimed))(card_id c \<mapsto> c\<lparr>card_current_bucket := dest\<rparr>)"
    by blast
  have "list_all (\<lambda>p. case resolve_pipe_bucket p ''w.out'' Output of Inr (b, _) \<Rightarrow> b = ''done'' | Inl _ \<Rightarrow> False)
    (dict_values (mem_patch_panels sample_claimed))" by code_simp
  with p d have "dest = ''done''" by (fastforce simp: list_all_iff dest: map_of_SomeD split: sum.splits)
  with c show ?thesis by (intro exI [of _ c]) simp
qed

text \<open>A released lease stays in the store as it is, and takes no submission.\<close>

lemma submit_releases:
  assumes "mem_ok s" and "cached key (mem_idempotency s) = None"
    and "submit_artifact lid pipe refs key s = (Inr stored, s')"
  shows "\<exists>m. dict_get (mem_leases s') lid = Some m \<and> lease_released_at m \<noteq> None"
proof -
  from wp_okD [OF submit_artifact_wp assms(3), unfolded assms(2) simp_thms if_False]
  obtain l where "dict_get (mem_leases s) lid = Some l"
    "mem_leases s' = dict_set (lease_id l) (l\<lparr>lease_released_at := Some (clock_src s (Suc (clock_pos s)))\<rparr>) (mem_leases s)"
    by auto
  then show ?thesis using keyedD(2) [OF assms(1)] by auto
qed

lemma released_forever:
  assumes "networkx_graph nx gnodes gedges" and "mem_ok s"
    and "dict_get (mem_leases s) lid = Some m" and "lease_released_at m \<noteq> None"
  shows "dict_get (mem_leases (perform_all nx calls s)) lid = Some m"
proof -
  have "identities_kept s (perform_all nx calls s)"
    by (rule steps_identities [OF perform_all_steps [OF assms(1,2)] assms(2)])
  then obtain n where "dict_get (mem_leases (perform_all nx calls s)) lid = Some n" "same_lease m n"
    using assms(3) unfolding identities_kept_def by metis
  with assms(4) show ?thesis by (simp add: same_lease_def)
qed

lemma submit_released:
  assumes "mem_ok s" and "cached key (mem_idempotency s) = None"
    and "dict_get (mem_leases s) lid = Some m" and "lease_released_at m \<noteq> None"
  shows "submit_artifact lid pipe refs key s =
    (Inl (ConflictError (''lease '' @ quoted (uuid_str lid) @ '' has already been released'')), s)"
  using assms keyedD(2) [OF assms(1,3)]
  by (simp add: submit_artifact_def idempotently_def get_idempotent_def get_lease_def
      ensure_active_lease_def run_defs)

text \<open>
  A lease is good for one submission: once a submission on it has succeeded, whatever
  calls follow, a later submission on that lease that is not a replay raises a \<^verbatim>\<open>ConflictError\<close>.
\<close>

theorem lease_submits_once:
  assumes nx: "networkx_graph nx gnodes gedges" and ok: "mem_ok s"
    and new: "cached key (mem_idempotency s) = None"
    and run: "submit_artifact lid pipe refs key s = (Inr stored, s')"
    and later: "s2 = perform_all nx calls s'" "cached key2 (mem_idempotency s2) = None"
  shows "submit_artifact lid pipe2 refs2 key2 s2 =
    (Inl (ConflictError (''lease '' @ quoted (uuid_str lid) @ '' has already been released'')), s2)"
proof -
  obtain m where m: "dict_get (mem_leases s') lid = Some m" "lease_released_at m \<noteq> None"
    using submit_releases [OF ok new run] by blast
  have ok': "mem_ok s'"
    using wp_okD [OF submit_artifact_step [OF ok] run] ok by (rule step_mem_ok)
  have "mem_ok s2" unfolding later by (rule steps_mem_ok [OF perform_all_steps [OF nx ok'] ok'])
  moreover have "dict_get (mem_leases s2) lid = Some m"
    unfolding later by (rule released_forever [OF nx ok' m])
  ultimately show ?thesis using later(2) m(2) by (blast intro: submit_released)
qed

theorem lease_submits_once_witness:
  "submit_artifact (sample_ids 2) ''w.out'' [sample_ref] None
     (perform_all list_networkx [Expire] (snd (submit_artifact (sample_ids 2) ''w.out'' [sample_ref] None sample_claimed)))
   = (Inl (ConflictError (''lease '' @ quoted (uuid_str (sample_ids 2)) @ '' has already been released'')),
      perform_all list_networkx [Expire] (snd (submit_artifact (sample_ids 2) ''w.out'' [sample_ref] None sample_claimed)))"
proof -
  let ?r = "submit_artifact (sample_ids 2) ''w.out'' [sample_ref] None sample_claimed"
  obtain stored where run: "?r = (Inr stored, snd ?r)" using sample_submission by blast
  have new: "cached None (mem_idempotency s) = None" for s :: mem_runtime by (simp add: cached_def)
  from lease_submits_once [OF sample_graph sample_ok(4) new run refl new, where calls = "[Expire]"]
  show ?thesis by blast
qed

text \<open>
  A sweep releases exactly the leases that have expired: it returns them in order,
  marked with the time of the sweep, leaves the others and the cards as they are, and afterwards no
  lease is both unreleased and past its expiry at that time. The sweep never raises.
\<close>

theorem expire_releases_expired:
  assumes ok: "mem_ok s"
  shows "\<exists>s'. expire_leases s =
      (Inr (map (swept (next_reading s)) (filter (expired (next_reading s)) (dict_values (mem_leases s)))), s') \<and>
    (\<forall>i. dict_get (mem_leases s') i = map_option (swept (next_reading s)) (dict_get (mem_leases s) i)) \<and>
    (\<forall>i l. dict_get (mem_leases s') i = Some l \<longrightarrow> \<not> expired (next_reading s) l) \<and>
    mem_cards s' = mem_cards s"
proof -
  have "\<not> expired x (swept x l)" for x l by (simp add: swept_def expired_def)
  then show ?thesis
    using expire_leases_wp [OF ok] by (auto simp: wp_def split: prod.splits sum.splits)
qed

theorem expire_releases_expired_witness:
  "\<exists>s'. expire_leases sample_claimed =
      (Inr (map (swept (next_reading sample_claimed))
        (filter (expired (next_reading sample_claimed)) (dict_values (mem_leases sample_claimed)))), s')"
  using expire_releases_expired [OF sample_ok(4)] by blast

text \<open>
  Renewal: only a lease that is unreleased and unexpired can be renewed, and renewal
  changes nothing but its expiry. A released lease and an expired one raise a \<^verbatim>\<open>ConflictError\<close>
  that says which, an unknown one a \<^verbatim>\<open>NotFoundError\<close>.
\<close>

theorem renew_guard:
  assumes ok: "mem_ok s" and new: "cached key (mem_idempotency s) = None"
  shows "wp (renew_lease lid seconds key)
    (\<lambda>r s'. \<exists>l y. dict_get (mem_leases s) lid = Some l \<and> lease_active (next_reading s) l \<and>
      r = l\<lparr>lease_expires_at := y\<rparr> \<and> mem_leases s' = dict_set lid r (mem_leases s) \<and>
      mem_cards s' = mem_cards s)
    (\<lambda>e s'. mem_leases s' = mem_leases s \<and> (case dict_get (mem_leases s) lid of
        None \<Rightarrow> e = NotFoundError (''lease '' @ quoted (uuid_str lid) @ '' does not exist'')
      | Some l \<Rightarrow>
          if lease_released_at l \<noteq> None
          then e = ConflictError (''lease '' @ quoted (uuid_str lid) @ '' has already been released'')
          else if lease_expires_at l \<le> next_reading s
          then e = ConflictError (''lease '' @ quoted (uuid_str lid) @ '' has expired'')
          else e = OverflowError ''date value out of range'')) s"
proof (cases "dict_get (mem_leases s) lid")
  case None
  show ?thesis unfolding renew_lease_def wp_idempotently new option.case wp_rules None by simp
next
  case (Some l)
  have id: "lease_id l = lid" using ok Some by (rule keyedD)
  show ?thesis
  proof (cases "plus_seconds (clock_src s (Suc (clock_pos s))) seconds")
    case (Inl e)
    then have e: "e = OverflowError ''date value out of range''"
      by (auto simp: plus_seconds_def Let_def split: if_splits)
    show ?thesis
      unfolding renew_lease_def wp_idempotently new option.case wp_rules writes Let_def Some
      by (simp add: id Inl e)
  next
    case (Inr y)
    then show ?thesis
      unfolding renew_lease_def wp_idempotently new option.case wp_rules writes Let_def Some
      by (auto simp: id lease_active_def)
  qed
qed

theorem renew_guard_witness:
  "fst (renew_lease (UUID ''zz'') 10 None sample_claimed) =
     Inl (NotFoundError (''lease '' @ quoted ''zz'' @ '' does not exist''))"
proof -
  let ?r = "renew_lease (UUID ''zz'') 10 None sample_claimed"
  have none: "dict_get (mem_leases sample_claimed) (UUID ''zz'') = None" by code_simp
  have "(case fst ?r of Inr _ \<Rightarrow> False | Inl _ \<Rightarrow> True)" by code_simp
  then obtain e where e: "fst ?r = Inl e" by (auto split: sum.splits)
  note run = run_outcome [OF this]
  have "cached None (mem_idempotency sample_claimed) = None" by (simp add: cached_def)
  from wp_errD [OF renew_guard [OF sample_ok(4) this] run] none e show ?thesis by simp
qed

end
