(* ===== verification/PanelProperties.thy ===== *)
theory PanelProperties
  imports Samples
begin

text \<open>
  The properties of panels and artifacts: what registration accepts, what the validation report
  says, when an acceptance contract lets artifacts pass, where a new card is placed and how a card
  finds its panel again.
\<close>

section \<open>Registration\<close>

text \<open>
  Property C9. Registration accepts exactly the well-formed panels: every reference resolves, every
  declared pipe is bound consistently to a declared bucket, there are sources without incoming and
  sinks without outgoing edges, every node is reachable from a source and only sinks have no way
  out. A panel that is not well formed is rejected and the runtime is left as it was.
\<close>

theorem register_iff_well_formed:
  assumes "networkx_graph nx gnodes gedges"
  shows "if well_formed_panel p
    then register_patch_panel nx p s =
      (Inr p, s\<lparr>mem_patch_panels := dict_set (panel_id p) p (mem_patch_panels s)\<rparr>)
    else \<exists>e. register_patch_panel nx p s = (Inl e, s)"
proof (cases "validate nx p")
  case (Inl e)
  then have "\<not> well_formed_panel p"
    using networkx_graph.validate_iff [OF assms, of p "panel_report nx p"] by auto
  with Inl show ?thesis by (simp add: register_patch_panel_def validate_patch_panel_def run_defs)
next
  case (Inr r)
  then have "well_formed_panel p" using networkx_graph.validate_iff [OF assms] by blast
  with Inr show ?thesis by (simp add: register_patch_panel_def validate_patch_panel_def run_defs)
qed

lemma sample_panel_well_formed: "well_formed_panel sample_panel"
proof -
  have "(case validate list_networkx sample_panel of Inr _ \<Rightarrow> True | Inl _ \<Rightarrow> False)" by code_simp
  then obtain r where "validate list_networkx sample_panel = Inr r" by (auto split: sum.splits)
  then show ?thesis using list_nx.validate_iff by blast
qed

theorem register_iff_well_formed_witness:
  "fst (register_patch_panel list_networkx sample_panel sample_start) = Inr sample_panel"
  using register_iff_well_formed [OF sample_graph, of sample_panel sample_start] sample_panel_well_formed
  by simp

text \<open>
  The report of a successful validation counts the nodes and the connected pairs of
  nodes of the panel, and every cycle it lists is a cycle of the panel.
\<close>

theorem report_describes_panel:
  assumes "networkx_graph nx gnodes gedges" and "validate nx p = Inr r"
  shows "report_node_count r = card (panel_node_ids p) \<and> report_edge_count r = card (panel_edge_set p) \<and>
    (\<forall>c \<in> set (report_cycles r). simple_cycle (panel_edge_set p) c)"
  using networkx_graph.report_counts [OF assms] by blast

theorem report_describes_panel_witness:
  "\<exists>r. validate list_networkx sample_panel = Inr r \<and> report_node_count r = card (panel_node_ids sample_panel)"
proof -
  have "validate list_networkx sample_panel = Inr (panel_report list_networkx sample_panel)"
    using list_nx.validate_iff sample_panel_well_formed by blast
  with report_describes_panel [OF sample_graph this] show ?thesis by blast
qed

text \<open>
  Property C11. The declared ids of a panel are checked to be unique, per kind: buckets, nodes and
  acceptance contracts. A panel object exists only when all three are.
\<close>

theorem unique_local_ids:
  "(\<exists>q. validate_unique_local_ids p = Inr q) \<longleftrightarrow>
     distinct (map bucket_id (panel_buckets p)) \<and> distinct (map node_id (panel_nodes p)) \<and>
     distinct (map contract_id (panel_acceptance_contracts p))"
proof -
  have u: "ensure_unique label vs = Inl e \<Longrightarrow> \<not> distinct vs" for label vs e
    using ensure_unique_ok [of label vs] by auto
  have d: "ensure_unique label vs = Inr y \<Longrightarrow> distinct vs" for label vs y
    using ensure_unique_ok [of label vs] by simp
  show ?thesis
    by (auto simp: validate_unique_local_ids_def split: sum.splits dest: u d)
qed

section \<open>Acceptance contracts\<close>

text \<open>
  Property C10. An acceptance contract accepts a list of artifact references exactly when every one
  of its rules is met: structural soundness of all references, or the required count and roles. An
  unreadable count or role list never counts as met.
\<close>

theorem contract_accepts_iff:
  "validate_artifact_references refs (Some c) = Inr () \<longleftrightarrow>
     (\<forall>rule \<in> set (contract_rules c). rule_met refs rule)"
  by (rule validate_artifact_references_ok)

theorem contract_accepts_iff_witness:
  "validate_artifact_references [sample_ref] (Some \<lparr>contract_id = ''c'', contract_description = [],
     contract_schema_ref = None, contract_rules = [[(''type'', JStr ''other'')]]\<rparr>) = Inr ()"
  by (subst contract_accepts_iff) (simp add: rule_met_def)

section \<open>Placing cards\<close>

text \<open>
  On a registered panel whose sources have output pipes, creating a card with a new
  key succeeds: the card starts in a bucket the panel declares, is stored, and its history is the
  single creation event.
\<close>

theorem create_card_succeeds:
  assumes ok: "mem_ok s" and new: "cached key (mem_idempotency s) = None"
    and panel: "dict_get (mem_patch_panels s) pid = Some p"
    and pipes: "\<And>n. n \<in> set (source_nodes p) \<Longrightarrow> node_output_pipes n \<noteq> []"
  shows "\<exists>c s' e. create_card pid payload md key s = (Inr c, s') \<and>
    card_workflow_version c = workflow_version_id p \<and> card_current_bucket c \<in> panel_bucket_ids p \<and>
    card_payload c = payload \<and> dict_get (mem_cards s') = (dict_get (mem_cards s))(card_id c \<mapsto> c) \<and>
    dict_get (mem_cards s) (card_id c) = None \<and>
    history s' (card_id c) = [e] \<and> event_type e = ''card_created''"
proof -
  have wf: "well_formed_panel p" using ok panel by (auto simp: mem_ok_def panels_ok_def)
  obtain b where b: "resolve_initial_bucket p = Inr b" "b \<in> panel_bucket_ids p"
    using resolve_initial_bucket_total [OF wf pipes] by blast
  have fresh: "uuid_src s (uuid_pos s) \<notin> dom (dict_get (mem_cards s))"
    using ok fresh_not_issued [of s] by (auto simp: mem_ok_def cards_ok_def)
  then have none: "history s (uuid_src s (uuid_pos s)) = []"
    using ok by (auto simp: mem_ok_def events_ok_def recorded_events_def split: option.split)
  have "wp (create_card pid payload md key)
    (\<lambda>c s'. card_workflow_version c = workflow_version_id p \<and> card_current_bucket c = b \<and>
      card_payload c = payload \<and> card_id c = uuid_src s (uuid_pos s) \<and>
      dict_get (mem_cards s') = (dict_get (mem_cards s))(card_id c \<mapsto> c) \<and>
      (\<exists>e. history s' (card_id c) = [e] \<and> event_type e = ''card_created'')) (\<lambda>_ _. False) s"
    unfolding create_card_def wp_idempotently new option.case wp_rules writes
    using panel b none by (simp add: recorded_logged)
  then show ?thesis using b fresh by (auto simp: wp_def split: prod.splits sum.splits)
qed

theorem create_card_succeeds_witness:
  "\<exists>c s'. create_card ''p'' [] None None sample_registered = (Inr c, s') \<and>
     card_current_bucket c \<in> panel_bucket_ids sample_panel"
proof -
  have panel: "dict_get (mem_patch_panels sample_registered) ''p'' = Some sample_panel" by code_simp
  have "list_all (\<lambda>n. node_output_pipes n \<noteq> []) (source_nodes sample_panel)" by code_simp
  then have pipes: "n \<in> set (source_nodes sample_panel) \<Longrightarrow> node_output_pipes n \<noteq> []" for n
    by (simp add: list_all_iff)
  have "cached None (mem_idempotency sample_registered) = None" by (simp add: cached_def)
  from create_card_succeeds [OF sample_ok(2) this panel pipes, of "[]" None] show ?thesis by blast
qed

text \<open>
  A card finds its panel: when the version of a panel has no colon, the lookup by the
  workflow version of a card created on it is the lookup by the id of the panel.
\<close>

theorem card_finds_panel:
  assumes "card_workflow_version c = workflow_version_id p" and "CHR '':'' \<notin> set (panel_version p)"
  shows "get_patch_panel_for_card c s = get_patch_panel (panel_id p) s"
  by (simp add: get_patch_panel_for_card_def assms(1) rsplit_workflow_version [OF assms(2)])

theorem card_finds_panel_witness:
  "get_patch_panel_for_card \<lparr>card_id = UUID ''c'', card_workflow_version = ''p:1'',
     card_current_bucket = ''todo'', card_payload = [], card_metadata = [], card_created_at = 0\<rparr> sample_created
   = get_patch_panel ''p'' sample_created"
proof -
  have "workflow_version_id sample_panel = ''p:1''" "panel_id sample_panel = ''p''"
    "CHR '':'' \<notin> set (panel_version sample_panel)" by (simp_all add: sample_panel_def workflow_version_id_def)
  with card_finds_panel [of "\<lparr>card_id = UUID ''c'', card_workflow_version = ''p:1'',
     card_current_bucket = ''todo'', card_payload = [], card_metadata = [], card_created_at = 0\<rparr>"
     sample_panel sample_created] show ?thesis by simp
qed

text \<open>
  The restriction on the version is needed: a card of a panel whose version contains a
  colon looks its panel up under a longer name than the panel's id.
\<close>

theorem colon_version_breaks_lookup:
  "\<exists>p (c :: card). card_workflow_version c = workflow_version_id p \<and>
     rsplit_colon (card_workflow_version c) \<noteq> panel_id p"
proof -
  let ?p = "sample_panel\<lparr>panel_version := ''1:2''\<rparr>"
  let ?c = "\<lparr>card_id = UUID ''c'', card_workflow_version = workflow_version_id ?p,
     card_current_bucket = ''todo'', card_payload = [], card_metadata = [], card_created_at = 0\<rparr>"
  have "rsplit_colon (card_workflow_version ?c) \<noteq> panel_id ?p" by code_simp
  moreover have "card_workflow_version ?c = workflow_version_id ?p" by simp
  ultimately show ?thesis by blast
qed

end
