(* ===== verification/Registry.thy ===== *)
theory Registry
  imports MemoryRuntime
begin

text \<open>
  The Patch Panel registry: \<^verbatim>\<open>src/src/ghostmesh/registry/service.py\<close>. \<open>patch_panel_registry\<close> is the
  protocol class, \<open>memory_registry\<close> its in-memory implementation, whose dictionary \<^verbatim>\<open>entries\<close> is the
  field \<open>mem_registry\<close> adds to the process state. The locale \<open>registry_contract\<close> states what clients
  rely on; it is interpreted here on the in-memory implementation and in \<^verbatim>\<open>PostgresRegistry\<close> on the durable one.
\<close>

section \<open>Searching\<close>

record patch_panel_registry_search =
  search_tag :: "string option"
  search_input_type :: "string option"
  search_output_type :: "string option"
  search_required_tool :: "string option"
  search_risk_level :: "string option"
  search_owner_participant_id :: "string option"
  search_include_archived :: bool
  search_include_superseded :: bool

text \<open>\<^verbatim>\<open>PatchPanelRegistrySearch()\<close>, every field at its default.\<close>

definition default_search :: patch_panel_registry_search where
  "default_search = \<lparr>search_tag = None, search_input_type = None, search_output_type = None,
     search_required_tool = None, search_risk_level = None, search_owner_participant_id = None,
     search_include_archived = False, search_include_superseded = False\<rparr>"

definition entry_matches :: "registry_entry \<Rightarrow> patch_panel_registry_search \<Rightarrow> bool" where
  "entry_matches e f =
     (if \<not> search_include_archived f \<and> entry_status e = ARCHIVED then False
      else if \<not> search_include_superseded f \<and> entry_status e = SUPERSEDED then False
      else if truthy (search_tag f) \<and> the (search_tag f) \<notin> set (entry_tags e) then False
      else if truthy (search_input_type f) \<and> the (search_input_type f) \<notin> set (entry_input_types e) then False
      else if truthy (search_output_type f) \<and> the (search_output_type f) \<notin> set (entry_output_types e) then False
      else if truthy (search_required_tool f) \<and> the (search_required_tool f) \<notin> set (entry_required_tools e)
      then False
      else if truthy (search_risk_level f) \<and> search_risk_level f \<noteq> entry_risk_level e then False
      else if truthy (search_owner_participant_id f) \<and>
        search_owner_participant_id f \<noteq> entry_owner_participant_id e then False
      else True)"

definition entry_with_metadata ::
  "registry_entry \<Rightarrow> registry_metadata \<Rightarrow> ('z world_scheme, registry_entry) M" where
  "entry_with_metadata e m =
     bindM now_utc (\<lambda>t.
     returnM (e\<lparr>entry_name := meta_name m, entry_description := meta_description m,
       entry_tags := meta_tags m, entry_input_types := meta_input_types m,
       entry_output_types := meta_output_types m, entry_required_tools := meta_required_tools m,
       entry_required_permissions := meta_required_permissions m,
       entry_risk_level := meta_risk_level m, entry_estimated_cost := meta_estimated_cost m,
       entry_estimated_latency := meta_estimated_latency m,
       entry_owner_participant_id := meta_owner_participant_id m, entry_status := meta_status m,
       entry_updated_at := t\<rparr>))"

section \<open>The protocol and the in-memory registry\<close>

record 's patch_panel_registry =
  reg_register :: "registry_entry \<Rightarrow> ('s, registry_entry) M"
  reg_get :: "uuid \<Rightarrow> ('s, registry_entry) M"
  reg_search :: "patch_panel_registry_search \<Rightarrow> ('s, registry_entry list) M"
  reg_update_metadata :: "uuid \<Rightarrow> registry_metadata \<Rightarrow> ('s, registry_entry) M"
  reg_archive :: "uuid \<Rightarrow> ('s, registry_entry) M"
  reg_supersede :: "uuid \<Rightarrow> uuid \<Rightarrow> ('s, registry_entry) M"

record mem_registry = mem_runtime +
  mem_entries :: "(uuid, registry_entry) dict"

definition put_entry :: "registry_entry \<Rightarrow> ('z mem_registry_scheme, unit) M" where
  "put_entry e = modifyM (\<lambda>s. s\<lparr>mem_entries := dict_set (entry_id e) e (mem_entries s)\<rparr>)"

definition entry_missing :: "uuid \<Rightarrow> error" where
  "entry_missing i =
     NotFoundError (''Patch Panel registry entry '' @ quoted (uuid_str i) @ '' does not exist'')"

definition registry_register :: "registry_entry \<Rightarrow> ('z mem_registry_scheme, registry_entry) M" where
  "registry_register e = bindM (put_entry e) (\<lambda>_. returnM e)"

definition registry_get :: "uuid \<Rightarrow> ('z mem_registry_scheme, registry_entry) M" where
  "registry_get i =
     bindM (getsM (\<lambda>s. dict_get (mem_entries s) i)) (\<lambda>r. case r of
       None \<Rightarrow> raiseM (entry_missing i)
     | Some e \<Rightarrow> returnM e)"

definition registry_search ::
  "patch_panel_registry_search \<Rightarrow> ('z mem_registry_scheme, registry_entry list) M" where
  "registry_search f = getsM (\<lambda>s. filter (\<lambda>e. entry_matches e f) (dict_values (mem_entries s)))"

definition registry_update_metadata ::
  "uuid \<Rightarrow> registry_metadata \<Rightarrow> ('z mem_registry_scheme, registry_entry) M" where
  "registry_update_metadata i m =
     bindM (registry_get i) (\<lambda>e.
     if entry_status e \<noteq> DRAFT then raiseM (ConflictError ''only draft registry entries can be edited'')
     else
       bindM (entry_with_metadata e m) (\<lambda>updated.
       bindM (put_entry updated) (\<lambda>_.
       returnM updated)))"

definition registry_archive :: "uuid \<Rightarrow> ('z mem_registry_scheme, registry_entry) M" where
  "registry_archive i =
     bindM (registry_get i) (\<lambda>e.
     bindM now_utc (\<lambda>t1. bindM now_utc (\<lambda>t2.
     let archived = e\<lparr>entry_status := ARCHIVED, entry_archived_at := Some t1, entry_updated_at := t2\<rparr> in
     bindM (put_entry archived) (\<lambda>_.
     returnM archived))))"

definition registry_supersede :: "uuid \<Rightarrow> uuid \<Rightarrow> ('z mem_registry_scheme, registry_entry) M" where
  "registry_supersede i by_id =
     bindM (registry_get i) (\<lambda>e.
     bindM now_utc (\<lambda>t.
     let superseded = e\<lparr>entry_status := SUPERSEDED, entry_supersedes_entry_id := Some by_id,
           entry_updated_at := t\<rparr> in
     bindM (put_entry superseded) (\<lambda>_.
     returnM superseded)))"

definition memory_registry :: "'z mem_registry_scheme patch_panel_registry" where
  "memory_registry = \<lparr>reg_register = registry_register, reg_get = registry_get,
     reg_search = registry_search, reg_update_metadata = registry_update_metadata,
     reg_archive = registry_archive, reg_supersede = registry_supersede\<rparr>"

section \<open>What clients rely on\<close>

text \<open>What editing, archiving and superseding make of an entry at time \<open>t\<close>.\<close>

definition edited :: "registry_entry \<Rightarrow> registry_metadata \<Rightarrow> datetime \<Rightarrow> registry_entry" where
  "edited e m t = e\<lparr>entry_name := meta_name m, entry_description := meta_description m,
     entry_tags := meta_tags m, entry_input_types := meta_input_types m,
     entry_output_types := meta_output_types m, entry_required_tools := meta_required_tools m,
     entry_required_permissions := meta_required_permissions m, entry_risk_level := meta_risk_level m,
     entry_estimated_cost := meta_estimated_cost m, entry_estimated_latency := meta_estimated_latency m,
     entry_owner_participant_id := meta_owner_participant_id m, entry_status := meta_status m,
     entry_updated_at := t\<rparr>"

definition archived_at :: "registry_entry \<Rightarrow> datetime \<Rightarrow> datetime \<Rightarrow> registry_entry" where
  "archived_at e t t' = e\<lparr>entry_status := ARCHIVED, entry_archived_at := Some t, entry_updated_at := t'\<rparr>"

definition superseded_by :: "registry_entry \<Rightarrow> uuid \<Rightarrow> datetime \<Rightarrow> registry_entry" where
  "superseded_by e j t = e\<lparr>entry_status := SUPERSEDED, entry_supersedes_entry_id := Some j, entry_updated_at := t\<rparr>"

lemma entry_with_metadata_edited: "entry_with_metadata e m = bindM now_utc (\<lambda>t. returnM (edited e m t))"
  by (simp add: entry_with_metadata_def edited_def)

text \<open>
  \<open>lookup s\<close> are the entries of a state. A registry may refuse an entry whose id is \<open>taken\<close> and one that is \<open>dangling\<close>,
  referring to what the state does not have. A call that raises leaves the entries as they are.
\<close>

locale registry_contract =
  fixes reg :: "'s patch_panel_registry"
    and lookup :: "'s \<Rightarrow> uuid \<Rightarrow> registry_entry option"
    and ok :: "'s \<Rightarrow> bool"
    and taken :: "'s \<Rightarrow> registry_entry \<Rightarrow> bool"
    and dangling :: "'s \<Rightarrow> registry_entry \<Rightarrow> bool"
  assumes register_law:
      "ok s \<Longrightarrow> wp (reg_register reg e)
         (\<lambda>r s'. r = e \<and> ok s' \<and> lookup s' = (lookup s)(entry_id e \<mapsto> e))
         (\<lambda>_ s'. (taken s e \<or> dangling s e) \<and> ok s' \<and> lookup s' = lookup s) s"
    and get_law:
      "ok s \<Longrightarrow> reg_get reg i s = (case lookup s i of None \<Rightarrow> (Inl (entry_missing i), s) | Some e \<Rightarrow> (Inr e, s))"
    and search_law:
      "ok s \<Longrightarrow> wp (reg_search reg f)
         (\<lambda>es s'. s' = s \<and> set es = {e. e \<in> ran (lookup s) \<and> entry_matches e f}) (\<lambda>_ _. False) s"
    and update_law:
      "ok s \<Longrightarrow> wp (reg_update_metadata reg i m)
         (\<lambda>r s'. ok s' \<and> lookup s' = (lookup s)(i \<mapsto> r) \<and>
            (\<exists>e t. lookup s i = Some e \<and> entry_status e = DRAFT \<and> r = edited e m t))
         (\<lambda>_ s'. ok s' \<and> lookup s' = lookup s \<and>
            (\<forall>e. lookup s i = Some e \<and> entry_status e = DRAFT \<longrightarrow> (\<exists>t. dangling s (edited e m t)))) s"
    and archive_law:
      "ok s \<Longrightarrow> wp (reg_archive reg i)
         (\<lambda>r s'. ok s' \<and> lookup s' = (lookup s)(i \<mapsto> r) \<and>
            (\<exists>e t t'. lookup s i = Some e \<and> r = archived_at e t t'))
         (\<lambda>_ s'. ok s' \<and> lookup s' = lookup s \<and> lookup s i = None) s"
    and supersede_law:
      "ok s \<Longrightarrow> wp (reg_supersede reg i j)
         (\<lambda>r s'. ok s' \<and> lookup s' = (lookup s)(i \<mapsto> r) \<and>
            (\<exists>e t. lookup s i = Some e \<and> r = superseded_by e j t))
         (\<lambda>_ s'. ok s' \<and> lookup s' = lookup s \<and>
            (\<forall>e. lookup s i = Some e \<longrightarrow> (\<exists>t. dangling s (superseded_by e j t)))) s"
    and keyed_law: "ok s \<Longrightarrow> lookup s i = Some e \<Longrightarrow> entry_id e = i"
begin

text \<open>A registered entry is found by its id and by every search it matches.\<close>

lemma get_after_register:
  assumes "ok s" and "reg_register reg e s = (Inr r, s')"
  shows "reg_get reg (entry_id e) s' = (Inr e, s')"
  using wp_okD [OF register_law [OF assms(1)] assms(2)] by (auto simp: get_law)

lemma search_after_register:
  assumes "ok s" and "reg_register reg e s = (Inr r, s')" and "entry_matches e f"
    and "reg_search reg f s' = (Inr es, s'')"
  shows "e \<in> set es"
proof -
  have s': "ok s'" "lookup s' = (lookup s)(entry_id e \<mapsto> e)"
    using wp_okD [OF register_law [OF assms(1)] assms(2)] by auto
  then have "e \<in> ran (lookup s')" by (auto simp: ran_def)
  with wp_okD [OF search_law [OF s'(1)] assms(4)] assms(3) show ?thesis by auto
qed

text \<open>A search hides archived and superseded entries unless it asks for them.\<close>

lemma search_hides:
  assumes "ok s" and "reg_search reg f s = (Inr es, s')" and "e \<in> set es"
  shows "(entry_status e = ARCHIVED \<longrightarrow> search_include_archived f) \<and>
    (entry_status e = SUPERSEDED \<longrightarrow> search_include_superseded f)"
proof -
  have "entry_matches e f" using wp_okD [OF search_law [OF assms(1)] assms(2)] assms(3) by blast
  then show ?thesis unfolding entry_matches_def by presburger
qed

end

section \<open>The life cycle of an entry\<close>

datatype registry_call =
    CallRegister registry_entry
  | CallUpdate uuid registry_metadata
  | CallArchive uuid
  | CallSupersede uuid uuid

text \<open>The state after a call, whether it returned or raised.\<close>

fun call_registry :: "'s patch_panel_registry \<Rightarrow> registry_call \<Rightarrow> 's \<Rightarrow> 's" where
  "call_registry reg (CallRegister e) s = snd (reg_register reg e s)"
| "call_registry reg (CallUpdate i m) s = snd (reg_update_metadata reg i m s)"
| "call_registry reg (CallArchive i) s = snd (reg_archive reg i s)"
| "call_registry reg (CallSupersede i j) s = snd (reg_supersede reg i j s)"

fun registers :: "uuid \<Rightarrow> registry_call \<Rightarrow> bool" where
  "registers i (CallRegister e) \<longleftrightarrow> entry_id e = i"
| "registers i _ \<longleftrightarrow> False"

text \<open>What may change of an entry that is no draft.\<close>

definition settled :: "registry_entry \<Rightarrow> registry_entry \<Rightarrow> bool" where
  "settled e e' \<longleftrightarrow> entry_status e' \<noteq> DRAFT \<and>
     e' = e\<lparr>entry_status := entry_status e', entry_supersedes_entry_id := entry_supersedes_entry_id e',
       entry_archived_at := entry_archived_at e', entry_updated_at := entry_updated_at e'\<rparr>"

lemma settled_trans: "settled e e' \<Longrightarrow> settled e' e'' \<Longrightarrow> settled e e''"
  by (cases e, cases e', cases e'') (simp add: settled_def)

lemma settled_refl: "entry_status e \<noteq> DRAFT \<Longrightarrow> settled e e"
  by (simp add: settled_def)

lemma settled_calls: "settled e (archived_at e t t')" "settled e (superseded_by e j t)"
  by (cases e, simp add: settled_def archived_at_def superseded_by_def)+

lemma snd_wp: "wp m (\<lambda>_. P) (\<lambda>_. P) s \<Longrightarrow> P (snd (m s))"
  by (auto simp: wp_def split: prod.splits sum.splits)

context registry_contract
begin

lemma call_settled:
  assumes s: "ok s" and e: "lookup s i = Some e" "entry_status e \<noteq> DRAFT" and c: "\<not> registers i c"
  shows "ok (call_registry reg c s) \<and> (\<exists>e'. lookup (call_registry reg c s) i = Some e' \<and> settled e e')"
proof (cases c)
  case (CallRegister x)
  show ?thesis unfolding CallRegister call_registry.simps
    by (rule snd_wp, rule wp_mono [OF register_law [OF s]]) (use e c CallRegister in \<open>auto intro: settled_refl\<close>)
next
  case (CallUpdate j m)
  show ?thesis unfolding CallUpdate call_registry.simps
    by (rule snd_wp, rule wp_mono [OF update_law [OF s]]) (use e in \<open>auto intro: settled_refl\<close>)
next
  case (CallArchive j)
  show ?thesis unfolding CallArchive call_registry.simps
    by (rule snd_wp, rule wp_mono [OF archive_law [OF s]]) (use e in \<open>auto intro: settled_refl settled_calls\<close>)
next
  case (CallSupersede j k)
  show ?thesis unfolding CallSupersede call_registry.simps
    by (rule snd_wp, rule wp_mono [OF supersede_law [OF s]]) (use e in \<open>auto intro: settled_refl settled_calls\<close>)
qed

lemma calls_settled:
  assumes "ok s" and "lookup s i = Some e" and "entry_status e \<noteq> DRAFT" and "list_all (\<lambda>c. \<not> registers i c) calls"
  shows "\<exists>e'. lookup (fold (call_registry reg) calls s) i = Some e' \<and> settled e e'"
  using assms
proof (induction calls arbitrary: s e)
  case Nil
  then show ?case by (simp add: settled_refl)
next
  case (Cons c cs)
  then obtain e' where e': "ok (call_registry reg c s)" "lookup (call_registry reg c s) i = Some e'" "settled e e'"
    using call_settled [of s i e c] by auto
  moreover from e'(3) have "entry_status e' \<noteq> DRAFT" by (simp add: settled_def)
  ultimately show ?case
    using Cons.IH [of "call_registry reg c s" e'] Cons.prems(4) settled_trans [of e e'] by auto
qed

end

section \<open>The in-memory registry keeps the contract\<close>

abbreviation registry_ok :: "'z mem_registry_scheme \<Rightarrow> bool" where
  "registry_ok s \<equiv> py.keyed entry_id (mem_entries s)"

lemma wp_registry_get [wp_rules]:
  "wp (registry_get i) Q E s =
     (case dict_get (mem_entries s) i of None \<Rightarrow> E (entry_missing i) s | Some e \<Rightarrow> Q e s)"
  unfolding registry_get_def wp_rules ..

lemma edited_id: "entry_id (edited e m t) = entry_id e" "entry_id (archived_at e t t') = entry_id e"
  "entry_id (superseded_by e j t) = entry_id e"
  by (simp_all add: edited_def archived_at_def superseded_by_def)

interpretation mem_reg: registry_contract memory_registry "\<lambda>s. dict_get (mem_entries s)" registry_ok "\<lambda>_ _. False" "\<lambda>_ _. False"
proof (unfold_locales, goal_cases)
  case (1 s e)
  then show ?case
    by (simp add: memory_registry_def registry_register_def put_entry_def wp_rules py.keyed_put)
next
  case (2 s i)
  show ?case by (simp add: memory_registry_def registry_get_def run_defs split: option.split)
next
  case (3 s f)
  then have "set (dict_values (mem_entries s)) = ran (dict_get (mem_entries s))"
    by (intro py.vals_get) (simp add: py.keyed_def)
  then show ?case by (auto simp: memory_registry_def registry_search_def wp_rules)
next
  case (4 s i m)
  then show ?case
    by (auto simp: memory_registry_def registry_update_metadata_def entry_with_metadata_edited put_entry_def wp_rules
        edited_id dest: py.keyed_get intro!: py.keyed_put split: option.split)
next
  case (5 s i)
  then show ?case
    by (auto simp: memory_registry_def registry_archive_def put_entry_def wp_rules Let_def archived_at_def
        dest: py.keyed_get intro!: py.keyed_put split: option.split)
next
  case (6 s i j)
  then show ?case
    by (auto simp: memory_registry_def registry_supersede_def put_entry_def wp_rules Let_def superseded_by_def
        dest: py.keyed_get intro!: py.keyed_put split: option.split)
next
  case (7 s i e)
  then show ?case by (rule py.keyed_get)
qed

end
