(* ===== verification/Auth.thy ===== *)
theory Auth
  imports Registry
begin

text \<open>
  Authorization: \<^verbatim>\<open>src/src/ghostmesh/auth/\<close> (\<^verbatim>\<open>scopes.py\<close>, \<^verbatim>\<open>repositories.py\<close>, \<^verbatim>\<open>service.py\<close>,
  \<^verbatim>\<open>dependencies.py\<close>). \<open>auth_repository\<close> is the protocol class \<^verbatim>\<open>AuthorizationRepository\<close>,
  \<open>memory_repository\<close> the in-memory one, whose state is the record \<open>mem_auth\<close>. The service is defined
  over any repository; the locale \<open>authorization_repository\<close> states the laws it relies on, and the
  lemmas about decisions are proved inside it.
\<close>

section \<open>Scopes\<close>

definition context_get :: "jdict option \<Rightarrow> string \<Rightarrow> json option" where
  "context_get ctx key = (case ctx of None \<Rightarrow> None | Some d \<Rightarrow> dict_get d key)"

definition scope_matches :: "scope \<Rightarrow> scope \<Rightarrow> jdict option \<Rightarrow> bool" where
  "scope_matches held target ctx =
     (if scope_type held \<in> {GLOBAL, DEVELOPMENT_GLOBAL} then True
      else if scope_type held = scope_type target \<and> scope_id held = scope_id target
      then True
      else if scope_type held = WORKFLOW
      then scope_id held \<noteq> None \<and>
        map_option JStr (scope_id held) = context_get ctx ''workflow_id''
      else if scope_type held = PATCH_PANEL
      then (if scope_type target = VERSION
        then scope_id held \<noteq> None \<and>
          map_option JStr (scope_id held) = context_get ctx ''patch_panel_id''
        else scope_id held \<noteq> None \<and>
          map_option JStr (scope_id held) = context_get ctx ''patch_panel_id'')
      else False)"

section \<open>Repositories\<close>

record 's auth_repository =
  repo_get_participant :: "string \<Rightarrow> ('s, participant option) M"
  repo_list_participants :: "('s, participant list) M"
  repo_upsert_participant :: "participant \<Rightarrow> ('s, unit) M"
  repo_add_role_assignment :: "role_assignment \<Rightarrow> ('s, unit) M"
  repo_list_role_assignments :: "string \<Rightarrow> ('s, role_assignment list) M"
  repo_add_permission_grant :: "permission_grant \<Rightarrow> ('s, unit) M"
  repo_list_permission_grants :: "string \<Rightarrow> ('s, permission_grant list) M"
  repo_record_audit_event :: "authorization_audit_event \<Rightarrow> ('s, unit) M"

record mem_auth = mem_registry +
  auth_participants :: "(string, participant) dict"
  auth_role_assignments :: "role_assignment list"
  auth_permission_grants :: "permission_grant list"
  auth_audit_events :: "authorization_audit_event list"

definition get_participant :: "string \<Rightarrow> ('z mem_auth_scheme, participant option) M" where
  "get_participant pid = getsM (\<lambda>s. dict_get (auth_participants s) pid)"

definition list_participants :: "('z mem_auth_scheme, participant list) M" where
  "list_participants = getsM (\<lambda>s. dict_values (auth_participants s))"

definition upsert_participant :: "participant \<Rightarrow> ('z mem_auth_scheme, unit) M" where
  "upsert_participant p =
     modifyM (\<lambda>s. s\<lparr>auth_participants := dict_set (participant_id p) p (auth_participants s)\<rparr>)"

definition add_role_assignment :: "role_assignment \<Rightarrow> ('z mem_auth_scheme, unit) M" where
  "add_role_assignment a = modifyM (\<lambda>s. s\<lparr>auth_role_assignments := auth_role_assignments s @ [a]\<rparr>)"

definition active_assignments :: "string \<Rightarrow> datetime \<Rightarrow> role_assignment list \<Rightarrow> role_assignment list" where
  "active_assignments pid t assignments =
     filter (\<lambda>a. assignment_participant_id a = pid \<and> assignment_is_active a t) assignments"

definition list_role_assignments :: "string \<Rightarrow> ('z mem_auth_scheme, role_assignment list) M" where
  "list_role_assignments pid =
     bindM now_utc (\<lambda>t. getsM (\<lambda>s. active_assignments pid t (auth_role_assignments s)))"

definition add_permission_grant :: "permission_grant \<Rightarrow> ('z mem_auth_scheme, unit) M" where
  "add_permission_grant g = modifyM (\<lambda>s. s\<lparr>auth_permission_grants := auth_permission_grants s @ [g]\<rparr>)"

definition effective_grants ::
  "string \<Rightarrow> datetime \<Rightarrow> role_assignment list \<Rightarrow> permission_grant list \<Rightarrow> permission_grant list" where
  "effective_grants pid t assignments grants =
     (let role_ids = map assignment_role_id (active_assignments pid t assignments)
      in filter (\<lambda>g. grant_is_active g t \<and>
           (grant_participant_id g = Some pid \<or> grant_role_id g \<in> Some ` set role_ids)) grants)"

definition list_permission_grants :: "string \<Rightarrow> ('z mem_auth_scheme, permission_grant list) M" where
  "list_permission_grants pid =
     bindM now_utc (\<lambda>t.
     getsM (\<lambda>s. effective_grants pid t (auth_role_assignments s) (auth_permission_grants s)))"

definition record_audit_event :: "authorization_audit_event \<Rightarrow> ('z mem_auth_scheme, unit) M" where
  "record_audit_event e = modifyM (\<lambda>s. s\<lparr>auth_audit_events := auth_audit_events s @ [e]\<rparr>)"

definition memory_repository :: "'z mem_auth_scheme auth_repository" where
  "memory_repository = \<lparr>repo_get_participant = get_participant,
     repo_list_participants = list_participants, repo_upsert_participant = upsert_participant,
     repo_add_role_assignment = add_role_assignment,
     repo_list_role_assignments = list_role_assignments,
     repo_add_permission_grant = add_permission_grant,
     repo_list_permission_grants = list_permission_grants,
     repo_record_audit_event = record_audit_event\<rparr>"

lemma memory_repository_sel:
  "repo_get_participant memory_repository = get_participant"
  "repo_upsert_participant memory_repository = upsert_participant"
  "repo_add_role_assignment memory_repository = add_role_assignment"
  "repo_list_role_assignments memory_repository = list_role_assignments"
  "repo_add_permission_grant memory_repository = add_permission_grant"
  "repo_list_permission_grants memory_repository = list_permission_grants"
  "repo_record_audit_event memory_repository = record_audit_event"
  by (simp_all add: memory_repository_def)

section \<open>The service\<close>

definition new_decision ::
  "string \<Rightarrow> permission_name \<Rightarrow> scope \<Rightarrow> bool \<Rightarrow> string \<Rightarrow> uuid list \<Rightarrow> jdict option \<Rightarrow>
     ('z world_scheme, authorization_decision) M" where
  "new_decision pid perm sc allowed reason matched ctx =
     bindM uuid4 (\<lambda>i. bindM now_utc (\<lambda>t.
     returnM \<lparr>decision_id = i, decision_participant_id = pid, decision_permission = perm,
       decision_scope = sc, decision_allowed = allowed, decision_reason = reason,
       decision_evaluated_at = t, decision_matched_grant_ids = matched,
       decision_metadata = (case ctx of None \<Rightarrow> [] | Some d \<Rightarrow> d)\<rparr>))"

definition record_decision ::
  "'z world_scheme auth_repository \<Rightarrow> authorization_decision \<Rightarrow> ('z world_scheme, authorization_decision) M" where
  "record_decision repo d =
     bindM (from_decision d None None) (\<lambda>e.
     bindM (repo_record_audit_event repo e) (\<lambda>_.
     returnM d))"

definition authorize ::
  "'z world_scheme auth_repository \<Rightarrow> string \<Rightarrow> permission_name \<Rightarrow> scope \<Rightarrow> jdict option \<Rightarrow>
     ('z world_scheme, authorization_decision) M" where
  "authorize repo pid perm sc ctx =
     bindM (repo_get_participant repo pid) (\<lambda>participant. case participant of
       None \<Rightarrow>
         bindM (new_decision pid perm sc False ''participant not found'' [] ctx) (record_decision repo)
     | Some p \<Rightarrow>
         if participant_status p \<noteq> ACTIVE then
           bindM (new_decision pid perm sc False
             (''participant is '' @ participant_status_value (participant_status p)) [] ctx)
             (record_decision repo)
         else
           bindM (repo_list_permission_grants repo pid) (\<lambda>grants.
           let matched = filter (\<lambda>g. grant_permission g = perm \<and> scope_matches (grant_scope g) sc ctx) grants
           in if matched \<noteq> [] then
                bindM (new_decision pid perm sc True ''matched explicit permission grant''
                  (map grant_id matched) ctx) (record_decision repo)
              else
                bindM (new_decision pid perm sc False ''no matching permission grant'' [] ctx)
                  (record_decision repo)))"

definition record_audit ::
  "'z world_scheme auth_repository \<Rightarrow> audit_action \<Rightarrow> string option \<Rightarrow> permission_name option \<Rightarrow>
     scope option \<Rightarrow> bool option \<Rightarrow> string option \<Rightarrow> string option \<Rightarrow> string option \<Rightarrow>
     jdict option \<Rightarrow> ('z world_scheme, authorization_audit_event) M" where
  "record_audit repo action pid perm sc allowed reason request_ref target_ref metadata =
     bindM uuid4 (\<lambda>i. bindM now_utc (\<lambda>t.
     let e = \<lparr>audit_id = i, audit_action = action, audit_participant_id = pid, audit_permission = perm,
       audit_scope = sc, audit_allowed = allowed, audit_reason = reason,
       audit_request_ref = request_ref, audit_target_ref = target_ref,
       audit_metadata = (case metadata of None \<Rightarrow> [] | Some d \<Rightarrow> d), audit_created_at = t\<rparr> in
     bindM (repo_record_audit_event repo e) (\<lambda>_.
     returnM e)))"

text \<open>
  \<^verbatim>\<open>authorize_request\<close>: of the request it reads the flag \<^verbatim>\<open>app.state.authorization_enabled\<close> and the
  header \<^verbatim>\<open>X-Ghostmesh-Participant\<close>.
\<close>

definition authorize_request ::
  "'z world_scheme auth_repository \<Rightarrow> bool \<Rightarrow> string option \<Rightarrow> permission_name \<Rightarrow> scope \<Rightarrow>
     jdict option \<Rightarrow> string option \<Rightarrow> ('z world_scheme, string option) M" where
  "authorize_request repo enabled header perm sc ctx participant =
     (if \<not> enabled then returnM participant
      else
        let resolved = or_else header participant in
        if \<not> truthy resolved then raiseM (HTTPException 403 ''missing Ghost Mesh participant'')
        else
          bindM (authorize repo (the resolved) perm sc (Some (case ctx of None \<Rightarrow> [] | Some d \<Rightarrow> d)))
            (\<lambda>d. if \<not> decision_allowed d then raiseM (HTTPException 403 (decision_reason d))
                 else returnM resolved))"

section \<open>What the service relies on of a repository\<close>

text \<open>
  \<open>participants\<close>, \<open>grants\<close> and \<open>audit\<close> read a state; \<open>grants s pid t\<close> are the grants that are in force
  for a participant at time \<open>t\<close>. Drawing identifiers and reading the clock do not change them.
\<close>

locale authorization_repository =
  fixes repo :: "'z world_scheme auth_repository"
    and participants :: "'z world_scheme \<Rightarrow> string \<Rightarrow> participant option"
    and grants :: "'z world_scheme \<Rightarrow> string \<Rightarrow> datetime \<Rightarrow> permission_grant list"
    and audit :: "'z world_scheme \<Rightarrow> authorization_audit_event list"
  assumes get_participant_law: "repo_get_participant repo pid s = (Inr (participants s pid), s)"
    and list_grants_law:
      "repo_list_permission_grants repo pid s =
         (Inr (grants s pid (next_reading s)), s\<lparr>clock_pos := Suc (clock_pos s)\<rparr>)"
    and record_law:
      "\<exists>s'. repo_record_audit_event repo e s = (Inr (), s') \<and> audit s' = audit s @ [e] \<and>
         participants s' = participants s \<and> grants s' = grants s"
    and advance_law:
      "advance s t \<Longrightarrow> participants t = participants s \<and> grants t = grants s \<and> audit t = audit s"
begin

text \<open>The grants that allow a request.\<close>

definition matching :: "'z world_scheme \<Rightarrow> string \<Rightarrow> permission_name \<Rightarrow> scope \<Rightarrow> jdict option \<Rightarrow> permission_grant list" where
  "matching s pid perm sc ctx =
     filter (\<lambda>g. grant_permission g = perm \<and> scope_matches (grant_scope g) sc ctx)
       (grants s pid (next_reading s))"

definition permitted :: "'z world_scheme \<Rightarrow> string \<Rightarrow> permission_name \<Rightarrow> scope \<Rightarrow> jdict option \<Rightarrow> bool" where
  "permitted s pid perm sc ctx \<longleftrightarrow>
     (\<exists>p. participants s pid = Some p \<and> participant_status p = ACTIVE) \<and>
     matching s pid perm sc ctx \<noteq> []"

text \<open>A decision is recorded: one more audit event, nothing else changed.\<close>

definition decided ::
  "'z world_scheme \<Rightarrow> 'z world_scheme \<Rightarrow> string \<Rightarrow> permission_name \<Rightarrow> scope \<Rightarrow> bool \<Rightarrow>
     authorization_decision \<Rightarrow> bool" where
  "decided s s' pid perm sc allowed d \<longleftrightarrow>
     decision_allowed d = allowed \<and> decision_participant_id d = pid \<and> decision_permission d = perm \<and>
     decision_scope d = sc \<and> participants s' = participants s \<and> grants s' = grants s \<and>
     (\<exists>e. audit s' = audit s @ [e] \<and> audit_action e = decision_audit_action d \<and>
        audit_participant_id e = Some pid \<and> audit_permission e = Some perm \<and>
        audit_scope e = Some sc \<and> audit_allowed e = Some allowed)"

lemma record_new_decision:
  assumes "advance s t"
  shows "wp (bindM (new_decision pid perm sc allowed reason matched ctx) (record_decision repo))
    (\<lambda>d s'. decided s s' pid perm sc allowed d \<and> decision_matched_grant_ids d = matched \<and>
       decision_reason d = reason) (\<lambda>_ _. False) t"
proof -
  let ?d = "\<lparr>decision_id = uuid_src t (uuid_pos t), decision_participant_id = pid, decision_permission = perm,
    decision_scope = sc, decision_allowed = allowed, decision_reason = reason,
    decision_evaluated_at = clock_src t (clock_pos t), decision_matched_grant_ids = matched,
    decision_metadata = (case ctx of None \<Rightarrow> [] | Some d \<Rightarrow> d)\<rparr>"
  let ?u = "t\<lparr>uuid_pos := Suc (Suc (uuid_pos t)), clock_pos := Suc (Suc (clock_pos t))\<rparr>"
  let ?e = "\<lparr>audit_id = uuid_src t (Suc (uuid_pos t)), audit_action = decision_audit_action ?d,
    audit_participant_id = Some pid, audit_permission = Some perm, audit_scope = Some sc,
    audit_allowed = Some allowed, audit_reason = Some reason, audit_request_ref = None,
    audit_target_ref = None, audit_metadata = (case ctx of None \<Rightarrow> [] | Some d \<Rightarrow> d),
    audit_created_at = clock_src t (Suc (clock_pos t))\<rparr>"
  have run: "bindM (new_decision pid perm sc allowed reason matched ctx) (record_decision repo) t =
      bindM (repo_record_audit_event repo ?e) (\<lambda>_. returnM ?d) ?u"
    by (simp add: new_decision_def record_decision_def from_decision_def uuid4_def now_utc_def
        bindM_def returnM_def)
  have u: "advance s ?u"
    using assms by (rule advance_trans) (simp add: advance_counters)
  obtain s' where s': "repo_record_audit_event repo ?e ?u = (Inr (), s')" "audit s' = audit ?u @ [?e]"
    "participants s' = participants ?u" "grants s' = grants ?u"
    using record_law by blast
  have "decided s s' pid perm sc allowed ?d"
    using s'(2-) advance_law [OF u] by (auto simp: decided_def)
  with s'(1) show ?thesis unfolding wp_def run by (simp add: bindM_def returnM_def)
qed

lemma authorize_decides:
  "wp (authorize repo pid perm sc ctx)
     (\<lambda>d s'. decided s s' pid perm sc (permitted s pid perm sc ctx) d \<and>
        decision_matched_grant_ids d =
          (if permitted s pid perm sc ctx then map grant_id (matching s pid perm sc ctx) else []))
     (\<lambda>_ _. False) s"
proof (cases "participants s pid")
  case None
  have "wp (authorize repo pid perm sc ctx) Q (\<lambda>_ _. False) s \<longleftrightarrow>
      wp (bindM (new_decision pid perm sc False ''participant not found'' [] ctx) (record_decision repo))
        Q (\<lambda>_ _. False) s" for Q
    by (simp add: authorize_def wp_def bindM_def get_participant_law None)
  then show ?thesis
    using record_new_decision [OF advance_refl, of pid perm sc False "''participant not found''" "[]" ctx s] None
    by (auto simp: permitted_def elim!: wp_mono)
next
  case (Some p)
  let ?t = "s\<lparr>clock_pos := Suc (clock_pos s)\<rparr>"
  show ?thesis
  proof (cases "participant_status p = ACTIVE")
    case False
    then have "wp (authorize repo pid perm sc ctx) Q (\<lambda>_ _. False) s \<longleftrightarrow>
      wp (bindM (new_decision pid perm sc False
        (''participant is '' @ participant_status_value (participant_status p)) [] ctx) (record_decision repo))
        Q (\<lambda>_ _. False) s" for Q
      by (simp add: authorize_def wp_def bindM_def get_participant_law Some)
    then show ?thesis
      using record_new_decision [OF advance_refl, of pid perm sc False
        "''participant is '' @ participant_status_value (participant_status p)" "[]" ctx s] Some False
      by (auto simp: permitted_def elim!: wp_mono)
  next
    case True
    show ?thesis
    proof (cases "matching s pid perm sc ctx = []")
      case none: True
      then have "wp (authorize repo pid perm sc ctx) Q (\<lambda>_ _. False) s \<longleftrightarrow>
        wp (bindM (new_decision pid perm sc False ''no matching permission grant'' [] ctx)
          (record_decision repo)) Q (\<lambda>_ _. False) ?t" for Q
        using True
        by (simp add: authorize_def wp_def bindM_def get_participant_law list_grants_law Some matching_def Let_def)
      then show ?thesis
        using record_new_decision [OF advance_now, of pid perm sc False "''no matching permission grant''" "[]" ctx s] none
        by (auto simp: permitted_def elim!: wp_mono)
    next
      case some: False
      then have "wp (authorize repo pid perm sc ctx) Q (\<lambda>_ _. False) s \<longleftrightarrow>
        wp (bindM (new_decision pid perm sc True ''matched explicit permission grant''
          (map grant_id (matching s pid perm sc ctx)) ctx) (record_decision repo)) Q (\<lambda>_ _. False) ?t" for Q
        using True
        by (simp add: authorize_def wp_def bindM_def get_participant_law list_grants_law Some matching_def Let_def)
      then show ?thesis
        using record_new_decision [OF advance_now, of pid perm sc True "''matched explicit permission grant''"
          "map grant_id (matching s pid perm sc ctx)" ctx s] some True Some
        by (auto simp: permitted_def elim!: wp_mono)
    qed
  qed
qed

end

section \<open>The in-memory repository keeps the laws\<close>

lemma advance_auth:
  assumes "advance s t"
  shows "auth_participants t = auth_participants s" "auth_role_assignments t = auth_role_assignments s"
    "auth_permission_grants t = auth_permission_grants s" "auth_audit_events t = auth_audit_events s"
    "mem_entries t = mem_entries s"
  using assms by (auto simp: advance_def)

abbreviation grants_in_force :: "'z mem_auth_scheme \<Rightarrow> string \<Rightarrow> datetime \<Rightarrow> permission_grant list" where
  "grants_in_force s pid t \<equiv> effective_grants pid t (auth_role_assignments s) (auth_permission_grants s)"

interpretation mem_repo: authorization_repository memory_repository
  "\<lambda>s. dict_get (auth_participants s)" grants_in_force auth_audit_events
  by unfold_locales
     (auto simp: memory_repository_def get_participant_def list_permission_grants_def
       record_audit_event_def run_defs now_utc_def next_reading_def advance_auth)

text \<open>When a participant may do something, spelled out over the stored assignments and grants.\<close>

definition may ::
  "'z mem_auth_scheme \<Rightarrow> datetime \<Rightarrow> string \<Rightarrow> permission_name \<Rightarrow> scope \<Rightarrow> jdict option \<Rightarrow> bool" where
  "may s t pid perm sc ctx \<longleftrightarrow>
     (\<exists>p. dict_get (auth_participants s) pid = Some p \<and> participant_status p = ACTIVE) \<and>
     (\<exists>g \<in> set (auth_permission_grants s). grant_permission g = perm \<and>
        scope_matches (grant_scope g) sc ctx \<and> grant_is_active g t \<and>
        (grant_participant_id g = Some pid \<or>
         (\<exists>a \<in> set (auth_role_assignments s). assignment_participant_id a = pid \<and>
            assignment_is_active a t \<and> grant_role_id g = Some (assignment_role_id a))))"

lemma permitted_may: "mem_repo.permitted s pid perm sc ctx \<longleftrightarrow> may s (next_reading s) pid perm sc ctx"
  unfolding mem_repo.permitted_def mem_repo.matching_def
  unfolding may_def effective_grants_def active_assignments_def Let_def filter_empty_conv
  by (simp add: image_iff) blast

end
