(* ===== verification/RoleCatalog.thy ===== *)
theory RoleCatalog
  imports Auth
begin

text \<open>
  Built-in roles and the seeding of authority: \<^verbatim>\<open>src/src/ghostmesh/auth/catalog.py\<close> and the
  authority part of \<^verbatim>\<open>src/src/ghostmesh/bootstrap.py\<close>. A role template carries a list of
  permissions; assigning the role stores an assignment for the participant and one grant per
  permission for the role.
\<close>

section \<open>Role templates\<close>

record role_template =
  template_name :: role_name
  template_description :: string
  template_permissions :: "permission_name list"
  template_metadata :: "(string, string) dict"

definition template_id :: "role_template \<Rightarrow> string" where
  "template_id t = ''builtin:'' @ role_name_value (template_name t)"

definition to_role :: "role_template \<Rightarrow> ('z world_scheme, role) M" where
  "to_role t =
     bindM now_utc (\<lambda>now.
     returnM \<lparr>role_id = template_id t, role_name = template_name t,
       role_description = Some (template_description t), role_permissions = template_permissions t,
       role_metadata = dict_update [(''builtin'', JBool True)]
         (map (map_prod (\<lambda>k. k) JStr) (template_metadata t)),
       role_created_at = now\<rparr>)"

definition permission_grants ::
  "role_template \<Rightarrow> scope \<Rightarrow> string option \<Rightarrow> datetime option \<Rightarrow> ('z world_scheme, permission_grant list) M" where
  "permission_grants t sc granted_by created_at =
     bindM (case created_at of None \<Rightarrow> now_utc | Some x \<Rightarrow> returnM x) (\<lambda>grant_time.
     forM (template_permissions t) (\<lambda>perm.
       bindM uuid4 (\<lambda>i.
       returnM \<lparr>grant_id = i, grant_permission = perm, grant_scope = sc, grant_participant_id = None,
         grant_role_id = Some (template_id t), grant_granted_by = granted_by, grant_expires_at = None,
         grant_created_at = grant_time, grant_revoked_at = None,
         grant_metadata = [(''builtin_role'', JStr (role_name_value (template_name t)))]\<rparr>)))"

definition role_template_of :: "role_name \<Rightarrow> string \<Rightarrow> permission_name list \<Rightarrow> role_name \<times> role_template" where
  "role_template_of n description perms =
     (n, \<lparr>template_name = n, template_description = description, template_permissions = perms,
        template_metadata = []\<rparr>)"

definition built_in_role_templates :: "(role_name, role_template) dict" where
  "built_in_role_templates =
     [role_template_of WORKFLOW_OWNER
        ''Owns workflow design, publishing, mutation promotion, and scoped grants.''
        [PATCH_PANEL_CREATE, PATCH_PANEL_EDIT_DRAFT, PATCH_PANEL_PUBLISH_VERSION, PATCH_PANEL_ARCHIVE,
         PATCH_PANEL_DISCOVER, BUCKET_CREATE, NODE_CREATE, EDGE_CREATE, PIPE_BINDING_CREATE,
         MUTATION_VALIDATE, MUTATION_PROMOTE, SHADOW_CREATE, PERMISSION_GRANT],
      role_template_of WORKFLOW_DESIGNER ''Designs draft workflow topology and proposes mutations.''
        [PATCH_PANEL_CREATE, PATCH_PANEL_EDIT_DRAFT, PATCH_PANEL_DISCOVER, BUCKET_CREATE, NODE_CREATE,
         EDGE_CREATE, PIPE_BINDING_CREATE, MUTATION_PROPOSE],
      role_template_of WORKER_ROLE
        ''Claims cards, views work context, submits artifacts, and releases cards.''
        [CARD_VIEW, CARD_CLAIM, CARD_SUBMIT_ARTIFACT, CARD_RELEASE],
      role_template_of VALIDATOR_ROLE ''Views card context and submits validation decisions.''
        [CARD_VIEW, VALIDATION_SUBMIT],
      role_template_of ROUTING_VALIDATOR
        ''Reviews routing-sensitive card state and submits validation decisions.''
        [CARD_VIEW, VALIDATION_SUBMIT],
      role_template_of SOURCE_OPERATOR ''Admits work through governed source ingress boundaries.''
        [BOUNDARY_SOURCE_INGRESS, CARD_CREATE],
      role_template_of SINK_OPERATOR ''Executes governed sink and egress operations.''
        [SINK_EXECUTE, BOUNDARY_SINK_EGRESS],
      role_template_of REVIEWER_APPROVER
        ''Reviews cards and validates or promotes governed proposals.''
        [CARD_VIEW, VALIDATION_SUBMIT, MUTATION_VALIDATE, MUTATION_PROMOTE, PATCH_PANEL_PUBLISH_VERSION],
      role_template_of SHADOW_PARTICIPANT ''Runs isolated shadow work and proposes improvements.''
        [CARD_VIEW, CARD_CLAIM, CARD_SUBMIT_ARTIFACT, SHADOW_COMPLETE, MUTATION_PROPOSE],
      role_template_of LEARNING_OPTIMIZER
        ''Observes workflow evidence and proposes optimization mutations.''
        [CARD_VIEW, PATCH_PANEL_DISCOVER, MUTATION_PROPOSE, SHADOW_CREATE],
      role_template_of OBSERVER
        ''Reads workflow context and audit surfaces without mutation authority.''
        [CARD_VIEW, PATCH_PANEL_DISCOVER, AUDIT_VIEW],
      role_template_of ADMIN ''Receives every current permission through explicit grants.'' all_permissions,
      role_template_of INTENT_OPERATOR ''Admits structured intent and discovers reusable workflows.''
        [CARD_CREATE, PATCH_PANEL_DISCOVER],
      role_template_of WORKFLOW_ARCHITECT
        ''Designs and proposes workflow topology without production promotion.''
        [PATCH_PANEL_DISCOVER, PATCH_PANEL_CREATE, PATCH_PANEL_EDIT_DRAFT, BUCKET_CREATE, NODE_CREATE,
         EDGE_CREATE, PIPE_BINDING_CREATE, CARD_CREATE, MUTATION_PROPOSE, SHADOW_CREATE]]"

definition get_role_template :: "role_name \<Rightarrow> role_template res" where
  "get_role_template n =
     (case dict_get built_in_role_templates n of
        None \<Rightarrow> Inl (KeyError (role_name_value n)) | Some t \<Rightarrow> Inr t)"

definition built_in_roles :: "('z world_scheme, role list) M" where
  "built_in_roles = forM (dict_values built_in_role_templates) to_role"

section \<open>Assigning and seeding\<close>

definition new_role_assignment ::
  "string \<Rightarrow> string \<Rightarrow> scope \<Rightarrow> string option \<Rightarrow> jdict \<Rightarrow> ('z world_scheme, role_assignment) M" where
  "new_role_assignment pid rid sc assigned_by metadata =
     bindM uuid4 (\<lambda>i. bindM now_utc (\<lambda>t.
     returnM \<lparr>assignment_id = i, assignment_participant_id = pid, assignment_role_id = rid,
       assignment_scope = sc, assignment_assigned_by = assigned_by, assignment_expires_at = None,
       assignment_created_at = t, assignment_revoked_at = None, assignment_metadata = metadata\<rparr>))"

definition assign_role_to_participant ::
  "'z world_scheme auth_repository \<Rightarrow> string \<Rightarrow> role_name \<Rightarrow> scope \<Rightarrow> string option \<Rightarrow>
     ('z world_scheme, role_assignment) M" where
  "assign_role_to_participant repo pid rn sc assigned_by =
     bindM (liftM (get_role_template rn)) (\<lambda>t.
     bindM (new_role_assignment pid (template_id t) sc assigned_by
              [(''builtin_role'', JStr (role_name_value rn))]) (\<lambda>a.
     bindM (repo_add_role_assignment repo a) (\<lambda>_.
     bindM (permission_grants t sc assigned_by None) (\<lambda>gs.
     bindM (forM gs (repo_add_permission_grant repo)) (\<lambda>_.
     returnM a)))))"

definition has_matching_grant :: "permission_grant list \<Rightarrow> permission_grant \<Rightarrow> bool" where
  "has_matching_grant grants candidate \<longleftrightarrow>
     (\<exists>g \<in> set grants. grant_role_id g = grant_role_id candidate \<and>
        grant_participant_id g = grant_participant_id candidate \<and>
        grant_permission g = grant_permission candidate \<and> grant_scope g = grant_scope candidate)"

definition ensure_builtin_role_assignment ::
  "'z world_scheme auth_repository \<Rightarrow> string \<Rightarrow> role_name \<Rightarrow> scope \<Rightarrow> string option \<Rightarrow>
     ('z world_scheme, role_assignment) M" where
  "ensure_builtin_role_assignment repo pid rn sc assigned_by =
     bindM (liftM (get_role_template rn)) (\<lambda>t.
     bindM (repo_list_role_assignments repo pid) (\<lambda>assignments.
     bindM (case find (\<lambda>a. assignment_role_id a = template_id t \<and> assignment_scope a = sc) assignments of
              Some a \<Rightarrow> returnM a
            | None \<Rightarrow>
                bindM (new_role_assignment pid (template_id t) sc assigned_by
                         [(''builtin_role'', JStr (role_name_value rn))]) (\<lambda>a.
                bindM (repo_add_role_assignment repo a) (\<lambda>_.
                returnM a))) (\<lambda>existing.
     bindM (repo_list_permission_grants repo pid) (\<lambda>active_grants.
     bindM (permission_grants t sc assigned_by None) (\<lambda>gs.
     bindM (forM gs (\<lambda>g. if \<not> has_matching_grant active_grants g
                         then repo_add_permission_grant repo g else returnM ())) (\<lambda>_.
     returnM existing))))))"

definition new_participant ::
  "string \<Rightarrow> participant_type \<Rightarrow> string \<Rightarrow> string \<Rightarrow> jdict \<Rightarrow> ('z world_scheme, participant) M" where
  "new_participant pid ty display auth_method metadata =
     bindM now_utc (\<lambda>t.
     returnM \<lparr>participant_id = pid, participant_type = ty, participant_display_name = Some display,
       participant_status = ACTIVE, participant_trust_level = None,
       participant_auth_method = Some auth_method, participant_metadata = metadata,
       participant_created_at = t, participant_archived_at = None\<rparr>)"

definition seed_root_operator ::
  "'z world_scheme auth_repository \<Rightarrow> string \<Rightarrow> ('z world_scheme, unit) M" where
  "seed_root_operator repo pid =
     bindM (new_participant pid SYSTEM_SERVICE ''Root Operator'' ''local_bootstrap''
              [(''system_bootstrap'', JBool True), (''root_operator'', JBool True)]) (\<lambda>p.
     bindM (repo_upsert_participant repo p) (\<lambda>_.
     bindM (ensure_builtin_role_assignment repo (participant_id p) ADMIN global_scope
              (Some (participant_id p))) (\<lambda>_.
     returnM ())))"

text \<open>\<^verbatim>\<open>InMemoryAuthorizationRepository()\<close>: the four collections start empty.\<close>

definition new_repository :: "('z mem_auth_scheme, unit) M" where
  "new_repository = modifyM (\<lambda>s. s\<lparr>auth_participants := [], auth_role_assignments := [],
     auth_permission_grants := [], auth_audit_events := []\<rparr>)"

definition seed_development_authority ::
  "string \<Rightarrow> scope option \<Rightarrow> ('z mem_auth_scheme, unit) M" where
  "seed_development_authority pid sc =
     bindM new_repository (\<lambda>_.
     bindM (new_participant pid SYSTEM_SERVICE ''Development Admin'' ''development_header''
              [(''development_seed'', JBool True)]) (\<lambda>p.
     bindM (upsert_participant p) (\<lambda>_.
     bindM (assign_role_to_participant memory_repository (participant_id p) ADMIN
              (case sc of None \<Rightarrow> development_global | Some x \<Rightarrow> x) (Some (participant_id p))) (\<lambda>_.
     returnM ()))))"

section \<open>What assigning a role does\<close>

lemma get_role_template_total: "\<exists>t. get_role_template n = Inr t \<and> template_name t = n"
  by (cases n) (simp_all add: get_role_template_def built_in_role_templates_def role_template_of_def)

text \<open>The grants made for a role: one per permission of the template, in force for ever.\<close>

definition role_grant :: "role_template \<Rightarrow> scope \<Rightarrow> permission_grant \<Rightarrow> bool" where
  "role_grant t sc g \<longleftrightarrow> grant_scope g = sc \<and> grant_participant_id g = None \<and>
     grant_role_id g = Some (template_id t) \<and> grant_expires_at g = None \<and> grant_revoked_at g = None"

lemma wp_grant_loop:
  "wp (forM perms (\<lambda>perm. bindM uuid4 (\<lambda>i. returnM (mk i perm))))
     (\<lambda>gs s'. advance s s' \<and> length gs = length perms \<and> (\<forall>g \<in> set gs. \<exists>i. \<exists>perm \<in> set perms. g = mk i perm) \<and>
        (\<forall>perm \<in> set perms. \<exists>i. mk i perm \<in> set gs)) (\<lambda>_ _. False) s"
proof (induction perms arbitrary: s)
  case Nil
  then show ?case by (simp add: wp_rules advance_refl)
next
  case (Cons perm perms)
  show ?case
    unfolding forM.simps wp_rules
    by (rule wp_mono [OF Cons.IH]) (auto intro: advance_trans [OF advance_uuid], blast)
qed

lemma wp_permission_grants:
  "wp (permission_grants t sc granted_by None)
     (\<lambda>gs s'. advance s s' \<and> (\<forall>g \<in> set gs. role_grant t sc g) \<and>
        grant_permission ` set gs = set (template_permissions t)) (\<lambda>_ _. False) s"
  unfolding permission_grants_def option.case wp_bind wp_now
proof (rule wp_mono [OF wp_grant_loop])
  fix gs :: "permission_grant list" and s'
  assume gs: "advance (s\<lparr>clock_pos := Suc (clock_pos s)\<rparr>) s' \<and> length gs = length (template_permissions t) \<and>
    (\<forall>g \<in> set gs. \<exists>i. \<exists>perm \<in> set (template_permissions t). g =
      \<lparr>grant_id = i, grant_permission = perm, grant_scope = sc, grant_participant_id = None,
       grant_role_id = Some (template_id t), grant_granted_by = granted_by, grant_expires_at = None,
       grant_created_at = clock_src s (clock_pos s), grant_revoked_at = None,
       grant_metadata = [(''builtin_role'', JStr (role_name_value (template_name t)))]\<rparr>) \<and>
    (\<forall>perm \<in> set (template_permissions t). \<exists>i.
      \<lparr>grant_id = i, grant_permission = perm, grant_scope = sc, grant_participant_id = None,
       grant_role_id = Some (template_id t), grant_granted_by = granted_by, grant_expires_at = None,
       grant_created_at = clock_src s (clock_pos s), grant_revoked_at = None,
       grant_metadata = [(''builtin_role'', JStr (role_name_value (template_name t)))]\<rparr> \<in> set gs)"
  then have "advance s s'" by (blast intro: advance_trans advance_now)
  moreover have "\<forall>g \<in> set gs. role_grant t sc g" using gs by (auto simp: role_grant_def)
  moreover have "grant_permission ` set gs = set (template_permissions t)"
    using gs by (force simp: image_iff)
  ultimately show "advance s s' \<and> (\<forall>g \<in> set gs. role_grant t sc g) \<and>
    grant_permission ` set gs = set (template_permissions t)" by blast
qed simp

lemma wp_add_grants:
  "wp (forM gs (\<lambda>g. if \<not> P g then add_permission_grant g else returnM ()))
     (\<lambda>_ s'. s' = s\<lparr>auth_permission_grants := auth_permission_grants s @ filter (\<lambda>g. \<not> P g) gs\<rparr>)
     (\<lambda>_ _. False) s"
proof (induction gs arbitrary: s)
  case Nil
  then show ?case by (simp add: wp_rules)
next
  case (Cons g gs)
  show ?case
  proof (cases "P g")
    case True
    show ?thesis unfolding forM.simps wp_rules
      by (simp add: True wp_rules) (rule wp_mono [OF Cons.IH], simp_all)
  next
    case False
    show ?thesis unfolding forM.simps wp_rules
      by (simp add: False wp_rules add_permission_grant_def [of g]) (rule wp_mono [OF Cons.IH], simp_all)
  qed
qed

text \<open>
  Seeding a built-in role: afterwards the participant holds an active assignment of the role, and
  every permission of the role is granted to it in the scope. What was stored before stays.
\<close>

definition role_held :: "'z mem_auth_scheme \<Rightarrow> datetime \<Rightarrow> string \<Rightarrow> role_template \<Rightarrow> scope \<Rightarrow> bool" where
  "role_held s t pid tmpl sc \<longleftrightarrow>
     (\<exists>a \<in> set (auth_role_assignments s). assignment_participant_id a = pid \<and>
        assignment_role_id a = template_id tmpl \<and> assignment_scope a = sc \<and> assignment_is_active a t) \<and>
     (\<forall>perm \<in> set (template_permissions tmpl). \<exists>g \<in> set (auth_permission_grants s).
        grant_permission g = perm \<and> grant_scope g = sc \<and> grant_participant_id g = None \<and>
        grant_role_id g = Some (template_id tmpl) \<and> grant_is_active g t)"

definition lasting :: "'z mem_auth_scheme \<Rightarrow> bool" where
  "lasting s \<longleftrightarrow> (\<forall>a \<in> set (auth_role_assignments s). assignment_expires_at a = None) \<and>
     (\<forall>g \<in> set (auth_permission_grants s). grant_expires_at g = None)"

text \<open>A participant that holds a role in a scope may do what the role permits wherever it matches.\<close>

lemma role_held_may:
  assumes "role_held s t pid tmpl sc" and "perm \<in> set (template_permissions tmpl)"
    and "scope_matches sc target ctx"
    and "dict_get (auth_participants s) pid = Some p" and "participant_status p = ACTIVE"
  shows "may s t pid perm target ctx"
  using assms by (fastforce simp: role_held_def may_def)

lemma lasting_active:
  "lasting s \<Longrightarrow> a \<in> set (auth_role_assignments s) \<Longrightarrow> assignment_is_active a t = assignment_is_active a t'"
  "lasting s \<Longrightarrow> g \<in> set (auth_permission_grants s) \<Longrightarrow> grant_is_active g t = grant_is_active g t'"
  by (auto simp: lasting_def assignment_is_active_def grant_is_active_def)

definition ensured ::
  "'z mem_auth_scheme \<Rightarrow> 'z mem_auth_scheme \<Rightarrow> string \<Rightarrow> role_template \<Rightarrow> scope \<Rightarrow> bool" where
  "ensured s s' pid tmpl sc \<longleftrightarrow> (\<forall>t. role_held s' t pid tmpl sc) \<and> lasting s' \<and>
     auth_participants s' = auth_participants s \<and> auth_audit_events s' = auth_audit_events s \<and>
     prefix (auth_role_assignments s) (auth_role_assignments s') \<and>
     prefix (auth_permission_grants s) (auth_permission_grants s') \<and>
     ((\<exists>t. role_held s t pid tmpl sc) \<longrightarrow> auth_role_assignments s' = auth_role_assignments s \<and>
        auth_permission_grants s' = auth_permission_grants s)"

text \<open>The first half: an active assignment of the role in the scope is found or made.\<close>

definition assigned ::
  "'z mem_auth_scheme \<Rightarrow> 'z mem_auth_scheme \<Rightarrow> string \<Rightarrow> role_template \<Rightarrow> scope \<Rightarrow> bool" where
  "assigned s s' pid tmpl sc \<longleftrightarrow>
     (\<exists>a \<in> set (auth_role_assignments s'). assignment_participant_id a = pid \<and>
        assignment_role_id a = template_id tmpl \<and> assignment_scope a = sc \<and> (\<forall>t. assignment_is_active a t)) \<and>
     lasting s' \<and> auth_participants s' = auth_participants s \<and>
     auth_audit_events s' = auth_audit_events s \<and>
     auth_permission_grants s' = auth_permission_grants s \<and>
     prefix (auth_role_assignments s) (auth_role_assignments s') \<and>
     ((\<exists>t. role_held s t pid tmpl sc) \<longrightarrow> auth_role_assignments s' = auth_role_assignments s)"

lemma wp_find_or_assign:
  assumes last: "lasting s"
  shows "wp (bindM (list_role_assignments pid) (\<lambda>assignments.
      case find (\<lambda>a. assignment_role_id a = template_id tmpl \<and> assignment_scope a = sc) assignments of
        Some a \<Rightarrow> returnM a
      | None \<Rightarrow> bindM (new_role_assignment pid (template_id tmpl) sc assigned_by md) (\<lambda>a.
          bindM (add_role_assignment a) (\<lambda>_. returnM a))))
    (\<lambda>_ s'. assigned s s' pid tmpl sc) (\<lambda>_ _. False) s"
proof (cases "find (\<lambda>a. assignment_role_id a = template_id tmpl \<and> assignment_scope a = sc)
    (active_assignments pid (clock_src s (clock_pos s)) (auth_role_assignments s))")
  case (Some a)
  then have a: "a \<in> set (auth_role_assignments s)" "assignment_participant_id a = pid"
    "assignment_role_id a = template_id tmpl" "assignment_scope a = sc"
    "assignment_is_active a (clock_src s (clock_pos s))"
    by (auto dest!: find_SomeD simp: active_assignments_def)
  then have "assignment_is_active a t" for t using lasting_active(1) [OF last] by blast
  with a last Some show ?thesis
    unfolding list_role_assignments_def wp_rules
    by (simp add: wp_rules assigned_def lasting_def) blast
next
  case None
  then have none: "\<not> role_held s t pid tmpl sc" for t
    using lasting_active(1) [OF last, where t = t and t' = "clock_src s (clock_pos s)"]
    by (auto simp: role_held_def active_assignments_def find_None_iff)
  with None last show ?thesis
    unfolding list_role_assignments_def wp_rules
    by (simp add: wp_rules assigned_def lasting_def new_role_assignment_def add_role_assignment_def
        assignment_is_active_def)
qed

lemma effective_of_role:
  assumes "a \<in> set assignments" and "assignment_participant_id a = pid" and "assignment_is_active a t"
    and "grant_role_id g = Some (assignment_role_id a)"
  shows "g \<in> set (effective_grants pid t assignments grants) \<longleftrightarrow> g \<in> set grants \<and> grant_is_active g t"
  using assms by (auto simp: effective_grants_def active_assignments_def Let_def)

text \<open>The second half: the grants of the role that are not in force are added.\<close>

lemma ensured_after_grants:
  assumes u: "assigned s u pid tmpl sc" and last: "lasting s"
    and gs: "\<forall>g \<in> set gs. role_grant tmpl sc g" "grant_permission ` set gs = set (template_permissions tmpl)"
    and w: "auth_role_assignments w = auth_role_assignments u" "auth_participants w = auth_participants u"
      "auth_audit_events w = auth_audit_events u"
      "auth_permission_grants w = auth_permission_grants u @
         filter (\<lambda>g. \<not> has_matching_grant (grants_in_force u pid x) g) gs"
  shows "ensured s w pid tmpl sc"
proof -
  obtain a where a: "a \<in> set (auth_role_assignments u)" "assignment_participant_id a = pid"
    "assignment_role_id a = template_id tmpl" "assignment_scope a = sc" "\<And>t. assignment_is_active a t"
    using u by (auto simp: assigned_def)
  have last_u: "lasting u" using u by (simp add: assigned_def)
  have held: "\<exists>g \<in> set (auth_permission_grants w). grant_permission g = perm \<and> grant_scope g = sc \<and>
      grant_participant_id g = None \<and> grant_role_id g = Some (template_id tmpl) \<and> grant_is_active g t"
    if perm: "perm \<in> set (template_permissions tmpl)" for perm t
  proof -
    obtain g where g: "g \<in> set gs" "grant_permission g = perm" using gs(2) perm by (metis imageE)
    then have rg: "role_grant tmpl sc g" using gs(1) by blast
    show ?thesis
    proof (cases "has_matching_grant (grants_in_force u pid x) g")
      case False
      with g rg w(4) show ?thesis
        by (intro bexI [of _ g]) (auto simp: role_grant_def grant_is_active_def)
    next
      case True
      then obtain h where h: "h \<in> set (grants_in_force u pid x)" "grant_role_id h = grant_role_id g"
        "grant_participant_id h = grant_participant_id g" "grant_permission h = grant_permission g"
        "grant_scope h = grant_scope g" by (auto simp: has_matching_grant_def)
      then have "h \<in> set (auth_permission_grants u)" "grant_is_active h x"
        by (auto simp: effective_grants_def Let_def)
      then have "grant_is_active h t" using lasting_active(2) [OF last_u] by blast
      with h g rg w(4) \<open>h \<in> set (auth_permission_grants u)\<close> show ?thesis
        by (intro bexI [of _ h]) (auto simp: role_grant_def)
    qed
  qed
  have same: "auth_permission_grants w = auth_permission_grants s" if r: "role_held s t pid tmpl sc" for t
  proof -
    have "has_matching_grant (grants_in_force u pid x) g" if g: "g \<in> set gs" for g
    proof -
      have "grant_permission g \<in> set (template_permissions tmpl)" using g gs(2) by blast
      then obtain h where h: "h \<in> set (auth_permission_grants s)" "grant_permission h = grant_permission g"
        "grant_scope h = sc" "grant_participant_id h = None" "grant_role_id h = Some (template_id tmpl)"
        "grant_is_active h t" using r by (auto simp: role_held_def)
      then have "grant_is_active h x" using lasting_active(2) [OF last] by blast
      with h a u have "h \<in> set (grants_in_force u pid x)"
        by (subst effective_of_role [of a]) (auto simp: assigned_def)
      with h g gs(1) show ?thesis by (auto simp: has_matching_grant_def role_grant_def)
    qed
    then have "filter (\<lambda>g. \<not> has_matching_grant (grants_in_force u pid x) g) gs = []"
      by (simp add: filter_empty_conv)
    with w(4) u show ?thesis by (simp add: assigned_def)
  qed
  have "lasting w" using last_u gs(1) w by (auto simp: lasting_def role_grant_def)
  moreover have "role_held w t pid tmpl sc" for t using held a w(1) by (auto simp: role_held_def)
  moreover have "(\<exists>t. role_held s t pid tmpl sc) \<longrightarrow> auth_role_assignments w = auth_role_assignments s"
    using u w(1) by (simp add: assigned_def)
  moreover have "prefix (auth_permission_grants s) (auth_permission_grants w)"
    using u w(4) by (simp add: assigned_def)
  ultimately show ?thesis
    unfolding ensured_def using same u w(1-3) by (auto simp: assigned_def simp del: split_paired_Ex)
qed

lemma ensure_role_wp:
  assumes last: "lasting s" and tmpl: "get_role_template rn = Inr tmpl"
  shows "wp (ensure_builtin_role_assignment memory_repository pid rn sc assigned_by)
    (\<lambda>_ s'. ensured s s' pid tmpl sc) (\<lambda>_ _. False) s"
proof -
  let ?tail = "\<lambda>existing. bindM (list_permission_grants pid) (\<lambda>active_grants.
    bindM (permission_grants tmpl sc assigned_by None) (\<lambda>gs.
    bindM (forM gs (\<lambda>g. if \<not> has_matching_grant active_grants g
                         then add_permission_grant g else returnM ())) (\<lambda>_.
    returnM existing)))"
  have tail: "wp (?tail (y :: role_assignment)) (\<lambda>_ s'. ensured s s' pid tmpl sc) (\<lambda>_ _. False) u"
    if u: "assigned s u pid tmpl sc" for u y
  proof -
    let ?x = "clock_src u (clock_pos u)"
    have "wp (permission_grants tmpl sc assigned_by None)
      (\<lambda>gs. wp (forM gs (\<lambda>g. if \<not> has_matching_grant (grants_in_force u pid ?x) g
          then add_permission_grant g else returnM ()))
         (\<lambda>_ s'. ensured s s' pid tmpl sc) (\<lambda>_ _. False)) (\<lambda>_ _. False) (u\<lparr>clock_pos := Suc (clock_pos u)\<rparr>)"
    proof (rule wp_mono [OF wp_permission_grants], goal_cases)
      case (1 gs v)
      then have v: "advance u v" by (blast intro: advance_trans advance_now)
      show ?case
      proof (rule wp_mono [OF wp_add_grants], goal_cases)
        case (1 r w)
        then show ?case
          using \<open>_ \<and> _ \<and> _\<close> advance_auth [OF v]
          by (intro ensured_after_grants [OF u last, where gs = gs and x = ?x]) auto
      qed simp
    qed simp
    then show ?thesis unfolding list_permission_grants_def wp_rules by simp
  qed
  have "wp (bindM (list_role_assignments pid) (\<lambda>assignments.
      case find (\<lambda>a. assignment_role_id a = template_id tmpl \<and> assignment_scope a = sc) assignments of
        Some a \<Rightarrow> returnM a
      | None \<Rightarrow> bindM (new_role_assignment pid (template_id tmpl) sc assigned_by
                        [(''builtin_role'', JStr (role_name_value rn))]) (\<lambda>a.
          bindM (add_role_assignment a) (\<lambda>_. returnM a))))
    (\<lambda>y. wp (?tail y) (\<lambda>_ s'. ensured s s' pid tmpl sc) (\<lambda>_ _. False)) (\<lambda>_ _. False) s"
    by (rule wp_mono [OF wp_find_or_assign [OF last]]) (auto intro: tail)
  then show ?thesis
    unfolding ensure_builtin_role_assignment_def tmpl memory_repository_sel wp_bind wp_lift sum.case .
qed

end
