(* ===== verification/AuthProperties.thy ===== *)
theory AuthProperties
  imports RoleCatalog Samples
begin

text \<open>
  The properties of authorization and of the role catalog, over the in-memory repository.
\<close>

definition empty_auth :: "(nat \<Rightarrow> uuid) \<Rightarrow> (nat \<Rightarrow> datetime) \<Rightarrow> mem_auth" where
  "empty_auth us cs =
     \<lparr>uuid_src = us, uuid_pos = 0, clock_src = cs, clock_pos = 0,
      mem_patch_panels = [], mem_cards = [], mem_leases = [], mem_artifacts = [],
      mem_events = [], mem_idempotency = [], mem_entries = [],
      auth_participants = [], auth_role_assignments = [], auth_permission_grants = [],
      auth_audit_events = []\<rparr>"

text \<open>
  Property C12. Authorization decides exactly by the stored authority: it always returns a decision,
  which allows the request when, and only when, the participant exists and is active and holds an
  unrevoked, unexpired grant of that permission whose scope covers the target, given to it directly
  or to a role it actively holds. Each decision leaves one audit event that tells its outcome.
\<close>

theorem authorize_exact:
  "\<exists>d s' e. authorize memory_repository pid perm sc ctx s = (Inr d, s') \<and>
     decision_allowed d = may s (next_reading s) pid perm sc ctx \<and>
     decision_participant_id d = pid \<and> decision_permission d = perm \<and> decision_scope d = sc \<and>
     auth_audit_events s' = auth_audit_events s @ [e] \<and>
     audit_action e = (if may s (next_reading s) pid perm sc ctx then AUTHORIZATION_ALLOWED else AUTHORIZATION_DENIED) \<and>
     audit_participant_id e = Some pid \<and> audit_permission e = Some perm \<and> audit_scope e = Some sc \<and>
     dict_get (auth_participants s') = dict_get (auth_participants s)"
proof -
  obtain d s' where run: "authorize memory_repository pid perm sc ctx s = (Inr d, s')"
    and "mem_repo.decided s s' pid perm sc (mem_repo.permitted s pid perm sc ctx) d"
    using mem_repo.authorize_decides [of pid perm sc ctx s] by (auto simp: wp_def split: prod.splits sum.splits)
  then show ?thesis
    unfolding permitted_may mem_repo.decided_def decision_audit_action_def
    by (elim conjE exE) (intro exI conjI, rule run, simp_all)
qed

text \<open>
  Property C13. The request guard: with authorization enabled, a request passes only for a named
  participant that may do it, and returns that participant; otherwise it is refused with status 403.
  The header takes precedence over the participant of the call. With authorization disabled every
  request passes.
\<close>

theorem request_guard:
  "\<exists>s' reason. authorize_request memory_repository enabled header perm sc ctx participant s =
     (if \<not> enabled then (Inr participant, s)
      else if \<not> truthy (or_else header participant)
      then (Inl (HTTPException 403 ''missing Ghost Mesh participant''), s)
      else if may s (next_reading s) (the (or_else header participant)) perm sc
        (Some (case ctx of None \<Rightarrow> [] | Some d \<Rightarrow> d))
      then (Inr (or_else header participant), s')
      else (Inl (HTTPException 403 reason), s'))"
proof -
  let ?c = "Some (case ctx of None \<Rightarrow> [] | Some d \<Rightarrow> d)"
  let ?p = "the (or_else header participant)"
  have "wp (authorize memory_repository ?p perm sc ?c)
    (\<lambda>d s'. decision_allowed d = may s (next_reading s) ?p perm sc ?c) (\<lambda>_ _. False) s"
    by (rule wp_mono [OF mem_repo.authorize_decides]) (auto simp: mem_repo.decided_def permitted_may)
  then obtain d t where "authorize memory_repository ?p perm sc ?c s = (Inr d, t)"
    "decision_allowed d = may s (next_reading s) ?p perm sc ?c"
    by (auto simp: wp_def split: prod.splits sum.splits)
  then show ?thesis by (intro exI [of _ t] exI [of _ "decision_reason d"]) (simp add: authorize_request_def run_defs Let_def)
qed

lemma admin_template:
  "\<exists>t. get_role_template ADMIN = Inr t \<and> template_permissions t = all_permissions"
  by (simp add: get_role_template_def built_in_role_templates_def role_template_of_def)

lemma seed_root_wp:
  assumes "lasting s" and "get_role_template ADMIN = Inr tmpl"
  shows "wp (seed_root_operator memory_repository root)
    (\<lambda>_ s'. \<exists>u. ensured u s' root tmpl global_scope \<and> lasting u \<and>
       auth_role_assignments u = auth_role_assignments s \<and>
       auth_permission_grants u = auth_permission_grants s \<and>
       (\<exists>p. dict_get (auth_participants u) root = Some p \<and> participant_status p = ACTIVE)) (\<lambda>_ _. False) s"
  unfolding seed_root_operator_def new_participant_def memory_repository_sel upsert_participant_def wp_rules
  by (simp, rule wp_mono [OF ensure_role_wp [OF _ assms(2)]])
     (use assms(1) in \<open>auto simp: lasting_def\<close>)

text \<open>
  Property C14. Seeding the root operator gives it every permission in every scope, at every time,
  and is idempotent: seeding again adds neither an assignment nor a grant. The stored authority must
  not carry expiry dates.
\<close>

theorem root_operator_seeded:
  assumes "lasting s" and "seed_root_operator memory_repository root s = (r, s1)"
    and "seed_root_operator memory_repository root s1 = (r2, s2)"
  shows "r = Inr () \<and> may s1 t root perm sc ctx \<and> r2 = Inr () \<and>
    auth_role_assignments s2 = auth_role_assignments s1 \<and>
    auth_permission_grants s2 = auth_permission_grants s1"
proof -
  obtain tmpl where tmpl: "get_role_template ADMIN = Inr tmpl" "template_permissions tmpl = all_permissions"
    using admin_template by blast
  from seed_root_wp [OF assms(1) tmpl(1), of root] assms(2) obtain u p where r: "r = Inr ()"
    and u: "ensured u s1 root tmpl global_scope"
    and p: "dict_get (auth_participants u) root = Some p" "participant_status p = ACTIVE"
    by (auto simp: wp_def split: sum.splits)
  have held: "role_held s1 x root tmpl global_scope" for x using u by (simp add: ensured_def)
  have "may s1 t root perm sc ctx"
    by (rule role_held_may [OF held])
       (use p u in \<open>auto simp: ensured_def tmpl all_permissions_complete scope_matches_def global_scope_def\<close>)
  moreover have "lasting s1" using u by (simp add: ensured_def)
  from seed_root_wp [OF this tmpl(1), of root] assms(3) obtain v where r2: "r2 = Inr ()"
    and v: "ensured v s2 root tmpl global_scope" "auth_role_assignments v = auth_role_assignments s1"
      "auth_permission_grants v = auth_permission_grants s1"
    by (auto simp: wp_def split: sum.splits)
  moreover have "role_held v x root tmpl global_scope" for x
    using held v(2,3) by (simp add: role_held_def)
  then have "auth_role_assignments s2 = auth_role_assignments v" "auth_permission_grants s2 = auth_permission_grants v"
    using v(1) by (auto simp: ensured_def)
  ultimately show ?thesis using r by simp
qed

theorem root_operator_seeded_witness:
  "may (snd (seed_root_operator memory_repository ''root'' (empty_auth sample_ids sample_clock)))
     0 ''root'' MUTATION_PROMOTE \<lparr>scope_type = WORKFLOW, scope_id = Some ''w''\<rparr> None"
proof -
  have "lasting (empty_auth sample_ids sample_clock)" by (simp add: lasting_def empty_auth_def)
  from root_operator_seeded [OF this surjective_pairing surjective_pairing] show ?thesis by blast
qed

definition roles_with :: "permission_name \<Rightarrow> role_name set" where
  "roles_with perm = {rn. \<exists>t. get_role_template rn = Inr t \<and> perm \<in> set (template_permissions t)}"

text \<open>
  Separation of duties in the built-in roles: promotion and publishing belong to
  owners, approvers and administrators; granting permissions to owners and administrators; managing
  participants to administrators alone; the observer can only look.
\<close>

theorem separation_of_duties:
  "roles_with MUTATION_PROMOTE = {WORKFLOW_OWNER, REVIEWER_APPROVER, ADMIN} \<and>
   roles_with PATCH_PANEL_PUBLISH_VERSION = {WORKFLOW_OWNER, REVIEWER_APPROVER, ADMIN} \<and>
   roles_with PERMISSION_GRANT = {WORKFLOW_OWNER, ADMIN} \<and>
   roles_with PARTICIPANT_MANAGE = {ADMIN} \<and>
   {perm. OBSERVER \<in> roles_with perm} = {CARD_VIEW, PATCH_PANEL_DISCOVER, AUDIT_VIEW}"
proof -
  have mem: "rn \<in> roles_with perm \<longleftrightarrow> (case get_role_template rn of Inr t \<Rightarrow> perm \<in> set (template_permissions t)
      | Inl _ \<Rightarrow> False)" for rn perm
    by (auto simp: roles_with_def split: sum.splits)
  note defs = mem get_role_template_def built_in_role_templates_def role_template_of_def all_permissions_def
  have "roles_with MUTATION_PROMOTE = {WORKFLOW_OWNER, REVIEWER_APPROVER, ADMIN}"
    by (rule set_eqI, case_tac x) (simp_all add: defs)
  moreover have "roles_with PATCH_PANEL_PUBLISH_VERSION = {WORKFLOW_OWNER, REVIEWER_APPROVER, ADMIN}"
    by (rule set_eqI, case_tac x) (simp_all add: defs)
  moreover have "roles_with PERMISSION_GRANT = {WORKFLOW_OWNER, ADMIN}"
    by (rule set_eqI, case_tac x) (simp_all add: defs)
  moreover have "roles_with PARTICIPANT_MANAGE = {ADMIN}"
    by (rule set_eqI, case_tac x) (simp_all add: defs)
  moreover have "{perm. OBSERVER \<in> roles_with perm} = {CARD_VIEW, PATCH_PANEL_DISCOVER, AUDIT_VIEW}"
    by (rule set_eqI, case_tac x) (simp_all add: defs)
  ultimately show ?thesis by blast
qed

lemma assign_role_wp:
  assumes "get_role_template rn = Inr tmpl"
  shows "wp (assign_role_to_participant memory_repository pid rn sc assigned_by)
    (\<lambda>a s'. auth_role_assignments s' = auth_role_assignments s @ [a] \<and> assignment_participant_id a = pid \<and>
       assignment_role_id a = template_id tmpl \<and> assignment_scope a = sc \<and> (\<forall>t. assignment_is_active a t) \<and>
       auth_participants s' = auth_participants s \<and>
       (\<exists>gs. auth_permission_grants s' = auth_permission_grants s @ gs \<and> (\<forall>g \<in> set gs. role_grant tmpl sc g) \<and>
          grant_permission ` set gs = set (template_permissions tmpl))) (\<lambda>_ _. False) s"
proof -
  have add: "wp (forM gs add_permission_grant)
      (\<lambda>_ u'. u' = u\<lparr>auth_permission_grants := auth_permission_grants u @ gs\<rparr>) (\<lambda>_ _. False) u"
    for gs and u :: "'a mem_auth_scheme"
    using wp_add_grants [of gs "\<lambda>_. False" u] by simp
  show ?thesis
    unfolding assign_role_to_participant_def assms memory_repository_sel new_role_assignment_def
      add_role_assignment_def wp_rules sum.case
  proof (rule wp_mono [OF wp_permission_grants], goal_cases)
    case (1 gs v)
    show ?case
      by (rule wp_mono [OF add])
         (use 1(2) advance_auth [OF conjunct1 [OF 1(2)]] in \<open>auto simp: assignment_is_active_def\<close>)
  qed simp
qed

text \<open>
  Role grants are not confined to the scope of the assignment: after a role is
  assigned to one participant in scope \<open>a\<close> and to another in scope \<open>b\<close>, the second may use the
  permissions of the role wherever \<open>a\<close> reaches, because the grants belong to the role and not to the
  assignment.
\<close>

theorem role_grants_cross_scopes:
  assumes "get_role_template rn = Inr tmpl" and "perm \<in> set (template_permissions tmpl)"
    and "scope_matches a target ctx"
    and "dict_get (auth_participants s) p2 = Some p" and "participant_status p = ACTIVE"
  shows "may (snd (assign_role_to_participant memory_repository p2 rn b by2
      (snd (assign_role_to_participant memory_repository p1 rn a by1 s)))) t p2 perm target ctx"
proof -
  let ?s1 = "snd (assign_role_to_participant memory_repository p1 rn a by1 s)"
  let ?s2 = "snd (assign_role_to_participant memory_repository p2 rn b by2 ?s1)"
  obtain gs where gs: "auth_permission_grants ?s1 = auth_permission_grants s @ gs"
    "\<forall>g \<in> set gs. role_grant tmpl a g" "grant_permission ` set gs = set (template_permissions tmpl)"
    and part: "auth_participants ?s1 = auth_participants s"
    using assign_role_wp [OF assms(1), of p1 a by1 s] by (auto simp: wp_def split: prod.splits sum.splits)
  obtain x hs where x: "auth_role_assignments ?s2 = auth_role_assignments ?s1 @ [x]"
    "assignment_participant_id x = p2" "assignment_role_id x = template_id tmpl" "\<forall>t. assignment_is_active x t"
    and hs: "auth_permission_grants ?s2 = auth_permission_grants ?s1 @ hs"
    and part2: "auth_participants ?s2 = auth_participants ?s1"
    using assign_role_wp [OF assms(1), of p2 b by2 ?s1] by (auto simp: wp_def split: prod.splits sum.splits)
  obtain g where "g \<in> set gs" "grant_permission g = perm" using gs(3) assms(2) by (metis imageE)
  with gs hs x assms(3-5) part part2 show ?thesis
    unfolding may_def by (auto simp: role_grant_def grant_is_active_def intro!: bexI [of _ g])
qed

definition sample_people :: mem_auth where
  "sample_people = (empty_auth sample_ids sample_clock)\<lparr>auth_participants :=
     [(''bob'', \<lparr>participant_id = ''bob'', participant_type = HUMAN, participant_display_name = None,
        participant_status = ACTIVE, participant_trust_level = None, participant_auth_method = None,
        participant_metadata = [], participant_created_at = 0, participant_archived_at = None\<rparr>)]\<rparr>"

theorem role_grants_cross_scopes_witness:
  "may (snd (assign_role_to_participant memory_repository ''bob'' ADMIN
       \<lparr>scope_type = PATCH_PANEL, scope_id = Some ''p1''\<rparr> None
      (snd (assign_role_to_participant memory_repository ''root'' ADMIN global_scope None sample_people))))
     0 ''bob'' PERMISSION_GRANT \<lparr>scope_type = PATCH_PANEL, scope_id = Some ''p2''\<rparr> None"
proof -
  obtain tmpl where tmpl: "get_role_template ADMIN = Inr tmpl" "template_permissions tmpl = all_permissions"
    using admin_template by blast
  then have "PERMISSION_GRANT \<in> set (template_permissions tmpl)" by (simp add: all_permissions_complete)
  then show ?thesis
    by (rule role_grants_cross_scopes [OF tmpl(1)])
       (simp add: scope_matches_def global_scope_def sample_people_def)+
qed

end
