(* ===== verification/Executor.thy ===== *)
theory Executor
  imports RoleCatalog
begin

text \<open>
  Node execution: \<^verbatim>\<open>src/src/ghostmesh/nodes/executor.py\<close>, class \<^verbatim>\<open>NodeExecutor\<close>. An executor is the
  record of the four collaborators it is built with: a panel, a runtime, an optional registry and an
  optional authorization repository, all given by their protocols. What pydantic's
  \<^verbatim>\<open>model_validate\<close> does with a payload is a parameter, the record \<open>decoders\<close>: a decoder returns the
  object or raises; decoding a participant may read the clock for its creation time.
\<close>

section \<open>Requests and collaborators\<close>

record worker_execution_input =
  wi_input_pipe :: string
  wi_output_pipe :: string
  wi_worker_id :: string
  wi_artifact_refs :: "artifact_reference list"
  wi_lease_seconds :: int
  wi_idempotency_key :: "string option"

record validator_execution_input =
  vi_card_id :: uuid
  vi_validator_id :: string
  vi_selected_exit :: "string option"
  vi_accepted :: "bool option"
  vi_score :: "int option"
  vi_reason :: "string option"
  vi_payload :: jdict
  vi_idempotency_key :: "string option"

record onboarding_role_assignment =
  onboard_role_name :: role_name
  onboard_scope :: scope
  onboard_assigned_by :: "string option"

record participant_onboarding =
  onboard_participant :: participant
  onboard_role_assignments :: "onboarding_role_assignment list"

record sink_result =
  sink_event :: card_event
  sink_external_reference :: "string option"

record 's decoders =
  decode_patch_panel :: "json option \<Rightarrow> patch_panel res"
  decode_registry_metadata :: "json option \<Rightarrow> registry_metadata res"
  decode_onboarding :: "jdict \<Rightarrow> ('s, participant_onboarding) M"

record 's node_executor =
  ex_patch_panel :: patch_panel
  ex_runtime :: "'s card_runtime"
  ex_registry :: "'s patch_panel_registry option"
  ex_authorization_repository :: "'s auth_repository option"

section \<open>Helpers\<close>

definition find_node :: "patch_panel \<Rightarrow> string \<Rightarrow> node_type \<Rightarrow> node_definition res" where
  "find_node p nid expected =
     (case find (\<lambda>n. node_id n = nid) (panel_nodes p) of
        None \<Rightarrow> Inl (NotFoundError (''node '' @ quoted nid @ '' does not exist''))
      | Some n \<Rightarrow>
          if node_type n \<noteq> expected
          then Inl (InvalidOperationError (''node '' @ quoted nid @ '' is ''
                 @ quoted (node_type_value (node_type n)) @ '', not '' @ quoted (node_type_value expected)))
          else Inr n)"

definition node_for_pipe :: "patch_panel \<Rightarrow> string \<Rightarrow> node_type \<Rightarrow> node_definition res" where
  "node_for_pipe p pipe expected =
     (case dict_get (panel_pipe_bindings p) pipe of
        None \<Rightarrow> Inl (NotFoundError (''pipe '' @ quoted pipe @ '' is not bound to a node''))
      | Some b \<Rightarrow>
          (case binding_node b of
             None \<Rightarrow> Inl (NotFoundError (''pipe '' @ quoted pipe @ '' is not bound to a node''))
           | Some n \<Rightarrow> find_node p n expected))"

definition ensure_validator_exit :: "patch_panel \<Rightarrow> node_definition \<Rightarrow> string \<Rightarrow> unit res" where
  "ensure_validator_exit p n exit_pipe =
     (if exit_pipe \<notin> set (node_output_pipes n)
      then Inl (InvalidOperationError (''exit pipe '' @ quoted exit_pipe
             @ '' is not declared by validator '' @ quoted (node_id n)))
      else (case dict_get (panel_pipe_bindings p) exit_pipe of
          None \<Rightarrow> Inl (InvalidOperationError (''selected exit pipe '' @ quoted exit_pipe
                   @ '' is missing a Patch Panel binding''))
        | Some b \<Rightarrow>
            if binding_node b \<noteq> Some (node_id n) \<or> binding_direction b \<noteq> Some Output
            then Inl (InvalidOperationError (''selected exit pipe '' @ quoted exit_pipe
                   @ '' is not an output binding for validator '' @ quoted (node_id n)))
            else Inr ()))"

definition requires_selected_exit :: "node_definition \<Rightarrow> bool" where
  "requires_selected_exit n \<longleftrightarrow> node_validator_kind n = Some ''routing'' \<or> length (node_output_pipes n) > 1"

definition validator_accepted :: "node_definition \<Rightarrow> validator_execution_input \<Rightarrow> bool res" where
  "validator_accepted n req =
     (case vi_accepted req of
        Some b \<Rightarrow> Inr b
      | None \<Rightarrow>
          (case vi_selected_exit req of
             None \<Rightarrow> Inl (InvalidOperationError (''validator '' @ quoted (node_id n)
                      @ '' requires either accepted or selected_exit''))
           | Some x \<Rightarrow>
               (case dict_get (node_config n) ''accept_exits'' of
                  Some (JList exits) \<Rightarrow> Inr (JStr x \<in> set exits)
                | _ \<Rightarrow> Inl (InvalidOperationError (''routing validator '' @ quoted (node_id n)
                      @ '' requires config.accept_exits when accepted is not provided'')))))"

definition configured_exit :: "node_definition \<Rightarrow> string \<Rightarrow> string res" where
  "configured_exit n key =
     (case dict_get (node_config n) key of
        Some (JStr v) \<Rightarrow> Inr v
      | _ \<Rightarrow> Inl (InvalidOperationError (''validator '' @ quoted (node_id n) @ '' requires config.'' @ key)))"

definition candidate_id :: "jdict \<Rightarrow> json" where
  "candidate_id payload =
     (case dict_get payload ''candidate_definition'' of
        Some (JDict d) \<Rightarrow> (case dict_get d ''id'' of
            None \<Rightarrow> JNull | Some JNull \<Rightarrow> JNull | Some v \<Rightarrow> JStr (py_str v))
      | _ \<Rightarrow> JNull)"

text \<open>\<^verbatim>\<open>str(exc)\<close> of the exceptions the handlers catch.\<close>

fun error_text :: "error \<Rightarrow> string" where
  "error_text (NotFoundError m) = m"
| "error_text (ConflictError m) = m"
| "error_text (InvalidOperationError m) = m"
| "error_text (PatchPanelValidationError es) = join [CHR 0x0A] es"
| "error_text (PatchPanelLoadError m) = m"
| "error_text (ValueError m) = m"
| "error_text (TypeError m) = m"
| "error_text (KeyError m) = m"
| "error_text (IndexError m) = m"
| "error_text (OverflowError m) = m"
| "error_text (PermissionError m) = m"
| "error_text (LookupError m) = m"
| "error_text (RuntimeError m) = m"
| "error_text (HTTPException _ m) = m"

definition validation_errors :: "error \<Rightarrow> json" where
  "validation_errors e =
     (case e of PatchPanelValidationError es \<Rightarrow> JList (map JStr es) | _ \<Rightarrow> JList [JStr (error_text e)])"

definition egress_contract_type :: "node_definition \<Rightarrow> string option" where
  "egress_contract_type n =
     (case dict_get (node_config n) ''egress_contract'' of
        Some (JDict d) \<Rightarrow> (case dict_get d ''type'' of
            None \<Rightarrow> None | Some JNull \<Rightarrow> None | Some v \<Rightarrow> Some (py_str v))
      | _ \<Rightarrow> None)"

definition json_get :: "jdict \<Rightarrow> string \<Rightarrow> json" where
  "json_get d key = (case dict_get d key of None \<Rightarrow> JNull | Some v \<Rightarrow> v)"

text \<open>\<^verbatim>\<open>f"{key}:suffix" if key else None\<close>.\<close>

definition derived_key :: "string option \<Rightarrow> string \<Rightarrow> string option" where
  "derived_key key tag = (if truthy key then Some (the key @ '':'' @ tag) else None)"

section \<open>Sources and workers\<close>

definition execute_source ::
  "'s node_executor \<Rightarrow> string \<Rightarrow> jdict \<Rightarrow> jdict option \<Rightarrow> string option \<Rightarrow> ('s, card) M" where
  "execute_source ex source_id payload metadata key =
     bindM (liftM (find_node (ex_patch_panel ex) source_id SOURCE)) (\<lambda>n.
     bindM (rt_create_card (ex_runtime ex) (panel_id (ex_patch_panel ex)) payload
              (Some (case metadata of None \<Rightarrow> [] | Some m \<Rightarrow> m)) key) (\<lambda>c.
     bindM (rt_record_event (ex_runtime ex) (card_id c) ''source_executed'' (Some (node_id n))
              (Some [(''source_id'', JStr (node_id n))]) (derived_key key ''source'')) (\<lambda>_.
     returnM c)))"

definition execute_worker ::
  "'s node_executor \<Rightarrow> worker_execution_input \<Rightarrow> ('s, artifact_reference list) M" where
  "execute_worker ex req =
     bindM (liftM (node_for_pipe (ex_patch_panel ex) (wi_input_pipe req) WORKER)) (\<lambda>n.
     bindM (rt_claim_card (ex_runtime ex) (wi_input_pipe req) (wi_worker_id req) (wi_lease_seconds req)
              (derived_key (wi_idempotency_key req) ''claim'')) (\<lambda>l.
     bindM (rt_submit_artifact (ex_runtime ex) (lease_id l) (wi_output_pipe req) (wi_artifact_refs req)
              (derived_key (wi_idempotency_key req) ''submit'')) (\<lambda>refs.
     if refs = [] then raiseM (InvalidOperationError ''worker execution produced no artifact references'')
     else
       bindM (rt_card_history (ex_runtime ex) (lease_card_id l)) (\<lambda>events.
       if events = [] then raiseM (IndexError ''list index out of range'')
       else (case dict_get (panel_pipe_bindings (ex_patch_panel ex)) (wi_output_pipe req) of
           None \<Rightarrow> raiseM (KeyError (wi_output_pipe req))
         | Some b \<Rightarrow>
             if binding_node b \<noteq> Some (node_id n)
             then raiseM (InvalidOperationError (''worker pipe '' @ quoted (wi_input_pipe req)
                    @ '' resolved to '' @ quoted (node_id n) @ '' but output pipe was bound to ''
                    @ quoted (case binding_node b of None \<Rightarrow> ''None'' | Some m \<Rightarrow> m)))
             else if event_type (last events) \<noteq> ''artifact_submitted''
             then raiseM (InvalidOperationError ''worker execution did not submit artifacts'')
             else returnM refs)))))"

section \<open>Validators\<close>

definition topology_validation_request ::
  "'g networkx \<Rightarrow> 's decoders \<Rightarrow> 's node_executor \<Rightarrow> node_definition \<Rightarrow> validator_execution_input \<Rightarrow>
     ('s, validator_execution_input) M" where
  "topology_validation_request nx dec ex n req =
     (if vi_accepted req \<noteq> None \<or> vi_selected_exit req \<noteq> None then returnM req
      else
        bindM (rt_get_card (ex_runtime ex) (vi_card_id req)) (\<lambda>c.
        bindM (liftM (configured_exit n ''valid_exit'')) (\<lambda>valid_exit.
        bindM (liftM (configured_exit n ''invalid_exit'')) (\<lambda>invalid_exit.
        let outcome = (case decode_patch_panel dec (dict_get (card_payload c) ''candidate_definition'') of
            Inl e \<Rightarrow> Inl e
          | Inr candidate \<Rightarrow> (case validate nx candidate of Inl e \<Rightarrow> Inl e | Inr r \<Rightarrow> Inr (candidate, r)))
        in (case outcome of
             Inl e \<Rightarrow>
               if \<not> is_value_error e then raiseM e
               else returnM (req\<lparr>vi_accepted := Some False, vi_selected_exit := Some invalid_exit,
                 vi_reason := Some (error_text e),
                 vi_payload := dict_update (vi_payload req)
                   [(''validation_handler'', JStr ''patch_panel_topology''),
                    (''candidate_patch_panel_id'', candidate_id (card_payload c)),
                    (''errors'', validation_errors e)]\<rparr>)
           | Inr (candidate, r) \<Rightarrow>
               returnM (req\<lparr>vi_accepted := Some True, vi_selected_exit := Some valid_exit,
                 vi_reason := or_else (vi_reason req) (Some ''Patch Panel topology validation passed''),
                 vi_payload := dict_update (vi_payload req)
                   [(''validation_handler'', JStr ''patch_panel_topology''),
                    (''candidate_patch_panel_id'', JStr (panel_id candidate)),
                    (''node_count'', JInt (int (report_node_count r))),
                    (''edge_count'', JInt (int (report_edge_count r))),
                    (''cycles'', JList (map (\<lambda>c. JList (map JStr c)) (report_cycles r)))]\<rparr>))))))"

definition participant_onboarding_request ::
  "'s decoders \<Rightarrow> 's node_executor \<Rightarrow> node_definition \<Rightarrow> validator_execution_input \<Rightarrow>
     ('s, validator_execution_input) M" where
  "participant_onboarding_request dec ex n req =
     (if vi_accepted req \<noteq> None \<or> vi_selected_exit req \<noteq> None then returnM req
      else
        bindM (rt_get_card (ex_runtime ex) (vi_card_id req)) (\<lambda>c.
        bindM (liftM (configured_exit n ''valid_exit'')) (\<lambda>valid_exit.
        bindM (liftM (configured_exit n ''invalid_exit'')) (\<lambda>invalid_exit.
        (\<lambda>s. case decode_onboarding dec (card_payload c) s of
            (Inl e, s') \<Rightarrow>
              if \<not> is_value_error e then (Inl e, s')
              else (Inr (req\<lparr>vi_accepted := Some False, vi_selected_exit := Some invalid_exit,
                 vi_reason := Some (error_text e),
                 vi_payload := dict_update (vi_payload req)
                   [(''validation_handler'', JStr ''participant_onboarding_compliance''),
                    (''errors'', JList [JStr (error_text e)])]\<rparr>), s')
          | (Inr payload, s') \<Rightarrow>
              (Inr (req\<lparr>vi_accepted := Some True, vi_selected_exit := Some valid_exit,
                 vi_reason := or_else (vi_reason req) (Some ''Participant onboarding payload is compliant''),
                 vi_payload := dict_update (vi_payload req)
                   [(''validation_handler'', JStr ''participant_onboarding_compliance''),
                    (''participant_id'', JStr (participant_id (onboard_participant payload))),
                    (''role_assignment_count'',
                       JInt (int (length (onboard_role_assignments payload))))]\<rparr>), s'))))))"

definition execute_validator ::
  "'g networkx \<Rightarrow> 's decoders \<Rightarrow> 's node_executor \<Rightarrow> validator_execution_input \<Rightarrow> ('s, card_event) M" where
  "execute_validator nx dec ex req0 =
     bindM (liftM (find_node (ex_patch_panel ex) (vi_validator_id req0) VALIDATOR)) (\<lambda>n.
     bindM (if dict_get (node_config n) ''validation_handler'' = Some (JStr ''patch_panel_topology'')
            then topology_validation_request nx dec ex n req0 else returnM req0) (\<lambda>req1.
     bindM (if dict_get (node_config n) ''validation_handler'' = Some (JStr ''participant_onboarding_compliance'')
            then participant_onboarding_request dec ex n req1 else returnM req1) (\<lambda>req.
     if vi_selected_exit req = None \<and> requires_selected_exit n
     then raiseM (InvalidOperationError (''routing validator '' @ quoted (node_id n) @ '' requires selected_exit''))
     else
       bindM (case vi_selected_exit req of
                None \<Rightarrow> returnM ()
              | Some x \<Rightarrow> liftM (ensure_validator_exit (ex_patch_panel ex) n x)) (\<lambda>_.
       bindM (liftM (validator_accepted n req)) (\<lambda>accepted.
       rt_validate_card (ex_runtime ex) (vi_card_id req) (node_id n) accepted (vi_reason req)
         (vi_selected_exit req) (Some (vi_payload req)) (vi_idempotency_key req))))))"

section \<open>Sinks\<close>

definition ensure_card_at_sink :: "patch_panel \<Rightarrow> node_definition \<Rightarrow> card \<Rightarrow> unit res" where
  "ensure_card_at_sink p n c =
     (let input_buckets = concat (map (\<lambda>pipe. case dict_get (panel_pipe_bindings p) pipe of
            None \<Rightarrow> [] | Some b \<Rightarrow> [binding_bucket b]) (node_input_pipes n))
      in if input_buckets \<noteq> [] \<and> card_current_bucket c \<notin> set input_buckets
         then Inl (ConflictError (''card '' @ quoted (uuid_str (card_id c)) @ '' is in bucket ''
                @ quoted (card_current_bucket c) @ '', not sink input bucket(s): '' @ join_sorted input_buckets))
         else Inr ())"

text \<open>An event of the history that records a decision of a validator through an exit.\<close>

definition approval :: "string \<Rightarrow> string \<Rightarrow> card_event \<Rightarrow> bool" where
  "approval validator exit_pipe e \<longleftrightarrow> event_type e = ''card_validated'' \<and>
     event_actor_id e = Some validator \<and> dict_get (event_payload e) ''accepted'' = Some (JBool True) \<and>
     dict_get (event_payload e) ''output_pipe'' = Some (JStr exit_pipe)"

definition ensure_registry_publication_history :: "'s card_runtime \<Rightarrow> card \<Rightarrow> ('s, unit) M" where
  "ensure_registry_publication_history rt c =
     bindM (rt_card_history rt (card_id c)) (\<lambda>events.
     if \<not> list_ex (approval ''topological_validator'' ''topology_valid'') events \<or>
        \<not> list_ex (approval ''governance_reviewer'' ''proposal_approved'') events
     then raiseM (ConflictError
       ''registry publication requires topology validation and governance approval history'')
     else returnM ())"

definition ensure_authority_provisioning_history :: "'s card_runtime \<Rightarrow> card \<Rightarrow> ('s, unit) M" where
  "ensure_authority_provisioning_history rt c =
     bindM (rt_card_history rt (card_id c)) (\<lambda>events.
     if \<not> list_ex (approval ''registration_compliance_validator'' ''registration_compliant'') events \<or>
        \<not> list_ex (approval ''registration_admin_reviewer'' ''registration_approved'') events
     then raiseM (ConflictError
       ''authority provisioning requires compliance validation and admin approval history'')
     else returnM ())"

definition execute_authority_provisioning_sink ::
  "'z world_scheme decoders \<Rightarrow> 'z world_scheme node_executor \<Rightarrow> card \<Rightarrow> string option \<Rightarrow>
     ('z world_scheme, string option) M" where
  "execute_authority_provisioning_sink dec ex c external_reference =
     (case ex_authorization_repository ex of
        None \<Rightarrow> raiseM (InvalidOperationError ''Authorization repository unavailable for system provisioning'')
      | Some repo \<Rightarrow>
          bindM (ensure_authority_provisioning_history (ex_runtime ex) c) (\<lambda>_.
          bindM (decode_onboarding dec (card_payload c)) (\<lambda>payload.
          bindM (repo_upsert_participant repo (onboard_participant payload)) (\<lambda>_.
          bindM (forM (onboard_role_assignments payload) (\<lambda>a.
                   ensure_builtin_role_assignment repo (participant_id (onboard_participant payload))
                     (onboard_role_name a) (onboard_scope a) (onboard_assigned_by a))) (\<lambda>_.
          returnM (or_else external_reference (Some (participant_id (onboard_participant payload)))))))))"

definition publish_candidate ::
  "'z world_scheme card_runtime \<Rightarrow> 'z world_scheme patch_panel_registry \<Rightarrow> node_definition \<Rightarrow> card \<Rightarrow>
     patch_panel \<Rightarrow> registry_metadata \<Rightarrow> ('z world_scheme, registry_entry) M" where
  "publish_candidate rt reg n c candidate published =
     bindM (rt_register_patch_panel rt candidate) (\<lambda>_.
     bindM (reg_search reg (default_search\<lparr>search_include_archived := True, search_include_superseded := True\<rparr>)) (\<lambda>es.
     case find (\<lambda>e. entry_patch_panel_id e = panel_id candidate \<and> entry_version e = panel_version candidate) es of
       Some e \<Rightarrow> returnM e
     | None \<Rightarrow>
         bindM (from_patch_panel candidate published None
                  (Some [(''proposal_card_id'', JStr (uuid_str (card_id c))),
                         (''published_by_sink'', JStr (node_id n)),
                         (''genesis_intent_id'', json_get (card_payload c) ''genesis_intent_id'')])) (\<lambda>e.
         reg_register reg e)))"

definition execute_configured_sink ::
  "'z world_scheme decoders \<Rightarrow> 'z world_scheme node_executor \<Rightarrow> node_definition \<Rightarrow> card \<Rightarrow> string option \<Rightarrow>
     ('z world_scheme, string option) M" where
  "execute_configured_sink dec ex n c external_reference =
     (if node_id n = ''authority_provisioner_sink''
      then execute_authority_provisioning_sink dec ex c external_reference
      else if \<not> (case dict_get (node_config n) ''egress_contract'' of
            Some (JDict d) \<Rightarrow> dict_get d ''type'' = Some (JStr ''registry_publication'') | _ \<Rightarrow> False)
      then returnM external_reference
      else (case ex_registry ex of
          None \<Rightarrow> raiseM (InvalidOperationError ''registry publication sink requires a registry'')
        | Some reg \<Rightarrow>
            bindM (ensure_registry_publication_history (ex_runtime ex) c) (\<lambda>_.
            bindM (liftM (decode_patch_panel dec (dict_get (card_payload c) ''candidate_definition''))) (\<lambda>candidate.
            bindM (liftM (decode_registry_metadata dec (dict_get (card_payload c) ''registry_metadata''))) (\<lambda>metadata.
            bindM (publish_candidate (ex_runtime ex) reg n c candidate (metadata\<lparr>meta_status := PUBLISHED\<rparr>)) (\<lambda>e.
            returnM (or_else external_reference (Some (uuid_str (entry_id e))))))))))"

definition execute_sink ::
  "'z world_scheme decoders \<Rightarrow> 'z world_scheme node_executor \<Rightarrow> uuid \<Rightarrow> string \<Rightarrow> string option \<Rightarrow>
     string option \<Rightarrow> ('z world_scheme, sink_result) M" where
  "execute_sink dec ex cid sink_id external_reference key =
     bindM (liftM (find_node (ex_patch_panel ex) sink_id SINK)) (\<lambda>n.
     bindM (rt_get_card (ex_runtime ex) cid) (\<lambda>c.
     if json_true (json_get (card_metadata c) ''shadow'') \<and>
        \<not> json_true (json_get (node_config n) ''allow_shadow_egress'')
     then raiseM (InvalidOperationError ''shadow cards cannot execute production sinks'')
     else
       bindM (liftM (ensure_card_at_sink (ex_patch_panel ex) n c)) (\<lambda>_.
       bindM (execute_configured_sink dec ex n c external_reference) (\<lambda>reference.
       bindM (rt_record_event (ex_runtime ex) cid ''sink_executed'' (Some (node_id n))
                (Some [(''sink_id'', JStr (node_id n)), (''external_reference'', opt_json reference),
                   (''registry_entry_id'',
                      if egress_contract_type n = Some ''registry_publication'' then opt_json reference else JNull),
                   (''egress_contract'', json_get (node_config n) ''egress_contract''),
                   (''egress_idempotency'', json_get (node_config n) ''egress_idempotency'')]) key) (\<lambda>e.
       returnM \<lparr>sink_event = e, sink_external_reference = reference\<rparr>)))))"

end
