(* ===== verification/RuntimeContract.thy ===== *)
theory RuntimeContract
  imports Executor MemoryRefinement
begin

text \<open>
  What the clients of a runtime rely on, as a locale over the protocol \<open>card_runtime\<close>: the card and
  history lookups are pure reads, recording an event appends it, and no operation, whether it
  returns or raises, loses a card, rewrites an event or changes what identifies a card. The client
  lemmas of the executor are proved inside it. The in-memory runtime keeps the contract for every
  graph library that behaves as documented.
\<close>

section \<open>The contract\<close>

text \<open>
  \<open>cards s\<close> and \<open>events s\<close> read the cards and histories off a state, \<open>ok\<close> is the invariant of the
  implementation.
\<close>

locale card_runtime_contract =
  fixes rt :: "'s card_runtime"
    and ok :: "'s \<Rightarrow> bool"
    and cards :: "'s \<Rightarrow> uuid \<Rightarrow> card option"
    and events :: "'s \<Rightarrow> uuid \<Rightarrow> card_event list"
    and grown :: "'s \<Rightarrow> 's \<Rightarrow> bool"
  assumes get_card_law:
      "rt_get_card rt cid s = (case cards s cid of
         None \<Rightarrow> (Inl (NotFoundError (''card '' @ quoted (uuid_str cid) @ '' does not exist'')), s)
       | Some c \<Rightarrow> (Inr c, s))"
    and card_key: "ok s \<Longrightarrow> cards s cid = Some c \<Longrightarrow> card_id c = cid"
    and history_law:
      "rt_card_history rt cid s = (case cards s cid of
         None \<Rightarrow> (Inl (NotFoundError (''card '' @ quoted (uuid_str cid) @ '' does not exist'')), s)
       | Some c \<Rightarrow> (Inr (events s cid), s))"
    and record_law:
      "ok s \<Longrightarrow> cards s cid \<noteq> None \<Longrightarrow>
         wp (rt_record_event rt cid ty actor epayload None)
           (\<lambda>e s'. ok s' \<and> grown s s' \<and> cards s' = cards s \<and>
              events s' = (events s)(cid := events s cid @ [e]) \<and> event_type e = ty \<and>
              event_actor_id e = actor \<and> event_payload e = (case epayload of None \<Rightarrow> [] | Some d \<Rightarrow> d))
           (\<lambda>_ _. False) s"
    and create_law:
      "ok s \<Longrightarrow> wp (rt_create_card rt pid payload md key)
         (\<lambda>c s'. ok s' \<and> grown s s' \<and> cards s' (card_id c) \<noteq> None) (\<lambda>_ s'. ok s' \<and> grown s s') s"
    and create_new_law:
      "ok s \<Longrightarrow> \<not> truthy key \<Longrightarrow> wp (rt_create_card rt pid payload md key)
         (\<lambda>c s'. cards s (card_id c) = None \<and> cards s' (card_id c) = Some c \<and> card_payload c = payload \<and>
            card_metadata c = (case md of None \<Rightarrow> [] | Some m \<Rightarrow> m) \<and>
            (\<forall>cid. cid \<noteq> card_id c \<longrightarrow> cards s' cid = cards s cid \<and> events s' cid = events s cid))
         (\<lambda>_ _. True) s"
    and keep_law:
      "ok s \<Longrightarrow> wp (rt_claim_card rt pipe worker n key) (\<lambda>_ s'. ok s' \<and> grown s s') (\<lambda>_ s'. ok s' \<and> grown s s') s"
      "ok s \<Longrightarrow> wp (rt_submit_artifact rt lid pipe refs key) (\<lambda>_ s'. ok s' \<and> grown s s') (\<lambda>_ s'. ok s' \<and> grown s s') s"
      "ok s \<Longrightarrow> wp (rt_validate_card rt cid v a r opipe p key) (\<lambda>_ s'. ok s' \<and> grown s s') (\<lambda>_ s'. ok s' \<and> grown s s') s"
      "ok s \<Longrightarrow> wp (rt_record_event rt cid ty actor p key) (\<lambda>_ s'. ok s' \<and> grown s s') (\<lambda>_ s'. ok s' \<and> grown s s') s"
      "ok s \<Longrightarrow> wp (rt_move_card rt cid b actor r key) (\<lambda>_ s'. ok s' \<and> grown s s') (\<lambda>_ s'. ok s' \<and> grown s s') s"
      "ok s \<Longrightarrow> wp (rt_register_patch_panel rt q) (\<lambda>_ s'. ok s' \<and> grown s s') (\<lambda>_ s'. ok s' \<and> grown s s') s"
      "ok s \<Longrightarrow> wp (rt_renew_lease rt lid n key) (\<lambda>_ s'. ok s' \<and> grown s s') (\<lambda>_ s'. ok s' \<and> grown s s') s"
      "ok s \<Longrightarrow> wp (rt_release_lease rt lid who key) (\<lambda>_ s'. ok s' \<and> grown s s') (\<lambda>_ s'. ok s' \<and> grown s s') s"
      "ok s \<Longrightarrow> wp (rt_expire_leases rt) (\<lambda>_ s'. ok s' \<and> grown s s') (\<lambda>_ s'. ok s' \<and> grown s s') s"
      "ok s \<Longrightarrow> wp (rt_get_lease rt lid) (\<lambda>_ s'. ok s' \<and> grown s s') (\<lambda>_ s'. ok s' \<and> grown s s') s"
      "ok s \<Longrightarrow> wp (rt_list_cards rt) (\<lambda>_ s'. ok s' \<and> grown s s') (\<lambda>_ s'. ok s' \<and> grown s s') s"
      "ok s \<Longrightarrow> wp (rt_list_leases rt) (\<lambda>_ s'. ok s' \<and> grown s s') (\<lambda>_ s'. ok s' \<and> grown s s') s"
      "ok s \<Longrightarrow> wp (rt_list_patch_panels rt) (\<lambda>_ s'. ok s' \<and> grown s s') (\<lambda>_ s'. ok s' \<and> grown s s') s"
    and grown_refl: "grown s s"
    and grown_trans: "grown s t \<Longrightarrow> grown t u \<Longrightarrow> grown s u"
    and grown_cards: "grown s t \<Longrightarrow> cards s cid = Some c \<Longrightarrow>
      \<exists>b. cards t cid = Some (c\<lparr>card_current_bucket := b\<rparr>)"
    and grown_events: "grown s t \<Longrightarrow> prefix (events s cid) (events t cid)"

section \<open>What every client command keeps\<close>

sublocale card_runtime_contract \<subseteq> kept ok grown
  by unfold_locales (rule grown_refl, rule grown_trans)

context card_runtime_contract
begin

lemma tame_create: "tame (rt_create_card rt pid payload md key)"
  unfolding tame_def using create_law by (blast intro: wp_mono)

lemma tame_get_card: "tame (rt_get_card rt cid)"
  by (simp add: tame_def wp_def get_card_law grown_refl split: option.split)

lemma tame_history: "tame (rt_card_history rt cid)"
  by (simp add: tame_def wp_def history_law grown_refl split: option.split)

lemma tame_ops:
  "tame (rt_claim_card rt pipe worker n key)" "tame (rt_submit_artifact rt lid pipe refs key)"
  "tame (rt_validate_card rt cid v a r opipe p key)" "tame (rt_record_event rt cid ty actor p key)"
  "tame (rt_move_card rt cid b actor r key)" "tame (rt_register_patch_panel rt q)"
  "tame (rt_renew_lease rt lid n key)" "tame (rt_release_lease rt lid who key)" "tame (rt_expire_leases rt)"
  "tame (rt_get_lease rt lid)" "tame (rt_list_cards rt)" "tame (rt_list_leases rt)" "tame (rt_list_patch_panels rt)"
  by (simp_all add: tame_def keep_law)

lemmas tame_rules = tame_basic tame_create tame_get_card tame_history tame_ops

section \<open>The executor on such a runtime\<close>

lemma tame_execute_source:
  assumes "ex_runtime ex = rt"
  shows "tame (execute_source ex source_id payload md key)"
  unfolding execute_source_def assms by (intro tame_rules)

lemma tame_execute_worker:
  assumes "ex_runtime ex = rt"
  shows "tame (execute_worker ex req)"
  unfolding execute_worker_def assms
  by (intro tame_rules) (auto split: option.split intro!: tame_rules)

lemma tame_topology_request:
  assumes "ex_runtime ex = rt"
  shows "tame (topology_validation_request nx dec ex n req)"
  unfolding topology_validation_request_def assms Let_def
  by (auto split: sum.split intro!: tame_rules)

lemma tame_execute_validator:
  assumes "ex_runtime ex = rt" and "\<And>n r. tame (participant_onboarding_request dec ex n r)"
  shows "tame (execute_validator nx dec ex req)"
proof -
  have "tame (if b then topology_validation_request nx dec ex n req else returnM req)" for b n
    by (simp add: tame_topology_request [OF assms(1)] tame_return)
  moreover have "tame (if b then participant_onboarding_request dec ex n r else returnM r)" for b n r
    by (simp add: assms(2) tame_return)
  moreover have "tame (case x of None \<Rightarrow> returnM () | Some y \<Rightarrow> liftM (g y))" for x :: "string option" and g
    by (cases x) (auto intro: tame_rules)
  ultimately show ?thesis
    unfolding execute_validator_def assms(1) by (auto intro!: tame_rules)
qed

end

section \<open>Sinks and the history they demand\<close>

text \<open>
  A sink of the executor runs on a state with identifiers and a clock, which the runtime lets move
  on: \<open>advance_law\<close>.
\<close>

definition publishes :: "node_definition \<Rightarrow> bool" where
  "publishes n \<longleftrightarrow> node_id n \<noteq> ''authority_provisioner_sink'' \<and>
     (\<exists>d. dict_get (node_config n) ''egress_contract'' = Some (JDict d) \<and>
        dict_get d ''type'' = Some (JStr ''registry_publication''))"

definition approved_publication :: "card_event list \<Rightarrow> bool" where
  "approved_publication evs \<longleftrightarrow>
     list_ex (approval ''topological_validator'' ''topology_valid'') evs \<and>
     list_ex (approval ''governance_reviewer'' ''proposal_approved'') evs"

definition approved_provisioning :: "card_event list \<Rightarrow> bool" where
  "approved_provisioning evs \<longleftrightarrow>
     list_ex (approval ''registration_compliance_validator'' ''registration_compliant'') evs \<and>
     list_ex (approval ''registration_admin_reviewer'' ''registration_approved'') evs"

locale sink_runtime = card_runtime_contract rt ok cards events grown
  for rt :: "'z world_scheme card_runtime" and ok and cards and events and grown +
  assumes advance_law: "ok s \<Longrightarrow> advance s t \<Longrightarrow> ok t \<and> grown s t \<and> cards t = cards s \<and> events t = events s"
begin

lemma publication_history_run:
  assumes "cards s (card_id c) = Some d"
  shows "ensure_registry_publication_history rt c s =
    (if approved_publication (events s (card_id c)) then (Inr (), s)
     else (Inl (ConflictError
       ''registry publication requires topology validation and governance approval history''), s))"
  by (simp add: ensure_registry_publication_history_def bindM_def history_law assms
      approved_publication_def returnM_def raiseM_def)

lemma provisioning_history_run:
  assumes "cards s (card_id c) = Some d"
  shows "ensure_authority_provisioning_history rt c s =
    (if approved_provisioning (events s (card_id c)) then (Inr (), s)
     else (Inl (ConflictError
       ''authority provisioning requires compliance validation and admin approval history''), s))"
  by (simp add: ensure_authority_provisioning_history_def bindM_def history_law assms
      approved_provisioning_def returnM_def raiseM_def)

text \<open>The part of a sink before its effect: node, card, shadow guard and position.\<close>

lemma execute_sink_run:
  assumes rt: "ex_runtime ex = rt" and n: "find_node (ex_patch_panel ex) sink_id SINK = Inr n"
    and c: "cards s cid = Some c"
  shows "execute_sink dec ex cid sink_id ref key s =
    (if json_true (json_get (card_metadata c) ''shadow'') \<and> \<not> json_true (json_get (node_config n) ''allow_shadow_egress'')
     then (Inl (InvalidOperationError ''shadow cards cannot execute production sinks''), s)
     else (case ensure_card_at_sink (ex_patch_panel ex) n c of
         Inl e \<Rightarrow> (Inl e, s)
       | Inr _ \<Rightarrow> bindM (execute_configured_sink dec ex n c ref) (\<lambda>reference.
           bindM (rt_record_event rt cid ''sink_executed'' (Some (node_id n))
                (Some [(''sink_id'', JStr (node_id n)), (''external_reference'', opt_json reference),
                   (''registry_entry_id'',
                      if egress_contract_type n = Some ''registry_publication'' then opt_json reference else JNull),
                   (''egress_contract'', json_get (node_config n) ''egress_contract''),
                   (''egress_idempotency'', json_get (node_config n) ''egress_idempotency'')]) key) (\<lambda>e.
           returnM \<lparr>sink_event = e, sink_external_reference = reference\<rparr>)) s))"
  unfolding execute_sink_def rt
  by (auto simp: bindM_def [of "liftM (Inr n)"] bindM_def [of "rt_get_card rt cid"] liftM_def n c
      get_card_law raiseM_def bindM_def [of "\<lambda>s. (Inl e, s)" for e] bindM_def [of "\<lambda>s. (Inr e, s)" for e]
      split: sum.split)

lemma unapproved_publication_raises:
  assumes rt: "ex_runtime ex = rt" and n: "find_node (ex_patch_panel ex) sink_id SINK = Inr n"
    and c: "ok s" "cards s cid = Some c" and pub: "publishes n" "\<not> approved_publication (events s cid)"
  shows "\<exists>e. execute_sink dec ex cid sink_id ref key s = (Inl e, s)"
proof -
  have id: "card_id c = cid" using c by (rule card_key)
  then have hist: "ensure_registry_publication_history rt c s = (Inl (ConflictError
       ''registry publication requires topology validation and governance approval history''), s)"
    using publication_history_run [of s c c] c(2) pub(2) by simp
  have "\<exists>e. execute_configured_sink dec ex n c ref s = (Inl e, s)"
    using pub(1)
    by (auto simp: execute_configured_sink_def publishes_def rt raiseM_def bindM_def hist split: option.split)
  then show ?thesis
    unfolding execute_sink_run [OF rt n c(2)] by (auto simp: bindM_def split: sum.split)
qed

lemma unapproved_provisioning_raises:
  assumes rt: "ex_runtime ex = rt" and n: "find_node (ex_patch_panel ex) sink_id SINK = Inr n"
    and c: "ok s" "cards s cid = Some c"
    and pro: "node_id n = ''authority_provisioner_sink''" "\<not> approved_provisioning (events s cid)"
  shows "\<exists>e. execute_sink dec ex cid sink_id ref key s = (Inl e, s)"
proof -
  have id: "card_id c = cid" using c by (rule card_key)
  then have hist: "ensure_authority_provisioning_history rt c s = (Inl (ConflictError
       ''authority provisioning requires compliance validation and admin approval history''), s)"
    using provisioning_history_run [of s c c] c(2) pro(2) by simp
  have "\<exists>e. execute_configured_sink dec ex n c ref s = (Inl e, s)"
    using pro(1)
    by (auto simp: execute_configured_sink_def execute_authority_provisioning_sink_def rt raiseM_def
        bindM_def hist split: option.split)
  then show ?thesis
    unfolding execute_sink_run [OF rt n c(2)] by (auto simp: bindM_def split: sum.split)
qed

end

section \<open>The in-memory runtime keeps the contract\<close>

text \<open>
  What every call of the in-memory runtime does to the cards and histories, and that it writes
  nothing outside its own dictionaries.
\<close>

definition mem_grown :: "'z mem_runtime_scheme \<Rightarrow> 'z mem_runtime_scheme \<Rightarrow> bool" where
  "mem_grown s t \<longleftrightarrow> identities_kept s t \<and> (\<forall>cid. prefix (history s cid) (history t cid)) \<and>
     mem_runtime.more t = mem_runtime.more s"

interpretation growing: evolution mem_grown
proof unfold_locales
  show "mem_grown s s" for s :: "'a mem_runtime_scheme"
    by (simp add: mem_grown_def identities.R_refl)
  show "mem_grown s t \<Longrightarrow> mem_grown t u \<Longrightarrow> mem_grown s u" for s t u :: "'a mem_runtime_scheme"
    unfolding mem_grown_def
    by (elim conjE, intro conjI, erule (1) identities.R_trans, blast intro: prefix_order.trans, simp)
qed

lemma step_more: "mem_step s t \<Longrightarrow> mem_runtime.more t = mem_runtime.more s"
  by (cases rule: mem_step.cases) (auto simp: advance_def)

lemma steps_more: "mem_steps s t \<Longrightarrow> mem_runtime.more t = mem_runtime.more s"
  by (induction rule: rtranclp_induct) (auto dest: step_more)

lemma steps_grown: "mem_steps s t \<Longrightarrow> mem_ok s \<Longrightarrow> mem_ok t \<and> mem_grown s t"
  by (simp add: mem_grown_def steps_mem_ok steps_identities steps_history steps_more)

lemma step_grown: "mem_step s t \<Longrightarrow> mem_ok s \<Longrightarrow> mem_ok t \<and> mem_grown s t"
  by (rule steps_grown) auto

lemma advance_grown: "advance s t \<Longrightarrow> mem_ok s \<Longrightarrow> mem_ok t \<and> mem_grown s t"
  by (rule step_grown [OF mem_step.tick])

text \<open>The invariant reads only the dictionaries of the runtime and the sources of identifiers.\<close>

lemma mem_ok_cong:
  fixes s :: "'a mem_runtime_scheme" and t :: "'b mem_runtime_scheme"
  assumes "mem_runtime.truncate s = mem_runtime.truncate t"
  shows "mem_ok s = mem_ok t"
proof -
  have eq: "mem_patch_panels s = mem_patch_panels t" "mem_cards s = mem_cards t" "mem_leases s = mem_leases t"
    "mem_artifacts s = mem_artifacts t" "mem_events s = mem_events t" "mem_idempotency s = mem_idempotency t"
    "uuid_src s = uuid_src t" "uuid_pos s = uuid_pos t"
    using assms by (simp_all add: mem_runtime.truncate_def)
  then have "result_ok s v = result_ok t v" for v by (cases v) simp_all
  with eq show ?thesis by (simp add: mem_ok_def mem_ok_defs issued_def fresh_uuids_def)
qed

lemma wp_grown:
  assumes "mem_ok s" and "wp m (\<lambda>_. mem_step s) (\<lambda>_. advance s) s"
  shows "wp m (\<lambda>_ t. mem_ok t \<and> mem_grown s t) (\<lambda>_ t. mem_ok t \<and> mem_grown s t) s"
  using assms(2)
  by (rule wp_mono) (use assms(1) step_grown advance_grown in blast)+

lemma wp_conj_ok:
  "wp m Q E s \<Longrightarrow> wp m Q' E' s \<Longrightarrow> wp m (\<lambda>x t. Q x t \<and> Q' x t) (\<lambda>e t. E e t \<and> E' e t) s"
  by (auto simp: wp_def split: prod.splits sum.splits)

lemma create_card_stored:
  assumes "mem_ok s"
  shows "wp (create_card pid payload md key)
    (\<lambda>c t. dict_get (mem_cards t) (card_id c) \<noteq> None) (\<lambda>_ _. True) s"
proof (rule wp_mono [OF create_card_wp], goal_cases)
  case (1 c t)
  show ?case
  proof (cases "cached key (mem_idempotency s)")
    case None
    with 1 show ?thesis by auto
  next
    case (Some v)
    with 1 have "t = s" "dict_get (mem_idempotency s) (the key) = Some (ICard c)"
      by (simp_all add: cached_def split: if_splits option.splits)
    moreover have "dict_get (mem_idempotency s) k = Some r \<Longrightarrow> result_ok s r" for k r
      using assms by (simp add: mem_ok_def results_ok_def)
    ultimately show ?thesis by fastforce
  qed
qed simp

lemma create_card_new:
  assumes ok: "mem_ok s" and new: "cached key (mem_idempotency s) = None"
  shows "wp (create_card pid payload md key)
    (\<lambda>c t. dict_get (mem_cards s) (card_id c) = None \<and> dict_get (mem_cards t) (card_id c) = Some c \<and>
       card_payload c = payload \<and> card_metadata c = (case md of None \<Rightarrow> [] | Some m \<Rightarrow> m) \<and>
       (\<forall>cid. cid \<noteq> card_id c \<longrightarrow> dict_get (mem_cards t) cid = dict_get (mem_cards s) cid \<and>
          history t cid = history s cid)) (\<lambda>_ _. True) s"
proof (rule wp_mono [OF create_card_wp], goal_cases)
  case (1 c t)
  have "uuid_src s (uuid_pos s) \<notin> dom (dict_get (mem_cards s))"
    using ok fresh_not_issued [of s] by (auto simp: mem_ok_def cards_ok_def)
  with 1 new show ?case by (auto simp: store_simps)
qed simp

lemma record_event_appends:
  assumes "dict_get (mem_cards s) cid \<noteq> None"
  shows "wp (record_event cid ty actor payload None)
    (\<lambda>e t. dict_get (mem_cards t) = dict_get (mem_cards s) \<and>
       history t = (history s)(cid := history s cid @ [e]) \<and> event_type e = ty \<and> event_actor_id e = actor \<and>
       event_payload e = (case payload of None \<Rightarrow> [] | Some d \<Rightarrow> d)) (\<lambda>_ _. False) s"
proof -
  obtain c where "dict_get (mem_cards s) cid = Some c" using assms by auto
  then show ?thesis
    unfolding record_event_def writes wp_rules by (simp add: cached_def store_simps fun_eq_iff)
qed

lemma memory_runtime_contract:
  assumes "networkx_graph nx gn ge"
  shows "card_runtime_contract (memory_runtime nx) mem_ok (\<lambda>s. dict_get (mem_cards s)) history mem_grown"
proof (unfold_locales, goal_cases)
  case (1 cid s)
  show ?case by (simp add: memory_runtime_def get_card_def run_defs split: option.split)
next
  case (2 s cid c)
  then show ?case by (rule keyedD)
next
  case (3 cid s)
  show ?case by (simp add: memory_runtime_def card_history_def get_card_def run_defs split: option.split)
next
  case (4 s cid ty actor payload)
  from wp_conj_ok [OF wp_grown [OF 4(1) record_event_step] record_event_appends [OF 4(2)]]
  show ?case by (simp add: memory_runtime_def)
next
  case (5 s pid payload md key)
  from wp_conj_ok [OF wp_grown [OF 5 create_card_step [OF 5]] create_card_stored [OF 5]]
  show ?case by (simp add: memory_runtime_def)
next
  case (6 s key pid payload md)
  from create_card_new [OF 6(1), of key] 6(2) show ?case by (simp add: memory_runtime_def cached_def)
next
  case (12 s q)
  have "validate nx p = Inr r \<Longrightarrow> well_formed_panel p" for p r
    using networkx_graph.validate_iff [OF assms] by blast
  from wp_grown [OF 12 register_patch_panel_step [OF this]]
  show ?case by (simp add: memory_runtime_def)
next
  case (15 s)
  from expire_leases_wp [OF this] show ?case
    unfolding memory_runtime_def card_runtime.select_convs by (rule wp_mono) (use 15 in \<open>auto dest: steps_grown advance_grown\<close>)
next
  case (22 s t cid c)
  then obtain d where "dict_get (mem_cards t) cid = Some d" "same_card c d"
    unfolding mem_grown_def identities_kept_def by blast
  then show ?case by (auto simp: same_card_def)
next
  case (23 s t cid)
  then show ?case by (simp add: mem_grown_def)
qed (simp_all add: memory_runtime_def wp_grown claim_card_step submit_artifact_step validate_card_step
    record_event_step move_card_step renew_lease_step release_lease_step get_lease_def list_cards_def list_leases_def
    list_patch_panels_def wp_rules growing.R_refl split: option.split, blast intro: growing.R_trans)

text \<open>
  Over every graph library that keeps the laws of \<open>networkx_graph\<close> the contract holds; the
  executable graphs \<open>list_networkx\<close> are one.
\<close>

lemma memory_sink_runtime:
  assumes "networkx_graph nx gn ge"
  shows "sink_runtime (memory_runtime nx) mem_ok (\<lambda>s. dict_get (mem_cards s)) history mem_grown"
  by (intro sink_runtime.intro memory_runtime_contract [OF assms] sink_runtime_axioms.intro)
     (simp add: advance_grown advance_store)

interpretation mem_rt: sink_runtime "memory_runtime list_networkx" mem_ok
    "\<lambda>s. dict_get (mem_cards s)" history mem_grown
  using list_nx.networkx_graph_axioms by (rule memory_sink_runtime)

end
