(* ===== verification/Shadow.thy ===== *)
theory Shadow
  imports Complex_Main RuntimeContract
begin

text \<open>
  Shadow routing and proposed mutations: \<^verbatim>\<open>src/src/ghostmesh/runtime/shadow.py\<close>, class
  \<^verbatim>\<open>ShadowService\<close>. Its two dictionaries are the fields \<open>shadow_state\<close> adds to the process state; the
  runtime it works on is given by its protocol. The locale \<open>shadow_runtime\<close> says what the service
  relies on of the runtime: the contract, and that neither writes the dictionaries of the other.
\<close>

section \<open>State and data\<close>

record shadow_state = mem_auth +
  shadow_links :: "(uuid, shadow_card_link) dict"
  shadow_mutations :: "(uuid, proposed_mutation) dict"

record shadow_run =
  run_production_card :: card
  run_shadow_card :: card
  run_shadow_metadata :: jdict

text \<open>A finite float is a rational number; the service only compares the rate with zero.\<close>

record shadow_policy =
  policy_sample_rate :: rat
  policy_max_parallel :: int

definition default_policy :: shadow_policy where
  "default_policy = \<lparr>policy_sample_rate = 1, policy_max_parallel = 1\<rparr>"

section \<open>Operations\<close>

definition get_link :: "uuid \<Rightarrow> ('z shadow_state_scheme, shadow_card_link) M" where
  "get_link i = bindM (getsM (\<lambda>s. dict_get (shadow_links s) i)) (\<lambda>l. case l of
       Some x \<Rightarrow> returnM x
     | None \<Rightarrow> raiseM (NotFoundError (''shadow link '' @ quoted (uuid_str i) @ '' does not exist'')))"

definition get_mutation :: "uuid \<Rightarrow> ('z shadow_state_scheme, proposed_mutation) M" where
  "get_mutation i = bindM (getsM (\<lambda>s. dict_get (shadow_mutations s) i)) (\<lambda>m. case m of
       Some x \<Rightarrow> returnM x
     | None \<Rightarrow> raiseM (NotFoundError (''mutation '' @ quoted (uuid_str i) @ '' does not exist'')))"

definition put_link :: "uuid \<Rightarrow> shadow_card_link \<Rightarrow> ('z shadow_state_scheme, unit) M" where
  "put_link i l = modifyM (\<lambda>s. s\<lparr>shadow_links := dict_set i l (shadow_links s)\<rparr>)"

definition put_mutation :: "uuid \<Rightarrow> proposed_mutation \<Rightarrow> ('z shadow_state_scheme, unit) M" where
  "put_mutation i m = modifyM (\<lambda>s. s\<lparr>shadow_mutations := dict_set i m (shadow_mutations s)\<rparr>)"

definition active_link :: "uuid \<Rightarrow> shadow_card_link \<Rightarrow> bool" where
  "active_link cid l \<longleftrightarrow> link_production_card_id l = cid \<and> link_status l = ''active''"

definition create_shadow_card ::
  "'z shadow_state_scheme card_runtime \<Rightarrow> card \<Rightarrow> string \<Rightarrow> shadow_policy option \<Rightarrow> string option \<Rightarrow>
     ('z shadow_state_scheme, shadow_run) M" where
  "create_shadow_card rt production candidate policy key =
     (let pol = (case policy of None \<Rightarrow> default_policy | Some p \<Rightarrow> p) in
      if policy_sample_rate pol \<le> 0
      then raiseM (InvalidOperationError ''shadow sampling skipped this card'')
      else
        bindM (getsM (\<lambda>s. filter (active_link (card_id production)) (dict_values (shadow_links s)))) (\<lambda>active_links.
        if int (length active_links) \<ge> policy_max_parallel pol
        then raiseM (ConflictError (''production card '' @ quoted (uuid_str (card_id production))
               @ '' already has maximum parallel shadows''))
        else
          bindM (rt_create_card rt (split_colon (card_workflow_version production)) (card_payload production)
                   (Some (dict_update (card_metadata production)
                      [(''shadow'', JBool True),
                       (''production_card_id'', JStr (uuid_str (card_id production))),
                       (''candidate_id'', JStr candidate)])) key) (\<lambda>shadow.
          bindM (new_shadow_card_link (card_id production) (card_id shadow) candidate) (\<lambda>l.
          bindM (put_link (link_id l) l) (\<lambda>_.
          bindM (rt_record_event rt (card_id production) ''shadow_created'' (Some candidate)
                   (Some [(''shadow_card_id'', JStr (uuid_str (card_id shadow))),
                          (''shadow_link_id'', JStr (uuid_str (link_id l))),
                          (''candidate_id'', JStr candidate)]) None) (\<lambda>_.
          returnM \<lparr>run_production_card = production, run_shadow_card = shadow,
            run_shadow_metadata =
              [(''production_card_id'', JStr (uuid_str (card_id production))),
               (''shadow_card_id'', JStr (uuid_str (card_id shadow))),
               (''shadow_link_id'', JStr (uuid_str (link_id l))),
               (''candidate_id'', JStr candidate)]\<rparr>))))))"

definition complete_shadow ::
  "'z shadow_state_scheme card_runtime \<Rightarrow> uuid \<Rightarrow> jdict \<Rightarrow> ('z shadow_state_scheme, shadow_card_link) M" where
  "complete_shadow rt i metrics =
     bindM (get_link i) (\<lambda>l.
     let completed = l\<lparr>link_status := ''completed'', link_metrics := metrics\<rparr> in
     bindM (put_link i completed) (\<lambda>_.
     bindM (rt_record_event rt (link_production_card_id completed) ''shadow_completed''
              (Some (link_candidate_id completed))
              (Some [(''shadow_link_id'', JStr (uuid_str i)), (''metrics'', JDict metrics)]) None) (\<lambda>_.
     returnM completed)))"

definition propose_mutation ::
  "string \<Rightarrow> string \<Rightarrow> jdict \<Rightarrow> ('z shadow_state_scheme, proposed_mutation) M" where
  "propose_mutation mtype proposed_by payload =
     bindM (new_proposed_mutation mtype proposed_by payload SHADOWING) (\<lambda>m.
     bindM (put_mutation (mutation_id m) m) (\<lambda>_.
     returnM m))"

definition validate_mutation ::
  "uuid \<Rightarrow> bool \<Rightarrow> string \<Rightarrow> string option \<Rightarrow> ('z shadow_state_scheme, proposed_mutation) M" where
  "validate_mutation i accepted validator reason =
     bindM (get_mutation i) (\<lambda>m.
     bindM now_utc (\<lambda>t.
     let validated = m\<lparr>mutation_status := (if accepted then VALIDATED else REJECTED),
           mutation_validated_at := Some t,
           mutation_payload := dict_update (mutation_payload m)
             [(''validation'', JDict [(''validator_id'', JStr validator), (''reason'', opt_json reason)])]\<rparr> in
     bindM (put_mutation i validated) (\<lambda>_.
     returnM validated)))"

definition promote_mutation ::
  "'z shadow_state_scheme card_runtime \<Rightarrow> uuid \<Rightarrow> patch_panel \<Rightarrow> ('z shadow_state_scheme, proposed_mutation) M" where
  "promote_mutation rt i p =
     bindM (get_mutation i) (\<lambda>m.
     if mutation_status m \<noteq> VALIDATED
     then raiseM (ConflictError ''only validated mutations can be promoted'')
     else
       bindM (rt_register_patch_panel rt p) (\<lambda>_.
       bindM now_utc (\<lambda>t.
       let promoted = m\<lparr>mutation_status := PROMOTED, mutation_promoted_at := Some t\<rparr> in
       bindM (put_mutation i promoted) (\<lambda>_.
       returnM promoted))))"

subsection \<open>The life of a mutation\<close>

text \<open>
  What the service does to one mutation: it is proposed, then validated or rejected any number of
  times, and promoted only when the last verdict was an acceptance.
\<close>

definition proposed :: "proposed_mutation \<Rightarrow> bool" where
  "proposed m \<longleftrightarrow> mutation_status m = SHADOWING \<and> mutation_validated_at m = None \<and> mutation_promoted_at m = None"

inductive mutation_step :: "proposed_mutation \<Rightarrow> proposed_mutation \<Rightarrow> bool" where
  judge: "mutation_step m (m\<lparr>mutation_status := (if accepted then VALIDATED else REJECTED),
    mutation_validated_at := Some t, mutation_payload := d\<rparr>)"
| promote: "mutation_status m = VALIDATED \<Longrightarrow>
    mutation_step m (m\<lparr>mutation_status := PROMOTED, mutation_promoted_at := Some t\<rparr>)"

abbreviation mutation_steps :: "proposed_mutation \<Rightarrow> proposed_mutation \<Rightarrow> bool" where
  "mutation_steps \<equiv> mutation_step\<^sup>*\<^sup>*"

definition mutations_ok :: "'z shadow_state_scheme \<Rightarrow> bool" where
  "mutations_ok s \<longleftrightarrow> (\<forall>i m. dict_get (shadow_mutations s) i = Some m \<longrightarrow>
     (\<exists>m0. proposed m0 \<and> mutation_steps m0 m))"

lemma mutation_verdict:
  assumes "mutation_steps m0 m" and "proposed m0"
  shows "(mutation_status m \<in> {VALIDATED, REJECTED, PROMOTED} \<longleftrightarrow> mutation_validated_at m \<noteq> None) \<and>
    (mutation_status m = PROMOTED \<longrightarrow> mutation_promoted_at m \<noteq> None) \<and>
    (mutation_promoted_at m \<noteq> None \<longrightarrow> mutation_validated_at m \<noteq> None) \<and>
    mutation_id m = mutation_id m0 \<and> mutation_proposed_by m = mutation_proposed_by m0"
  using assms(1)
proof (induction rule: rtranclp_induct)
  case base
  then show ?case using assms(2) by (simp add: proposed_def)
next
  case (step a b)
  from step.hyps(2) step.IH show ?case by (cases rule: mutation_step.cases) simp_all
qed

lemma mutations_ok_step:
  assumes "mutations_ok s" and "dict_get (shadow_mutations s) i = Some m" and "mutation_step m m'"
    and "shadow_mutations t = dict_set i m' (shadow_mutations s)"
  shows "mutations_ok t"
proof -
  obtain m0 where "proposed m0" "mutation_steps m0 m" using assms(1,2) unfolding mutations_ok_def by blast
  with assms(3) have "mutation_steps m0 m'" by simp
  with \<open>proposed m0\<close> assms(1,4) show ?thesis by (auto simp: mutations_ok_def)
qed

lemma mutations_ok_new:
  assumes "mutations_ok s" and "proposed m" and "shadow_mutations t = dict_set i m (shadow_mutations s)"
  shows "mutations_ok t"
  using assms unfolding mutations_ok_def by auto

lemma mutations_ok_same: "mutations_ok s \<Longrightarrow> shadow_mutations t = shadow_mutations s \<Longrightarrow> mutations_ok t"
  by (simp add: mutations_ok_def)

lemma propose_mutation_keeps:
  assumes "mutations_ok s"
  shows "wp (propose_mutation mtype who payload) (\<lambda>_. mutations_ok) (\<lambda>_. mutations_ok) s"
  unfolding propose_mutation_def new_proposed_mutation_def put_mutation_def wp_rules
  by (rule mutations_ok_new [OF assms]) (simp_all add: proposed_def)

lemma validate_mutation_keeps:
  assumes "mutations_ok s"
  shows "wp (validate_mutation i accepted who reason) (\<lambda>_. mutations_ok) (\<lambda>_. mutations_ok) s"
proof (cases "dict_get (shadow_mutations s) i")
  case None
  then show ?thesis using assms by (simp add: validate_mutation_def get_mutation_def wp_rules)
next
  case (Some m)
  then show ?thesis
    unfolding validate_mutation_def get_mutation_def put_mutation_def wp_rules Let_def
    by (simp split del: if_split) (rule mutations_ok_step [OF assms Some mutation_step.judge], simp)
qed

section \<open>What the service relies on\<close>

text \<open>The link drawn in a state.\<close>

definition link_at :: "'z world_scheme \<Rightarrow> uuid \<Rightarrow> uuid \<Rightarrow> string \<Rightarrow> shadow_card_link" where
  "link_at s production shadow candidate =
     \<lparr>link_id = uuid_src s (uuid_pos s), link_production_card_id = production, link_shadow_card_id = shadow,
       link_candidate_id = candidate, link_status = ''active'', link_metrics = [],
       link_created_at = clock_src s (clock_pos s)\<rparr>"

lemma link_at_sel [simp]:
  "active_link cid (link_at s production shadow candidate) \<longleftrightarrow> cid = production"
  "link_shadow_card_id (link_at s production shadow candidate) = shadow"
  "link_candidate_id (link_at s production shadow candidate) = candidate"
  by (auto simp: link_at_def active_link_def)

lemma wp_new_shadow_card_link [wp_rules]:
  "wp (new_shadow_card_link production shadow candidate) Q E s =
     Q (link_at s production shadow candidate) (s\<lparr>uuid_pos := Suc (uuid_pos s), clock_pos := Suc (clock_pos s)\<rparr>)"
  by (simp add: new_shadow_card_link_def wp_uuid4 wp_now wp_bind wp_return link_at_def)

locale shadow_runtime = sink_runtime rt ok cards events grown
  for rt :: "'z shadow_state_scheme card_runtime" and ok and cards and events and grown +
  assumes own_links: "grown s t \<Longrightarrow> shadow_links t = shadow_links s"
    and own_mutations: "grown s t \<Longrightarrow> shadow_mutations t = shadow_mutations s"
    and write_links: "ok (s\<lparr>shadow_links := d\<rparr>) = ok s" "cards (s\<lparr>shadow_links := d\<rparr>) = cards s"
      "events (s\<lparr>shadow_links := d\<rparr>) = events s"
    and write_mutations: "ok (s\<lparr>shadow_mutations := m\<rparr>) = ok s" "cards (s\<lparr>shadow_mutations := m\<rparr>) = cards s"
      "events (s\<lparr>shadow_mutations := m\<rparr>) = events s"
begin

text \<open>
  A shadow: a new card with the payload of the production card, marked as a shadow, linked to it by
  an active link, and announced in its history. Nothing else of the cards changes.
\<close>

definition shadowed :: "'z shadow_state_scheme \<Rightarrow> 'z shadow_state_scheme \<Rightarrow> card \<Rightarrow> string \<Rightarrow> card \<Rightarrow> bool" where
  "shadowed s t p candidate sh \<longleftrightarrow>
     ok t \<and> cards s (card_id sh) = None \<and> cards t = (cards s)(card_id sh \<mapsto> sh) \<and>
     card_payload sh = card_payload p \<and> dict_get (card_metadata sh) ''shadow'' = Some (JBool True) \<and>
     (\<exists>l. shadow_links t = dict_set (link_id l) l (shadow_links s) \<and> active_link (card_id p) l \<and>
        link_shadow_card_id l = card_id sh \<and> link_candidate_id l = candidate) \<and>
     (\<exists>e. events t (card_id p) = events s (card_id p) @ [e] \<and> event_type e = ''shadow_created'')"

lemma announce_shadow:
  assumes ok: "ok u" and sh: "cards u (card_id p) \<noteq> None"
  shows "wp (bindM (new_shadow_card_link (card_id p) (card_id sh) candidate) (\<lambda>l.
            bindM (put_link (link_id l) l) (\<lambda>_.
            bindM (rt_record_event rt (card_id p) ty actor (payload l) None) (\<lambda>_. returnM (f l)))))
     (\<lambda>r t. \<exists>l e. r = f l \<and> ok t \<and> cards t = cards u \<and> events t = (events u)(card_id p := events u (card_id p) @ [e]) \<and>
        event_type e = ty \<and> shadow_links t = dict_set (link_id l) l (shadow_links u) \<and>
        active_link (card_id p) l \<and> link_shadow_card_id l = card_id sh \<and> link_candidate_id l = candidate)
     (\<lambda>_ _. False) u"
proof -
  let ?v = "u\<lparr>uuid_pos := Suc (uuid_pos u), clock_pos := Suc (clock_pos u)\<rparr>"
  have v: "ok ?v" "cards ?v = cards u" "events ?v = events u"
    using advance_law [OF ok, of ?v] by (simp_all add: advance_counters)
  have rec: "wp (rt_record_event rt (card_id p) ty actor pl None)
      (\<lambda>e t. ok t \<and> grown w t \<and> cards t = cards w \<and> events t = (events w)(card_id p := events w (card_id p) @ [e]) \<and>
         event_type e = ty \<and> event_actor_id e = actor \<and> event_payload e = (case pl of None \<Rightarrow> [] | Some d \<Rightarrow> d))
      (\<lambda>_ _. False) w" if "w = ?v\<lparr>shadow_links := d\<rparr>" for w d pl
    using record_law [of w "card_id p" ty actor pl] v sh that by (simp add: write_links)
  let ?l = "link_at u (card_id p) (card_id sh) candidate"
  show ?thesis
    unfolding put_link_def wp_rules
  proof (rule wp_mono [OF rec [OF refl]], goal_cases)
    case (1 e t)
    then have "shadow_links t = dict_set (link_id ?l) ?l (shadow_links u)" by (auto dest!: own_links)
    with 1 show ?case by (intro exI [of _ ?l] exI [of _ e]) (simp add: write_links v)
  qed simp
qed

lemma count_active_set:
  "length (filter P (dict_values (dict_set k v d))) \<le> Suc (length (filter P (dict_values d)))"
  by (induction d) auto

text \<open>Whatever key is used, the number of active shadows stays within the policy.\<close>

lemma create_shadow_bound:
  assumes ok: "ok s"
  shows "wp (create_shadow_card rt p candidate (Some pol) key)
    (\<lambda>_ t. int (length (filter (active_link (card_id p)) (dict_values (shadow_links t)))) \<le> policy_max_parallel pol)
    (\<lambda>_ t. True) s"
proof -
  let ?n = "\<lambda>d. length (filter (active_link (card_id p)) (dict_values d))"
  have "wp (rt_create_card rt pid pl md key) (\<lambda>sh.
       wp (bindM (new_shadow_card_link (card_id p) (card_id sh) candidate) (\<lambda>l.
            bindM (put_link (link_id l) l) (\<lambda>_.
            bindM (rt_record_event rt (card_id p) ty actor (epl sh l) None) (\<lambda>_. returnM (f sh l)))))
         (\<lambda>_ t. ?n (shadow_links t) \<le> Suc (?n (shadow_links s))) (\<lambda>_ _. True)) (\<lambda>_ _. True) s"
    for pid pl md ty actor epl and f :: "card \<Rightarrow> shadow_card_link \<Rightarrow> shadow_run"
  proof (rule wp_mono [OF create_law [OF ok]], goal_cases)
    case (1 sh u)
    let ?l = "link_at u (card_id p) (card_id sh) candidate"
    let ?w = "u\<lparr>uuid_pos := Suc (uuid_pos u), clock_pos := Suc (clock_pos u),
        shadow_links := dict_set (link_id ?l) ?l (shadow_links u)\<rparr>"
    have "ok ?w" using 1 advance_law [of u] by (simp add: write_links advance_counters)
    from keep_law(4) [OF this] have
      "wp (rt_record_event rt (card_id p) ty actor (epl sh ?l) None) (\<lambda>_ t. grown ?w t) (\<lambda>_ _. True) ?w"
      by (rule wp_mono) simp_all
    then have "wp (rt_record_event rt (card_id p) ty actor (epl sh ?l) None)
        (\<lambda>_ t. ?n (shadow_links t) \<le> Suc (?n (shadow_links s))) (\<lambda>_ _. True) ?w"
    proof (rule wp_mono, goal_cases)
      case (1 x t)
      have "shadow_links t = dict_set (link_id ?l) ?l (shadow_links s)"
        using own_links [OF 1(2)] own_links [of s u] \<open>ok u \<and> grown s u \<and> _\<close> by simp
      then show ?case using count_active_set by simp
    qed simp
    then show ?case unfolding put_link_def wp_rules by simp
  qed simp
  note run = this
  show ?thesis
  proof (cases "policy_sample_rate pol \<le> 0 \<or> int (?n (shadow_links s)) \<ge> policy_max_parallel pol")
    case True
    then show ?thesis by (auto simp: create_shadow_card_def Let_def wp_raise wp_bind wp_gets)
  next
    case False
    then show ?thesis
      by (simp add: create_shadow_card_def Let_def wp_bind [of "getsM g" for g] wp_gets
          wp_bind [of "rt_create_card rt a b c d" for a b c d])
         (rule wp_mono [OF run]; auto elim!: wp_mono)
  qed
qed

lemma create_shadow_run:
  assumes ok: "ok s" and p: "cards s (card_id p) \<noteq> None" and key: "\<not> truthy key"
  shows "wp (create_shadow_card rt p candidate policy key)
    (\<lambda>run t. run_production_card run = p \<and> shadowed s t p candidate (run_shadow_card run))
    (\<lambda>_ t. ok t \<and> grown s t) s"
proof -
  let ?md = "dict_update (card_metadata p) [(''shadow'', JBool True),
      (''production_card_id'', JStr (uuid_str (card_id p))), (''candidate_id'', JStr candidate)]"
  have md: "dict_get ?md ''shadow'' = Some (JBool True)" by (simp add: dict_get_update)
  note create = wp_conj_ok [OF create_law [OF ok] create_new_law [OF ok key]]
  show ?thesis
  proof (cases "policy_sample_rate (case policy of None \<Rightarrow> default_policy | Some q \<Rightarrow> q) \<le> 0 \<or>
      int (length (filter (active_link (card_id p)) (dict_values (shadow_links s)))) \<ge>
      policy_max_parallel (case policy of None \<Rightarrow> default_policy | Some q \<Rightarrow> q)")
    case True
    then show ?thesis
      by (auto simp: create_shadow_card_def Let_def wp_raise wp_bind wp_gets ok grown_refl)
  next
    case False
    have "wp (rt_create_card rt pid (card_payload p) (Some ?md) key) (\<lambda>sh.
       wp (bindM (new_shadow_card_link (card_id p) (card_id sh) candidate) (\<lambda>l.
            bindM (put_link (link_id l) l) (\<lambda>_.
            bindM (rt_record_event rt (card_id p) ty actor (pl sh l) None) (\<lambda>_. returnM (f sh l)))))
         (\<lambda>run t. \<exists>l. run = f sh l \<and> shadowed s t p candidate sh) (\<lambda>_ t. ok t \<and> grown s t))
       (\<lambda>_ t. ok t \<and> grown s t) s" if "ty = ''shadow_created''" for pid ty actor pl and f :: "card \<Rightarrow> shadow_card_link \<Rightarrow> shadow_run"
    proof (rule wp_mono [OF create], goal_cases)
      case (1 sh u)
      then have "card_id p \<noteq> card_id sh" using p by auto
      with 1 have u: "ok u" "grown s u" "cards s (card_id sh) = None" "cards u = (cards s)(card_id sh \<mapsto> sh)"
        "events u (card_id p) = events s (card_id p)"
        and new: "card_payload sh = card_payload p" "card_metadata sh = ?md" by (auto simp: fun_eq_iff)
      then have "cards u (card_id p) \<noteq> None" using p by auto
      have links: "shadow_links u = shadow_links s" by (rule own_links [OF u(2)])
      from announce_shadow [OF u(1) \<open>cards u (card_id p) \<noteq> None\<close>]
      show ?case
      proof (rule wp_mono, goal_cases)
        case (1 run t)
        then obtain l e where "run = f sh l" "ok t" "cards t = cards u" "event_type e = ty"
          "events t = (events u)(card_id p := events u (card_id p) @ [e])"
          "shadow_links t = dict_set (link_id l) l (shadow_links s)" "active_link (card_id p) l"
          "link_shadow_card_id l = card_id sh" "link_candidate_id l = candidate"
          unfolding links by blast
        with u new md that show ?case unfolding shadowed_def by (intro exI [of _ l] conjI) auto
      qed simp
    qed simp
    note run = this
    show ?thesis using False
      by (simp add: create_shadow_card_def Let_def wp_bind [of "getsM g" for g] wp_gets
          wp_bind [of "rt_create_card rt a b c d" for a b c d])
         (rule wp_mono [OF run]; auto elim!: wp_mono)
  qed
qed

end

section \<open>The service on the in-memory runtime\<close>

lemma mem_ok_shadow [simp]:
  "mem_ok (s\<lparr>shadow_links := d\<rparr>) = mem_ok s" "mem_ok (s\<lparr>shadow_mutations := m\<rparr>) = mem_ok s"
  by (rule mem_ok_cong, simp add: mem_runtime.truncate_def)+

lemma more_shadow:
  assumes "mem_runtime.more t = mem_runtime.more s"
  shows "shadow_links t = shadow_links s" "shadow_mutations t = shadow_mutations s"
  using assms by (cases s, cases t, simp)+

lemma memory_shadow_runtime:
  assumes "networkx_graph nx gn ge"
  shows "shadow_runtime (memory_runtime nx) mem_ok (\<lambda>s. dict_get (mem_cards s)) history mem_grown"
  by (intro shadow_runtime.intro memory_sink_runtime [OF assms] shadow_runtime_axioms.intro)
     (auto simp: mem_grown_def dest: more_shadow)

interpretation mem_shadow: shadow_runtime "memory_runtime list_networkx" mem_ok
    "\<lambda>s. dict_get (mem_cards s)" history mem_grown
  using list_nx.networkx_graph_axioms by (rule memory_shadow_runtime)

end
