(* ===== verification/Genesis.thy ===== *)
theory Genesis
  imports Shadow
begin

text \<open>
  Genesis: \<^verbatim>\<open>src/src/ghostmesh/genesis/service.py\<close>, class \<^verbatim>\<open>GenesisService\<close>. An intent is matched
  against the registry, and then either launched as a card of an existing workflow or turned into a
  proposal card of the approval workflow. The two dictionaries of the service are the fields
  \<open>mesh\<close> adds to the process state, which is now complete. What pydantic's \<^verbatim>\<open>model_dump\<close> makes of an
  object is a parameter, the record \<open>encoders\<close>.
\<close>

section \<open>State and data\<close>

record mesh = shadow_state +
  genesis_intents :: "(uuid, genesis_intent) dict"
  genesis_index :: "(string, uuid) dict"

record encoders =
  encode_patch_panel :: "patch_panel \<Rightarrow> json"
  encode_registry_metadata :: "registry_metadata \<Rightarrow> json"
  encode_constraints :: "intent_constraints \<Rightarrow> json"
  encode_card :: "card \<Rightarrow> json"

definition system_pp_approval_id :: string where
  "system_pp_approval_id = ''system_pp_approval''"

text \<open>The constructor: a key or goal without characters is refused.\<close>

definition new_genesis_intent ::
  "string \<Rightarrow> string \<Rightarrow> string \<Rightarrow> string \<Rightarrow> string list \<Rightarrow> string list \<Rightarrow> intent_constraints \<Rightarrow>
     bool \<Rightarrow> bool \<Rightarrow> jdict \<Rightarrow> ('z world_scheme, genesis_intent) M" where
  "new_genesis_intent requested_by dkey goal input_type outputs tags constraints launch propose metadata =
     bindM uuid4 (\<lambda>i. bindM now_utc (\<lambda>t1. bindM now_utc (\<lambda>t2.
     if dkey = [] \<or> goal = [] then raiseM (ValueError ''String should have at least 1 character'')
     else returnM \<lparr>intent_id = i, intent_requested_by = requested_by, intent_deduplication_key = dkey,
       intent_goal = goal, intent_input_type = input_type, intent_desired_outputs = outputs,
       intent_tags = tags, intent_constraints = constraints, intent_launch_if_existing = launch,
       intent_propose_if_missing = propose, intent_status = RECEIVED,
       intent_candidate_registry_entry_ids = [], intent_selected_registry_entry_id = None,
       intent_launched_card_id = None, intent_proposal_card_id = None,
       intent_created_at = t1, intent_updated_at = t2, intent_metadata = metadata\<rparr>)))"

section \<open>Matching an intent\<close>

definition get_intent :: "uuid \<Rightarrow> ('z mesh_scheme, genesis_intent) M" where
  "get_intent i = bindM (getsM (\<lambda>s. dict_get (genesis_intents s) i)) (\<lambda>r. case r of
       Some x \<Rightarrow> returnM x
     | None \<Rightarrow> raiseM (NotFoundError (''genesis intent '' @ quoted (uuid_str i) @ '' does not exist'')))"

definition candidate_filters :: "genesis_intent \<Rightarrow> patch_panel_registry_search list" where
  "candidate_filters it =
     [default_search\<lparr>search_input_type := Some (intent_input_type it)\<rparr>] @
     map (\<lambda>out. default_search\<lparr>search_output_type := Some out\<rparr>) (intent_desired_outputs it) @
     map (\<lambda>tag. default_search\<lparr>search_tag := Some tag\<rparr>) (intent_tags it) @
     (if truthy (constraint_risk_level (intent_constraints it))
      then [default_search\<lparr>search_risk_level := constraint_risk_level (intent_constraints it)\<rparr>] else [])"

text \<open>The loop over the filters: an entry is kept the first time its id is seen.\<close>

fun keep_new :: "registry_entry list \<Rightarrow> registry_entry list \<Rightarrow> registry_entry list" where
  "keep_new candidates [] = candidates"
| "keep_new candidates (e # es) =
     (if entry_id e \<in> entry_id ` set candidates then keep_new candidates es
      else keep_new (candidates @ [e]) es)"

fun gather_candidates ::
  "'s patch_panel_registry \<Rightarrow> registry_entry list \<Rightarrow> patch_panel_registry_search list \<Rightarrow>
     ('s, registry_entry list) M" where
  "gather_candidates reg candidates [] = returnM candidates"
| "gather_candidates reg candidates (f # fs) =
     bindM (reg_search reg f) (\<lambda>es. gather_candidates reg (keep_new candidates es) fs)"

definition search_candidates ::
  "'s patch_panel_registry \<Rightarrow> genesis_intent \<Rightarrow> ('s, registry_entry list) M" where
  "search_candidates reg it = gather_candidates reg [] (candidate_filters it)"

definition put_intent :: "genesis_intent \<Rightarrow> ('z mesh_scheme, unit) M" where
  "put_intent it = modifyM (\<lambda>s. s\<lparr>genesis_intents := dict_set (intent_id it) it (genesis_intents s)\<rparr>)"

definition receive_intent ::
  "'z mesh_scheme patch_panel_registry \<Rightarrow> string \<Rightarrow> string \<Rightarrow> string \<Rightarrow> string \<Rightarrow> string list \<Rightarrow> string list \<Rightarrow>
     intent_constraints \<Rightarrow> bool \<Rightarrow> bool \<Rightarrow> jdict option \<Rightarrow> ('z mesh_scheme, genesis_intent) M" where
  "receive_intent reg requested_by dkey goal input_type outputs tags constraints launch propose metadata =
     bindM (getsM (\<lambda>s. dict_get (genesis_index s) dkey)) (\<lambda>known. case known of
       Some i \<Rightarrow> get_intent i
     | None \<Rightarrow>
         bindM (new_genesis_intent requested_by dkey goal input_type outputs tags constraints launch propose
                  (case metadata of None \<Rightarrow> [] | Some d \<Rightarrow> d)) (\<lambda>it0.
         bindM (search_candidates reg it0) (\<lambda>candidates.
         let it1 = it0\<lparr>intent_candidate_registry_entry_ids := map entry_id candidates\<rparr> in
         bindM (if candidates = [] \<and> propose
                then bindM now_utc (\<lambda>t. returnM (it1\<lparr>intent_status := DESIGN_REQUIRED, intent_updated_at := t\<rparr>))
                else returnM it1) (\<lambda>it.
         bindM (put_intent it) (\<lambda>_.
         bindM (modifyM (\<lambda>s. s\<lparr>genesis_index := dict_set dkey (intent_id it) (genesis_index s)\<rparr>)) (\<lambda>_.
         returnM it))))))"

section \<open>Launching and proposing\<close>

definition launch_payload :: "encoders \<Rightarrow> genesis_intent \<Rightarrow> jdict" where
  "launch_payload enc it =
     [(''goal'', JStr (intent_goal it)), (''input_type'', JStr (intent_input_type it)),
      (''desired_outputs'', JList (map JStr (intent_desired_outputs it))),
      (''tags'', JList (map JStr (intent_tags it))),
      (''constraints'', encode_constraints enc (intent_constraints it))]"

definition launch ::
  "encoders \<Rightarrow> 'z mesh_scheme card_runtime \<Rightarrow> 'z mesh_scheme patch_panel_registry \<Rightarrow> uuid \<Rightarrow> uuid option \<Rightarrow>
     ('z mesh_scheme, card) M" where
  "launch enc rt reg i chosen =
     bindM (get_intent i) (\<lambda>it.
     case (case chosen of Some e \<Rightarrow> Some e
           | None \<Rightarrow> (case intent_candidate_registry_entry_ids it of [] \<Rightarrow> None | e # _ \<Rightarrow> Some e)) of
       None \<Rightarrow> raiseM (ConflictError ''genesis intent has no registry candidate to launch'')
     | Some selected \<Rightarrow>
         bindM (reg_get reg selected) (\<lambda>e.
         bindM (rt_create_card rt (entry_patch_panel_id e) (launch_payload enc it)
                  (Some [(''genesis_intent_id'', JStr (uuid_str (intent_id it))),
                         (''registry_entry_id'', JStr (uuid_str (entry_id e))),
                         (''requested_by'', JStr (intent_requested_by it))])
                  (Some (''genesis:launch:'' @ intent_deduplication_key it @ '':'' @ uuid_str (entry_id e)))) (\<lambda>c.
         bindM now_utc (\<lambda>t.
         bindM (put_intent (it\<lparr>intent_status := LAUNCHED,
                  intent_selected_registry_entry_id := Some (entry_id e),
                  intent_launched_card_id := Some (card_id c), intent_updated_at := t\<rparr>)) (\<lambda>_.
         returnM c)))))"

definition proposal_payload ::
  "encoders \<Rightarrow> genesis_intent \<Rightarrow> string \<Rightarrow> patch_panel \<Rightarrow> registry_metadata \<Rightarrow> string option \<Rightarrow>
     string option \<Rightarrow> jdict" where
  "proposal_payload enc it proposed_by candidate meta base_id base_version =
     [(''kind'', JStr ''patch_panel_proposal''), (''proposal_type'', JStr ''create''),
      (''genesis_intent_id'', JStr (uuid_str (intent_id it))), (''proposed_by'', JStr proposed_by),
      (''candidate_definition'', encode_patch_panel enc candidate),
      (''registry_metadata'', encode_registry_metadata enc meta),
      (''base_patch_panel_id'', opt_json base_id), (''base_version'', opt_json base_version)]"

definition propose ::
  "encoders \<Rightarrow> 'z mesh_scheme card_runtime \<Rightarrow> uuid \<Rightarrow> string \<Rightarrow> patch_panel \<Rightarrow> registry_metadata \<Rightarrow>
     string option \<Rightarrow> string option \<Rightarrow> ('z mesh_scheme, card) M" where
  "propose enc rt i proposed_by candidate meta base_id base_version =
     bindM (get_intent i) (\<lambda>it.
     bindM (rt_create_card rt system_pp_approval_id
              (proposal_payload enc it proposed_by candidate meta base_id base_version)
              (Some [(''genesis_intent_id'', JStr (uuid_str (intent_id it))), (''proposed_by'', JStr proposed_by),
                     (''candidate_patch_panel_id'', JStr (panel_id candidate))])
              (Some (''genesis:propose:'' @ uuid_str (intent_id it) @ '':'' @ panel_id candidate @ '':''
                 @ panel_version candidate))) (\<lambda>c.
     bindM now_utc (\<lambda>t.
     bindM (put_intent (it\<lparr>intent_status := INTENT_PROPOSED, intent_proposal_card_id := Some (card_id c),
              intent_updated_at := t\<rparr>)) (\<lambda>_.
     returnM c))))"

section \<open>What a search of candidates finds\<close>

text \<open>Merging: no id twice, the first entry with an id is the one kept, nothing is lost.\<close>

lemma keep_new_distinct: "distinct (map entry_id cs) \<Longrightarrow> distinct (map entry_id (keep_new cs es))"
  by (induction cs es rule: keep_new.induct) auto

lemma keep_new_prefix: "prefix cs (keep_new cs es)"
  by (induction cs es rule: keep_new.induct) (auto intro: prefix_order.trans [OF prefixI])

lemma keep_new_ids: "entry_id ` set (keep_new cs es) = entry_id ` set cs \<union> entry_id ` set es"
  by (induction cs es rule: keep_new.induct) auto

lemma keep_new_from: "set (keep_new cs es) \<subseteq> set cs \<union> set es"
  by (induction cs es rule: keep_new.induct) auto

text \<open>The searches of a registry that keeps its contract, merged.\<close>

context registry_contract
begin

lemma gather_candidates_run:
  assumes "ok s" and "distinct (map entry_id cs)" and "set cs \<subseteq> ran (lookup s)"
  shows "wp (gather_candidates reg cs fs)
    (\<lambda>es t. t = s \<and> distinct (map entry_id es) \<and>
       set es = set cs \<union> {e. e \<in> ran (lookup s) \<and> (\<exists>f \<in> set fs. entry_matches e f)}) (\<lambda>_ _. False) s"
  using assms(2,3)
proof (induction fs arbitrary: cs)
  case Nil
  then show ?case by (simp add: wp_rules)
next
  case (Cons f fs)
  have same: "e = e'" if "e \<in> ran (lookup s)" "e' \<in> ran (lookup s)" "entry_id e = entry_id e'" for e e'
    using that keyed_law [OF assms(1)] by (auto simp: ran_def)
  show ?case unfolding gather_candidates.simps wp_bind
  proof (rule wp_mono [OF search_law [OF assms(1)]], goal_cases)
    case (1 es t)
    then have es: "t = s" "set es = {e. e \<in> ran (lookup s) \<and> entry_matches e f}" by simp_all
    have kept: "set (keep_new cs es) = set cs \<union> set es"
    proof (rule antisym [OF keep_new_from], rule subsetI)
      fix e assume e: "e \<in> set cs \<union> set es"
      then have "entry_id e \<in> entry_id ` set (keep_new cs es)" by (auto simp: keep_new_ids)
      then obtain e' where e': "e' \<in> set (keep_new cs es)" "entry_id e' = entry_id e" by auto
      moreover have "e \<in> ran (lookup s)" "e' \<in> ran (lookup s)"
        using e e'(1) keep_new_from [of cs es] Cons.prems(2) es(2) by auto
      ultimately show "e \<in> set (keep_new cs es)" using same by metis
    qed
    then have "set (keep_new cs es) \<subseteq> ran (lookup s)" using Cons.prems(2) es by auto
    from Cons.IH [OF keep_new_distinct [OF Cons.prems(1)] this] show ?case
      unfolding es(1) by (rule wp_mono) (auto simp: kept es(2))
  qed simp
qed

end

end
