(* ===== verification/Boundaries.thy ===== *)
theory Boundaries
  imports Genesis
begin

text \<open>
  Boundary adapters: \<^verbatim>\<open>src/src/ghostmesh/boundaries.py\<close>, class \<^verbatim>\<open>BoundaryAdapterService\<close>. A source
  adapter maps an external payload to a new card, a sink adapter maps a card to an external
  response; both check a token, follow the mapping of their contract and derive idempotency keys.
  Decoding a contract from the configuration of a node is pydantic's and a parameter
  (\<open>contract_decoders\<close>), as are the replacement fields of \<^verbatim>\<open>str.format\<close> that carry a conversion, a
  format specification or an attribute.
\<close>

section \<open>Contracts, requests and results\<close>

record boundary_auth =
  auth_token :: "string option"
  auth_tokens :: "string list"

record source_boundary_contract =
  source_adapter :: string
  source_auth :: "boundary_auth option"
  source_payload_map :: "(string, string) dict"
  source_metadata_map :: "(string, string) dict"
  source_deduplication_key :: "string option"
  source_target_workflow_version :: "string option"

record sink_boundary_contract =
  sink_adapter :: string
  sink_auth :: "boundary_auth option"
  sink_payload_map :: "(string, string) dict"
  sink_idempotency_key :: "string option"
  sink_external_reference_path :: "string option"

record boundary_source_request =
  bsrc_patch_panel_id :: string
  bsrc_source_id :: string
  bsrc_external_payload :: jdict
  bsrc_headers :: jdict
  bsrc_actor_token :: "string option"

record boundary_sink_request =
  bsnk_patch_panel_id :: string
  bsnk_sink_id :: string
  bsnk_card_id :: uuid
  bsnk_external_response :: jdict
  bsnk_actor_token :: "string option"

record source_boundary_result =
  src_result_card :: card
  src_result_deduplication_key :: "string option"
  src_result_adapter :: string

record sink_boundary_result =
  snk_result_event :: card_event
  snk_result_external_reference :: "string option"
  snk_result_egress_idempotency_key :: "string option"
  snk_result_adapter :: string

record contract_decoders =
  decode_source_contract :: "json \<Rightarrow> source_boundary_contract res"
  decode_sink_contract :: "json \<Rightarrow> sink_boundary_contract res"
  format_field :: "string \<Rightarrow> (string \<times> string) list \<Rightarrow> string res"

section \<open>Helpers\<close>

definition registered_patch_panel :: "'s card_runtime \<Rightarrow> string \<Rightarrow> ('s, patch_panel) M" where
  "registered_patch_panel rt pid =
     bindM (rt_list_patch_panels rt) (\<lambda>ps. case find (\<lambda>p. panel_id p = pid) ps of
       Some p \<Rightarrow> returnM p
     | None \<Rightarrow> raiseM (NotFoundError (''Patch Panel '' @ quoted pid @ '' is not registered'')))"

definition ensure_authorized :: "boundary_auth option \<Rightarrow> string option \<Rightarrow> unit res" where
  "ensure_authorized auth token =
     (case auth of
        None \<Rightarrow> Inr ()
      | Some a \<Rightarrow>
          (let allowed = auth_tokens a @ (if truthy (auth_token a) then [the (auth_token a)] else [])
           in if allowed \<noteq> [] \<and> token \<notin> Some ` set allowed
              then Inl (InvalidOperationError ''boundary adapter authorization failed'') else Inr ()))"

definition envelope_of :: "jdict \<Rightarrow> jdict \<Rightarrow> jdict" where
  "envelope_of payload headers = [(''payload'', JDict payload), (''headers'', JDict headers)]"

text \<open>\<^verbatim>\<open>s.split(c)\<close> for a separator of one character.\<close>

fun split_at :: "char \<Rightarrow> string \<Rightarrow> string list" where
  "split_at c [] = [[]]"
| "split_at c (x # xs) =
     (if x = c then [] # split_at c xs
      else (case split_at c xs of [] \<Rightarrow> [[x]] | p # ps \<Rightarrow> (x # p) # ps))"

fun walk_path :: "json \<Rightarrow> string list \<Rightarrow> json option" where
  "walk_path v [] = Some v"
| "walk_path v (p # ps) =
     (case v of JDict d \<Rightarrow> (case dict_get d p of Some w \<Rightarrow> walk_path w ps | None \<Rightarrow> None) | _ \<Rightarrow> None)"

definition extract_path :: "jdict \<Rightarrow> string option \<Rightarrow> json res" where
  "extract_path envelope path =
     (if \<not> truthy path then Inr JNull
      else (case walk_path (JDict envelope) (split_at CHR ''.'' (the path)) of
          Some v \<Rightarrow> Inr v
        | None \<Rightarrow> Inl (InvalidOperationError (''boundary mapping path '' @ quoted (the path) @ '' was not found''))))"

fun map_payload :: "jdict \<Rightarrow> (string, string) dict \<Rightarrow> jdict res" where
  "map_payload envelope [] = Inr []"
| "map_payload envelope ((target, source) # rest) =
     (case extract_path envelope (Some source) of
        Inl e \<Rightarrow> Inl e
      | Inr v \<Rightarrow> (case map_payload envelope rest of Inl e \<Rightarrow> Inl e | Inr d \<Rightarrow> Inr ((target, v) # d)))"

subsection \<open>Templates\<close>

text \<open>
  The text of a replacement field, up to its closing brace, and what follows it; braces nest inside
  a format specification.
\<close>

fun field_text :: "nat \<Rightarrow> string \<Rightarrow> (string \<times> string) option" where
  "field_text d [] = None"
| "field_text d (c # cs) =
     (if c = CHR ''}'' then
        (case d of 0 \<Rightarrow> Some ([], cs)
         | Suc d' \<Rightarrow> map_option (\<lambda>(f, r). (c # f, r)) (field_text d' cs))
      else if c = CHR ''{'' then map_option (\<lambda>(f, r). (c # f, r)) (field_text (Suc d) cs)
      else map_option (\<lambda>(f, r). (c # f, r)) (field_text d cs))"

lemma field_text_length: "field_text d cs = Some (f, r) \<Longrightarrow> length r < length cs"
  by (induction d cs arbitrary: f rule: field_text.induct)
     (auto split: if_splits nat.splits simp: less_Suc_eq)

definition plain_field :: "string \<Rightarrow> bool" where
  "plain_field f \<longleftrightarrow> list_all (\<lambda>c. c \<notin> set ''!:.[{}'') f"

definition field_value ::
  "(string \<Rightarrow> (string \<times> string) list \<Rightarrow> string res) \<Rightarrow> (string \<times> string) list \<Rightarrow> string \<Rightarrow> string res" where
  "field_value ff values f =
     (if \<not> plain_field f then ff f values
      else if list_all is_digit f
      then Inl (IndexError ''Replacement index out of range for positional args tuple'')
      else (case dict_get values f of Some v \<Rightarrow> Inr v | None \<Rightarrow> Inl (KeyError f)))"

text \<open>\<^verbatim>\<open>template.format(**values)\<close>.\<close>

function py_format ::
  "(string \<Rightarrow> (string \<times> string) list \<Rightarrow> string res) \<Rightarrow> (string \<times> string) list \<Rightarrow> string \<Rightarrow> string res" where
  "py_format ff values tmpl =
     (case tmpl of
        [] \<Rightarrow> Inr []
      | c # cs \<Rightarrow>
          if c = CHR ''{'' then
            (case cs of
               [] \<Rightarrow> Inl (ValueError ''Single '{' encountered in format string'')
             | c2 # cs2 \<Rightarrow>
                 if c2 = CHR ''{'' then map_sum id (Cons c) (py_format ff values cs2)
                 else (case field_text 0 cs of
                     None \<Rightarrow> Inl (ValueError ''expected '}' before end of string'')
                   | Some (f, rest) \<Rightarrow>
                       (case field_value ff values f of
                          Inl e \<Rightarrow> Inl e
                        | Inr v \<Rightarrow> map_sum id (append v) (py_format ff values rest))))
          else if c = CHR ''}'' then
            (case cs of
               c2 # cs2 \<Rightarrow>
                 if c2 = CHR ''}'' then map_sum id (Cons c) (py_format ff values cs2)
                 else Inl (ValueError ''Single '}' encountered in format string'')
             | [] \<Rightarrow> Inl (ValueError ''Single '}' encountered in format string''))
          else map_sum id (Cons c) (py_format ff values cs))"
  by pat_completeness auto
termination
  by (relation "measure (\<lambda>(ff, values, tmpl). length tmpl)") (auto simp del: field_text.simps dest: field_text_length)

declare py_format.simps [simp del]

definition render_template ::
  "(string \<Rightarrow> (string \<times> string) list \<Rightarrow> string res) \<Rightarrow> string \<Rightarrow> card \<Rightarrow> string \<Rightarrow> string option \<Rightarrow> string res" where
  "render_template ff template c sink_id external_reference =
     (let values = [(''card_id'', uuid_str (card_id c)), (''sink_id'', sink_id),
            (''workflow_version'', card_workflow_version c),
            (''external_reference'', if truthy external_reference then the external_reference else [])];
          parts = map strip (split_at CHR ''+'' template)
      in case dict_get values template of
           Some v \<Rightarrow> Inr v
         | None \<Rightarrow>
             if length parts > 1 \<and> list_all (\<lambda>p. dict_get values p \<noteq> None) parts
             then Inr (join '':'' (map (\<lambda>p. the (dict_get values p)) parts))
             else py_format ff values template)"

section \<open>Ingress\<close>

text \<open>\<^verbatim>\<open>node.config.get(a, node.config.get(b, {}))\<close>.\<close>

definition contract_config :: "node_definition \<Rightarrow> string \<Rightarrow> json" where
  "contract_config n fallback =
     (case dict_get (node_config n) ''boundary_contract'' of
        Some v \<Rightarrow> v
      | None \<Rightarrow> (case dict_get (node_config n) fallback of Some v \<Rightarrow> v | None \<Rightarrow> JDict []))"

definition source_key :: "patch_panel \<Rightarrow> node_definition \<Rightarrow> string option \<Rightarrow> string \<Rightarrow> string option" where
  "source_key p n dedup tag =
     (if truthy dedup
      then Some (''boundary-source:'' @ panel_id p @ '':'' @ node_id n @ '':'' @ the dedup @ tag) else None)"

definition boundary_execute_source ::
  "contract_decoders \<Rightarrow> 's card_runtime \<Rightarrow> boundary_source_request \<Rightarrow> ('s, source_boundary_result) M" where
  "boundary_execute_source cd rt req =
     bindM (registered_patch_panel rt (bsrc_patch_panel_id req)) (\<lambda>p.
     bindM (liftM (find_node p (bsrc_source_id req) SOURCE)) (\<lambda>n.
     bindM (liftM (decode_source_contract cd (contract_config n ''ingress_contract''))) (\<lambda>contract.
     bindM (liftM (ensure_authorized (source_auth contract) (bsrc_actor_token req))) (\<lambda>_.
     if source_target_workflow_version contract \<noteq> None \<and>
        source_target_workflow_version contract \<noteq> Some (workflow_version_id p)
     then raiseM (InvalidOperationError (''source '' @ quoted (node_id n) @ '' targets workflow ''
            @ quoted (the (source_target_workflow_version contract)) @ '', not '' @ quoted (workflow_version_id p)))
     else
       let envelope = envelope_of (bsrc_external_payload req) (bsrc_headers req) in
       bindM (liftM (map_payload envelope (source_payload_map contract))) (\<lambda>mapped.
       bindM (liftM (map_payload envelope (source_metadata_map contract))) (\<lambda>metadata.
       bindM (if truthy (source_deduplication_key contract)
              then bindM (liftM (extract_path envelope (source_deduplication_key contract))) (\<lambda>v.
                     returnM (Some (py_str v)))
              else returnM None) (\<lambda>dedup.
       bindM (execute_source
                \<lparr>ex_patch_panel = p, ex_runtime = rt, ex_registry = None, ex_authorization_repository = None\<rparr>
                (node_id n) (if mapped \<noteq> [] then mapped else bsrc_external_payload req)
                (Some (dict_update metadata
                   ([(''boundary_adapter'', JStr (source_adapter contract)),
                     (''boundary_source'', JStr (node_id n))] @
                    (if truthy dedup then [(''deduplication_key'', JStr (the dedup))] else []))))
                (source_key p n dedup [])) (\<lambda>c.
       bindM (rt_record_event rt (card_id c) ''boundary_source_received'' (Some (node_id n))
                (Some [(''adapter'', JStr (source_adapter contract)), (''source_id'', JStr (node_id n)),
                       (''deduplication_key'', opt_json dedup), (''headers'', JDict (bsrc_headers req))])
                (source_key p n dedup '':event'')) (\<lambda>_.
       returnM \<lparr>src_result_card = c, src_result_deduplication_key = dedup,
         src_result_adapter = source_adapter contract\<rparr>)))))))))"

section \<open>Egress\<close>

definition external_reference_of ::
  "sink_boundary_contract \<Rightarrow> jdict \<Rightarrow> jdict \<Rightarrow> string option res" where
  "external_reference_of contract envelope response =
     (if truthy (sink_external_reference_path contract)
      then (case extract_path envelope (sink_external_reference_path contract) of
          Inl e \<Rightarrow> Inl e | Inr v \<Rightarrow> Inr (Some (py_str v)))
      else (case dict_get response ''external_reference'' of
          None \<Rightarrow> Inr None | Some JNull \<Rightarrow> Inr None | Some v \<Rightarrow> Inr (Some (py_str v))))"

definition sink_key :: "patch_panel \<Rightarrow> node_definition \<Rightarrow> string \<Rightarrow> string" where
  "sink_key p n egress = ''boundary-sink:'' @ panel_id p @ '':'' @ node_id n @ '':'' @ egress"

definition boundary_execute_sink ::
  "encoders \<Rightarrow> contract_decoders \<Rightarrow> 'z world_scheme decoders \<Rightarrow> 'z world_scheme card_runtime \<Rightarrow>
     boundary_sink_request \<Rightarrow> ('z world_scheme, sink_boundary_result) M" where
  "boundary_execute_sink enc cd dec rt req =
     bindM (registered_patch_panel rt (bsnk_patch_panel_id req)) (\<lambda>p.
     bindM (liftM (find_node p (bsnk_sink_id req) SINK)) (\<lambda>n.
     bindM (liftM (decode_sink_contract cd (contract_config n ''egress_contract''))) (\<lambda>contract.
     bindM (liftM (ensure_authorized (sink_auth contract) (bsnk_actor_token req))) (\<lambda>_.
     bindM (rt_get_card rt (bsnk_card_id req)) (\<lambda>c.
     let envelope = [(''card'', encode_card enc c), (''external_response'', JDict (bsnk_external_response req))] in
     bindM (liftM (map_payload envelope (sink_payload_map contract))) (\<lambda>external_payload.
     bindM (liftM (external_reference_of contract envelope (bsnk_external_response req))) (\<lambda>external_reference.
     bindM (liftM (render_template (format_field cd)
              (if truthy (sink_idempotency_key contract) then the (sink_idempotency_key contract)
               else ''card_id + sink_id'') c (node_id n) external_reference)) (\<lambda>egress.
     bindM (execute_sink dec
              \<lparr>ex_patch_panel = p, ex_runtime = rt, ex_registry = None, ex_authorization_repository = None\<rparr>
              (card_id c) (node_id n) external_reference (Some (sink_key p n egress))) (\<lambda>result.
     bindM (rt_record_event rt (card_id c) ''boundary_sink_egressed'' (Some (node_id n))
              (Some [(''adapter'', JStr (sink_adapter contract)), (''sink_id'', JStr (node_id n)),
                     (''external_payload'', JDict external_payload),
                     (''external_reference'', opt_json (sink_external_reference result)),
                     (''egress_idempotency_key'', JStr egress)])
              (Some (sink_key p n egress @ '':event''))) (\<lambda>_.
     returnM \<lparr>snk_result_event = sink_event result,
       snk_result_external_reference = sink_external_reference result,
       snk_result_egress_idempotency_key = Some egress, snk_result_adapter = sink_adapter contract\<rparr>))))))))))"

end
