(* ===== verification/Observability.thy ===== *)
theory Observability
  imports Boundaries "HOL-Library.Product_Lexorder"
begin

text \<open>
  Operator views: \<^verbatim>\<open>src/src/ghostmesh/observability.py\<close>, class \<^verbatim>\<open>ObservabilityService\<close>, over a runtime
  given by its protocol. The dictionaries the views return are records with the same keys; a rate
  is the exact quotient, which the program rounds to the nearest float.
\<close>

section \<open>Grouping and counting\<close>

text \<open>\<^verbatim>\<open>defaultdict(list)\<close> filled in a loop, and \<^verbatim>\<open>Counter\<close>: keys in order of first appearance.\<close>

definition group_by :: "('a \<Rightarrow> 'k) \<Rightarrow> 'a list \<Rightarrow> ('k, 'a list) dict" where
  "group_by key xs =
     fold (\<lambda>x d. dict_set (key x) ((case dict_get d (key x) of None \<Rightarrow> [] | Some ys \<Rightarrow> ys) @ [x]) d) xs []"

definition counter :: "'k list \<Rightarrow> ('k, nat) dict" where
  "counter ks = fold (\<lambda>k d. dict_set k ((case dict_get d k of None \<Rightarrow> 0 | Some n \<Rightarrow> n) + 1) d) ks []"

text \<open>\<^verbatim>\<open>int(delta.total_seconds())\<close>: truncation towards zero.\<close>

definition whole_seconds :: "int \<Rightarrow> int" where
  "whole_seconds us = (if 0 \<le> us then us div 1000000 else - ((- us) div 1000000))"

section \<open>Views\<close>

record lease_view =
  view_lease :: lease
  view_age_seconds :: int
  view_expires_in_seconds :: int

record decision_view =
  decision_view_card_id :: uuid
  decision_view_validator_id :: "string option"
  decision_view_accepted :: json
  decision_view_reason :: json
  decision_view_occurred_at :: datetime

record version_view =
  version_view_id :: string
  version_view_patch_panel_id :: string
  version_view_version :: string
  version_view_active :: bool

record topology_node =
  topology_node_id :: string
  topology_node_type :: node_type
  topology_node_validator_kind :: "string option"
  topology_node_input_pipes :: "string list"
  topology_node_output_pipes :: "string list"

record topology_view =
  topology_patch_panel_id :: string
  topology_version :: string
  topology_nodes :: "topology_node list"
  topology_edges :: "(string \<times> string \<times> string \<times> jdict option) list"
  topology_buckets :: "bucket_definition list"
  topology_mermaid :: string

record metrics_view =
  metrics_card_count :: nat
  metrics_bucket_load :: "(string \<times> nat) list"
  metrics_active_lease_count :: nat
  metrics_worker_activity :: "(string, (string, nat) dict) dict"
  metrics_event_counts :: "(string, nat) dict"
  metrics_acceptance_rate :: "rat option"
  metrics_retry_rate :: "rat option"
  metrics_failed_movement_count :: nat
  metrics_oldest_active_lease_age_seconds :: int

record dashboard_view =
  dashboard_topology :: topology_view
  dashboard_bucket_load :: "(string \<times> nat) list"
  dashboard_active_leases :: "lease_view list"
  dashboard_worker_activity :: "(string, (string, nat) dict) dict"
  dashboard_validator_decisions :: "decision_view list"
  dashboard_failed_movements :: "card_event list"
  dashboard_metrics :: metrics_view

definition node_shape :: "string \<Rightarrow> node_type \<Rightarrow> string" where
  "node_shape i ty =
     (let label = i @ [CHR 0x5C, CHR ''n''] @ node_type_value ty in
      if ty = SOURCE \<or> ty = SINK then ''(['' @ [CHR 0x22] @ label @ [CHR 0x22] @ ''])''
      else ''['' @ [CHR 0x22] @ label @ [CHR 0x22] @ '']'')"

definition mermaid :: "patch_panel \<Rightarrow> string" where
  "mermaid p = join [CHR 0x0A]
     ([''flowchart LR''] @
      map (\<lambda>n. ''  '' @ node_id n @ node_shape (node_id n) (node_type n)) (panel_nodes p) @
      map (\<lambda>e. ''  '' @ edge_from_node e @ '' -- '' @ edge_on e @ '' --> '' @ edge_to_node e) (panel_edges p))"

definition topology_of :: "patch_panel \<Rightarrow> topology_view" where
  "topology_of p = \<lparr>topology_patch_panel_id = panel_id p, topology_version = panel_version p,
     topology_nodes = map (\<lambda>n. \<lparr>topology_node_id = node_id n, topology_node_type = node_type n,
       topology_node_validator_kind = node_validator_kind n, topology_node_input_pipes = node_input_pipes n,
       topology_node_output_pipes = node_output_pipes n\<rparr>) (panel_nodes p),
     topology_edges = map (\<lambda>e. (edge_from_node e, edge_to_node e, edge_on e, edge_condition e)) (panel_edges p),
     topology_buckets = panel_buckets p, topology_mermaid = mermaid p\<rparr>"

definition topology :: "'s card_runtime \<Rightarrow> string \<Rightarrow> ('s, topology_view) M" where
  "topology rt pid = bindM (registered_patch_panel rt pid) (\<lambda>p. returnM (topology_of p))"

definition cards_by_bucket :: "'s card_runtime \<Rightarrow> ('s, (string, card list) dict) M" where
  "cards_by_bucket rt = bindM (rt_list_cards rt) (\<lambda>cs. returnM (group_by card_current_bucket cs))"

definition bucket_load :: "'s card_runtime \<Rightarrow> ('s, (string \<times> nat) list) M" where
  "bucket_load rt =
     bindM (cards_by_bucket rt) (\<lambda>d. returnM (map (\<lambda>(b, cs). (b, length cs)) (sort_key fst d)))"

definition active_leases :: "'z world_scheme card_runtime \<Rightarrow> ('z world_scheme, lease_view list) M" where
  "active_leases rt =
     bindM now_utc (\<lambda>now.
     bindM (rt_list_leases rt) (\<lambda>ls.
     returnM (map (\<lambda>l. \<lparr>view_lease = l, view_age_seconds = whole_seconds (now - lease_claimed_at l),
         view_expires_in_seconds = whole_seconds (lease_expires_at l - now)\<rparr>)
       (filter (lease_active now) ls))))"

text \<open>\<^verbatim>\<open>_all_events\<close>: the histories of all cards, sorted by time and then by the text of the id.\<close>

definition all_events :: "'s card_runtime \<Rightarrow> ('s, card_event list) M" where
  "all_events rt =
     bindM (rt_list_cards rt) (\<lambda>cs.
     bindM (forM cs (\<lambda>c. rt_card_history rt (card_id c))) (\<lambda>hs.
     returnM (sort_key (\<lambda>e. (event_occurred_at e, uuid_str (event_id e))) (concat hs))))"

definition worker_event :: "card_event \<Rightarrow> bool" where
  "worker_event e \<longleftrightarrow> event_type e \<in> {''card_claimed'', ''artifact_submitted'', ''lease_renewed'',
     ''lease_released'', ''lease_expired''}"

definition activity_of :: "card_event list \<Rightarrow> (string, (string, nat) dict) dict" where
  "activity_of events =
     map (\<lambda>(w, es). (w, counter (map event_type es)))
       (group_by (\<lambda>e. if truthy (event_actor_id e) then the (event_actor_id e) else ''unknown'')
          (filter worker_event events))"

definition worker_activity :: "'s card_runtime \<Rightarrow> ('s, (string, (string, nat) dict) dict) M" where
  "worker_activity rt = bindM (all_events rt) (\<lambda>es. returnM (activity_of es))"

definition validator_decisions :: "'s card_runtime \<Rightarrow> ('s, decision_view list) M" where
  "validator_decisions rt =
     bindM (all_events rt) (\<lambda>es.
     returnM (map (\<lambda>e. \<lparr>decision_view_card_id = event_card_id e, decision_view_validator_id = event_actor_id e,
         decision_view_accepted = json_get (event_payload e) ''accepted'',
         decision_view_reason = json_get (event_payload e) ''reason'',
         decision_view_occurred_at = event_occurred_at e\<rparr>)
       (filter (\<lambda>e. event_type e = ''card_validated'') es)))"

definition workflow_versions :: "'s card_runtime \<Rightarrow> ('s, version_view list) M" where
  "workflow_versions rt =
     bindM (rt_list_patch_panels rt) (\<lambda>ps.
     returnM (map (\<lambda>p. \<lparr>version_view_id = workflow_version_id p, version_view_patch_panel_id = panel_id p,
       version_view_version = panel_version p, version_view_active = True\<rparr>) ps))"

definition failed_movements :: "'s card_runtime \<Rightarrow> ('s, card_event list) M" where
  "failed_movements rt =
     bindM (all_events rt) (\<lambda>es.
     returnM (filter (\<lambda>e. event_type e \<in> {''card_move_failed'', ''failed_dropoff'', ''sink_failed''}) es))"

definition retry_rate :: "card_event list \<Rightarrow> rat option" where
  "retry_rate events =
     (let retries = filter (\<lambda>e. event_type e \<in> {''lease_expired'', ''card_move_failed'', ''failed_dropoff''}) events;
          claims = filter (\<lambda>e. event_type e = ''card_claimed'') events
      in if claims = [] then None else Some (of_nat (length retries) / of_nat (length claims)))"

definition acceptance_rate :: "card_event list \<Rightarrow> rat option" where
  "acceptance_rate events =
     (let decisions = filter (\<lambda>e. event_type e = ''card_validated'') events;
          accepted = filter (\<lambda>e. dict_get (event_payload e) ''accepted'' = Some (JBool True)) decisions
      in if decisions = [] then None else Some (of_nat (length accepted) / of_nat (length decisions)))"

definition metrics :: "'z world_scheme card_runtime \<Rightarrow> ('z world_scheme, metrics_view) M" where
  "metrics rt =
     bindM (all_events rt) (\<lambda>events.
     bindM (active_leases rt) (\<lambda>active.
     bindM (rt_list_cards rt) (\<lambda>cs.
     bindM (bucket_load rt) (\<lambda>load.
     bindM (worker_activity rt) (\<lambda>activity.
     bindM (failed_movements rt) (\<lambda>failed.
     returnM \<lparr>metrics_card_count = length cs, metrics_bucket_load = load,
       metrics_active_lease_count = length active, metrics_worker_activity = activity,
       metrics_event_counts = counter (map event_type events),
       metrics_acceptance_rate = acceptance_rate events, metrics_retry_rate = retry_rate events,
       metrics_failed_movement_count = length failed,
       metrics_oldest_active_lease_age_seconds =
         (case map view_age_seconds active of [] \<Rightarrow> 0 | a # as \<Rightarrow> fold max as a)\<rparr>))))))"

definition dashboard :: "'z world_scheme card_runtime \<Rightarrow> string \<Rightarrow> ('z world_scheme, dashboard_view) M" where
  "dashboard rt pid =
     bindM (topology rt pid) (\<lambda>top.
     bindM (bucket_load rt) (\<lambda>load.
     bindM (active_leases rt) (\<lambda>active.
     bindM (worker_activity rt) (\<lambda>activity.
     bindM (validator_decisions rt) (\<lambda>decisions.
     bindM (failed_movements rt) (\<lambda>failed.
     bindM (metrics rt) (\<lambda>m.
     returnM \<lparr>dashboard_topology = top, dashboard_bucket_load = load, dashboard_active_leases = active,
       dashboard_worker_activity = activity, dashboard_validator_decisions = decisions,
       dashboard_failed_movements = failed, dashboard_metrics = m\<rparr>)))))))"

section \<open>What grouping and counting compute\<close>

text \<open>A group holds the elements with its key, in order; a counter the number of occurrences.\<close>

lemma group_by_snoc:
  "group_by key (xs @ [x]) =
     dict_set (key x) ((case dict_get (group_by key xs) (key x) of None \<Rightarrow> [] | Some ys \<Rightarrow> ys) @ [x]) (group_by key xs)"
  by (simp add: group_by_def)

lemma group_by_ok: "dict_ok (group_by key xs)"
  by (induction xs rule: rev_induct) (simp_all add: group_by_snoc, simp add: group_by_def)

lemma group_by_get:
  "dict_get (group_by key xs) k = (let ys = filter (\<lambda>x. key x = k) xs in if ys = [] then None else Some ys)"
proof (induction xs rule: rev_induct)
  case Nil
  then show ?case by (simp add: group_by_def)
next
  case (snoc x xs)
  then show ?case by (cases "key x = k") (auto simp: group_by_snoc Let_def split: if_splits)
qed

lemma counter_snoc:
  "counter (ks @ [k]) = dict_set k ((case dict_get (counter ks) k of None \<Rightarrow> 0 | Some n \<Rightarrow> n) + 1) (counter ks)"
  by (simp add: counter_def)

lemma counter_get:
  "dict_get (counter ks) k = (if k \<in> set ks then Some (count_list ks k) else None)"
proof (induction ks rule: rev_induct)
  case Nil
  then show ?case by (simp add: counter_def)
next
  case (snoc x xs)
  then show ?case by (cases "x = k") (auto simp: counter_snoc split: if_splits)
qed

text \<open>The sizes of the groups add up to the number of elements.\<close>

lemma sum_dict_set:
  assumes "dict_ok d"
  shows "sum_list (map (\<lambda>p. f (snd p)) (dict_set k v d)) + (case dict_get d k of None \<Rightarrow> 0 | Some w \<Rightarrow> f w) =
    sum_list (map (\<lambda>p. f (snd p)) d) + (f v :: nat)"
  using assms by (induction d) (auto split: option.splits)

lemma group_by_total: "sum_list (map (\<lambda>p. length (snd p)) (group_by key xs)) = length xs"
proof (induction xs rule: rev_induct)
  case Nil
  then show ?case by (simp add: group_by_def)
next
  case (snoc x xs)
  then show ?case
    using sum_dict_set [OF group_by_ok, of length "key x"
        "(case dict_get (group_by key xs) (key x) of None \<Rightarrow> [] | Some ys \<Rightarrow> ys) @ [x]" key xs]
    by (auto simp: group_by_snoc split: option.splits)
qed

end
