(* ===== verification/ApiRequests.thy ===== *)
theory ApiRequests
  imports SystemBootstrap
begin

text \<open>
  The requests of the HTTP API and what its handlers share: \<^verbatim>\<open>src/src/ghostmesh/api/main.py\<close>, the
  request classes and the module functions after \<^verbatim>\<open>create_app\<close>. The record \<open>app\<close> holds what
  \<^verbatim>\<open>create_app\<close> puts into the application: the services by their protocols and the authorization flag,
  beside the library functions the services take as parameters. FastAPI's decoding of requests and
  encoding of responses is not modelled: a handler takes the decoded request and returns a value.
\<close>

section \<open>Requests\<close>

record create_card_request =
  ccr_patch_panel_id :: string
  ccr_payload :: jdict
  ccr_metadata :: jdict

record claim_card_request =
  clr_input_pipe :: string
  clr_worker_id :: string
  clr_lease_seconds :: int

record submit_artifact_request =
  sar_lease_id :: uuid
  sar_output_pipe :: string
  sar_artifact_refs :: "artifact_reference list"

record validate_card_request =
  vcr_validator_id :: string
  vcr_accepted :: bool
  vcr_reason :: "string option"
  vcr_output_pipe :: "string option"

record move_card_request =
  mcr_to_bucket :: string
  mcr_actor_id :: "string option"
  mcr_reason :: "string option"

record source_execution_request =
  ser_patch_panel_id :: string
  ser_source_id :: string
  ser_payload :: jdict
  ser_metadata :: jdict

record worker_execution_request =
  wer_patch_panel_id :: string
  wer_input_pipe :: string
  wer_output_pipe :: string
  wer_worker_id :: string
  wer_artifact_refs :: "artifact_reference list"
  wer_lease_seconds :: int

record validator_execution_request =
  ver_patch_panel_id :: string
  ver_card_id :: uuid
  ver_validator_id :: string
  ver_accepted :: "bool option"
  ver_selected_exit :: "string option"
  ver_score :: "int option"
  ver_reason :: "string option"
  ver_payload :: jdict

record sink_execution_request =
  sker_patch_panel_id :: string
  sker_card_id :: uuid
  sker_sink_id :: string
  sker_external_reference :: "string option"

record create_shadow_request =
  csr_production_card_id :: uuid
  csr_candidate_id :: string
  csr_sample_rate :: rat
  csr_max_parallel :: int

record proposed_mutation_request =
  pmr_mutation_type :: string
  pmr_proposed_by :: string
  pmr_payload :: jdict

record mutation_validation_request =
  mvr_accepted :: bool
  mvr_validator_id :: string
  mvr_reason :: "string option"

record human_validator_decision_request =
  hvr_patch_panel_id :: string
  hvr_accepted :: bool
  hvr_selected_exit :: "string option"
  hvr_score :: "int option"
  hvr_reason :: "string option"

record register_registry_request =
  rrr_patch_panel :: patch_panel
  rrr_registry_metadata :: registry_metadata
  rrr_metadata :: jdict

record create_participant_request =
  cpr_id :: string
  cpr_type :: participant_type
  cpr_display_name :: "string option"
  cpr_status :: participant_status
  cpr_trust_level :: "string option"
  cpr_auth_method :: "string option"
  cpr_metadata :: jdict

record assign_role_request =
  arr_role_name :: role_name
  arr_scope :: scope
  arr_assigned_by :: "string option"

record grant_permission_request =
  gpr_permission :: permission_name
  gpr_scope :: scope
  gpr_granted_by :: "string option"

record genesis_intent_request =
  gir_requested_by :: string
  gir_deduplication_key :: string
  gir_goal :: string
  gir_input_type :: string
  gir_desired_outputs :: "string list"
  gir_tags :: "string list"
  gir_constraints :: intent_constraints
  gir_launch_if_existing :: bool
  gir_propose_if_missing :: bool
  gir_metadata :: jdict

record propose_genesis_request =
  pgr_proposed_by :: string
  pgr_candidate_definition :: patch_panel
  pgr_registry_metadata :: registry_metadata
  pgr_base_patch_panel_id :: "string option"
  pgr_base_version :: "string option"

section \<open>The application and its helpers\<close>

record ('g, 's) app =
  app_graphs :: "'g networkx"
  app_decoders :: "'s decoders"
  app_encoders :: encoders
  app_contracts :: contract_decoders
  app_runtime :: "'s card_runtime"
  app_registry :: "'s patch_panel_registry"
  app_repository :: "'s auth_repository"
  app_authorization_enabled :: bool

fun permission_name_value :: "permission_name \<Rightarrow> string" where
  "permission_name_value PATCH_PANEL_CREATE = ''patch_panel:create''"
| "permission_name_value PATCH_PANEL_EDIT_DRAFT = ''patch_panel:edit_draft''"
| "permission_name_value PATCH_PANEL_PUBLISH_VERSION = ''patch_panel:publish_version''"
| "permission_name_value PATCH_PANEL_ARCHIVE = ''patch_panel:archive''"
| "permission_name_value PATCH_PANEL_DISCOVER = ''patch_panel:discover''"
| "permission_name_value BUCKET_CREATE = ''bucket:create''"
| "permission_name_value NODE_CREATE = ''node:create''"
| "permission_name_value EDGE_CREATE = ''edge:create''"
| "permission_name_value PIPE_BINDING_CREATE = ''pipe_binding:create''"
| "permission_name_value CARD_CREATE = ''card:create''"
| "permission_name_value CARD_CLAIM = ''card:claim''"
| "permission_name_value CARD_SUBMIT_ARTIFACT = ''card:submit_artifact''"
| "permission_name_value CARD_RELEASE = ''card:release''"
| "permission_name_value CARD_VIEW = ''card:view''"
| "permission_name_value VALIDATION_SUBMIT = ''validation:submit''"
| "permission_name_value MUTATION_PROPOSE = ''mutation:propose''"
| "permission_name_value MUTATION_VALIDATE = ''mutation:validate''"
| "permission_name_value MUTATION_PROMOTE = ''mutation:promote''"
| "permission_name_value SHADOW_CREATE = ''shadow:create''"
| "permission_name_value SHADOW_COMPLETE = ''shadow:complete''"
| "permission_name_value SINK_EXECUTE = ''sink:execute''"
| "permission_name_value BOUNDARY_SOURCE_INGRESS = ''boundary:source_ingress''"
| "permission_name_value BOUNDARY_SINK_EGRESS = ''boundary:sink_egress''"
| "permission_name_value PARTICIPANT_MANAGE = ''participant:manage''"
| "permission_name_value PERMISSION_GRANT = ''permission:grant''"
| "permission_name_value AUDIT_VIEW = ''audit:view''"

text \<open>\<^verbatim>\<open>Scope(type=..., id=...)\<close>: an empty id is refused by the model.\<close>

definition scoped :: "scope_type \<Rightarrow> string \<Rightarrow> scope res" where
  "scoped ty i = validate_scope_id \<lparr>scope_type = ty, scope_id = Some i\<rparr>"

definition authorize_call ::
  "('g, 'z world_scheme) app \<Rightarrow> string option \<Rightarrow> permission_name \<Rightarrow> scope \<Rightarrow> string option \<Rightarrow> jdict \<Rightarrow>
     ('z world_scheme, string option) M" where
  "authorize_call app hdr perm sc participant ctx =
     authorize_request (app_repository app) (app_authorization_enabled app) hdr perm sc (Some ctx) participant"

definition authorize_scoped ::
  "('g, 'z world_scheme) app \<Rightarrow> string option \<Rightarrow> permission_name \<Rightarrow> scope_type \<Rightarrow> string \<Rightarrow> string option \<Rightarrow>
     jdict \<Rightarrow> ('z world_scheme, string option) M" where
  "authorize_scoped app hdr perm ty i participant ctx =
     bindM (liftM (scoped ty i)) (\<lambda>sc. authorize_call app hdr perm sc participant ctx)"

definition authorize_ops_read ::
  "('g, 'z world_scheme) app \<Rightarrow> string option \<Rightarrow> string option \<Rightarrow> ('z world_scheme, string option) M" where
  "authorize_ops_read app hdr pid =
     (if truthy pid
      then authorize_scoped app hdr AUDIT_VIEW PATCH_PANEL (the pid) None [(''patch_panel_id'', JStr (the pid))]
      else authorize_call app hdr AUDIT_VIEW global_scope None [])"

definition resolved_actor :: "string option \<Rightarrow> string option \<Rightarrow> string" where
  "resolved_actor hdr fallback =
     (if truthy hdr then the hdr else if truthy fallback then the fallback else ''unknown'')"

definition record_app_audit ::
  "('g, 'z world_scheme) app \<Rightarrow> audit_action \<Rightarrow> string option \<Rightarrow> permission_name option \<Rightarrow> scope \<Rightarrow> string \<Rightarrow>
     string option \<Rightarrow> jdict option \<Rightarrow> ('z world_scheme, unit) M" where
  "record_app_audit app action pid perm sc target reason metadata =
     bindM (record_audit (app_repository app) action pid perm (Some sc) (Some True) reason None (Some target) metadata)
       (\<lambda>_. returnM ())"

definition app_executor :: "('g, 's) app \<Rightarrow> string \<Rightarrow> ('s, 's node_executor) M" where
  "app_executor app pid =
     bindM (registered_patch_panel (app_runtime app) pid) (\<lambda>p.
     returnM \<lparr>ex_patch_panel = p, ex_runtime = app_runtime app, ex_registry = Some (app_registry app),
       ex_authorization_repository = Some (app_repository app)\<rparr>)"

definition validator_input_buckets :: "patch_panel \<Rightarrow> string \<Rightarrow> string list res" where
  "validator_input_buckets p vid =
     (case find (\<lambda>n. node_id n = vid) (panel_nodes p) of
        None \<Rightarrow> Inl (NotFoundError (''validator '' @ quoted vid @ '' is not registered''))
      | Some n \<Rightarrow> Inr (concat (map (\<lambda>pipe. case dict_get (panel_pipe_bindings p) pipe of
            None \<Rightarrow> [] | Some b \<Rightarrow> [binding_bucket b]) (node_input_pipes n))))"

text \<open>
  \<^verbatim>\<open>create_app\<close>: the system is initialized, the shadow and genesis services start empty, and the flag is
  taken from the settings.
\<close>

definition create_app ::
  "'g networkx \<Rightarrow> files \<Rightarrow> 'z mesh_scheme decoders \<Rightarrow> encoders \<Rightarrow> contract_decoders \<Rightarrow> settings \<Rightarrow>
     'z mesh_scheme services \<Rightarrow> ('z mesh_scheme, ('g, 'z mesh_scheme) app) M" where
  "create_app nx fs dec enc cd st svc =
     bindM (initialize_system nx fs dec st svc) (\<lambda>sys.
     bindM (modifyM (\<lambda>s. s\<lparr>shadow_links := [], shadow_mutations := [], genesis_intents := [], genesis_index := []\<rparr>)) (\<lambda>_.
     returnM \<lparr>app_graphs = nx, app_decoders = dec, app_encoders = enc, app_contracts = cd,
       app_runtime = sys_runtime sys, app_registry = sys_registry sys, app_repository = sys_repository sys,
       app_authorization_enabled = set_authorization_enabled st\<rparr>))"

end
