(* ===== verification/Api.thy ===== *)
theory Api
  imports ApiRequests
begin

text \<open>
  The route handlers of the HTTP API: \<^verbatim>\<open>src/src/ghostmesh/api/main.py\<close>, the functions inside
  \<^verbatim>\<open>create_app\<close>, one command each, in the order of the file. Of the HTTP request a handler reads the
  participant header \<open>hdr\<close> and, where the route declares it, the idempotency header \<open>key\<close>.
  \<open>handle\<close> dispatches a request to its handler, and \<open>status_of\<close> is what the exception handlers make of
  an exception.
\<close>

section \<open>Participants\<close>

definition api_list_participants ::
  "('g, 'z mesh_scheme) app \<Rightarrow> string option \<Rightarrow> ('z mesh_scheme, participant list) M" where
  "api_list_participants app hdr =
     bindM (authorize_call app hdr PARTICIPANT_MANAGE global_scope None
              [(''operation'', JStr ''participants.list'')]) (\<lambda>_.
     repo_list_participants (app_repository app))"

definition api_create_participant ::
  "('g, 'z mesh_scheme) app \<Rightarrow> string option \<Rightarrow> create_participant_request \<Rightarrow> ('z mesh_scheme, participant) M" where
  "api_create_participant app hdr req =
     bindM (authorize_call app hdr PARTICIPANT_MANAGE global_scope None
              [(''operation'', JStr ''participants.create''), (''participant_id'', JStr (cpr_id req))]) (\<lambda>_.
     bindM now_utc (\<lambda>t.
     let p = \<lparr>participant_id = cpr_id req, participant_type = cpr_type req,
           participant_display_name = cpr_display_name req, participant_status = cpr_status req,
           participant_trust_level = cpr_trust_level req, participant_auth_method = cpr_auth_method req,
           participant_metadata = cpr_metadata req, participant_created_at = t, participant_archived_at = None\<rparr> in
     bindM (repo_upsert_participant (app_repository app) p) (\<lambda>_.
     returnM p)))"

definition api_assign_participant_role ::
  "('g, 'z mesh_scheme) app \<Rightarrow> string option \<Rightarrow> string \<Rightarrow> assign_role_request \<Rightarrow>
     ('z mesh_scheme, role_assignment) M" where
  "api_assign_participant_role app hdr pid req =
     bindM (authorize_call app hdr PERMISSION_GRANT (arr_scope req) (arr_assigned_by req)
              [(''operation'', JStr ''participants.assign_role''), (''participant_id'', JStr pid),
               (''role_name'', JStr (role_name_value (arr_role_name req)))]) (\<lambda>_.
     bindM (liftM (get_role_template (arr_role_name req))) (\<lambda>template.
     bindM (new_role_assignment pid (template_id template) (arr_scope req)
              (Some (resolved_actor hdr (arr_assigned_by req)))
              [(''builtin_role'', JStr (role_name_value (arr_role_name req)))]) (\<lambda>a.
     bindM (repo_add_role_assignment (app_repository app) a) (\<lambda>_.
     bindM (permission_grants template (arr_scope req) (Some (resolved_actor hdr (arr_assigned_by req))) None) (\<lambda>gs.
     bindM (forM gs (repo_add_permission_grant (app_repository app))) (\<lambda>_.
     returnM a))))))"

definition api_grant_participant_permission ::
  "('g, 'z mesh_scheme) app \<Rightarrow> string option \<Rightarrow> string \<Rightarrow> grant_permission_request \<Rightarrow>
     ('z mesh_scheme, permission_grant) M" where
  "api_grant_participant_permission app hdr pid req =
     bindM (authorize_call app hdr PERMISSION_GRANT (gpr_scope req) (gpr_granted_by req)
              [(''operation'', JStr ''participants.grant_permission''), (''participant_id'', JStr pid),
               (''permission'', JStr (permission_name_value (gpr_permission req)))]) (\<lambda>_.
     bindM uuid4 (\<lambda>i. bindM now_utc (\<lambda>t.
     let g = \<lparr>grant_id = i, grant_permission = gpr_permission req, grant_scope = gpr_scope req,
           grant_participant_id = Some pid, grant_role_id = None,
           grant_granted_by = Some (resolved_actor hdr (gpr_granted_by req)), grant_expires_at = None,
           grant_created_at = t, grant_revoked_at = None, grant_metadata = []\<rparr> in
     bindM (repo_add_permission_grant (app_repository app) g) (\<lambda>_.
     returnM g))))"

definition api_inspect_participant_permissions ::
  "('g, 'z mesh_scheme) app \<Rightarrow> string option \<Rightarrow> string \<Rightarrow> ('z mesh_scheme, permission_grant list) M" where
  "api_inspect_participant_permissions app hdr pid =
     bindM (authorize_call app hdr PERMISSION_GRANT global_scope None
              [(''operation'', JStr ''participants.inspect_permissions''), (''participant_id'', JStr pid)]) (\<lambda>_.
     repo_list_permission_grants (app_repository app) pid)"

section \<open>Operator views\<close>

definition api_operator_topology ::
  "('g, 'z mesh_scheme) app \<Rightarrow> string option \<Rightarrow> string \<Rightarrow> ('z mesh_scheme, topology_view) M" where
  "api_operator_topology app hdr pid =
     bindM (authorize_ops_read app hdr (Some pid)) (\<lambda>_. topology (app_runtime app) pid)"

definition api_operator_cards_by_bucket ::
  "('g, 'z mesh_scheme) app \<Rightarrow> string option \<Rightarrow> ('z mesh_scheme, (string, card list) dict) M" where
  "api_operator_cards_by_bucket app hdr =
     bindM (authorize_ops_read app hdr None) (\<lambda>_. cards_by_bucket (app_runtime app))"

definition api_operator_bucket_load ::
  "('g, 'z mesh_scheme) app \<Rightarrow> string option \<Rightarrow> ('z mesh_scheme, (string \<times> nat) list) M" where
  "api_operator_bucket_load app hdr =
     bindM (authorize_ops_read app hdr None) (\<lambda>_. bucket_load (app_runtime app))"

definition api_operator_active_leases ::
  "('g, 'z mesh_scheme) app \<Rightarrow> string option \<Rightarrow> ('z mesh_scheme, lease_view list) M" where
  "api_operator_active_leases app hdr =
     bindM (authorize_ops_read app hdr None) (\<lambda>_. active_leases (app_runtime app))"

definition api_operator_worker_activity ::
  "('g, 'z mesh_scheme) app \<Rightarrow> string option \<Rightarrow> ('z mesh_scheme, (string, (string, nat) dict) dict) M" where
  "api_operator_worker_activity app hdr =
     bindM (authorize_ops_read app hdr None) (\<lambda>_. worker_activity (app_runtime app))"

definition api_operator_validator_decisions ::
  "('g, 'z mesh_scheme) app \<Rightarrow> string option \<Rightarrow> ('z mesh_scheme, decision_view list) M" where
  "api_operator_validator_decisions app hdr =
     bindM (authorize_ops_read app hdr None) (\<lambda>_. validator_decisions (app_runtime app))"

definition api_operator_workflow_versions ::
  "('g, 'z mesh_scheme) app \<Rightarrow> string option \<Rightarrow> ('z mesh_scheme, version_view list) M" where
  "api_operator_workflow_versions app hdr =
     bindM (authorize_ops_read app hdr None) (\<lambda>_. workflow_versions (app_runtime app))"

definition api_operator_failed_movements ::
  "('g, 'z mesh_scheme) app \<Rightarrow> string option \<Rightarrow> ('z mesh_scheme, card_event list) M" where
  "api_operator_failed_movements app hdr =
     bindM (authorize_ops_read app hdr None) (\<lambda>_. failed_movements (app_runtime app))"

definition api_operator_metrics ::
  "('g, 'z mesh_scheme) app \<Rightarrow> string option \<Rightarrow> ('z mesh_scheme, metrics_view) M" where
  "api_operator_metrics app hdr =
     bindM (authorize_ops_read app hdr None) (\<lambda>_. metrics (app_runtime app))"

definition api_operator_dashboard ::
  "('g, 'z mesh_scheme) app \<Rightarrow> string option \<Rightarrow> string \<Rightarrow> ('z mesh_scheme, dashboard_view) M" where
  "api_operator_dashboard app hdr pid =
     bindM (authorize_ops_read app hdr (Some pid)) (\<lambda>_. dashboard (app_runtime app) pid)"

section \<open>Panels and the registry\<close>

definition api_list_patch_panels :: "('g, 'z mesh_scheme) app \<Rightarrow> ('z mesh_scheme, patch_panel list) M" where
  "api_list_patch_panels app = rt_list_patch_panels (app_runtime app)"

definition api_register_patch_panel ::
  "('g, 'z mesh_scheme) app \<Rightarrow> string option \<Rightarrow> patch_panel \<Rightarrow> ('z mesh_scheme, patch_panel) M" where
  "api_register_patch_panel app hdr p =
     bindM (authorize_scoped app hdr PATCH_PANEL_CREATE PATCH_PANEL (panel_id p) None
              [(''patch_panel_id'', JStr (panel_id p))]) (\<lambda>_.
     rt_register_patch_panel (app_runtime app) p)"

definition api_search_registry ::
  "('g, 'z mesh_scheme) app \<Rightarrow> string option \<Rightarrow> patch_panel_registry_search \<Rightarrow>
     ('z mesh_scheme, registry_entry list) M" where
  "api_search_registry app hdr f =
     bindM (authorize_call app hdr PATCH_PANEL_DISCOVER global_scope None
              [(''tag'', opt_json (search_tag f)), (''input_type'', opt_json (search_input_type f)),
               (''output_type'', opt_json (search_output_type f)),
               (''required_tool'', opt_json (search_required_tool f)),
               (''risk_level'', opt_json (search_risk_level f)),
               (''owner_participant_id'', opt_json (search_owner_participant_id f))]) (\<lambda>_.
     reg_search (app_registry app) f)"

definition api_register_registry_entry ::
  "('g, 'z mesh_scheme) app \<Rightarrow> string option \<Rightarrow> register_registry_request \<Rightarrow> ('z mesh_scheme, registry_entry) M" where
  "api_register_registry_entry app hdr req =
     bindM (authorize_scoped app hdr PATCH_PANEL_CREATE PATCH_PANEL (panel_id (rrr_patch_panel req)) None
              [(''patch_panel_id'', JStr (panel_id (rrr_patch_panel req)))]) (\<lambda>_.
     bindM (rt_register_patch_panel (app_runtime app) (rrr_patch_panel req)) (\<lambda>p.
     bindM (from_patch_panel p (rrr_registry_metadata req) None (Some (rrr_metadata req))) (\<lambda>e.
     reg_register (app_registry app) e)))"

definition api_get_registry_entry ::
  "('g, 'z mesh_scheme) app \<Rightarrow> string option \<Rightarrow> uuid \<Rightarrow> ('z mesh_scheme, registry_entry) M" where
  "api_get_registry_entry app hdr i =
     bindM (reg_get (app_registry app) i) (\<lambda>e.
     bindM (authorize_scoped app hdr PATCH_PANEL_DISCOVER PATCH_PANEL (entry_patch_panel_id e) None
              [(''patch_panel_id'', JStr (entry_patch_panel_id e))]) (\<lambda>_.
     returnM e))"

definition api_update_registry_entry ::
  "('g, 'z mesh_scheme) app \<Rightarrow> string option \<Rightarrow> uuid \<Rightarrow> registry_metadata \<Rightarrow> ('z mesh_scheme, registry_entry) M" where
  "api_update_registry_entry app hdr i m =
     bindM (reg_get (app_registry app) i) (\<lambda>e.
     bindM (authorize_scoped app hdr PATCH_PANEL_EDIT_DRAFT PATCH_PANEL (entry_patch_panel_id e) None
              [(''patch_panel_id'', JStr (entry_patch_panel_id e))]) (\<lambda>_.
     reg_update_metadata (app_registry app) i m))"

definition api_archive_registry_entry ::
  "('g, 'z mesh_scheme) app \<Rightarrow> string option \<Rightarrow> uuid \<Rightarrow> ('z mesh_scheme, registry_entry) M" where
  "api_archive_registry_entry app hdr i =
     bindM (reg_get (app_registry app) i) (\<lambda>e.
     bindM (authorize_scoped app hdr PATCH_PANEL_ARCHIVE PATCH_PANEL (entry_patch_panel_id e) None
              [(''patch_panel_id'', JStr (entry_patch_panel_id e))]) (\<lambda>_.
     reg_archive (app_registry app) i))"

definition api_supersede_registry_entry ::
  "('g, 'z mesh_scheme) app \<Rightarrow> string option \<Rightarrow> uuid \<Rightarrow> uuid \<Rightarrow> ('z mesh_scheme, registry_entry) M" where
  "api_supersede_registry_entry app hdr i by_id =
     bindM (reg_get (app_registry app) i) (\<lambda>e.
     bindM (authorize_scoped app hdr PATCH_PANEL_ARCHIVE PATCH_PANEL (entry_patch_panel_id e) None
              [(''patch_panel_id'', JStr (entry_patch_panel_id e)),
               (''superseded_by_entry_id'', JStr (uuid_str by_id))]) (\<lambda>_.
     reg_supersede (app_registry app) i by_id))"

section \<open>Genesis\<close>

definition api_receive_genesis_intent ::
  "('g, 'z mesh_scheme) app \<Rightarrow> string option \<Rightarrow> genesis_intent_request \<Rightarrow> ('z mesh_scheme, genesis_intent) M" where
  "api_receive_genesis_intent app hdr req =
     bindM (authorize_call app hdr PATCH_PANEL_DISCOVER global_scope (Some (gir_requested_by req))
              [(''deduplication_key'', JStr (gir_deduplication_key req)), (''input_type'', JStr (gir_input_type req)),
               (''tags'', JList (map JStr (gir_tags req)))]) (\<lambda>_.
     bindM (receive_intent (app_registry app) (gir_requested_by req) (gir_deduplication_key req) (gir_goal req)
              (gir_input_type req) (gir_desired_outputs req) (gir_tags req) (gir_constraints req)
              (gir_launch_if_existing req) (gir_propose_if_missing req) (Some (gir_metadata req))) (\<lambda>it.
     let actor = Some (resolved_actor hdr (Some (gir_requested_by req)));
         candidates = intent_candidate_registry_entry_ids it in
     bindM (record_app_audit app GENESIS_INTENT_RECEIVED actor (Some PATCH_PANEL_DISCOVER) global_scope
              (uuid_str (intent_id it)) None (Some [(''candidate_count'', JInt (int (length candidates)))])) (\<lambda>_.
     bindM (record_app_audit app GENESIS_REGISTRY_SEARCHED actor (Some PATCH_PANEL_DISCOVER) global_scope
              (uuid_str (intent_id it)) None
              (Some [(''candidate_registry_entry_ids'', JList (map (JStr \<circ> uuid_str) candidates))])) (\<lambda>_.
     bindM (if candidates = [] \<and> gir_propose_if_missing req
            then record_app_audit app GENESIS_DESIGN_REQUIRED actor (Some MUTATION_PROPOSE) global_scope
                   (uuid_str (intent_id it)) None
                   (Some [(''input_type'', JStr (intent_input_type it)), (''tags'', JList (map JStr (intent_tags it)))])
            else returnM ()) (\<lambda>_.
     returnM it)))))"

definition api_get_genesis_intent ::
  "('g, 'z mesh_scheme) app \<Rightarrow> string option \<Rightarrow> uuid \<Rightarrow> ('z mesh_scheme, genesis_intent) M" where
  "api_get_genesis_intent app hdr i =
     bindM (get_intent i) (\<lambda>it.
     bindM (authorize_call app hdr PATCH_PANEL_DISCOVER global_scope (Some (intent_requested_by it))
              [(''genesis_intent_id'', JStr (uuid_str i))]) (\<lambda>_.
     returnM it))"

definition api_launch_genesis_intent ::
  "('g, 'z mesh_scheme) app \<Rightarrow> string option \<Rightarrow> uuid \<Rightarrow> uuid option \<Rightarrow> ('z mesh_scheme, card) M" where
  "api_launch_genesis_intent app hdr i chosen =
     bindM (get_intent i) (\<lambda>it.
     case (case chosen of Some e \<Rightarrow> Some e
           | None \<Rightarrow> (case intent_candidate_registry_entry_ids it of [] \<Rightarrow> None | e # _ \<Rightarrow> Some e)) of
       None \<Rightarrow> raiseM (ConflictError ''genesis intent has no registry candidate to launch'')
     | Some selected \<Rightarrow>
         bindM (reg_get (app_registry app) selected) (\<lambda>e.
         bindM (liftM (scoped PATCH_PANEL (entry_patch_panel_id e))) (\<lambda>sc.
         bindM (authorize_call app hdr CARD_CREATE sc (Some (intent_requested_by it))
                  [(''genesis_intent_id'', JStr (uuid_str i)),
                   (''patch_panel_id'', JStr (entry_patch_panel_id e))]) (\<lambda>_.
         bindM (launch (app_encoders app) (app_runtime app) (app_registry app) i (Some selected)) (\<lambda>c.
         let actor = Some (resolved_actor hdr (Some (intent_requested_by it)));
             meta = Some [(''genesis_intent_id'', JStr (uuid_str i))] in
         bindM (record_app_audit app GENESIS_CANDIDATE_SELECTED actor (Some PATCH_PANEL_DISCOVER) sc
                  (uuid_str (entry_id e)) None meta) (\<lambda>_.
         bindM (record_app_audit app GENESIS_CARD_CREATED actor (Some CARD_CREATE) sc
                  (uuid_str (card_id c)) None meta) (\<lambda>_.
         returnM c)))))))"

definition api_propose_genesis_intent ::
  "('g, 'z mesh_scheme) app \<Rightarrow> string option \<Rightarrow> uuid \<Rightarrow> propose_genesis_request \<Rightarrow> ('z mesh_scheme, card) M" where
  "api_propose_genesis_intent app hdr i req =
     bindM (liftM (scoped PATCH_PANEL (panel_id (pgr_candidate_definition req)))) (\<lambda>sc.
     bindM (authorize_call app hdr MUTATION_PROPOSE sc (Some (pgr_proposed_by req))
              [(''genesis_intent_id'', JStr (uuid_str i))]) (\<lambda>_.
     bindM (propose (app_encoders app) (app_runtime app) i (pgr_proposed_by req) (pgr_candidate_definition req)
              (pgr_registry_metadata req) (pgr_base_patch_panel_id req) (pgr_base_version req)) (\<lambda>c.
     bindM (record_app_audit app GENESIS_PROPOSAL_SUBMITTED
              (Some (resolved_actor hdr (Some (pgr_proposed_by req)))) (Some MUTATION_PROPOSE) sc
              (uuid_str (card_id c)) None (Some [(''genesis_intent_id'', JStr (uuid_str i))])) (\<lambda>_.
     returnM c))))"

section \<open>Cards and leases\<close>

definition api_list_cards :: "('g, 'z mesh_scheme) app \<Rightarrow> ('z mesh_scheme, card list) M" where
  "api_list_cards app = rt_list_cards (app_runtime app)"

definition api_create_card ::
  "('g, 'z mesh_scheme) app \<Rightarrow> string option \<Rightarrow> string option \<Rightarrow> create_card_request \<Rightarrow> ('z mesh_scheme, card) M" where
  "api_create_card app hdr key req =
     bindM (authorize_scoped app hdr CARD_CREATE PATCH_PANEL (ccr_patch_panel_id req) None
              [(''patch_panel_id'', JStr (ccr_patch_panel_id req))]) (\<lambda>_.
     rt_create_card (app_runtime app) (ccr_patch_panel_id req) (ccr_payload req) (Some (ccr_metadata req)) key)"

definition api_claim_card ::
  "('g, 'z mesh_scheme) app \<Rightarrow> string option \<Rightarrow> string option \<Rightarrow> claim_card_request \<Rightarrow> ('z mesh_scheme, lease) M" where
  "api_claim_card app hdr key req =
     bindM (authorize_scoped app hdr CARD_CLAIM BUCKET (clr_input_pipe req) None
              [(''input_pipe'', JStr (clr_input_pipe req)), (''worker_id'', JStr (clr_worker_id req))]) (\<lambda>_.
     rt_claim_card (app_runtime app) (clr_input_pipe req) (clr_worker_id req) (clr_lease_seconds req) key)"

definition api_submit_artifact ::
  "('g, 'z mesh_scheme) app \<Rightarrow> string option \<Rightarrow> string option \<Rightarrow> submit_artifact_request \<Rightarrow>
     ('z mesh_scheme, artifact_reference list) M" where
  "api_submit_artifact app hdr key req =
     bindM (rt_get_lease (app_runtime app) (sar_lease_id req)) (\<lambda>l.
     bindM (authorize_scoped app hdr CARD_SUBMIT_ARTIFACT CARD (uuid_str (lease_card_id l)) None
              [(''lease_id'', JStr (uuid_str (sar_lease_id req))), (''output_pipe'', JStr (sar_output_pipe req))]) (\<lambda>_.
     rt_submit_artifact (app_runtime app) (sar_lease_id req) (sar_output_pipe req) (sar_artifact_refs req) key))"

definition api_renew_lease ::
  "('g, 'z mesh_scheme) app \<Rightarrow> string option \<Rightarrow> uuid \<Rightarrow> int \<Rightarrow> ('z mesh_scheme, lease) M" where
  "api_renew_lease app key lid seconds = rt_renew_lease (app_runtime app) lid seconds key"

definition api_release_lease ::
  "('g, 'z mesh_scheme) app \<Rightarrow> string option \<Rightarrow> string option \<Rightarrow> uuid \<Rightarrow> string option \<Rightarrow> ('z mesh_scheme, lease) M" where
  "api_release_lease app hdr key lid actor =
     bindM (rt_get_lease (app_runtime app) lid) (\<lambda>l.
     bindM (authorize_scoped app hdr CARD_RELEASE CARD (uuid_str (lease_card_id l)) actor
              [(''lease_id'', JStr (uuid_str lid))]) (\<lambda>_.
     rt_release_lease (app_runtime app) lid actor key))"

definition api_expire_leases :: "('g, 'z mesh_scheme) app \<Rightarrow> ('z mesh_scheme, lease list) M" where
  "api_expire_leases app = rt_expire_leases (app_runtime app)"

definition api_validate_card ::
  "('g, 'z mesh_scheme) app \<Rightarrow> string option \<Rightarrow> string option \<Rightarrow> uuid \<Rightarrow> validate_card_request \<Rightarrow>
     ('z mesh_scheme, card_event) M" where
  "api_validate_card app hdr key cid req =
     bindM (authorize_scoped app hdr VALIDATION_SUBMIT CARD (uuid_str cid) (Some (vcr_validator_id req))
              [(''validator_id'', JStr (vcr_validator_id req))]) (\<lambda>_.
     rt_validate_card (app_runtime app) cid (vcr_validator_id req) (vcr_accepted req) (vcr_reason req)
       (vcr_output_pipe req) None key)"

definition api_move_card ::
  "('g, 'z mesh_scheme) app \<Rightarrow> string option \<Rightarrow> uuid \<Rightarrow> move_card_request \<Rightarrow> ('z mesh_scheme, card) M" where
  "api_move_card app key cid req =
     rt_move_card (app_runtime app) cid (mcr_to_bucket req) (mcr_actor_id req) (mcr_reason req) key"

definition api_card_history ::
  "('g, 'z mesh_scheme) app \<Rightarrow> uuid \<Rightarrow> ('z mesh_scheme, card_event list) M" where
  "api_card_history app cid = rt_card_history (app_runtime app) cid"

definition api_worker_lease_context ::
  "('g, 'z mesh_scheme) app \<Rightarrow> uuid \<Rightarrow> ('z mesh_scheme, lease \<times> card \<times> card_event list) M" where
  "api_worker_lease_context app lid =
     bindM (rt_get_lease (app_runtime app) lid) (\<lambda>l.
     bindM (rt_get_card (app_runtime app) (lease_card_id l)) (\<lambda>c.
     bindM (rt_card_history (app_runtime app) (card_id c)) (\<lambda>h.
     returnM (l, c, h))))"

section \<open>Validators and nodes\<close>

definition api_list_validator_cards ::
  "('g, 'z mesh_scheme) app \<Rightarrow> string \<Rightarrow> string \<Rightarrow> ('z mesh_scheme, card list) M" where
  "api_list_validator_cards app vid pid =
     bindM (registered_patch_panel (app_runtime app) pid) (\<lambda>p.
     bindM (liftM (validator_input_buckets p vid)) (\<lambda>buckets.
     bindM (rt_list_cards (app_runtime app)) (\<lambda>cs.
     returnM (filter (\<lambda>c. card_current_bucket c \<in> set buckets) cs))))"

definition api_inspect_validator_card ::
  "('g, 'z mesh_scheme) app \<Rightarrow> uuid \<Rightarrow> ('z mesh_scheme, card \<times> card_event list) M" where
  "api_inspect_validator_card app cid =
     bindM (rt_get_card (app_runtime app) cid) (\<lambda>c.
     bindM (rt_card_history (app_runtime app) (card_id c)) (\<lambda>h.
     returnM (c, h)))"

definition api_submit_validator_decision ::
  "('g, 'z mesh_scheme) app \<Rightarrow> string option \<Rightarrow> string option \<Rightarrow> string \<Rightarrow> uuid \<Rightarrow>
     human_validator_decision_request \<Rightarrow> ('z mesh_scheme, card_event) M" where
  "api_submit_validator_decision app hdr key vid cid req =
     bindM (authorize_scoped app hdr VALIDATION_SUBMIT CARD (uuid_str cid) (Some vid)
              [(''patch_panel_id'', JStr (hvr_patch_panel_id req)), (''validator_id'', JStr vid)]) (\<lambda>_.
     bindM (app_executor app (hvr_patch_panel_id req)) (\<lambda>ex.
     execute_validator (app_graphs app) (app_decoders app) ex
       \<lparr>vi_card_id = cid, vi_validator_id = vid, vi_selected_exit = hvr_selected_exit req,
        vi_accepted = Some (hvr_accepted req), vi_score = hvr_score req, vi_reason = hvr_reason req,
        vi_payload = [], vi_idempotency_key = key\<rparr>))"

definition api_execute_source ::
  "('g, 'z mesh_scheme) app \<Rightarrow> string option \<Rightarrow> string option \<Rightarrow> source_execution_request \<Rightarrow> ('z mesh_scheme, card) M" where
  "api_execute_source app hdr key req =
     bindM (authorize_scoped app hdr BOUNDARY_SOURCE_INGRESS PATCH_PANEL (ser_patch_panel_id req) None
              [(''patch_panel_id'', JStr (ser_patch_panel_id req)), (''source_id'', JStr (ser_source_id req))]) (\<lambda>_.
     bindM (app_executor app (ser_patch_panel_id req)) (\<lambda>ex.
     execute_source ex (ser_source_id req) (ser_payload req) (Some (ser_metadata req)) key))"

definition api_execute_worker ::
  "('g, 'z mesh_scheme) app \<Rightarrow> string option \<Rightarrow> string option \<Rightarrow> worker_execution_request \<Rightarrow>
     ('z mesh_scheme, artifact_reference list) M" where
  "api_execute_worker app hdr key req =
     bindM (authorize_scoped app hdr CARD_SUBMIT_ARTIFACT PATCH_PANEL (wer_patch_panel_id req)
              (Some (wer_worker_id req))
              [(''patch_panel_id'', JStr (wer_patch_panel_id req)), (''worker_id'', JStr (wer_worker_id req))]) (\<lambda>_.
     bindM (app_executor app (wer_patch_panel_id req)) (\<lambda>ex.
     execute_worker ex
       \<lparr>wi_input_pipe = wer_input_pipe req, wi_output_pipe = wer_output_pipe req, wi_worker_id = wer_worker_id req,
        wi_artifact_refs = wer_artifact_refs req, wi_lease_seconds = wer_lease_seconds req,
        wi_idempotency_key = key\<rparr>))"

definition api_execute_validator ::
  "('g, 'z mesh_scheme) app \<Rightarrow> string option \<Rightarrow> string option \<Rightarrow> validator_execution_request \<Rightarrow>
     ('z mesh_scheme, card_event) M" where
  "api_execute_validator app hdr key req =
     bindM (authorize_scoped app hdr VALIDATION_SUBMIT CARD (uuid_str (ver_card_id req)) (Some (ver_validator_id req))
              [(''patch_panel_id'', JStr (ver_patch_panel_id req)),
               (''validator_id'', JStr (ver_validator_id req))]) (\<lambda>_.
     bindM (app_executor app (ver_patch_panel_id req)) (\<lambda>ex.
     execute_validator (app_graphs app) (app_decoders app) ex
       \<lparr>vi_card_id = ver_card_id req, vi_validator_id = ver_validator_id req,
        vi_selected_exit = ver_selected_exit req, vi_accepted = ver_accepted req, vi_score = ver_score req,
        vi_reason = ver_reason req, vi_payload = ver_payload req, vi_idempotency_key = key\<rparr>))"

definition api_execute_sink ::
  "('g, 'z mesh_scheme) app \<Rightarrow> string option \<Rightarrow> string option \<Rightarrow> sink_execution_request \<Rightarrow>
     ('z mesh_scheme, sink_result) M" where
  "api_execute_sink app hdr key req =
     bindM (authorize_scoped app hdr SINK_EXECUTE PATCH_PANEL (sker_patch_panel_id req) None
              [(''patch_panel_id'', JStr (sker_patch_panel_id req)), (''sink_id'', JStr (sker_sink_id req))]) (\<lambda>_.
     bindM (app_executor app (sker_patch_panel_id req)) (\<lambda>ex.
     execute_sink (app_decoders app) ex (sker_card_id req) (sker_sink_id req) (sker_external_reference req) key))"

section \<open>Boundaries, shadows and mutations\<close>

definition api_boundary_source ::
  "('g, 'z mesh_scheme) app \<Rightarrow> string option \<Rightarrow> boundary_source_request \<Rightarrow>
     ('z mesh_scheme, source_boundary_result) M" where
  "api_boundary_source app hdr req =
     bindM (authorize_scoped app hdr BOUNDARY_SOURCE_INGRESS PATCH_PANEL (bsrc_patch_panel_id req) None
              [(''patch_panel_id'', JStr (bsrc_patch_panel_id req))]) (\<lambda>_.
     boundary_execute_source (app_contracts app) (app_runtime app) req)"

definition api_boundary_sink ::
  "('g, 'z mesh_scheme) app \<Rightarrow> string option \<Rightarrow> boundary_sink_request \<Rightarrow>
     ('z mesh_scheme, sink_boundary_result) M" where
  "api_boundary_sink app hdr req =
     bindM (authorize_scoped app hdr BOUNDARY_SINK_EGRESS PATCH_PANEL (bsnk_patch_panel_id req) None
              [(''patch_panel_id'', JStr (bsnk_patch_panel_id req))]) (\<lambda>_.
     boundary_execute_sink (app_encoders app) (app_contracts app) (app_decoders app) (app_runtime app) req)"

definition api_create_shadow ::
  "('g, 'z mesh_scheme) app \<Rightarrow> string option \<Rightarrow> string option \<Rightarrow> create_shadow_request \<Rightarrow>
     ('z mesh_scheme, shadow_run) M" where
  "api_create_shadow app hdr key req =
     bindM (authorize_scoped app hdr SHADOW_CREATE CARD (uuid_str (csr_production_card_id req)) None
              [(''candidate_id'', JStr (csr_candidate_id req))]) (\<lambda>_.
     bindM (rt_get_card (app_runtime app) (csr_production_card_id req)) (\<lambda>c.
     create_shadow_card (app_runtime app) c (csr_candidate_id req)
       (Some \<lparr>policy_sample_rate = csr_sample_rate req, policy_max_parallel = csr_max_parallel req\<rparr>) key))"

definition api_complete_shadow ::
  "('g, 'z mesh_scheme) app \<Rightarrow> string option \<Rightarrow> uuid \<Rightarrow> jdict \<Rightarrow> ('z mesh_scheme, shadow_card_link) M" where
  "api_complete_shadow app hdr i measured =
     bindM (authorize_call app hdr SHADOW_COMPLETE global_scope None
              [(''shadow_link_id'', JStr (uuid_str i))]) (\<lambda>_.
     complete_shadow (app_runtime app) i measured)"

definition api_propose_mutation ::
  "('g, 'z mesh_scheme) app \<Rightarrow> string option \<Rightarrow> proposed_mutation_request \<Rightarrow> ('z mesh_scheme, proposed_mutation) M" where
  "api_propose_mutation app hdr req =
     bindM (authorize_call app hdr MUTATION_PROPOSE global_scope (Some (pmr_proposed_by req))
              [(''mutation_type'', JStr (pmr_mutation_type req))]) (\<lambda>_.
     propose_mutation (pmr_mutation_type req) (pmr_proposed_by req) (pmr_payload req))"

definition api_validate_mutation ::
  "('g, 'z mesh_scheme) app \<Rightarrow> string option \<Rightarrow> uuid \<Rightarrow> mutation_validation_request \<Rightarrow>
     ('z mesh_scheme, proposed_mutation) M" where
  "api_validate_mutation app hdr i req =
     bindM (authorize_call app hdr MUTATION_VALIDATE global_scope (Some (mvr_validator_id req))
              [(''mutation_id'', JStr (uuid_str i))]) (\<lambda>_.
     validate_mutation i (mvr_accepted req) (mvr_validator_id req) (mvr_reason req))"

definition api_promote_mutation ::
  "('g, 'z mesh_scheme) app \<Rightarrow> string option \<Rightarrow> uuid \<Rightarrow> patch_panel \<Rightarrow> ('z mesh_scheme, proposed_mutation) M" where
  "api_promote_mutation app hdr i p =
     bindM (authorize_scoped app hdr MUTATION_PROMOTE PATCH_PANEL (panel_id p) None
              [(''mutation_id'', JStr (uuid_str i)), (''patch_panel_id'', JStr (panel_id p))]) (\<lambda>_.
     bindM (authorize_scoped app hdr PATCH_PANEL_PUBLISH_VERSION PATCH_PANEL (panel_id p) None
              [(''mutation_id'', JStr (uuid_str i)), (''patch_panel_id'', JStr (panel_id p))]) (\<lambda>_.
     promote_mutation (app_runtime app) i p))"

section \<open>Dispatch\<close>

text \<open>The routes, grouped by the part of the system they serve.\<close>

datatype participant_request =
    ListParticipants
  | CreateParticipant create_participant_request
  | AssignParticipantRole string assign_role_request
  | GrantParticipantPermission string grant_permission_request
  | InspectParticipantPermissions string

datatype operator_request =
    OperatorTopology string
  | OperatorCardsByBucket
  | OperatorBucketLoad
  | OperatorActiveLeases
  | OperatorWorkerActivity
  | OperatorValidatorDecisions
  | OperatorWorkflowVersions
  | OperatorFailedMovements
  | OperatorMetrics
  | OperatorDashboard string

datatype registry_request =
    ListPatchPanels
  | RegisterPatchPanel patch_panel
  | SearchRegistry patch_panel_registry_search
  | RegisterRegistryEntry register_registry_request
  | GetRegistryEntry uuid
  | UpdateRegistryEntry uuid registry_metadata
  | ArchiveRegistryEntry uuid
  | SupersedeRegistryEntry uuid uuid

datatype genesis_request =
    ReceiveGenesisIntent genesis_intent_request
  | GetGenesisIntent uuid
  | LaunchGenesisIntent uuid "uuid option"
  | ProposeGenesisIntent uuid propose_genesis_request

datatype card_request =
    ListCards
  | CreateCard create_card_request
  | ClaimCard claim_card_request
  | SubmitArtifact submit_artifact_request
  | RenewLease uuid int
  | ReleaseLease uuid "string option"
  | ExpireLeases
  | ValidateCard uuid validate_card_request
  | MoveCard uuid move_card_request
  | CardHistory uuid
  | WorkerLeaseContext uuid

datatype node_request =
    ListValidatorCards string string
  | InspectValidatorCard uuid
  | SubmitValidatorDecision string uuid human_validator_decision_request
  | ExecuteSource source_execution_request
  | ExecuteWorker worker_execution_request
  | ExecuteValidator validator_execution_request
  | ExecuteSink sink_execution_request

datatype service_request =
    BoundarySource boundary_source_request
  | BoundarySink boundary_sink_request
  | CreateShadow create_shadow_request
  | CompleteShadow uuid jdict
  | ProposeMutation proposed_mutation_request
  | ValidateMutation uuid mutation_validation_request
  | PromoteMutation uuid patch_panel

datatype api_request =
    Participants participant_request
  | Operators operator_request
  | Panels registry_request
  | GenesisIntents genesis_request
  | Cards card_request
  | Nodes node_request
  | Services service_request

datatype api_response =
    AParticipants "participant list"
  | AParticipant participant
  | AAssignment role_assignment
  | AGrant permission_grant
  | AGrants "permission_grant list"
  | ATopology topology_view
  | AGrouped "(string, card list) dict"
  | ALoad "(string \<times> nat) list"
  | ALeaseViews "lease_view list"
  | AActivity "(string, (string, nat) dict) dict"
  | ADecisions "decision_view list"
  | AVersions "version_view list"
  | AEvents "card_event list"
  | AMetrics metrics_view
  | ADashboard dashboard_view
  | APanels "patch_panel list"
  | APanel patch_panel
  | AEntries "registry_entry list"
  | AEntry registry_entry
  | AIntent genesis_intent
  | ACards "card list"
  | ACard card
  | ALease lease
  | ALeases "lease list"
  | AArtifacts "artifact_reference list"
  | AEvent card_event
  | AContext "lease \<times> card \<times> card_event list"
  | AInspection "card \<times> card_event list"
  | ASink sink_result
  | ABoundarySource source_boundary_result
  | ABoundarySink sink_boundary_result
  | AShadow shadow_run
  | ALink shadow_card_link
  | AMutation proposed_mutation

fun handle_participants ::
  "('g, 'z mesh_scheme) app \<Rightarrow> string option \<Rightarrow> string option \<Rightarrow> participant_request \<Rightarrow> ('z mesh_scheme, api_response) M" where
  "handle_participants app hdr key ListParticipants = mapM AParticipants (api_list_participants app hdr)"
| "handle_participants app hdr key (CreateParticipant r) = mapM AParticipant (api_create_participant app hdr r)"
| "handle_participants app hdr key (AssignParticipantRole p r) = mapM AAssignment (api_assign_participant_role app hdr p r)"
| "handle_participants app hdr key (GrantParticipantPermission p r) = mapM AGrant (api_grant_participant_permission app hdr p r)"
| "handle_participants app hdr key (InspectParticipantPermissions p) = mapM AGrants (api_inspect_participant_permissions app hdr p)"

fun handle_operators ::
  "('g, 'z mesh_scheme) app \<Rightarrow> string option \<Rightarrow> string option \<Rightarrow> operator_request \<Rightarrow> ('z mesh_scheme, api_response) M" where
  "handle_operators app hdr key (OperatorTopology p) = mapM ATopology (api_operator_topology app hdr p)"
| "handle_operators app hdr key OperatorCardsByBucket = mapM AGrouped (api_operator_cards_by_bucket app hdr)"
| "handle_operators app hdr key OperatorBucketLoad = mapM ALoad (api_operator_bucket_load app hdr)"
| "handle_operators app hdr key OperatorActiveLeases = mapM ALeaseViews (api_operator_active_leases app hdr)"
| "handle_operators app hdr key OperatorWorkerActivity = mapM AActivity (api_operator_worker_activity app hdr)"
| "handle_operators app hdr key OperatorValidatorDecisions = mapM ADecisions (api_operator_validator_decisions app hdr)"
| "handle_operators app hdr key OperatorWorkflowVersions = mapM AVersions (api_operator_workflow_versions app hdr)"
| "handle_operators app hdr key OperatorFailedMovements = mapM AEvents (api_operator_failed_movements app hdr)"
| "handle_operators app hdr key OperatorMetrics = mapM AMetrics (api_operator_metrics app hdr)"
| "handle_operators app hdr key (OperatorDashboard p) = mapM ADashboard (api_operator_dashboard app hdr p)"

fun handle_panels ::
  "('g, 'z mesh_scheme) app \<Rightarrow> string option \<Rightarrow> string option \<Rightarrow> registry_request \<Rightarrow> ('z mesh_scheme, api_response) M" where
  "handle_panels app hdr key ListPatchPanels = mapM APanels (api_list_patch_panels app)"
| "handle_panels app hdr key (RegisterPatchPanel p) = mapM APanel (api_register_patch_panel app hdr p)"
| "handle_panels app hdr key (SearchRegistry f) = mapM AEntries (api_search_registry app hdr f)"
| "handle_panels app hdr key (RegisterRegistryEntry r) = mapM AEntry (api_register_registry_entry app hdr r)"
| "handle_panels app hdr key (GetRegistryEntry i) = mapM AEntry (api_get_registry_entry app hdr i)"
| "handle_panels app hdr key (UpdateRegistryEntry i m) = mapM AEntry (api_update_registry_entry app hdr i m)"
| "handle_panels app hdr key (ArchiveRegistryEntry i) = mapM AEntry (api_archive_registry_entry app hdr i)"
| "handle_panels app hdr key (SupersedeRegistryEntry i j) = mapM AEntry (api_supersede_registry_entry app hdr i j)"

fun handle_genesis ::
  "('g, 'z mesh_scheme) app \<Rightarrow> string option \<Rightarrow> string option \<Rightarrow> genesis_request \<Rightarrow> ('z mesh_scheme, api_response) M" where
  "handle_genesis app hdr key (ReceiveGenesisIntent r) = mapM AIntent (api_receive_genesis_intent app hdr r)"
| "handle_genesis app hdr key (GetGenesisIntent i) = mapM AIntent (api_get_genesis_intent app hdr i)"
| "handle_genesis app hdr key (LaunchGenesisIntent i c) = mapM ACard (api_launch_genesis_intent app hdr i c)"
| "handle_genesis app hdr key (ProposeGenesisIntent i r) = mapM ACard (api_propose_genesis_intent app hdr i r)"

fun handle_cards ::
  "('g, 'z mesh_scheme) app \<Rightarrow> string option \<Rightarrow> string option \<Rightarrow> card_request \<Rightarrow> ('z mesh_scheme, api_response) M" where
  "handle_cards app hdr key ListCards = mapM ACards (api_list_cards app)"
| "handle_cards app hdr key (CreateCard r) = mapM ACard (api_create_card app hdr key r)"
| "handle_cards app hdr key (ClaimCard r) = mapM ALease (api_claim_card app hdr key r)"
| "handle_cards app hdr key (SubmitArtifact r) = mapM AArtifacts (api_submit_artifact app hdr key r)"
| "handle_cards app hdr key (RenewLease l n) = mapM ALease (api_renew_lease app key l n)"
| "handle_cards app hdr key (ReleaseLease l a) = mapM ALease (api_release_lease app hdr key l a)"
| "handle_cards app hdr key ExpireLeases = mapM ALeases (api_expire_leases app)"
| "handle_cards app hdr key (ValidateCard c r) = mapM AEvent (api_validate_card app hdr key c r)"
| "handle_cards app hdr key (MoveCard c r) = mapM ACard (api_move_card app key c r)"
| "handle_cards app hdr key (CardHistory c) = mapM AEvents (api_card_history app c)"
| "handle_cards app hdr key (WorkerLeaseContext l) = mapM AContext (api_worker_lease_context app l)"

fun handle_nodes ::
  "('g, 'z mesh_scheme) app \<Rightarrow> string option \<Rightarrow> string option \<Rightarrow> node_request \<Rightarrow> ('z mesh_scheme, api_response) M" where
  "handle_nodes app hdr key (ListValidatorCards v p) = mapM ACards (api_list_validator_cards app v p)"
| "handle_nodes app hdr key (InspectValidatorCard c) = mapM AInspection (api_inspect_validator_card app c)"
| "handle_nodes app hdr key (SubmitValidatorDecision v c r) = mapM AEvent (api_submit_validator_decision app hdr key v c r)"
| "handle_nodes app hdr key (ExecuteSource r) = mapM ACard (api_execute_source app hdr key r)"
| "handle_nodes app hdr key (ExecuteWorker r) = mapM AArtifacts (api_execute_worker app hdr key r)"
| "handle_nodes app hdr key (ExecuteValidator r) = mapM AEvent (api_execute_validator app hdr key r)"
| "handle_nodes app hdr key (ExecuteSink r) = mapM ASink (api_execute_sink app hdr key r)"

fun handle_services ::
  "('g, 'z mesh_scheme) app \<Rightarrow> string option \<Rightarrow> string option \<Rightarrow> service_request \<Rightarrow> ('z mesh_scheme, api_response) M" where
  "handle_services app hdr key (BoundarySource r) = mapM ABoundarySource (api_boundary_source app hdr r)"
| "handle_services app hdr key (BoundarySink r) = mapM ABoundarySink (api_boundary_sink app hdr r)"
| "handle_services app hdr key (CreateShadow r) = mapM AShadow (api_create_shadow app hdr key r)"
| "handle_services app hdr key (CompleteShadow i d) = mapM ALink (api_complete_shadow app hdr i d)"
| "handle_services app hdr key (ProposeMutation r) = mapM AMutation (api_propose_mutation app hdr r)"
| "handle_services app hdr key (ValidateMutation i r) = mapM AMutation (api_validate_mutation app hdr i r)"
| "handle_services app hdr key (PromoteMutation i p) = mapM AMutation (api_promote_mutation app hdr i p)"

fun handle ::
  "('g, 'z mesh_scheme) app \<Rightarrow> string option \<Rightarrow> string option \<Rightarrow> api_request \<Rightarrow> ('z mesh_scheme, api_response) M" where
  "handle app hdr key (Participants r) = handle_participants app hdr key r"
| "handle app hdr key (Operators r) = handle_operators app hdr key r"
| "handle app hdr key (Panels r) = handle_panels app hdr key r"
| "handle app hdr key (GenesisIntents r) = handle_genesis app hdr key r"
| "handle app hdr key (Cards r) = handle_cards app hdr key r"
| "handle app hdr key (Nodes r) = handle_nodes app hdr key r"
| "handle app hdr key (Services r) = handle_services app hdr key r"

section \<open>Health and statuses\<close>

text \<open>The health routes read the settings and touch no service.\<close>

definition api_health :: "(string, string) dict" where
  "api_health = [(''status'', ''ok'')]"

definition api_health_config :: "settings \<Rightarrow> (string, string) dict" where
  "api_health_config st = [(''environment'', set_environment st),
     (''database_configured'', if set_database_url st = [] then ''false'' else ''true'')]"

text \<open>The status of a raised exception: the three registered handlers, FastAPI's own, else an internal error.\<close>

fun status_of :: "error \<Rightarrow> nat" where
  "status_of (NotFoundError _) = 404"
| "status_of (ConflictError _) = 409"
| "status_of (InvalidOperationError _) = 422"
| "status_of (HTTPException n _) = n"
| "status_of _ = 500"

end
