(* ===== verification/MeshSamples.thy ===== *)
theory MeshSamples
  imports Api Samples
begin

text \<open>Concrete states of the whole process for the witnesses: a sample runtime with the other services empty.\<close>

definition in_mesh :: "mem_runtime \<Rightarrow> mesh" where
  "in_mesh s =
     \<lparr>uuid_src = uuid_src s, uuid_pos = uuid_pos s, clock_src = clock_src s, clock_pos = clock_pos s,
      mem_patch_panels = mem_patch_panels s, mem_cards = mem_cards s, mem_leases = mem_leases s,
      mem_artifacts = mem_artifacts s, mem_events = mem_events s, mem_idempotency = mem_idempotency s,
      mem_entries = [], auth_participants = [], auth_role_assignments = [], auth_permission_grants = [],
      auth_audit_events = [], shadow_links = [], shadow_mutations = [], genesis_intents = [], genesis_index = []\<rparr>"

lemma in_mesh_ok [simp]: "mem_ok (in_mesh s) = mem_ok s"
  by (rule mem_ok_cong) (simp add: in_mesh_def mem_runtime.truncate_def)

lemma in_mesh_sel [simp]:
  "mem_cards (in_mesh s) = mem_cards s" "mem_patch_panels (in_mesh s) = mem_patch_panels s"
  "mem_events (in_mesh s) = mem_events s" "mem_idempotency (in_mesh s) = mem_idempotency s"
  "mem_leases (in_mesh s) = mem_leases s" "mem_entries (in_mesh s) = []"
  "shadow_links (in_mesh s) = []" "shadow_mutations (in_mesh s) = []"
  "genesis_intents (in_mesh s) = []" "genesis_index (in_mesh s) = []"
  "auth_participants (in_mesh s) = []" "auth_audit_events (in_mesh s) = []"
  by (simp_all add: in_mesh_def)

lemma sample_card_stored: "dict_get (mem_cards sample_created) (sample_ids 0) = Some sample_card"
  by (simp add: sample_created_state)

text \<open>Decoders that know one panel, its metadata and no onboarding payload.\<close>

definition sample_metadata :: registry_metadata where
  "sample_metadata = \<lparr>meta_name = ''m'', meta_description = None, meta_tags = [''t''], meta_input_types = [],
     meta_output_types = [], meta_required_tools = [], meta_required_permissions = [], meta_risk_level = None,
     meta_estimated_cost = None, meta_estimated_latency = None, meta_owner_participant_id = None,
     meta_status = DRAFT\<rparr>"

definition sample_decoders :: "'s decoders" where
  "sample_decoders =
     \<lparr>decode_patch_panel = (\<lambda>v. if v = Some (JStr ''p'') then Inr sample_panel else Inl (ValueError ''no panel'')),
      decode_registry_metadata = (\<lambda>v. if v = Some (JStr ''m'') then Inr sample_metadata else Inl (ValueError ''no metadata'')),
      decode_onboarding = (\<lambda>_. raiseM (ValueError ''no participant''))\<rparr>"

text \<open>A sink node and an executor over a panel that has only this node.\<close>

definition sample_sink :: node_definition where
  "sample_sink = sample_node ''authority_provisioner_sink'' SINK [] []"

definition sample_executor :: "'s card_runtime \<Rightarrow> 's node_executor" where
  "sample_executor rt = \<lparr>ex_patch_panel = sample_panel\<lparr>panel_nodes := [sample_sink]\<rparr>, ex_runtime = rt,
     ex_registry = None, ex_authorization_repository = None\<rparr>"

lemma sample_executor_runtime [simp]: "ex_runtime (sample_executor rt) = rt"
  by (simp add: sample_executor_def)

lemma sample_executor_node:
  "find_node (ex_patch_panel (sample_executor rt)) ''authority_provisioner_sink'' SINK = Inr sample_sink"
  by (simp add: find_node_def sample_executor_def sample_sink_def sample_node_def)

text \<open>A validator node with both exits configured, and a request that names no verdict.\<close>

definition sample_validator :: node_definition where
  "sample_validator = (sample_node ''v'' VALIDATOR [] [])
     \<lparr>node_config := [(''valid_exit'', JStr ''good''), (''invalid_exit'', JStr ''bad'')]\<rparr>"

definition sample_validation :: "uuid \<Rightarrow> validator_execution_input" where
  "sample_validation cid = \<lparr>vi_card_id = cid, vi_validator_id = ''v'', vi_selected_exit = None, vi_accepted = None,
     vi_score = None, vi_reason = None, vi_payload = [], vi_idempotency_key = None\<rparr>"

text \<open>A publication sink with a registry, and a proposal card that both reviewers approved.\<close>

definition sample_publisher :: node_definition where
  "sample_publisher = (sample_node ''pub'' SINK [] [])
     \<lparr>node_config := [(''egress_contract'', JDict [(''type'', JStr ''registry_publication'')])]\<rparr>"

definition sample_publishing_executor :: "mesh node_executor" where
  "sample_publishing_executor = \<lparr>ex_patch_panel = sample_panel\<lparr>panel_nodes := [sample_publisher]\<rparr>,
     ex_runtime = memory_runtime list_networkx, ex_registry = Some memory_registry,
     ex_authorization_repository = None\<rparr>"

definition sample_proposal :: card where
  "sample_proposal = sample_card\<lparr>card_payload := [(''candidate_definition'', JStr ''p''), (''registry_metadata'', JStr ''m'')]\<rparr>"

definition sample_proposed :: mem_runtime where
  "sample_proposed = perform_all list_networkx
     [Create ''p'' (card_payload sample_proposal) None None,
      Validate (sample_ids 0) ''topological_validator'' True None None
        (Some [(''output_pipe'', JStr ''topology_valid'')]) None,
      Validate (sample_ids 0) ''governance_reviewer'' True None None
        (Some [(''output_pipe'', JStr ''proposal_approved'')]) None] sample_registered"

lemma sample_proposed_ok: "mem_ok sample_proposed"
  unfolding sample_proposed_def
  by (rule steps_mem_ok [OF perform_all_steps [OF sample_graph sample_ok(2)] sample_ok(2)])

lemma sample_proposed_state:
  "dict_get (mem_cards sample_proposed) (sample_ids 0) = Some sample_proposal \<and>
   approved_publication (history sample_proposed (sample_ids 0))"
  by (simp add: sample_proposed_def perform_all_def perform_def mapM_def create_card_def validate_card_def
      idempotently_def get_idempotent_def cached_def get_patch_panel_def get_card_def run_defs
      sample_registered_code sample_start_def empty_runtime_def sample_panel_facts new_card_def
      new_card_event_def uuid4_def now_utc_def put_card_def append_event_def store_idempotent_def remember_def
      logged_def recorded_events_def sample_card_def sample_proposal_def sample_clock_def
      approved_publication_def approval_def dict_update_def Let_def)

end
