(* ===== verification/ExecutorProperties.thy ===== *)
theory ExecutorProperties
  imports MeshSamples
begin

text \<open>
  Properties of node execution over the in-memory runtime: what the sinks demand of the history of a
  card, what the topology validator decides, and how a validation payload can overrule a verdict.
\<close>

text \<open>
  Property C15. Sinks demand approval: a publication sink runs only for a card whose history holds an
  accepted topology validation and an accepted governance review, and the provisioning sink only for
  one with an accepted compliance check and an accepted administrator review. Otherwise the
  execution raises and the whole state, registry and authority included, is as before.
\<close>

theorem sinks_require_approval:
  assumes "networkx_graph nx gnodes gedges" and "mem_ok s" and "ex_runtime ex = memory_runtime nx"
    and "find_node (ex_patch_panel ex) sink_id SINK = Inr n"
    and "publishes n \<and> \<not> approved_publication (history s cid) \<or>
      node_id n = ''authority_provisioner_sink'' \<and> \<not> approved_provisioning (history s cid)"
  shows "\<exists>e. execute_sink dec ex cid sink_id ref key s = (Inl e, s)"
proof (cases "dict_get (mem_cards s) cid")
  case None
  then show ?thesis
    by (simp add: execute_sink_def assms(3,4) memory_runtime_def get_card_def run_defs)
next
  case (Some c)
  note contract = memory_sink_runtime [OF assms(1)]
  show ?thesis
    using assms(5) sink_runtime.unapproved_publication_raises [OF contract assms(3,4,2) Some]
      sink_runtime.unapproved_provisioning_raises [OF contract assms(3,4,2) Some] by blast
qed

theorem sinks_require_approval_witness:
  "\<exists>e. execute_sink sample_decoders (sample_executor (memory_runtime list_networkx)) (sample_ids 0)
      ''authority_provisioner_sink'' None None sample_created = (Inl e, sample_created)"
proof -
  have "\<not> approved_provisioning (history sample_created (sample_ids 0))"
    by (simp add: sample_created_state recorded_events_def approved_provisioning_def approval_def)
  then show ?thesis
    by (intro sinks_require_approval [OF sample_graph sample_ok(3) _ sample_executor_node])
       (simp_all add: sample_sink_def sample_node_def)
qed

text \<open>
  The topology validator decides by the topology: asked without a verdict, it accepts and
  selects the valid exit exactly when the candidate of the card decodes to a well-formed panel, and
  otherwise rejects through the invalid exit. It reads only; it raises only for a missing card or an
  exception that is no \<^verbatim>\<open>ValueError\<close>.
\<close>

theorem topology_verdict:
  assumes "networkx_graph nx gnodes gedges" and "ex_runtime ex = memory_runtime nx"
    and "vi_accepted req = None" and "vi_selected_exit req = None"
    and "configured_exit n ''valid_exit'' = Inr yes" and "configured_exit n ''invalid_exit'' = Inr no"
    and "dict_get (mem_cards s) (vi_card_id req) = Some c"
  shows "wp (topology_validation_request nx dec ex n req)
    (\<lambda>r t. t = s \<and>
       (if \<exists>p. decode_patch_panel dec (dict_get (card_payload c) ''candidate_definition'') = Inr p \<and> well_formed_panel p
        then vi_accepted r = Some True \<and> vi_selected_exit r = Some yes
        else vi_accepted r = Some False \<and> vi_selected_exit r = Some no))
    (\<lambda>e t. t = s \<and> \<not> is_value_error e) s"
proof -
  have get: "wp (rt_get_card (ex_runtime ex) (vi_card_id req)) Q E s = Q c s" for Q E
    by (simp add: assms(2,7) memory_runtime_def wp_get_card)
  show ?thesis
  proof (cases "decode_patch_panel dec (dict_get (card_payload c) ''candidate_definition'')")
    case (Inl e)
    then show ?thesis
      by (simp add: topology_validation_request_def assms(3-6) wp_rules get Let_def)
  next
    case (Inr p)
    then show ?thesis
      using networkx_graph.validate_iff [OF assms(1), of p]
      by (cases "validate nx p")
         (auto simp: topology_validation_request_def assms(3-6) wp_rules get Let_def)
  qed
qed

theorem topology_verdict_witness:
  "wp (topology_validation_request list_networkx sample_decoders (sample_executor (memory_runtime list_networkx))
       sample_validator (sample_validation (sample_ids 0)))
     (\<lambda>r t. vi_accepted r = Some False \<and> vi_selected_exit r = Some ''bad'') (\<lambda>e t. \<not> is_value_error e) sample_created"
proof -
  have get: "dict_get (mem_cards sample_created) (vi_card_id (sample_validation (sample_ids 0))) = Some sample_card"
    by (simp add: sample_validation_def sample_card_stored)
  have exits: "configured_exit sample_validator ''valid_exit'' = Inr ''good''"
    "configured_exit sample_validator ''invalid_exit'' = Inr ''bad''"
    by (simp_all add: configured_exit_def sample_validator_def)
  show ?thesis
    by (rule wp_mono [OF topology_verdict [OF sample_graph sample_executor_runtime _ _ exits get]])
       (simp_all add: sample_validation_def sample_decoders_def sample_card_def)
qed

lemma wp_publication_history:
  assumes "dict_get (mem_cards s) (card_id c) = Some d" and "approved_publication (history s (card_id c))"
  shows "wp (ensure_registry_publication_history (memory_runtime nx) c) Q E s = Q () s"
  using assms
  by (simp add: ensure_registry_publication_history_def memory_runtime_def card_history_def wp_rules
      approved_publication_def)

lemma publish_candidate_wp:
  assumes "networkx_graph nx gn ge" and "well_formed_panel q"
  shows "wp (publish_candidate (memory_runtime nx) memory_registry n c q m)
    (\<lambda>e t. e \<in> set (dict_values (mem_entries t)) \<and> same_version q e \<and>
       mem_patch_panels t = dict_set (panel_id q) q (mem_patch_panels s) \<and> mem_cards t = mem_cards s \<and>
       mem_events t = mem_events s \<and> mem_idempotency t = mem_idempotency s \<and>
       (list_ex (same_version q) (dict_values (mem_entries s)) \<or> entry_status e = meta_status m))
    (\<lambda>_ _. False) s"
proof -
  obtain r where r: "validate nx q = Inr r" using networkx_graph.validate_iff [OF assms(1)] assms(2) by blast
  let ?es = "filter (\<lambda>e. entry_matches e (default_search\<lparr>search_include_archived := True, search_include_superseded := True\<rparr>))
    (dict_values (mem_entries s))"
  have all: "?es = dict_values (mem_entries s)"
    by (simp add: filter_id_conv entry_matches_def default_search_def)
  show ?thesis
  proof (cases "find (\<lambda>e. entry_patch_panel_id e = panel_id q \<and> entry_version e = panel_version q) (dict_values (mem_entries s))")
    case None
    then show ?thesis
      by (simp add: publish_candidate_def memory_runtime_def memory_registry_def register_patch_panel_def
          validate_patch_panel_def r wp_rules registry_search_def all registry_register_def put_entry_def
          from_patch_panel_def same_version_def)
  next
    case (Some e)
    with find_SomeD [OF Some] show ?thesis
      by (auto simp: publish_candidate_def memory_runtime_def memory_registry_def register_patch_panel_def
          validate_patch_panel_def r wp_rules registry_search_def all same_version_def list_ex_iff)
  qed
qed

text \<open>
  Property C16. An approved publication takes effect: executed without an idempotency key or with a new one,
  for a card at the sink that is no shadow, whose history holds both approvals and whose candidate and metadata decode to a
  well-formed panel and its description, the sink returns, the candidate is registered with the runtime, the registry holds an
  entry of that version, a published one unless the version was known before, and the execution is
  recorded in the history of the card.
\<close>

theorem publication_succeeds:
  assumes nx: "networkx_graph nx gnodes gedges" and ok: "mem_ok s"
    and ex: "ex_runtime ex = memory_runtime nx" "ex_registry ex = Some memory_registry"
    and n: "find_node (ex_patch_panel ex) sink_id SINK = Inr n" "publishes n"
    and key: "cached key (mem_idempotency s) = None"
    and c: "dict_get (mem_cards s) cid = Some c" "\<not> json_true (json_get (card_metadata c) ''shadow'')"
      "ensure_card_at_sink (ex_patch_panel ex) n c = Inr ()" "approved_publication (history s cid)"
    and q: "decode_patch_panel dec (dict_get (card_payload c) ''candidate_definition'') = Inr q" "well_formed_panel q"
    and m: "decode_registry_metadata dec (dict_get (card_payload c) ''registry_metadata'') = Inr m"
  shows "\<exists>r t e. execute_sink dec ex cid sink_id ref key s = (Inr r, t) \<and>
    dict_get (mem_patch_panels t) (panel_id q) = Some q \<and>
    e \<in> set (dict_values (mem_entries t)) \<and> same_version q e \<and>
    (list_ex (same_version q) (dict_values (mem_entries s)) \<or> entry_status e = PUBLISHED) \<and>
    history t cid = history s cid @ [sink_event r] \<and> event_type (sink_event r) = ''sink_executed''"
proof -
  have id: "card_id c = cid" by (rule keyedD(1) [OF ok c(1)])
  have pub: "(case dict_get (node_config n) ''egress_contract'' of
      Some (JDict d) \<Rightarrow> dict_get d ''type'' = Some (JStr ''registry_publication'') | _ \<Rightarrow> False)"
    "node_id n \<noteq> ''authority_provisioner_sink''" using n(2) by (auto simp: publishes_def)
  have hist: "wp (ensure_registry_publication_history (memory_runtime nx) c) Q E s = Q () s" for Q E
    by (rule wp_publication_history) (simp_all add: id c)
  have "wp (execute_configured_sink dec ex n c ref)
    (\<lambda>_ t. mem_patch_panels t = dict_set (panel_id q) q (mem_patch_panels s) \<and> mem_cards t = mem_cards s \<and>
       mem_events t = mem_events s \<and> mem_idempotency t = mem_idempotency s \<and> (\<exists>e \<in> set (dict_values (mem_entries t)). same_version q e \<and>
       (list_ex (same_version q) (dict_values (mem_entries s)) \<or> entry_status e = PUBLISHED))) (\<lambda>_ _. False) s"
    using pub
    by (simp add: execute_configured_sink_def ex wp_rules hist q(1) m)
       (rule wp_mono [OF publish_candidate_wp [OF nx q(2)]]; auto simp: wp_return)
  then obtain x u e where u: "execute_configured_sink dec ex n c ref s = (Inr x, u)"
    "mem_patch_panels u = dict_set (panel_id q) q (mem_patch_panels s)" "mem_cards u = mem_cards s"
    "mem_events u = mem_events s" "mem_idempotency u = mem_idempotency s" and e: "e \<in> set (dict_values (mem_entries u))" "same_version q e"
    "list_ex (same_version q) (dict_values (mem_entries s)) \<or> entry_status e = PUBLISHED"
    by (auto simp: wp_def simp del: set_map split: prod.splits sum.splits)
  have "wp (execute_sink dec ex cid sink_id ref key)
     (\<lambda>r t. mem_patch_panels t = mem_patch_panels u \<and> mem_entries t = mem_entries u \<and>
        history t cid = history s cid @ [sink_event r] \<and> event_type (sink_event r) = ''sink_executed'') (\<lambda>_ _. False) s"
    unfolding execute_sink_def ex
    by (simp add: wp_rules n(1) memory_runtime_def c wp_run [of "execute_configured_sink dec ex n c ref", OF u(1)]
        record_event_def writes key u(3) store_simps u(4) u(5))
  then obtain r t where "execute_sink dec ex cid sink_id ref key s = (Inr r, t)"
    "mem_patch_panels t = mem_patch_panels u" "mem_entries t = mem_entries u"
    "history t cid = history s cid @ [sink_event r]" "event_type (sink_event r) = ''sink_executed''"
    by (auto simp: wp_def split: prod.splits sum.splits)
  with e u(2) show ?thesis by (intro exI [of _ r] exI [of _ t] exI [of _ e]) simp
qed

theorem publication_succeeds_witness:
  "\<exists>r t e. execute_sink sample_decoders sample_publishing_executor (sample_ids 0) ''pub'' None (Some ''new'')
      (in_mesh sample_proposed) = (Inr r, t) \<and> e \<in> set (dict_values (mem_entries t)) \<and> entry_status e = PUBLISHED"
proof -
  have "find_node (ex_patch_panel sample_publishing_executor) ''pub'' SINK = Inr sample_publisher"
    by (simp add: find_node_def sample_publishing_executor_def sample_publisher_def sample_node_def)
  moreover have "publishes sample_publisher" by (simp add: publishes_def sample_publisher_def sample_node_def)
  moreover have "\<not> json_true (json_get (card_metadata sample_proposal) ''shadow'')"
    by (simp add: sample_proposal_def sample_card_def json_get_def json_true_def)
  moreover have "ensure_card_at_sink (ex_patch_panel sample_publishing_executor) sample_publisher sample_proposal = Inr ()"
    by (simp add: ensure_card_at_sink_def sample_publisher_def sample_node_def)
  moreover have "case dict_get (mem_idempotency sample_proposed) ''new'' of None \<Rightarrow> True | Some v \<Rightarrow> False" by code_simp
  then have "cached (Some ''new'') (mem_idempotency (in_mesh sample_proposed)) = None"
    by (simp add: cached_def split: option.splits)
  ultimately show ?thesis
    using publication_succeeds [OF sample_graph, of "in_mesh sample_proposed" sample_publishing_executor "''pub''"
        sample_publisher "Some ''new''" "sample_ids 0" sample_proposal sample_decoders sample_panel sample_metadata None]
      sample_proposed_ok sample_proposed_state sample_well_formed
    by (auto simp: sample_publishing_executor_def sample_decoders_def sample_proposal_def)
qed

text \<open>
  A rejection can be recorded as an approval: the payload of a validation is merged over its
  verdict, so a rejecting validation whose payload says \<^verbatim>\<open>accepted: true\<close> leaves an event that the sinks
  take for an approval by that validator through that exit.
\<close>

theorem rejection_counts_as_approval:
  assumes "dict_get (mem_cards s) cid = Some c" and "pipe \<noteq> []"
    and "dict_get (mem_patch_panels s) (rsplit_colon (card_workflow_version c)) = Some p"
    and "resolve_pipe_bucket p pipe Output = Inr (b, n)"
  shows "\<exists>e t. validate_card cid validator False reason (Some pipe) (Some [(''accepted'', JBool True)]) None s =
      (Inr e, t) \<and> approval validator pipe e"
proof -
  have "wp (validate_card cid validator False reason (Some pipe) (Some [(''accepted'', JBool True)]) None)
      (\<lambda>e t. approval validator pipe e) (\<lambda>_ _. False) s"
    unfolding validate_card_def writes wp_rules
    by (simp add: assms cached_def wp_rules Let_def approval_def dict_get_update)
  then show ?thesis by (auto simp: wp_def split: prod.splits sum.splits)
qed

theorem rejection_counts_as_approval_witness:
  "\<exists>e t. validate_card (sample_ids 0) ''ann'' False None (Some ''w.out'') (Some [(''accepted'', JBool True)]) None
      sample_created = (Inr e, t) \<and> approval ''ann'' ''w.out'' e"
proof -
  have "dict_get (mem_patch_panels sample_created) (rsplit_colon (card_workflow_version sample_card)) = Some sample_panel"
    by (simp add: sample_created_state sample_registered_code sample_card_def rsplit_colon_def)
  moreover have "resolve_pipe_bucket sample_panel ''w.out'' Output = Inr (''done'', ''work'')"
    by (simp add: resolve_pipe_bucket_def find_node_for_pipe_def node_pipes_def sample_panel_def sample_node_def)
  ultimately show ?thesis by (intro rejection_counts_as_approval [OF sample_card_stored]) simp_all
qed

end
