(* ===== verification/ShadowProperties.thy ===== *)
theory ShadowProperties
  imports MeshSamples
begin

text \<open>
  Properties of the shadow service over the in-memory runtime: what a shadow is, how many there can
  be, that it never leaves through a production sink, and what a mutation must pass before promotion.
\<close>

section \<open>Calls of the service\<close>

datatype shadow_call =
    CallCreateShadow card string "shadow_policy option" "string option"
  | CallCompleteShadow uuid jdict
  | CallProposeMutation string string jdict
  | CallValidateMutation uuid bool string "string option"
  | CallPromoteMutation uuid patch_panel

fun shadow_service :: "'z shadow_state_scheme card_runtime \<Rightarrow> shadow_call \<Rightarrow> 'z shadow_state_scheme \<Rightarrow> 'z shadow_state_scheme" where
  "shadow_service rt (CallCreateShadow p cand pol key) s = snd (create_shadow_card rt p cand pol key s)"
| "shadow_service rt (CallCompleteShadow i d) s = snd (complete_shadow rt i d s)"
| "shadow_service rt (CallProposeMutation ty who payload) s = snd (propose_mutation ty who payload s)"
| "shadow_service rt (CallValidateMutation i acc who reason) s = snd (validate_mutation i acc who reason s)"
| "shadow_service rt (CallPromoteMutation i p) s = snd (promote_mutation rt i p s)"

lemma preserves_snd: "preserves I m \<Longrightarrow> I s \<Longrightarrow> I (snd (m s))"
  by (metis preservesD surjective_pairing)

lemma wp_True_cases: "wp m Q E s \<Longrightarrow> (\<And>x t. Q x t \<Longrightarrow> I t) \<Longrightarrow> (\<And>e t. E e t \<Longrightarrow> I t) \<Longrightarrow> I (snd (m s))"
  by (auto simp: wp_def split: prod.splits sum.splits)

context shadow_runtime
begin

text \<open>The invariant of runtime and mutations together, kept by everything the service calls.\<close>

definition service_ok :: "'z shadow_state_scheme \<Rightarrow> bool" where
  "service_ok s \<longleftrightarrow> ok s \<and> mutations_ok s"

lemma service_tame:
  assumes "tame m"
  shows "preserves service_ok m"
proof (rule preservesI)
  fix s assume s: "service_ok s"
  then have "wp m (\<lambda>_ t. ok t \<and> grown s t) (\<lambda>_ t. ok t \<and> grown s t) s"
    using assms by (simp add: tame_def service_ok_def)
  then show "wp m (\<lambda>_. service_ok) (\<lambda>_. service_ok) s"
    by (rule wp_mono) (use s in \<open>auto simp: service_ok_def dest: own_mutations intro: mutations_ok_same\<close>)
qed

lemma service_basic:
  "preserves service_ok (returnM x)" "preserves service_ok (raiseM e)" "preserves service_ok (getsM f)"
  "preserves service_ok (put_link i l)" "preserves service_ok (new_shadow_card_link a b c)"
proof -
  show "preserves service_ok (returnM x)" "preserves service_ok (raiseM e)" "preserves service_ok (getsM f)"
    by (simp_all add: preserves_def wp_rules)
  show "preserves service_ok (put_link i l)"
    by (simp add: preserves_def wp_rules put_link_def service_ok_def write_links mutations_ok_def)
  show "preserves service_ok (new_shadow_card_link a b c)"
    using advance_law
    by (auto simp: preserves_def wp_rules service_ok_def mutations_ok_def advance_counters)
qed

lemmas service_rules = service_basic preserves_bind service_tame [OF tame_create]
  service_tame [OF tame_ops(4)]

lemma create_shadow_keeps: "preserves service_ok (create_shadow_card rt p cand pol key)"
  unfolding create_shadow_card_def Let_def
  by (auto intro!: service_rules)

lemma complete_shadow_keeps: "preserves service_ok (complete_shadow rt i d)"
proof -
  have "preserves service_ok (get_link i)"
    by (simp add: preserves_def get_link_def wp_rules split: option.split)
  then show ?thesis
    unfolding complete_shadow_def Let_def by (auto intro!: service_rules)
qed

lemma promote_mutation_keeps:
  assumes s: "service_ok s"
  shows "wp (promote_mutation rt i p) (\<lambda>_. service_ok) (\<lambda>_. service_ok) s"
proof (cases "dict_get (shadow_mutations s) i")
  case None
  then show ?thesis using s by (simp add: promote_mutation_def get_mutation_def wp_rules)
next
  case m: (Some m)
  show ?thesis
  proof (cases "mutation_status m = VALIDATED")
    case True
    have ok: "ok s" using s by (simp add: service_ok_def)
    show ?thesis
      unfolding promote_mutation_def get_mutation_def wp_bind wp_gets
    proof (simp add: m wp_rules True, rule wp_mono [OF keep_law(6) [OF ok]], goal_cases)
      case (1 x u)
      then have u: "ok u" "shadow_mutations u = shadow_mutations s" by (auto dest: own_mutations)
      have ok': "ok (u\<lparr>clock_pos := Suc (clock_pos u)\<rparr>)"
        using advance_law [OF u(1)] advance_now by blast
      have "mutations_ok (u\<lparr>clock_pos := Suc (clock_pos u), shadow_mutations := dict_set i
          (m\<lparr>mutation_status := PROMOTED, mutation_promoted_at := Some (clock_src u (clock_pos u))\<rparr>) (shadow_mutations u)\<rparr>)"
        by (rule mutations_ok_step [OF _ m mutation_step.promote [OF True]])
           (use s u in \<open>simp_all add: service_ok_def\<close>)
      with ok' show ?case
        by (simp add: wp_rules put_mutation_def Let_def service_ok_def write_mutations)
    next
      case (2 e t)
      then show ?case using s by (auto simp: service_ok_def dest: own_mutations intro: mutations_ok_same)
    qed
  next
    case False
    then show ?thesis using s m by (simp add: promote_mutation_def get_mutation_def wp_rules)
  qed
qed

lemma propose_mutation_ok: "ok s \<Longrightarrow> wp (propose_mutation ty who payload) (\<lambda>_. ok) (\<lambda>_. ok) s"
  using advance_law
  by (auto simp: propose_mutation_def new_proposed_mutation_def put_mutation_def wp_rules write_mutations
      advance_counters)

lemma validate_mutation_ok: "ok s \<Longrightarrow> wp (validate_mutation i acc who reason) (\<lambda>_. ok) (\<lambda>_. ok) s"
  using advance_law advance_now
  by (auto simp: validate_mutation_def get_mutation_def put_mutation_def wp_rules write_mutations Let_def
      split: option.split)

lemma service_call_keeps: "service_ok s \<Longrightarrow> service_ok (shadow_service rt c s)"
proof (cases c)
  case (CallProposeMutation ty who payload)
  assume s: "service_ok s"
  have "wp (propose_mutation ty who payload) (\<lambda>_. service_ok) (\<lambda>_. service_ok) s"
    using wp_conj_ok [OF propose_mutation_ok propose_mutation_keeps] s
    unfolding service_ok_def by blast
  then show ?thesis unfolding CallProposeMutation by (auto intro: wp_True_cases)
next
  case (CallValidateMutation i acc who reason)
  assume s: "service_ok s"
  have "wp (validate_mutation i acc who reason) (\<lambda>_. service_ok) (\<lambda>_. service_ok) s"
    using wp_conj_ok [OF validate_mutation_ok validate_mutation_keeps] s
    unfolding service_ok_def by blast
  then show ?thesis unfolding CallValidateMutation by (auto intro: wp_True_cases)
qed (auto intro: preserves_snd [OF create_shadow_keeps] preserves_snd [OF complete_shadow_keeps]
       wp_True_cases [OF promote_mutation_keeps])

lemma service_calls_keep: "service_ok s \<Longrightarrow> service_ok (fold (shadow_service rt) calls s)"
  by (induction calls arbitrary: s) (auto intro: service_call_keeps)

end

section \<open>Properties\<close>

text \<open>A shadow of the sample card, for the witnesses.\<close>

lemma sample_shadow:
  "\<exists>run t. create_shadow_card (memory_runtime list_networkx) sample_card ''c'' (Some default_policy) None
     (in_mesh sample_created) = (Inr run, t)"
  by (simp add: create_shadow_card_def default_policy_def in_mesh_def sample_created_state sample_registered_code
      sample_start_def empty_runtime_def memory_runtime_def create_card_def idempotently_def get_idempotent_def
      cached_def get_patch_panel_def run_defs sample_panel_facts new_card_def new_card_event_def uuid4_def
      now_utc_def put_card_def append_event_def store_idempotent_def remember_def logged_def
      record_event_def get_card_def new_shadow_card_link_def put_link_def sample_card_def
      sample_ids_def split_colon_def Let_def dict_update_def)

lemma sample_card_in_mesh: "dict_get (mem_cards (in_mesh sample_created)) (card_id sample_card) = Some sample_card"
  by (simp add: sample_card_stored) (simp add: sample_card_def sample_created_state)

lemma in_mesh_created_ok: "mem_ok (in_mesh sample_created)"
  by (simp add: sample_ok)

text \<open>
  Property C17. A shadow is isolated: creating one without an idempotency key adds exactly one new card,
  with the payload of the production card and marked as a shadow, draws one active link between the
  two, appends one \<^verbatim>\<open>shadow_created\<close> event to the production card, and changes no other card.
\<close>

theorem shadow_isolated:
  assumes "networkx_graph nx gnodes gedges" and "mem_ok s" and "\<not> truthy key"
    and "dict_get (mem_cards s) (card_id p) = Some c"
    and "create_shadow_card (memory_runtime nx) p candidate policy key s = (Inr run, t)"
    and "sh = run_shadow_card run"
  shows "mem_ok t \<and> run_production_card run = p \<and> dict_get (mem_cards s) (card_id sh) = None \<and>
    (\<forall>i. dict_get (mem_cards t) i = (if i = card_id sh then Some sh else dict_get (mem_cards s) i)) \<and>
    card_payload sh = card_payload p \<and> dict_get (card_metadata sh) ''shadow'' = Some (JBool True) \<and>
    (\<exists>l. shadow_links t = dict_set (link_id l) l (shadow_links s) \<and> active_link (card_id p) l \<and>
       link_shadow_card_id l = card_id sh \<and> link_candidate_id l = candidate) \<and>
    (\<exists>e. history t (card_id p) = history s (card_id p) @ [e] \<and> event_type e = ''shadow_created'')"
proof -
  note rt = memory_shadow_runtime [OF assms(1)]
  have "dict_get (mem_cards s) (card_id p) \<noteq> None" by (simp add: assms(4))
  from shadow_runtime.create_shadow_run [OF rt assms(2) this assms(3), of candidate policy]
  have "run_production_card run = p" and
    "shadow_runtime.shadowed mem_ok (\<lambda>s. dict_get (mem_cards s)) history s t p candidate sh"
    by (simp_all add: wp_def assms(5,6))
  then show ?thesis unfolding shadow_runtime.shadowed_def [OF rt] by simp
qed

theorem shadow_isolated_witness:
  "\<exists>run t. create_shadow_card (memory_runtime list_networkx) sample_card ''c'' (Some default_policy) None
     (in_mesh sample_created) = (Inr run, t) \<and> dict_get (mem_cards t) (card_id sample_card) = Some sample_card \<and>
     dict_get (mem_cards t) (card_id (run_shadow_card run)) = Some (run_shadow_card run)"
proof -
  obtain run t where run: "create_shadow_card (memory_runtime list_networkx) sample_card ''c'' (Some default_policy)
     None (in_mesh sample_created) = (Inr run, t)" using sample_shadow by blast
  from shadow_isolated [OF sample_graph in_mesh_created_ok _ sample_card_in_mesh run refl]
  show ?thesis using run sample_card_in_mesh by (intro exI [of _ run] exI [of _ t]) auto
qed

text \<open>
  Property C18. Shadows are bounded: when \<^verbatim>\<open>create_shadow_card\<close> returns, whatever key it was given, the
  production card has at most \<^verbatim>\<open>max_parallel\<close> active shadow links.
\<close>

theorem shadow_parallel_bound:
  assumes "networkx_graph nx gnodes gedges" and "mem_ok s"
    and "create_shadow_card (memory_runtime nx) p candidate (Some pol) key s = (Inr run, t)"
  shows "int (length (filter (active_link (card_id p)) (dict_values (shadow_links t)))) \<le> policy_max_parallel pol"
  using shadow_runtime.create_shadow_bound [OF memory_shadow_runtime [OF assms(1)] assms(2), of p candidate pol key]
  by (simp add: wp_def assms(3))

theorem shadow_parallel_bound_witness:
  "\<exists>run t. create_shadow_card (memory_runtime list_networkx) sample_card ''c'' (Some default_policy) None
     (in_mesh sample_created) = (Inr run, t) \<and>
     length (filter (active_link (card_id sample_card)) (dict_values (shadow_links t))) \<le> 1"
proof -
  obtain run t where run: "create_shadow_card (memory_runtime list_networkx) sample_card ''c'' (Some default_policy)
     None (in_mesh sample_created) = (Inr run, t)" using sample_shadow by blast
  from shadow_parallel_bound [OF sample_graph in_mesh_created_ok run] run show ?thesis
    by (simp add: default_policy_def)
qed

text \<open>
  A shadow never leaves through a production sink: whatever calls the runtime serves after
  a shadow was created without an idempotency key, executing a sink that does not allow shadow egress
  for the shadow card raises, and changes nothing.
\<close>

theorem shadow_never_egresses:
  assumes nx: "networkx_graph nx gnodes gedges" and ok: "mem_ok s" and key: "\<not> truthy key"
    and p: "dict_get (mem_cards s) (card_id p) = Some c"
    and run: "create_shadow_card (memory_runtime nx) p candidate policy key s = (Inr run, t)"
    and later: "u = perform_all nx calls t"
    and ex: "ex_runtime ex = memory_runtime nx" "find_node (ex_patch_panel ex) sink_id SINK = Inr n"
    and egress: "\<not> json_true (json_get (node_config n) ''allow_shadow_egress'')"
  shows "execute_sink dec ex (card_id (run_shadow_card run)) sink_id ref key' u =
    (Inl (InvalidOperationError ''shadow cards cannot execute production sinks''), u)"
proof -
  let ?sh = "run_shadow_card run"
  note rt = memory_shadow_runtime [OF nx]
  have "dict_get (mem_cards s) (card_id p) \<noteq> None" by (simp add: p)
  from shadow_runtime.create_shadow_run [OF rt ok this key, of candidate policy]
  have "shadow_runtime.shadowed mem_ok (\<lambda>s. dict_get (mem_cards s)) history s t p candidate ?sh"
    by (simp add: wp_def run)
  then have t: "mem_ok t" "dict_get (mem_cards t) (card_id ?sh) = Some ?sh"
    "dict_get (card_metadata ?sh) ''shadow'' = Some (JBool True)"
    unfolding shadow_runtime.shadowed_def [OF rt] by simp_all
  have "mem_grown t u"
    unfolding later using steps_grown [OF perform_all_steps [OF nx t(1)] t(1)] by blast
  then obtain b where "dict_get (mem_cards u) (card_id ?sh) = Some (?sh\<lparr>card_current_bucket := b\<rparr>)"
    using card_runtime_contract.grown_cards [OF memory_runtime_contract [OF nx]] t(2) by blast
  from sink_runtime.execute_sink_run [OF memory_sink_runtime [OF nx] ex this] t(3) egress
  show ?thesis by (simp add: json_get_def json_true_def)
qed

theorem shadow_never_egresses_witness:
  "\<exists>run t. create_shadow_card (memory_runtime list_networkx) sample_card ''c'' (Some default_policy) None
     (in_mesh sample_created) = (Inr run, t) \<and>
     fst (execute_sink sample_decoders (sample_executor (memory_runtime list_networkx))
       (card_id (run_shadow_card run)) ''authority_provisioner_sink'' None None t) =
     Inl (InvalidOperationError ''shadow cards cannot execute production sinks'')"
proof -
  obtain run t where run: "create_shadow_card (memory_runtime list_networkx) sample_card ''c'' (Some default_policy)
     None (in_mesh sample_created) = (Inr run, t)" using sample_shadow by blast
  have "\<not> json_true (json_get (node_config sample_sink) ''allow_shadow_egress'')"
    by (simp add: sample_sink_def sample_node_def json_get_def json_true_def)
  from shadow_never_egresses [OF sample_graph in_mesh_created_ok _ sample_card_in_mesh run,
      of t "[]" "sample_executor (memory_runtime list_networkx)", OF _ _ _ sample_executor_node this]
  show ?thesis using run by (intro exI [of _ run] exI [of _ t]) (simp add: perform_all_def)
qed

lemma register_run:
  assumes "networkx_graph nx gn ge"
  shows "well_formed_panel p \<Longrightarrow> register_patch_panel nx p s = (Inr p, s\<lparr>mem_patch_panels := dict_set (panel_id p) p (mem_patch_panels s)\<rparr>)"
    and "\<not> well_formed_panel p \<Longrightarrow> \<exists>e. register_patch_panel nx p s = (Inl e, s)"
proof -
  note iff = networkx_graph.validate_iff [OF assms, of p]
  show "register_patch_panel nx p s = (Inr p, s\<lparr>mem_patch_panels := dict_set (panel_id p) p (mem_patch_panels s)\<rparr>)"
    if "well_formed_panel p"
  proof -
    have "validate nx p = Inr (panel_report nx p)" using iff that by simp
    then show ?thesis by (simp add: register_patch_panel_def validate_patch_panel_def run_defs)
  qed
  show "\<exists>e. register_patch_panel nx p s = (Inl e, s)" if "\<not> well_formed_panel p"
  proof (cases "validate nx p")
    case (Inl e)
    then show ?thesis by (simp add: register_patch_panel_def validate_patch_panel_def run_defs)
  qed (use iff that in simp)
qed

text \<open>
  The promotion gate: a mutation is promoted exactly when it exists, its last verdict was an
  acceptance, and the panel passed along is well formed. Then the panel is registered and the mutation
  stored as promoted; otherwise the call raises and changes nothing.
\<close>

theorem promotion_gate:
  assumes "networkx_graph nx gnodes gedges"
  shows "if \<exists>m. dict_get (shadow_mutations s) i = Some m \<and> mutation_status m = VALIDATED \<and> well_formed_panel p
    then \<exists>m t. promote_mutation (memory_runtime nx) i p s = (Inr m, t) \<and> mutation_status m = PROMOTED \<and>
      mutation_promoted_at m = Some (clock_src s (clock_pos s)) \<and>
      shadow_mutations t = dict_set i m (shadow_mutations s) \<and>
      mem_patch_panels t = dict_set (panel_id p) p (mem_patch_panels s)
    else \<exists>e. promote_mutation (memory_runtime nx) i p s = (Inl e, s)"
proof (cases "dict_get (shadow_mutations s) i")
  case None
  then show ?thesis by (simp add: promote_mutation_def get_mutation_def run_defs)
next
  case (Some m)
  then show ?thesis
    using register_run [OF assms, of p s]
    by (cases "mutation_status m = VALIDATED"; cases "well_formed_panel p")
       (auto simp: promote_mutation_def get_mutation_def put_mutation_def memory_runtime_def run_defs
          now_utc_def Let_def)
qed

theorem promotion_gate_witness:
  "\<exists>e. promote_mutation (memory_runtime list_networkx) (sample_ids 0) sample_panel (in_mesh sample_created) =
     (Inl e, in_mesh sample_created)"
  using promotion_gate [OF sample_graph, of "in_mesh sample_created" "sample_ids 0" sample_panel]
  by (simp add: in_mesh_def)

text \<open>
  Property C19. The life of a mutation: whatever calls the service has served, a stored mutation has a
  validation time exactly when it was judged, a promoted mutation has a promotion time, nothing is
  promoted that was never judged, and the runtime keeps its invariant.
\<close>

theorem mutation_lifecycle:
  assumes "networkx_graph nx gnodes gedges" and "mem_ok s" and "shadow_mutations s = []"
    and "t = fold (shadow_service (memory_runtime nx)) calls s"
  shows "mem_ok t \<and> (\<forall>i m. dict_get (shadow_mutations t) i = Some m \<longrightarrow>
    (mutation_status m \<in> {VALIDATED, REJECTED, PROMOTED} \<longleftrightarrow> mutation_validated_at m \<noteq> None) \<and>
    (mutation_status m = PROMOTED \<longrightarrow> mutation_promoted_at m \<noteq> None) \<and>
    (mutation_promoted_at m \<noteq> None \<longrightarrow> mutation_validated_at m \<noteq> None))"
proof -
  note rt = memory_shadow_runtime [OF assms(1)]
  have "shadow_runtime.service_ok mem_ok s"
    using assms(2,3) by (simp add: shadow_runtime.service_ok_def [OF rt] mutations_ok_def)
  from shadow_runtime.service_calls_keep [OF rt this, of calls]
  have "mem_ok t" "mutations_ok t"
    by (simp_all add: assms(4) shadow_runtime.service_ok_def [OF rt])
  then show ?thesis unfolding mutations_ok_def using mutation_verdict by blast
qed

theorem mutation_lifecycle_witness:
  "mem_ok (fold (shadow_service (memory_runtime list_networkx)) [CallProposeMutation ''panel'' ''ann'' []]
     (in_mesh sample_created))"
  using mutation_lifecycle [OF sample_graph in_mesh_created_ok in_mesh_sel(8) refl] by blast

end
