(* ===== verification/ServiceProperties.thy ===== *)
theory ServiceProperties
  imports MeshSamples "HOL-Library.Multiset"
begin

text \<open>
  Properties of the services around the runtime: the registry, genesis, the boundary adapters and the
  operator views, each over the in-memory implementations.
\<close>

section \<open>The registry\<close>

text \<open>
  Property C22. A registry entry that is no draft is fixed: whatever updates, archivals, supersessions and
  registrations of other ids follow, it stays in the registry, never becomes a draft again, and keeps
  its panel, version, description, tags, types, permissions and owner.
\<close>

theorem settled_entry_fixed:
  assumes "registry_ok s" and "dict_get (mem_entries s) i = Some e" and "entry_status e \<noteq> DRAFT"
    and "list_all (\<lambda>c. \<not> registers i c) calls"
  shows "\<exists>e'. dict_get (mem_entries (fold (call_registry memory_registry) calls s)) i = Some e' \<and>
    entry_status e' \<noteq> DRAFT \<and>
    e' = e\<lparr>entry_status := entry_status e', entry_supersedes_entry_id := entry_supersedes_entry_id e',
       entry_archived_at := entry_archived_at e', entry_updated_at := entry_updated_at e'\<rparr>"
  using mem_reg.calls_settled [OF assms] by (simp add: settled_def)

definition sample_entry :: registry_entry where
  "sample_entry = \<lparr>entry_id = UUID ''e'', entry_patch_panel_id = ''p'', entry_version = ''1'', entry_name = ''m'',
     entry_description = None, entry_tags = [''t''], entry_input_types = [''ticket''], entry_output_types = [],
     entry_required_tools = [], entry_required_permissions = [], entry_risk_level = None, entry_estimated_cost = None,
     entry_estimated_latency = None, entry_owner_participant_id = None, entry_status = PUBLISHED,
     entry_supersedes_entry_id = None, entry_metadata = [], entry_created_at = 0, entry_updated_at = 0,
     entry_archived_at = None\<rparr>"

definition sample_listed :: mesh where
  "sample_listed = (in_mesh sample_created)\<lparr>mem_entries := [(UUID ''e'', sample_entry)]\<rparr>"

lemma sample_listed_ok: "registry_ok sample_listed" "mem_entries sample_listed = [(UUID ''e'', sample_entry)]"
  "genesis_index sample_listed = []"
  by (simp_all add: sample_listed_def py.keyed_def sample_entry_def)

theorem settled_entry_fixed_witness:
  "\<exists>e. dict_get (mem_entries (fold (call_registry memory_registry)
        [CallUpdate (UUID ''e'') sample_metadata, CallArchive (UUID ''e'')] sample_listed)) (UUID ''e'') = Some e \<and>
     entry_tags e = [''t''] \<and> entry_status e \<noteq> DRAFT"
proof -
  have "dict_get (mem_entries sample_listed) (UUID ''e'') = Some sample_entry" "entry_status sample_entry \<noteq> DRAFT"
    by (simp_all add: sample_listed_ok sample_entry_def)
  from settled_entry_fixed [OF sample_listed_ok(1) this,
      of "[CallUpdate (UUID ''e'') sample_metadata, CallArchive (UUID ''e'')]"]
  obtain e where "dict_get (mem_entries (fold (call_registry memory_registry)
      [CallUpdate (UUID ''e'') sample_metadata, CallArchive (UUID ''e'')] sample_listed)) (UUID ''e'') = Some e"
    "entry_status e \<noteq> DRAFT" and e: "e = sample_entry\<lparr>entry_status := entry_status e,
       entry_supersedes_entry_id := entry_supersedes_entry_id e, entry_archived_at := entry_archived_at e,
       entry_updated_at := entry_updated_at e\<rparr>" by auto
  moreover have "entry_tags e = [''t'']" by (subst e) (simp add: sample_entry_def)
  ultimately show ?thesis by blast
qed

section \<open>Genesis\<close>





section \<open>Boundary adapters\<close>

text \<open>A contract that maps the body and deduplicates by its number, and a request to the sample source.\<close>

definition sample_contracts :: contract_decoders where
  "sample_contracts =
     \<lparr>decode_source_contract = (\<lambda>_. Inr \<lparr>source_adapter = ''http'', source_auth = None,
        source_payload_map = [(''body'', ''payload.body'')], source_metadata_map = [],
        source_deduplication_key = Some ''payload.nr'', source_target_workflow_version = None\<rparr>),
      decode_sink_contract = (\<lambda>_. Inr \<lparr>sink_adapter = ''http'',
        sink_auth = Some \<lparr>auth_token = Some ''secret'', auth_tokens = []\<rparr>, sink_payload_map = [],
        sink_idempotency_key = None, sink_external_reference_path = None\<rparr>),
      format_field = (\<lambda>f _. Inl (KeyError f))\<rparr>"

definition sample_ingress :: boundary_source_request where
  "sample_ingress = \<lparr>bsrc_patch_panel_id = ''p'', bsrc_source_id = ''src'',
     bsrc_external_payload = [(''body'', JStr ''b''), (''nr'', JStr ''n1'')], bsrc_headers = [], bsrc_actor_token = None\<rparr>"

lemma sample_panel_nodes:
  "panel_nodes sample_panel = [sample_node ''src'' SOURCE [] [''s.out''],
     sample_node ''work'' WORKER [''w.in''] [''w.out''], sample_node ''end'' SINK [''e.in''] []]"
  "node_id (sample_node i ty ins outs) = i" "node_type (sample_node i ty ins outs) = ty"
  by (simp_all add: sample_panel_def sample_node_def)

text \<open>Remembering a result under a new key: it is cached there, and nothing cached is lost.\<close>

lemma cached_remember:
  assumes "truthy key" and "cached key d = None" and "idempotent_true v"
  shows "cached key (remember key v d) = Some v"
    and "cached k d = Some w \<Longrightarrow> cached k (remember key v d) = Some w"
proof -
  show "cached key (remember key v d) = Some v" using assms by (cases key) (simp_all add: cached_def store_simps)
  assume k: "cached k d = Some w"
  then have "k \<noteq> key" using assms(2) by auto
  with k show "cached k (remember key v d) = Some w"
    by (cases k) (auto simp: cached_def store_simps split: if_splits)
qed

lemma keyed_create:
  assumes "create_card pid payload md key s = (Inr c, t)" and "truthy key"
  shows "cached key (mem_idempotency t) = Some (ICard c)" "mem_patch_panels t = mem_patch_panels s"
    "cached k (mem_idempotency s) = Some v \<Longrightarrow> cached k (mem_idempotency t) = Some v"
  using wp_okD [OF create_card_wp assms(1)] cached_remember [OF assms(2), of "mem_idempotency s" "ICard c"]
  by (cases "cached key (mem_idempotency s)"; force)+

lemma keyed_record:
  assumes "record_event cid ty actor payload key s = (Inr e, t)" and "truthy key"
  shows "cached key (mem_idempotency t) = Some (IEvent e)" "mem_patch_panels t = mem_patch_panels s"
    "cached k (mem_idempotency s) = Some v \<Longrightarrow> cached k (mem_idempotency t) = Some v"
  using wp_okD [OF record_event_wp assms(1)] cached_remember [OF assms(2), of "mem_idempotency s" "IEvent e"]
  by (cases "cached key (mem_idempotency s)"; force)+

lemma idempotently_cached_run:
  "cached key (mem_idempotency s) = Some v \<Longrightarrow> bindM (idempotently typed key body) f s = bindM (liftM (typed v)) f s"
  by (simp add: idempotently_def get_idempotent_def run_defs)

lemma keyed_execute_source:
  assumes "execute_source ex sid payload md key s = (Inr c, t)" and "ex_runtime ex = memory_runtime nx" and "truthy key"
  shows "\<exists>n e. find_node (ex_patch_panel ex) sid SOURCE = Inr n \<and> mem_patch_panels t = mem_patch_panels s \<and>
    cached key (mem_idempotency t) = Some (ICard c) \<and>
    cached (derived_key key ''source'') (mem_idempotency t) = Some (IEvent e)"
proof -
  obtain n u e where n: "find_node (ex_patch_panel ex) sid SOURCE = Inr n"
    and c: "create_card (panel_id (ex_patch_panel ex)) payload (Some (case md of None \<Rightarrow> [] | Some m \<Rightarrow> m)) key s = (Inr c, u)"
    and e: "record_event (card_id c) ''source_executed'' (Some (node_id n)) (Some [(''source_id'', JStr (node_id n))])
      (derived_key key ''source'') u = (Inr e, t)"
    using assms(1) by (auto simp: execute_source_def assms(2) memory_runtime_def exec dest: sym)
  have key: "truthy (derived_key key ''source'')" using assms(3) by (simp add: derived_key_def)
  note create = keyed_create [OF c assms(3)] and rec = keyed_record [OF e key]
  have "cached key (mem_idempotency t) = Some (ICard c)" using rec(3) create(1) by blast
  with n create(2) rec(1,2) show ?thesis by simp
qed

lemma replay_execute_source:
  assumes "find_node (ex_patch_panel ex) sid SOURCE = Inr n" and "ex_runtime ex = memory_runtime nx"
    and "cached key (mem_idempotency t) = Some (ICard c)"
    and "cached (derived_key key ''source'') (mem_idempotency t) = Some (IEvent e)"
  shows "execute_source ex sid payload md key t = (Inr c, t)"
  using assms
  by (simp add: execute_source_def memory_runtime_def run_defs create_card_def record_event_def
      idempotently_def get_idempotent_def)

text \<open>What a source adapter decides before it writes: a pure function of the registered panels.\<close>

definition source_plan ::
  "contract_decoders \<Rightarrow> boundary_source_request \<Rightarrow> patch_panel list \<Rightarrow>
     (patch_panel \<times> node_definition \<times> source_boundary_contract \<times> jdict \<times> jdict \<times> string option) res" where
  "source_plan cd req ps =
     (case find (\<lambda>p. panel_id p = bsrc_patch_panel_id req) ps of
        None \<Rightarrow> Inl (NotFoundError (''Patch Panel '' @ quoted (bsrc_patch_panel_id req) @ '' is not registered''))
      | Some p \<Rightarrow> (case find_node p (bsrc_source_id req) SOURCE of Inl e \<Rightarrow> Inl e | Inr n \<Rightarrow>
        (case decode_source_contract cd (contract_config n ''ingress_contract'') of Inl e \<Rightarrow> Inl e | Inr contract \<Rightarrow>
        (case ensure_authorized (source_auth contract) (bsrc_actor_token req) of Inl e \<Rightarrow> Inl e | Inr _ \<Rightarrow>
        if source_target_workflow_version contract \<noteq> None \<and>
          source_target_workflow_version contract \<noteq> Some (workflow_version_id p)
        then Inl (InvalidOperationError (''source '' @ quoted (node_id n) @ '' targets workflow ''
            @ quoted (the (source_target_workflow_version contract)) @ '', not '' @ quoted (workflow_version_id p)))
        else
        (case map_payload (envelope_of (bsrc_external_payload req) (bsrc_headers req)) (source_payload_map contract) of
          Inl e \<Rightarrow> Inl e | Inr mapped \<Rightarrow>
        (case map_payload (envelope_of (bsrc_external_payload req) (bsrc_headers req)) (source_metadata_map contract) of
          Inl e \<Rightarrow> Inl e | Inr md \<Rightarrow>
        (case (if truthy (source_deduplication_key contract)
               then (case extract_path (envelope_of (bsrc_external_payload req) (bsrc_headers req))
                       (source_deduplication_key contract) of
                     Inl e \<Rightarrow> Inl e | Inr v \<Rightarrow> Inr (Some (py_str v)))
               else Inr None) of
          Inl e \<Rightarrow> Inl e | Inr dedup \<Rightarrow>
          Inr (p, n, contract, (if mapped \<noteq> [] then mapped else bsrc_external_payload req),
            dict_update md ([(''boundary_adapter'', JStr (source_adapter contract)),
               (''boundary_source'', JStr (node_id n))] @
              (if truthy dedup then [(''deduplication_key'', JStr (the dedup))] else [])), dedup))))))))"

definition source_effect ::
  "'s card_runtime \<Rightarrow> boundary_source_request \<Rightarrow>
     patch_panel \<times> node_definition \<times> source_boundary_contract \<times> jdict \<times> jdict \<times> string option \<Rightarrow>
     ('s, source_boundary_result) M" where
  "source_effect rt req = (\<lambda>(p, n, contract, payload, md, dedup).
     bindM (execute_source
              \<lparr>ex_patch_panel = p, ex_runtime = rt, ex_registry = None, ex_authorization_repository = None\<rparr>
              (node_id n) payload (Some md) (source_key p n dedup [])) (\<lambda>c.
     bindM (rt_record_event rt (card_id c) ''boundary_source_received'' (Some (node_id n))
              (Some [(''adapter'', JStr (source_adapter contract)), (''source_id'', JStr (node_id n)),
                     (''deduplication_key'', opt_json dedup), (''headers'', JDict (bsrc_headers req))])
              (source_key p n dedup '':event'')) (\<lambda>_.
     returnM \<lparr>src_result_card = c, src_result_deduplication_key = dedup,
       src_result_adapter = source_adapter contract\<rparr>)))"

lemma boundary_source_run:
  "boundary_execute_source cd (memory_runtime nx) req s =
     (case source_plan cd req (dict_values (mem_patch_panels s)) of
        Inl e \<Rightarrow> (Inl e, s)
      | Inr plan \<Rightarrow> source_effect (memory_runtime nx) req plan s)"
proof -
  have panels: "rt_list_patch_panels (memory_runtime nx) s = (Inr (dict_values (mem_patch_panels s)), s)"
    by (simp add: memory_runtime_def list_patch_panels_def getsM_def)
  have lift: "bindM (liftM x) f s = (case x of Inl e \<Rightarrow> (Inl e, s) | Inr y \<Rightarrow> f y s)" for x and f :: "'x \<Rightarrow> ('y, 'w) M" and s
    by (simp add: bindM_def liftM_def split: sum.split)
  have reg: "bindM (registered_patch_panel (memory_runtime nx) pid) f s =
    (case find (\<lambda>p. panel_id p = pid) (dict_values (mem_patch_panels s)) of
       None \<Rightarrow> (Inl (NotFoundError (''Patch Panel '' @ quoted pid @ '' is not registered'')), s) | Some p \<Rightarrow> f p s)"
    for pid and f :: "patch_panel \<Rightarrow> ('a mem_runtime_scheme, 'w) M"
    by (simp add: registered_patch_panel_def bindM_def panels returnM_def raiseM_def split: option.split)
  have if_app: "(if b then m else n) s = (if b then m s else n s)" for b and m n :: "('a mem_runtime_scheme, 'w) M"
    by simp
  have bind_if: "bindM (if b then m else n) f = (if b then bindM m f else bindM n f)"
    for b and m n :: "('a mem_runtime_scheme, 'v) M" and f :: "'v \<Rightarrow> ('a mem_runtime_scheme, 'w) M" by simp
  have case_if: "(case (if b then x else y) of Inl e \<Rightarrow> f e | Inr z \<Rightarrow> g z) =
    (if b then (case x of Inl e \<Rightarrow> f e | Inr z \<Rightarrow> g z) else (case y of Inl e \<Rightarrow> f e | Inr z \<Rightarrow> g z))"
    for b and x y :: "'v res" and f :: "error \<Rightarrow> 'w" and g by simp
  have case_case: "(case (case x of Inl e \<Rightarrow> Inl e | Inr y \<Rightarrow> h y) of Inl e \<Rightarrow> f e | Inr z \<Rightarrow> g z) =
    (case x of Inl e \<Rightarrow> f e | Inr y \<Rightarrow> (case h y of Inl e \<Rightarrow> f e | Inr z \<Rightarrow> g z))"
    for x :: "'u res" and h :: "'u \<Rightarrow> 'v res" and f :: "error \<Rightarrow> 'w" and g by (simp split: sum.split)
  have case_case_option: "(case (case x of None \<Rightarrow> Inl d | Some y \<Rightarrow> h y) of Inl e \<Rightarrow> f e | Inr z \<Rightarrow> g z) =
    (case x of None \<Rightarrow> f d | Some y \<Rightarrow> (case h y of Inl e \<Rightarrow> f e | Inr z \<Rightarrow> g z))"
    for x :: "'u option" and h :: "'u \<Rightarrow> 'v res" and d and f :: "error \<Rightarrow> 'w" and g by (simp split: option.split)
  have assoc: "bindM (bindM m f) g = bindM m (\<lambda>x. bindM (f x) g)" for m :: "('a mem_runtime_scheme, 'u) M"
    and f :: "'u \<Rightarrow> ('a mem_runtime_scheme, 'v) M" and g :: "'v \<Rightarrow> ('a mem_runtime_scheme, 'w) M"
    by (auto simp: bindM_def split: sum.split prod.split)
  show ?thesis
    unfolding boundary_execute_source_def reg lift source_plan_def source_effect_def Let_def
    by (simp only: lift if_app case_if bind_if assoc raiseM_def case_case case_case_option bindM_return sum.case prod.case)
       (auto simp: bindM_def [of "Pair r" for r] split: sum.split option.split)
qed

text \<open>
  Property C21. External input is taken once: when a source adapter has returned with a deduplication key,
  the same request returns the same card and the same result, and changes nothing.
\<close>

theorem source_taken_once:
  assumes run: "boundary_execute_source cd (memory_runtime nx) req s = (Inr r, t)"
    and key: "truthy (src_result_deduplication_key r)"
  shows "boundary_execute_source cd (memory_runtime nx) req t = (Inr r, t)"
proof -
  obtain p n contract payload md dedup where
    plan: "source_plan cd req (dict_values (mem_patch_panels s)) = Inr (p, n, contract, payload, md, dedup)"
    and run: "source_effect (memory_runtime nx) req (p, n, contract, payload, md, dedup) s = (Inr r, t)"
    using run by (auto simp: boundary_source_run split: sum.splits)
  let ?ex = "\<lparr>ex_patch_panel = p, ex_runtime = memory_runtime nx, ex_registry = None, ex_authorization_repository = None\<rparr>"
  obtain c u e where c: "execute_source ?ex (node_id n) payload (Some md) (source_key p n dedup []) s = (Inr c, u)"
    and e: "record_event (card_id c) ''boundary_source_received'' (Some (node_id n))
      (Some [(''adapter'', JStr (source_adapter contract)), (''source_id'', JStr (node_id n)),
         (''deduplication_key'', opt_json dedup), (''headers'', JDict (bsrc_headers req))])
      (source_key p n dedup '':event'') u = (Inr e, t)"
    and r: "r = \<lparr>src_result_card = c, src_result_deduplication_key = dedup, src_result_adapter = source_adapter contract\<rparr>"
    using run by (auto simp: source_effect_def exec) (auto simp: memory_runtime_def)
  have keys: "truthy (source_key p n dedup [])" "truthy (source_key p n dedup '':event'')"
    using key r by (simp_all add: source_key_def)
  obtain n' e' where u: "find_node p (node_id n) SOURCE = Inr n'" "mem_patch_panels u = mem_patch_panels s"
    "cached (source_key p n dedup []) (mem_idempotency u) = Some (ICard c)"
    "cached (derived_key (source_key p n dedup []) ''source'') (mem_idempotency u) = Some (IEvent e')"
    using keyed_execute_source [OF c _ keys(1), of nx] by auto
  note rec = keyed_record [OF e keys(2)]
  have "execute_source ?ex (node_id n) payload (Some md) (source_key p n dedup []) t = (Inr c, t)"
    by (rule replay_execute_source) (use u(1) rec(3) [OF u(3)] rec(3) [OF u(4)] in simp_all)
  then have "source_effect (memory_runtime nx) req (p, n, contract, payload, md, dedup) t = (Inr r, t)"
    using rec(1)
    by (simp add: source_effect_def bindM_Inr memory_runtime_def record_event_def idempotently_cached_run r
        bindM_def [of "liftM x" for x] liftM_def returnM_def)
  then show ?thesis using plan u(2) rec(2) by (simp add: boundary_source_run)
qed

theorem source_taken_once_witness:
  "\<exists>r t. boundary_execute_source sample_contracts (memory_runtime list_networkx) sample_ingress (in_mesh sample_created) = (Inr r, t) \<and>
     boundary_execute_source sample_contracts (memory_runtime list_networkx) sample_ingress t = (Inr r, t)"
proof -
  let ?run = "boundary_execute_source sample_contracts (memory_runtime list_networkx) sample_ingress (in_mesh sample_created)"
  have "\<exists>r t. ?run = (Inr r, t) \<and> src_result_deduplication_key r = Some ''n1''"
    unfolding boundary_source_run
    by (simp add: source_plan_def source_effect_def sample_contracts_def sample_ingress_def
      in_mesh_def sample_created_state sample_registered_code sample_start_def empty_runtime_def sample_panel_nodes find_node_def
      envelope_of_def extract_path_def execute_source_def
      ensure_authorized_def memory_runtime_def create_card_def idempotently_def get_idempotent_def cached_def
      get_patch_panel_def run_defs sample_panel_facts new_card_def new_card_event_def uuid4_def now_utc_def
      put_card_def append_event_def store_idempotent_def remember_def logged_def record_event_def get_card_def
      sample_ids_def Let_def dict_update_def source_key_def derived_key_def py_str_def)
  then obtain r t where run: "?run = (Inr r, t)" "truthy (src_result_deduplication_key r)" by auto
  from source_taken_once [OF this] run(1) show ?thesis by blast
qed

text \<open>
  The token guard: an adapter whose contract lists tokens runs only for a request that carries
  one of them. Otherwise source and sink adapters raise before they read a card, and change nothing.
\<close>

theorem boundary_token_guard:
  assumes "find (\<lambda>p. panel_id p = pid) (dict_values (mem_patch_panels s)) = Some p"
    and "allowed = auth_tokens a @ (if truthy (auth_token a) then [the (auth_token a)] else [])"
    and "allowed \<noteq> []" and "token \<notin> Some ` set allowed"
    and "bsrc_patch_panel_id req = pid" and "bsrc_actor_token req = token"
    and "find_node p (bsrc_source_id req) SOURCE = Inr n"
    and "decode_source_contract cd (contract_config n ''ingress_contract'') = Inr ingress" and "source_auth ingress = Some a"
    and "bsnk_patch_panel_id req' = pid" and "bsnk_actor_token req' = token"
    and "find_node p (bsnk_sink_id req') SINK = Inr m"
    and "decode_sink_contract cd (contract_config m ''egress_contract'') = Inr egress" and "sink_auth egress = Some a"
  shows "boundary_execute_source cd (memory_runtime nx) req s =
      (Inl (InvalidOperationError ''boundary adapter authorization failed''), s) \<and>
    boundary_execute_sink enc cd dec (memory_runtime nx) req' s =
      (Inl (InvalidOperationError ''boundary adapter authorization failed''), s)"
proof
  have denied: "ensure_authorized (Some a) token = Inl (InvalidOperationError ''boundary adapter authorization failed'')"
    using assms(2-4) by (simp add: ensure_authorized_def Let_def)
  with assms show "boundary_execute_source cd (memory_runtime nx) req s =
      (Inl (InvalidOperationError ''boundary adapter authorization failed''), s)"
    by (simp add: boundary_source_run source_plan_def)
  from denied assms show "boundary_execute_sink enc cd dec (memory_runtime nx) req' s =
      (Inl (InvalidOperationError ''boundary adapter authorization failed''), s)"
    by (simp add: boundary_execute_sink_def registered_patch_panel_def memory_runtime_def list_patch_panels_def run_defs)
qed

definition sample_guarded_contracts :: contract_decoders where
  "sample_guarded_contracts = sample_contracts\<lparr>decode_source_contract := (\<lambda>_. Inr \<lparr>source_adapter = ''http'',
     source_auth = Some \<lparr>auth_token = Some ''secret'', auth_tokens = []\<rparr>, source_payload_map = [], source_metadata_map = [],
     source_deduplication_key = None, source_target_workflow_version = None\<rparr>)\<rparr>"

definition sample_egress :: boundary_sink_request where
  "sample_egress = \<lparr>bsnk_patch_panel_id = ''p'', bsnk_sink_id = ''end'', bsnk_card_id = sample_ids 0,
     bsnk_external_response = [], bsnk_actor_token = None\<rparr>"

theorem boundary_token_guard_witness:
  "boundary_execute_source sample_guarded_contracts (memory_runtime list_networkx) sample_ingress (in_mesh sample_created) =
     (Inl (InvalidOperationError ''boundary adapter authorization failed''), in_mesh sample_created)"
proof -
  let ?a = "\<lparr>auth_token = Some ''secret'', auth_tokens = []\<rparr>"
  have p: "find (\<lambda>p. panel_id p = ''p'') (dict_values (mem_patch_panels (in_mesh sample_created))) = Some sample_panel"
    by (simp add: sample_created_state sample_registered_code sample_panel_facts)
  have n: "find_node sample_panel (bsrc_source_id sample_ingress) SOURCE = Inr (sample_node ''src'' SOURCE [] [''s.out''])"
    "find_node sample_panel (bsnk_sink_id sample_egress) SINK = Inr (sample_node ''end'' SINK [''e.in''] [])"
    by (simp_all add: sample_ingress_def sample_egress_def find_node_def sample_panel_nodes)
  have c: "decode_source_contract sample_guarded_contracts v = Inr \<lparr>source_adapter = ''http'',
     source_auth = Some ?a, source_payload_map = [], source_metadata_map = [],
     source_deduplication_key = None, source_target_workflow_version = None\<rparr>"
    "decode_sink_contract sample_guarded_contracts v = Inr \<lparr>sink_adapter = ''http'', sink_auth = Some ?a,
     sink_payload_map = [], sink_idempotency_key = None, sink_external_reference_path = None\<rparr>" for v
    by (simp_all add: sample_guarded_contracts_def sample_contracts_def)
  show ?thesis
    by (rule boundary_token_guard [OF p refl _ _ _ _ n(1) c(1) _ _ _ n(2) c(2), of ?a None, THEN conjunct1])
       (simp_all add: sample_ingress_def sample_egress_def)
qed

section \<open>Operator views\<close>

text \<open>
  The bucket load is right: the view lists every bucket that holds a card once, in order, with
  the number of cards in it; the numbers add up to the number of cards, and looking changes nothing.
\<close>

theorem bucket_load_counts:
  "\<exists>load. bucket_load (memory_runtime nx) s = (Inr load, s) \<and> sorted (map fst load) \<and> distinct (map fst load) \<and>
     set load = {(b, n). n = length (filter (\<lambda>c. card_current_bucket c = b) (dict_values (mem_cards s))) \<and> n > 0} \<and>
     sum_list (map snd load) = length (mem_cards s)"
proof -
  define cs where "cs = dict_values (mem_cards s)"
  let ?g = "group_by card_current_bucket cs"
  let ?load = "map (\<lambda>(b, cs). (b, length cs)) (sort_key fst ?g)"
  have fst: "map fst ?load = map fst (sort_key fst ?g)"
    by (simp add: comp_def case_prod_beta)
  have mem: "(b, es) \<in> set ?g \<longleftrightarrow> es = filter (\<lambda>c. card_current_bucket c = b) cs \<and> es \<noteq> []" for b es
    using map_of_eq_Some_iff [OF group_by_ok, of card_current_bucket cs b es]
    by (auto simp: group_by_get Let_def split: if_splits)
  have "set ?load = {(b, n). n = length (filter (\<lambda>c. card_current_bucket c = b) cs) \<and> n > 0}"
  proof -
    have "(b, n) \<in> set ?load \<longleftrightarrow> (\<exists>es. (b, es) \<in> set ?g \<and> n = length es)" for b n
      by (force simp: image_iff)
    then show ?thesis by (auto simp: mem)
  qed
  moreover have "sum_list (map snd ?load) = length cs"
  proof -
    have "map snd ?load = map (\<lambda>p. length (snd p)) (sort_key fst ?g)" by (simp add: comp_def case_prod_beta)
    moreover have "mset (map (\<lambda>p. length (snd p)) (sort_key fst ?g)) = mset (map (\<lambda>p. length (snd p)) ?g)" by simp
    then have "sum_list (map (\<lambda>p. length (snd p)) (sort_key fst ?g)) = sum_list (map (\<lambda>p. length (snd p)) ?g)"
      by (metis sum_mset_sum_list)
    ultimately show ?thesis using group_by_total [of card_current_bucket cs] by (simp only:)
  qed
  moreover have "bucket_load (memory_runtime nx) s = (Inr ?load, s)"
    by (simp add: bucket_load_def cards_by_bucket_def memory_runtime_def list_cards_def run_defs cs_def)
  moreover have "sorted (map fst ?load)" "distinct (map fst ?load)"
    using group_by_ok [of card_current_bucket cs] unfolding fst
    by (simp_all add: distinct_map)
  ultimately show ?thesis by (intro exI [of _ ?load]) (simp add: cs_def)
qed

end
