(* ===== verification/Mcp.thy ===== *)
theory Mcp
  imports Api
begin

text \<open>
  The MCP tools: \<^verbatim>\<open>src/src/ghostmesh/mcp/server.py\<close>. Each tool resolves a participant, asks for
  authority and calls the same services as the HTTP API. The module variable \<^verbatim>\<open>_state\<close> is an argument of the
  tools; FastMCP's transport and the encoding of the answers are not modelled. Of a FastMCP context the
  tools read the headers and the metadata of the request, which are absent when the context has no request.
\<close>

section \<open>State and context\<close>

record 's mcp_state =
  mcp_runtime :: "'s card_runtime"
  mcp_registry :: "'s patch_panel_registry"
  mcp_authorization_enabled :: bool
  mcp_repository :: "'s auth_repository"

definition bind_app :: "('g, 's) app \<Rightarrow> 's mcp_state option" where
  "bind_app app = Some \<lparr>mcp_runtime = app_runtime app, mcp_registry = app_registry app,
     mcp_authorization_enabled = app_authorization_enabled app, mcp_repository = app_repository app\<rparr>"

text \<open>
  \<open>ctx_request\<close> is false when reading \<^verbatim>\<open>ctx.request_context\<close> raises \<^verbatim>\<open>ValueError\<close>. \<open>ctx_headers\<close> is
  None when there is no request or it has no headers, \<open>ctx_meta\<close> when there is no request context or it has
  no metadata; \<open>meta name\<close> is \<^verbatim>\<open>getattr(meta, name, None)\<close>.
\<close>

record mcp_context =
  ctx_request :: bool
  ctx_headers :: "(string \<Rightarrow> string option) option"
  ctx_meta :: "(string \<Rightarrow> json) option"

text \<open>The parsers the tools hand their text arguments to: \<^verbatim>\<open>UUID(...)\<close> and pydantic's \<^verbatim>\<open>model_validate\<close>.\<close>

record mcp_parsers =
  parse_uuid :: "string \<Rightarrow> uuid res"
  parse_artifact_reference :: "jdict \<Rightarrow> artifact_reference res"
  parse_card_id :: "string \<Rightarrow> uuid res"

definition participant_header :: string where
  "participant_header = ''X-Ghostmesh-Participant''"

definition require_state :: "'s mcp_state option \<Rightarrow> ('s, 's mcp_state) M" where
  "require_state st = (case st of
       None \<Rightarrow> raiseM (RuntimeError ''Ghost Mesh MCP server is not bound to application state'')
     | Some x \<Rightarrow> returnM x)"

definition participant_from_meta :: "mcp_context \<Rightarrow> string option" where
  "participant_from_meta c =
     (if \<not> ctx_request c then None
      else (case ctx_meta c of
          None \<Rightarrow> None
        | Some meta \<Rightarrow> map_option (\<lambda>n. py_str (meta n))
            (find (\<lambda>n. json_true (meta n)) [''ghostmesh_participant'', ''participant_id'', ''client_id''])))"

definition participant_from_context :: "mcp_context option \<Rightarrow> string option" where
  "participant_from_context ctx =
     (case ctx of
        None \<Rightarrow> None
      | Some c \<Rightarrow>
          (let header = (if ctx_request c then (case ctx_headers c of None \<Rightarrow> None | Some h \<Rightarrow> h participant_header)
                         else None)
           in if truthy header then header else participant_from_meta c))"

definition mcp_authorize ::
  "'z world_scheme mcp_state \<Rightarrow> mcp_context option \<Rightarrow> permission_name \<Rightarrow> scope \<Rightarrow> string option \<Rightarrow> jdict \<Rightarrow>
     ('z world_scheme, string option) M" where
  "mcp_authorize st ctx perm sc participant context =
     (if \<not> mcp_authorization_enabled st then returnM participant
      else
        let resolved = or_else (participant_from_context ctx) participant in
        if \<not> truthy resolved then raiseM (PermissionError ''missing Ghost Mesh participant'')
        else
          bindM (authorize (mcp_repository st) (the resolved) perm sc (Some context)) (\<lambda>d.
          if \<not> decision_allowed d then raiseM (PermissionError (decision_reason d))
          else returnM resolved))"

definition mcp_patch_panel :: "'s card_runtime \<Rightarrow> string \<Rightarrow> ('s, patch_panel) M" where
  "mcp_patch_panel rt pid =
     bindM (rt_list_patch_panels rt) (\<lambda>ps. case find (\<lambda>p. panel_id p = pid) ps of
       Some p \<Rightarrow> returnM p
     | None \<Rightarrow> raiseM (LookupError (''Patch Panel '' @ quoted pid @ '' is not registered'')))"

section \<open>Tools\<close>

definition mcp_claim_card ::
  "'z world_scheme mcp_state option \<Rightarrow> string \<Rightarrow> string \<Rightarrow> int \<Rightarrow> string option \<Rightarrow> string option \<Rightarrow> mcp_context option \<Rightarrow>
     ('z world_scheme, lease) M" where
  "mcp_claim_card bound worker pipe seconds key participant ctx =
     bindM (require_state bound) (\<lambda>st.
     bindM (liftM (scoped BUCKET pipe)) (\<lambda>sc.
     bindM (mcp_authorize st ctx CARD_CLAIM sc (or_else participant (Some worker))
              [(''input_pipe'', JStr pipe), (''worker_id'', JStr worker)]) (\<lambda>_.
     rt_claim_card (mcp_runtime st) pipe worker seconds key)))"

definition mcp_submit_artifact ::
  "mcp_parsers \<Rightarrow> 'z world_scheme mcp_state option \<Rightarrow> string \<Rightarrow> string \<Rightarrow> jdict list \<Rightarrow> string option \<Rightarrow>
     string option \<Rightarrow> mcp_context option \<Rightarrow> ('z world_scheme, artifact_reference list) M" where
  "mcp_submit_artifact ps bound lid pipe refs key participant ctx =
     bindM (require_state bound) (\<lambda>st.
     bindM (liftM (parse_uuid ps lid)) (\<lambda>lease_uuid.
     bindM (rt_get_lease (mcp_runtime st) lease_uuid) (\<lambda>l.
     bindM (liftM (scoped CARD (uuid_str (lease_card_id l)))) (\<lambda>sc.
     bindM (mcp_authorize st ctx CARD_SUBMIT_ARTIFACT sc (or_else participant (Some (lease_worker_id l)))
              [(''lease_id'', JStr (uuid_str lease_uuid)), (''output_pipe'', JStr pipe)]) (\<lambda>_.
     bindM (forM refs (\<lambda>d. liftM (parse_artifact_reference ps d))) (\<lambda>parsed.
     rt_submit_artifact (mcp_runtime st) lease_uuid pipe parsed key))))))"

definition mcp_submit_validator_decision ::
  "'g networkx \<Rightarrow> 'z world_scheme decoders \<Rightarrow> mcp_parsers \<Rightarrow> 'z world_scheme mcp_state option \<Rightarrow> string \<Rightarrow> string \<Rightarrow>
     string \<Rightarrow> bool option \<Rightarrow> string option \<Rightarrow> int option \<Rightarrow> string option \<Rightarrow> string option \<Rightarrow> string option \<Rightarrow>
     mcp_context option \<Rightarrow> ('z world_scheme, card_event) M" where
  "mcp_submit_validator_decision nx dec ps bound vid cid pid accepted exit score reason key participant ctx =
     bindM (require_state bound) (\<lambda>st.
     bindM (liftM (parse_uuid ps cid)) (\<lambda>card_uuid.
     bindM (liftM (scoped CARD (uuid_str card_uuid))) (\<lambda>sc.
     bindM (mcp_authorize st ctx VALIDATION_SUBMIT sc (or_else participant (Some vid))
              [(''patch_panel_id'', JStr pid), (''validator_id'', JStr vid)]) (\<lambda>_.
     bindM (mcp_patch_panel (mcp_runtime st) pid) (\<lambda>p.
     execute_validator nx dec
       \<lparr>ex_patch_panel = p, ex_runtime = mcp_runtime st, ex_registry = Some (mcp_registry st),
        ex_authorization_repository = Some (mcp_repository st)\<rparr>
       \<lparr>vi_card_id = card_uuid, vi_validator_id = vid, vi_selected_exit = exit, vi_accepted = accepted,
        vi_score = score, vi_reason = reason, vi_payload = [], vi_idempotency_key = key\<rparr>)))))"

definition mcp_boundary_source ::
  "contract_decoders \<Rightarrow> 'z world_scheme mcp_state option \<Rightarrow> string \<Rightarrow> string \<Rightarrow> jdict \<Rightarrow> jdict option \<Rightarrow>
     string option \<Rightarrow> string option \<Rightarrow> mcp_context option \<Rightarrow> ('z world_scheme, source_boundary_result) M" where
  "mcp_boundary_source cd bound pid source_id payload headers token participant ctx =
     bindM (require_state bound) (\<lambda>st.
     bindM (liftM (scoped PATCH_PANEL pid)) (\<lambda>sc.
     bindM (mcp_authorize st ctx BOUNDARY_SOURCE_INGRESS sc participant
              [(''patch_panel_id'', JStr pid), (''source_id'', JStr source_id)]) (\<lambda>_.
     boundary_execute_source cd (mcp_runtime st)
       \<lparr>bsrc_patch_panel_id = pid, bsrc_source_id = source_id, bsrc_external_payload = payload,
        bsrc_headers = (case headers of None \<Rightarrow> [] | Some h \<Rightarrow> h), bsrc_actor_token = token\<rparr>)))"

definition mcp_boundary_sink ::
  "encoders \<Rightarrow> contract_decoders \<Rightarrow> 'z world_scheme decoders \<Rightarrow> mcp_parsers \<Rightarrow> 'z world_scheme mcp_state option \<Rightarrow>
     string \<Rightarrow> string \<Rightarrow> string \<Rightarrow> jdict option \<Rightarrow> string option \<Rightarrow> string option \<Rightarrow> mcp_context option \<Rightarrow>
     ('z world_scheme, sink_boundary_result) M" where
  "mcp_boundary_sink enc cd dec ps bound pid sink_id cid response token participant ctx =
     bindM (require_state bound) (\<lambda>st.
     bindM (liftM (scoped PATCH_PANEL pid)) (\<lambda>sc.
     bindM (mcp_authorize st ctx BOUNDARY_SINK_EGRESS sc participant
              [(''patch_panel_id'', JStr pid), (''sink_id'', JStr sink_id)]) (\<lambda>_.
     bindM (liftM (parse_card_id ps cid)) (\<lambda>card_uuid.
     boundary_execute_sink enc cd dec (mcp_runtime st)
       \<lparr>bsnk_patch_panel_id = pid, bsnk_sink_id = sink_id, bsnk_card_id = card_uuid,
        bsnk_external_response = (case response of None \<Rightarrow> [] | Some d \<Rightarrow> d), bsnk_actor_token = token\<rparr>))))"

end
