(* ===== verification/ApiProperties.thy ===== *)
theory ApiProperties
  imports MeshSamples Mcp
begin

text \<open>
  Properties of the HTTP API over the in-memory services: what a request without authority can do, and
  which routes ask for none.
\<close>

section \<open>Refused requests\<close>

text \<open>Nothing but the audit log and the sources of identifiers and time has moved.\<close>

definition audited :: "'z mesh_scheme \<Rightarrow> 'z mesh_scheme \<Rightarrow> bool" where
  "audited s t \<longleftrightarrow> prefix (auth_audit_events s) (auth_audit_events t) \<and>
     t\<lparr>uuid_pos := uuid_pos s, clock_pos := clock_pos s, auth_audit_events := auth_audit_events s\<rparr> = s"

interpretation auditing: evolution audited
proof unfold_locales
  show "audited s s" for s :: "'a mesh_scheme" by (simp add: audited_def)
  show "audited s t \<Longrightarrow> audited t u \<Longrightarrow> audited s u" for s t u :: "'a mesh_scheme"
    by (cases s, cases t, cases u) (auto simp: audited_def intro: prefix_order.trans)
qed

lemma audited_basic:
  "evolves audited (uuid4 :: ('a mesh_scheme, uuid) M)" "evolves audited (now_utc :: ('a mesh_scheme, datetime) M)"
  "evolves audited (record_audit_event e :: ('a mesh_scheme, unit) M)"
  by (simp_all add: evolves_def uuid4_def now_utc_def record_audit_event_def run_defs audited_def)

lemmas audited_rules = audited_basic auditing.evolves_basic

lemma audited_authorize: "evolves audited (authorize memory_repository pid perm sc ctx :: ('a mesh_scheme, _) M)"
  by (auto simp: authorize_def memory_repository_def get_participant_def list_permission_grants_def Let_def
      new_decision_def record_decision_def from_decision_def intro!: audited_rules split: option.split)

text \<open>A command that is refused: it raises, and has at most written to the audit log.\<close>

definition refused :: "('z mesh_scheme, 'a) M \<Rightarrow> 'z mesh_scheme \<Rightarrow> bool" where
  "refused m s \<longleftrightarrow> (\<exists>e t. m s = (Inl e, t) \<and> audited s t)"

definition readonly :: "('s, 'a) M \<Rightarrow> bool" where
  "readonly m \<longleftrightarrow> (\<forall>s. snd (m s) = s)"

lemma refused_raise: "refused (raiseM e) s"
  by (simp add: refused_def raiseM_def auditing.R_refl)

lemma refused_bind: "refused m s \<Longrightarrow> refused (bindM m f) s"
  by (auto simp: refused_def bindM_def)

lemma refused_read:
  assumes "readonly m" and "\<And>x. refused (f x) s"
  shows "refused (bindM m f) s"
proof (cases "m s")
  case (Pair r t)
  then have "t = s" using assms(1) unfolding readonly_def by (metis snd_conv)
  with Pair assms(2) show ?thesis
    by (cases r) (auto simp: refused_def bindM_def auditing.R_refl)
qed

lemma refused_mapM: "refused m s \<Longrightarrow> refused (mapM g m) s"
  by (auto simp: mapM_def refused_def)

lemma readonly_ops:
  "readonly (liftM r)" "readonly (rt_get_lease (memory_runtime nx) i)" "readonly (reg_get memory_registry i)"
  "readonly (get_intent i)"
  by (auto simp: readonly_def memory_runtime_def memory_registry_def get_lease_def registry_get_def get_intent_def run_defs
      split: option.split)

definition powerless :: "'z mem_auth_scheme \<Rightarrow> string \<Rightarrow> bool" where
  "powerless s pid \<longleftrightarrow> (\<forall>t perm sc ctx. \<not> may s t pid perm sc ctx)"

lemma refused_authorize:
  assumes "powerless s pid" and "pid \<noteq> []"
  shows "refused (authorize_request memory_repository True (Some pid) perm sc ctx participant) s"
proof -
  let ?a = "authorize memory_repository pid perm sc (Some (case ctx of None \<Rightarrow> [] | Some d \<Rightarrow> d))"
  have "wp ?a (\<lambda>d t. \<not> decision_allowed d) (\<lambda>_ _. False) s"
    by (rule wp_mono [OF mem_repo.authorize_decides])
       (use assms(1) in \<open>auto simp: mem_repo.decided_def permitted_may powerless_def\<close>)
  then obtain d t where "?a s = (Inr d, t)" "\<not> decision_allowed d"
    by (auto simp: wp_def split: prod.splits sum.splits)
  moreover from this have "audited s t" using evolvesD [OF audited_authorize] by blast
  ultimately show ?thesis
    using assms(2) by (simp add: refused_def authorize_request_def or_else_def run_defs)
qed

section \<open>Routes\<close>

text \<open>The routes that never ask for authority.\<close>

fun open_request :: "api_request \<Rightarrow> bool" where
  "open_request (Panels ListPatchPanels) = True"
| "open_request (Cards ListCards) = True"
| "open_request (Cards (RenewLease _ _)) = True"
| "open_request (Cards ExpireLeases) = True"
| "open_request (Cards (MoveCard _ _)) = True"
| "open_request (Cards (CardHistory _)) = True"
| "open_request (Cards (WorkerLeaseContext _)) = True"
| "open_request (Nodes (ListValidatorCards _ _)) = True"
| "open_request (Nodes (InspectValidatorCard _)) = True"
| "open_request _ = False"

text \<open>The in-memory application with authorization switched on.\<close>

definition guarded_app :: "'g networkx \<Rightarrow> ('g, 'z mesh_scheme) app \<Rightarrow> bool" where
  "guarded_app nx app \<longleftrightarrow> app_runtime app = memory_runtime nx \<and> app_registry app = memory_registry \<and>
     app_repository app = memory_repository \<and> app_authorization_enabled app"

definition stranger :: "'g networkx \<Rightarrow> ('g, 'z mesh_scheme) app \<Rightarrow> string \<Rightarrow> 'z mesh_scheme \<Rightarrow> bool" where
  "stranger nx app pid s \<longleftrightarrow> guarded_app nx app \<and> powerless s pid \<and> pid \<noteq> []"

lemma stranger_app:
  "stranger nx app pid s \<Longrightarrow> app_runtime app = memory_runtime nx"
  "stranger nx app pid s \<Longrightarrow> app_registry app = memory_registry"
  by (simp_all add: stranger_def guarded_app_def)

lemma refused_call: "stranger nx app pid s \<Longrightarrow> refused (authorize_call app (Some pid) perm sc participant ctx) s"
  using refused_authorize [of s pid] by (simp add: authorize_call_def guarded_app_def stranger_def)

lemma refused_scoped: "stranger nx app pid s \<Longrightarrow> refused (authorize_scoped app (Some pid) perm ty i participant ctx) s"
  unfolding authorize_scoped_def by (intro refused_read refused_call readonly_ops)

lemma refused_ops: "stranger nx app pid s \<Longrightarrow> refused (authorize_ops_read app (Some pid) p) s"
  by (simp add: authorize_ops_read_def refused_call refused_scoped)

lemmas refused_rules = refused_mapM refused_raise refused_bind [OF refused_call] refused_bind [OF refused_scoped]
  refused_bind [OF refused_ops]
lemmas refused_reads = refused_read [OF readonly_ops(1)] refused_read [OF readonly_ops(2)]
  refused_read [OF readonly_ops(3)] refused_read [OF readonly_ops(4)]

lemma refused_participants:
  "stranger nx app pid s \<Longrightarrow> refused (handle_participants app (Some pid) key r) s"
  by (cases r)
     (simp_all add: api_list_participants_def api_create_participant_def api_assign_participant_role_def
        api_grant_participant_permission_def api_inspect_participant_permissions_def refused_rules)

lemma refused_operators:
  "stranger nx app pid s \<Longrightarrow> refused (handle_operators app (Some pid) key r) s"
  by (cases r)
     (simp_all add: api_operator_topology_def api_operator_cards_by_bucket_def api_operator_bucket_load_def
        api_operator_active_leases_def api_operator_worker_activity_def api_operator_validator_decisions_def
        api_operator_workflow_versions_def api_operator_failed_movements_def api_operator_metrics_def
        api_operator_dashboard_def refused_rules)

lemma refused_panels:
  assumes "stranger nx app pid s" and "r \<noteq> ListPatchPanels"
  shows "refused (handle_panels app (Some pid) key r) s"
  using assms
  by (cases r)
     (auto simp: api_register_patch_panel_def api_search_registry_def api_register_registry_entry_def
        api_get_registry_entry_def api_update_registry_entry_def api_archive_registry_entry_def
        api_supersede_registry_entry_def stranger_app(2) [OF assms(1)]
        intro!: refused_rules refused_reads)

lemma refused_genesis:
  assumes "stranger nx app pid s"
  shows "refused (handle_genesis app (Some pid) key r) s"
  using assms
  by (cases r)
     (auto simp: api_receive_genesis_intent_def api_get_genesis_intent_def api_launch_genesis_intent_def
        api_propose_genesis_intent_def stranger_app(2) [OF assms]
        intro!: refused_rules refused_reads split: option.split list.split)

lemma refused_cards:
  assumes "stranger nx app pid s" and "\<not> open_request (Cards r)"
  shows "refused (handle_cards app (Some pid) key r) s"
  using assms
  by (cases r)
     (auto simp: api_create_card_def api_claim_card_def api_submit_artifact_def api_release_lease_def
        api_validate_card_def stranger_app(1) [OF assms(1)] intro!: refused_rules refused_reads)

lemma refused_nodes:
  assumes "stranger nx app pid s" and "\<not> open_request (Nodes r)"
  shows "refused (handle_nodes app (Some pid) key r) s"
  using assms
  by (cases r)
     (auto simp: api_submit_validator_decision_def api_execute_source_def api_execute_worker_def
        api_execute_validator_def api_execute_sink_def intro!: refused_rules)

lemma refused_services:
  assumes "stranger nx app pid s"
  shows "refused (handle_services app (Some pid) key r) s"
  using assms
  by (cases r)
     (auto simp: api_boundary_source_def api_boundary_sink_def api_create_shadow_def api_complete_shadow_def
        api_propose_mutation_def api_validate_mutation_def api_promote_mutation_def intro!: refused_rules)

text \<open>
  Property C23. Without authority nothing happens: with authorization enabled, a request on any but the nine
  open routes, made under the name of a participant that may do nothing, is refused with an exception, and
  nothing but the audit log and the sources of identifiers and time changes, in any service.
\<close>

theorem powerless_request_refused:
  assumes "guarded_app nx app" and "powerless s pid" and "pid \<noteq> []" and "\<not> open_request r"
  shows "\<exists>e t. handle app (Some pid) key r s = (Inl e, t) \<and> prefix (auth_audit_events s) (auth_audit_events t) \<and>
    t\<lparr>uuid_pos := uuid_pos s, clock_pos := clock_pos s, auth_audit_events := auth_audit_events s\<rparr> = s"
proof -
  have str: "stranger nx app pid s" using assms by (simp add: stranger_def)
  have "refused (handle app (Some pid) key r) s"
  proof (cases r)
    case (Panels x)
    moreover from this assms(4) have "x \<noteq> ListPatchPanels" by auto
    ultimately show ?thesis using refused_panels [OF str] by simp
  qed (use assms(4) str in \<open>auto intro: refused_participants refused_operators refused_genesis refused_cards
    refused_nodes refused_services\<close>)
  then show ?thesis by (simp add: refused_def audited_def)
qed

text \<open>The sample services as an application.\<close>

definition sample_app :: "(string list \<times> (string \<times> string) list, mesh) app" where
  "sample_app = \<lparr>app_graphs = list_networkx, app_decoders = sample_decoders,
     app_encoders = \<lparr>encode_patch_panel = (\<lambda>_. JNull), encode_registry_metadata = (\<lambda>_. JNull),
       encode_constraints = (\<lambda>_. JNull), encode_card = (\<lambda>_. JNull)\<rparr>,
     app_contracts = \<lparr>decode_source_contract = (\<lambda>_. Inl (ValueError [])), decode_sink_contract = (\<lambda>_. Inl (ValueError [])),
       format_field = (\<lambda>f _. Inl (KeyError f))\<rparr>,
     app_runtime = memory_runtime list_networkx, app_registry = memory_registry, app_repository = memory_repository,
     app_authorization_enabled = True\<rparr>"

lemma sample_app_guarded: "guarded_app list_networkx sample_app" "powerless (in_mesh s) pid"
  by (simp_all add: guarded_app_def sample_app_def powerless_def may_def)

theorem powerless_request_refused_witness:
  "\<exists>e t. handle sample_app (Some ''eve'') None (Services (PromoteMutation (UUID ''m'') sample_panel))
     (in_mesh sample_created) = (Inl e, t) \<and> mem_patch_panels t = mem_patch_panels (in_mesh sample_created)"
proof -
  have "\<not> open_request (Services (PromoteMutation (UUID ''m'') sample_panel))" by simp
  from powerless_request_refused [OF sample_app_guarded _ this, of "''eve''"]
  obtain e t where "handle sample_app (Some ''eve'') None (Services (PromoteMutation (UUID ''m'') sample_panel))
     (in_mesh sample_created) = (Inl e, t)" and t: "t\<lparr>uuid_pos := uuid_pos (in_mesh sample_created),
       clock_pos := clock_pos (in_mesh sample_created), auth_audit_events := auth_audit_events (in_mesh sample_created)\<rparr> =
     in_mesh sample_created" by blast
  moreover from arg_cong [OF t, of mem_patch_panels] have "mem_patch_panels t = mem_patch_panels (in_mesh sample_created)"
    by simp
  ultimately show ?thesis by blast
qed

text \<open>
  Moving needs no authority: also with authorization enabled, anybody, named or not, moves
  any card to any bucket of its panel through the API, without holding a lease.
\<close>

theorem move_needs_no_authority:
  assumes "guarded_app nx app" and "dict_get (mem_cards s) cid = Some c" and "card_id c = cid"
    and "dict_get (mem_patch_panels s) (rsplit_colon (card_workflow_version c)) = Some p"
    and "ensure_bucket_exists p (mcr_to_bucket r) = Inr ()"
  shows "\<exists>t. handle app hdr None (Cards (MoveCard cid r)) s = (Inr (ACard (c\<lparr>card_current_bucket := mcr_to_bucket r\<rparr>)), t) \<and>
    dict_get (mem_cards t) cid = Some (c\<lparr>card_current_bucket := mcr_to_bucket r\<rparr>) \<and>
    auth_audit_events t = auth_audit_events s"
  using assms
  by (simp add: api_move_card_def guarded_app_def memory_runtime_def mapM_def move_card_def idempotently_def
      get_idempotent_def cached_def get_card_def get_patch_panel_for_card_def get_patch_panel_def run_defs
      put_card_def append_event_def new_card_event_def uuid4_def now_utc_def store_idempotent_def remember_def Let_def)

theorem move_needs_no_authority_witness:
  "\<exists>t. handle sample_app None None (Cards (MoveCard (sample_ids 0)
        \<lparr>mcr_to_bucket = ''done'', mcr_actor_id = None, mcr_reason = None\<rparr>)) (in_mesh sample_created) =
      (Inr (ACard (sample_card\<lparr>card_current_bucket := ''done''\<rparr>)), t)"
proof -
  have "dict_get (mem_cards (in_mesh sample_created)) (sample_ids 0) = Some sample_card" "card_id sample_card = sample_ids 0"
    by (simp_all add: sample_card_stored) (simp add: sample_card_def)
  moreover have "dict_get (mem_patch_panels (in_mesh sample_created)) (rsplit_colon (card_workflow_version sample_card)) =
      Some sample_panel"
    using rsplit_colon_append [of "''1''" "''p''"]
    by (simp add: sample_created_state sample_registered_code sample_card_def)
  moreover have "ensure_bucket_exists sample_panel ''done'' = Inr ()"
    by (simp add: ensure_bucket_exists_def sample_panel_def sample_bucket_def)
  ultimately show ?thesis
    using move_needs_no_authority [OF sample_app_guarded(1), of "in_mesh sample_created" "sample_ids 0" sample_card sample_panel
        "\<lparr>mcr_to_bucket = ''done'', mcr_actor_id = None, mcr_reason = None\<rparr>" None] by auto
qed

section \<open>The MCP tools\<close>

lemma authorize_outcome:
  fixes s :: "'z mesh_scheme"
  shows "\<exists>d t. authorize memory_repository pid perm sc ctx s = (Inr d, t) \<and> audited s t \<and>
    decision_allowed d = may s (next_reading s) pid perm sc ctx"
proof -
  have "wp (authorize memory_repository pid perm sc ctx)
    (\<lambda>d t. decision_allowed d = may s (next_reading s) pid perm sc ctx) (\<lambda>_ _. False) s"
    by (rule wp_mono [OF mem_repo.authorize_decides]) (auto simp: mem_repo.decided_def permitted_may)
  then obtain d t where "authorize memory_repository pid perm sc ctx s = (Inr d, t)"
    "decision_allowed d = may s (next_reading s) pid perm sc ctx"
    by (auto simp: wp_def split: prod.splits sum.splits)
  with evolvesD [OF audited_authorize] show ?thesis by blast
qed

definition guarded_mcp :: "'g networkx \<Rightarrow> 'z mesh_scheme mcp_state \<Rightarrow> bool" where
  "guarded_mcp nx st \<longleftrightarrow> mcp_runtime st = memory_runtime nx \<and> mcp_registry st = memory_registry \<and>
     mcp_repository st = memory_repository \<and> mcp_authorization_enabled st"

lemma refused_mcp:
  assumes "guarded_mcp nx st" and "powerless s pid" and "or_else (participant_from_context ctx) participant = Some pid"
    and "pid \<noteq> []"
  shows "refused (mcp_authorize st ctx perm sc participant info) s"
proof -
  obtain d t where "authorize memory_repository pid perm sc (Some info) s = (Inr d, t)" "audited s t" "\<not> decision_allowed d"
    using authorize_outcome [of pid perm sc "Some info" s] assms(2) by (auto simp: powerless_def)
  with assms show ?thesis by (simp add: refused_def mcp_authorize_def guarded_mcp_def run_defs)
qed

text \<open>
  Property C24. The MCP tools ask for the same authority: with authorization enabled, every tool refuses a
  caller whose connection names a participant that may do nothing, whatever participant or worker the call
  itself names, and nothing but the audit log and the sources of identifiers and time changes.
\<close>

theorem mcp_powerless_refused:
  assumes "guarded_mcp nx st" and "powerless s pid" and "participant_from_context ctx = Some pid" and "pid \<noteq> []"
  shows "refused (mcp_claim_card (Some st) worker pipe seconds key participant ctx) s \<and>
    refused (mcp_submit_artifact ps (Some st) lid pipe refs key participant ctx) s \<and>
    refused (mcp_submit_validator_decision nx dec ps (Some st) vid cid panel accepted exit score reason key participant ctx) s \<and>
    refused (mcp_boundary_source cd (Some st) panel node payload headers token participant ctx) s \<and>
    refused (mcp_boundary_sink enc cd dec ps (Some st) panel node cid response token participant ctx) s"
proof -
  have "refused (mcp_authorize st ctx perm sc who info) s" for perm sc who info
    using assms by (intro refused_mcp) (simp_all add: or_else_def)
  note rules = refused_bind [OF this] refused_reads
  show ?thesis
    using assms(1)
    by (auto simp: mcp_claim_card_def mcp_submit_artifact_def mcp_submit_validator_decision_def mcp_boundary_source_def
        mcp_boundary_sink_def require_state_def guarded_mcp_def intro!: rules)
qed

definition sample_context :: mcp_context where
  "sample_context = \<lparr>ctx_request = True,
     ctx_headers = Some (\<lambda>h. if h = participant_header then Some ''eve'' else None), ctx_meta = None\<rparr>"

theorem mcp_powerless_refused_witness:
  "\<exists>e t. mcp_claim_card (bind_app sample_app) ''ann'' ''w.in'' 60 None None (Some sample_context) (in_mesh sample_created) =
     (Inl e, t) \<and> mem_leases t = mem_leases (in_mesh sample_created)"
proof -
  have p: "participant_from_context (Some sample_context) = Some ''eve''"
    by (simp add: participant_from_context_def sample_context_def)
  define st where "st = the (bind_app sample_app)"
  then have st: "bind_app sample_app = Some st" "guarded_mcp list_networkx st"
    by (simp_all add: bind_app_def guarded_mcp_def sample_app_def)
  have "refused (mcp_claim_card (Some st) ''ann'' ''w.in'' 60 None None (Some sample_context)) (in_mesh sample_created)"
    by (rule mcp_powerless_refused [OF st(2) sample_app_guarded(2) p, THEN conjunct1]) simp
  then obtain e t where "mcp_claim_card (Some st) ''ann'' ''w.in'' 60 None None (Some sample_context) (in_mesh sample_created) = (Inl e, t)"
    and t: "audited (in_mesh sample_created) t" by (auto simp: refused_def)
  moreover from arg_cong [OF conjunct2 [OF t [unfolded audited_def]], of mem_leases]
  have "mem_leases t = mem_leases (in_mesh sample_created)" by simp
  ultimately show ?thesis using st(1) by simp
qed

lemma forM_parsed: "map f xs = map Inr ys \<Longrightarrow> forM xs (\<lambda>x. liftM (f x)) s = (Inr ys, s)"
  by (induction xs arbitrary: ys) (auto simp: run_defs Cons_eq_map_conv)

text \<open>
  A lease id suffices: a caller that names nobody submits through the MCP tool under the authority of the
  worker that holds the lease.
\<close>

theorem mcp_submit_as_worker:
  assumes "guarded_mcp nx st" and "parse_uuid ps lid = Inr i" and "dict_get (mem_leases s) i = Some l"
    and "participant_from_context ctx = None" and "lease_worker_id l \<noteq> []"
    and "scoped CARD (uuid_str (lease_card_id l)) = Inr sc"
    and "may s (next_reading s) (lease_worker_id l) CARD_SUBMIT_ARTIFACT sc
      (Some [(''lease_id'', JStr (uuid_str i)), (''output_pipe'', JStr pipe)])"
    and "map (parse_artifact_reference ps) refs = map Inr parsed"
  shows "\<exists>t. audited s t \<and> mcp_submit_artifact ps (Some st) lid pipe refs key None ctx s = submit_artifact i pipe parsed key t"
proof -
  let ?ctx = "Some [(''lease_id'', JStr (uuid_str i)), (''output_pipe'', JStr pipe)]"
  obtain d t where "authorize memory_repository (lease_worker_id l) CARD_SUBMIT_ARTIFACT sc ?ctx s = (Inr d, t)"
    "audited s t" "decision_allowed d"
    using authorize_outcome [of "lease_worker_id l" CARD_SUBMIT_ARTIFACT sc ?ctx s] assms(7) by auto
  moreover have "forM refs (\<lambda>d. Pair (parse_artifact_reference ps d)) t = (Inr parsed, t)"
    using forM_parsed [OF assms(8), of t] by (simp add: liftM_def)
  ultimately show ?thesis using assms(1-7)
    by (intro exI [of _ t])
       (simp add: mcp_submit_artifact_def require_state_def guarded_mcp_def mcp_authorize_def or_else_def
          memory_runtime_def get_lease_def run_defs)
qed

end
