(* ===== verification/Rows.thy ===== *)
theory Rows
  imports RuntimeService
begin

text \<open>
  The rows of the tables of \<^verbatim>\<open>src/src/ghostmesh/persistence/tables.py\<close> and what the durable services write
  into them and read from them. The tables \<^verbatim>\<open>cards\<close>, \<^verbatim>\<open>leases\<close>, \<^verbatim>\<open>card_events\<close> and \<^verbatim>\<open>artifacts\<close> have the columns of
  the classes, so that an object is its own row. Enumerations are stored as their values, and reading them back
  raises when a text is no value; every object survives the way into its row and back.
\<close>

section \<open>Rows of the card runtime\<close>

record panel_row =
  prow_id :: string
  prow_version :: string
  prow_definition :: json
  prow_created_at :: datetime

record version_row =
  vrow_id :: string
  vrow_patch_panel_id :: string
  vrow_version :: string
  vrow_active :: bool
  vrow_created_at :: datetime

record bucket_row =
  brow_workflow_version :: string
  brow_id :: string
  brow_definition :: json
  brow_created_at :: datetime

record location_row =
  loc_id :: uuid
  loc_card_id :: uuid
  loc_bucket :: string
  loc_status :: string
  loc_entered_at :: datetime
  loc_accepted_at :: "datetime option"
  loc_exited_at :: "datetime option"

record validation_result =
  result_id :: uuid
  result_card_id :: uuid
  result_validator_id :: string
  result_accepted :: bool
  result_reason :: "string option"
  result_output_pipe :: "string option"
  result_payload :: jdict
  result_created_at :: datetime

record idempotency_row =
  idem_key :: string
  idem_operation :: string
  idem_response_ref :: string
  idem_created_at :: datetime

definition new_validation_result ::
  "uuid \<Rightarrow> string \<Rightarrow> bool \<Rightarrow> string option \<Rightarrow> string option \<Rightarrow> jdict \<Rightarrow> ('z world_scheme, validation_result) M" where
  "new_validation_result cid validator accepted reason pipe payload =
     bindM uuid4 (\<lambda>i. bindM now_utc (\<lambda>t.
     returnM \<lparr>result_id = i, result_card_id = cid, result_validator_id = validator, result_accepted = accepted,
       result_reason = reason, result_output_pipe = pipe, result_payload = payload, result_created_at = t\<rparr>))"

text \<open>\<^verbatim>\<open>s.removeprefix(p)\<close>.\<close>

definition removeprefix :: "string \<Rightarrow> string \<Rightarrow> string" where
  "removeprefix p s = (if take (length p) s = p then drop (length p) s else s)"

section \<open>Enumerations as text\<close>

text \<open>\<^verbatim>\<open>Cls(text)\<close> for a \<^verbatim>\<open>StrEnum\<close> with these members.\<close>

definition enum_member :: "string \<Rightarrow> ('a \<Rightarrow> string) \<Rightarrow> 'a list \<Rightarrow> string \<Rightarrow> 'a res" where
  "enum_member cls value members txt =
     (case find (\<lambda>m. value m = txt) members of
        None \<Rightarrow> Inl (ValueError (quoted txt @ '' is not a valid '' @ cls))
      | Some m \<Rightarrow> Inr m)"

lemma enum_member_value:
  assumes "m \<in> set members" and "distinct (map value members)"
  shows "enum_member cls value members (value m) = Inr m"
proof -
  obtain n where n: "find (\<lambda>x. value x = value m) members = Some n"
    using find_NoneD [of _ members m] assms(1) by (cases "find (\<lambda>x. value x = value m) members") auto
  then have "n = m" using find_SomeD [OF n] assms by (auto simp: distinct_map dest: inj_onD)
  with n show ?thesis by (simp add: enum_member_def)
qed

fun participant_type_value :: "participant_type \<Rightarrow> string" where
  "participant_type_value HUMAN = ''human''"
| "participant_type_value AGENT = ''agent''"
| "participant_type_value SCRIPT = ''script''"
| "participant_type_value SERVICE = ''service''"
| "participant_type_value SYSTEM_SERVICE = ''system_service''"
| "participant_type_value VENDOR = ''vendor''"
| "participant_type_value ORGANIZATION_PARTICIPANT = ''organization''"
| "participant_type_value EXTERNAL_INTEGRATION = ''external_integration''"
| "participant_type_value SUBWORKFLOW_PARTICIPANT = ''subworkflow''"

fun permission_name_value :: "permission_name \<Rightarrow> string" where
  "permission_name_value PATCH_PANEL_CREATE = ''patch_panel:create''"
| "permission_name_value PATCH_PANEL_EDIT_DRAFT = ''patch_panel:edit_draft''"
| "permission_name_value PATCH_PANEL_PUBLISH_VERSION = ''patch_panel:publish_version''"
| "permission_name_value PATCH_PANEL_ARCHIVE = ''patch_panel:archive''"
| "permission_name_value PATCH_PANEL_DISCOVER = ''patch_panel:discover''"
| "permission_name_value BUCKET_CREATE = ''bucket:create''"
| "permission_name_value NODE_CREATE = ''node:create''"
| "permission_name_value EDGE_CREATE = ''edge:create''"
| "permission_name_value PIPE_BINDING_CREATE = ''pipe_binding:create''"
| "permission_name_value CARD_CREATE = ''card:create''"
| "permission_name_value CARD_CLAIM = ''card:claim''"
| "permission_name_value CARD_SUBMIT_ARTIFACT = ''card:submit_artifact''"
| "permission_name_value CARD_RELEASE = ''card:release''"
| "permission_name_value CARD_VIEW = ''card:view''"
| "permission_name_value VALIDATION_SUBMIT = ''validation:submit''"
| "permission_name_value MUTATION_PROPOSE = ''mutation:propose''"
| "permission_name_value MUTATION_VALIDATE = ''mutation:validate''"
| "permission_name_value MUTATION_PROMOTE = ''mutation:promote''"
| "permission_name_value SHADOW_CREATE = ''shadow:create''"
| "permission_name_value SHADOW_COMPLETE = ''shadow:complete''"
| "permission_name_value SINK_EXECUTE = ''sink:execute''"
| "permission_name_value BOUNDARY_SOURCE_INGRESS = ''boundary:source_ingress''"
| "permission_name_value BOUNDARY_SINK_EGRESS = ''boundary:sink_egress''"
| "permission_name_value PARTICIPANT_MANAGE = ''participant:manage''"
| "permission_name_value PERMISSION_GRANT = ''permission:grant''"
| "permission_name_value AUDIT_VIEW = ''audit:view''"

fun audit_action_value :: "audit_action \<Rightarrow> string" where
  "audit_action_value AUTHORIZATION_ALLOWED = ''authorization:allowed''"
| "audit_action_value AUTHORIZATION_DENIED = ''authorization:denied''"
| "audit_action_value GENESIS_INTENT_RECEIVED = ''genesis:intent_received''"
| "audit_action_value GENESIS_REGISTRY_SEARCHED = ''genesis:registry_searched''"
| "audit_action_value GENESIS_CANDIDATE_SELECTED = ''genesis:candidate_selected''"
| "audit_action_value GENESIS_CARD_CREATED = ''genesis:card_created''"
| "audit_action_value GENESIS_PROPOSAL_SUBMITTED = ''genesis:proposal_submitted''"
| "audit_action_value GENESIS_DESIGN_REQUIRED = ''genesis:design_required''"
| "audit_action_value PARTICIPANT_CREATED = ''participant:created''"
| "audit_action_value PARTICIPANT_UPDATED = ''participant:updated''"
| "audit_action_value PARTICIPANT_SUSPENDED = ''participant:suspended''"
| "audit_action_value PARTICIPANT_ARCHIVED = ''participant:archived''"
| "audit_action_value ROLE_ASSIGNED = ''role:assigned''"
| "audit_action_value ROLE_REVOKED = ''role:revoked''"
| "audit_action_value PERMISSION_GRANTED = ''permission:granted''"
| "audit_action_value PERMISSION_REVOKED = ''permission:revoked''"

fun registry_status_value :: "registry_status \<Rightarrow> string" where
  "registry_status_value DRAFT = ''draft''"
| "registry_status_value REVIEW = ''review''"
| "registry_status_value APPROVED = ''approved''"
| "registry_status_value PUBLISHED = ''published''"
| "registry_status_value ARCHIVED = ''archived''"
| "registry_status_value SUPERSEDED = ''superseded''"

definition to_participant_type :: "string \<Rightarrow> participant_type res" where
  "to_participant_type = enum_member ''ParticipantType'' participant_type_value
     [HUMAN, AGENT, SCRIPT, SERVICE, SYSTEM_SERVICE, VENDOR, ORGANIZATION_PARTICIPANT, EXTERNAL_INTEGRATION,
      SUBWORKFLOW_PARTICIPANT]"

definition to_participant_status :: "string \<Rightarrow> participant_status res" where
  "to_participant_status = enum_member ''ParticipantStatus'' participant_status_value
     [ACTIVE, SUSPENDED, ARCHIVED_PARTICIPANT]"

definition to_role_name :: "string \<Rightarrow> role_name res" where
  "to_role_name = enum_member ''RoleName'' role_name_value
     [WORKFLOW_OWNER, WORKFLOW_DESIGNER, WORKER_ROLE, VALIDATOR_ROLE, ROUTING_VALIDATOR, SOURCE_OPERATOR,
      SINK_OPERATOR, REVIEWER_APPROVER, SHADOW_PARTICIPANT, LEARNING_OPTIMIZER, OBSERVER, ADMIN, INTENT_OPERATOR,
      WORKFLOW_ARCHITECT]"

definition to_permission_name :: "string \<Rightarrow> permission_name res" where
  "to_permission_name = enum_member ''PermissionName'' permission_name_value all_permissions"

definition to_scope_type :: "string \<Rightarrow> scope_type res" where
  "to_scope_type = enum_member ''ScopeType'' scope_type_value
     [GLOBAL, DEVELOPMENT_GLOBAL, ORGANIZATION, WORKFLOW, PATCH_PANEL, BUCKET, NODE, CARD, ARTIFACT, VERSION]"

definition to_registry_status :: "string \<Rightarrow> registry_status res" where
  "to_registry_status = enum_member ''PatchPanelRegistryStatus'' registry_status_value
     [DRAFT, REVIEW, APPROVED, PUBLISHED, ARCHIVED, SUPERSEDED]"

named_theorems from_value

lemma to_participant_type_value [from_value]: "to_participant_type (participant_type_value x) = Inr x"
  unfolding to_participant_type_def by (rule enum_member_value) (cases x; simp)+

lemma to_participant_status_value [from_value]: "to_participant_status (participant_status_value x) = Inr x"
  unfolding to_participant_status_def by (rule enum_member_value) (cases x; simp)+

lemma to_role_name_value [from_value]: "to_role_name (role_name_value x) = Inr x"
  unfolding to_role_name_def by (rule enum_member_value) (cases x; simp)+

lemma to_permission_name_value [from_value]: "to_permission_name (permission_name_value x) = Inr x"
  unfolding to_permission_name_def
  by (rule enum_member_value [OF all_permissions_complete]) (simp add: all_permissions_def)

lemma to_scope_type_value [from_value]: "to_scope_type (scope_type_value x) = Inr x"
  unfolding to_scope_type_def by (rule enum_member_value) (cases x; simp)+

lemma to_registry_status_value [from_value]: "to_registry_status (registry_status_value x) = Inr x"
  unfolding to_registry_status_def by (rule enum_member_value) (cases x; simp)+

section \<open>Rows of the registry\<close>

record entry_row =
  erow_id :: uuid
  erow_patch_panel_id :: string
  erow_version :: string
  erow_name :: string
  erow_description :: "string option"
  erow_tags :: "string list"
  erow_input_types :: "string list"
  erow_output_types :: "string list"
  erow_required_tools :: "string list"
  erow_required_permissions :: "string list"
  erow_risk_level :: "string option"
  erow_estimated_cost :: "string option"
  erow_estimated_latency :: "string option"
  erow_owner_participant_id :: "string option"
  erow_status :: string
  erow_supersedes_entry_id :: "uuid option"
  erow_registry_metadata :: jdict
  erow_created_at :: datetime
  erow_updated_at :: datetime
  erow_archived_at :: "datetime option"

definition entry_values :: "registry_entry \<Rightarrow> entry_row" where
  "entry_values e = \<lparr>erow_id = entry_id e, erow_patch_panel_id = entry_patch_panel_id e,
     erow_version = entry_version e, erow_name = entry_name e, erow_description = entry_description e,
     erow_tags = entry_tags e, erow_input_types = entry_input_types e, erow_output_types = entry_output_types e,
     erow_required_tools = entry_required_tools e,
     erow_required_permissions = map permission_name_value (entry_required_permissions e),
     erow_risk_level = entry_risk_level e, erow_estimated_cost = entry_estimated_cost e,
     erow_estimated_latency = entry_estimated_latency e,
     erow_owner_participant_id = entry_owner_participant_id e,
     erow_status = registry_status_value (entry_status e),
     erow_supersedes_entry_id = entry_supersedes_entry_id e, erow_registry_metadata = entry_metadata e,
     erow_created_at = entry_created_at e, erow_updated_at = entry_updated_at e,
     erow_archived_at = entry_archived_at e\<rparr>"

text \<open>A comprehension whose element expression may raise.\<close>

fun map_res :: "('a \<Rightarrow> 'b res) \<Rightarrow> 'a list \<Rightarrow> 'b list res" where
  "map_res f [] = Inr []"
| "map_res f (x # xs) = (case f x of Inl e \<Rightarrow> Inl e
     | Inr y \<Rightarrow> (case map_res f xs of Inl e \<Rightarrow> Inl e | Inr ys \<Rightarrow> Inr (y # ys)))"

definition entry_from_row :: "entry_row \<Rightarrow> registry_entry res" where
  "entry_from_row r =
     (case map_res to_permission_name (erow_required_permissions r) of
        Inl e \<Rightarrow> Inl e
      | Inr permissions \<Rightarrow> (case to_registry_status (erow_status r) of
          Inl e \<Rightarrow> Inl e
        | Inr status \<Rightarrow> Inr \<lparr>entry_id = erow_id r, entry_patch_panel_id = erow_patch_panel_id r,
            entry_version = erow_version r, entry_name = erow_name r, entry_description = erow_description r,
            entry_tags = erow_tags r, entry_input_types = erow_input_types r,
            entry_output_types = erow_output_types r, entry_required_tools = erow_required_tools r,
            entry_required_permissions = permissions, entry_risk_level = erow_risk_level r,
            entry_estimated_cost = erow_estimated_cost r, entry_estimated_latency = erow_estimated_latency r,
            entry_owner_participant_id = erow_owner_participant_id r, entry_status = status,
            entry_supersedes_entry_id = erow_supersedes_entry_id r, entry_metadata = erow_registry_metadata r,
            entry_created_at = erow_created_at r, entry_updated_at = erow_updated_at r,
            entry_archived_at = erow_archived_at r\<rparr>))"

lemma map_res_inverse: "(\<And>x. g (f x) = Inr x) \<Longrightarrow> map_res g (map f xs) = Inr xs"
  by (induction xs) simp_all

lemma map_res_Inr: "map_res f xs = Inr ys \<longleftrightarrow> list_all2 (\<lambda>x y. f x = Inr y) xs ys"
proof (induction xs arbitrary: ys)
  case (Cons x xs)
  show ?case by (auto simp: list_all2_Cons1 Cons.IH [symmetric] split: sum.split)
qed auto

lemma entry_round [from_value]: "entry_from_row (entry_values e) = Inr e"
  by (simp add: entry_from_row_def entry_values_def from_value map_res_inverse)

section \<open>Rows of the authorization repository\<close>

record participant_row =
  mrow_id :: string
  mrow_type :: string
  mrow_display_name :: "string option"
  mrow_status :: string
  mrow_trust_level :: "string option"
  mrow_auth_method :: "string option"
  mrow_participant_metadata :: jdict
  mrow_created_at :: datetime
  mrow_archived_at :: "datetime option"

record role_row =
  rrow_id :: string
  rrow_name :: string
  rrow_description :: "string option"
  rrow_role_metadata :: jdict
  rrow_created_at :: datetime

record assignment_row =
  arow_id :: uuid
  arow_participant_id :: string
  arow_role_id :: string
  arow_scope_type :: string
  arow_scope_id :: "string option"
  arow_assigned_by :: "string option"
  arow_expires_at :: "datetime option"
  arow_created_at :: datetime
  arow_revoked_at :: "datetime option"
  arow_assignment_metadata :: jdict

record grant_row =
  grow_id :: uuid
  grow_participant_id :: "string option"
  grow_role_id :: "string option"
  grow_permission :: string
  grow_scope_type :: string
  grow_scope_id :: "string option"
  grow_granted_by :: "string option"
  grow_expires_at :: "datetime option"
  grow_created_at :: datetime
  grow_revoked_at :: "datetime option"
  grow_grant_metadata :: jdict

record audit_row =
  urow_id :: uuid
  urow_action :: string
  urow_participant_id :: "string option"
  urow_permission :: "string option"
  urow_scope_type :: "string option"
  urow_scope_id :: "string option"
  urow_allowed :: "bool option"
  urow_reason :: "string option"
  urow_request_ref :: "string option"
  urow_target_ref :: "string option"
  urow_event_metadata :: jdict
  urow_created_at :: datetime

definition participant_values :: "participant \<Rightarrow> participant_row" where
  "participant_values p = \<lparr>mrow_id = participant_id p, mrow_type = participant_type_value (participant_type p),
     mrow_display_name = participant_display_name p, mrow_status = participant_status_value (participant_status p),
     mrow_trust_level = participant_trust_level p, mrow_auth_method = participant_auth_method p,
     mrow_participant_metadata = participant_metadata p, mrow_created_at = participant_created_at p,
     mrow_archived_at = participant_archived_at p\<rparr>"

definition participant_from_row :: "participant_row \<Rightarrow> participant res" where
  "participant_from_row r =
     (case to_participant_type (mrow_type r) of Inl e \<Rightarrow> Inl e | Inr ty \<Rightarrow>
     (case to_participant_status (mrow_status r) of Inl e \<Rightarrow> Inl e | Inr status \<Rightarrow>
       Inr \<lparr>participant_id = mrow_id r, participant_type = ty, participant_display_name = mrow_display_name r,
         participant_status = status, participant_trust_level = mrow_trust_level r,
         participant_auth_method = mrow_auth_method r, participant_metadata = mrow_participant_metadata r,
         participant_created_at = mrow_created_at r, participant_archived_at = mrow_archived_at r\<rparr>))"

definition assignment_values :: "role_assignment \<Rightarrow> assignment_row" where
  "assignment_values a = \<lparr>arow_id = assignment_id a, arow_participant_id = assignment_participant_id a,
     arow_role_id = assignment_role_id a, arow_scope_type = scope_type_value (scope_type (assignment_scope a)),
     arow_scope_id = scope_id (assignment_scope a), arow_assigned_by = assignment_assigned_by a,
     arow_expires_at = assignment_expires_at a, arow_created_at = assignment_created_at a,
     arow_revoked_at = assignment_revoked_at a, arow_assignment_metadata = assignment_metadata a\<rparr>"

text \<open>\<^verbatim>\<open>Scope(type=ScopeType(t), id=i)\<close> with its validator.\<close>

definition scope_from_columns :: "string \<Rightarrow> string option \<Rightarrow> scope res" where
  "scope_from_columns ty i =
     (case to_scope_type ty of Inl e \<Rightarrow> Inl e | Inr st \<Rightarrow> validate_scope_id \<lparr>scope_type = st, scope_id = i\<rparr>)"

definition role_assignment_from_row :: "assignment_row \<Rightarrow> role_assignment res" where
  "role_assignment_from_row r =
     (case scope_from_columns (arow_scope_type r) (arow_scope_id r) of Inl e \<Rightarrow> Inl e | Inr sc \<Rightarrow>
       Inr \<lparr>assignment_id = arow_id r, assignment_participant_id = arow_participant_id r,
         assignment_role_id = arow_role_id r, assignment_scope = sc, assignment_assigned_by = arow_assigned_by r,
         assignment_expires_at = arow_expires_at r, assignment_created_at = arow_created_at r,
         assignment_revoked_at = arow_revoked_at r, assignment_metadata = arow_assignment_metadata r\<rparr>)"

definition grant_values :: "permission_grant \<Rightarrow> grant_row" where
  "grant_values g = \<lparr>grow_id = grant_id g, grow_participant_id = grant_participant_id g,
     grow_role_id = grant_role_id g, grow_permission = permission_name_value (grant_permission g),
     grow_scope_type = scope_type_value (scope_type (grant_scope g)), grow_scope_id = scope_id (grant_scope g),
     grow_granted_by = grant_granted_by g, grow_expires_at = grant_expires_at g,
     grow_created_at = grant_created_at g, grow_revoked_at = grant_revoked_at g,
     grow_grant_metadata = grant_metadata g\<rparr>"

definition permission_grant_from_row :: "grant_row \<Rightarrow> permission_grant res" where
  "permission_grant_from_row r =
     (case to_permission_name (grow_permission r) of Inl e \<Rightarrow> Inl e | Inr perm \<Rightarrow>
     (case scope_from_columns (grow_scope_type r) (grow_scope_id r) of Inl e \<Rightarrow> Inl e | Inr sc \<Rightarrow>
       validate_grant_target \<lparr>grant_id = grow_id r, grant_permission = perm, grant_scope = sc,
         grant_participant_id = grow_participant_id r, grant_role_id = grow_role_id r,
         grant_granted_by = grow_granted_by r, grant_expires_at = grow_expires_at r,
         grant_created_at = grow_created_at r, grant_revoked_at = grow_revoked_at r,
         grant_metadata = grow_grant_metadata r\<rparr>))"

definition audit_values :: "authorization_audit_event \<Rightarrow> audit_row" where
  "audit_values e = \<lparr>urow_id = audit_id e, urow_action = audit_action_value (audit_action e),
     urow_participant_id = audit_participant_id e,
     urow_permission = map_option permission_name_value (audit_permission e),
     urow_scope_type = map_option (scope_type_value \<circ> scope_type) (audit_scope e),
     urow_scope_id = Option.bind (audit_scope e) scope_id, urow_allowed = audit_allowed e,
     urow_reason = audit_reason e, urow_request_ref = audit_request_ref e, urow_target_ref = audit_target_ref e,
     urow_event_metadata = audit_metadata e, urow_created_at = audit_created_at e\<rparr>"

lemma participant_round [from_value]: "participant_from_row (participant_values p) = Inr p"
  by (simp add: participant_from_row_def participant_values_def from_value)

text \<open>A scope and a grant that pydantic let through come back; others were never constructed.\<close>

definition scope_ok :: "scope \<Rightarrow> bool" where
  "scope_ok sc \<longleftrightarrow> validate_scope_id sc = Inr sc"

definition grant_ok :: "permission_grant \<Rightarrow> bool" where
  "grant_ok g \<longleftrightarrow> scope_ok (grant_scope g) \<and> validate_grant_target g = Inr g"

lemma scope_round: "scope_ok sc \<Longrightarrow> scope_from_columns (scope_type_value (scope_type sc)) (scope_id sc) = Inr sc"
  by (cases sc) (simp add: scope_from_columns_def from_value scope_ok_def)

lemma assignment_round: "scope_ok (assignment_scope a) \<Longrightarrow> role_assignment_from_row (assignment_values a) = Inr a"
  by (simp add: role_assignment_from_row_def assignment_values_def scope_round)

lemma grant_round: "grant_ok g \<Longrightarrow> permission_grant_from_row (grant_values g) = Inr g"
  by (cases g) (simp add: permission_grant_from_row_def grant_values_def scope_round from_value grant_ok_def)

end
