(* ===== verification/Database.thy ===== *)
theory Database
  imports Rows
begin

text \<open>
  The database behind the durable services: the tables of
  \<^verbatim>\<open>src/src/ghostmesh/persistence/tables.py\<close> that the card runtime, the registry and the authorization
  repository use, and the statements they run on them. SQLAlchemy and the database are parameters: a database is a
  value of a type of its own, and the record \<open>sql\<close> gives for every table what a \<^verbatim>\<open>select\<close>, an \<^verbatim>\<open>insert\<close> and
  an \<^verbatim>\<open>update\<close> do to it, and what committing and rolling back a transaction do. The locale \<open>sql_database\<close>
  states their documented behaviour, primary and foreign keys included; an executable database of lists keeps it.
  These commands run one transaction after another; \<^verbatim>\<open>Sessions\<close> interleaves the statements of several.
\<close>

section \<open>Statements\<close>

text \<open>
  \<open>sql_select t P d\<close> are the rows of table \<open>t\<close> that satisfy the \<^verbatim>\<open>where\<close> clause, in whatever order the
  database returns them.
\<close>

record ('d, 'r) sql_table =
  sql_select :: "('r \<Rightarrow> bool) \<Rightarrow> 'd \<Rightarrow> 'r list"
  sql_insert :: "'r \<Rightarrow> 'd \<Rightarrow> 'd res"
  sql_update :: "('r \<Rightarrow> bool) \<Rightarrow> ('r \<Rightarrow> 'r) \<Rightarrow> 'd \<Rightarrow> 'd res"

record 'd sql =
  t_patch_panels :: "('d, panel_row) sql_table"
  t_workflow_versions :: "('d, version_row) sql_table"
  t_buckets :: "('d, bucket_row) sql_table"
  t_cards :: "('d, card) sql_table"
  t_card_locations :: "('d, location_row) sql_table"
  t_leases :: "('d, lease) sql_table"
  t_validation_results :: "('d, validation_result) sql_table"
  t_artifacts :: "('d, artifact_reference) sql_table"
  t_card_events :: "('d, card_event) sql_table"
  t_idempotency_records :: "('d, idempotency_row) sql_table"
  t_participants :: "('d, participant_row) sql_table"
  t_roles :: "('d, role_row) sql_table"
  t_participant_roles :: "('d, assignment_row) sql_table"
  t_permission_grants :: "('d, grant_row) sql_table"
  t_audit_events :: "('d, audit_row) sql_table"
  t_registry_entries :: "('d, entry_row) sql_table"
  sql_commit :: "'d \<Rightarrow> 'd"
  sql_rollback :: "'d \<Rightarrow> 'd \<Rightarrow> 'd"

record 'd pg_state = world +
  pg_database :: 'd

definition select_where :: "('d, 'r) sql_table \<Rightarrow> ('r \<Rightarrow> bool) \<Rightarrow> (('d, 'z) pg_state_scheme, 'r list) M" where
  "select_where t P = getsM (\<lambda>s. sql_select t P (pg_database s))"

text \<open>\<^verbatim>\<open>execute(select(t).where(P)).first()\<close>.\<close>

definition select_first :: "('d, 'r) sql_table \<Rightarrow> ('r \<Rightarrow> bool) \<Rightarrow> (('d, 'z) pg_state_scheme, 'r option) M" where
  "select_first t P = bindM (select_where t P) (\<lambda>rs. returnM (case rs of [] \<Rightarrow> None | r # _ \<Rightarrow> Some r))"

definition insert_into :: "('d, 'r) sql_table \<Rightarrow> 'r \<Rightarrow> (('d, 'z) pg_state_scheme, unit) M" where
  "insert_into t r = (\<lambda>s. case sql_insert t r (pg_database s) of
       Inl e \<Rightarrow> (Inl e, s)
     | Inr d \<Rightarrow> (Inr (), s\<lparr>pg_database := d\<rparr>))"

definition update_where ::
  "('d, 'r) sql_table \<Rightarrow> ('r \<Rightarrow> bool) \<Rightarrow> ('r \<Rightarrow> 'r) \<Rightarrow> (('d, 'z) pg_state_scheme, unit) M" where
  "update_where t P f = (\<lambda>s. case sql_update t P f (pg_database s) of
       Inl e \<Rightarrow> (Inl e, s)
     | Inr d \<Rightarrow> (Inr (), s\<lparr>pg_database := d\<rparr>))"

text \<open>An update with its \<^verbatim>\<open>rowcount\<close>, the number of rows that the clause matched.\<close>

definition update_count ::
  "('d, 'r) sql_table \<Rightarrow> ('r \<Rightarrow> bool) \<Rightarrow> ('r \<Rightarrow> 'r) \<Rightarrow> (('d, 'z) pg_state_scheme, nat) M" where
  "update_count t P f =
     bindM (select_where t P) (\<lambda>rows. bindM (update_where t P f) (\<lambda>_. returnM (length rows)))"

text \<open>
  \<^verbatim>\<open>with Session(engine) as session, session.begin():\<close> commits when the block ends, also by \<^verbatim>\<open>return\<close>, and
  rolls back when it raises.
\<close>

definition transaction :: "'d sql \<Rightarrow> (('d, 'z) pg_state_scheme, 'a) M \<Rightarrow> (('d, 'z) pg_state_scheme, 'a) M" where
  "transaction sql m = (\<lambda>s. case m s of
       (Inl e, t) \<Rightarrow> (Inl e, t\<lparr>pg_database := sql_rollback sql (pg_database s) (pg_database t)\<rparr>)
     | (Inr x, t) \<Rightarrow> (Inr x, t\<lparr>pg_database := sql_commit sql (pg_database t)\<rparr>))"

lemma wp_select_where [wp_rules]: "wp (select_where tab P) Q E s = Q (sql_select tab P (pg_database s)) s"
  by (simp add: select_where_def wp_gets)

lemma wp_transaction [wp_rules]:
  "wp (transaction sql m) Q E s = wp m (\<lambda>x t. Q x (t\<lparr>pg_database := sql_commit sql (pg_database t)\<rparr>))
     (\<lambda>e t. E e (t\<lparr>pg_database := sql_rollback sql (pg_database s) (pg_database t)\<rparr>)) s"
  by (auto simp: wp_def transaction_def split: prod.split sum.split)

section \<open>What the services rely on\<close>

text \<open>The contents of the tables, each a map from primary keys to rows.\<close>

record tables =
  tb_patch_panels :: "string \<times> string \<Rightarrow> panel_row option"
  tb_workflow_versions :: "string \<Rightarrow> version_row option"
  tb_buckets :: "string \<times> string \<Rightarrow> bucket_row option"
  tb_cards :: "uuid \<Rightarrow> card option"
  tb_card_locations :: "uuid \<Rightarrow> location_row option"
  tb_leases :: "uuid \<Rightarrow> lease option"
  tb_validation_results :: "uuid \<Rightarrow> validation_result option"
  tb_artifacts :: "uuid \<Rightarrow> artifact_reference option"
  tb_card_events :: "uuid \<Rightarrow> card_event option"
  tb_idempotency_records :: "string \<Rightarrow> idempotency_row option"
  tb_participants :: "string \<Rightarrow> participant_row option"
  tb_roles :: "string \<Rightarrow> role_row option"
  tb_participant_roles :: "uuid \<Rightarrow> assignment_row option"
  tb_permission_grants :: "uuid \<Rightarrow> grant_row option"
  tb_audit_events :: "uuid \<Rightarrow> audit_row option"
  tb_registry_entries :: "uuid \<Rightarrow> entry_row option"

text \<open>
  One table: a select returns every row that satisfies the clause, once; an insert succeeds exactly when the
  primary key is free and the row satisfies the constraints (\<open>refers\<close>), and raises \<^verbatim>\<open>IntegrityError\<close> otherwise; an
  update rewrites the rows that satisfy the clause, and raises when it breaks a constraint that a row satisfied. No
  statement touches another table.
\<close>

locale sql_table_laws =
  fixes tab :: "('d, 'r) sql_table"
    and valid :: "'d \<Rightarrow> bool"
    and view :: "'d \<Rightarrow> tables"
    and get :: "tables \<Rightarrow> 'k \<Rightarrow> 'r option"
    and put :: "('k \<Rightarrow> 'r option) \<Rightarrow> tables \<Rightarrow> tables"
    and key :: "'r \<Rightarrow> 'k"
    and refers :: "tables \<Rightarrow> 'r \<Rightarrow> bool"
  assumes select_law: "valid d \<Longrightarrow> set (sql_select tab P d) = {r. r \<in> ran (get (view d)) \<and> P r} \<and> distinct (sql_select tab P d)"
    and insert_law: "valid d \<Longrightarrow> sql_insert tab r d = Inr d' \<Longrightarrow>
      valid d' \<and> get (view d) (key r) = None \<and> refers (view d) r \<and> view d' = put ((get (view d))(key r \<mapsto> r)) (view d)"
    and insert_new_law: "valid d \<Longrightarrow> get (view d) (key r) = None \<Longrightarrow> refers (view d) r \<Longrightarrow> \<exists>d'. sql_insert tab r d = Inr d'"
    and insert_error_law: "valid d \<Longrightarrow> sql_insert tab r d = Inl e \<Longrightarrow> \<exists>x. e = IntegrityError x"
    and update_law: "valid d \<Longrightarrow> (\<And>r. P r \<Longrightarrow> key (f r) = key r) \<Longrightarrow> sql_update tab P f d = Inr d' \<Longrightarrow>
      valid d' \<and> view d' = put (\<lambda>k. map_option (\<lambda>r. if P r then f r else r) (get (view d) k)) (view d)"
    and update_error_law: "valid d \<Longrightarrow> sql_update tab P f d = Inl e \<Longrightarrow>
      (\<exists>x. e = IntegrityError x) \<and> (\<exists>r \<in> ran (get (view d)). P r \<and> refers (view d) r \<and> \<not> refers (view d) (f r))"
    and keyed_law: "valid d \<Longrightarrow> get (view d) k = Some r \<Longrightarrow> key r = k"
begin

lemma wp_insert_into:
  assumes "valid (pg_database s)"
    and "\<And>d. valid d \<Longrightarrow> get (view (pg_database s)) (key r) = None \<Longrightarrow>
      view d = put ((get (view (pg_database s)))(key r \<mapsto> r)) (view (pg_database s)) \<Longrightarrow> Q () (s\<lparr>pg_database := d\<rparr>)"
    and "\<And>e. E e s"
  shows "wp (insert_into tab r) Q E s"
  using assms insert_law [OF assms(1)] by (auto simp: wp_def insert_into_def split: sum.split)

text \<open>An insert decided by the key and the constraints.\<close>

lemma insert_into_run:
  assumes "valid (pg_database s)"
  shows "if get (view (pg_database s)) (key r) = None \<and> refers (view (pg_database s)) r
    then \<exists>d. insert_into tab r s = (Inr (), s\<lparr>pg_database := d\<rparr>) \<and> valid d \<and>
      view d = put ((get (view (pg_database s)))(key r \<mapsto> r)) (view (pg_database s))
    else \<exists>x. insert_into tab r s = (Inl (IntegrityError x), s)"
  using insert_new_law [OF assms, of r] insert_law [OF assms, of r] insert_error_law [OF assms, of r]
  by (cases "sql_insert tab r (pg_database s)") (auto simp: insert_into_def)

lemma wp_update:
  assumes "valid (pg_database s)" and "\<And>r. P r \<Longrightarrow> key (f r) = key r"
    and "\<And>d. valid d \<Longrightarrow>
      view d = put (\<lambda>k. map_option (\<lambda>r. if P r then f r else r) (get (view (pg_database s)) k)) (view (pg_database s)) \<Longrightarrow>
      Q () (s\<lparr>pg_database := d\<rparr>)"
    and "\<And>x r. r \<in> ran (get (view (pg_database s))) \<Longrightarrow> P r \<Longrightarrow> refers (view (pg_database s)) r \<Longrightarrow>
      \<not> refers (view (pg_database s)) (f r) \<Longrightarrow> E (IntegrityError x) s"
  shows "wp (update_where tab P f) Q E s"
proof (cases "sql_update tab P f (pg_database s)")
  case (Inl e)
  with update_error_law [OF assms(1) Inl] assms(4) show ?thesis by (auto simp: wp_def update_where_def)
next
  case (Inr d)
  with update_law [OF assms(1,2) Inr] assms(3) show ?thesis by (simp add: wp_def update_where_def)
qed

text \<open>Reading by primary key.\<close>

lemma select_key:
  assumes "valid d"
  shows "sql_select tab (\<lambda>r. key r = k) d = (case get (view d) k of None \<Rightarrow> [] | Some r \<Rightarrow> [r])"
proof -
  have set: "set (sql_select tab (\<lambda>r. key r = k) d) = set_option (get (view d) k)"
    using select_law [OF assms] keyed_law [OF assms] by (fastforce simp: ran_def)
  moreover have "distinct (sql_select tab (\<lambda>r. key r = k) d)" using select_law [OF assms] by blast
  ultimately show ?thesis by (cases "get (view d) k") (auto intro: distinct_singleton)
qed

lemma wp_first_key:
  assumes "valid (pg_database s)"
  shows "wp (select_first tab (\<lambda>r. key r = k)) Q E s = Q (get (view (pg_database s)) k) s"
  by (simp add: select_first_def wp_rules select_key [OF assms] split: option.split)

end

text \<open>A nullable column that refers to a participant, to a role, to a registry entry.\<close>

definition is_participant :: "tables \<Rightarrow> string option \<Rightarrow> bool" where
  "is_participant v p = (case p of None \<Rightarrow> True | Some i \<Rightarrow> tb_participants v i \<noteq> None)"

definition is_role :: "tables \<Rightarrow> string option \<Rightarrow> bool" where
  "is_role v p = (case p of None \<Rightarrow> True | Some i \<Rightarrow> tb_roles v i \<noteq> None)"

definition entry_refers :: "tables \<Rightarrow> entry_row \<Rightarrow> bool" where
  "entry_refers v r \<longleftrightarrow> is_participant v (erow_owner_participant_id r) \<and>
     (case erow_supersedes_entry_id r of None \<Rightarrow> True | Some j \<Rightarrow> j = erow_id r \<or> tb_registry_entries v j \<noteq> None)"

text \<open>The whole database, with the primary and foreign keys and the checks of the schema.\<close>

locale sql_database =
  panels: sql_table_laws "t_patch_panels sql" valid view tb_patch_panels "\<lambda>m. tb_patch_panels_update (\<lambda>_. m)"
    "\<lambda>r. (prow_id r, prow_version r)" "\<lambda>_ _. True" +
  versions: sql_table_laws "t_workflow_versions sql" valid view tb_workflow_versions
    "\<lambda>m. tb_workflow_versions_update (\<lambda>_. m)" vrow_id "\<lambda>_ _. True" +
  buckets: sql_table_laws "t_buckets sql" valid view tb_buckets "\<lambda>m. tb_buckets_update (\<lambda>_. m)"
    "\<lambda>r. (brow_workflow_version r, brow_id r)" "\<lambda>v r. tb_workflow_versions v (brow_workflow_version r) \<noteq> None" +
  cards: sql_table_laws "t_cards sql" valid view tb_cards "\<lambda>m. tb_cards_update (\<lambda>_. m)" card_id "\<lambda>_ _. True" +
  locations: sql_table_laws "t_card_locations sql" valid view tb_card_locations
    "\<lambda>m. tb_card_locations_update (\<lambda>_. m)" loc_id "\<lambda>v r. tb_cards v (loc_card_id r) \<noteq> None" +
  leases: sql_table_laws "t_leases sql" valid view tb_leases "\<lambda>m. tb_leases_update (\<lambda>_. m)" lease_id
    "\<lambda>v r. tb_cards v (lease_card_id r) \<noteq> None" +
  results: sql_table_laws "t_validation_results sql" valid view tb_validation_results
    "\<lambda>m. tb_validation_results_update (\<lambda>_. m)" result_id "\<lambda>v r. tb_cards v (result_card_id r) \<noteq> None" +
  artifacts: sql_table_laws "t_artifacts sql" valid view tb_artifacts "\<lambda>m. tb_artifacts_update (\<lambda>_. m)" artifact_id
    "\<lambda>v r. tb_cards v (artifact_card_id r) \<noteq> None" +
  events: sql_table_laws "t_card_events sql" valid view tb_card_events "\<lambda>m. tb_card_events_update (\<lambda>_. m)" event_id
    "\<lambda>v r. tb_cards v (event_card_id r) \<noteq> None" +
  keys: sql_table_laws "t_idempotency_records sql" valid view tb_idempotency_records
    "\<lambda>m. tb_idempotency_records_update (\<lambda>_. m)" idem_key "\<lambda>_ _. True" +
  participants: sql_table_laws "t_participants sql" valid view tb_participants
    "\<lambda>m. tb_participants_update (\<lambda>_. m)" mrow_id "\<lambda>_ _. True" +
  roles: sql_table_laws "t_roles sql" valid view tb_roles "\<lambda>m. tb_roles_update (\<lambda>_. m)" rrow_id
    "\<lambda>v r. \<forall>q \<in> ran (tb_roles v). rrow_name q \<noteq> rrow_name r" +
  assignments: sql_table_laws "t_participant_roles sql" valid view tb_participant_roles
    "\<lambda>m. tb_participant_roles_update (\<lambda>_. m)" arow_id
    "\<lambda>v r. is_participant v (Some (arow_participant_id r)) \<and> is_role v (Some (arow_role_id r)) \<and>
       is_participant v (arow_assigned_by r)" +
  grants: sql_table_laws "t_permission_grants sql" valid view tb_permission_grants
    "\<lambda>m. tb_permission_grants_update (\<lambda>_. m)" grow_id
    "\<lambda>v r. is_participant v (grow_participant_id r) \<and> is_role v (grow_role_id r) \<and>
       is_participant v (grow_granted_by r) \<and> (grow_participant_id r = None) \<noteq> (grow_role_id r = None)" +
  audits: sql_table_laws "t_audit_events sql" valid view tb_audit_events "\<lambda>m. tb_audit_events_update (\<lambda>_. m)" urow_id
    "\<lambda>v r. is_participant v (urow_participant_id r)" +
  entries: sql_table_laws "t_registry_entries sql" valid view tb_registry_entries
    "\<lambda>m. tb_registry_entries_update (\<lambda>_. m)" erow_id entry_refers
  for sql :: "'d sql" and valid :: "'d \<Rightarrow> bool" and view :: "'d \<Rightarrow> tables" +
  assumes commit_law: "valid d \<Longrightarrow> valid (sql_commit sql d) \<and> view (sql_commit sql d) = view d"
    and rollback_law: "valid d \<Longrightarrow> valid d' \<Longrightarrow>
      valid (sql_rollback sql d d') \<and> view (sql_rollback sql d d') = view d"

section \<open>A database of lists\<close>

definition dict_table ::
  "('d \<Rightarrow> ('k, 'r) dict) \<Rightarrow> (('k, 'r) dict \<Rightarrow> 'd \<Rightarrow> 'd) \<Rightarrow> ('r \<Rightarrow> 'k) \<Rightarrow> ('d \<Rightarrow> 'r \<Rightarrow> bool) \<Rightarrow> ('d, 'r) sql_table" where
  "dict_table get put key refers =
     \<lparr>sql_select = (\<lambda>P d. filter P (dict_values (get d))),
      sql_insert = (\<lambda>r d. if key r \<in> set (dict_keys (get d)) \<or> \<not> refers d r then Inl (IntegrityError ''constraint'')
        else Inr (put (dict_set (key r) r (get d)) d)),
      sql_update = (\<lambda>P f d. if list_ex (\<lambda>r. P r \<and> refers d r \<and> \<not> refers d (f r)) (dict_values (get d))
        then Inl (IntegrityError ''constraint'')
        else Inr (put (map (\<lambda>(k, r). (k, if P r then f r else r)) (get d)) d))\<rparr>"

lemma keyed_distinct: "py.keyed key d \<Longrightarrow> distinct (dict_values d)"
proof -
  assume d: "py.keyed key d"
  then have "key r = k" if "(k, r) \<in> set d" for k r
    using that by (auto simp: py.keyed_def)
  then have "map key (dict_values d) = dict_keys d" by auto
  with d show ?thesis by (metis distinct_map py.keyed_def)
qed

lemma keyed_update:
  assumes "py.keyed key d" and "\<And>r. P r \<Longrightarrow> key (f r) = key r"
  shows "py.keyed key (map (\<lambda>(k, r). (k, if P r then f r else r)) d)"
    and "dict_get (map (\<lambda>(k, r). (k, if P r then f r else r)) d) k = map_option (\<lambda>r. if P r then f r else r) (dict_get d k)"
proof -
  show get: "dict_get (map (\<lambda>(k, r). (k, if P r then f r else r)) d) k = map_option (\<lambda>r. if P r then f r else r) (dict_get d k)" for k
    by (induction d) auto
  have keys: "map fst (map (\<lambda>(k, r). (k, if P r then f r else r)) d) = map fst d" by (simp add: comp_def case_prod_beta)
  show "py.keyed key (map (\<lambda>(k, r). (k, if P r then f r else r)) d)"
    using assms unfolding py.keyed_def get keys by (auto split: if_splits)
qed

lemma dict_table_laws:
  assumes view: "\<And>d. vget (view d) = dict_get (get d)" "\<And>x d. view (put x d) = vput (dict_get x) (view d)"
    and valid: "\<And>d. valid d \<Longrightarrow> py.keyed key (get d)" "\<And>d x. valid d \<Longrightarrow> py.keyed key x \<Longrightarrow> valid (put x d)"
    and refers: "\<And>d r. valid d \<Longrightarrow> refers d r = vrefers (view d) r"
  shows "sql_table_laws (dict_table get put key refers) valid view vget vput key vrefers"
proof (unfold_locales, goal_cases)
  case (1 d P)
  then show ?case
    using valid(1) [OF 1] keyed_distinct [OF valid(1) [OF 1]] map_of_ran [of "get d"]
    by (auto simp: dict_table_def view(1) py.keyed_def)
next
  case (2 d r d')
  then show ?case
    using valid(1) [OF 2(1)]
    by (auto simp: dict_table_def view refers map_of_eq_None_iff split: if_splits intro!: valid(2) py.keyed_put)
next
  case (3 d r)
  then show ?case by (auto simp: dict_table_def view(1) refers map_of_eq_None_iff)
next
  case (4 d r e)
  then show ?case by (auto simp: dict_table_def split: if_splits)
next
  case (5 d P f d')
  have "dict_get (map (\<lambda>(k, r). (k, if P r then f r else r)) (get d)) =
      (\<lambda>k. map_option (\<lambda>r. if P r then f r else r) (dict_get (get d) k))"
    using keyed_update(2) [OF valid(1) [OF 5(1)] 5(2)] by (simp add: fun_eq_iff)
  then show ?case
    using 5(3) keyed_update(1) [OF valid(1) [OF 5(1)] 5(2)] valid(2) [OF 5(1)]
    by (auto simp: dict_table_def view split: if_splits)
next
  case (6 d P f e)
  then show ?case
    using valid(1) [OF 6(1)] map_of_ran [of "get d"]
    by (auto simp: dict_table_def refers list_ex_iff view(1) py.keyed_def split: if_splits)
next
  case (7 d k r)
  then show ?case using valid(1) [OF 7(1)] by (auto simp: view(1) py.keyed_def)
qed

record list_db =
  ld_patch_panels :: "(string \<times> string, panel_row) dict"
  ld_workflow_versions :: "(string, version_row) dict"
  ld_buckets :: "(string \<times> string, bucket_row) dict"
  ld_cards :: "(uuid, card) dict"
  ld_card_locations :: "(uuid, location_row) dict"
  ld_leases :: "(uuid, lease) dict"
  ld_validation_results :: "(uuid, validation_result) dict"
  ld_artifacts :: "(uuid, artifact_reference) dict"
  ld_card_events :: "(uuid, card_event) dict"
  ld_idempotency_records :: "(string, idempotency_row) dict"
  ld_participants :: "(string, participant_row) dict"
  ld_roles :: "(string, role_row) dict"
  ld_participant_roles :: "(uuid, assignment_row) dict"
  ld_permission_grants :: "(uuid, grant_row) dict"
  ld_audit_events :: "(uuid, audit_row) dict"
  ld_registry_entries :: "(uuid, entry_row) dict"

definition empty_list_db :: list_db where
  "empty_list_db = \<lparr>ld_patch_panels = [], ld_workflow_versions = [], ld_buckets = [], ld_cards = [],
     ld_card_locations = [], ld_leases = [], ld_validation_results = [], ld_artifacts = [], ld_card_events = [],
     ld_idempotency_records = [], ld_participants = [], ld_roles = [], ld_participant_roles = [],
     ld_permission_grants = [], ld_audit_events = [], ld_registry_entries = []\<rparr>"

definition list_view :: "list_db \<Rightarrow> tables" where
  "list_view d = \<lparr>tb_patch_panels = dict_get (ld_patch_panels d),
     tb_workflow_versions = dict_get (ld_workflow_versions d), tb_buckets = dict_get (ld_buckets d),
     tb_cards = dict_get (ld_cards d), tb_card_locations = dict_get (ld_card_locations d),
     tb_leases = dict_get (ld_leases d), tb_validation_results = dict_get (ld_validation_results d),
     tb_artifacts = dict_get (ld_artifacts d), tb_card_events = dict_get (ld_card_events d),
     tb_idempotency_records = dict_get (ld_idempotency_records d), tb_participants = dict_get (ld_participants d),
     tb_roles = dict_get (ld_roles d), tb_participant_roles = dict_get (ld_participant_roles d),
     tb_permission_grants = dict_get (ld_permission_grants d), tb_audit_events = dict_get (ld_audit_events d),
     tb_registry_entries = dict_get (ld_registry_entries d)\<rparr>"

definition list_valid :: "list_db \<Rightarrow> bool" where
  "list_valid d \<longleftrightarrow> py.keyed (\<lambda>r. (prow_id r, prow_version r)) (ld_patch_panels d) \<and>
     py.keyed vrow_id (ld_workflow_versions d) \<and> py.keyed (\<lambda>r. (brow_workflow_version r, brow_id r)) (ld_buckets d) \<and>
     py.keyed card_id (ld_cards d) \<and> py.keyed loc_id (ld_card_locations d) \<and> py.keyed lease_id (ld_leases d) \<and>
     py.keyed result_id (ld_validation_results d) \<and> py.keyed artifact_id (ld_artifacts d) \<and>
     py.keyed event_id (ld_card_events d) \<and> py.keyed idem_key (ld_idempotency_records d) \<and>
     py.keyed mrow_id (ld_participants d) \<and> py.keyed rrow_id (ld_roles d) \<and> py.keyed arow_id (ld_participant_roles d) \<and>
     py.keyed grow_id (ld_permission_grants d) \<and> py.keyed urow_id (ld_audit_events d) \<and>
     py.keyed erow_id (ld_registry_entries d)"

definition list_sql :: "list_db sql" where
  "list_sql =
     \<lparr>t_patch_panels = dict_table ld_patch_panels (\<lambda>x d. d\<lparr>ld_patch_panels := x\<rparr>) (\<lambda>r. (prow_id r, prow_version r)) (\<lambda>_ _. True),
      t_workflow_versions = dict_table ld_workflow_versions (\<lambda>x d. d\<lparr>ld_workflow_versions := x\<rparr>) vrow_id (\<lambda>_ _. True),
      t_buckets = dict_table ld_buckets (\<lambda>x d. d\<lparr>ld_buckets := x\<rparr>) (\<lambda>r. (brow_workflow_version r, brow_id r))
        (\<lambda>d r. tb_workflow_versions (list_view d) (brow_workflow_version r) \<noteq> None),
      t_cards = dict_table ld_cards (\<lambda>x d. d\<lparr>ld_cards := x\<rparr>) card_id (\<lambda>_ _. True),
      t_card_locations = dict_table ld_card_locations (\<lambda>x d. d\<lparr>ld_card_locations := x\<rparr>) loc_id
        (\<lambda>d r. tb_cards (list_view d) (loc_card_id r) \<noteq> None),
      t_leases = dict_table ld_leases (\<lambda>x d. d\<lparr>ld_leases := x\<rparr>) lease_id
        (\<lambda>d r. tb_cards (list_view d) (lease_card_id r) \<noteq> None),
      t_validation_results = dict_table ld_validation_results (\<lambda>x d. d\<lparr>ld_validation_results := x\<rparr>) result_id
        (\<lambda>d r. tb_cards (list_view d) (result_card_id r) \<noteq> None),
      t_artifacts = dict_table ld_artifacts (\<lambda>x d. d\<lparr>ld_artifacts := x\<rparr>) artifact_id
        (\<lambda>d r. tb_cards (list_view d) (artifact_card_id r) \<noteq> None),
      t_card_events = dict_table ld_card_events (\<lambda>x d. d\<lparr>ld_card_events := x\<rparr>) event_id
        (\<lambda>d r. tb_cards (list_view d) (event_card_id r) \<noteq> None),
      t_idempotency_records = dict_table ld_idempotency_records (\<lambda>x d. d\<lparr>ld_idempotency_records := x\<rparr>) idem_key (\<lambda>_ _. True),
      t_participants = dict_table ld_participants (\<lambda>x d. d\<lparr>ld_participants := x\<rparr>) mrow_id (\<lambda>_ _. True),
      t_roles = dict_table ld_roles (\<lambda>x d. d\<lparr>ld_roles := x\<rparr>) rrow_id
        (\<lambda>d r. list_all (\<lambda>q. rrow_name q \<noteq> rrow_name r) (dict_values (ld_roles d))),
      t_participant_roles = dict_table ld_participant_roles (\<lambda>x d. d\<lparr>ld_participant_roles := x\<rparr>) arow_id
        (\<lambda>d r. is_participant (list_view d) (Some (arow_participant_id r)) \<and> is_role (list_view d) (Some (arow_role_id r)) \<and>
           is_participant (list_view d) (arow_assigned_by r)),
      t_permission_grants = dict_table ld_permission_grants (\<lambda>x d. d\<lparr>ld_permission_grants := x\<rparr>) grow_id
        (\<lambda>d r. is_participant (list_view d) (grow_participant_id r) \<and> is_role (list_view d) (grow_role_id r) \<and>
           is_participant (list_view d) (grow_granted_by r) \<and> (grow_participant_id r = None) \<noteq> (grow_role_id r = None)),
      t_audit_events = dict_table ld_audit_events (\<lambda>x d. d\<lparr>ld_audit_events := x\<rparr>) urow_id
        (\<lambda>d r. is_participant (list_view d) (urow_participant_id r)),
      t_registry_entries = dict_table ld_registry_entries (\<lambda>x d. d\<lparr>ld_registry_entries := x\<rparr>) erow_id
        (\<lambda>d. entry_refers (list_view d)),
      sql_commit = (\<lambda>d. d), sql_rollback = (\<lambda>d _. d)\<rparr>"

lemma role_names:
  assumes "py.keyed rrow_id (ld_roles d)"
  shows "list_all P (dict_values (ld_roles d)) = (\<forall>q \<in> ran (dict_get (ld_roles d)). P q)"
  using assms map_of_ran [of "ld_roles d"] by (auto simp: list_all_iff py.keyed_def)

interpretation list_db: sql_database list_sql list_valid list_view
proof (intro sql_database.intro sql_database_axioms.intro)
qed (simp_all add: list_sql_def, (rule dict_table_laws; simp add: list_view_def list_valid_def role_names)+)

end
