(* ===== verification/Postgres.thy ===== *)
theory Postgres
  imports Database RuntimeContract "HOL-Library.Product_Lexorder"
begin

text \<open>
  The durable card runtime: \<^verbatim>\<open>src/src/ghostmesh/runtime/postgres.py\<close>, class \<^verbatim>\<open>PostgresCardRuntime\<close>, method by
  method, over a database given by its statements (\<open>sql\<close>). What pydantic makes of a panel and what
  \<^verbatim>\<open>UUID(text)\<close> reads are parameters, the record \<open>pg_codecs\<close>. An operation runs as one
  transaction; an unlocked read (\<^verbatim>\<open>get_card\<close>, \<^verbatim>\<open>list_cards\<close>, \<^verbatim>\<open>card_history\<close>) runs outside of one.
\<close>

section \<open>Lookups\<close>

record pg_codecs =
  pg_encode_panel :: "patch_panel \<Rightarrow> json"
  pg_decode_panel :: "json \<Rightarrow> patch_panel res"
  pg_encode_bucket :: "bucket_definition \<Rightarrow> json"
  pg_parse_uuid :: "string \<Rightarrow> uuid res"

definition pg_get_card :: "'d sql \<Rightarrow> uuid \<Rightarrow> (('d, 'z) pg_state_scheme, card) M" where
  "pg_get_card sql cid =
     bindM (select_first (t_cards sql) (\<lambda>c. card_id c = cid)) (\<lambda>row. case row of
       None \<Rightarrow> raiseM (NotFoundError (''card '' @ quoted (uuid_str cid) @ '' does not exist''))
     | Some c \<Rightarrow> returnM c)"

definition pg_get_event :: "'d sql \<Rightarrow> uuid \<Rightarrow> (('d, 'z) pg_state_scheme, card_event) M" where
  "pg_get_event sql eid =
     bindM (select_first (t_card_events sql) (\<lambda>e. event_id e = eid)) (\<lambda>row. case row of
       None \<Rightarrow> raiseM (NotFoundError (''event '' @ quoted (uuid_str eid) @ '' does not exist''))
     | Some e \<Rightarrow> returnM e)"

definition pg_get_lease :: "'d sql \<Rightarrow> uuid \<Rightarrow> (('d, 'z) pg_state_scheme, lease) M" where
  "pg_get_lease sql lid =
     bindM (select_first (t_leases sql) (\<lambda>l. lease_id l = lid)) (\<lambda>row. case row of
       None \<Rightarrow> raiseM (NotFoundError (''lease '' @ quoted (uuid_str lid) @ '' does not exist''))
     | Some l \<Rightarrow> returnM l)"

definition pg_get_artifacts ::
  "'d sql \<Rightarrow> uuid list \<Rightarrow> (('d, 'z) pg_state_scheme, artifact_reference list) M" where
  "pg_get_artifacts sql ids =
     (if ids = [] then returnM []
      else
        bindM (select_where (t_artifacts sql) (\<lambda>r. artifact_id r \<in> set ids)) (\<lambda>rows.
        let by_id = map (\<lambda>r. (artifact_id r, r)) rows;
            missing = filter (\<lambda>i. dict_get by_id i = None) ids in
        case missing of
          i # _ \<Rightarrow> raiseM (NotFoundError (''artifact '' @ quoted (uuid_str i) @ '' does not exist''))
        | [] \<Rightarrow> returnM (map (\<lambda>i. the (dict_get by_id i)) ids)))"

definition pg_get_active_patch_panel ::
  "pg_codecs \<Rightarrow> 'd sql \<Rightarrow> string \<Rightarrow> (('d, 'z) pg_state_scheme, patch_panel) M" where
  "pg_get_active_patch_panel cd sql pid =
     bindM (select_where (t_workflow_versions sql) (\<lambda>v. vrow_active v)) (\<lambda>versions.
     bindM (select_first (t_patch_panels sql) (\<lambda>p. prow_id p = pid \<and>
              (\<exists>v \<in> set versions. vrow_patch_panel_id v = prow_id p \<and> vrow_version v = prow_version p))) (\<lambda>row.
     case row of
       None \<Rightarrow> raiseM (NotFoundError (''Patch Panel '' @ quoted pid @ '' is not registered''))
     | Some p \<Rightarrow> liftM (pg_decode_panel cd (prow_definition p))))"

definition pg_single_patch_panel :: "pg_codecs \<Rightarrow> 'd sql \<Rightarrow> (('d, 'z) pg_state_scheme, patch_panel) M" where
  "pg_single_patch_panel cd sql =
     bindM (select_where (t_patch_panels sql) (\<lambda>_. True)) (\<lambda>rows. case rows of
       [] \<Rightarrow> raiseM (NotFoundError ''no Patch Panels are registered'')
     | [p] \<Rightarrow> liftM (pg_decode_panel cd (prow_definition p))
     | _ \<Rightarrow> raiseM (ConflictError ''operation requires an explicit Patch Panel when multiple are registered''))"

definition pg_get_patch_panel_for_card ::
  "pg_codecs \<Rightarrow> 'd sql \<Rightarrow> card \<Rightarrow> (('d, 'z) pg_state_scheme, patch_panel) M" where
  "pg_get_patch_panel_for_card cd sql c =
     (if CHR '':'' \<notin> set (card_workflow_version c)
      then raiseM (ValueError ''not enough values to unpack (expected 2, got 1)'')
      else
        let pid = split_colon (card_workflow_version c);
            version = drop (Suc (length pid)) (card_workflow_version c) in
        bindM (select_first (t_patch_panels sql) (\<lambda>p. prow_id p = pid \<and> prow_version p = version)) (\<lambda>row.
        case row of
          None \<Rightarrow> raiseM (NotFoundError (''Patch Panel '' @ quoted (card_workflow_version c) @ '' is not registered''))
        | Some p \<Rightarrow> liftM (pg_decode_panel cd (prow_definition p))))"

definition pg_get_idempotency :: "'d sql \<Rightarrow> string option \<Rightarrow> (('d, 'z) pg_state_scheme, string option) M" where
  "pg_get_idempotency sql key =
     (if \<not> truthy key then returnM None
      else bindM (select_first (t_idempotency_records sql) (\<lambda>r. idem_key r = the key)) (\<lambda>row.
        returnM (map_option idem_response_ref row)))"

text \<open>The prologue of the operations: \<^verbatim>\<open>if cached:\<close>, the answer the remembered reference leads to, else the body.\<close>

definition pg_idempotently ::
  "'d sql \<Rightarrow> string option \<Rightarrow> (string \<Rightarrow> (('d, 'z) pg_state_scheme, 'a) M) \<Rightarrow> (('d, 'z) pg_state_scheme, 'a) M \<Rightarrow>
     (('d, 'z) pg_state_scheme, 'a) M" where
  "pg_idempotently sql key replay body =
     bindM (pg_get_idempotency sql key) (\<lambda>cached.
     if truthy cached then replay (the cached) else body)"

section \<open>Writes\<close>

definition pg_store_idempotency ::
  "'d sql \<Rightarrow> string option \<Rightarrow> string \<Rightarrow> string \<Rightarrow> (('d, 'z) pg_state_scheme, unit) M" where
  "pg_store_idempotency sql key operation ref =
     (if \<not> truthy key then returnM ()
      else
        bindM now_utc (\<lambda>t. \<lambda>s.
        (case insert_into (t_idempotency_records sql)
               \<lparr>idem_key = the key, idem_operation = operation, idem_response_ref = ref, idem_created_at = t\<rparr> s of
           (Inl (IntegrityError _), u) \<Rightarrow> (Inl (ConflictError (''idempotency key '' @ quoted (the key) @ '' already exists'')), u)
         | r \<Rightarrow> r)))"

definition pg_insert_event :: "'d sql \<Rightarrow> card_event \<Rightarrow> (('d, 'z) pg_state_scheme, unit) M" where
  "pg_insert_event sql e = insert_into (t_card_events sql) e"

text \<open>An event is built and then inserted.\<close>

definition pg_log ::
  "'d sql \<Rightarrow> uuid \<Rightarrow> string \<Rightarrow> string option \<Rightarrow> jdict \<Rightarrow> (('d, 'z) pg_state_scheme, card_event) M" where
  "pg_log sql cid etype actor payload =
     bindM (new_card_event cid etype actor payload) (\<lambda>e.
     bindM (pg_insert_event sql e) (\<lambda>_.
     returnM e))"

definition pg_insert_location ::
  "'d sql \<Rightarrow> uuid \<Rightarrow> string \<Rightarrow> datetime \<Rightarrow> (('d, 'z) pg_state_scheme, unit) M" where
  "pg_insert_location sql cid bucket t =
     bindM uuid4 (\<lambda>i.
     insert_into (t_card_locations sql)
       \<lparr>loc_id = i, loc_card_id = cid, loc_bucket = bucket, loc_status = ''active'', loc_entered_at = t,
        loc_accepted_at = Some t, loc_exited_at = None\<rparr>)"

definition pg_move_card_row ::
  "'d sql \<Rightarrow> card \<Rightarrow> string \<Rightarrow> string option \<Rightarrow> string option \<Rightarrow> bool \<Rightarrow> (('d, 'z) pg_state_scheme, card) M" where
  "pg_move_card_row sql c to_bucket actor reason emit =
     bindM now_utc (\<lambda>t.
     bindM (update_where (t_card_locations sql) (\<lambda>r. loc_card_id r = card_id c \<and> loc_status r = ''active'')
              (\<lambda>r. r\<lparr>loc_status := ''exited'', loc_exited_at := Some t\<rparr>)) (\<lambda>_.
     bindM (pg_insert_location sql (card_id c) to_bucket t) (\<lambda>_.
     bindM (update_where (t_cards sql) (\<lambda>r. card_id r = card_id c) (\<lambda>r. r\<lparr>card_current_bucket := to_bucket\<rparr>)) (\<lambda>_.
     bindM (if emit
            then bindM (pg_log sql (card_id c) ''card_moved'' actor
                   [(''from_bucket'', JStr (card_current_bucket c)), (''to_bucket'', JStr to_bucket),
                    (''reason'', opt_json reason)]) (\<lambda>_. returnM ())
            else returnM ()) (\<lambda>_.
     returnM (c\<lparr>card_current_bucket := to_bucket\<rparr>))))))"

section \<open>Operations\<close>

definition pg_register_patch_panel ::
  "'g networkx \<Rightarrow> pg_codecs \<Rightarrow> 'd sql \<Rightarrow> patch_panel \<Rightarrow> (('d, 'z) pg_state_scheme, patch_panel) M" where
  "pg_register_patch_panel nx cd sql p =
     bindM (liftM (validate_patch_panel nx p)) (\<lambda>_.
     bindM now_utc (\<lambda>t.
     bindM (transaction sql (
       bindM (select_first (t_patch_panels sql) (\<lambda>r. prow_id r = panel_id p \<and> prow_version r = panel_version p)) (\<lambda>existing.
       bindM (if existing = None
              then insert_into (t_patch_panels sql)
                \<lparr>prow_id = panel_id p, prow_version = panel_version p, prow_definition = pg_encode_panel cd p,
                 prow_created_at = t\<rparr>
              else returnM ()) (\<lambda>_.
       bindM (select_first (t_workflow_versions sql) (\<lambda>r. vrow_id r = workflow_version_id p)) (\<lambda>existing_version.
       if existing_version = None
       then
         bindM (insert_into (t_workflow_versions sql)
                  \<lparr>vrow_id = workflow_version_id p, vrow_patch_panel_id = panel_id p, vrow_version = panel_version p,
                   vrow_active = True, vrow_created_at = t\<rparr>) (\<lambda>_.
         bindM (forM (panel_buckets p) (\<lambda>b. insert_into (t_buckets sql)
                  \<lparr>brow_workflow_version = workflow_version_id p, brow_id = bucket_id b,
                   brow_definition = pg_encode_bucket cd b, brow_created_at = t\<rparr>)) (\<lambda>_.
         returnM ()))
       else returnM ()))))) (\<lambda>_.
     returnM p)))"

definition pg_list_patch_panels :: "pg_codecs \<Rightarrow> 'd sql \<Rightarrow> (('d, 'z) pg_state_scheme, patch_panel list) M" where
  "pg_list_patch_panels cd sql =
     bindM (select_where (t_patch_panels sql) (\<lambda>_. True)) (\<lambda>rows.
     forM rows (\<lambda>r. liftM (pg_decode_panel cd (prow_definition r))))"

text \<open>\<^verbatim>\<open>create_card\<close> when there is nothing to replay.\<close>

definition pg_create_body ::
  "pg_codecs \<Rightarrow> 'd sql \<Rightarrow> string \<Rightarrow> jdict \<Rightarrow> jdict option \<Rightarrow> string option \<Rightarrow> (('d, 'z) pg_state_scheme, card) M" where
  "pg_create_body cd sql pid payload metadata key =
     bindM (pg_get_active_patch_panel cd sql pid) (\<lambda>p.
     bindM (liftM (resolve_initial_bucket p)) (\<lambda>bucket.
     bindM (new_card (workflow_version_id p) bucket payload (case metadata of None \<Rightarrow> [] | Some m \<Rightarrow> m)) (\<lambda>c.
     bindM (insert_into (t_cards sql) c) (\<lambda>_.
     bindM (pg_insert_location sql (card_id c) bucket (card_created_at c)) (\<lambda>_.
     bindM (pg_log sql (card_id c) ''card_created'' None
              [(''patch_panel_id'', JStr (panel_id p)), (''version'', JStr (panel_version p)),
               (''bucket'', JStr bucket)]) (\<lambda>_.
     bindM (pg_store_idempotency sql key ''card.create'' (''card:'' @ uuid_str (card_id c))) (\<lambda>_.
     returnM c)))))))"

definition pg_create_card ::
  "pg_codecs \<Rightarrow> 'd sql \<Rightarrow> string \<Rightarrow> jdict \<Rightarrow> jdict option \<Rightarrow> string option \<Rightarrow> (('d, 'z) pg_state_scheme, card) M" where
  "pg_create_card cd sql pid payload metadata key =
     transaction sql (pg_idempotently sql key
       (\<lambda>ref. bindM (liftM (pg_parse_uuid cd (removeprefix ''card:'' ref))) (pg_get_card sql))
       (pg_create_body cd sql pid payload metadata key))"

definition pg_list_cards :: "'d sql \<Rightarrow> (('d, 'z) pg_state_scheme, card list) M" where
  "pg_list_cards sql = select_where (t_cards sql) (\<lambda>_. True)"

definition pg_list_leases :: "'d sql \<Rightarrow> (('d, 'z) pg_state_scheme, lease list) M" where
  "pg_list_leases sql = select_where (t_leases sql) (\<lambda>_. True)"

definition pg_replay_lease :: "pg_codecs \<Rightarrow> 'd sql \<Rightarrow> string \<Rightarrow> (('d, 'z) pg_state_scheme, lease) M" where
  "pg_replay_lease cd sql ref = bindM (liftM (pg_parse_uuid cd (removeprefix ''lease:'' ref))) (pg_get_lease sql)"

definition pg_replay_event :: "pg_codecs \<Rightarrow> 'd sql \<Rightarrow> string \<Rightarrow> (('d, 'z) pg_state_scheme, card_event) M" where
  "pg_replay_event cd sql ref = bindM (liftM (pg_parse_uuid cd (removeprefix ''event:'' ref))) (pg_get_event sql)"

definition pg_claim_card ::
  "pg_codecs \<Rightarrow> 'd sql \<Rightarrow> string \<Rightarrow> string \<Rightarrow> int \<Rightarrow> string option \<Rightarrow> (('d, 'z) pg_state_scheme, lease) M" where
  "pg_claim_card cd sql pipe worker seconds key =
     transaction sql (pg_idempotently sql key (pg_replay_lease cd sql)
       (bindM (pg_single_patch_panel cd sql) (\<lambda>p.
        bindM (liftM (resolve_pipe_bucket p pipe Input)) (\<lambda>(bucket, node).
        bindM now_utc (\<lambda>t.
        bindM (select_where (t_leases sql) (\<lambda>l. lease_released_at l = None \<and> lease_expires_at l > t)) (\<lambda>held.
        bindM (select_first (t_cards sql) (\<lambda>c. card_current_bucket c = bucket \<and>
                 card_id c \<notin> lease_card_id ` set held)) (\<lambda>row. case row of
          None \<Rightarrow> raiseM (NotFoundError (''no claimable cards in bucket '' @ quoted bucket))
        | Some c \<Rightarrow>
            bindM (new_lease c node worker pipe seconds) (\<lambda>l.
            bindM (insert_into (t_leases sql) l) (\<lambda>_.
            bindM (pg_log sql (card_id c) ''card_claimed'' (Some worker)
                     [(''lease_id'', JStr (uuid_str (lease_id l))), (''input_pipe'', JStr pipe)]) (\<lambda>_.
            bindM (pg_store_idempotency sql key ''card.claim'' (''lease:'' @ uuid_str (lease_id l))) (\<lambda>_.
            returnM l)))))))))))"

text \<open>\<^verbatim>\<open>s.split(",")\<close> without the empty parts.\<close>

fun comma_parts :: "string \<Rightarrow> string \<Rightarrow> string list" where
  "comma_parts acc [] = (if acc = [] then [] else [rev acc])"
| "comma_parts acc (c # cs) =
     (if c = CHR '','' then (if acc = [] then [] else [rev acc]) @ comma_parts [] cs else comma_parts (c # acc) cs)"

definition pg_replay_artifacts ::
  "pg_codecs \<Rightarrow> 'd sql \<Rightarrow> string \<Rightarrow> (('d, 'z) pg_state_scheme, artifact_reference list) M" where
  "pg_replay_artifacts cd sql ref =
     (if take (length ''artifact:'') ref = ''artifact:''
      then bindM (liftM (pg_parse_uuid cd (removeprefix ''artifact:'' ref))) (\<lambda>i. pg_get_artifacts sql [i])
      else bindM (forM (comma_parts [] (removeprefix ''artifacts:'' ref)) (\<lambda>p. liftM (pg_parse_uuid cd p)))
             (pg_get_artifacts sql))"

definition pg_submit_artifact ::
  "pg_codecs \<Rightarrow> 'd sql \<Rightarrow> uuid \<Rightarrow> string \<Rightarrow> artifact_reference list \<Rightarrow> string option \<Rightarrow>
     (('d, 'z) pg_state_scheme, artifact_reference list) M" where
  "pg_submit_artifact cd sql lid pipe refs key =
     transaction sql (pg_idempotently sql key (pg_replay_artifacts cd sql)
       (bindM (pg_get_lease sql lid) (\<lambda>l.
        bindM (ensure_active_lease l) (\<lambda>_.
        bindM (pg_get_card sql (lease_card_id l)) (\<lambda>c.
        bindM (pg_get_patch_panel_for_card cd sql c) (\<lambda>p.
        bindM (liftM (resolve_pipe_bucket p pipe Output)) (\<lambda>(dest, node).
        bindM (liftM (ensure_artifact_refs_belong_to_card (card_id c) refs)) (\<lambda>_.
        bindM (liftM (ensure_artifacts_accepted p dest refs)) (\<lambda>_.
        if node \<noteq> lease_node_id l
        then raiseM (ConflictError (''lease node '' @ quoted (lease_node_id l)
               @ '' cannot submit through node '' @ quoted node))
        else
          bindM (pg_move_card_row sql c dest (Some (lease_worker_id l)) (Some ''artifact_submitted'') False) (\<lambda>_.
          bindM now_utc (\<lambda>t.
          bindM (update_where (t_leases sql) (\<lambda>r. lease_id r = lease_id l) (\<lambda>r. r\<lparr>lease_released_at := Some t\<rparr>)) (\<lambda>_.
          bindM (pg_log sql (card_id c) ''artifact_submitted'' (Some (lease_worker_id l))
                   [(''artifact_ids'', JList (map (JStr \<circ> uuid_str \<circ> artifact_id) refs)),
                    (''artifact_refs'', JList (map artifact_json refs)),
                    (''lease_id'', JStr (uuid_str (lease_id l))),
                    (''output_pipe'', JStr pipe), (''destination_bucket'', JStr dest)]) (\<lambda>e.
          let stored = map (\<lambda>r. r\<lparr>artifact_card_id := card_id c, artifact_event_id := Some (event_id e)\<rparr>) refs in
          bindM (forM stored (insert_into (t_artifacts sql))) (\<lambda>_.
          bindM (pg_store_idempotency sql key ''artifact.submit''
                   (''artifacts:'' @ join '','' (map (uuid_str \<circ> artifact_id) stored))) (\<lambda>_.
          returnM stored)))))))))))))))"

definition pg_renew_lease ::
  "pg_codecs \<Rightarrow> 'd sql \<Rightarrow> uuid \<Rightarrow> int \<Rightarrow> string option \<Rightarrow> (('d, 'z) pg_state_scheme, lease) M" where
  "pg_renew_lease cd sql lid seconds key =
     transaction sql (pg_idempotently sql key (pg_replay_lease cd sql)
       (bindM (pg_get_lease sql lid) (\<lambda>l.
        bindM (ensure_active_lease l) (\<lambda>_.
        bindM now_utc (\<lambda>t.
        bindM (liftM (plus_seconds t seconds)) (\<lambda>expires.
        bindM (update_where (t_leases sql) (\<lambda>r. lease_id r = lease_id l) (\<lambda>r. r\<lparr>lease_expires_at := expires\<rparr>)) (\<lambda>_.
        bindM (pg_log sql (lease_card_id l) ''lease_renewed'' (Some (lease_worker_id l))
                 [(''lease_id'', JStr (uuid_str (lease_id l))), (''expires_at'', JStr (isoformat expires))]) (\<lambda>_.
        bindM (pg_store_idempotency sql key ''lease.renew'' (''lease:'' @ uuid_str (lease_id l))) (\<lambda>_.
        returnM (l\<lparr>lease_expires_at := expires\<rparr>))))))))))"

definition pg_release_lease ::
  "pg_codecs \<Rightarrow> 'd sql \<Rightarrow> uuid \<Rightarrow> string option \<Rightarrow> string option \<Rightarrow> (('d, 'z) pg_state_scheme, lease) M" where
  "pg_release_lease cd sql lid actor key =
     transaction sql (pg_idempotently sql key (pg_replay_lease cd sql)
       (bindM (pg_get_lease sql lid) (\<lambda>l.
        if lease_released_at l \<noteq> None then returnM l
        else
          bindM now_utc (\<lambda>t.
          bindM (update_where (t_leases sql) (\<lambda>r. lease_id r = lease_id l) (\<lambda>r. r\<lparr>lease_released_at := Some t\<rparr>)) (\<lambda>_.
          bindM (pg_log sql (lease_card_id l) ''lease_released'' (or_else actor (Some (lease_worker_id l)))
                   [(''lease_id'', JStr (uuid_str (lease_id l)))]) (\<lambda>_.
          bindM (pg_store_idempotency sql key ''lease.release'' (''lease:'' @ uuid_str (lease_id l))) (\<lambda>_.
          returnM (l\<lparr>lease_released_at := Some t\<rparr>))))))))"

definition pg_expire_leases :: "'d sql \<Rightarrow> (('d, 'z) pg_state_scheme, lease list) M" where
  "pg_expire_leases sql =
     bindM now_utc (\<lambda>t.
     transaction sql (
       bindM (select_where (t_leases sql) (\<lambda>l. lease_released_at l = None \<and> lease_expires_at l \<le> t)) (\<lambda>rows.
       forM rows (\<lambda>l.
         bindM (update_where (t_leases sql) (\<lambda>r. lease_id r = lease_id l) (\<lambda>r. r\<lparr>lease_released_at := Some t\<rparr>)) (\<lambda>_.
         bindM (pg_log sql (lease_card_id l) ''lease_expired'' (Some (lease_worker_id l))
                  [(''lease_id'', JStr (uuid_str (lease_id l)))]) (\<lambda>_.
         returnM (l\<lparr>lease_released_at := Some t\<rparr>)))))))"

definition pg_validate_card ::
  "pg_codecs \<Rightarrow> 'd sql \<Rightarrow> uuid \<Rightarrow> string \<Rightarrow> bool \<Rightarrow> string option \<Rightarrow> string option \<Rightarrow> jdict option \<Rightarrow> string option \<Rightarrow>
     (('d, 'z) pg_state_scheme, card_event) M" where
  "pg_validate_card cd sql cid validator accepted reason pipe payload key =
     transaction sql (pg_idempotently sql key (pg_replay_event cd sql)
       (bindM (pg_get_card sql cid) (\<lambda>c.
        bindM (new_validation_result (card_id c) validator accepted reason pipe
                 (case payload of None \<Rightarrow> [] | Some d \<Rightarrow> d)) (\<lambda>result.
        bindM (insert_into (t_validation_results sql) result) (\<lambda>_.
        let event_payload = dict_update [(''accepted'', JBool accepted), (''reason'', opt_json reason),
              (''validation_result_id'', JStr (uuid_str (result_id result)))] (case payload of None \<Rightarrow> [] | Some d \<Rightarrow> d) in
        bindM (if truthy pipe then
                 bindM (pg_get_patch_panel_for_card cd sql c) (\<lambda>p.
                 bindM (liftM (resolve_pipe_bucket p (the pipe) Output)) (\<lambda>(dest, _).
                 bindM (pg_move_card_row sql c dest (Some validator) (Some ''validator_output'') True) (\<lambda>_.
                 returnM (dict_set ''destination_bucket'' (JStr dest)
                   (dict_set ''output_pipe'' (JStr (the pipe)) event_payload)))))
               else returnM event_payload) (\<lambda>full_payload.
        bindM (pg_log sql (card_id c) ''card_validated'' (Some validator) full_payload) (\<lambda>e.
        bindM (pg_store_idempotency sql key ''card.validate'' (''event:'' @ uuid_str (event_id e))) (\<lambda>_.
        returnM e))))))))"

definition pg_move_card ::
  "pg_codecs \<Rightarrow> 'd sql \<Rightarrow> uuid \<Rightarrow> string \<Rightarrow> string option \<Rightarrow> string option \<Rightarrow> string option \<Rightarrow>
     (('d, 'z) pg_state_scheme, card) M" where
  "pg_move_card cd sql cid to_bucket actor reason key =
     transaction sql (pg_idempotently sql key
       (\<lambda>ref. bindM (liftM (pg_parse_uuid cd (removeprefix ''card:'' ref))) (pg_get_card sql))
       (bindM (pg_get_card sql cid) (\<lambda>c.
        bindM (pg_get_patch_panel_for_card cd sql c) (\<lambda>p.
        bindM (liftM (ensure_bucket_exists p to_bucket)) (\<lambda>_.
        bindM (pg_move_card_row sql c to_bucket actor reason True) (\<lambda>moved.
        bindM (pg_store_idempotency sql key ''card.move'' (''card:'' @ uuid_str (card_id c))) (\<lambda>_.
        returnM moved)))))))"

text \<open>The order of a history: by time, then by id.\<close>

definition event_order :: "card_event \<Rightarrow> datetime \<times> string" where
  "event_order e = (event_occurred_at e, uuid_str (event_id e))"

definition pg_card_history :: "'d sql \<Rightarrow> uuid \<Rightarrow> (('d, 'z) pg_state_scheme, card_event list) M" where
  "pg_card_history sql cid =
     bindM (pg_get_card sql cid) (\<lambda>_.
     bindM (select_where (t_card_events sql) (\<lambda>e. event_card_id e = cid)) (\<lambda>rows.
     returnM (sort_key event_order rows)))"

definition pg_record_event ::
  "pg_codecs \<Rightarrow> 'd sql \<Rightarrow> uuid \<Rightarrow> string \<Rightarrow> string option \<Rightarrow> jdict option \<Rightarrow> string option \<Rightarrow>
     (('d, 'z) pg_state_scheme, card_event) M" where
  "pg_record_event cd sql cid etype actor payload key =
     transaction sql (pg_idempotently sql key (pg_replay_event cd sql)
       (bindM (pg_get_card sql cid) (\<lambda>_.
        bindM (pg_log sql cid etype actor (case payload of None \<Rightarrow> [] | Some d \<Rightarrow> d)) (\<lambda>e.
        bindM (pg_store_idempotency sql key ''event.record'' (''event:'' @ uuid_str (event_id e))) (\<lambda>_.
        returnM e)))))"

definition postgres_runtime ::
  "'g networkx \<Rightarrow> pg_codecs \<Rightarrow> 'd sql \<Rightarrow> ('d, 'z) pg_state_scheme card_runtime" where
  "postgres_runtime nx cd sql =
     \<lparr>rt_register_patch_panel = pg_register_patch_panel nx cd sql,
      rt_list_patch_panels = pg_list_patch_panels cd sql,
      rt_create_card = pg_create_card cd sql,
      rt_list_cards = pg_list_cards sql,
      rt_get_card = pg_get_card sql,
      rt_get_lease = pg_get_lease sql,
      rt_list_leases = pg_list_leases sql,
      rt_claim_card = pg_claim_card cd sql,
      rt_submit_artifact = pg_submit_artifact cd sql,
      rt_renew_lease = pg_renew_lease cd sql,
      rt_release_lease = pg_release_lease cd sql,
      rt_expire_leases = pg_expire_leases sql,
      rt_validate_card = pg_validate_card cd sql,
      rt_move_card = pg_move_card cd sql,
      rt_card_history = pg_card_history sql,
      rt_record_event = pg_record_event cd sql\<rparr>"

end
