(* ===== verification/PostgresContract.thy ===== *)
theory PostgresContract
  imports Postgres Samples "HOL-Library.Multiset"
begin

text \<open>
  The durable runtime keeps the contract of the runtimes, over every database that keeps the laws of
  \<open>sql_database\<close>. The cards are the rows of their table, the history of a card its event rows in the order of
  the query. That new events come last needs a clock that moves between two readings, since the query orders
  by time first.
\<close>

section \<open>Cards, histories and the invariant\<close>

abbreviation tables_of :: "('d \<Rightarrow> tables) \<Rightarrow> ('d, 'z) pg_state_scheme \<Rightarrow> tables" where
  "tables_of view s \<equiv> view (pg_database s)"

definition pg_cards :: "'d sql \<Rightarrow> ('d, 'z) pg_state_scheme \<Rightarrow> uuid \<Rightarrow> card option" where
  "pg_cards sql s cid = (case sql_select (t_cards sql) (\<lambda>c. card_id c = cid) (pg_database s) of [] \<Rightarrow> None | c # _ \<Rightarrow> Some c)"

definition pg_events :: "'d sql \<Rightarrow> ('d, 'z) pg_state_scheme \<Rightarrow> uuid \<Rightarrow> card_event list" where
  "pg_events sql s cid = sort_key event_order (sql_select (t_card_events sql) (\<lambda>e. event_card_id e = cid) (pg_database s))"

text \<open>
  A settled state: the database is consistent, identifiers still to be drawn are new, and the stored events have been
  issued and lie in the past. Its clock moves between two readings in a state that is \<open>pg_ok\<close>.
\<close>

definition pg_settled :: "('d \<Rightarrow> bool) \<Rightarrow> ('d \<Rightarrow> tables) \<Rightarrow> ('d, 'z) pg_state_scheme \<Rightarrow> bool" where
  "pg_settled valid view s \<longleftrightarrow> valid (pg_database s) \<and> fresh_uuids s \<and>
     (\<forall>i e. tb_card_events (tables_of view s) i = Some e \<longrightarrow> i \<in> issued s \<and> event_occurred_at e < next_reading s)"

definition pg_ok :: "('d \<Rightarrow> bool) \<Rightarrow> ('d \<Rightarrow> tables) \<Rightarrow> ('d, 'z) pg_state_scheme \<Rightarrow> bool" where
  "pg_ok valid view s \<longleftrightarrow> pg_settled valid view s \<and> strict_mono (clock_src s)"

lemmas pg_ok_defs = pg_ok_def pg_settled_def

definition moved_on :: "'z world_scheme \<Rightarrow> 'z world_scheme \<Rightarrow> bool" where
  "moved_on s t \<longleftrightarrow> uuid_src t = uuid_src s \<and> clock_src t = clock_src s \<and> uuid_pos s \<le> uuid_pos t \<and> clock_pos s \<le> clock_pos t"

definition pg_grown ::
  "'d sql \<Rightarrow> ('d, 'z) pg_state_scheme \<Rightarrow> ('d, 'z) pg_state_scheme \<Rightarrow> bool" where
  "pg_grown sql s t \<longleftrightarrow> moved_on s t \<and> (\<forall>cid. prefix (pg_events sql s cid) (pg_events sql t cid)) \<and>
     (\<forall>cid c. pg_cards sql s cid = Some c \<longrightarrow> (\<exists>b. pg_cards sql t cid = Some (c\<lparr>card_current_bucket := b\<rparr>)))"

lemma same_bucket: "\<exists>b. c = c\<lparr>card_current_bucket := b\<rparr>"
  by (rule exI [of _ "card_current_bucket c"]) simp

interpretation pg: kept "pg_ok valid view" "pg_grown sql" for valid view sql
proof unfold_locales
  show "pg_grown sql s s" for s :: "('a, 'b) pg_state_scheme"
    by (auto simp: pg_grown_def moved_on_def intro: same_bucket)
  show "pg_grown sql s u" if "pg_grown sql s t" "pg_grown sql t u" for s t u :: "('a, 'b) pg_state_scheme"
    using that unfolding pg_grown_def moved_on_def
    by (fastforce intro: prefix_order.trans)
qed

text \<open>Neither the cards nor the histories have changed.\<close>

definition pg_still :: "'d sql \<Rightarrow> ('d, 'z) pg_state_scheme \<Rightarrow> ('d, 'z) pg_state_scheme \<Rightarrow> bool" where
  "pg_still sql s t \<longleftrightarrow> moved_on s t \<and> pg_cards sql t = pg_cards sql s \<and> pg_events sql t = pg_events sql s"

interpretation st: kept "pg_ok valid view" "pg_still sql" for valid view sql
  by unfold_locales (auto simp: pg_still_def moved_on_def)

lemma still_grown: "pg_still sql s t \<Longrightarrow> pg_grown sql s t"
  by (auto simp: pg_still_def pg_grown_def intro: same_bucket)

section \<open>Steps on the database\<close>

lemma wp_catch:
  "wp m Q (\<lambda>_. E) s \<Longrightarrow> wp (\<lambda>s. case m s of (Inl (IntegrityError x), u) \<Rightarrow> (Inl err, u) | r \<Rightarrow> r) Q (\<lambda>_. E) s"
  by (auto simp: wp_def split: prod.splits sum.splits error.splits)

lemma pg_get_card_run:
  "pg_get_card sql cid s = (case pg_cards sql s cid of
       None \<Rightarrow> (Inl (NotFoundError (''card '' @ quoted (uuid_str cid) @ '' does not exist'')), s)
     | Some c \<Rightarrow> (Inr c, s))"
  by (simp add: pg_get_card_def select_first_def select_where_def run_defs pg_cards_def split: list.split)

lemma wp_pg_get_card:
  "wp (pg_get_card sql cid) Q E s = (case pg_cards sql s cid of
       None \<Rightarrow> E (NotFoundError (''card '' @ quoted (uuid_str cid) @ '' does not exist'')) s | Some c \<Rightarrow> Q c s)"
  by (simp add: wp_def pg_get_card_run split: option.split)

lemma bind_returns: "bindM m returnM = m" "bindM (returnM x) f = f x"
  by (auto simp: fun_eq_iff run_defs split: prod.split sum.split)

text \<open>Without an idempotency key nothing is replayed and nothing remembered.\<close>

lemma keyless:
  assumes "\<not> truthy key"
  shows "pg_idempotently sql key replay body = body" and "pg_store_idempotency sql key op ref = returnM ()"
  using assms
  by (simp_all add: pg_idempotently_def pg_get_idempotency_def pg_store_idempotency_def fun_eq_iff run_defs)

context sql_database
begin

lemma card_rows: "valid (pg_database s) \<Longrightarrow> pg_cards sql s = tb_cards (tables_of view s)"
  by (auto simp: pg_cards_def cards.select_key fun_eq_iff split: option.split)

lemma event_order_inj:
  assumes "valid d"
  shows "inj_on event_order (ran (tb_card_events (view d)))"
proof (rule inj_onI)
  fix x y
  assume "x \<in> ran (tb_card_events (view d))" and "y \<in> ran (tb_card_events (view d))" and eq: "event_order x = event_order y"
  then obtain i j where rows: "tb_card_events (view d) i = Some x" "tb_card_events (view d) j = Some y"
    by (auto simp: ran_def)
  then have "i = event_id x" "j = event_id y" by (simp_all add: events.keyed_law [OF assms])
  moreover from eq have "event_id x = event_id y" by (simp add: event_order_def uuid.expand)
  ultimately show "x = y" using rows by simp
qed

text \<open>The history is determined by the rows: it is their one enumeration in ascending order.\<close>

lemma history_unique:
  assumes "valid (pg_database s)" and "distinct es" and "sorted (map event_order es)"
    and "set es = {e. e \<in> ran (tb_card_events (tables_of view s)) \<and> event_card_id e = cid}"
  shows "pg_events sql s cid = es"
proof -
  let ?sel = "sql_select (t_card_events sql) (\<lambda>e. event_card_id e = cid) (pg_database s)"
  have sel: "set ?sel = set es" "distinct ?sel" using events.select_law [OF assms(1)] assms(4) by auto
  then have "mset ?sel = mset es" using assms(2) by (simp add: set_eq_iff_mset_eq_distinct)
  moreover have "inj_on event_order (set ?sel)"
    using event_order_inj [OF assms(1)] by (rule inj_on_subset) (auto simp: sel(1) assms(4))
  ultimately show ?thesis unfolding pg_events_def by (intro sort_key_inj_key_eq assms(3))
qed

lemma history_rows:
  assumes "valid (pg_database s)"
  shows "set (pg_events sql s cid) = {e. e \<in> ran (tb_card_events (tables_of view s)) \<and> event_card_id e = cid}"
    and "distinct (pg_events sql s cid)" and "sorted (map event_order (pg_events sql s cid))"
  using events.select_law [OF assms] by (auto simp: pg_events_def)

lemma history_same:
  assumes "valid (pg_database s)" and "valid (pg_database t)"
    and "tb_card_events (tables_of view t) = tb_card_events (tables_of view s)"
  shows "pg_events sql t cid = pg_events sql s cid"
  by (rule history_unique) (use assms history_rows [OF assms(1)] in auto)

text \<open>A step that writes neither the cards' identities nor the events.\<close>

lemma quiet_step:
  assumes s: "pg_ok valid view s" and t: "valid (pg_database t)" "moved_on s t"
    and events: "tb_card_events (tables_of view t) = tb_card_events (tables_of view s)"
    and cards: "\<And>cid c. tb_cards (tables_of view s) cid = Some c \<Longrightarrow>
      \<exists>b. tb_cards (tables_of view t) cid = Some (c\<lparr>card_current_bucket := b\<rparr>)"
  shows "pg_ok valid view t \<and> pg_grown sql s t"
proof
  have "next_reading s \<le> next_reading t" "issued s \<subseteq> issued t"
    using s t(2) by (auto simp: pg_ok_defs moved_on_def next_reading_def issued_def strict_mono_less_eq)
  then show "pg_ok valid view t"
    using s t events by (fastforce simp: pg_ok_defs moved_on_def fresh_uuids_def)
  have "valid (pg_database s)" using s by (simp add: pg_ok_defs)
  from history_same [OF this t(1) events] show "pg_grown sql s t"
    using t(2) cards \<open>valid (pg_database s)\<close> t(1) by (simp add: pg_grown_def card_rows)
qed

lemma still_step:
  assumes s: "pg_ok valid view s" and t: "valid (pg_database t)" "moved_on s t"
    and events: "tb_card_events (tables_of view t) = tb_card_events (tables_of view s)"
    and cards: "tb_cards (tables_of view t) = tb_cards (tables_of view s)"
  shows "pg_ok valid view t \<and> pg_still sql s t"
proof
  have valid: "valid (pg_database s)" using s by (simp add: pg_ok_defs)
  show "pg_ok valid view t" using quiet_step [OF s t events] cards by (auto intro: same_bucket)
  show "pg_still sql s t"
    using t cards history_same [OF valid t(1) events] by (simp add: pg_still_def card_rows valid fun_eq_iff)
qed

abbreviation tame :: "(('d, 'z) pg_state_scheme, 'a) M \<Rightarrow> bool" where
  "tame \<equiv> kept.tame (pg_ok valid view) (pg_grown sql)"

abbreviation still :: "(('d, 'z) pg_state_scheme, 'a) M \<Rightarrow> bool" where
  "still \<equiv> kept.tame (pg_ok valid view) (pg_still sql)"

lemma still_tame: "still m \<Longrightarrow> tame m"
  by (rule pg.tameI, rule wp_mono, erule (1) st.tame_wp) (auto intro: still_grown)

lemma ok_valid: "pg_ok valid view s \<Longrightarrow> valid (pg_database s)"
  by (simp add: pg_ok_defs)

lemma still_draw: "still uuid4" "still now_utc"
  by (rule st.tameI, unfold wp_rules, rule still_step, auto simp: moved_on_def ok_valid)+

lemma still_select: "still (select_where tab P)" "still (select_first tab P)"
  unfolding select_first_def select_where_def by (intro st.tame_gets st.tame_bind st.tame_return)+

text \<open>Statements on the tables that hold neither cards nor events.\<close>

lemma still_insert:
  assumes "sql_table_laws tab valid view get put key refers"
    and "\<And>m v. tb_cards (put m v) = tb_cards v" and "\<And>m v. tb_card_events (put m v) = tb_card_events v"
  shows "still (insert_into tab r)"
proof (rule st.tameI, rule sql_table_laws.wp_insert_into [OF assms(1)], goal_cases)
  case (1 s)
  then show ?case by (rule ok_valid)
next
  case (2 s d)
  then show ?case by (intro still_step) (auto simp: moved_on_def assms(2,3))
next
  case (3 s e)
  then show ?case by (simp add: st.kept_refl)
qed

lemma still_update:
  assumes "sql_table_laws tab valid view get put key refers"
    and "\<And>m v. tb_cards (put m v) = tb_cards v" and "\<And>m v. tb_card_events (put m v) = tb_card_events v"
    and "\<And>r. key (f r) = key r"
  shows "still (update_where tab P f)"
proof (rule st.tameI, rule sql_table_laws.wp_update [OF assms(1) _ assms(4)], goal_cases)
  case (1 s)
  then show ?case by (rule ok_valid)
next
  case (2 s d)
  then show ?case by (intro still_step) (auto simp: moved_on_def assms(2,3))
next
  case (3 s x r)
  then show ?case by (simp add: st.kept_refl)
qed

lemmas still_inserts =
  still_insert [OF panels.sql_table_laws_axioms, simplified] still_insert [OF versions.sql_table_laws_axioms, simplified]
  still_insert [OF buckets.sql_table_laws_axioms, simplified] still_insert [OF locations.sql_table_laws_axioms, simplified]
  still_insert [OF leases.sql_table_laws_axioms, simplified] still_insert [OF results.sql_table_laws_axioms, simplified]
  still_insert [OF artifacts.sql_table_laws_axioms, simplified] still_insert [OF keys.sql_table_laws_axioms, simplified]

lemmas still_updates = still_update [OF locations.sql_table_laws_axioms, simplified]
  still_update [OF leases.sql_table_laws_axioms, simplified]

lemma still_store: "still (pg_store_idempotency sql key operation ref)"
proof -
  have "still (\<lambda>s. case insert_into (t_idempotency_records sql) r s of (Inl (IntegrityError x), u) \<Rightarrow> (Inl err, u) | r \<Rightarrow> r)" for r err
    by (rule st.tameI, rule wp_catch, rule st.tame_wp [OF still_inserts(8)])
  then show ?thesis
    unfolding pg_store_idempotency_def by (auto intro!: st.tame_basic still_draw)
qed

lemmas still_rules = st.tame_return st.tame_raise st.tame_lift st.tame_bind st.tame_forM still_draw still_select
  still_inserts still_store

lemma still_lookups:
  "still (pg_get_card sql cid)" "still (pg_get_event sql eid)" "still (pg_get_lease sql lid)"
  "still (pg_get_artifacts sql ids)" "still (pg_get_active_patch_panel cd sql pid)" "still (pg_single_patch_panel cd sql)"
  "still (pg_get_patch_panel_for_card cd sql c)" "still (pg_get_idempotency sql key)"
  by (auto simp: pg_get_card_def pg_get_event_def pg_get_lease_def pg_get_artifacts_def pg_get_active_patch_panel_def
      pg_single_patch_panel_def pg_get_patch_panel_for_card_def pg_get_idempotency_def Let_def
      split: option.split list.split intro!: still_rules)

lemma still_helpers:
  "still (new_card wv b payload md)" "still (new_card_event cid ty actor payload)" "still (new_lease c node worker pipe n)"
  "still (new_validation_result cid v a reason opipe payload)" "still (ensure_active_lease l)"
  "still (pg_insert_location sql cid b t)" "still (pg_replay_lease cd sql ref)" "still (pg_replay_event cd sql ref)"
  "still (pg_replay_artifacts cd sql ref)"
  by (auto simp: new_card_def new_card_event_def new_lease_def new_validation_result_def ensure_active_lease_def
      pg_insert_location_def pg_replay_lease_def pg_replay_event_def pg_replay_artifacts_def
      intro!: still_rules still_lookups)

text \<open>Statements on the cards.\<close>

lemma tame_insert_card: "tame (insert_into (t_cards sql) c)"
proof (rule pg.tameI, rule cards.wp_insert_into, goal_cases)
  case (1 s)
  then show ?case by (rule ok_valid)
next
  case (2 s d)
  then show ?case by (intro quiet_step) (auto simp: moved_on_def intro: same_bucket)
next
  case (3 s e)
  then show ?case by (simp add: pg.kept_refl)
qed

lemma tame_place_card: "tame (update_where (t_cards sql) P (\<lambda>r. r\<lparr>card_current_bucket := b\<rparr>))"
proof (rule pg.tameI, rule cards.wp_update, goal_cases)
  case (1 s)
  then show ?case by (rule ok_valid)
next
  case (3 s d)
  then show ?case by (intro quiet_step) (auto simp: moved_on_def same_bucket)
qed (auto simp: pg.kept_refl)

text \<open>An event is logged at the end of its history.\<close>

lemma log_step:
  assumes s: "pg_ok valid view s" and t: "valid (pg_database t)"
    and src: "uuid_src t = uuid_src s" "clock_src t = clock_src s" "uuid_pos t = Suc (uuid_pos s)" "clock_pos t = Suc (clock_pos s)"
    and e: "event_id e = uuid_src s (uuid_pos s)" "event_occurred_at e = clock_src s (clock_pos s)"
    and rows: "tables_of view t = tb_card_events_update (\<lambda>_. (tb_card_events (tables_of view s))(event_id e \<mapsto> e)) (tables_of view s)"
    and new: "tb_card_events (tables_of view s) (event_id e) = None"
  shows "pg_ok valid view t \<and> pg_grown sql s t \<and>
    pg_events sql t = (pg_events sql s)(event_card_id e := pg_events sql s (event_card_id e) @ [e])"
proof (intro conjI)
  have before: "event_occurred_at x < clock_src s (clock_pos s)" if "x \<in> ran (tb_card_events (tables_of view s))" for x
    using s that by (auto simp: pg_ok_defs ran_def next_reading_def)
  have step: "clock_src s (clock_pos s) < clock_src s (Suc (clock_pos s))"
    using s by (simp add: pg_ok_defs strict_mono_Suc_iff)
  then show "pg_ok valid view t"
    using s t rows src e before
    by (auto simp: pg_ok_defs next_reading_def issued_def fresh_uuids_def lessThan_Suc intro: less_trans)
  have valid: "valid (pg_database s)" by (rule ok_valid [OF s])
  have ran: "ran (tb_card_events (tables_of view t)) = insert e (ran (tb_card_events (tables_of view s)))"
    using new rows by simp
  have hist: "pg_events sql t cid = ((pg_events sql s)(event_card_id e := pg_events sql s (event_card_id e) @ [e])) cid" for cid
  proof (rule history_unique [OF t])
    have fresh: "e \<notin> ran (tb_card_events (tables_of view s))"
      using new events.keyed_law [OF valid] by (auto simp: ran_def)
    show "distinct (((pg_events sql s)(event_card_id e := pg_events sql s (event_card_id e) @ [e])) cid)"
      using history_rows [OF valid] fresh by auto
    show "set (((pg_events sql s)(event_card_id e := pg_events sql s (event_card_id e) @ [e])) cid) =
        {x. x \<in> ran (tb_card_events (tables_of view t)) \<and> event_card_id x = cid}"
      unfolding ran using history_rows(1) [OF valid] by auto
    show "sorted (map event_order (((pg_events sql s)(event_card_id e := pg_events sql s (event_card_id e) @ [e])) cid))"
      using history_rows [OF valid] before e(2)
      by (auto simp: sorted_append event_order_def less_eq_prod_def)
  qed
  then show "pg_events sql t = (pg_events sql s)(event_card_id e := pg_events sql s (event_card_id e) @ [e])" by blast
  show "pg_grown sql s t"
    using src rows by (auto simp: pg_grown_def moved_on_def hist same_bucket card_rows [OF t] card_rows [OF valid])
qed

lemma wp_pg_log:
  assumes s: "pg_ok valid view s"
    and ok: "\<And>e t. pg_ok valid view t \<Longrightarrow> pg_grown sql s t \<Longrightarrow> tb_cards (tables_of view t) = tb_cards (tables_of view s) \<Longrightarrow>
      pg_events sql t = (pg_events sql s)(cid := pg_events sql s cid @ [e]) \<Longrightarrow>
      e = event_at s (uuid_pos s) (clock_pos s) cid ty actor payload \<Longrightarrow> Q e t"
    and err: "\<And>x t. tb_cards (tables_of view s) cid = None \<Longrightarrow> pg_ok valid view t \<Longrightarrow> pg_grown sql s t \<Longrightarrow> E x t"
  shows "wp (pg_log sql cid ty actor payload) Q E s"
proof -
  let ?e = "event_at s (uuid_pos s) (clock_pos s) cid ty actor payload"
  let ?s = "s\<lparr>uuid_pos := Suc (uuid_pos s), clock_pos := Suc (clock_pos s)\<rparr>"
  have new: "tb_card_events (tables_of view s) (event_id ?e) = None"
  proof (rule ccontr)
    assume "tb_card_events (tables_of view s) (event_id ?e) \<noteq> None"
    then have "uuid_src s (uuid_pos s) \<in> issued s" using s by (auto simp: pg_ok_defs event_at_def)
    then show False using s fresh_not_issued [of s] by (simp add: pg_ok_defs)
  qed
  have moved: "pg_ok valid view ?s \<and> pg_grown sql s ?s"
    by (rule quiet_step [OF s]) (auto simp: moved_on_def ok_valid [OF s] same_bucket)
  show ?thesis
    unfolding pg_log_def pg_insert_event_def wp_rules
  proof (cases "sql_insert (t_card_events sql) ?e (pg_database s)")
    case (Inl x)
    have "tb_cards (tables_of view s) cid = None"
      using events.insert_new_law [OF ok_valid [OF s] new] Inl
      by (cases "tb_cards (tables_of view s) cid") (auto simp: event_at_def)
    with Inl moved show "wp (insert_into (t_card_events sql) ?e) (\<lambda>_. Q ?e) E ?s"
      by (simp add: wp_def insert_into_def err)
  next
    case (Inr d)
    from events.insert_law [OF ok_valid [OF s] Inr]
    have d: "valid d" "view d = tb_card_events_update (\<lambda>_. (tb_card_events (tables_of view s))(event_id ?e \<mapsto> ?e)) (tables_of view s)"
      by auto
    have "pg_ok valid view (?s\<lparr>pg_database := d\<rparr>) \<and> pg_grown sql s (?s\<lparr>pg_database := d\<rparr>) \<and>
        pg_events sql (?s\<lparr>pg_database := d\<rparr>) = (pg_events sql s)(event_card_id ?e := pg_events sql s (event_card_id ?e) @ [?e])"
      by (rule log_step [OF s _ _ _ _ _ _ _ _ new]) (simp_all add: d event_at_def)
    then have "Q ?e (?s\<lparr>pg_database := d\<rparr>)"
      by (intro ok) (auto simp: d event_at_def)
    with Inr show "wp (insert_into (t_card_events sql) ?e) (\<lambda>_. Q ?e) E ?s"
      by (simp add: wp_def insert_into_def)
  qed
qed

lemma tame_log: "tame (pg_log sql cid ty actor payload)"
  by (intro pg.tameI wp_pg_log) auto

lemma tame_transaction:
  fixes m :: "(('d, 'z) pg_state_scheme, 'a) M"
  assumes "tame m"
  shows "tame (transaction sql m)"
proof (rule pg.tameI)
  fix s :: "('d, 'z) pg_state_scheme"
  assume s: "pg_ok valid view s"
  obtain r t where m: "m s = (r, t)" by (cases "m s")
  with pg.tame_wp [OF assms s] have t: "pg_ok valid view t" "pg_grown sql s t"
    by (auto simp: wp_def split: sum.splits)
  have undone: "pg_ok valid view u \<and> pg_grown sql s u"
    if "u = t\<lparr>pg_database := sql_rollback sql (pg_database s) (pg_database t)\<rparr>" for u
    using rollback_law [OF ok_valid [OF s] ok_valid [OF t(1)]] t(2) that
    by (intro quiet_step [OF s]) (auto simp: pg_grown_def moved_on_def same_bucket)
  have "pg_ok valid view u \<and> pg_grown sql t u" if "u = t\<lparr>pg_database := sql_commit sql (pg_database t)\<rparr>" for u
    using commit_law [OF ok_valid [OF t(1)]] that
    by (intro quiet_step [OF t(1)]) (auto simp: moved_on_def same_bucket)
  with undone t(2) show "wp (transaction sql m) (\<lambda>_ u. pg_ok valid view u \<and> pg_grown sql s u)
      (\<lambda>_ u. pg_ok valid view u \<and> pg_grown sql s u) s"
    by (auto simp: wp_def transaction_def m split: sum.splits intro: pg.kept_trans)
qed

section \<open>Operations\<close>

lemmas tame_still = still_draw [THEN still_tame] still_select [THEN still_tame] still_inserts [THEN still_tame]
  still_updates [THEN still_tame] still_store [THEN still_tame] still_lookups [THEN still_tame] still_helpers [THEN still_tame]

lemmas tame_rules = pg.tame_return pg.tame_raise pg.tame_lift pg.tame_bind pg.tame_forM tame_still
  tame_insert_card tame_place_card tame_log tame_transaction

lemma tame_idempotently:
  "(\<And>ref. tame (replay ref)) \<Longrightarrow> tame body \<Longrightarrow> tame (pg_idempotently sql key replay body)"
  unfolding pg_idempotently_def by (auto intro!: tame_rules)

lemma tame_move_row: "tame (pg_move_card_row sql c b actor reason emit)"
  unfolding pg_move_card_row_def by (auto intro!: tame_rules)

lemmas tame_steps = tame_rules tame_idempotently tame_move_row

lemma tame_register: "tame (pg_register_patch_panel nx cd sql p)"
  unfolding pg_register_patch_panel_def by (auto intro!: tame_steps)

lemma tame_create: "tame (pg_create_card cd sql pid payload md key)"
  unfolding pg_create_card_def pg_create_body_def by (auto intro!: tame_steps)

lemma tame_claim: "tame (pg_claim_card cd sql pipe worker n key)"
  unfolding pg_claim_card_def by (auto intro!: tame_steps split: option.split)

lemma tame_submit: "tame (pg_submit_artifact cd sql lid pipe refs key)"
  unfolding pg_submit_artifact_def Let_def by (auto intro!: tame_steps)

lemma tame_validate: "tame (pg_validate_card cd sql cid v a r opipe payload key)"
  unfolding pg_validate_card_def Let_def by (auto intro!: tame_steps)

lemma tame_move: "tame (pg_move_card cd sql cid b actor reason key)"
  unfolding pg_move_card_def by (auto intro!: tame_steps)

lemma tame_record: "tame (pg_record_event cd sql cid ty actor payload key)"
  unfolding pg_record_event_def by (auto intro!: tame_steps)

lemma tame_lease_ops:
  "tame (pg_renew_lease cd sql lid n key)" "tame (pg_release_lease cd sql lid actor key)" "tame (pg_expire_leases sql)"
  unfolding pg_renew_lease_def pg_release_lease_def pg_expire_leases_def by (auto intro!: tame_steps)

lemma tame_reads:
  "tame (pg_get_lease sql lid)" "tame (pg_list_cards sql)" "tame (pg_list_leases sql)" "tame (pg_list_patch_panels cd sql)"
  unfolding pg_list_cards_def pg_list_leases_def pg_list_patch_panels_def by (auto intro!: tame_steps)

section \<open>The laws of the contract\<close>

lemma commit_step:
  assumes "pg_ok valid view s"
  shows "pg_ok valid view (s\<lparr>pg_database := sql_commit sql (pg_database s)\<rparr>) \<and>
    pg_still sql s (s\<lparr>pg_database := sql_commit sql (pg_database s)\<rparr>)"
  using commit_law [OF ok_valid [OF assms]] by (intro still_step [OF assms]) (auto simp: moved_on_def)

lemma wp_committed:
  assumes "wp m (\<lambda>x t. pg_ok valid view t \<and> (\<forall>u. pg_ok valid view u \<longrightarrow> pg_still sql t u \<longrightarrow> Q x u)) (\<lambda>_ _. b) s"
  shows "wp (transaction sql m) Q (\<lambda>_ _. b) s"
  unfolding wp_transaction using assms by (rule wp_mono) (use commit_step in blast)+

text \<open>A command that leaves cards and histories alone, before the rest.\<close>

lemma still_first:
  assumes "still m" and "pg_ok valid view s"
    and "\<And>x t. pg_ok valid view t \<Longrightarrow> pg_still sql s t \<Longrightarrow> wp (f x) Q (\<lambda>_ _. True) t"
  shows "wp (bindM m f) Q (\<lambda>_ _. True) s"
  unfolding wp_bind using st.tame_wp [OF assms(1,2)] by (rule wp_mono) (use assms(3) in auto)

lemma record_appends:
  fixes s :: "('d, 'z) pg_state_scheme"
  assumes s: "pg_ok valid view s" and card: "pg_cards sql s cid \<noteq> None"
  shows "wp (pg_record_event cd sql cid ty actor payload None)
    (\<lambda>e t. pg_ok valid view t \<and> pg_grown sql s t \<and> pg_cards sql t = pg_cards sql s \<and>
       pg_events sql t = (pg_events sql s)(cid := pg_events sql s cid @ [e]) \<and> event_type e = ty \<and>
       event_actor_id e = actor \<and> event_payload e = (case payload of None \<Rightarrow> [] | Some d \<Rightarrow> d)) (\<lambda>_ _. False) s"
    (is "wp _ ?Q _ _")
proof -
  let ?data = "case payload of None \<Rightarrow> [] | Some d \<Rightarrow> d"
  obtain c where c: "pg_cards sql s cid = Some c" using card by auto
  have "wp (pg_log sql cid ty actor ?data)
      (\<lambda>e t. pg_ok valid view t \<and> (\<forall>u. pg_ok valid view u \<longrightarrow> pg_still sql t u \<longrightarrow> ?Q e u)) (\<lambda>_ _. False) s"
    using card
    by (intro wp_pg_log [OF s])
       (auto simp: card_rows ok_valid s pg_still_def event_at_def
         intro: pg.kept_trans [OF _ still_grown, unfolded pg_still_def])
  then have "wp (transaction sql (bindM (pg_get_card sql cid) (\<lambda>_. pg_log sql cid ty actor ?data))) ?Q (\<lambda>_ _. False) s"
    by (intro wp_committed) (simp only: wp_bind wp_pg_get_card c option.case)
  then show ?thesis by (simp add: pg_record_event_def keyless bind_returns)
qed

text \<open>The parts of \<^verbatim>\<open>create_card\<close>: a card is made, its row inserted, and its creation logged and remembered.\<close>

lemma made_card:
  fixes s :: "('d, 'z) pg_state_scheme"
  assumes "pg_ok valid view s" and "\<And>c t. pg_ok valid view t \<Longrightarrow> pg_still sql s t \<Longrightarrow> card_payload c = payload \<Longrightarrow>
      card_metadata c = m \<Longrightarrow> wp (f c) Q (\<lambda>_ _. True) t"
  shows "wp (bindM (new_card wv b payload m) f) Q (\<lambda>_ _. True) s"
proof -
  have "wp (new_card wv b payload m) (\<lambda>c _. card_payload c = payload \<and> card_metadata c = m) (\<lambda>_ _. True) s"
    by (simp add: new_card_def wp_rules)
  from wp_conj_ok [OF st.tame_wp [OF still_helpers(1) assms(1)] this] show ?thesis
    unfolding wp_bind by (rule wp_mono) (use assms(2) in auto)
qed

lemma inserted_card:
  fixes s :: "('d, 'z) pg_state_scheme"
  assumes s: "pg_ok valid view s"
    and f: "\<And>t. pg_ok valid view t \<Longrightarrow> pg_cards sql s (card_id c) = None \<Longrightarrow>
      pg_cards sql t = (pg_cards sql s)(card_id c \<mapsto> c) \<Longrightarrow> pg_events sql t = pg_events sql s \<Longrightarrow> wp f Q (\<lambda>_ _. True) t"
  shows "wp (bindM (insert_into (t_cards sql) c) (\<lambda>_. f)) Q (\<lambda>_ _. True) s"
  unfolding wp_bind
proof (rule cards.wp_insert_into [OF ok_valid [OF s]], rule f)
  fix d
  let ?t = "s\<lparr>pg_database := d\<rparr>"
  assume d: "valid d" "tb_cards (tables_of view s) (card_id c) = None"
    "view d = tb_cards_update (\<lambda>_. (tb_cards (tables_of view s))(card_id c \<mapsto> c)) (tables_of view s)"
  have "pg_ok valid view ?t \<and> pg_grown sql s ?t"
    using d by (intro quiet_step [OF s]) (auto simp: moved_on_def intro: same_bucket)
  then show "pg_ok valid view ?t" ..
  show "pg_cards sql ?t = (pg_cards sql s)(card_id c \<mapsto> c)" "pg_cards sql s (card_id c) = None"
    using d s by (simp_all add: card_rows ok_valid)
  show "pg_events sql ?t = pg_events sql s"
    using d s by (intro ext history_same) (simp_all add: ok_valid)
qed simp

lemma logged_card:
  fixes s :: "('d, 'z) pg_state_scheme"
  assumes "pg_ok valid view s"
  shows "wp (bindM (pg_insert_location sql (card_id c) b time) (\<lambda>_.
          bindM (pg_log sql (card_id c) ty actor data) (\<lambda>_. bindM (pg_store_idempotency sql key op ref) (\<lambda>_. returnM c))))
      (\<lambda>c' t. c' = c \<and> pg_ok valid view t \<and> pg_cards sql t = pg_cards sql s \<and>
         (\<forall>cid. cid \<noteq> card_id c \<longrightarrow> pg_events sql t cid = pg_events sql s cid)) (\<lambda>_ _. True) s"
proof (rule still_first [OF still_helpers(6) assms], unfold wp_bind [of "pg_log sql a b d e" for a b d e],
    rule wp_pg_log, assumption, rule still_first [OF still_store], assumption)
qed (auto simp: wp_return pg_still_def card_rows ok_valid)

lemma create_body:
  fixes s :: "('d, 'z) pg_state_scheme"
  assumes s: "pg_ok valid view s"
  shows "wp (pg_create_body cd sql pid payload md key)
    (\<lambda>c t. pg_ok valid view t \<and> pg_cards sql s (card_id c) = None \<and>
       pg_cards sql t = (pg_cards sql s)(card_id c \<mapsto> c) \<and> card_payload c = payload \<and>
       card_metadata c = (case md of None \<Rightarrow> [] | Some m \<Rightarrow> m) \<and>
       (\<forall>cid. cid \<noteq> card_id c \<longrightarrow> pg_events sql t cid = pg_events sql s cid)) (\<lambda>_ _. True) s"
  unfolding pg_create_body_def
proof (rule still_first [OF still_lookups(5) s], rule still_first [OF st.tame_lift], assumption,
    rule made_card, assumption, rule inserted_card, assumption, goal_cases)
  case 1
  show ?case by (rule wp_mono [OF logged_card [OF 1(9)]]) (use 1 in \<open>auto simp: pg_still_def\<close>)
qed

lemma card_keyed:
  fixes s :: "('d, 'z) pg_state_scheme"
  assumes "pg_ok valid view s" and "pg_cards sql s cid = Some c"
  shows "card_id c = cid"
  using assms(2) cards.keyed_law [OF ok_valid [OF assms(1)]] by (simp add: card_rows [OF ok_valid [OF assms(1)]])

lemma create_stored:
  fixes s :: "('d, 'z) pg_state_scheme"
  assumes s: "pg_ok valid view s"
  shows "wp (pg_create_card cd sql pid payload md key) (\<lambda>c t. pg_cards sql t (card_id c) \<noteq> None) (\<lambda>_ _. True) s"
proof -
  let ?Q = "\<lambda>c t. pg_ok valid view t \<and> pg_cards sql t (card_id c) \<noteq> None"
  have body: "wp (pg_create_body cd sql pid payload md key) ?Q (\<lambda>_ _. True) t" if "pg_ok valid view t" for t :: "('d, 'z) pg_state_scheme"
    by (rule wp_mono [OF create_body [OF that]]) auto
  have replay: "wp (bindM (liftM (pg_parse_uuid cd ref)) (pg_get_card sql)) ?Q (\<lambda>_ _. True) t"
    if "pg_ok valid view t" for t :: "('d, 'z) pg_state_scheme" and ref
    using that by (auto simp: wp_rules wp_pg_get_card dest: card_keyed split: sum.split option.split)
  have "wp (pg_idempotently sql key (\<lambda>ref. bindM (liftM (pg_parse_uuid cd (removeprefix ''card:'' ref))) (pg_get_card sql))
      (pg_create_body cd sql pid payload md key)) ?Q (\<lambda>_ _. True) s"
    unfolding pg_idempotently_def by (rule still_first [OF still_lookups(8) s]) (simp add: body replay del: not_None_eq)
  then show ?thesis
    unfolding pg_create_card_def by (intro wp_committed, elim wp_mono) (auto simp: pg_still_def)
qed

lemma create_new:
  fixes s :: "('d, 'z) pg_state_scheme"
  assumes s: "pg_ok valid view s" and key: "\<not> truthy key"
  shows "wp (pg_create_card cd sql pid payload md key)
    (\<lambda>c t. pg_cards sql s (card_id c) = None \<and> pg_cards sql t (card_id c) = Some c \<and> card_payload c = payload \<and>
       card_metadata c = (case md of None \<Rightarrow> [] | Some m \<Rightarrow> m) \<and>
       (\<forall>cid. cid \<noteq> card_id c \<longrightarrow> pg_cards sql t cid = pg_cards sql s cid \<and> pg_events sql t cid = pg_events sql s cid))
    (\<lambda>_ _. True) s"
  unfolding pg_create_card_def keyless(1) [OF key]
  by (rule wp_committed, rule wp_mono [OF create_body [OF s]]) (auto simp: pg_still_def)

text \<open>The clock and the identifiers may move on.\<close>

lemma advance_still:
  fixes s t :: "('d, 'z) pg_state_scheme"
  assumes "pg_ok valid view s" and "advance s t"
  shows "pg_ok valid view t \<and> pg_still sql s t"
  using assms by (intro still_step) (auto simp: advance_def moved_on_def ok_valid)

end

section \<open>The contract\<close>

lemma pg_history_run:
  "pg_card_history sql cid s = (case pg_cards sql s cid of
       None \<Rightarrow> (Inl (NotFoundError (''card '' @ quoted (uuid_str cid) @ '' does not exist'')), s)
     | Some c \<Rightarrow> (Inr (pg_events sql s cid), s))"
  by (simp add: pg_card_history_def bindM_def [of "pg_get_card sql cid"] pg_get_card_run split: option.split)
     (simp add: select_where_def run_defs pg_events_def)

lemma postgres_contract:
  fixes sql :: "'d sql"
  assumes "sql_database sql valid view"
  shows "sink_runtime (postgres_runtime nx cd sql :: ('d, 'z) pg_state_scheme card_runtime) (pg_ok valid view)
    (pg_cards sql) (pg_events sql) (pg_grown sql)"
proof -
  note db = sql_database.record_appends [OF assms] sql_database.create_stored [OF assms]
    sql_database.create_new [OF assms] pg.tame_wp [OF sql_database.tame_create [OF assms]]
  note tame = sql_database.tame_claim [OF assms] sql_database.tame_submit [OF assms] sql_database.tame_validate [OF assms]
    sql_database.tame_record [OF assms] sql_database.tame_move [OF assms] sql_database.tame_register [OF assms]
    sql_database.tame_lease_ops [OF assms] sql_database.tame_reads [OF assms]
  show ?thesis
  proof (unfold_locales, goal_cases)
    case (2 s cid c)
    then show ?case by (rule sql_database.card_keyed [OF assms])
  next
    case (4 s cid ty actor payload)
    then show ?case by (simp add: postgres_runtime_def db)
  next
    case (5 s pid payload md key)
    from wp_conj_ok [OF db(4) [OF 5] db(2) [OF 5]] show ?case by (simp add: postgres_runtime_def)
  next
    case (6 s key pid payload md)
    then show ?case by (simp add: postgres_runtime_def db)
  next
    case (22 s t cid c)
    then show ?case by (simp add: pg_grown_def)
  next
    case (23 s t cid)
    then show ?case by (simp add: pg_grown_def)
  next
    case (24 s t)
    from sql_database.advance_still [OF assms this] show ?case by (auto simp: pg_still_def intro: still_grown)
  qed (simp_all add: postgres_runtime_def pg_get_card_run pg_history_run tame [THEN pg.tame_wp] pg.kept_refl,
      erule (1) pg.kept_trans)
qed

interpretation pg_rt: sink_runtime "postgres_runtime nx cd list_sql" "pg_ok list_valid list_view" "pg_cards list_sql"
    "pg_events list_sql" "pg_grown list_sql" for nx cd
  using list_db.sql_database_axioms by (rule postgres_contract)

section \<open>Sample data\<close>

text \<open>A database with one card and no event yet, under a clock that moves.\<close>

definition sample_codecs :: pg_codecs where
  "sample_codecs = \<lparr>pg_encode_panel = (\<lambda>_. JNull), pg_decode_panel = (\<lambda>_. Inr sample_panel),
     pg_encode_bucket = (\<lambda>_. JNull), pg_parse_uuid = (\<lambda>t. Inr (UUID t))\<rparr>"

definition sample_rows :: "list_db pg_state" where
  "sample_rows = \<lparr>uuid_src = sample_ids, uuid_pos = 1, clock_src = int, clock_pos = 1,
     pg_database = empty_list_db\<lparr>ld_cards := [(card_id sample_card, sample_card)]\<rparr>\<rparr>"

lemma sample_rows_ok: "pg_ok list_valid list_view sample_rows"
  using sample_ids_inj
  by (simp add: pg_ok_defs sample_rows_def empty_list_db_def list_valid_def list_view_def fresh_uuids_def py.keyed_def
      strict_mono_def)

text \<open>
  Property C25. The durable runtime implements the contract of the runtimes over every database whose statements keep the
  laws of \<open>sql_database\<close>, whatever the codecs and the graph library are, on a clock that moves forward between two
  readings (the history is read in the order of time, so events of the same time may come back in either order). From a
  state in which identifiers still to be drawn are new and the stored events lie in the past, and into such a state
  again: reading a card or a history is a pure lookup in the rows, recording an event without an idempotency key appends it
  to the history of its card and to no other, creating a card without a key adds one row and leaves the other cards and
  histories alone, and none of the sixteen operations, with a key or without, returning or raising and then rolled
  back, loses a card, changes more of it than its bucket, or removes or reorders an event. What is proved of the clients
  of the contract holds over it.
\<close>

theorem postgres_keeps_contract:
  fixes sql :: "'d sql"
  assumes "sql_database sql valid view"
  shows "sink_runtime (postgres_runtime nx cd sql :: ('d, 'z) pg_state_scheme card_runtime)
    (\<lambda>s. pg_settled valid view s \<and> strict_mono (clock_src s)) (pg_cards sql) (pg_events sql) (pg_grown sql)"
  using postgres_contract [OF assms] unfolding pg_ok_def .

theorem postgres_keeps_contract_witness:
  "pg_cards list_sql sample_rows (card_id sample_card) = Some sample_card \<and>
   wp (pg_record_event sample_codecs list_sql (card_id sample_card) ''note'' (Some ''ann'') None None)
     (\<lambda>e t. pg_cards list_sql t = pg_cards list_sql sample_rows \<and>
        pg_events list_sql t (card_id sample_card) = [e] \<and> event_type e = ''note'') (\<lambda>_ _. False) sample_rows"
proof
  show card: "pg_cards list_sql sample_rows (card_id sample_card) = Some sample_card" by code_simp
  have none: "pg_events list_sql sample_rows (card_id sample_card) = []" by code_simp
  have "sink_runtime (postgres_runtime list_networkx sample_codecs list_sql :: list_db pg_state card_runtime)
      (\<lambda>s. pg_settled list_valid list_view s \<and> strict_mono (clock_src s)) (pg_cards list_sql) (pg_events list_sql) (pg_grown list_sql)"
    using list_db.sql_database_axioms by (rule postgres_keeps_contract)
  then have "card_runtime_contract (postgres_runtime list_networkx sample_codecs list_sql :: list_db pg_state card_runtime)
      (\<lambda>s. pg_settled list_valid list_view s \<and> strict_mono (clock_src s)) (pg_cards list_sql) (pg_events list_sql) (pg_grown list_sql)"
    by (rule sink_runtime.axioms(1))
  note recorded = card_runtime_contract.record_law [OF this sample_rows_ok [unfolded pg_ok_def], of "card_id sample_card" "''note''" "Some ''ann''" None]
  show "wp (pg_record_event sample_codecs list_sql (card_id sample_card) ''note'' (Some ''ann'') None None)
     (\<lambda>e t. pg_cards list_sql t = pg_cards list_sql sample_rows \<and>
        pg_events list_sql t (card_id sample_card) = [e] \<and> event_type e = ''note'') (\<lambda>_ _. False) sample_rows"
    using recorded card none by (simp add: postgres_runtime_def wp_def split: prod.splits sum.splits)
qed

end
