(* ===== verification/PostgresRegistry.thy ===== *)
theory PostgresRegistry
  imports Database Registry
begin

text \<open>
  The durable registry: class \<^verbatim>\<open>PostgresPatchPanelRegistry\<close> of \<^verbatim>\<open>src/src/ghostmesh/registry/service.py\<close>. It keeps
  the contract of the registries. Unlike the in-memory registry it refuses an entry whose id is
  taken, and one whose owner or superseded entry is unknown.
\<close>

section \<open>Operations\<close>

definition pg_registry_register :: "'d sql \<Rightarrow> registry_entry \<Rightarrow> (('d, 'z) pg_state_scheme, registry_entry) M" where
  "pg_registry_register sql e =
     bindM (transaction sql (insert_into (t_registry_entries sql) (entry_values e))) (\<lambda>_. returnM e)"

definition pg_registry_get :: "'d sql \<Rightarrow> uuid \<Rightarrow> (('d, 'z) pg_state_scheme, registry_entry) M" where
  "pg_registry_get sql i =
     bindM (select_first (t_registry_entries sql) (\<lambda>r. erow_id r = i)) (\<lambda>row. case row of
       None \<Rightarrow> raiseM (entry_missing i)
     | Some r \<Rightarrow> liftM (entry_from_row r))"

definition pg_registry_search ::
  "'d sql \<Rightarrow> patch_panel_registry_search \<Rightarrow> (('d, 'z) pg_state_scheme, registry_entry list) M" where
  "pg_registry_search sql f =
     bindM (select_where (t_registry_entries sql) (\<lambda>_. True)) (\<lambda>rows.
     bindM (liftM (map_res entry_from_row rows)) (\<lambda>entries.
     returnM (filter (\<lambda>e. entry_matches e f) entries)))"

definition pg_registry_update_metadata ::
  "'d sql \<Rightarrow> uuid \<Rightarrow> registry_metadata \<Rightarrow> (('d, 'z) pg_state_scheme, registry_entry) M" where
  "pg_registry_update_metadata sql i m =
     bindM (pg_registry_get sql i) (\<lambda>e.
     if entry_status e \<noteq> DRAFT then raiseM (ConflictError ''only draft registry entries can be edited'')
     else
       bindM (entry_with_metadata e m) (\<lambda>updated.
       bindM (transaction sql (update_where (t_registry_entries sql) (\<lambda>r. erow_id r = i)
                (\<lambda>_. entry_values updated))) (\<lambda>_.
       returnM updated)))"

definition pg_registry_archive :: "'d sql \<Rightarrow> uuid \<Rightarrow> (('d, 'z) pg_state_scheme, registry_entry) M" where
  "pg_registry_archive sql i =
     bindM now_utc (\<lambda>t.
     bindM (transaction sql (
       bindM (update_count (t_registry_entries sql) (\<lambda>r. erow_id r = i)
                (\<lambda>r. r\<lparr>erow_status := registry_status_value ARCHIVED, erow_archived_at := Some t, erow_updated_at := t\<rparr>)) (\<lambda>n.
       if n = 0 then raiseM (entry_missing i) else returnM ()))) (\<lambda>_.
     pg_registry_get sql i))"

definition pg_registry_supersede :: "'d sql \<Rightarrow> uuid \<Rightarrow> uuid \<Rightarrow> (('d, 'z) pg_state_scheme, registry_entry) M" where
  "pg_registry_supersede sql i by_id =
     bindM now_utc (\<lambda>t.
     bindM (transaction sql (
       bindM (update_count (t_registry_entries sql) (\<lambda>r. erow_id r = i)
                (\<lambda>r. r\<lparr>erow_status := registry_status_value SUPERSEDED, erow_supersedes_entry_id := Some by_id,
                  erow_updated_at := t\<rparr>)) (\<lambda>n.
       if n = 0 then raiseM (entry_missing i) else returnM ()))) (\<lambda>_.
     pg_registry_get sql i))"

definition postgres_registry :: "'d sql \<Rightarrow> ('d, 'z) pg_state_scheme patch_panel_registry" where
  "postgres_registry sql = \<lparr>reg_register = pg_registry_register sql, reg_get = pg_registry_get sql,
     reg_search = pg_registry_search sql, reg_update_metadata = pg_registry_update_metadata sql,
     reg_archive = pg_registry_archive sql, reg_supersede = pg_registry_supersede sql\<rparr>"

section \<open>The contract\<close>

definition pg_entries :: "('d \<Rightarrow> tables) \<Rightarrow> ('d, 'z) pg_state_scheme \<Rightarrow> uuid \<Rightarrow> registry_entry option" where
  "pg_entries view s i = (case tb_registry_entries (view (pg_database s)) i of
       None \<Rightarrow> None
     | Some r \<Rightarrow> (case entry_from_row r of Inl _ \<Rightarrow> None | Inr e \<Rightarrow> Some e))"

text \<open>Every row holds an entry.\<close>

definition pg_registry_ok :: "('d \<Rightarrow> bool) \<Rightarrow> ('d \<Rightarrow> tables) \<Rightarrow> ('d, 'z) pg_state_scheme \<Rightarrow> bool" where
  "pg_registry_ok valid view s \<longleftrightarrow> valid (pg_database s) \<and>
     ran (tb_registry_entries (view (pg_database s))) \<subseteq> range entry_values"

definition entry_taken :: "('d \<Rightarrow> tables) \<Rightarrow> ('d, 'z) pg_state_scheme \<Rightarrow> registry_entry \<Rightarrow> bool" where
  "entry_taken view s e \<longleftrightarrow> pg_entries view s (entry_id e) \<noteq> None"

definition entry_dangling :: "('d \<Rightarrow> tables) \<Rightarrow> ('d, 'z) pg_state_scheme \<Rightarrow> registry_entry \<Rightarrow> bool" where
  "entry_dangling view s e \<longleftrightarrow> \<not> entry_refers (view (pg_database s)) (entry_values e)"

lemma entry_row_id [simp]: "erow_id (entry_values e) = entry_id e"
  by (simp add: entry_values_def)

lemma entry_values_inj: "entry_values e = entry_values e' \<Longrightarrow> e = e'"
  by (metis entry_round sum.inject(2))

text \<open>The rows are the images of the entries.\<close>

lemma entry_rows:
  assumes "pg_registry_ok valid view s"
  shows "tb_registry_entries (view (pg_database s)) = (\<lambda>i. map_option entry_values (pg_entries view s i))"
proof
  fix i
  show "tb_registry_entries (view (pg_database s)) i = map_option entry_values (pg_entries view s i)"
    using assms
    by (cases "tb_registry_entries (view (pg_database s)) i") (auto simp: pg_registry_ok_def pg_entries_def entry_round dest: ranI)
qed

lemma entries_of_rows:
  assumes "tb_registry_entries (view (pg_database s)) = (\<lambda>i. map_option entry_values (m i))" and "valid (pg_database s)"
  shows "pg_registry_ok valid view s \<and> pg_entries view s = m"
  using assms by (auto simp: pg_registry_ok_def pg_entries_def entry_round ran_def fun_eq_iff split: option.split)

lemma archived_values:
  "(entry_values e)\<lparr>erow_status := registry_status_value ARCHIVED, erow_archived_at := Some t, erow_updated_at := t'\<rparr> =
     entry_values (archived_at e t t')"
  "(entry_values e)\<lparr>erow_status := registry_status_value SUPERSEDED, erow_supersedes_entry_id := Some j,
     erow_updated_at := t\<rparr> = entry_values (superseded_by e j t)"
  by (simp_all add: entry_values_def archived_at_def superseded_by_def)

context sql_database
begin

abbreviation reg_ok :: "('d, 'z) pg_state_scheme \<Rightarrow> bool" where
  "reg_ok \<equiv> pg_registry_ok valid view"

lemma registry_committed:
  assumes "pg_registry_ok valid view s"
  shows "pg_registry_ok valid view (s\<lparr>pg_database := sql_commit sql (pg_database s)\<rparr>)"
    and "pg_entries view (s\<lparr>pg_database := sql_commit sql (pg_database s)\<rparr>) = pg_entries view s"
  using assms commit_law [of "pg_database s"] by (auto simp: pg_registry_ok_def pg_entries_def fun_eq_iff)

lemma registry_rolled_back:
  fixes s t :: "('d, 'z) pg_state_scheme"
  assumes "pg_registry_ok valid view s" and "valid d"
  shows "pg_registry_ok valid view (t\<lparr>pg_database := sql_rollback sql (pg_database s) d\<rparr>)"
    and "pg_entries view (t\<lparr>pg_database := sql_rollback sql (pg_database s) d\<rparr>) = pg_entries view s"
  using assms rollback_law [of "pg_database s" d] by (auto simp: pg_registry_ok_def pg_entries_def fun_eq_iff)

lemma pg_registry_get_run:
  assumes "pg_registry_ok valid view s"
  shows "pg_registry_get sql i s = (case pg_entries view s i of None \<Rightarrow> (Inl (entry_missing i), s) | Some e \<Rightarrow> (Inr e, s))"
proof -
  have "valid (pg_database s)" using assms by (simp add: pg_registry_ok_def)
  then show ?thesis
    by (simp add: pg_registry_get_def select_first_def select_where_def run_defs entries.select_key entry_rows [OF assms]
        entry_round split: option.split)
qed

lemma pg_register_law:
  assumes s: "pg_registry_ok valid view s"
  shows "wp (pg_registry_register sql e)
    (\<lambda>r t. r = e \<and> pg_registry_ok valid view t \<and> pg_entries view t = (pg_entries view s)(entry_id e \<mapsto> e))
    (\<lambda>_ t. (entry_taken view s e \<or> entry_dangling view s e) \<and> pg_registry_ok valid view t \<and>
       pg_entries view t = pg_entries view s) s"
proof -
  have valid: "valid (pg_database s)" using s by (simp add: pg_registry_ok_def)
  let ?new = "tb_registry_entries (view (pg_database s)) (erow_id (entry_values e)) = None \<and>
    entry_refers (view (pg_database s)) (entry_values e)"
  show ?thesis
  proof (cases ?new)
    case True
    with entries.insert_into_run [OF valid, of "entry_values e"] obtain d where d:
      "insert_into (t_registry_entries sql) (entry_values e) s = (Inr (), s\<lparr>pg_database := d\<rparr>)" "valid d"
      "view d = tb_registry_entries_update (\<lambda>_. (tb_registry_entries (view (pg_database s)))(entry_id e \<mapsto> entry_values e))
        (view (pg_database s))" by auto
    have "pg_registry_ok valid view (s\<lparr>pg_database := d\<rparr>) \<and>
        pg_entries view (s\<lparr>pg_database := d\<rparr>) = (pg_entries view s)(entry_id e \<mapsto> e)"
      using d entry_rows [OF s] by (intro entries_of_rows) (auto simp: fun_eq_iff)
    with d(1) registry_committed [of "s\<lparr>pg_database := d\<rparr>"] show ?thesis
      by (simp add: pg_registry_register_def wp_rules) (simp add: wp_def)
  next
    case False
    with entries.insert_into_run [OF valid, of "entry_values e"] obtain x where x:
      "insert_into (t_registry_entries sql) (entry_values e) s = (Inl (IntegrityError x), s)" by auto
    have "entry_taken view s e \<or> entry_dangling view s e"
      using False by (auto simp: entry_taken_def entry_dangling_def entry_rows [OF s])
    with x registry_rolled_back [OF s valid] show ?thesis
      by (simp add: pg_registry_register_def wp_rules) (simp add: wp_def)
  qed
qed

lemma pg_search_law:
  assumes s: "pg_registry_ok valid view s"
  shows "wp (pg_registry_search sql f)
    (\<lambda>es t. t = s \<and> set es = {e. e \<in> ran (pg_entries view s) \<and> entry_matches e f}) (\<lambda>_ _. False) s"
proof -
  have valid: "valid (pg_database s)" using s by (simp add: pg_registry_ok_def)
  let ?rows = "sql_select (t_registry_entries sql) (\<lambda>_. True) (pg_database s)"
  have rows: "set ?rows = entry_values ` ran (pg_entries view s)"
    using entries.select_law [OF valid] entry_rows [OF s] by (auto simp: ran_def image_iff)
  then obtain es where es: "?rows = map entry_values es" using ex_map_conv [of ?rows entry_values] by auto
  then have "entry_values ` set es = entry_values ` ran (pg_entries view s)" using rows by simp
  then have "set es = ran (pg_entries view s)"
    using inj_image_eq_iff [of entry_values] entry_values_inj by (auto simp: inj_def)
  with es show ?thesis
    by (auto simp: pg_registry_search_def wp_rules map_res_inverse entry_round)
qed

text \<open>An update of the row of one entry, committed.\<close>

lemma pg_change:
  fixes s :: "('d, 'z) pg_state_scheme"
  assumes s: "pg_registry_ok valid view s" and id: "\<And>e. entry_id (g e) = entry_id e"
    and f: "\<And>e. entry_id e = i \<Longrightarrow> pg_entries view s i = Some e \<Longrightarrow> f (entry_values e) = entry_values (g e)"
    and key: "\<And>r. erow_id r = i \<Longrightarrow> erow_id (f r) = erow_id r"
    and Q: "\<And>t. pg_registry_ok valid view t \<Longrightarrow>
      pg_entries view t = (case pg_entries view s i of None \<Rightarrow> pg_entries view s | Some e \<Rightarrow> (pg_entries view s)(i \<mapsto> g e)) \<Longrightarrow>
      Q () t"
    and E: "\<And>x e. pg_entries view s i = Some e \<Longrightarrow> \<not> entry_dangling view s e \<Longrightarrow> entry_dangling view s (g e) \<Longrightarrow>
      E (IntegrityError x) s"
  shows "wp (update_where (t_registry_entries sql) (\<lambda>r. erow_id r = i) f) Q E s"
proof (rule entries.wp_update)
  show valid: "valid (pg_database s)" using s by (simp add: pg_registry_ok_def)
  show "erow_id r = i \<Longrightarrow> erow_id (f r) = erow_id r" for r by (rule key)
  have keyed: "pg_entries view s k = Some e \<Longrightarrow> entry_id e = k" for k e
    using entries.keyed_law [OF valid, of k "entry_values e"] by (simp add: entry_rows [OF s])
  have row: "map_option (\<lambda>r. if erow_id r = i then f r else r) (map_option entry_values (pg_entries view s k)) =
      map_option entry_values ((case pg_entries view s i of None \<Rightarrow> pg_entries view s
        | Some e \<Rightarrow> (pg_entries view s)(i \<mapsto> g e)) k)" for k
    by (cases "k = i"; cases "pg_entries view s k"; cases "pg_entries view s i") (auto simp: f dest: keyed)
  fix d
  assume d: "valid d" "view d = tb_registry_entries_update (\<lambda>_ k. map_option (\<lambda>r. if erow_id r = i then f r else r)
      (tb_registry_entries (view (pg_database s)) k)) (view (pg_database s))"
  have "pg_registry_ok valid view (s\<lparr>pg_database := d\<rparr>) \<and> pg_entries view (s\<lparr>pg_database := d\<rparr>) =
      (case pg_entries view s i of None \<Rightarrow> pg_entries view s | Some e \<Rightarrow> (pg_entries view s)(i \<mapsto> g e))"
    using d row by (intro entries_of_rows) (simp_all add: fun_eq_iff entry_rows [OF s])
  then show "Q () (s\<lparr>pg_database := d\<rparr>)" by (blast intro: Q)
next
  fix x r
  assume r: "r \<in> ran (tb_registry_entries (view (pg_database s)))" "erow_id r = i" "entry_refers (view (pg_database s)) r"
    "\<not> entry_refers (view (pg_database s)) (f r)"
  then obtain k e where e: "pg_entries view s k = Some e" "r = entry_values e"
    by (auto simp: ran_def entry_rows [OF s])
  moreover have "k = i"
    using entries.keyed_law [of "pg_database s" k r] e r(2) s by (simp add: pg_registry_ok_def entry_rows [OF s])
  ultimately show "E (IntegrityError x) s" using r f [of e] by (intro E) (auto simp: entry_dangling_def)
qed

lemma pg_update_law:
  fixes s :: "('d, 'z) pg_state_scheme"
  assumes s: "pg_registry_ok valid view s"
  shows "wp (pg_registry_update_metadata sql i m)
    (\<lambda>r t. pg_registry_ok valid view t \<and> pg_entries view t = (pg_entries view s)(i \<mapsto> r) \<and>
       (\<exists>e u. pg_entries view s i = Some e \<and> entry_status e = DRAFT \<and> r = edited e m u))
    (\<lambda>_ t. pg_registry_ok valid view t \<and> pg_entries view t = pg_entries view s \<and>
       (\<forall>e. pg_entries view s i = Some e \<and> entry_status e = DRAFT \<longrightarrow> (\<exists>u. entry_dangling view s (edited e m u)))) s"
proof -
  have get: "wp (pg_registry_get sql i) Q E s =
      (case pg_entries view s i of None \<Rightarrow> E (entry_missing i) s | Some e \<Rightarrow> Q e s)" for Q E
    by (simp add: wp_def pg_registry_get_run [OF s] split: option.split)
  show ?thesis
  proof (cases "pg_entries view s i")
    case None
    then show ?thesis using s by (simp add: pg_registry_update_metadata_def wp_rules get)
  next
    case (Some e)
    let ?s = "s\<lparr>clock_pos := Suc (clock_pos s)\<rparr>" and ?t = "clock_src s (clock_pos s)"
    have ok: "pg_registry_ok valid view ?s" "pg_entries view ?s = pg_entries view s" "valid (pg_database s)"
      using s by (simp_all add: pg_registry_ok_def pg_entries_def fun_eq_iff)
    have id: "entry_id e = i"
      using entries.keyed_law [OF ok(3), of i "entry_values e"] by (simp add: entry_rows [OF s] Some)
    have "wp (update_where (t_registry_entries sql) (\<lambda>r. erow_id r = i) (\<lambda>_. entry_values (edited e m ?t)))
        (\<lambda>_ t. pg_registry_ok valid view t \<and> pg_entries view t = (pg_entries view s)(i \<mapsto> edited e m ?t))
        (\<lambda>_ t. t = ?s \<and> entry_dangling view s (edited e m ?t)) ?s"
      by (rule pg_change [OF ok(1), where g = "\<lambda>e. edited e m ?t"])
         (auto simp: ok Some edited_id id entry_dangling_def)
    then show ?thesis
      using s
      by (auto simp: pg_registry_update_metadata_def wp_rules get Some entry_with_metadata_edited registry_committed
          registry_rolled_back [OF s ok(3)] elim!: wp_mono)
  qed
qed

text \<open>A counted update of one row, that raises when there is none, and the reading of the entry afterwards.\<close>

lemma pg_count_change:
  fixes s :: "('d, 'z) pg_state_scheme"
  assumes s: "pg_registry_ok valid view s" and id: "\<And>e. entry_id (g e) = entry_id e"
    and f: "\<And>e. f (entry_values e) = entry_values (g e)" and key: "\<And>r. erow_id (f r) = erow_id r"
  shows "wp (bindM (transaction sql (bindM (update_count (t_registry_entries sql) (\<lambda>r. erow_id r = i) f) (\<lambda>n.
           if n = 0 then raiseM (entry_missing i) else returnM ()))) (\<lambda>_. pg_registry_get sql i))
    (\<lambda>r t. pg_registry_ok valid view t \<and> pg_entries view t = (pg_entries view s)(i \<mapsto> r) \<and>
       (\<exists>e. pg_entries view s i = Some e \<and> r = g e))
    (\<lambda>_ t. pg_registry_ok valid view t \<and> pg_entries view t = pg_entries view s \<and>
       (\<forall>e. pg_entries view s i = Some e \<longrightarrow> \<not> entry_dangling view s e \<and> entry_dangling view s (g e))) s"
proof -
  have valid: "valid (pg_database s)" using s by (simp add: pg_registry_ok_def)
  have count: "length (sql_select (t_registry_entries sql) (\<lambda>r. erow_id r = i) (pg_database s)) =
      (if pg_entries view s i = None then 0 else 1)"
    by (simp add: entries.select_key [OF valid] entry_rows [OF s] split: option.split)
  have get: "wp (pg_registry_get sql i) Q E t =
      (case pg_entries view t i of None \<Rightarrow> E (entry_missing i) t | Some e \<Rightarrow> Q e t)"
    if "pg_registry_ok valid view t" for Q E and t :: "('d, 'z) pg_state_scheme"
    by (simp add: wp_def pg_registry_get_run [OF that] split: option.split)
  show ?thesis
    unfolding update_count_def wp_rules count
  proof (rule pg_change [OF s id], goal_cases)
    case (3 t)
    then have "valid (pg_database t)" by (simp add: pg_registry_ok_def)
    with 3 show ?case
      by (cases "pg_entries view s i") (simp_all add: get wp_rules registry_committed registry_rolled_back [OF s])
  qed (auto simp: f key registry_rolled_back [OF s valid])
qed

end

lemma clock_registry:
  assumes "pg_registry_ok valid view s"
  shows "pg_registry_ok valid view (s\<lparr>clock_pos := n\<rparr>)" "pg_entries view (s\<lparr>clock_pos := n\<rparr>) = pg_entries view s"
    "entry_dangling view (s\<lparr>clock_pos := n\<rparr>) = entry_dangling view s"
  using assms by (simp_all add: pg_registry_ok_def pg_entries_def entry_dangling_def fun_eq_iff)

lemma postgres_registry_laws:
  fixes sql :: "'d sql"
  assumes db: "sql_database sql valid view"
  shows "registry_contract (postgres_registry sql :: ('d, 'z) pg_state_scheme patch_panel_registry) (pg_entries view)
    (pg_registry_ok valid view) (entry_taken view) (entry_dangling view)"
proof (unfold_locales, goal_cases)
  case (1 s e)
  from sql_database.pg_register_law [OF db 1] show ?case by (simp add: postgres_registry_def)
next
  case (2 s i)
  from sql_database.pg_registry_get_run [OF db 2] show ?case by (simp add: postgres_registry_def)
next
  case (3 s f)
  from sql_database.pg_search_law [OF db 3] show ?case by (simp add: postgres_registry_def)
next
  case (4 s i m)
  from sql_database.pg_update_law [OF db 4] show ?case by (simp add: postgres_registry_def)
next
  case (5 s i)
  let ?s = "s\<lparr>clock_pos := Suc (clock_pos s)\<rparr>" and ?t = "clock_src s (clock_pos s)"
  note s = clock_registry [OF 5]
  have "entry_dangling view s (archived_at e ?t ?t) = entry_dangling view s e" for e
    by (simp add: entry_dangling_def entry_refers_def entry_values_def archived_at_def split: option.split)
  then have "wp (pg_registry_archive sql i)
      (\<lambda>r t. pg_registry_ok valid view t \<and> pg_entries view t = (pg_entries view s)(i \<mapsto> r) \<and>
         (\<exists>e. pg_entries view s i = Some e \<and> r = archived_at e ?t ?t))
      (\<lambda>_ t. pg_registry_ok valid view t \<and> pg_entries view t = pg_entries view s \<and> pg_entries view s i = None) s"
    unfolding pg_registry_archive_def wp_bind [of now_utc] wp_now
    by (intro wp_mono [OF sql_database.pg_count_change [OF db s(1), where g = "\<lambda>e. archived_at e ?t ?t", OF edited_id(2) archived_values(1)]])
       (auto simp: s)
  then show ?case by (simp add: postgres_registry_def) (erule wp_mono; blast)
next
  case (6 s i j)
  let ?s = "s\<lparr>clock_pos := Suc (clock_pos s)\<rparr>" and ?t = "clock_src s (clock_pos s)"
  note s = clock_registry [OF 6]
  have "wp (pg_registry_supersede sql i j)
      (\<lambda>r t. pg_registry_ok valid view t \<and> pg_entries view t = (pg_entries view s)(i \<mapsto> r) \<and>
         (\<exists>e. pg_entries view s i = Some e \<and> r = superseded_by e j ?t))
      (\<lambda>_ t. pg_registry_ok valid view t \<and> pg_entries view t = pg_entries view s \<and>
         (\<forall>e. pg_entries view s i = Some e \<longrightarrow> entry_dangling view s (superseded_by e j ?t))) s"
    unfolding pg_registry_supersede_def wp_bind [of now_utc] wp_now
    by (intro wp_mono [OF sql_database.pg_count_change [OF db s(1), where g = "\<lambda>e. superseded_by e j ?t", OF edited_id(3) archived_values(2)]])
       (auto simp: s)
  then show ?case by (simp add: postgres_registry_def) (erule wp_mono; blast)
next
  case (7 s i e)
  have "tb_registry_entries (view (pg_database s)) i = Some (entry_values e)" "valid (pg_database s)"
    using 7 by (simp_all add: entry_rows [OF 7(1)] pg_registry_ok_def)
  moreover have "sql_table_laws (t_registry_entries sql) valid view tb_registry_entries (\<lambda>m. tb_registry_entries_update (\<lambda>_. m)) erow_id entry_refers"
    using db by (rule sql_database.axioms)
  ultimately show ?case using sql_table_laws.keyed_law by fastforce
qed

interpretation pg_reg: registry_contract "postgres_registry list_sql" "pg_entries list_view"
    "pg_registry_ok list_valid list_view" "entry_taken list_view" "entry_dangling list_view"
  using list_db.sql_database_axioms by (rule postgres_registry_laws)

text \<open>
  Property C36. The durable registry implements the contract of the registries, over every database whose statements keep
  the laws of \<open>sql_database\<close>: a registered entry is what \<^verbatim>\<open>get\<close> returns and what every matching search finds;
  \<^verbatim>\<open>update_metadata\<close> rewrites drafts only, \<^verbatim>\<open>archive\<close> and \<^verbatim>\<open>supersede\<close> change exactly their columns of the one row;
  a call that raises changes no entry, and raises only for a missing entry, one that is no draft, an id that is taken or a
  reference to a participant or an entry that does not exist.
\<close>

theorem durable_registry_refines:
  fixes sql :: "'d sql"
  assumes "sql_database sql valid view"
  shows "registry_contract (postgres_registry sql :: ('d, 'z) pg_state_scheme patch_panel_registry) (pg_entries view)
    (pg_registry_ok valid view) (entry_taken view) (entry_dangling view)"
  using assms by (rule postgres_registry_laws)

text \<open>An entry registered in an empty database.\<close>

definition sample_entry_row :: registry_entry where
  "sample_entry_row = \<lparr>entry_id = UUID ''e'', entry_patch_panel_id = ''p'', entry_version = ''1'', entry_name = ''m'',
     entry_description = None, entry_tags = [''t''], entry_input_types = [''ticket''], entry_output_types = [],
     entry_required_tools = [], entry_required_permissions = [CARD_CREATE], entry_risk_level = None,
     entry_estimated_cost = None, entry_estimated_latency = None, entry_owner_participant_id = None,
     entry_status = PUBLISHED, entry_supersedes_entry_id = None, entry_metadata = [], entry_created_at = 0,
     entry_updated_at = 0, entry_archived_at = None\<rparr>"

definition sample_empty :: "list_db pg_state" where
  "sample_empty = \<lparr>uuid_src = (\<lambda>n. UUID (replicate n CHR ''x'')), uuid_pos = 0, clock_src = int, clock_pos = 0,
     pg_database = empty_list_db\<rparr>"

theorem durable_registry_refines_witness:
  "\<exists>t. reg_register (postgres_registry list_sql) sample_entry_row sample_empty = (Inr sample_entry_row, t) \<and>
     reg_get (postgres_registry list_sql) (UUID ''e'') t = (Inr sample_entry_row, t)"
proof -
  have contract: "registry_contract (postgres_registry list_sql :: list_db pg_state patch_panel_registry) (pg_entries list_view)
      (pg_registry_ok list_valid list_view) (entry_taken list_view) (entry_dangling list_view)"
    using list_db.sql_database_axioms by (rule durable_registry_refines)
  have ok: "pg_registry_ok list_valid list_view sample_empty"
    by (simp add: pg_registry_ok_def sample_empty_def empty_list_db_def list_valid_def list_view_def py.keyed_def)
  have "(case reg_register (postgres_registry list_sql) sample_entry_row sample_empty of (Inr e, _) \<Rightarrow> entry_id e = UUID ''e'' | _ \<Rightarrow> False)"
    by code_simp
  then obtain r t where run: "reg_register (postgres_registry list_sql) sample_entry_row sample_empty = (Inr r, t)"
    by (auto split: prod.splits sum.splits)
  from wp_okD [OF registry_contract.register_law [OF contract ok] run] have "r = sample_entry_row" by blast
  moreover from registry_contract.get_after_register [OF contract ok run]
  have "reg_get (postgres_registry list_sql) (UUID ''e'') t = (Inr sample_entry_row, t)"
    by (simp add: sample_entry_row_def)
  ultimately show ?thesis using run by blast
qed

end
