(* ===== verification/PostgresAuth.thy ===== *)
theory PostgresAuth
  imports Database RoleCatalog
begin

text \<open>
  The durable authorization repository: class \<^verbatim>\<open>PostgresAuthorizationRepository\<close> of
  \<^verbatim>\<open>src/src/ghostmesh/auth/repositories.py\<close>, and what the authorization service decides over it.
\<close>

section \<open>Operations\<close>

definition pg_get_participant :: "'d sql \<Rightarrow> string \<Rightarrow> (('d, 'z) pg_state_scheme, participant option) M" where
  "pg_get_participant sql pid =
     bindM (select_first (t_participants sql) (\<lambda>r. mrow_id r = pid)) (\<lambda>row. case row of
       None \<Rightarrow> returnM None
     | Some r \<Rightarrow> bindM (liftM (participant_from_row r)) (\<lambda>p. returnM (Some p)))"

definition pg_list_participants :: "'d sql \<Rightarrow> (('d, 'z) pg_state_scheme, participant list) M" where
  "pg_list_participants sql =
     bindM (select_where (t_participants sql) (\<lambda>_. True)) (\<lambda>rows. liftM (map_res participant_from_row rows))"

definition pg_upsert_participant :: "'d sql \<Rightarrow> participant \<Rightarrow> (('d, 'z) pg_state_scheme, unit) M" where
  "pg_upsert_participant sql p =
     transaction sql (
       bindM (select_first (t_participants sql) (\<lambda>r. mrow_id r = participant_id p)) (\<lambda>existing.
       if existing \<noteq> None
       then update_where (t_participants sql) (\<lambda>r. mrow_id r = participant_id p) (\<lambda>_. participant_values p)
       else insert_into (t_participants sql) (participant_values p)))"

text \<open>The template of a built-in role; \<^verbatim>\<open>RoleName\<close> raises \<^verbatim>\<open>ValueError\<close> for any other name.\<close>

definition template_for :: "string \<Rightarrow> role_template option res" where
  "template_for rid =
     (case to_role_name (removeprefix ''builtin:'' rid) of
        Inl (ValueError _) \<Rightarrow> Inr None
      | Inl e \<Rightarrow> Inl e
      | Inr n \<Rightarrow> (case get_role_template n of
          Inl (ValueError _) \<Rightarrow> Inr None | Inl e \<Rightarrow> Inl e | Inr t \<Rightarrow> Inr (Some t)))"

definition role_values :: "role \<Rightarrow> role_row" where
  "role_values r = \<lparr>rrow_id = role_id r, rrow_name = role_name_value (role_name r),
     rrow_description = role_description r, rrow_role_metadata = role_metadata r,
     rrow_created_at = role_created_at r\<rparr>"

definition pg_add_role_assignment :: "'d sql \<Rightarrow> role_assignment \<Rightarrow> (('d, 'z) pg_state_scheme, unit) M" where
  "pg_add_role_assignment sql a =
     bindM (liftM (template_for (assignment_role_id a))) (\<lambda>template.
     transaction sql (
       bindM (case template of
           None \<Rightarrow> returnM ()
         | Some t \<Rightarrow>
             bindM (select_first (t_roles sql) (\<lambda>r. rrow_id r = template_id t)) (\<lambda>existing.
             if existing = None
             then bindM (to_role t) (\<lambda>r. insert_into (t_roles sql) (role_values r))
             else returnM ())) (\<lambda>_.
       insert_into (t_participant_roles sql) (assignment_values a))))"

text \<open>The rows of assignments that are in force at time \<open>t\<close>.\<close>

definition unexpired :: "datetime \<Rightarrow> assignment_row \<Rightarrow> bool" where
  "unexpired t r = (case arow_expires_at r of None \<Rightarrow> True | Some e \<Rightarrow> e > t)"

definition pg_list_role_assignments :: "'d sql \<Rightarrow> string \<Rightarrow> (('d, 'z) pg_state_scheme, role_assignment list) M" where
  "pg_list_role_assignments sql pid =
     bindM now_utc (\<lambda>t.
     bindM (select_where (t_participant_roles sql) (\<lambda>r. arow_participant_id r = pid \<and> arow_revoked_at r = None)) (\<lambda>rows.
     liftM (map_res role_assignment_from_row (filter (unexpired t) rows))))"

definition pg_add_permission_grant :: "'d sql \<Rightarrow> permission_grant \<Rightarrow> (('d, 'z) pg_state_scheme, unit) M" where
  "pg_add_permission_grant sql g = transaction sql (insert_into (t_permission_grants sql) (grant_values g))"

definition pg_list_permission_grants :: "'d sql \<Rightarrow> string \<Rightarrow> (('d, 'z) pg_state_scheme, permission_grant list) M" where
  "pg_list_permission_grants sql pid =
     bindM now_utc (\<lambda>t.
     bindM (select_where (t_participant_roles sql) (\<lambda>r. arow_participant_id r = pid \<and> arow_revoked_at r = None)) (\<lambda>assignment_rows.
     let role_ids = map arow_role_id (filter (unexpired t) assignment_rows) in
     bindM (select_where (t_permission_grants sql) (\<lambda>r. grow_revoked_at r = None)) (\<lambda>grant_rows.
     bindM (liftM (map_res permission_grant_from_row grant_rows)) (\<lambda>grants.
     returnM (filter (\<lambda>g. grant_is_active g t \<and>
       (grant_participant_id g = Some pid \<or> grant_role_id g \<in> Some ` set role_ids)) grants)))))"

definition pg_record_audit_event :: "'d sql \<Rightarrow> authorization_audit_event \<Rightarrow> (('d, 'z) pg_state_scheme, unit) M" where
  "pg_record_audit_event sql e = transaction sql (insert_into (t_audit_events sql) (audit_values e))"

definition postgres_repository :: "'d sql \<Rightarrow> ('d, 'z) pg_state_scheme auth_repository" where
  "postgres_repository sql = \<lparr>repo_get_participant = pg_get_participant sql,
     repo_list_participants = pg_list_participants sql, repo_upsert_participant = pg_upsert_participant sql,
     repo_add_role_assignment = pg_add_role_assignment sql,
     repo_list_role_assignments = pg_list_role_assignments sql,
     repo_add_permission_grant = pg_add_permission_grant sql,
     repo_list_permission_grants = pg_list_permission_grants sql,
     repo_record_audit_event = pg_record_audit_event sql\<rparr>"

lemma postgres_repository_sel:
  "repo_get_participant (postgres_repository sql) = pg_get_participant sql"
  "repo_list_permission_grants (postgres_repository sql) = pg_list_permission_grants sql"
  "repo_record_audit_event (postgres_repository sql) = pg_record_audit_event sql"
  by (simp_all add: postgres_repository_def)

section \<open>What the tables say\<close>

abbreviation rows_of :: "('d \<Rightarrow> tables) \<Rightarrow> ('d, 'z) pg_state_scheme \<Rightarrow> tables" where
  "rows_of view s \<equiv> view (pg_database s)"

definition pg_participants :: "('d \<Rightarrow> tables) \<Rightarrow> ('d, 'z) pg_state_scheme \<Rightarrow> string \<Rightarrow> participant option" where
  "pg_participants view s pid = (case tb_participants (rows_of view s) pid of
       None \<Rightarrow> None
     | Some r \<Rightarrow> (case participant_from_row r of Inl _ \<Rightarrow> None | Inr p \<Rightarrow> Some p))"

definition pg_assignments :: "('d \<Rightarrow> tables) \<Rightarrow> ('d, 'z) pg_state_scheme \<Rightarrow> role_assignment set" where
  "pg_assignments view s = {a. scope_ok (assignment_scope a) \<and> assignment_values a \<in> ran (tb_participant_roles (rows_of view s))}"

definition pg_grants :: "('d \<Rightarrow> tables) \<Rightarrow> ('d, 'z) pg_state_scheme \<Rightarrow> permission_grant set" where
  "pg_grants view s = {g. grant_ok g \<and> grant_values g \<in> ran (tb_permission_grants (rows_of view s))}"

text \<open>The grants in force for a participant, and when he may do something.\<close>

definition pg_in_force :: "('d \<Rightarrow> tables) \<Rightarrow> ('d, 'z) pg_state_scheme \<Rightarrow> string \<Rightarrow> datetime \<Rightarrow> permission_grant set" where
  "pg_in_force view s pid t = {g \<in> pg_grants view s. grant_is_active g t \<and>
     (grant_participant_id g = Some pid \<or>
      (\<exists>a \<in> pg_assignments view s. assignment_participant_id a = pid \<and> assignment_is_active a t \<and>
         grant_role_id g = Some (assignment_role_id a)))}"

definition pg_may ::
  "('d \<Rightarrow> tables) \<Rightarrow> ('d, 'z) pg_state_scheme \<Rightarrow> datetime \<Rightarrow> string \<Rightarrow> permission_name \<Rightarrow> scope \<Rightarrow> jdict option \<Rightarrow> bool" where
  "pg_may view s t pid perm sc ctx \<longleftrightarrow>
     (\<exists>p. pg_participants view s pid = Some p \<and> participant_status p = ACTIVE) \<and>
     (\<exists>g \<in> pg_in_force view s pid t. grant_permission g = perm \<and> scope_matches (grant_scope g) sc ctx)"

text \<open>Every row holds an object; the identifiers of the audit rows have been issued.\<close>

definition pg_auth_ok :: "('d \<Rightarrow> bool) \<Rightarrow> ('d \<Rightarrow> tables) \<Rightarrow> ('d, 'z) pg_state_scheme \<Rightarrow> bool" where
  "pg_auth_ok valid view s \<longleftrightarrow> valid (pg_database s) \<and> fresh_uuids s \<and>
     ran (tb_participants (rows_of view s)) \<subseteq> range participant_values \<and>
     ran (tb_participant_roles (rows_of view s)) \<subseteq> assignment_values ` {a. scope_ok (assignment_scope a)} \<and>
     ran (tb_permission_grants (rows_of view s)) \<subseteq> grant_values ` {g. grant_ok g} \<and>
     dom (tb_audit_events (rows_of view s)) \<subseteq> issued s"

lemma pg_auth_okD:
  assumes "pg_auth_ok valid view s"
  shows "valid (pg_database s)" "fresh_uuids s"
    "ran (tb_participants (rows_of view s)) \<subseteq> range participant_values"
    "ran (tb_participant_roles (rows_of view s)) = assignment_values ` pg_assignments view s"
    "ran (tb_permission_grants (rows_of view s)) = grant_values ` pg_grants view s"
    "dom (tb_audit_events (rows_of view s)) \<subseteq> issued s"
  using assms by (auto simp: pg_auth_ok_def pg_assignments_def pg_grants_def)

lemma participant_rows:
  assumes "pg_auth_ok valid view s"
  shows "tb_participants (rows_of view s) pid = map_option participant_values (pg_participants view s pid)"
  using pg_auth_okD(3) [OF assms]
  by (cases "tb_participants (rows_of view s) pid") (auto simp: pg_participants_def participant_round dest: ranI)

lemma known_participant:
  "pg_auth_ok valid view s \<Longrightarrow> is_participant (rows_of view s) (Some pid) \<longleftrightarrow> pg_participants view s pid \<noteq> None"
  by (simp add: is_participant_def participant_rows)

text \<open>Rows decode one by one.\<close>

lemma decoded_rows:
  assumes "set rows \<subseteq> enc ` A" and "\<And>x. x \<in> A \<Longrightarrow> dec (enc x) = Inr x"
  obtains xs where "map_res dec rows = Inr xs" and "set rows = enc ` set xs" and "set xs \<subseteq> A"
proof -
  obtain xs where xs: "rows = map enc xs" "set xs \<subseteq> A"
    using assms(1) by (induction rows) (auto, metis list.simps(9) insert_subset list.simps(15))
  then have "map_res dec rows = Inr xs"
    using assms(2) by (auto simp: map_res_Inr list_all2_map1 intro!: list.rel_refl_strong)
  with xs that show ?thesis by auto
qed

section \<open>The repository operations on a consistent database\<close>

lemma advance_pg_auth:
  fixes s t :: "('d, 'z) pg_state_scheme"
  assumes "advance s t" and "pg_auth_ok valid view s"
  shows "pg_auth_ok valid view t" "pg_database t = pg_database s"
proof -
  have t: "pg_database t = pg_database s" "uuid_src t = uuid_src s" "uuid_pos s \<le> uuid_pos t"
    using assms(1) by (auto simp: advance_def)
  then have "issued s \<subseteq> issued t" by (auto simp: issued_def)
  with assms(2) t show "pg_auth_ok valid view t" by (auto simp: pg_auth_ok_def fresh_uuids_def)
  show "pg_database t = pg_database s" by (rule t)
qed

context sql_database
begin

lemma pg_get_participant_run:
  assumes "pg_auth_ok valid view s"
  shows "pg_get_participant sql pid s = (Inr (pg_participants view s pid), s)"
  by (simp add: pg_get_participant_def select_first_def select_where_def run_defs participants.select_key [OF pg_auth_okD(1) [OF assms]]
      participant_rows [OF assms] participant_round split: option.split)

lemma assignment_role_ids:
  assumes "pg_auth_ok valid view s"
  shows "arow_role_id ` {r \<in> set (sql_select (t_participant_roles sql) (\<lambda>r. arow_participant_id r = pid \<and> arow_revoked_at r = None)
      (pg_database s)). unexpired t r} =
    {assignment_role_id a | a. a \<in> pg_assignments view s \<and> assignment_participant_id a = pid \<and> assignment_is_active a t}"
proof -
  have "unexpired t (assignment_values a) \<and> arow_revoked_at (assignment_values a) = None \<longleftrightarrow> assignment_is_active a t" for a
    by (auto simp: unexpired_def assignment_values_def assignment_is_active_def)
  moreover have "arow_participant_id (assignment_values a) = assignment_participant_id a"
      "arow_role_id (assignment_values a) = assignment_role_id a" for a
    by (simp_all add: assignment_values_def)
  ultimately show ?thesis
    using assignments.select_law [OF pg_auth_okD(1) [OF assms]] pg_auth_okD(4) [OF assms] by (auto simp: image_iff) metis+
qed

lemma pg_list_grants_run:
  assumes s: "pg_auth_ok valid view s"
  obtains gs where "pg_list_permission_grants sql pid s = (Inr gs, s\<lparr>clock_pos := Suc (clock_pos s)\<rparr>)"
    and "set gs = pg_in_force view s pid (next_reading s)"
proof -
  let ?rows = "sql_select (t_permission_grants sql) (\<lambda>r. grow_revoked_at r = None) (pg_database s)"
  have rows: "set ?rows = grant_values ` {g \<in> pg_grants view s. grant_revoked_at g = None}"
  proof -
    have "grow_revoked_at (grant_values g) = grant_revoked_at g" for g by (simp add: grant_values_def)
    then show ?thesis using grants.select_law [OF pg_auth_okD(1) [OF s]] pg_auth_okD(5) [OF s] by auto
  qed
  obtain gs where gs: "map_res permission_grant_from_row ?rows = Inr gs"
    "set ?rows = grant_values ` set gs" "set gs \<subseteq> pg_grants view s"
    by (rule decoded_rows [of ?rows grant_values "pg_grants view s" permission_grant_from_row])
       (use rows in \<open>auto simp: pg_grants_def grant_round\<close>)
  have "inj_on grant_values (pg_grants view s)"
    by (rule inj_on_inverseI [of _ "\<lambda>r. case permission_grant_from_row r of Inr g \<Rightarrow> g"]) (simp add: pg_grants_def grant_round)
  from inj_on_image_eq_iff [OF this gs(3)] have "set gs = {g \<in> pg_grants view s. grant_revoked_at g = None}"
    using rows gs(2) by fastforce
  moreover have "Some ` set (map arow_role_id (filter (unexpired t) (sql_select (t_participant_roles sql)
        (\<lambda>r. arow_participant_id r = pid \<and> arow_revoked_at r = None) (pg_database s)))) =
      {Some (assignment_role_id a) | a. a \<in> pg_assignments view s \<and> assignment_participant_id a = pid \<and> assignment_is_active a t}" for t
    unfolding set_map set_filter assignment_role_ids [OF s] by auto
  ultimately show ?thesis
    by (intro that) (simp add: pg_list_permission_grants_def run_defs now_utc_def select_where_def gs(1) Let_def next_reading_def,
        auto simp: pg_in_force_def grant_is_active_def next_reading_def)
qed

text \<open>A transaction that runs one insert.\<close>

lemma insert_transaction:
  fixes s :: "('d, 'z) pg_state_scheme"
  assumes laws: "sql_table_laws tab valid view get put key refers" and s: "valid (pg_database s)"
  shows "if get (rows_of view s) (key r) = None \<and> refers (rows_of view s) r
    then \<exists>d. transaction sql (insert_into tab r) s = (Inr (), s\<lparr>pg_database := d\<rparr>) \<and> valid d \<and>
      view d = put ((get (rows_of view s))(key r \<mapsto> r)) (rows_of view s)
    else \<exists>x d. transaction sql (insert_into tab r) s = (Inl (IntegrityError x), s\<lparr>pg_database := d\<rparr>) \<and> valid d \<and>
      view d = rows_of view s"
proof (cases "get (rows_of view s) (key r) = None \<and> refers (rows_of view s) r")
  case True
  with sql_table_laws.insert_into_run [OF laws s, of r] obtain d where
    "insert_into tab r s = (Inr (), s\<lparr>pg_database := d\<rparr>)" "valid d" "view d = put ((get (rows_of view s))(key r \<mapsto> r)) (rows_of view s)"
    by auto
  with True commit_law [of d] show ?thesis by (auto simp: transaction_def)
next
  case False
  with sql_table_laws.insert_into_run [OF laws s, of r] obtain x where "insert_into tab r s = (Inl (IntegrityError x), s)" by auto
  with False rollback_law [OF s s] show ?thesis by (auto simp: transaction_def)
qed

text \<open>An audit row is inserted when its participant is known, and the insert raises when he is not.\<close>

lemma pg_record_audit_run:
  fixes s :: "('d, 'z) pg_state_scheme"
  assumes s: "valid (pg_database s)" and new: "tb_audit_events (rows_of view s) (audit_id e) = None"
  shows "if is_participant (rows_of view s) (audit_participant_id e)
    then \<exists>d. pg_record_audit_event sql e s = (Inr (), s\<lparr>pg_database := d\<rparr>) \<and> valid d \<and>
      view d = (rows_of view s)\<lparr>tb_audit_events := (tb_audit_events (rows_of view s))(audit_id e \<mapsto> audit_values e)\<rparr>
    else \<exists>x d. pg_record_audit_event sql e s = (Inl (IntegrityError x), s\<lparr>pg_database := d\<rparr>) \<and> valid d \<and> view d = rows_of view s"
proof -
  have row: "urow_id (audit_values e) = audit_id e" "urow_participant_id (audit_values e) = audit_participant_id e"
    by (simp_all add: audit_values_def)
  from insert_transaction [OF audits.sql_table_laws_axioms s, of "audit_values e"] new
  show ?thesis unfolding row pg_record_audit_event_def by (simp split: if_splits)
qed

text \<open>A decision and its record.\<close>

lemma pg_decision_run:
  fixes s :: "('d, 'z) pg_state_scheme"
  assumes s: "pg_auth_ok valid view s"
  shows "wp (bindM (new_decision pid perm sc allowed reason matched ctx) (record_decision (postgres_repository sql)))
    (\<lambda>d t. pg_auth_ok valid view t \<and> pg_participants view s pid \<noteq> None \<and> decision_allowed d = allowed \<and>
       decision_matched_grant_ids d = matched \<and>
       (\<exists>e. rows_of view t = (rows_of view s)\<lparr>tb_audit_events := (tb_audit_events (rows_of view s))(audit_id e \<mapsto> audit_values e)\<rparr> \<and>
          tb_audit_events (rows_of view s) (audit_id e) = None \<and>
          audit_participant_id e = Some pid \<and> audit_permission e = Some perm \<and> audit_scope e = Some sc \<and>
          audit_allowed e = Some allowed))
    (\<lambda>e t. (\<exists>x. e = IntegrityError x) \<and> pg_auth_ok valid view t \<and> pg_participants view s pid = None \<and>
       rows_of view t = rows_of view s) s"
proof -
  let ?d = "\<lparr>decision_id = uuid_src s (uuid_pos s), decision_participant_id = pid, decision_permission = perm,
    decision_scope = sc, decision_allowed = allowed, decision_reason = reason,
    decision_evaluated_at = clock_src s (clock_pos s), decision_matched_grant_ids = matched,
    decision_metadata = (case ctx of None \<Rightarrow> [] | Some d \<Rightarrow> d)\<rparr>"
  let ?u = "s\<lparr>uuid_pos := Suc (Suc (uuid_pos s)), clock_pos := Suc (Suc (clock_pos s))\<rparr>"
  let ?e = "\<lparr>audit_id = uuid_src s (Suc (uuid_pos s)), audit_action = decision_audit_action ?d,
    audit_participant_id = Some pid, audit_permission = Some perm, audit_scope = Some sc,
    audit_allowed = Some allowed, audit_reason = Some reason, audit_request_ref = None,
    audit_target_ref = None, audit_metadata = (case ctx of None \<Rightarrow> [] | Some d \<Rightarrow> d),
    audit_created_at = clock_src s (Suc (clock_pos s))\<rparr>"
  have run: "bindM (new_decision pid perm sc allowed reason matched ctx) (record_decision (postgres_repository sql)) s =
      bindM (pg_record_audit_event sql ?e) (\<lambda>_. returnM ?d) ?u"
    by (simp add: new_decision_def record_decision_def from_decision_def uuid4_def now_utc_def bindM_def returnM_def
        postgres_repository_sel)
  have u: "pg_auth_ok valid view ?u"
    by (rule advance_pg_auth [OF _ s]) (simp add: advance_counters)
  have "uuid_src s (Suc (uuid_pos s)) \<notin> issued s"
    using pg_auth_okD(2) [OF s] by (auto simp: issued_def fresh_uuids_def inj_eq)
  then have new: "tb_audit_events (rows_of view ?u) (audit_id ?e) = None"
    using pg_auth_okD(6) [OF s] by auto
  have known: "is_participant (rows_of view ?u) (audit_participant_id ?e) \<longleftrightarrow> pg_participants view s pid \<noteq> None"
    using known_participant [OF s] by simp
  have ok: "pg_auth_ok valid view (?u\<lparr>pg_database := d\<rparr>)"
    if "valid d" "view d = (rows_of view s)\<lparr>tb_audit_events := m\<rparr>" "dom m \<subseteq> issued ?u" for d m
    using u that by (simp add: pg_auth_ok_def fresh_uuids_def issued_def)
  show ?thesis
  proof (cases "pg_participants view s pid")
    case None
    then obtain x d where "pg_record_audit_event sql ?e ?u = (Inl (IntegrityError x), ?u\<lparr>pg_database := d\<rparr>)"
      "valid d" "view d = rows_of view s"
      using pg_record_audit_run [OF pg_auth_okD(1) [OF u] new] known by auto
    with ok [of d "tb_audit_events (rows_of view s)"] pg_auth_okD(6) [OF u] None show ?thesis
      unfolding wp_def run by (simp add: bindM_def)
  next
    case (Some p)
    then obtain d where d: "pg_record_audit_event sql ?e ?u = (Inr (), ?u\<lparr>pg_database := d\<rparr>)" "valid d"
      "view d = (rows_of view s)\<lparr>tb_audit_events := (tb_audit_events (rows_of view s))(audit_id ?e \<mapsto> audit_values ?e)\<rparr>"
      using pg_record_audit_run [OF pg_auth_okD(1) [OF u] new] known by auto
    have "dom ((tb_audit_events (rows_of view s))(audit_id ?e \<mapsto> audit_values ?e)) \<subseteq> issued ?u"
      using pg_auth_okD(6) [OF s] by (auto simp: issued_def)
    from ok [OF d(2,3) this] have "pg_auth_ok valid view (?u\<lparr>pg_database := d\<rparr>)" .
    moreover have "bindM (pg_record_audit_event sql ?e) (\<lambda>_. returnM ?d) ?u = (Inr ?d, ?u\<lparr>pg_database := d\<rparr>)"
      by (simp only: bindM_def returnM_def d(1) prod.case sum.case)
    ultimately show ?thesis
      unfolding wp_def run using d(3) new Some by (simp only: prod.case sum.case) (intro conjI exI [of _ ?e]; simp)
  qed
qed

lemma pg_authorize_run:
  fixes s :: "('d, 'z) pg_state_scheme"
  assumes s: "pg_auth_ok valid view s"
  shows "wp (authorize (postgres_repository sql) pid perm sc ctx)
    (\<lambda>d t. pg_auth_ok valid view t \<and> pg_participants view s pid \<noteq> None \<and>
       decision_allowed d = pg_may view s (next_reading s) pid perm sc ctx \<and>
       set (decision_matched_grant_ids d) = (if decision_allowed d then grant_id ` {g \<in> pg_in_force view s pid (next_reading s).
         grant_permission g = perm \<and> scope_matches (grant_scope g) sc ctx} else {}) \<and>
       (\<exists>e. rows_of view t = (rows_of view s)\<lparr>tb_audit_events := (tb_audit_events (rows_of view s))(audit_id e \<mapsto> audit_values e)\<rparr> \<and>
          tb_audit_events (rows_of view s) (audit_id e) = None \<and>
          audit_participant_id e = Some pid \<and> audit_permission e = Some perm \<and> audit_scope e = Some sc \<and>
          audit_allowed e = Some (decision_allowed d)))
    (\<lambda>e t. (\<exists>x. e = IntegrityError x) \<and> pg_auth_ok valid view t \<and> pg_participants view s pid = None \<and>
       rows_of view t = rows_of view s) s"
proof -
  let ?t = "s\<lparr>clock_pos := Suc (clock_pos s)\<rparr>"
  have t: "pg_auth_ok valid view ?t" by (rule advance_pg_auth [OF advance_now s])
  have same: "pg_participants view ?t = pg_participants view s" by (simp add: pg_participants_def fun_eq_iff)
  have get: "wp (pg_get_participant sql pid) Q E s = Q (pg_participants view s pid) s" for Q E
    by (simp add: wp_def pg_get_participant_run [OF s])
  obtain gs where gs: "pg_list_permission_grants sql pid s = (Inr gs, ?t)" "set gs = pg_in_force view s pid (next_reading s)"
    by (rule pg_list_grants_run [OF s])
  then have list: "wp (pg_list_permission_grants sql pid) Q E s = Q gs ?t" for Q E
    by (simp add: wp_def)
  note authorize_run = authorize_def postgres_repository_sel wp_bind [of "pg_get_participant a b" for a b] get
  have matched: "filter (\<lambda>g. grant_permission g = perm \<and> scope_matches (grant_scope g) sc ctx) gs \<noteq> [] \<longleftrightarrow>
      (\<exists>g \<in> pg_in_force view s pid (next_reading s). grant_permission g = perm \<and> scope_matches (grant_scope g) sc ctx)"
    by (auto simp: filter_empty_conv gs(2))
  show ?thesis
  proof (cases "pg_participants view s pid")
    case None
    show ?thesis unfolding authorize_run None option.case
      by (rule wp_mono [OF pg_decision_run [OF s]]) (use None in auto)
  next
    case (Some p)
    show ?thesis
    proof (cases "participant_status p = ACTIVE")
      case False
      then show ?thesis unfolding authorize_run Some option.case if_P [OF False]
        by (intro wp_mono [OF pg_decision_run [OF s]]) (use Some in \<open>auto simp: pg_may_def\<close>)
    next
      case True
      then have active: "(participant_status p \<noteq> ACTIVE) = False" by simp
      note run = authorize_run Some option.case active if_False wp_bind [of "pg_list_permission_grants a b" for a b] list Let_def
      show ?thesis
      proof (cases "pg_may view s (next_reading s) pid perm sc ctx")
        case may: True
        then have some: "(filter (\<lambda>g. grant_permission g = perm \<and> scope_matches (grant_scope g) sc ctx) gs \<noteq> []) = True"
          unfolding matched by (simp add: pg_may_def)
        show ?thesis unfolding run some if_True
          by (rule wp_mono [OF pg_decision_run [OF t]]) (use Some may gs(2) in \<open>auto simp: same\<close>)
      next
        case may: False
        then have none: "(filter (\<lambda>g. grant_permission g = perm \<and> scope_matches (grant_scope g) sc ctx) gs \<noteq> []) = False"
          unfolding matched using Some True by (simp add: pg_may_def)
        show ?thesis unfolding run none if_False
          by (rule wp_mono [OF pg_decision_run [OF t]]) (use Some may in \<open>auto simp: same\<close>)
      qed
    qed
  qed
qed

section \<open>Writing authority\<close>

lemma pg_add_grant_run:
  fixes s :: "('d, 'z) pg_state_scheme"
  assumes s: "pg_auth_ok valid view s" and g: "grant_ok g"
  shows "wp (pg_add_permission_grant sql g)
    (\<lambda>_ t. pg_auth_ok valid view t \<and> pg_grants view t = insert g (pg_grants view s) \<and>
       pg_participants view t = pg_participants view s \<and> pg_assignments view t = pg_assignments view s \<and>
       clock_src t = clock_src s \<and> clock_pos t = clock_pos s)
    (\<lambda>_ t. pg_auth_ok valid view t \<and> rows_of view t = rows_of view s) s"
proof -
  have id: "grow_id (grant_values g) = grant_id g" by (simp add: grant_values_def)
  have ok: "pg_auth_ok valid view (s\<lparr>pg_database := d\<rparr>)" if "valid d" "view d = rows_of view s" for d
    using s that by (simp add: pg_auth_ok_def fresh_uuids_def issued_def)
  note run = insert_transaction [OF grants.sql_table_laws_axioms pg_auth_okD(1) [OF s], of "grant_values g"]
  show ?thesis
  proof (cases "tb_permission_grants (rows_of view s) (grant_id g) = None \<and>
      is_participant (rows_of view s) (grow_participant_id (grant_values g)) \<and> is_role (rows_of view s) (grow_role_id (grant_values g)) \<and>
      is_participant (rows_of view s) (grow_granted_by (grant_values g)) \<and>
      (grow_participant_id (grant_values g) = None) \<noteq> (grow_role_id (grant_values g) = None)")
    case True
    with run obtain d where d: "pg_add_permission_grant sql g s = (Inr (), s\<lparr>pg_database := d\<rparr>)" "valid d"
      "view d = (rows_of view s)\<lparr>tb_permission_grants := (tb_permission_grants (rows_of view s))(grant_id g \<mapsto> grant_values g)\<rparr>"
      unfolding pg_add_permission_grant_def id by auto
    have rows: "ran ((tb_permission_grants (rows_of view s))(grant_id g \<mapsto> grant_values g)) =
        insert (grant_values g) (ran (tb_permission_grants (rows_of view s)))"
      using True by (simp add: ran_map_upd)
    have inj: "grant_values h = grant_values g \<Longrightarrow> grant_ok h \<Longrightarrow> h = g" for h
      using grant_round g by (metis sum.inject(2))
    show ?thesis
      using d s g rows inj
      by (auto simp: wp_def pg_auth_ok_def pg_grants_def pg_participants_def pg_assignments_def fresh_uuids_def issued_def fun_eq_iff)
  next
    case False
    with run obtain x d where "pg_add_permission_grant sql g s = (Inl (IntegrityError x), s\<lparr>pg_database := d\<rparr>)" "valid d"
      "view d = rows_of view s"
      unfolding pg_add_permission_grant_def id by auto
    then show ?thesis using ok by (simp add: wp_def)
  qed
qed

lemma pg_upsert_run:
  fixes s :: "('d, 'z) pg_state_scheme"
  assumes s: "pg_auth_ok valid view s"
  shows "wp (pg_upsert_participant sql p)
    (\<lambda>_ t. pg_auth_ok valid view t \<and> pg_participants view t = (pg_participants view s)(participant_id p \<mapsto> p) \<and>
       pg_grants view t = pg_grants view s \<and> pg_assignments view t = pg_assignments view s \<and>
       clock_src t = clock_src s \<and> clock_pos t = clock_pos s) (\<lambda>_ _. False) s"
proof -
  let ?i = "participant_id p" and ?r = "participant_values p"
  have id: "mrow_id ?r = ?i" by (simp add: participant_values_def)
  note valid = pg_auth_okD(1) [OF s]
  let ?Q = "\<lambda>t. pg_auth_ok valid view t \<and> pg_participants view t = (pg_participants view s)(?i \<mapsto> p) \<and>
       pg_grants view t = pg_grants view s \<and> pg_assignments view t = pg_assignments view s \<and>
       clock_src t = clock_src s \<and> clock_pos t = clock_pos s"
  have stored: "?Q (s\<lparr>pg_database := sql_commit sql d\<rparr>)"
    if d: "valid d" "view d = (rows_of view s)\<lparr>tb_participants := m\<rparr>"
      "\<And>k. m k = (if k = ?i then Some ?r else tb_participants (rows_of view s) k)" for d m
  proof -
    have "ran m \<subseteq> insert ?r (ran (tb_participants (rows_of view s)))" using d(3) by (auto simp: ran_def split: if_splits)
    then have "ran m \<subseteq> range participant_values" using pg_auth_okD(3) [OF s] by auto
    then show ?thesis
      using s commit_law [OF d(1)] d
      by (auto simp: pg_auth_ok_def pg_participants_def pg_grants_def pg_assignments_def fresh_uuids_def issued_def fun_eq_iff
          participant_round)
  qed
  show ?thesis
  proof (cases "tb_participants (rows_of view s) ?i")
    case None
    with participants.insert_into_run [OF valid, of ?r] obtain d where
      "insert_into (t_participants sql) ?r s = (Inr (), s\<lparr>pg_database := d\<rparr>)" "valid d"
      "view d = (rows_of view s)\<lparr>tb_participants := (tb_participants (rows_of view s))(?i \<mapsto> ?r)\<rparr>"
      by (auto simp: id)
    with stored [of d] have "wp (insert_into (t_participants sql) ?r) (\<lambda>_ t. ?Q (t\<lparr>pg_database := sql_commit sql (pg_database t)\<rparr>))
        (\<lambda>_ _. False) s" by (simp add: wp_def)
    then show ?thesis
      unfolding pg_upsert_participant_def wp_transaction wp_bind participants.wp_first_key [OF valid] None by simp
  next
    case (Some r)
    have keyed: "tb_participants (rows_of view s) k = Some q \<Longrightarrow> mrow_id q = k" for k q
      by (rule participants.keyed_law [OF valid])
    have "wp (update_where (t_participants sql) (\<lambda>r. mrow_id r = ?i) (\<lambda>_. ?r))
        (\<lambda>_ t. ?Q (t\<lparr>pg_database := sql_commit sql (pg_database t)\<rparr>)) (\<lambda>_ _. False) s"
    proof (rule participants.wp_update [OF valid], goal_cases)
      case (2 d)
      have "map_option (\<lambda>r. if mrow_id r = ?i then ?r else r) (tb_participants (rows_of view s) k) =
          (if k = ?i then Some ?r else tb_participants (rows_of view s) k)" for k
        using Some by (cases "tb_participants (rows_of view s) k") (auto dest: keyed)
      from stored [OF 2 this] show ?case by simp
    qed (simp_all add: id)
    then show ?thesis
      unfolding pg_upsert_participant_def wp_transaction wp_bind participants.wp_first_key [OF valid] Some by simp
  qed
qed

text \<open>The role of an assignment is stored first when it is a built-in one that the table lacks.\<close>

lemma pg_store_role:
  fixes s :: "('d, 'z) pg_state_scheme"
  assumes s: "valid (pg_database s)"
  shows "wp (case template of
        None \<Rightarrow> returnM ()
      | Some t \<Rightarrow>
          bindM (select_first (t_roles sql) (\<lambda>r. rrow_id r = template_id t)) (\<lambda>existing.
          if existing = None then bindM (to_role t) (\<lambda>r. insert_into (t_roles sql) (role_values r)) else returnM ()))
    (\<lambda>_ t. valid (pg_database t) \<and> uuid_src t = uuid_src s \<and> uuid_pos t = uuid_pos s \<and>
       (\<exists>m. rows_of view t = (rows_of view s)\<lparr>tb_roles := m\<rparr>))
    (\<lambda>_ t. valid (pg_database t) \<and> uuid_src t = uuid_src s \<and> uuid_pos t = uuid_pos s) s"
proof -
  have same: "\<exists>m. rows_of view s = (rows_of view s)\<lparr>tb_roles := m\<rparr>" by (rule exI [of _ "tb_roles (rows_of view s)"]) simp
  show ?thesis
  proof (cases template)
    case None
    with s same show ?thesis by (simp add: wp_rules)
  next
    case (Some t)
    show ?thesis
    proof (cases "tb_roles (rows_of view s) (template_id t)")
      case None
      let ?s = "s\<lparr>clock_pos := Suc (clock_pos s)\<rparr>"
      have "wp (insert_into (t_roles sql) r)
          (\<lambda>_ t. valid (pg_database t) \<and> uuid_src t = uuid_src s \<and> uuid_pos t = uuid_pos s \<and>
             (\<exists>m. rows_of view t = (rows_of view s)\<lparr>tb_roles := m\<rparr>))
          (\<lambda>_ t. valid (pg_database t) \<and> uuid_src t = uuid_src s \<and> uuid_pos t = uuid_pos s) ?s" for r
        by (rule roles.wp_insert_into) (use s in auto)
      then show ?thesis
        unfolding Some option.case wp_bind roles.wp_first_key [OF s] None
        by (simp add: to_role_def wp_bind wp_now wp_return)
    next
      case (Some r)
      show ?thesis
        unfolding \<open>template = Some t\<close> option.case wp_bind roles.wp_first_key [OF s] Some
        using s same by (simp add: wp_return)
    qed
  qed
qed

lemma pg_add_assignment_run:
  fixes s :: "('d, 'z) pg_state_scheme"
  assumes s: "pg_auth_ok valid view s" and a: "scope_ok (assignment_scope a)"
  shows "wp (pg_add_role_assignment sql a)
    (\<lambda>_ t. pg_auth_ok valid view t \<and> pg_assignments view t = insert a (pg_assignments view s) \<and>
       pg_participants view t = pg_participants view s \<and> pg_grants view t = pg_grants view s)
    (\<lambda>_ t. pg_auth_ok valid view t \<and> rows_of view t = rows_of view s) s"
proof -
  have id: "arow_id (assignment_values a) = assignment_id a" by (simp add: assignment_values_def)
  have inj: "assignment_values b = assignment_values a \<Longrightarrow> scope_ok (assignment_scope b) \<Longrightarrow> b = a" for b
    using assignment_round a by (metis sum.inject(2))
  have undone: "pg_auth_ok valid view (t\<lparr>pg_database := sql_rollback sql (pg_database s) (pg_database t)\<rparr>) \<and>
      view (sql_rollback sql (pg_database s) (pg_database t)) = rows_of view s"
    if "valid (pg_database t)" "uuid_src t = uuid_src s" "uuid_pos t = uuid_pos s" for t :: "('d, 'z) pg_state_scheme"
    using s rollback_law [OF pg_auth_okD(1) [OF s] that(1)] by (simp add: that pg_auth_ok_def fresh_uuids_def issued_def)
  have stored: "pg_auth_ok valid view (t\<lparr>pg_database := sql_commit sql d\<rparr>) \<and>
      pg_assignments view (t\<lparr>pg_database := sql_commit sql d\<rparr>) = insert a (pg_assignments view s) \<and>
      pg_participants view (t\<lparr>pg_database := sql_commit sql d\<rparr>) = pg_participants view s \<and>
      pg_grants view (t\<lparr>pg_database := sql_commit sql d\<rparr>) = pg_grants view s"
    if t: "uuid_src t = uuid_src s" "uuid_pos t = uuid_pos s" and d: "valid d"
      and new: "tb_participant_roles (rows_of view s) (assignment_id a) = None"
      and view: "view d = (rows_of view s)\<lparr>tb_roles := m,
        tb_participant_roles := (tb_participant_roles (rows_of view s))(assignment_id a \<mapsto> assignment_values a)\<rparr>"
    for t :: "('d, 'z) pg_state_scheme" and d m
    using s commit_law [OF d] view new a inj
    by (auto simp: t pg_auth_ok_def pg_grants_def pg_participants_def pg_assignments_def fresh_uuids_def issued_def fun_eq_iff
        ran_map_upd)
  have insert: "wp (insert_into (t_participant_roles sql) (assignment_values a))
      (\<lambda>_ u. pg_auth_ok valid view (u\<lparr>pg_database := sql_commit sql (pg_database u)\<rparr>) \<and>
        pg_assignments view (u\<lparr>pg_database := sql_commit sql (pg_database u)\<rparr>) = insert a (pg_assignments view s) \<and>
        pg_participants view (u\<lparr>pg_database := sql_commit sql (pg_database u)\<rparr>) = pg_participants view s \<and>
        pg_grants view (u\<lparr>pg_database := sql_commit sql (pg_database u)\<rparr>) = pg_grants view s)
      (\<lambda>_ u. valid (pg_database u) \<and> uuid_src u = uuid_src s \<and> uuid_pos u = uuid_pos s) t"
    if t: "valid (pg_database t)" "uuid_src t = uuid_src s" "uuid_pos t = uuid_pos s" "rows_of view t = (rows_of view s)\<lparr>tb_roles := m\<rparr>"
    for t :: "('d, 'z) pg_state_scheme" and m
    by (rule assignments.wp_insert_into [OF t(1)]) (use t stored [of t _ m] in \<open>simp_all add: id\<close>)
  show ?thesis
  proof (cases "template_for (assignment_role_id a)")
    case (Inl e)
    then show ?thesis using s by (simp add: pg_add_role_assignment_def wp_bind wp_lift)
  next
    case (Inr template)
    show ?thesis
      unfolding pg_add_role_assignment_def wp_bind wp_lift wp_transaction Inr sum.case
    proof (rule wp_mono [OF pg_store_role [OF pg_auth_okD(1) [OF s]]], goal_cases)
      case (1 x t)
      then obtain m where "rows_of view t = (rows_of view s)\<lparr>tb_roles := m\<rparr>" by blast
      with 1 show ?case by (intro wp_mono [OF insert]) (auto simp: undone)
    qed (auto simp: undone)
  qed
qed

end

section \<open>Authority over the database\<close>

text \<open>
  Property C35. Over the database, authorization decides exactly by the rows. For a participant with a row it returns
  a decision, which allows the request when, and only when, he is active and an unrevoked, unexpired grant of that
  permission, his own or one of a role he actively holds, covers the target; it names those grants and adds
  one audit row that tells its outcome, and changes nothing else. For a participant without a row it does not deny: the
  audit row would refer to nobody, so the call raises an integrity error and changes no row.
\<close>

theorem durable_authorize_exact:
  fixes s :: "('d, 'z) pg_state_scheme"
  assumes "sql_database sql valid view" and "pg_auth_ok valid view s"
  shows "case authorize (postgres_repository sql) pid perm sc ctx s of
      (Inr d, t) \<Rightarrow> pg_auth_ok valid view t \<and> pg_participants view s pid \<noteq> None \<and>
        decision_allowed d = pg_may view s (next_reading s) pid perm sc ctx \<and>
        set (decision_matched_grant_ids d) = (if decision_allowed d then grant_id ` {g \<in> pg_in_force view s pid (next_reading s).
          grant_permission g = perm \<and> scope_matches (grant_scope g) sc ctx} else {}) \<and>
        (\<exists>e. rows_of view t = (rows_of view s)\<lparr>tb_audit_events := (tb_audit_events (rows_of view s))(audit_id e \<mapsto> audit_values e)\<rparr> \<and>
           tb_audit_events (rows_of view s) (audit_id e) = None \<and>
           audit_participant_id e = Some pid \<and> audit_permission e = Some perm \<and> audit_scope e = Some sc \<and>
           audit_allowed e = Some (decision_allowed d))
    | (Inl e, t) \<Rightarrow> (\<exists>x. e = IntegrityError x) \<and> pg_auth_ok valid view t \<and> pg_participants view s pid = None \<and>
        rows_of view t = rows_of view s"
  using sql_database.pg_authorize_run [OF assms, of pid perm sc ctx] unfolding wp_def .

definition sample_holder :: participant where
  "sample_holder = \<lparr>participant_id = ''bob'', participant_type = HUMAN, participant_display_name = None,
     participant_status = ACTIVE, participant_trust_level = None, participant_auth_method = None,
     participant_metadata = [], participant_created_at = 0, participant_archived_at = None\<rparr>"

definition sample_power :: permission_grant where
  "sample_power = \<lparr>grant_id = UUID ''g'', grant_permission = CARD_CREATE, grant_scope = \<lparr>scope_type = PATCH_PANEL, scope_id = Some ''p''\<rparr>,
     grant_participant_id = Some ''bob'', grant_role_id = None, grant_granted_by = None, grant_expires_at = None,
     grant_created_at = 0, grant_revoked_at = None, grant_metadata = []\<rparr>"

definition sample_people_rows :: "list_db pg_state" where
  "sample_people_rows = \<lparr>uuid_src = (\<lambda>n. UUID (replicate n CHR ''x'')), uuid_pos = 0, clock_src = int, clock_pos = 1,
     pg_database = empty_list_db\<lparr>ld_participants := [(''bob'', participant_values sample_holder)]\<rparr>\<rparr>"

definition sample_authority_rows :: "list_db pg_state" where
  "sample_authority_rows = sample_people_rows\<lparr>pg_database := (pg_database sample_people_rows)\<lparr>ld_permission_grants :=
     [(UUID ''g'', grant_values sample_power)]\<rparr>\<rparr>"

lemma sample_power_ok: "grant_ok sample_power"
  by (simp add: sample_power_def grant_ok_def scope_ok_def validate_scope_id_def validate_grant_target_def truthy_def)

lemma sample_row_ids: "mrow_id (participant_values sample_holder) = ''bob''" "grow_id (grant_values sample_power) = UUID ''g''"
  by code_simp+

lemma sample_keys: "inj (\<lambda>n. UUID (replicate n CHR ''x''))"
  by (rule injI) simp

lemma sample_people_rows_ok: "pg_auth_ok list_valid list_view sample_people_rows"
  using sample_keys
  by (auto simp: pg_auth_ok_def sample_people_rows_def empty_list_db_def list_valid_def list_view_def py.keyed_def fresh_uuids_def
      sample_row_ids ran_def)

lemma sample_authority_rows_ok: "pg_auth_ok list_valid list_view sample_authority_rows"
  using sample_people_rows_ok sample_power_ok
  by (auto simp: pg_auth_ok_def sample_authority_rows_def sample_people_rows_def empty_list_db_def list_valid_def list_view_def
      py.keyed_def fresh_uuids_def issued_def sample_row_ids ran_def)

theorem durable_authorize_exact_witness:
  "\<exists>d t. authorize (postgres_repository list_sql) ''bob'' CARD_CREATE \<lparr>scope_type = PATCH_PANEL, scope_id = Some ''p''\<rparr> None
       sample_authority_rows = (Inr d, t) \<and>
     pg_may list_view sample_authority_rows 1 ''bob'' CARD_CREATE \<lparr>scope_type = PATCH_PANEL, scope_id = Some ''p''\<rparr> None"
proof -
  let ?run = "authorize (postgres_repository list_sql) ''bob'' CARD_CREATE \<lparr>scope_type = PATCH_PANEL, scope_id = Some ''p''\<rparr> None
       sample_authority_rows"
  have "(case ?run of (Inr d, _) \<Rightarrow> decision_allowed d | _ \<Rightarrow> False)" by code_simp
  then obtain d t where run: "?run = (Inr d, t)" and allowed: "decision_allowed d" by (auto split: prod.splits sum.splits)
  have "next_reading sample_authority_rows = 1" by code_simp
  with durable_authorize_exact [OF list_db.sql_database_axioms sample_authority_rows_ok, of "''bob''" CARD_CREATE
      "\<lparr>scope_type = PATCH_PANEL, scope_id = Some ''p''\<rparr>" None] run allowed
  show ?thesis by simp
qed

text \<open>
  A grant written to the database takes effect at the next decision: when storing a grant to an
  active participant returns, and the grant is in force and covers the target, the next authorization of that participant
  for it allows. When storing it raises, because its id is taken or it refers to nobody, no row has changed.
\<close>

theorem durable_grant_takes_effect:
  fixes s :: "('d, 'z) pg_state_scheme"
  assumes "sql_database sql valid view" and "pg_auth_ok valid view s" and "grant_ok g"
    and "pg_participants view s pid = Some p" and "participant_status p = ACTIVE"
    and "grant_participant_id g = Some pid" and "grant_is_active g (next_reading s)" and "grant_permission g = perm"
    and "scope_matches (grant_scope g) sc ctx"
  shows "case pg_add_permission_grant sql g s of
      (Inr _, t) \<Rightarrow> \<exists>d u. authorize (postgres_repository sql) pid perm sc ctx t = (Inr d, u) \<and> decision_allowed d \<and>
        grant_id g \<in> set (decision_matched_grant_ids d)
    | (Inl e, t) \<Rightarrow> rows_of view t = rows_of view s"
proof (cases "pg_add_permission_grant sql g s")
  case (Pair r t)
  note stored = sql_database.pg_add_grant_run [OF assms(1-3), unfolded wp_def Pair prod.case]
  show ?thesis
  proof (cases r)
    case (Inl e)
    with stored show ?thesis by (simp add: Pair)
  next
    case (Inr x)
    with stored have t: "pg_auth_ok valid view t" "g \<in> pg_grants view t" "pg_participants view t = pg_participants view s"
      "next_reading t = next_reading s" by (auto simp: next_reading_def)
    then have "g \<in> pg_in_force view t pid (next_reading t)" using assms(6,7) by (simp add: pg_in_force_def)
    moreover from this have "pg_may view t (next_reading t) pid perm sc ctx" using t assms(4,5,8,9) by (auto simp: pg_may_def)
    ultimately have "wp (authorize (postgres_repository sql) pid perm sc ctx)
        (\<lambda>d u. decision_allowed d \<and> grant_id g \<in> set (decision_matched_grant_ids d)) (\<lambda>_ _. False) t"
      using t(3) assms(4,8,9) by (intro wp_mono [OF sql_database.pg_authorize_run [OF assms(1) t(1)]]) auto
    then show ?thesis by (auto simp: Pair Inr wp_def split: prod.splits sum.splits)
  qed
qed

theorem durable_grant_takes_effect_witness:
  "case pg_add_permission_grant list_sql sample_power sample_people_rows of
      (Inr _, t) \<Rightarrow> \<exists>d u. authorize (postgres_repository list_sql) ''bob'' CARD_CREATE (grant_scope sample_power) None t = (Inr d, u) \<and>
        decision_allowed d \<and> UUID ''g'' \<in> set (decision_matched_grant_ids d)
    | (Inl _, _) \<Rightarrow> False"
proof -
  have "pg_participants list_view sample_people_rows ''bob'' = Some sample_holder" "participant_status sample_holder = ACTIVE"
    "grant_participant_id sample_power = Some ''bob''" "grant_is_active sample_power (next_reading sample_people_rows)"
    "grant_permission sample_power = CARD_CREATE" "scope_matches (grant_scope sample_power) (grant_scope sample_power) None"
    "grant_id sample_power = UUID ''g''" by code_simp+
  moreover have "(case pg_add_permission_grant list_sql sample_power sample_people_rows of (Inr _, _) \<Rightarrow> True | _ \<Rightarrow> False)"
    by code_simp
  ultimately show ?thesis
    using durable_grant_takes_effect [OF list_db.sql_database_axioms sample_people_rows_ok sample_power_ok]
    by (auto split: prod.splits sum.splits)
qed

end
