(* ===== verification/PostgresLeases.thy ===== *)
theory PostgresLeases
  imports PostgresContract
begin

text \<open>
  Leases in the database: no operation of the durable runtime gives a card a second holder. The store of
  \<^verbatim>\<open>src/src/ghostmesh/runtime/sqlalchemy_store.py\<close>, class \<^verbatim>\<open>PostgresLeaseStore\<close>, works on the same tables and keeps
  the same invariant.
\<close>

section \<open>The lease store\<close>

definition store_get_idempotency :: "'d sql \<Rightarrow> string \<Rightarrow> (('d, 'z) pg_state_scheme, string option) M" where
  "store_get_idempotency sql key =
     bindM (select_first (t_idempotency_records sql) (\<lambda>r. idem_key r = key)) (\<lambda>row.
     returnM (map_option idem_response_ref row))"

definition store_store_idempotency :: "'d sql \<Rightarrow> string \<Rightarrow> string \<Rightarrow> (('d, 'z) pg_state_scheme, unit) M" where
  "store_store_idempotency sql key ref =
     bindM now_utc (\<lambda>t. \<lambda>s.
     (case insert_into (t_idempotency_records sql)
            \<lparr>idem_key = key, idem_operation = ''lease.acquire'', idem_response_ref = ref, idem_created_at = t\<rparr> s of
        (Inl (IntegrityError _), u) \<Rightarrow> (Inl (ConflictError (''idempotency key '' @ quoted key @ '' already exists'')), u)
      | r \<Rightarrow> r))"

text \<open>The part of \<^verbatim>\<open>acquire_lease\<close> after the row of the card is found.\<close>

definition store_take_lease ::
  "'d sql \<Rightarrow> uuid \<Rightarrow> string \<Rightarrow> string \<Rightarrow> string \<Rightarrow> int \<Rightarrow> string option \<Rightarrow> (('d, 'z) pg_state_scheme, uuid) M" where
  "store_take_lease sql cid node worker pipe seconds key =
     bindM now_utc (\<lambda>t.
     bindM (select_first (t_leases sql) (\<lambda>l. lease_card_id l = cid \<and> lease_released_at l = None \<and> lease_expires_at l > t)) (\<lambda>active.
     if active \<noteq> None
     then raiseM (ConflictError (''card '' @ quoted (uuid_str cid) @ '' already has an active lease''))
     else
       bindM uuid4 (\<lambda>i.
       bindM now_utc (\<lambda>claimed.
       bindM now_utc (\<lambda>t'.
       bindM (liftM (plus_seconds t' seconds)) (\<lambda>expires.
       bindM (insert_into (t_leases sql)
          \<lparr>lease_id = i, lease_card_id = cid, lease_node_id = node, lease_worker_id = worker, lease_input_pipe = pipe,
           lease_claimed_at = claimed, lease_expires_at = expires, lease_released_at = None\<rparr>) (\<lambda>_.
       bindM (if truthy key then store_store_idempotency sql (the key) (uuid_str i) else returnM ()) (\<lambda>_.
       returnM i))))))))"

definition store_acquire_lease ::
  "(string \<Rightarrow> uuid res) \<Rightarrow> 'd sql \<Rightarrow> uuid \<Rightarrow> string \<Rightarrow> string \<Rightarrow> string \<Rightarrow> int \<Rightarrow> string option \<Rightarrow> (('d, 'z) pg_state_scheme, uuid) M" where
  "store_acquire_lease parse sql cid node worker pipe seconds key =
     transaction sql (
       bindM (if truthy key then store_get_idempotency sql (the key) else returnM None) (\<lambda>cached.
       if truthy cached then liftM (parse (the cached))
       else
         bindM (select_first (t_cards sql) (\<lambda>c. card_id c = cid)) (\<lambda>row.
         if row = None then raiseM (NotFoundError (''card '' @ quoted (uuid_str cid) @ '' does not exist''))
         else store_take_lease sql cid node worker pipe seconds key)))"

definition store_release_lease :: "'d sql \<Rightarrow> uuid \<Rightarrow> (('d, 'z) pg_state_scheme, unit) M" where
  "store_release_lease sql lid =
     transaction sql (
       bindM now_utc (\<lambda>t.
       bindM (update_count (t_leases sql) (\<lambda>l. lease_id l = lid \<and> lease_released_at l = None)
                (\<lambda>l. l\<lparr>lease_released_at := Some t\<rparr>)) (\<lambda>n.
       if n = 0 then raiseM (NotFoundError (''active lease '' @ quoted (uuid_str lid) @ '' does not exist''))
       else returnM ())))"

section \<open>The invariant\<close>

definition pg_exclusive :: "('d \<Rightarrow> tables) \<Rightarrow> ('d, 'z) pg_state_scheme \<Rightarrow> bool" where
  "pg_exclusive view s \<longleftrightarrow>
     (\<forall>i l j m. tb_leases (tables_of view s) i = Some l \<and> tb_leases (tables_of view s) j = Some m \<and>
        lease_card_id l = lease_card_id m \<and> lease_active (next_reading s) l \<and> lease_active (next_reading s) m \<longrightarrow> i = j)"

definition pg_lease_ok :: "('d \<Rightarrow> bool) \<Rightarrow> ('d \<Rightarrow> tables) \<Rightarrow> ('d, 'z) pg_state_scheme \<Rightarrow> bool" where
  "pg_lease_ok valid view s \<longleftrightarrow> valid (pg_database s) \<and> mono (clock_src s) \<and> pg_exclusive view s"

interpretation ls: kept "pg_lease_ok valid view" moved_on for valid view
  by unfold_locales (auto simp: moved_on_def)

lemma moved_on_reading: "moved_on s t \<Longrightarrow> mono (clock_src s) \<Longrightarrow> next_reading s \<le> next_reading t"
  by (simp add: moved_on_def next_reading_def mono_def)

text \<open>Time passes and leases end: every lease of the later state was one before, of the same card and as long active.\<close>

lemma exclusive_later:
  assumes s: "pg_lease_ok valid view s" and t: "valid (pg_database t)" "moved_on s t"
    and weaker: "\<And>i m. tb_leases (tables_of view t) i = Some m \<Longrightarrow>
      \<exists>l. tb_leases (tables_of view s) i = Some l \<and> lease_card_id m = lease_card_id l \<and> (\<forall>x. lease_active x m \<longrightarrow> lease_active x l)"
  shows "pg_lease_ok valid view t \<and> moved_on s t"
proof -
  have le: "next_reading s \<le> next_reading t" using moved_on_reading [OF t(2)] s by (simp add: pg_lease_ok_def)
  have "pg_exclusive view t"
    unfolding pg_exclusive_def
  proof (intro allI impI, elim conjE)
    fix i l j m
    assume rows: "tb_leases (tables_of view t) i = Some l" "tb_leases (tables_of view t) j = Some m"
      and card: "lease_card_id l = lease_card_id m" and active: "lease_active (next_reading t) l" "lease_active (next_reading t) m"
    obtain l' where l: "tb_leases (tables_of view s) i = Some l'" "lease_card_id l = lease_card_id l'" "lease_active (next_reading s) l'"
      using weaker [OF rows(1)] active(1) lease_active_mono [OF _ le] by auto
    obtain m' where m: "tb_leases (tables_of view s) j = Some m'" "lease_card_id m = lease_card_id m'" "lease_active (next_reading s) m'"
      using weaker [OF rows(2)] active(2) lease_active_mono [OF _ le] by auto
    have "pg_exclusive view s" using s by (simp add: pg_lease_ok_def)
    with l m card show "i = j" unfolding pg_exclusive_def by auto
  qed
  with s t show ?thesis by (simp add: pg_lease_ok_def moved_on_def)
qed

context sql_database
begin

abbreviation safe :: "(('d, 'z) pg_state_scheme, 'a) M \<Rightarrow> bool" where
  "safe \<equiv> kept.tame (pg_lease_ok valid view) moved_on"

lemma lease_step:
  assumes "pg_lease_ok valid view s" and "valid (pg_database t)" "moved_on s t"
    and "tb_leases (tables_of view t) = tb_leases (tables_of view s)"
  shows "pg_lease_ok valid view t \<and> moved_on s t"
  by (rule exclusive_later [OF assms(1-3)]) (simp add: assms(4))

lemma lease_valid: "pg_lease_ok valid view s \<Longrightarrow> valid (pg_database s)"
  by (simp add: pg_lease_ok_def)

lemma safe_draw: "safe uuid4" "safe now_utc"
  by (rule ls.tameI, unfold wp_rules, rule lease_step, auto simp: moved_on_def lease_valid)+

lemma safe_select: "safe (select_where tab P)" "safe (select_first tab P)"
  unfolding select_first_def select_where_def by (intro ls.tame_gets ls.tame_bind ls.tame_return)+

lemma safe_insert:
  assumes "sql_table_laws tab valid view get put key refers" and "\<And>m v. tb_leases (put m v) = tb_leases v"
  shows "safe (insert_into tab r)"
proof (rule ls.tameI, rule sql_table_laws.wp_insert_into [OF assms(1)], goal_cases)
  case (1 s)
  then show ?case by (rule lease_valid)
next
  case (2 s d)
  then show ?case by (intro lease_step) (auto simp: moved_on_def assms(2))
next
  case (3 s e)
  then show ?case by (simp add: ls.kept_refl)
qed

lemma safe_update:
  assumes "sql_table_laws tab valid view get put key refers" and "\<And>m v. tb_leases (put m v) = tb_leases v"
    and "\<And>r. key (f r) = key r"
  shows "safe (update_where tab P f)"
proof (rule ls.tameI, rule sql_table_laws.wp_update [OF assms(1) _ assms(3)], goal_cases)
  case (1 s)
  then show ?case by (rule lease_valid)
next
  case (2 s d)
  then show ?case by (intro lease_step) (auto simp: moved_on_def assms(2))
next
  case (3 s x r)
  then show ?case by (simp add: ls.kept_refl)
qed

lemma safe_release: "safe (update_where (t_leases sql) P (\<lambda>r. r\<lparr>lease_released_at := Some x\<rparr>))"
proof (rule ls.tameI, rule leases.wp_update, goal_cases)
  case (1 s)
  then show ?case by (rule lease_valid)
next
  case (3 s d)
  then show ?case
    by (intro exclusive_later) (auto simp: moved_on_def lease_active_def split: if_splits)
qed (auto simp: ls.kept_refl)

lemma safe_transaction:
  fixes m :: "(('d, 'z) pg_state_scheme, 'a) M"
  assumes "safe m"
  shows "safe (transaction sql m)"
proof (rule ls.tameI)
  fix s :: "('d, 'z) pg_state_scheme"
  assume s: "pg_lease_ok valid view s"
  show "wp (transaction sql m) (\<lambda>_ u. pg_lease_ok valid view u \<and> moved_on s u) (\<lambda>_ u. pg_lease_ok valid view u \<and> moved_on s u) s"
    unfolding wp_transaction
  proof (rule wp_mono [OF ls.tame_wp [OF assms s]], goal_cases)
    case (1 x t)
    have "pg_lease_ok valid view u \<and> moved_on t u" if "u = t\<lparr>pg_database := sql_commit sql (pg_database t)\<rparr>" for u
      using commit_law [of "pg_database t"] 1 that by (intro lease_step) (auto simp: moved_on_def lease_valid)
    then show ?case using 1 by (blast intro: ls.kept_trans)
  next
    case (2 e t)
    then show ?case
      using rollback_law [of "pg_database s" "pg_database t"] s by (intro lease_step) (auto simp: moved_on_def lease_valid)
  qed
qed

lemmas safe_inserts =
  safe_insert [OF panels.sql_table_laws_axioms, simplified] safe_insert [OF versions.sql_table_laws_axioms, simplified]
  safe_insert [OF buckets.sql_table_laws_axioms, simplified] safe_insert [OF locations.sql_table_laws_axioms, simplified]
  safe_insert [OF cards.sql_table_laws_axioms, simplified] safe_insert [OF results.sql_table_laws_axioms, simplified]
  safe_insert [OF artifacts.sql_table_laws_axioms, simplified] safe_insert [OF events.sql_table_laws_axioms, simplified]
  safe_insert [OF keys.sql_table_laws_axioms, simplified]

lemmas safe_updates = safe_update [OF locations.sql_table_laws_axioms, simplified]
  safe_update [OF cards.sql_table_laws_axioms, simplified] safe_release

lemma safe_store: "safe (pg_store_idempotency sql key operation ref)"
proof -
  have "safe (\<lambda>s. case insert_into (t_idempotency_records sql) r s of (Inl (IntegrityError x), u) \<Rightarrow> (Inl err, u) | r \<Rightarrow> r)" for r err
    by (rule ls.tameI, rule wp_catch, rule ls.tame_wp [OF safe_inserts(9)])
  then show ?thesis
    unfolding pg_store_idempotency_def by (auto intro!: ls.tame_basic safe_draw)
qed

lemmas safe_rules = ls.tame_return ls.tame_raise ls.tame_lift ls.tame_bind ls.tame_forM safe_draw safe_select
  safe_inserts safe_updates safe_store safe_transaction

lemma safe_lookups:
  "safe (pg_get_card sql cid)" "safe (pg_get_event sql eid)" "safe (pg_get_lease sql lid)"
  "safe (pg_get_artifacts sql ids)" "safe (pg_get_active_patch_panel cd sql pid)" "safe (pg_single_patch_panel cd sql)"
  "safe (pg_get_patch_panel_for_card cd sql c)" "safe (pg_get_idempotency sql key)"
  by (auto simp: pg_get_card_def pg_get_event_def pg_get_lease_def pg_get_artifacts_def pg_get_active_patch_panel_def
      pg_single_patch_panel_def pg_get_patch_panel_for_card_def pg_get_idempotency_def Let_def
      split: option.split list.split intro!: safe_rules)

lemma safe_helpers:
  "safe (new_card wv b payload md)" "safe (pg_log sql cid ty actor data)"
  "safe (new_validation_result cid v a reason opipe payload)" "safe (ensure_active_lease l)"
  "safe (pg_insert_location sql cid b t)" "safe (pg_replay_lease cd sql ref)" "safe (pg_replay_event cd sql ref)"
  "safe (pg_replay_artifacts cd sql ref)" "safe (pg_move_card_row sql c b actor reason emit)"
  by (auto simp: new_card_def new_card_event_def new_validation_result_def ensure_active_lease_def pg_log_def pg_insert_event_def
      pg_insert_location_def pg_replay_lease_def pg_replay_event_def pg_replay_artifacts_def pg_move_card_row_def
      intro!: safe_rules safe_lookups)

lemma safe_idempotently:
  "(\<And>ref. safe (replay ref)) \<Longrightarrow> safe body \<Longrightarrow> safe (pg_idempotently sql key replay body)"
  unfolding pg_idempotently_def by (auto intro!: safe_rules safe_lookups)

lemmas safe_steps = safe_rules safe_lookups safe_helpers safe_idempotently

lemma safe_calls:
  "safe (pg_register_patch_panel nx cd sql p)" "safe (pg_create_card cd sql pid payload md key)"
  "safe (pg_submit_artifact cd sql lid pipe refs key)" "safe (pg_release_lease cd sql lid actor key)"
  "safe (pg_expire_leases sql)" "safe (pg_validate_card cd sql cid v a r opipe data key)"
  "safe (pg_move_card cd sql cid b actor reason key)" "safe (pg_record_event cd sql cid ty actor data key)"
  unfolding pg_register_patch_panel_def pg_create_card_def pg_create_body_def pg_submit_artifact_def pg_release_lease_def
    pg_expire_leases_def pg_validate_card_def pg_move_card_def pg_record_event_def Let_def
  by (auto intro!: safe_steps)

text \<open>Granting a lease on a card that had no active one at an earlier reading of the clock.\<close>

lemma grant_step:
  fixes s :: "('d, 'z) pg_state_scheme"
  assumes s: "pg_lease_ok valid view s" and x: "x \<le> next_reading s"
    and free: "\<And>i m. tb_leases (tables_of view s) i = Some m \<Longrightarrow> lease_card_id m = lease_card_id l \<Longrightarrow> \<not> lease_active x m"
  shows "wp (insert_into (t_leases sql) l) (\<lambda>_ t. pg_lease_ok valid view t \<and> moved_on s t) (\<lambda>_ t. pg_lease_ok valid view t \<and> moved_on s t) s"
proof (rule leases.wp_insert_into)
  show "valid (pg_database s)" using s by (rule lease_valid)
  fix d
  assume d: "valid d" "view d = tb_leases_update (\<lambda>_. (tb_leases (tables_of view s))(lease_id l \<mapsto> l)) (tables_of view s)"
  have idle: "\<not> lease_active (next_reading s) m" if "tb_leases (tables_of view s) i = Some m" "lease_card_id m = lease_card_id l" for i m
    using free [OF that] x lease_active_mono by blast
  have "pg_exclusive view s" using s by (simp add: pg_lease_ok_def)
  then have "pg_exclusive view (s\<lparr>pg_database := d\<rparr>)"
    using idle unfolding pg_exclusive_def by (simp add: d(2) next_reading_def) metis
  with s d(1) show "pg_lease_ok valid view (s\<lparr>pg_database := d\<rparr>) \<and> moved_on s (s\<lparr>pg_database := d\<rparr>)"
    by (simp add: pg_lease_ok_def moved_on_def)
qed (simp add: s ls.kept_refl)

text \<open>Extending a lease that was the active one of its card at an earlier reading.\<close>

lemma extend_step:
  fixes s :: "('d, 'z) pg_state_scheme"
  assumes s: "pg_lease_ok valid view s" and x: "x \<le> next_reading s"
    and sole: "\<And>i m. tb_leases (tables_of view s) i = Some m \<Longrightarrow> lease_card_id m = lease_card_id l \<Longrightarrow> lease_active x m \<Longrightarrow> i = lease_id l"
    and l: "\<And>m. tb_leases (tables_of view s) (lease_id l) = Some m \<Longrightarrow> lease_card_id m = lease_card_id l"
  shows "wp (update_where (t_leases sql) (\<lambda>r. lease_id r = lease_id l) (\<lambda>r. r\<lparr>lease_expires_at := e\<rparr>))
    (\<lambda>_ t. pg_lease_ok valid view t \<and> moved_on s t) (\<lambda>_ t. pg_lease_ok valid view t \<and> moved_on s t) s"
proof (rule leases.wp_update)
  show valid: "valid (pg_database s)" using s by (rule lease_valid)
  fix d
  assume d: "valid d" "view d = tb_leases_update (\<lambda>_ k. map_option (\<lambda>r. if lease_id r = lease_id l then r\<lparr>lease_expires_at := e\<rparr> else r)
      (tb_leases (tables_of view s) k)) (tables_of view s)"
  have keyed: "tb_leases (tables_of view s) k = Some q \<Longrightarrow> lease_id q = k" for k q
    by (rule leases.keyed_law [OF valid])
  have late: "i = lease_id l" if "tb_leases (tables_of view s) i = Some m" "lease_card_id m = lease_card_id l" "lease_active (next_reading s) m" for i m
    using sole [OF that(1,2)] lease_active_mono [OF that(3) x] by blast
  have other: "tb_leases (tables_of view s) i = Some m" if "tb_leases (view d) i = Some m" "i \<noteq> lease_id l" for i m
    using that keyed by (auto simp: d(2) split: if_splits)
  have this_card: "lease_card_id m = lease_card_id l" if "tb_leases (view d) (lease_id l) = Some m" for m
    using that l by (auto simp: d(2) split: if_splits)
  have "pg_exclusive view (s\<lparr>pg_database := d\<rparr>)"
    unfolding pg_exclusive_def
  proof (intro allI impI, elim conjE, rule ccontr)
    fix i p j q
    assume "tb_leases (tables_of view (s\<lparr>pg_database := d\<rparr>)) i = Some p" "tb_leases (tables_of view (s\<lparr>pg_database := d\<rparr>)) j = Some q"
      and active: "lease_active (next_reading (s\<lparr>pg_database := d\<rparr>)) p" "lease_active (next_reading (s\<lparr>pg_database := d\<rparr>)) q"
      and card: "lease_card_id p = lease_card_id q" and "i \<noteq> j"
    then have rows: "tb_leases (view d) i = Some p" "tb_leases (view d) j = Some q"
      and now: "lease_active (next_reading s) p" "lease_active (next_reading s) q" by (simp_all add: next_reading_def)
    consider "i = lease_id l" | "j = lease_id l" | "i \<noteq> lease_id l" "j \<noteq> lease_id l" by blast
    then show False
    proof cases
      case 1
      with \<open>i \<noteq> j\<close> rows late [OF other [OF rows(2)] _ now(2)] this_card [of p] card show False by auto
    next
      case 2
      with \<open>i \<noteq> j\<close> rows late [OF other [OF rows(1)] _ now(1)] this_card [of q] card show False by auto
    next
      case 3
      with other [OF rows(1)] other [OF rows(2)] card now \<open>i \<noteq> j\<close> s show False
        unfolding pg_lease_ok_def pg_exclusive_def by blast
    qed
  qed
  with s d(1) show "pg_lease_ok valid view (s\<lparr>pg_database := d\<rparr>) \<and> moved_on s (s\<lparr>pg_database := d\<rparr>)"
    by (simp add: pg_lease_ok_def moved_on_def)
qed (simp_all add: s ls.kept_refl)

lemma wp_select_first:
  "wp (select_first tab P) Q E s = Q (case sql_select tab P (pg_database s) of [] \<Rightarrow> None | r # _ \<Rightarrow> Some r) s"
  by (simp add: select_first_def wp_rules)

lemma safe_after:
  fixes m :: "(('d, 'z) pg_state_scheme, 'a) M"
  assumes "safe m" and "pg_lease_ok valid view t" and "moved_on s t"
  shows "wp m (\<lambda>_ u. pg_lease_ok valid view u \<and> moved_on s u) (\<lambda>_ u. pg_lease_ok valid view u \<and> moved_on s u) t"
  using assms by (intro wp_mono [OF ls.tame_wp [OF assms(1,2)]]) (auto intro: ls.kept_trans)

lemma grant_after:
  fixes s :: "('d, 'z) pg_state_scheme"
  assumes t: "pg_lease_ok valid view t" "moved_on s t" and x: "x \<le> next_reading t"
    and free: "\<And>i m. tb_leases (tables_of view t) i = Some m \<Longrightarrow> lease_card_id m = lease_card_id l \<Longrightarrow> \<not> lease_active x m"
    and f: "safe f"
  shows "wp (bindM (insert_into (t_leases sql) l) (\<lambda>_. f)) (\<lambda>_ u. pg_lease_ok valid view u \<and> moved_on s u)
    (\<lambda>_ u. pg_lease_ok valid view u \<and> moved_on s u) t"
  unfolding wp_bind
  by (rule wp_mono [OF grant_step [OF t(1) x free]]) (use t(2) f in \<open>auto intro: safe_after ls.kept_trans\<close>)

lemma safe_claim: "safe (pg_claim_card cd sql pipe worker n key)"
proof -
  let ?rest = "\<lambda>bucket node. bindM now_utc (\<lambda>t.
        bindM (select_where (t_leases sql) (\<lambda>l. lease_released_at l = None \<and> lease_expires_at l > t)) (\<lambda>held.
        bindM (select_first (t_cards sql) (\<lambda>c. card_current_bucket c = bucket \<and> card_id c \<notin> lease_card_id ` set held)) (\<lambda>row. case row of
          None \<Rightarrow> raiseM (NotFoundError (''no claimable cards in bucket '' @ quoted bucket))
        | Some c \<Rightarrow>
            bindM (new_lease c node worker pipe n) (\<lambda>l.
            bindM (insert_into (t_leases sql) l) (\<lambda>_.
            bindM (pg_log sql (card_id c) ''card_claimed'' (Some worker)
                     [(''lease_id'', JStr (uuid_str (lease_id l))), (''input_pipe'', JStr pipe)]) (\<lambda>_.
            bindM (pg_store_idempotency sql key ''card.claim'' (''lease:'' @ uuid_str (lease_id l))) (\<lambda>_.
            returnM l)))))))"
  have "safe (?rest bucket node)" for bucket node
  proof (rule ls.tameI)
    fix s :: "('d, 'z) pg_state_scheme"
    assume s: "pg_lease_ok valid view s"
    let ?ok = "\<lambda>u. pg_lease_ok valid view u \<and> moved_on s u"
    have later: "?ok (s\<lparr>uuid_pos := q, clock_pos := p\<rparr>)" "?ok (s\<lparr>clock_pos := p\<rparr>)"
      if "clock_pos s \<le> p" "uuid_pos s \<le> q" for p q
      by (rule lease_step [OF s]; use that lease_valid [OF s] in \<open>simp add: moved_on_def\<close>)+
    have free: "\<not> lease_active (next_reading s) m"
      if "card_id c \<notin> lease_card_id ` set (sql_select (t_leases sql) (\<lambda>l. lease_released_at l = None \<and> next_reading s < lease_expires_at l) (pg_database s))"
        "tb_leases (tables_of view s) i = Some m" "lease_card_id m = card_id c" for c i m
      using that leases.select_law [OF lease_valid [OF s]] by (auto simp: lease_active_def image_iff ran_def)
    let ?x = "clock_src s (clock_pos s)"
    let ?held = "sql_select (t_leases sql) (\<lambda>l. lease_released_at l = None \<and> lease_expires_at l > ?x) (pg_database s)"
    let ?sel = "sql_select (t_cards sql) (\<lambda>c. card_current_bucket c = bucket \<and> card_id c \<notin> lease_card_id ` set ?held) (pg_database s)"
    show "wp (?rest bucket node) (\<lambda>_. ?ok) (\<lambda>_. ?ok) s"
    proof (cases ?sel)
      case Nil
      then show ?thesis by (simp add: wp_rules select_first_def later(2) [of _ "uuid_pos s"])
    next
      case (Cons c cs)
      then have "c \<in> set ?sel" by simp
      then have c: "card_id c \<notin> lease_card_id ` set ?held"
        unfolding conjunct1 [OF cards.select_law [OF lease_valid [OF s]]] by simp
      show ?thesis
      proof (cases "plus_seconds (clock_src s (Suc (clock_pos s))) n")
        case (Inl e)
        with Cons show ?thesis by (simp add: wp_rules select_first_def new_lease_def later(2) [of _ "uuid_pos s"])
      next
        case (Inr e)
        let ?t = "s\<lparr>uuid_pos := Suc (uuid_pos s), clock_pos := Suc (Suc (Suc (clock_pos s)))\<rparr>"
        have le: "next_reading s \<le> next_reading ?t" by (rule moved_on_reading) (use s in \<open>simp_all add: moved_on_def pg_lease_ok_def\<close>)
        have granted: "wp (bindM (insert_into (t_leases sql) l) (\<lambda>_. f)) (\<lambda>_. ?ok) (\<lambda>_. ?ok) ?t" if "lease_card_id l = card_id c" "safe f"
          for l and f :: "(('d, 'z) pg_state_scheme, lease) M"
          by (rule grant_after [OF _ _ le]) (use free [of c] c that later in \<open>auto simp: next_reading_def\<close>)
        have new: "wp (new_lease c node worker pipe n) Q E (s\<lparr>clock_pos := Suc (clock_pos s)\<rparr>) =
            Q \<lparr>lease_id = uuid_src s (uuid_pos s), lease_card_id = card_id c, lease_node_id = node, lease_worker_id = worker,
              lease_input_pipe = pipe, lease_claimed_at = clock_src s (Suc (Suc (clock_pos s))), lease_expires_at = e,
              lease_released_at = None\<rparr> ?t" for Q E
          using Inr by (simp add: new_lease_def wp_rules)
        have db: "pg_database (s\<lparr>clock_pos := p\<rparr>) = pg_database s" for p by simp
        show ?thesis
          unfolding wp_bind [of now_utc] wp_now wp_bind [of "select_where a b" for a b] wp_select_where
            wp_bind [of "select_first a b" for a b] wp_select_first db Cons list.case option.case
            wp_bind [of "new_lease a b d e f" for a b d e f] new
          by (rule granted) (auto intro!: safe_steps)
      qed
    qed
  qed
  then show ?thesis
    unfolding pg_claim_card_def by (intro safe_transaction safe_idempotently safe_helpers ls.tame_bind safe_lookups ls.tame_lift) auto
qed

lemma safe_renew: "safe (pg_renew_lease cd sql lid n key)"
proof -
  let ?rest = "\<lambda>l expires. bindM (pg_log sql (lease_card_id l) ''lease_renewed'' (Some (lease_worker_id l))
          [(''lease_id'', JStr (uuid_str (lease_id l))), (''expires_at'', JStr (isoformat expires))]) (\<lambda>_.
        bindM (pg_store_idempotency sql key ''lease.renew'' (''lease:'' @ uuid_str (lease_id l))) (\<lambda>_.
        returnM (l\<lparr>lease_expires_at := expires\<rparr>)))"
  let ?body = "bindM (pg_get_lease sql lid) (\<lambda>l.
        bindM (ensure_active_lease l) (\<lambda>_.
        bindM now_utc (\<lambda>t.
        bindM (liftM (plus_seconds t n)) (\<lambda>expires.
        bindM (update_where (t_leases sql) (\<lambda>r. lease_id r = lease_id l) (\<lambda>r. r\<lparr>lease_expires_at := expires\<rparr>)) (\<lambda>_.
        ?rest l expires)))))"
  have "safe ?body"
  proof (rule ls.tameI)
    fix s :: "('d, 'z) pg_state_scheme"
    assume s: "pg_lease_ok valid view s"
    let ?ok = "\<lambda>u. pg_lease_ok valid view u \<and> moved_on s u"
    have later: "?ok (s\<lparr>clock_pos := p\<rparr>)" if "clock_pos s \<le> p" for p
      by (rule lease_step [OF s]) (use that lease_valid [OF s] in \<open>simp_all add: moved_on_def\<close>)
    have get: "wp (pg_get_lease sql lid) Q E s = (case tb_leases (tables_of view s) lid of
        None \<Rightarrow> E (NotFoundError (''lease '' @ quoted (uuid_str lid) @ '' does not exist'')) s | Some l \<Rightarrow> Q l s)" for Q E
      unfolding pg_get_lease_def wp_bind leases.wp_first_key [OF lease_valid [OF s]] by (simp add: wp_rules split: option.split)
    show "wp ?body (\<lambda>_. ?ok) (\<lambda>_. ?ok) s"
    proof (cases "tb_leases (tables_of view s) lid")
      case None
      with s show ?thesis unfolding wp_bind [of "pg_get_lease a b" for a b] get by (simp add: ls.kept_refl)
    next
      case (Some l)
      have id: "lease_id l = lid" by (rule leases.keyed_law [OF lease_valid [OF s] Some])
      show ?thesis
      proof (cases "lease_active (next_reading s) l")
        case False
        then have "wp (ensure_active_lease l) (\<lambda>_ _. False) (\<lambda>_. ?ok) s"
          using s later by (auto simp: ensure_active_lease_def wp_rules lease_active_def next_reading_def ls.kept_refl)
        then show ?thesis
          unfolding wp_bind [of "pg_get_lease a b" for a b] get Some option.case wp_bind [of "ensure_active_lease a" for a]
          by (rule wp_mono) auto
      next
        case True
        let ?t = "s\<lparr>clock_pos := Suc (Suc (clock_pos s))\<rparr>"
        have active: "wp (ensure_active_lease l) Q E s = Q () (s\<lparr>clock_pos := Suc (clock_pos s)\<rparr>)" for Q E
          using True by (auto simp: ensure_active_lease_def wp_rules lease_active_def next_reading_def)
        have le: "next_reading s \<le> next_reading ?t"
          by (rule moved_on_reading) (use s in \<open>simp_all add: moved_on_def pg_lease_ok_def\<close>)
        have "i = lease_id l" if "tb_leases (tables_of view s) i = Some m" "lease_card_id m = lease_card_id l" "lease_active (next_reading s) m" for i m
          using s that Some True id unfolding pg_lease_ok_def pg_exclusive_def by blast
        then have extended: "wp (update_where (t_leases sql) (\<lambda>r. lease_id r = lease_id l) (\<lambda>r. r\<lparr>lease_expires_at := e\<rparr>))
            (\<lambda>_ u. pg_lease_ok valid view u \<and> moved_on ?t u) (\<lambda>_ u. pg_lease_ok valid view u \<and> moved_on ?t u) ?t" for e
          using later [of "Suc (Suc (clock_pos s))"] Some id by (intro extend_step [OF _ le]) auto
        have "wp (bindM (update_where (t_leases sql) (\<lambda>r. lease_id r = lease_id l) (\<lambda>r. r\<lparr>lease_expires_at := e\<rparr>)) (\<lambda>_. ?rest l e))
            (\<lambda>_. ?ok) (\<lambda>_. ?ok) ?t" for e
          unfolding wp_bind [of "update_where a b d" for a b d]
          by (rule wp_mono [OF extended])
             (use later [of "Suc (Suc (clock_pos s))"] in \<open>auto intro!: safe_after safe_steps intro: ls.kept_trans\<close>)
        then show ?thesis
          unfolding wp_bind [of "pg_get_lease a b" for a b] get Some option.case wp_bind [of "ensure_active_lease a" for a] active
            wp_bind [of now_utc] wp_now wp_bind [of "liftM a" for a] wp_lift
          using later [of "Suc (Suc (clock_pos s))"] by (simp split: sum.split)
      qed
    qed
  qed
  then show ?thesis
    unfolding pg_renew_lease_def by (intro safe_transaction safe_idempotently safe_helpers) auto
qed

lemma safe_store_idempotency: "safe (store_store_idempotency sql key ref)" "safe (store_get_idempotency sql key)"
proof -
  have "safe (\<lambda>s. case insert_into (t_idempotency_records sql) r s of (Inl (IntegrityError x), u) \<Rightarrow> (Inl err, u) | r \<Rightarrow> r)" for r err
    by (rule ls.tameI, rule wp_catch, rule ls.tame_wp [OF safe_inserts(9)])
  then show "safe (store_store_idempotency sql key ref)"
    unfolding store_store_idempotency_def by (auto intro!: ls.tame_basic safe_draw)
  show "safe (store_get_idempotency sql key)" unfolding store_get_idempotency_def by (intro safe_rules)
qed

lemma safe_store_release: "safe (store_release_lease sql lid)"
  unfolding store_release_lease_def update_count_def by (auto intro!: safe_rules)

text \<open>Whether a card is held, and what acquiring a lease then does.\<close>

lemma held_select:
  assumes s: "pg_lease_ok valid view s"
  shows "sql_select (t_leases sql) (\<lambda>l. lease_card_id l = cid \<and> lease_released_at l = None \<and> lease_expires_at l > next_reading s) (pg_database s) = [] \<longleftrightarrow>
    (\<forall>i m. tb_leases (tables_of view s) i = Some m \<longrightarrow> lease_card_id m = cid \<longrightarrow> \<not> lease_active (next_reading s) m)"
proof -
  have "sql_select (t_leases sql) P (pg_database s) = [] \<longleftrightarrow> (\<forall>i m. tb_leases (tables_of view s) i = Some m \<longrightarrow> \<not> P m)" for P
    using leases.select_law [OF lease_valid [OF s], of P] by (auto simp: ran_def simp flip: set_empty)
  then show ?thesis by (auto simp: lease_active_def)
qed

lemma acquired:
  fixes s :: "('d, 'z) pg_state_scheme" and n :: int and f :: "uuid \<Rightarrow> (('d, 'z) pg_state_scheme, 'a) M"
  assumes s: "pg_lease_ok valid view s"
    and free: "\<And>i m. tb_leases (tables_of view s) i = Some m \<Longrightarrow> lease_card_id m = cid \<Longrightarrow> \<not> lease_active (next_reading s) m"
    and Q: "\<And>i l t. pg_lease_ok valid view t \<Longrightarrow> moved_on s t \<Longrightarrow>
      tables_of view t = (tables_of view s)\<lparr>tb_leases := (tb_leases (tables_of view s))(i \<mapsto> l)\<rparr> \<Longrightarrow>
      tb_leases (tables_of view s) i = None \<Longrightarrow> lease_id l = i \<Longrightarrow> lease_card_id l = cid \<Longrightarrow> lease_worker_id l = worker \<Longrightarrow>
      lease_released_at l = None \<Longrightarrow> wp (f i) Q E t"
    and E: "\<And>e t. pg_lease_ok valid view t \<Longrightarrow> moved_on s t \<Longrightarrow> tables_of view t = tables_of view s \<Longrightarrow> E e t"
  shows "wp (bindM uuid4 (\<lambda>i. bindM now_utc (\<lambda>claimed. bindM now_utc (\<lambda>t'.
      bindM (liftM (plus_seconds t' n)) (\<lambda>expires.
      bindM (insert_into (t_leases sql)
         \<lparr>lease_id = i, lease_card_id = cid, lease_node_id = node, lease_worker_id = worker, lease_input_pipe = pipe,
          lease_claimed_at = claimed, lease_expires_at = expires, lease_released_at = None\<rparr>) (\<lambda>_. f i)))))) Q E
    (s\<lparr>clock_pos := Suc (clock_pos s)\<rparr>)"
proof -
  let ?t = "s\<lparr>uuid_pos := Suc (uuid_pos s), clock_pos := Suc (Suc (Suc (clock_pos s)))\<rparr>"
  have t: "pg_lease_ok valid view ?t \<and> moved_on s ?t"
    by (rule lease_step [OF s]) (use lease_valid [OF s] in \<open>simp_all add: moved_on_def\<close>)
  have le: "next_reading s \<le> next_reading ?t" by (rule moved_on_reading) (use s in \<open>simp_all add: moved_on_def pg_lease_ok_def\<close>)
  have insert: "wp (insert_into (t_leases sql) l) (\<lambda>_. wp (f i) Q E) E ?t"
    if l: "lease_id l = i" "lease_card_id l = cid" "lease_worker_id l = worker" "lease_released_at l = None" for l i
  proof -
    have "wp (insert_into (t_leases sql) l)
        (\<lambda>_ u. tables_of view u = (tables_of view s)\<lparr>tb_leases := (tb_leases (tables_of view s))(lease_id l \<mapsto> l)\<rparr> \<and>
           tb_leases (tables_of view s) (lease_id l) = None) (\<lambda>_ u. tables_of view u = tables_of view s) ?t"
      by (rule leases.wp_insert_into) (use lease_valid [OF s] in simp_all)
    moreover have "wp (insert_into (t_leases sql) l) (\<lambda>_ u. pg_lease_ok valid view u \<and> moved_on ?t u)
        (\<lambda>_ u. pg_lease_ok valid view u \<and> moved_on ?t u) ?t"
      by (rule grant_step [OF conjunct1 [OF t] le]) (use free l in auto)
    ultimately show ?thesis
      by (rule wp_mono [OF wp_conj_ok]) (use l t in \<open>auto intro!: Q E intro: ls.kept_trans\<close>)
  qed
  show ?thesis
  proof (cases "plus_seconds (clock_src s (Suc (Suc (clock_pos s)))) n")
    case (Inl e)
    then show ?thesis using E [OF conjunct1 [OF t] conjunct2 [OF t]] by (simp add: wp_rules)
  next
    case (Inr e)
    then show ?thesis by (simp add: wp_rules) (rule insert; simp)
  qed
qed

lemma take_run:
  fixes s :: "('d, 'z) pg_state_scheme"
  assumes s: "pg_lease_ok valid view s"
    and held: "\<And>i m t. tb_leases (tables_of view s) i = Some m \<Longrightarrow> lease_card_id m = cid \<Longrightarrow> lease_active (next_reading s) m \<Longrightarrow>
      pg_lease_ok valid view t \<Longrightarrow> moved_on s t \<Longrightarrow> tables_of view t = tables_of view s \<Longrightarrow>
      E (ConflictError (''card '' @ quoted (uuid_str cid) @ '' already has an active lease'')) t"
    and taken: "\<And>i l t. (\<And>i m. tb_leases (tables_of view s) i = Some m \<Longrightarrow> lease_card_id m = cid \<Longrightarrow> \<not> lease_active (next_reading s) m) \<Longrightarrow>
      pg_lease_ok valid view t \<Longrightarrow> moved_on s t \<Longrightarrow>
      tables_of view t = (tables_of view s)\<lparr>tb_leases := (tb_leases (tables_of view s))(i \<mapsto> l)\<rparr> \<Longrightarrow>
      tb_leases (tables_of view s) i = None \<Longrightarrow> lease_id l = i \<Longrightarrow> lease_card_id l = cid \<Longrightarrow> lease_worker_id l = worker \<Longrightarrow>
      lease_released_at l = None \<Longrightarrow>
      wp (bindM (if truthy key then store_store_idempotency sql (the key) (uuid_str i) else returnM ()) (\<lambda>_. returnM i)) Q E t"
    and failed: "\<And>e t. (\<And>i m. tb_leases (tables_of view s) i = Some m \<Longrightarrow> lease_card_id m = cid \<Longrightarrow> \<not> lease_active (next_reading s) m) \<Longrightarrow>
      pg_lease_ok valid view t \<Longrightarrow> moved_on s t \<Longrightarrow> tables_of view t = tables_of view s \<Longrightarrow> E e t"
  shows "wp (store_take_lease sql cid node worker pipe n key) Q E s"
proof -
  let ?s = "s\<lparr>clock_pos := Suc (clock_pos s)\<rparr>"
  have s': "pg_lease_ok valid view ?s \<and> moved_on s ?s"
    by (rule lease_step [OF s]) (use lease_valid [OF s] in \<open>simp_all add: moved_on_def\<close>)
  have db: "pg_database ?s = pg_database s" by simp
  let ?sel = "sql_select (t_leases sql) (\<lambda>l. lease_card_id l = cid \<and> lease_released_at l = None \<and> lease_expires_at l > clock_src s (clock_pos s)) (pg_database s)"
  have empty: "?sel = [] \<longleftrightarrow> (\<forall>i m. tb_leases (tables_of view s) i = Some m \<longrightarrow> lease_card_id m = cid \<longrightarrow> \<not> lease_active (next_reading s) m)"
    using held_select [OF s, of cid] unfolding next_reading_def .
  show ?thesis
  proof (cases ?sel)
    case Nil
    then have free: "\<And>i m. tb_leases (tables_of view s) i = Some m \<Longrightarrow> lease_card_id m = cid \<Longrightarrow> \<not> lease_active (next_reading s) m"
      unfolding empty by blast
    show ?thesis
      unfolding store_take_lease_def wp_bind [of now_utc "\<lambda>t. bindM (select_first (t_leases sql) (P t)) g" for P g] wp_now
        wp_bind [of "select_first a b" for a b] wp_select_first db Nil list.case
    proof (simp only: not_not simp_thms if_False, rule acquired [OF s], goal_cases)
      case (1 i m)
      then show ?case by (rule free)
    next
      case 2
      then show ?case by (intro taken free)
    next
      case 3
      then show ?case by (intro failed free)
    qed
  next
    case (Cons l ls)
    then obtain i m where "tb_leases (tables_of view s) i = Some m" "lease_card_id m = cid" "lease_active (next_reading s) m"
      using empty by auto
    then have "E (ConflictError (''card '' @ quoted (uuid_str cid) @ '' already has an active lease'')) ?s"
      using s' by (intro held) auto
    then show ?thesis
      unfolding store_take_lease_def wp_bind [of now_utc "\<lambda>t. bindM (select_first (t_leases sql) (P t)) g" for P g] wp_now
        wp_bind [of "select_first a b" for a b] wp_select_first db Cons list.case
      by (simp add: wp_raise)
  qed
qed

lemma safe_remember:
  "safe (bindM (if truthy key then store_store_idempotency sql (the key) (uuid_str i) else returnM ()) (\<lambda>_. returnM i))"
  by (auto intro!: safe_rules safe_store_idempotency)

lemma safe_take: "safe (store_take_lease sql cid node worker pipe n key)"
proof (rule ls.tameI, rule take_run, goal_cases)
  case 3
  show ?case by (rule safe_after [OF safe_remember 3(3,4)])
qed auto

lemma safe_acquire: "safe (store_acquire_lease parse sql cid node worker pipe n key)"
  unfolding store_acquire_lease_def by (auto intro!: safe_rules safe_store_idempotency safe_take)

lemma commit_leases:
  fixes t :: "('d, 'z) pg_state_scheme"
  assumes "pg_lease_ok valid view t"
  shows "pg_lease_ok valid view (t\<lparr>pg_database := sql_commit sql (pg_database t)\<rparr>)"
    and "view (sql_commit sql (pg_database t)) = tables_of view t"
  using commit_law [OF lease_valid [OF assms]] assms by (auto simp: pg_lease_ok_def pg_exclusive_def next_reading_def)

lemma rollback_leases:
  fixes s t :: "('d, 'z) pg_state_scheme"
  assumes "pg_lease_ok valid view s" and "pg_lease_ok valid view t" "moved_on s t"
  shows "pg_lease_ok valid view (t\<lparr>pg_database := sql_rollback sql (pg_database s) (pg_database t)\<rparr>)"
    and "view (sql_rollback sql (pg_database s) (pg_database t)) = tables_of view s"
proof -
  note law = rollback_law [OF lease_valid [OF assms(1)] lease_valid [OF assms(2)]]
  then show "view (sql_rollback sql (pg_database s) (pg_database t)) = tables_of view s" by blast
  show "pg_lease_ok valid view (t\<lparr>pg_database := sql_rollback sql (pg_database s) (pg_database t)\<rparr>)"
    by (rule conjunct1 [OF lease_step [OF assms(1)]]) (use law assms(3) in \<open>auto simp: moved_on_def\<close>)
qed

lemma store_acquire_run:
  fixes s :: "('d, 'z) pg_state_scheme"
  assumes s: "pg_lease_ok valid view s" and key: "\<not> truthy key"
  shows "wp (store_acquire_lease parse sql cid node worker pipe n key)
    (\<lambda>i t. pg_lease_ok valid view t \<and> tb_cards (tables_of view s) cid \<noteq> None \<and>
       (\<forall>j m. tb_leases (tables_of view s) j = Some m \<and> lease_card_id m = cid \<longrightarrow> \<not> lease_active (next_reading s) m) \<and>
       (\<exists>l. tables_of view t = (tables_of view s)\<lparr>tb_leases := (tb_leases (tables_of view s))(i \<mapsto> l)\<rparr> \<and>
          tb_leases (tables_of view s) i = None \<and> lease_id l = i \<and> lease_card_id l = cid \<and> lease_worker_id l = worker \<and>
          lease_released_at l = None))
    (\<lambda>e t. pg_lease_ok valid view t \<and> tables_of view t = tables_of view s \<and>
       (tb_cards (tables_of view s) cid = None \<longrightarrow> e = NotFoundError (''card '' @ quoted (uuid_str cid) @ '' does not exist'')) \<and>
       (tb_cards (tables_of view s) cid \<noteq> None \<and>
          (\<exists>j m. tb_leases (tables_of view s) j = Some m \<and> lease_card_id m = cid \<and> lease_active (next_reading s) m) \<longrightarrow>
          e = ConflictError (''card '' @ quoted (uuid_str cid) @ '' already has an active lease''))) s"
proof (cases "tb_cards (tables_of view s) cid")
  case None
  show ?thesis
    unfolding store_acquire_lease_def wp_transaction
    using key rollback_leases [OF s s] None
    by (simp add: wp_bind wp_return cards.wp_first_key [OF lease_valid [OF s]] wp_raise ls.kept_refl)
next
  case (Some c)
  have taken: "wp (transaction sql (bindM (if truthy key then store_get_idempotency sql (the key) else returnM None) (\<lambda>cached.
        if truthy cached then liftM (parse (the cached))
        else bindM (select_first (t_cards sql) (\<lambda>c. card_id c = cid)) (\<lambda>row.
          if row = None then raiseM (NotFoundError (''card '' @ quoted (uuid_str cid) @ '' does not exist''))
          else store_take_lease sql cid node worker pipe n key)))) Q E s"
    if "wp (transaction sql (store_take_lease sql cid node worker pipe n key)) Q E s" for Q E
    using that key Some by (simp add: wp_transaction wp_bind wp_return cards.wp_first_key [OF lease_valid [OF s]])
  show ?thesis
    unfolding store_acquire_lease_def
  proof (rule taken, unfold wp_transaction, rule take_run [OF s], goal_cases)
    case (1 i m t)
    then show ?case using rollback_leases [OF s 1(4,5)] Some by simp
  next
    case (2 i l t)
    then show ?case using commit_leases [OF 2(2)] key Some by (simp add: wp_return) blast
  next
    case (3 e t)
    then show ?case using rollback_leases [OF s 3(2,3)] Some by auto
  qed
qed

end

section \<open>One holder per card\<close>

text \<open>The state after a call of any runtime, whether it returned or raised.\<close>

fun call_runtime :: "'s card_runtime \<Rightarrow> call \<Rightarrow> 's \<Rightarrow> 's" where
  "call_runtime rt (Register p) s = snd (rt_register_patch_panel rt p s)"
| "call_runtime rt (Create pid payload md key) s = snd (rt_create_card rt pid payload md key s)"
| "call_runtime rt (Claim pipe worker n key) s = snd (rt_claim_card rt pipe worker n key s)"
| "call_runtime rt (Submit lid pipe refs key) s = snd (rt_submit_artifact rt lid pipe refs key s)"
| "call_runtime rt (Renew lid n key) s = snd (rt_renew_lease rt lid n key s)"
| "call_runtime rt (Release lid actor key) s = snd (rt_release_lease rt lid actor key s)"
| "call_runtime rt Expire s = snd (rt_expire_leases rt s)"
| "call_runtime rt (Validate cid v a r pipe payload key) s = snd (rt_validate_card rt cid v a r pipe payload key s)"
| "call_runtime rt (Move cid b actor r key) s = snd (rt_move_card rt cid b actor r key s)"
| "call_runtime rt (Record cid ty actor payload key) s = snd (rt_record_event rt cid ty actor payload key s)"

lemma safe_snd:
  assumes "kept.tame (pg_lease_ok valid view) moved_on m" and "pg_lease_ok valid view s"
  shows "pg_lease_ok valid view (snd (m s))"
  by (rule snd_wp, rule wp_mono [OF ls.tame_wp [OF assms]]) auto

lemma call_safe:
  assumes db: "sql_database sql valid view" and "pg_lease_ok valid view s"
  shows "pg_lease_ok valid view (call_runtime (postgres_runtime nx cd sql) c s)"
proof -
  note safe = sql_database.safe_calls [OF db, THEN safe_snd] sql_database.safe_claim [OF db, THEN safe_snd]
    sql_database.safe_renew [OF db, THEN safe_snd]
  show ?thesis using assms(2) by (cases c) (simp_all add: postgres_runtime_def safe)
qed

lemma calls_safe:
  assumes "sql_database sql valid view" and "pg_lease_ok valid view s"
  shows "pg_lease_ok valid view (fold (call_runtime (postgres_runtime nx cd sql)) calls s)"
  using assms(2) by (induction calls arbitrary: s) (simp_all add: call_safe [OF assms(1)])

text \<open>The database of the one card with its panel, and two claims of the card.\<close>

definition sample_board :: "list_db pg_state" where
  "sample_board = sample_rows\<lparr>pg_database := (pg_database sample_rows)\<lparr>ld_patch_panels :=
     [((''p'', ''1''), \<lparr>prow_id = ''p'', prow_version = ''1'', prow_definition = JNull, prow_created_at = 0\<rparr>)]\<rparr>\<rparr>"

definition sample_board_after :: "list_db pg_state" where
  "sample_board_after = fold (call_runtime (postgres_runtime list_networkx sample_codecs list_sql))
     [Claim ''w.in'' ''ann'' 60 None, Claim ''w.in'' ''bob'' 60 None] sample_board"

lemma sample_board_ok: "pg_lease_ok list_valid list_view sample_board"
  by (simp add: sample_board_def sample_rows_def empty_list_db_def pg_lease_ok_def list_valid_def list_view_def py.keyed_def
      pg_exclusive_def mono_def)

lemma sample_board_after_ok: "pg_lease_ok list_valid list_view sample_board_after"
  unfolding sample_board_after_def using list_db.sql_database_axioms sample_board_ok by (rule calls_safe)

text \<open>
  Property C26. One holder per card in the database: whatever calls the durable runtime serves one after another, returning or raising,
  on a clock that does not run backwards, from a state in which no card has two active leases, two lease rows of one
  card that are both active at a time not before the next reading of the clock are the same row.
\<close>

theorem durable_one_lease_holder:
  fixes s :: "('d, 'z) pg_state_scheme"
  assumes "sql_database sql valid view" and "pg_lease_ok valid view s"
    and "t = fold (call_runtime (postgres_runtime nx cd sql)) calls s"
    and "tb_leases (view (pg_database t)) i = Some l" and "tb_leases (view (pg_database t)) j = Some m"
    and "lease_card_id l = lease_card_id m" and "next_reading t \<le> x" and "lease_active x l" and "lease_active x m"
  shows "i = j \<and> l = m"
proof -
  have "pg_exclusive view t"
    using calls_safe [OF assms(1,2), of nx cd calls] assms(3) by (simp add: pg_lease_ok_def)
  moreover have "lease_active (next_reading t) l" "lease_active (next_reading t) m"
    using assms(7-9) lease_active_mono by blast+
  ultimately have "i = j" using assms(4-6) unfolding pg_exclusive_def by blast
  with assms(4,5) show ?thesis by simp
qed

theorem durable_one_lease_holder_witness:
  "{j. \<exists>m. tb_leases (list_view (pg_database sample_board_after)) j = Some m \<and>
        lease_card_id m = card_id sample_card \<and> lease_active 1000 m} = {sample_ids 1}"
proof -
  have "map_option (\<lambda>l. (lease_card_id l = card_id sample_card, lease_active 1000 l))
      (tb_leases (list_view (pg_database sample_board_after)) (sample_ids 1)) = Some (True, True)"
    by code_simp
  then obtain l where l: "tb_leases (list_view (pg_database sample_board_after)) (sample_ids 1) = Some l"
    "lease_active 1000 l" "lease_card_id l = card_id sample_card" by auto
  have now: "next_reading sample_board_after \<le> 1000" by code_simp
  have "j = sample_ids 1" if "tb_leases (list_view (pg_database sample_board_after)) j = Some m"
    "lease_card_id m = card_id sample_card" "lease_active 1000 m" for j m
    using durable_one_lease_holder [OF list_db.sql_database_axioms sample_board_ok sample_board_after_def that(1) l(1) _ now that(3) l(2)]
      that(2) l(3) by simp
  with l show ?thesis by blast
qed

text \<open>
  The lease store takes a lease exactly when it may: acquiring a lease without an idempotency key
  either adds one row, for that card and worker, to a card that exists and that no active lease holds, and changes no
  other row of any table, or it raises and changes no row; an unknown card is reported as not found and a held one as a
  conflict.
\<close>

theorem lease_store_exclusive:
  fixes s :: "('d, 'z) pg_state_scheme"
  assumes "sql_database sql valid view" and "pg_lease_ok valid view s"
  shows "case store_acquire_lease parse sql cid node worker pipe n None s of
      (Inr i, t) \<Rightarrow> tb_cards (view (pg_database s)) cid \<noteq> None \<and>
        (\<forall>j m. tb_leases (view (pg_database s)) j = Some m \<and> lease_card_id m = cid \<longrightarrow> \<not> lease_active (next_reading s) m) \<and>
        (\<exists>l. view (pg_database t) = (view (pg_database s))\<lparr>tb_leases := (tb_leases (view (pg_database s)))(i \<mapsto> l)\<rparr> \<and>
           tb_leases (view (pg_database s)) i = None \<and> lease_card_id l = cid \<and> lease_worker_id l = worker \<and>
           lease_released_at l = None)
    | (Inl e, t) \<Rightarrow> view (pg_database t) = view (pg_database s) \<and>
        (tb_cards (view (pg_database s)) cid = None \<longrightarrow> e = NotFoundError (''card '' @ quoted (uuid_str cid) @ '' does not exist'')) \<and>
        (tb_cards (view (pg_database s)) cid \<noteq> None \<and>
           (\<exists>j m. tb_leases (view (pg_database s)) j = Some m \<and> lease_card_id m = cid \<and> lease_active (next_reading s) m) \<longrightarrow>
           e = ConflictError (''card '' @ quoted (uuid_str cid) @ '' already has an active lease''))"
proof -
  obtain r t where run: "store_acquire_lease parse sql cid node worker pipe n None s = (r, t)"
    by (cases "store_acquire_lease parse sql cid node worker pipe n None s")
  have "\<not> truthy None" by simp
  from sql_database.store_acquire_run [OF assms this, of parse cid node worker pipe n]
  show ?thesis unfolding wp_def run by (cases r; simp only: prod.case sum.case) blast+
qed

theorem lease_store_exclusive_witness:
  "\<exists>t. store_acquire_lease (\<lambda>x. Inr (UUID x)) list_sql (card_id sample_card) ''work'' ''bob'' ''w.in'' 60 None sample_board_after =
     (Inl (ConflictError (''card '' @ quoted (uuid_str (card_id sample_card)) @ '' already has an active lease'')), t) \<and>
     list_view (pg_database t) = list_view (pg_database sample_board_after)"
proof -
  have "tb_cards (list_view (pg_database sample_board_after)) (card_id sample_card) \<noteq> None" by code_simp
  moreover have "map_option (\<lambda>l. lease_card_id l = card_id sample_card \<and> lease_active (next_reading sample_board_after) l)
      (tb_leases (list_view (pg_database sample_board_after)) (sample_ids 1)) = Some True" by code_simp
  then have "\<exists>j m. tb_leases (list_view (pg_database sample_board_after)) j = Some m \<and> lease_card_id m = card_id sample_card \<and>
      lease_active (next_reading sample_board_after) m" by auto
  ultimately show ?thesis
    using lease_store_exclusive [OF list_db.sql_database_axioms sample_board_after_ok, where parse = "\<lambda>x. Inr (UUID x)" and
        cid = "card_id sample_card" and node = "''work''" and worker = "''bob''" and pipe = "''w.in''" and n = 60]
    by (auto split: prod.splits sum.splits)
qed

end
