(* ===== verification/PostgresProperties.thy ===== *)
theory PostgresProperties
  imports PostgresLeases
begin

text \<open>
  What the durable runtime keeps in its tables, whatever it is asked: rows are added and not lost, a call that
  raises has changed no row, and a call with an idempotency key can be repeated.
\<close>

section \<open>Rows are kept\<close>

text \<open>What a later row of a lease has in common with an earlier one.\<close>

definition lease_kept :: "lease \<Rightarrow> lease \<Rightarrow> bool" where
  "lease_kept l m \<longleftrightarrow> lease_id m = lease_id l \<and> lease_card_id m = lease_card_id l \<and> lease_node_id m = lease_node_id l \<and>
     lease_worker_id m = lease_worker_id l \<and> lease_input_pipe m = lease_input_pipe l \<and>
     lease_claimed_at m = lease_claimed_at l \<and> (lease_released_at l \<noteq> None \<longrightarrow> lease_released_at m \<noteq> None)"

text \<open>A card that leaves a bucket closes its location there: the status and the time of leaving are set.\<close>

definition location_kept :: "location_row \<Rightarrow> location_row \<Rightarrow> bool" where
  "location_kept r q \<longleftrightarrow> q = r\<lparr>loc_status := loc_status q, loc_exited_at := loc_exited_at q\<rparr>"

definition tables_kept :: "tables \<Rightarrow> tables \<Rightarrow> bool" where
  "tables_kept v w \<longleftrightarrow>
     tb_patch_panels v \<subseteq>\<^sub>m tb_patch_panels w \<and> tb_workflow_versions v \<subseteq>\<^sub>m tb_workflow_versions w \<and>
     tb_buckets v \<subseteq>\<^sub>m tb_buckets w \<and>
     tb_card_events v \<subseteq>\<^sub>m tb_card_events w \<and> tb_artifacts v \<subseteq>\<^sub>m tb_artifacts w \<and>
     tb_validation_results v \<subseteq>\<^sub>m tb_validation_results w \<and> tb_idempotency_records v \<subseteq>\<^sub>m tb_idempotency_records w \<and>
     (\<forall>i c. tb_cards v i = Some c \<longrightarrow> (\<exists>b. tb_cards w i = Some (c\<lparr>card_current_bucket := b\<rparr>))) \<and>
     (\<forall>i l. tb_leases v i = Some l \<longrightarrow> (\<exists>m. tb_leases w i = Some m \<and> lease_kept l m)) \<and>
     (\<forall>i r. tb_card_locations v i = Some r \<longrightarrow> (\<exists>q. tb_card_locations w i = Some q \<and> location_kept r q)) \<and>
     tb_participants w = tb_participants v \<and> tb_roles w = tb_roles v \<and> tb_participant_roles w = tb_participant_roles v \<and>
     tb_permission_grants w = tb_permission_grants v \<and> tb_audit_events w = tb_audit_events v \<and>
     tb_registry_entries w = tb_registry_entries v"

lemma tables_kept_refl: "tables_kept v v"
  by (auto simp: tables_kept_def lease_kept_def location_kept_def intro: same_bucket)

lemma location_kept_trans: "location_kept r q \<Longrightarrow> location_kept q p \<Longrightarrow> location_kept r p"
  unfolding location_kept_def by (cases r; cases q; cases p) simp

lemma tables_kept_trans: "tables_kept u v \<Longrightarrow> tables_kept v w \<Longrightarrow> tables_kept u w"
proof -
  assume uv: "tables_kept u v" and vw: "tables_kept v w"
  have "\<exists>b. tb_cards w i = Some (c\<lparr>card_current_bucket := b\<rparr>)" if c: "tb_cards u i = Some c" for i c
  proof -
    from uv c obtain b where "tb_cards v i = Some (c\<lparr>card_current_bucket := b\<rparr>)" unfolding tables_kept_def by blast
    with vw obtain b' where "tb_cards w i = Some (c\<lparr>card_current_bucket := b\<rparr>\<lparr>card_current_bucket := b'\<rparr>)"
      unfolding tables_kept_def by blast
    then show ?thesis by auto
  qed
  moreover have "\<exists>m. tb_leases w i = Some m \<and> lease_kept l m" if l: "tb_leases u i = Some l" for i l
  proof -
    from uv l obtain m where "tb_leases v i = Some m" "lease_kept l m" unfolding tables_kept_def by blast
    moreover from this vw obtain m' where "tb_leases w i = Some m'" "lease_kept m m'" unfolding tables_kept_def by blast
    ultimately show ?thesis by (auto simp: lease_kept_def)
  qed
  moreover have "\<exists>q. tb_card_locations w i = Some q \<and> location_kept r q" if r: "tb_card_locations u i = Some r" for i r
  proof -
    from uv r obtain q where "tb_card_locations v i = Some q" "location_kept r q" unfolding tables_kept_def by blast
    moreover from this vw obtain p where "tb_card_locations w i = Some p" "location_kept q p" unfolding tables_kept_def by blast
    ultimately show ?thesis by (blast intro: location_kept_trans)
  qed
  ultimately show "tables_kept u w"
    using uv vw unfolding tables_kept_def by (auto intro: map_le_trans)
qed

definition rows_kept :: "('d \<Rightarrow> tables) \<Rightarrow> ('d, 'z) pg_state_scheme \<Rightarrow> ('d, 'z) pg_state_scheme \<Rightarrow> bool" where
  "rows_kept view s t \<longleftrightarrow> tables_kept (tables_of view s) (tables_of view t)"

interpretation rk: kept "\<lambda>s. valid (pg_database s)" "rows_kept view" for valid view
  by unfold_locales (auto simp: rows_kept_def intro: tables_kept_refl tables_kept_trans)

section \<open>What rows tell for good\<close>

text \<open>What holds of tables and of all that keep their rows.\<close>

definition lasts :: "(tables \<Rightarrow> bool) \<Rightarrow> bool" where
  "lasts P \<longleftrightarrow> (\<forall>v w. P v \<longrightarrow> tables_kept v w \<longrightarrow> P w)"

text \<open>What a card, a lease, an event and artifacts leave in the tables.\<close>

definition card_stored :: "card \<Rightarrow> tables \<Rightarrow> bool" where
  "card_stored c v \<longleftrightarrow> (\<exists>b. tb_cards v (card_id c) = Some (c\<lparr>card_current_bucket := b\<rparr>))"

definition lease_stored :: "lease \<Rightarrow> tables \<Rightarrow> bool" where
  "lease_stored l v \<longleftrightarrow> (\<exists>m. tb_leases v (lease_id l) = Some m \<and> lease_kept l m)"

definition event_stored :: "card_event \<Rightarrow> tables \<Rightarrow> bool" where
  "event_stored e v \<longleftrightarrow> tb_card_events v (event_id e) = Some e"

definition artifacts_stored :: "artifact_reference list \<Rightarrow> tables \<Rightarrow> bool" where
  "artifacts_stored rs v \<longleftrightarrow> (\<forall>r \<in> set rs. tb_artifacts v (artifact_id r) = Some r)"

definition key_stored :: "string \<Rightarrow> string \<Rightarrow> tables \<Rightarrow> bool" where
  "key_stored k ref v \<longleftrightarrow> (\<exists>r. tb_idempotency_records v k = Some r \<and> idem_response_ref r = ref)"

lemma lasts_const: "lasts (\<lambda>_. b)"
  by (simp add: lasts_def)

lemma lasts_conj: "lasts P \<Longrightarrow> lasts Q \<Longrightarrow> lasts (\<lambda>v. P v \<and> Q v)"
  by (auto simp: lasts_def)

lemma map_le_Some: "m \<subseteq>\<^sub>m n \<Longrightarrow> m k = Some x \<Longrightarrow> n k = Some x"
  by (force simp: map_le_def dom_def)

lemma lasts_stored: "lasts (card_stored c)" "lasts (lease_stored l)" "lasts (event_stored e)" "lasts (artifacts_stored rs)"
    "lasts (key_stored k ref)"
proof -
  show "lasts (card_stored c)"
    unfolding lasts_def
  proof (intro allI impI)
    fix v w
    assume "card_stored c v" and kept: "tables_kept v w"
    then obtain b where "tb_cards v (card_id c) = Some (c\<lparr>card_current_bucket := b\<rparr>)" by (auto simp: card_stored_def)
    with kept obtain b' where "tb_cards w (card_id c) = Some (c\<lparr>card_current_bucket := b\<rparr>\<lparr>card_current_bucket := b'\<rparr>)"
      unfolding tables_kept_def by blast
    then show "card_stored c w" by (auto simp: card_stored_def)
  qed
  show "lasts (lease_stored l)"
    unfolding lasts_def
  proof (intro allI impI)
    fix v w
    assume "lease_stored l v" and kept: "tables_kept v w"
    then obtain m where "tb_leases v (lease_id l) = Some m" "lease_kept l m" by (auto simp: lease_stored_def)
    moreover from this kept obtain m' where "tb_leases w (lease_id l) = Some m'" "lease_kept m m'"
      unfolding tables_kept_def by blast
    ultimately show "lease_stored l w" by (auto simp: lease_stored_def lease_kept_def)
  qed
qed (auto simp: lasts_def event_stored_def artifacts_stored_def key_stored_def tables_kept_def dest: map_le_Some)

section \<open>Calls keep the rows\<close>

context sql_database
begin

abbreviation keeps :: "(('d, 'z) pg_state_scheme, 'a) M \<Rightarrow> bool" where
  "keeps \<equiv> kept.tame (\<lambda>s. valid (pg_database s)) (rows_kept view)"

lemma keeps_draw: "keeps uuid4" "keeps now_utc"
  by (rule rk.tameI, simp add: wp_rules rows_kept_def tables_kept_refl)+

lemma keeps_select: "keeps (select_where tab P)" "keeps (select_first tab P)"
  unfolding select_first_def select_where_def by (intro rk.tame_gets rk.tame_bind rk.tame_return)+

lemma keeps_insert:
  assumes "sql_table_laws tab valid view get put key refers"
    and "\<And>v r. get v (key r) = None \<Longrightarrow> tables_kept v (put ((get v)(key r \<mapsto> r)) v)"
  shows "keeps (insert_into tab r)"
proof (rule rk.tameI, rule sql_table_laws.wp_insert_into [OF assms(1)], goal_cases)
  case (2 s d)
  then show ?case using assms(2) by (simp add: rows_kept_def)
qed (simp_all add: rk.kept_refl)

lemma keeps_update:
  assumes "sql_table_laws tab valid view get put key refers"
    and "\<And>v. tables_kept v (put (\<lambda>k. map_option (\<lambda>r. if P r then f r else r) (get v k)) v)"
    and "\<And>r. key (f r) = key r"
  shows "keeps (update_where tab P f)"
proof (rule rk.tameI, rule sql_table_laws.wp_update [OF assms(1) _ assms(3)], goal_cases)
  case (2 s d)
  then show ?case using assms(2) by (simp add: rows_kept_def)
qed (simp_all add: rk.kept_refl)

lemma keeps_inserts:
  "keeps (insert_into (t_patch_panels sql) r1)" "keeps (insert_into (t_workflow_versions sql) r2)"
  "keeps (insert_into (t_buckets sql) r3)" "keeps (insert_into (t_cards sql) r4)"
  "keeps (insert_into (t_card_locations sql) r5)" "keeps (insert_into (t_leases sql) r6)"
  "keeps (insert_into (t_validation_results sql) r7)" "keeps (insert_into (t_artifacts sql) r8)"
  "keeps (insert_into (t_card_events sql) r9)" "keeps (insert_into (t_idempotency_records sql) r10)"
  by (rule keeps_insert, rule panels.sql_table_laws_axioms versions.sql_table_laws_axioms buckets.sql_table_laws_axioms
      cards.sql_table_laws_axioms locations.sql_table_laws_axioms leases.sql_table_laws_axioms results.sql_table_laws_axioms
      artifacts.sql_table_laws_axioms events.sql_table_laws_axioms keys.sql_table_laws_axioms,
      auto simp: tables_kept_def lease_kept_def location_kept_def map_le_def intro: same_bucket)+

lemma keeps_updates:
  "keeps (update_where (t_card_locations sql) P (\<lambda>r. r\<lparr>loc_status := x, loc_exited_at := y\<rparr>))"
  "keeps (update_where (t_cards sql) Q (\<lambda>r. r\<lparr>card_current_bucket := b\<rparr>))"
  "keeps (update_where (t_leases sql) R (\<lambda>r. r\<lparr>lease_released_at := Some z\<rparr>))"
  "keeps (update_where (t_leases sql) R (\<lambda>r. r\<lparr>lease_expires_at := e\<rparr>))"
  by (rule keeps_update, rule locations.sql_table_laws_axioms cards.sql_table_laws_axioms leases.sql_table_laws_axioms,
      auto simp: tables_kept_def lease_kept_def location_kept_def intro: same_bucket)+

lemma keeps_store: "keeps (pg_store_idempotency sql key operation ref)"
proof -
  have "keeps (\<lambda>s. case insert_into (t_idempotency_records sql) r s of (Inl (IntegrityError x), u) \<Rightarrow> (Inl err, u) | r \<Rightarrow> r)" for r err
    by (rule rk.tameI, rule wp_catch, rule rk.tame_wp [OF keeps_inserts(10)])
  then show ?thesis
    unfolding pg_store_idempotency_def by (auto intro!: rk.tame_basic keeps_draw)
qed

lemmas keeps_rules = rk.tame_return rk.tame_raise rk.tame_lift rk.tame_bind rk.tame_forM keeps_draw keeps_select
  keeps_inserts keeps_updates keeps_store

lemma keeps_lookups:
  "keeps (pg_get_card sql cid)" "keeps (pg_get_event sql eid)" "keeps (pg_get_lease sql lid)"
  "keeps (pg_get_artifacts sql ids)" "keeps (pg_get_active_patch_panel cd sql pid)" "keeps (pg_single_patch_panel cd sql)"
  "keeps (pg_get_patch_panel_for_card cd sql c)" "keeps (pg_get_idempotency sql key)"
  by (auto simp: pg_get_card_def pg_get_event_def pg_get_lease_def pg_get_artifacts_def pg_get_active_patch_panel_def
      pg_single_patch_panel_def pg_get_patch_panel_for_card_def pg_get_idempotency_def Let_def
      split: option.split list.split intro!: keeps_rules)

lemma keeps_helpers:
  "keeps (new_card wv b payload md)" "keeps (pg_log sql cid ty actor data)" "keeps (new_lease c node worker pipe n)"
  "keeps (new_validation_result cid v a reason opipe payload)" "keeps (ensure_active_lease l)"
  "keeps (pg_insert_location sql cid b t)" "keeps (pg_replay_lease cd sql ref)" "keeps (pg_replay_event cd sql ref)"
  "keeps (pg_replay_artifacts cd sql ref)" "keeps (pg_move_card_row sql c b actor reason emit)"
  by (auto simp: new_card_def new_card_event_def new_lease_def new_validation_result_def ensure_active_lease_def pg_log_def
      pg_insert_event_def pg_insert_location_def pg_replay_lease_def pg_replay_event_def pg_replay_artifacts_def pg_move_card_row_def
      intro!: keeps_rules keeps_lookups)

lemma keeps_idempotently:
  "(\<And>ref. keeps (replay ref)) \<Longrightarrow> keeps body \<Longrightarrow> keeps (pg_idempotently sql key replay body)"
  unfolding pg_idempotently_def by (auto intro!: keeps_rules keeps_lookups)

lemmas keeps_steps = keeps_rules keeps_lookups keeps_helpers keeps_idempotently

text \<open>A call: it keeps the rows, and when it raises it has changed none.\<close>

definition atomic :: "(('d, 'z) pg_state_scheme, 'a) M \<Rightarrow> bool" where
  "atomic m \<longleftrightarrow> (\<forall>s. valid (pg_database s) \<longrightarrow>
     wp m (\<lambda>_ t. valid (pg_database t) \<and> rows_kept view s t)
       (\<lambda>_ t. valid (pg_database t) \<and> tables_of view t = tables_of view s) s)"

lemma atomic_transaction:
  fixes m :: "(('d, 'z) pg_state_scheme, 'a) M"
  assumes "keeps m"
  shows "atomic (transaction sql m)"
  unfolding atomic_def
proof (intro allI impI)
  fix s :: "('d, 'z) pg_state_scheme"
  assume s: "valid (pg_database s)"
  show "wp (transaction sql m) (\<lambda>_ t. valid (pg_database t) \<and> rows_kept view s t)
      (\<lambda>_ t. valid (pg_database t) \<and> tables_of view t = tables_of view s) s"
    unfolding wp_transaction
    by (rule wp_mono [OF rk.tame_wp [OF assms s]]) (use s commit_law rollback_law in \<open>auto simp: rows_kept_def\<close>)
qed

text \<open>Before a transaction, a call may compute and look at the clock.\<close>

lemma atomic_lift: "(\<And>x. atomic (f x)) \<Longrightarrow> atomic (bindM (liftM r) f)"
  by (auto simp: atomic_def wp_rules split: sum.split)

lemma atomic_now:
  fixes f :: "datetime \<Rightarrow> (('d, 'z) pg_state_scheme, 'a) M"
  assumes "\<And>x. atomic (f x)"
  shows "atomic (bindM now_utc f)"
  unfolding atomic_def wp_bind wp_now
proof (intro allI impI)
  fix s :: "('d, 'z) pg_state_scheme"
  assume "valid (pg_database s)"
  then have "valid (pg_database (s\<lparr>clock_pos := Suc (clock_pos s)\<rparr>))" by simp
  then have "wp (f (clock_src s (clock_pos s))) (\<lambda>_ t. valid (pg_database t) \<and> rows_kept view (s\<lparr>clock_pos := Suc (clock_pos s)\<rparr>) t)
      (\<lambda>_ t. valid (pg_database t) \<and> tables_of view t = tables_of view (s\<lparr>clock_pos := Suc (clock_pos s)\<rparr>))
      (s\<lparr>clock_pos := Suc (clock_pos s)\<rparr>)"
    using assms unfolding atomic_def by blast
  then show "wp (f (clock_src s (clock_pos s))) (\<lambda>_ t. valid (pg_database t) \<and> rows_kept view s t)
      (\<lambda>_ t. valid (pg_database t) \<and> tables_of view t = tables_of view s) (s\<lparr>clock_pos := Suc (clock_pos s)\<rparr>)"
    by (simp add: rows_kept_def)
qed

lemma atomic_return: "atomic m \<Longrightarrow> atomic (bindM m (\<lambda>_. returnM x))"
  unfolding atomic_def wp_bind by (fastforce simp: wp_return elim: wp_mono)

lemma atomic_calls:
  "atomic (pg_register_patch_panel nx cd sql p)" "atomic (pg_create_card cd sql pid payload md key)"
  "atomic (pg_claim_card cd sql pipe worker n key)" "atomic (pg_submit_artifact cd sql lid pipe refs key)"
  "atomic (pg_renew_lease cd sql lid n key)" "atomic (pg_release_lease cd sql lid actor key)"
  "atomic (pg_expire_leases sql)" "atomic (pg_validate_card cd sql cid v a r opipe data key)"
  "atomic (pg_move_card cd sql cid b actor reason key)" "atomic (pg_record_event cd sql cid ty actor data key)"
  unfolding pg_register_patch_panel_def pg_create_card_def pg_create_body_def pg_claim_card_def pg_submit_artifact_def
    pg_renew_lease_def pg_release_lease_def pg_expire_leases_def pg_validate_card_def pg_move_card_def pg_record_event_def Let_def
  by (auto intro!: atomic_lift atomic_now atomic_return atomic_transaction keeps_steps split: option.split)

section \<open>What a keyed call leaves\<close>

text \<open>From tables that satisfy \<open>P\<close>, the command leaves tables and a result that satisfy \<open>Q\<close> when it returns.\<close>

definition leaves :: "(tables \<Rightarrow> bool) \<Rightarrow> (('d, 'z) pg_state_scheme, 'a) M \<Rightarrow> ('a \<Rightarrow> tables \<Rightarrow> bool) \<Rightarrow> bool" where
  "leaves P m Q \<longleftrightarrow> (\<forall>s. valid (pg_database s) \<and> P (tables_of view s) \<longrightarrow>
     wp m (\<lambda>x t. valid (pg_database t) \<and> Q x (tables_of view t)) (\<lambda>_ _. True) s)"

lemma leaves_bind: "leaves P m R \<Longrightarrow> (\<And>x. leaves (R x) (f x) Q) \<Longrightarrow> leaves P (bindM m f) Q"
  unfolding leaves_def wp_bind by (fastforce elim: wp_mono)

lemma leaves_weaken: "leaves P m R \<Longrightarrow> (\<And>x v. R x v \<Longrightarrow> Q x v) \<Longrightarrow> leaves P m Q"
  unfolding leaves_def by (fastforce elim: wp_mono)

lemma leaves_keeps:
  fixes m :: "(('d, 'z) pg_state_scheme, 'a) M"
  assumes "keeps m" and "lasts P"
  shows "leaves P m (\<lambda>_. P)"
  unfolding leaves_def
  using rk.tame_wp [OF assms(1)] assms(2) by (fastforce simp: lasts_def rows_kept_def elim: wp_mono)

lemma leaves_pass: "keeps m \<Longrightarrow> lasts P \<Longrightarrow> (\<And>x. leaves P (f x) Q) \<Longrightarrow> leaves P (bindM m f) Q"
  by (rule leaves_bind [OF leaves_keeps])

lemma leaves_before: "leaves R m Q \<Longrightarrow> (\<And>v. P v \<Longrightarrow> R v) \<Longrightarrow> leaves P m Q"
  unfolding leaves_def by blast

lemma leaves_return: "(\<And>v. P v \<Longrightarrow> Q x v) \<Longrightarrow> leaves P (returnM x) Q"
  by (simp add: leaves_def wp_return)

lemma leaves_raise: "leaves P (raiseM e) Q"
  by (simp add: leaves_def wp_raise)

lemma leaves_get_card:
  fixes f :: "card \<Rightarrow> (('d, 'z) pg_state_scheme, 'a) M"
  assumes "\<And>c. card_id c = cid \<Longrightarrow> leaves (\<lambda>v. P v \<and> card_stored c v) (f c) Q"
  shows "leaves P (bindM (pg_get_card sql cid) f) Q"
  unfolding leaves_def wp_bind
proof (intro allI impI, elim conjE)
  fix s :: "('d, 'z) pg_state_scheme"
  assume s: "valid (pg_database s)" "P (tables_of view s)"
  show "wp (pg_get_card sql cid) (\<lambda>c. wp (f c) (\<lambda>x t. valid (pg_database t) \<and> Q x (tables_of view t)) (\<lambda>_ _. True)) (\<lambda>_ _. True) s"
  proof (cases "tb_cards (tables_of view s) cid")
    case None
    then show ?thesis by (simp add: wp_pg_get_card card_rows [OF s(1)])
  next
    case (Some c)
    have "card_id c = cid" by (rule cards.keyed_law [OF s(1) Some])
    with Some have "card_stored c (tables_of view s)" by (auto simp: card_stored_def lease_kept_def intro: same_bucket)
    with assms [OF \<open>card_id c = cid\<close>] s Some show ?thesis
      by (simp add: wp_pg_get_card card_rows [OF s(1)] leaves_def)
  qed
qed

text \<open>The row of a lease that is read, and of what is inserted.\<close>

lemma leaves_get_lease:
  fixes f :: "lease \<Rightarrow> (('d, 'z) pg_state_scheme, 'a) M"
  assumes "\<And>l v. lease_id l = lid \<Longrightarrow> P v \<Longrightarrow> tb_leases v lid = Some l \<Longrightarrow> leaves (\<lambda>v. P v \<and> lease_stored l v) (f l) Q"
  shows "leaves P (bindM (pg_get_lease sql lid) f) Q"
  unfolding leaves_def wp_bind
proof (intro allI impI, elim conjE)
  fix s :: "('d, 'z) pg_state_scheme"
  assume s: "valid (pg_database s)" "P (tables_of view s)"
  show "wp (pg_get_lease sql lid) (\<lambda>l. wp (f l) (\<lambda>x t. valid (pg_database t) \<and> Q x (tables_of view t)) (\<lambda>_ _. True)) (\<lambda>_ _. True) s"
  proof (cases "tb_leases (tables_of view s) lid")
    case None
    then show ?thesis by (simp add: pg_get_lease_def wp_bind leases.wp_first_key [OF s(1)] wp_raise wp_return)
  next
    case (Some l)
    have "lease_id l = lid" by (rule leases.keyed_law [OF s(1) Some])
    with Some have "lease_stored l (tables_of view s)" by (auto simp: lease_stored_def lease_kept_def intro: same_bucket)
    with assms [OF \<open>lease_id l = lid\<close> s(2) Some] s Some show ?thesis
      by (simp add: pg_get_lease_def wp_bind leases.wp_first_key [OF s(1)] wp_raise wp_return leaves_def)
  qed
qed

lemma leaves_insert:
  assumes laws: "sql_table_laws tab valid view get put key refers"
    and put: "\<And>v. get v (key r) = None \<Longrightarrow>
      tables_kept v (put ((get v)(key r \<mapsto> r)) v) \<and> R (put ((get v)(key r \<mapsto> r)) v)"
    and P: "lasts P"
  shows "leaves P (insert_into tab r) (\<lambda>_ v. P v \<and> R v)"
  unfolding leaves_def
proof (intro allI impI, elim conjE)
  fix s :: "('d, 'z) pg_state_scheme"
  assume s: "valid (pg_database s)" "P (tables_of view s)"
  show "wp (insert_into tab r) (\<lambda>_ t. valid (pg_database t) \<and> P (tables_of view t) \<and> R (tables_of view t)) (\<lambda>_ _. True) s"
    by (rule sql_table_laws.wp_insert_into [OF laws s(1)]) (use put s(2) P in \<open>auto simp: lasts_def\<close>)
qed

lemma leaves_inserts:
  assumes "lasts P"
  shows "leaves P (insert_into (t_cards sql) c) (\<lambda>_ v. P v \<and> card_stored c v)"
    "leaves P (insert_into (t_leases sql) l) (\<lambda>_ v. P v \<and> lease_stored l v)"
    "leaves P (insert_into (t_card_events sql) e) (\<lambda>_ v. P v \<and> event_stored e v)"
    "leaves P (insert_into (t_artifacts sql) r) (\<lambda>_ v. P v \<and> artifacts_stored [r] v)"
    "leaves P (insert_into (t_idempotency_records sql) q) (\<lambda>_ v. P v \<and> key_stored (idem_key q) (idem_response_ref q) v)"
  by (rule leaves_insert [OF _ _ assms], rule cards.sql_table_laws_axioms leases.sql_table_laws_axioms events.sql_table_laws_axioms
      artifacts.sql_table_laws_axioms keys.sql_table_laws_axioms,
      auto simp: tables_kept_def lease_kept_def location_kept_def map_le_def card_stored_def lease_stored_def event_stored_def artifacts_stored_def
        key_stored_def intro: same_bucket)+

lemma leaves_artifacts:
  "lasts P \<Longrightarrow> leaves P (forM rs (insert_into (t_artifacts sql))) (\<lambda>_ v. P v \<and> artifacts_stored rs v)"
proof (induction rs arbitrary: P)
  case Nil
  then show ?case by (simp add: leaves_return artifacts_stored_def)
next
  case (Cons r rs)
  have "lasts (\<lambda>v. P v \<and> artifacts_stored [r] v)" using Cons.prems lasts_stored(4) by (rule lasts_conj)
  note rest = Cons.IH [OF this]
  show ?case
    unfolding forM.simps
    by (rule leaves_bind [OF leaves_inserts(4) [OF Cons.prems]], rule leaves_bind [OF rest])
      (auto intro: leaves_return simp: artifacts_stored_def)
qed

lemma leaves_log:
  assumes "lasts P"
  shows "leaves P (pg_log sql cid ty actor data) (\<lambda>e v. P v \<and> event_stored e v)"
  unfolding pg_log_def pg_insert_event_def new_card_event_def
  by (rule leaves_pass, intro keeps_rules, rule assms, rule leaves_bind [OF leaves_inserts(3) [OF assms]]) (simp add: leaves_return)

lemma leaves_caught:
  fixes m :: "(('d, 'z) pg_state_scheme, 'a) M"
  assumes "leaves P m Q"
  shows "leaves P (\<lambda>s. case m s of (Inl (IntegrityError x), u) \<Rightarrow> (Inl err, u) | r \<Rightarrow> r) Q"
  unfolding leaves_def by (intro allI impI wp_catch) (use assms in \<open>simp add: leaves_def\<close>)

lemma leaves_store:
  assumes "truthy key" and P: "lasts P"
  shows "leaves P (pg_store_idempotency sql key op ref) (\<lambda>_ v. P v \<and> key_stored (the key) ref v)"
  unfolding pg_store_idempotency_def
  by (simp only: assms(1) simp_thms if_False, rule leaves_pass [OF keeps_draw(2) P],
      rule leaves_weaken [OF leaves_caught [OF leaves_inserts(5) [OF P]]], simp)

text \<open>The end of a keyed call: the key is stored with the reference to what is returned.\<close>

lemma leaves_answer:
  assumes "truthy key" and "lasts P" and "\<And>v. P v \<Longrightarrow> key_stored (the key) ref v \<Longrightarrow> Q x v"
  shows "leaves P (bindM (pg_store_idempotency sql key op ref) (\<lambda>_. returnM x)) Q"
  by (rule leaves_bind [OF leaves_store [OF assms(1,2)]], rule leaves_return) (use assms(3) in blast)

lemmas lasting = lasts_const lasts_conj lasts_stored

text \<open>The bodies of the keyed calls.\<close>

lemma create_leaves:
  "truthy key \<Longrightarrow> leaves (\<lambda>_. True) (pg_create_body cd sql pid payload md key)
     (\<lambda>c v. key_stored (the key) (''card:'' @ uuid_str (card_id c)) v \<and> card_stored c v)"
  unfolding pg_create_body_def
  by (intro leaves_pass keeps_steps lasting leaves_bind [OF leaves_inserts(1)] leaves_answer) auto

lemma leaves_move_row:
  assumes P: "lasts P"
  shows "leaves P (pg_move_card_row sql c b actor reason emit) (\<lambda>d v. d = c\<lparr>card_current_bucket := b\<rparr> \<and> P v)"
  unfolding pg_move_card_row_def
  by (intro leaves_pass [OF _ P]) (auto intro!: keeps_steps leaves_return)

lemma leaves_lift: "(\<And>x. r = Inr x \<Longrightarrow> leaves P (f x) Q) \<Longrightarrow> leaves P (bindM (liftM r) f) Q"
  by (cases r) (auto simp: leaves_def wp_bind wp_lift)

lemma leaves_if: "(b \<Longrightarrow> leaves P m Q) \<Longrightarrow> (\<not> b \<Longrightarrow> leaves P n Q) \<Longrightarrow> leaves P (if b then m else n) Q"
  by simp

lemma leaves_transaction: "leaves P m Q \<Longrightarrow> leaves P (transaction sql m) Q"
  unfolding leaves_def wp_transaction by (fastforce simp: commit_law elim: wp_mono)

text \<open>A keyed call answers from the stored reference or runs its body.\<close>

lemma leaves_idempotently:
  fixes body :: "(('d, 'z) pg_state_scheme, 'a) M"
  assumes key: "truthy key" and replay: "\<And>ref. ref \<noteq> [] \<Longrightarrow> leaves (key_stored (the key) ref) (replay ref) Q"
    and body: "leaves P body Q"
  shows "leaves P (pg_idempotently sql key replay body) Q"
  unfolding leaves_def
proof (intro allI impI, elim conjE)
  fix s :: "('d, 'z) pg_state_scheme"
  assume s: "valid (pg_database s)" "P (tables_of view s)"
  let ?r = "tb_idempotency_records (tables_of view s) (the key)"
  have get: "wp (pg_get_idempotency sql key) R E s = R (map_option idem_response_ref ?r) s" for R E
    using key by (simp add: pg_get_idempotency_def wp_bind keys.wp_first_key [OF s(1)] wp_return)
  show "wp (pg_idempotently sql key replay body) (\<lambda>x t. valid (pg_database t) \<and> Q x (tables_of view t)) (\<lambda>_ _. True) s"
  proof (cases "truthy (map_option idem_response_ref ?r)")
    case True
    then obtain r where r: "?r = Some r" "idem_response_ref r \<noteq> []" by (auto simp: truthy_def split: option.splits)
    then have "key_stored (the key) (idem_response_ref r) (tables_of view s)" by (auto simp: key_stored_def)
    with replay [OF r(2)] s have "wp (replay (idem_response_ref r)) (\<lambda>x t. valid (pg_database t) \<and> Q x (tables_of view t)) (\<lambda>_ _. True) s"
      by (simp add: leaves_def)
    then show ?thesis using True r(1) by (simp add: pg_idempotently_def wp_bind get)
  next
    case False
    then show ?thesis using body s by (simp add: pg_idempotently_def wp_bind get leaves_def)
  qed
qed

lemma wp_replayed:
  assumes "truthy key" and "valid (pg_database s)" and "key_stored (the key) ref (tables_of view s)" and "ref \<noteq> []"
  shows "wp (pg_idempotently sql key replay body) Q E s = wp (replay ref) Q E s"
  using assms by (auto simp: pg_idempotently_def pg_get_idempotency_def wp_bind keys.wp_first_key wp_return key_stored_def truthy_def)

end

section \<open>Calls with a key\<close>

text \<open>A call of any runtime with its outcome.\<close>

fun ask :: "'s card_runtime \<Rightarrow> call \<Rightarrow> ('s, outcome) M" where
  "ask rt (Register p) = mapM OPanel (rt_register_patch_panel rt p)"
| "ask rt (Create pid payload md key) = mapM OCard (rt_create_card rt pid payload md key)"
| "ask rt (Claim pipe worker n key) = mapM OLease (rt_claim_card rt pipe worker n key)"
| "ask rt (Submit lid pipe refs key) = mapM OArtifacts (rt_submit_artifact rt lid pipe refs key)"
| "ask rt (Renew lid n key) = mapM OLease (rt_renew_lease rt lid n key)"
| "ask rt (Release lid actor key) = mapM OLease (rt_release_lease rt lid actor key)"
| "ask rt Expire = mapM OLeases (rt_expire_leases rt)"
| "ask rt (Validate cid v a r pipe payload key) = mapM OEvent (rt_validate_card rt cid v a r pipe payload key)"
| "ask rt (Move cid b actor r key) = mapM OCard (rt_move_card rt cid b actor r key)"
| "ask rt (Record cid ty actor payload key) = mapM OEvent (rt_record_event rt cid ty actor payload key)"

lemma snd_ask: "snd (ask rt c s) = call_runtime rt c s"
  by (cases c) (simp_all add: mapM_def split: prod.split sum.split)

text \<open>
  The release of a lease whose row is released already: it returns the lease and stores no key. The artifacts of a
  submission are remembered by their identifiers, joined with commas.
\<close>

fun rereleases :: "tables \<Rightarrow> call \<Rightarrow> bool" where
  "rereleases v (Release lid actor key) =
     (case tb_leases v lid of None \<Rightarrow> False | Some l \<Rightarrow> lease_released_at l \<noteq> None)"
| "rereleases v _ = False"

fun plain_ids :: "call \<Rightarrow> bool" where
  "plain_ids (Submit _ _ refs _) =
     (\<forall>r \<in> set refs. uuid_str (artifact_id r) \<noteq> [] \<and> CHR '','' \<notin> set (uuid_str (artifact_id r)))"
| "plain_ids _ = True"

text \<open>The answers of a call and of its retry: the same object, whose card may have moved or whose lease may have ended.\<close>

fun same_answer :: "outcome \<Rightarrow> outcome \<Rightarrow> bool" where
  "same_answer (OCard c) (OCard d) = (\<exists>b. d = c\<lparr>card_current_bucket := b\<rparr>)"
| "same_answer (OLease l) (OLease m) = lease_kept l m"
| "same_answer (OArtifacts rs) (OArtifacts qs) = (qs = rs)"
| "same_answer (OEvent e) (OEvent f) = (f = e)"
| "same_answer _ _ = False"

text \<open>The reference stored with the key leads to what was answered.\<close>

fun answers :: "pg_codecs \<Rightarrow> string \<Rightarrow> outcome \<Rightarrow> tables \<Rightarrow> bool" where
  "answers cd ref (OCard c) v = (pg_parse_uuid cd (removeprefix ''card:'' ref) = Inr (card_id c) \<and> card_stored c v)"
| "answers cd ref (OLease l) v = (pg_parse_uuid cd (removeprefix ''lease:'' ref) = Inr (lease_id l) \<and> lease_stored l v)"
| "answers cd ref (OEvent e) v = (pg_parse_uuid cd (removeprefix ''event:'' ref) = Inr (event_id e) \<and> event_stored e v)"
| "answers cd ref (OArtifacts rs) v =
     ((if take (length ''artifact:'') ref = ''artifact:''
       then map_res (pg_parse_uuid cd) [removeprefix ''artifact:'' ref]
       else map_res (pg_parse_uuid cd) (comma_parts [] (removeprefix ''artifacts:'' ref))) = Inr (map artifact_id rs) \<and>
      artifacts_stored rs v)"
| "answers _ _ _ _ = False"

definition answered :: "pg_codecs \<Rightarrow> string option \<Rightarrow> outcome \<Rightarrow> tables \<Rightarrow> bool" where
  "answered cd key o' v \<longleftrightarrow> (\<exists>ref. ref \<noteq> [] \<and> key_stored (the key) ref v \<and> answers cd ref o' v)"

lemma lasts_answered: "lasts (answered cd key o')"
proof -
  have "answers cd ref o' v \<Longrightarrow> tables_kept v w \<Longrightarrow> answers cd ref o' w" for ref v w
    by (cases o') (use lasts_stored [unfolded lasts_def] in auto)
  then have "lasts (answers cd ref o')" for ref by (auto simp: lasts_def)
  then show ?thesis using lasts_stored(5) unfolding lasts_def answered_def by blast
qed

text \<open>Reading back the identifiers of a submission.\<close>

lemma comma_parts_append:
  "CHR '','' \<notin> set x \<Longrightarrow> comma_parts acc (x @ s) = comma_parts (rev x @ acc) s"
  by (induction x arbitrary: acc) auto

lemma comma_parts_join:
  assumes "\<forall>x \<in> set xs. x \<noteq> [] \<and> CHR '','' \<notin> set x"
  shows "comma_parts [] (join '','' xs) = xs"
proof (cases xs)
  case Nil
  then show ?thesis by (simp add: join_def)
next
  case (Cons y ys)
  have "comma_parts (rev y) (concat (map ((@) '','') ys)) = y # ys" if "y \<noteq> []" "\<forall>x \<in> set ys. x \<noteq> [] \<and> CHR '','' \<notin> set x" for y
    using that
  proof (induction ys arbitrary: y)
    case (Cons z zs)
    then show ?case using Cons.IH [of z] by (simp add: comma_parts_append)
  qed simp
  from this [of y] show ?thesis using assms Cons by (simp add: join_def comma_parts_append del: append.simps)
qed

lemma forM_lift: "forM xs (\<lambda>x. liftM (f x)) = liftM (map_res f xs)"
  by (induction xs) (auto simp: fun_eq_iff run_defs split: sum.split)

context sql_database
begin

lemma leaves_get_event:
  "leaves P (pg_get_event sql eid) (\<lambda>e v. event_id e = eid \<and> P v \<and> event_stored e v)"
  unfolding leaves_def pg_get_event_def wp_bind
  by (auto simp: events.wp_first_key wp_raise wp_return event_stored_def events.keyed_law split: option.split)

lemma by_id_get: "dict_get (map (\<lambda>r. (f r, r)) rows) i = find (\<lambda>r. f r = i) rows"
  by (induction rows) auto

lemma get_artifacts_run:
  assumes s: "valid (pg_database s)"
  shows "wp (pg_get_artifacts sql ids) Q E s =
    (case filter (\<lambda>i. tb_artifacts (tables_of view s) i = None) ids of
       i # _ \<Rightarrow> E (NotFoundError (''artifact '' @ quoted (uuid_str i) @ '' does not exist'')) s
     | [] \<Rightarrow> Q (map (\<lambda>i. the (tb_artifacts (tables_of view s) i)) ids) s)"
proof -
  let ?rows = "sql_select (t_artifacts sql) (\<lambda>r. artifact_id r \<in> set ids) (pg_database s)"
  have "find (\<lambda>r. artifact_id r = i) ?rows = tb_artifacts (tables_of view s) i" if "i \<in> set ids" for i
  proof (cases "tb_artifacts (tables_of view s) i")
    case None
    then have "\<forall>r \<in> set ?rows. artifact_id r \<noteq> i"
      using artifacts.keyed_law [OF s] unfolding conjunct1 [OF artifacts.select_law [OF s]] by (auto simp: ran_def)
    with None show ?thesis by (auto simp: find_None_iff)
  next
    case (Some r)
    then have r: "r \<in> set ?rows" "artifact_id r = i"
      using artifacts.keyed_law [OF s Some] that unfolding conjunct1 [OF artifacts.select_law [OF s]] by (auto intro: ranI)
    then obtain q where q: "find (\<lambda>r. artifact_id r = i) ?rows = Some q" by (cases "find (\<lambda>r. artifact_id r = i) ?rows") (auto simp: find_None_iff)
    then have "q \<in> set ?rows" "artifact_id q = i" by (auto dest: find_SomeD)
    then have "tb_artifacts (tables_of view s) i = Some q"
      using artifacts.keyed_law [OF s] unfolding conjunct1 [OF artifacts.select_law [OF s]] by (auto simp: ran_def)
    with q show ?thesis by simp
  qed
  then have rows: "map (\<lambda>i. the (find (\<lambda>r. artifact_id r = i) ?rows)) ids = map (\<lambda>i. the (tb_artifacts (tables_of view s) i)) ids"
    and missing: "filter (\<lambda>i. find (\<lambda>r. artifact_id r = i) ?rows = None) ids = filter (\<lambda>i. tb_artifacts (tables_of view s) i = None) ids"
    by (auto intro: filter_cong)
  show ?thesis
  proof (cases "ids = []")
    case False
    then show ?thesis
      unfolding pg_get_artifacts_def by (simp add: wp_rules by_id_get Let_def rows missing del: map_eq_conv split: list.split)
  qed (simp add: pg_get_artifacts_def wp_return)
qed

lemma leaves_get_artifacts:
  "leaves P (pg_get_artifacts sql ids) (\<lambda>rs v. map artifact_id rs = ids \<and> P v \<and> artifacts_stored rs v)"
  unfolding leaves_def
proof (intro allI impI, elim conjE)
  fix s :: "('d, 'z) pg_state_scheme"
  assume s: "valid (pg_database s)" "P (tables_of view s)"
  show "wp (pg_get_artifacts sql ids)
      (\<lambda>rs t. valid (pg_database t) \<and> map artifact_id rs = ids \<and> P (tables_of view t) \<and> artifacts_stored rs (tables_of view t)) (\<lambda>_ _. True) s"
  proof (cases "filter (\<lambda>i. tb_artifacts (tables_of view s) i = None) ids")
    case Nil
    then have rows: "tb_artifacts (tables_of view s) i = Some (the (tb_artifacts (tables_of view s) i))" if "i \<in> set ids" for i
      using that by (auto simp: filter_empty_conv)
    then have "artifact_id (the (tb_artifacts (tables_of view s) i)) = i" if "i \<in> set ids" for i
      using artifacts.keyed_law [OF s(1)] that by blast
    with rows show ?thesis using s by (simp add: get_artifacts_run [OF s(1)] Nil artifacts_stored_def map_idI)
  next
    case (Cons i rest)
    then show ?thesis by (simp add: get_artifacts_run [OF s(1)])
  qed
qed

lemma leaves_replays:
  assumes "ref \<noteq> []"
  shows "leaves (key_stored (the key) ref) (bindM (liftM (pg_parse_uuid cd (removeprefix ''card:'' ref))) (pg_get_card sql))
      (\<lambda>c. answered cd key (OCard c))"
    and "leaves (key_stored (the key) ref) (pg_replay_lease cd sql ref) (\<lambda>l. answered cd key (OLease l))"
    and "leaves (key_stored (the key) ref) (pg_replay_event cd sql ref) (\<lambda>e. answered cd key (OEvent e))"
    and "leaves (key_stored (the key) ref) (pg_replay_artifacts cd sql ref) (\<lambda>rs. answered cd key (OArtifacts rs))"
proof -
  have card: "leaves P (pg_get_card sql i) (\<lambda>c v. card_id c = i \<and> P v \<and> card_stored c v)" for P i
    using leaves_get_card [of i P returnM "\<lambda>c v. card_id c = i \<and> P v \<and> card_stored c v"] by (simp add: bind_returns leaves_return)
  have lease: "leaves P (pg_get_lease sql i) (\<lambda>l v. lease_id l = i \<and> P v \<and> lease_stored l v)" for P i
    using leaves_get_lease [of i P returnM "\<lambda>l v. lease_id l = i \<and> P v \<and> lease_stored l v"] by (simp add: bind_returns leaves_return)
  show "leaves (key_stored (the key) ref) (bindM (liftM (pg_parse_uuid cd (removeprefix ''card:'' ref))) (pg_get_card sql))
      (\<lambda>c. answered cd key (OCard c))"
    by (rule leaves_lift, rule leaves_weaken [OF card]) (use assms in \<open>auto simp: answered_def\<close>)
  show "leaves (key_stored (the key) ref) (pg_replay_lease cd sql ref) (\<lambda>l. answered cd key (OLease l))"
    unfolding pg_replay_lease_def
    by (rule leaves_lift, rule leaves_weaken [OF lease]) (use assms in \<open>auto simp: answered_def\<close>)
  show "leaves (key_stored (the key) ref) (pg_replay_event cd sql ref) (\<lambda>e. answered cd key (OEvent e))"
    unfolding pg_replay_event_def
    by (rule leaves_lift, rule leaves_weaken [OF leaves_get_event]) (use assms in \<open>auto simp: answered_def\<close>)
  show "leaves (key_stored (the key) ref) (pg_replay_artifacts cd sql ref) (\<lambda>rs. answered cd key (OArtifacts rs))"
    unfolding pg_replay_artifacts_def forM_lift
    by (rule leaves_if; rule leaves_lift, rule leaves_weaken [OF leaves_get_artifacts])
       (use assms in \<open>fastforce simp: answered_def\<close>)+
qed

text \<open>The call that finds its key answers again and leaves the tables as they are.\<close>

lemma again_card:
  assumes "truthy key" and u: "valid (pg_database u)" and "answered cd key (OCard c) (tables_of view u)"
  shows "wp (transaction sql (pg_idempotently sql key
      (\<lambda>ref. bindM (liftM (pg_parse_uuid cd (removeprefix ''card:'' ref))) (pg_get_card sql)) body))
    (\<lambda>d t. same_answer (OCard c) (OCard d) \<and> tables_of view t = tables_of view u) (\<lambda>_ _. False) u"
proof -
  from assms(3) obtain ref b where "ref \<noteq> []" "key_stored (the key) ref (tables_of view u)"
    "pg_parse_uuid cd (removeprefix ''card:'' ref) = Inr (card_id c)"
    "tb_cards (tables_of view u) (card_id c) = Some (c\<lparr>card_current_bucket := b\<rparr>)"
    by (auto simp: answered_def card_stored_def)
  then show ?thesis
    using u assms(1) by (auto simp: wp_transaction wp_replayed wp_bind wp_lift wp_pg_get_card card_rows commit_law)
qed

lemma again_lease:
  assumes "truthy key" and u: "valid (pg_database u)" and "answered cd key (OLease l) (tables_of view u)"
  shows "wp (transaction sql (pg_idempotently sql key (pg_replay_lease cd sql) body))
    (\<lambda>m t. same_answer (OLease l) (OLease m) \<and> tables_of view t = tables_of view u) (\<lambda>_ _. False) u"
proof -
  from assms(3) obtain ref m where "ref \<noteq> []" "key_stored (the key) ref (tables_of view u)"
    "pg_parse_uuid cd (removeprefix ''lease:'' ref) = Inr (lease_id l)"
    "tb_leases (tables_of view u) (lease_id l) = Some m" "lease_kept l m"
    by (auto simp: answered_def lease_stored_def)
  then show ?thesis
    using u assms(1)
    by (auto simp: wp_transaction wp_replayed pg_replay_lease_def pg_get_lease_def wp_bind wp_lift wp_return
        leases.wp_first_key commit_law)
qed

lemma again_event:
  assumes "truthy key" and u: "valid (pg_database u)" and "answered cd key (OEvent e) (tables_of view u)"
  shows "wp (transaction sql (pg_idempotently sql key (pg_replay_event cd sql) body))
    (\<lambda>f t. same_answer (OEvent e) (OEvent f) \<and> tables_of view t = tables_of view u) (\<lambda>_ _. False) u"
proof -
  from assms(3) obtain ref where "ref \<noteq> []" "key_stored (the key) ref (tables_of view u)"
    "pg_parse_uuid cd (removeprefix ''event:'' ref) = Inr (event_id e)"
    "tb_card_events (tables_of view u) (event_id e) = Some e"
    by (auto simp: answered_def event_stored_def)
  then show ?thesis
    using u assms(1)
    by (auto simp: wp_transaction wp_replayed pg_replay_event_def pg_get_event_def wp_bind wp_lift wp_return
        events.wp_first_key commit_law)
qed

lemma again_artifacts:
  assumes "truthy key" and u: "valid (pg_database u)" and "answered cd key (OArtifacts rs) (tables_of view u)"
  shows "wp (transaction sql (pg_idempotently sql key (pg_replay_artifacts cd sql) body))
    (\<lambda>qs t. same_answer (OArtifacts rs) (OArtifacts qs) \<and> tables_of view t = tables_of view u) (\<lambda>_ _. False) u"
proof -
  from assms(3) obtain ref where ref: "ref \<noteq> []" "key_stored (the key) ref (tables_of view u)"
    and ids: "(if take (length ''artifact:'') ref = ''artifact:''
       then map_res (pg_parse_uuid cd) [removeprefix ''artifact:'' ref]
       else map_res (pg_parse_uuid cd) (comma_parts [] (removeprefix ''artifacts:'' ref))) = Inr (map artifact_id rs)"
    and rows: "\<forall>r \<in> set rs. tb_artifacts (tables_of view u) (artifact_id r) = Some r"
    by (auto simp: answered_def artifacts_stored_def)
  have "filter (\<lambda>i. tb_artifacts (tables_of view u) i = None) (map artifact_id rs) = []"
    using rows by (auto simp: filter_empty_conv)
  moreover have "map (\<lambda>i. the (tb_artifacts (tables_of view u) i)) (map artifact_id rs) = rs"
    using rows by (simp add: map_idI)
  ultimately have get: "wp (pg_get_artifacts sql (map artifact_id rs)) Q E u = Q rs u" for Q E
    by (simp add: get_artifacts_run [OF u] del: map_map filter_map)
  have "wp (pg_replay_artifacts cd sql ref) Q E u = Q rs u" for Q E
    using ids get by (auto simp: pg_replay_artifacts_def forM_lift wp_bind wp_lift split: if_splits sum.splits)
  then show ?thesis
    using u ref assms(1) by (simp add: wp_transaction wp_replayed commit_law)
qed

text \<open>What is remembered with the key of a call that returned.\<close>

lemma answeredI:
  "key_stored (the key) ref v \<Longrightarrow> ref \<noteq> [] \<Longrightarrow> answers cd ref out v \<Longrightarrow> answered cd key out v"
  by (auto simp: answered_def)

lemma answers_removed: "removeprefix ''card:'' (''card:'' @ x) = x" "removeprefix ''lease:'' (''lease:'' @ x) = x"
    "removeprefix ''event:'' (''event:'' @ x) = x" "removeprefix ''artifacts:'' (''artifacts:'' @ x) = x"
  by (simp_all add: removeprefix_def)

lemma parse_all: "(\<And>i. pg_parse_uuid cd (uuid_str i) = Inr i) \<Longrightarrow> map_res (pg_parse_uuid cd) (map uuid_str xs) = Inr xs"
  by (induction xs) simp_all

lemma leaves_cases:
  "(\<And>a b. leaves P (f a b) Q) \<Longrightarrow> leaves P (case x of (a, b) \<Rightarrow> f a b) Q"
  "leaves P m Q \<Longrightarrow> (\<And>a. leaves P (g a) Q) \<Longrightarrow> leaves P (case r of None \<Rightarrow> m | Some a \<Rightarrow> g a) Q"
  by (auto split: prod.split option.split)

lemma answered_reference:
  assumes parse: "\<And>i. pg_parse_uuid cd (uuid_str i) = Inr i"
  shows "key_stored (the key) (''card:'' @ uuid_str (card_id c)) v \<Longrightarrow> card_stored c v \<Longrightarrow> answered cd key (OCard c) v"
    "key_stored (the key) (''lease:'' @ uuid_str (lease_id l)) v \<Longrightarrow> lease_stored l v \<Longrightarrow> answered cd key (OLease l) v"
    "key_stored (the key) (''event:'' @ uuid_str (event_id e)) v \<Longrightarrow> event_stored e v \<Longrightarrow> answered cd key (OEvent e) v"
  by (rule answeredI, assumption, simp, simp add: parse answers_removed del: append.simps)+

text \<open>A keyed call answers as its body does, or as its key says.\<close>

lemma leaves_keyed:
  assumes "truthy key"
  shows "leaves (\<lambda>_. True) body (\<lambda>c. answered cd key (OCard c)) \<Longrightarrow>
      leaves (\<lambda>_. True) (transaction sql (pg_idempotently sql key
        (\<lambda>ref. bindM (liftM (pg_parse_uuid cd (removeprefix ''card:'' ref))) (pg_get_card sql)) body)) (\<lambda>c. answered cd key (OCard c))"
    and "leaves (\<lambda>_. True) lbody (\<lambda>l. answered cd key (OLease l)) \<Longrightarrow>
      leaves (\<lambda>_. True) (transaction sql (pg_idempotently sql key (pg_replay_lease cd sql) lbody)) (\<lambda>l. answered cd key (OLease l))"
    and "leaves (\<lambda>_. True) ebody (\<lambda>e. answered cd key (OEvent e)) \<Longrightarrow>
      leaves (\<lambda>_. True) (transaction sql (pg_idempotently sql key (pg_replay_event cd sql) ebody)) (\<lambda>e. answered cd key (OEvent e))"
    and "leaves (\<lambda>_. True) abody (\<lambda>rs. answered cd key (OArtifacts rs)) \<Longrightarrow>
      leaves (\<lambda>_. True) (transaction sql (pg_idempotently sql key (pg_replay_artifacts cd sql) abody)) (\<lambda>rs. answered cd key (OArtifacts rs))"
  by (intro leaves_transaction leaves_idempotently [OF assms] leaves_replays, assumption+)+

lemma leaves_keyed_lease:
  assumes "truthy key" and "leaves P body (\<lambda>l. answered cd key (OLease l))"
  shows "leaves P (transaction sql (pg_idempotently sql key (pg_replay_lease cd sql) body)) (\<lambda>l. answered cd key (OLease l))"
  by (intro leaves_transaction leaves_idempotently [OF assms(1)] leaves_replays assms(2))

lemma leaves_create:
  assumes key: "truthy key" and parse: "\<And>i. pg_parse_uuid cd (uuid_str i) = Inr i"
  shows "leaves (\<lambda>_. True) (pg_create_card cd sql pid payload md key) (\<lambda>c. answered cd key (OCard c))"
  unfolding pg_create_card_def
  by (rule leaves_keyed(1) [OF key], rule leaves_weaken [OF create_leaves [OF key]]) (blast intro: answered_reference [OF parse])

lemma leaves_claim:
  assumes key: "truthy key" and parse: "\<And>i. pg_parse_uuid cd (uuid_str i) = Inr i"
  shows "leaves (\<lambda>_. True) (pg_claim_card cd sql pipe worker n key) (\<lambda>l. answered cd key (OLease l))"
  unfolding pg_claim_card_def
  by (rule leaves_keyed(2) [OF key], (rule lasting leaves_raise leaves_cases leaves_lift leaves_answer [OF key]
      leaves_bind [OF leaves_inserts(2)] | rule leaves_pass | intro keeps_steps)+) (auto intro: answered_reference [OF parse])

lemma leaves_renew:
  assumes key: "truthy key" and parse: "\<And>i. pg_parse_uuid cd (uuid_str i) = Inr i"
  shows "leaves (\<lambda>_. True) (pg_renew_lease cd sql lid n key) (\<lambda>l. answered cd key (OLease l))"
  unfolding pg_renew_lease_def
  by (rule leaves_keyed(2) [OF key], rule leaves_get_lease, (rule lasting leaves_lift leaves_answer [OF key] | rule leaves_pass |
      intro keeps_steps)+, rule answered_reference [OF parse]) (auto simp: lease_stored_def lease_kept_def)

lemma leaves_mark_released:
  assumes "l' = l\<lparr>lease_released_at := Some t\<rparr>"
  shows "leaves (lease_stored l) (update_where (t_leases sql) (\<lambda>r. lease_id r = lease_id l) (\<lambda>r. r\<lparr>lease_released_at := Some t\<rparr>))
    (\<lambda>_. lease_stored l')"
  unfolding leaves_def
proof (intro allI impI, elim conjE)
  fix s :: "('d, 'z) pg_state_scheme"
  assume s: "valid (pg_database s)" "lease_stored l (tables_of view s)"
  then obtain m where m: "tb_leases (tables_of view s) (lease_id l) = Some m" "lease_kept l m"
    by (auto simp: lease_stored_def)
  show "wp (update_where (t_leases sql) (\<lambda>r. lease_id r = lease_id l) (\<lambda>r. r\<lparr>lease_released_at := Some t\<rparr>))
      (\<lambda>_ t. valid (pg_database t) \<and> lease_stored l' (tables_of view t)) (\<lambda>_ _. True) s"
    by (rule leases.wp_update [OF s(1)]) (use m assms in \<open>auto simp: lease_stored_def lease_kept_def\<close>)
qed

lemma leaves_release:
  assumes key: "truthy key" and parse: "\<And>i. pg_parse_uuid cd (uuid_str i) = Inr i"
  shows "leaves (\<lambda>v. \<not> rereleases v (Release lid actor key)) (pg_release_lease cd sql lid actor key) (\<lambda>l. answered cd key (OLease l))"
  unfolding pg_release_lease_def
proof (rule leaves_keyed_lease [OF key], rule leaves_get_lease, goal_cases)
  case (1 l v)
  then have open_lease: "lease_released_at l = None" by simp
  have "leaves (lease_stored l)
      (if lease_released_at l \<noteq> None then returnM l
       else bindM now_utc (\<lambda>t.
          bindM (update_where (t_leases sql) (\<lambda>r. lease_id r = lease_id l) (\<lambda>r. r\<lparr>lease_released_at := Some t\<rparr>)) (\<lambda>_.
          bindM (pg_log sql (lease_card_id l) ''lease_released'' (or_else actor (Some (lease_worker_id l)))
                   [(''lease_id'', JStr (uuid_str (lease_id l)))]) (\<lambda>_.
          bindM (pg_store_idempotency sql key ''lease.release'' (''lease:'' @ uuid_str (lease_id l))) (\<lambda>_.
          returnM (l\<lparr>lease_released_at := Some t\<rparr>))))))
      (\<lambda>l. answered cd key (OLease l))"
    unfolding open_lease not_True_eq_False if_False simp_thms
    by (rule leaves_pass [OF keeps_draw(2)], rule lasting, rule leaves_bind [OF leaves_mark_released [OF refl]],
        (rule lasting leaves_answer [OF key] | rule leaves_pass | intro keeps_steps)+)
      (rule answered_reference [OF parse], auto simp: lease_stored_def lease_kept_def)
  then show ?case by (rule leaves_before) simp
qed

lemma leaves_record:
  assumes key: "truthy key" and parse: "\<And>i. pg_parse_uuid cd (uuid_str i) = Inr i"
  shows "leaves (\<lambda>_. True) (pg_record_event cd sql cid ty actor data key) (\<lambda>e. answered cd key (OEvent e))"
  unfolding pg_record_event_def
  by (rule leaves_keyed(3) [OF key], (rule lasting leaves_bind [OF leaves_log] leaves_answer [OF key] | rule leaves_pass |
      intro keeps_steps)+) (auto intro: answered_reference [OF parse])

lemma leaves_validate:
  assumes key: "truthy key" and parse: "\<And>i. pg_parse_uuid cd (uuid_str i) = Inr i"
  shows "leaves (\<lambda>_. True) (pg_validate_card cd sql cid v a r opipe data key) (\<lambda>e. answered cd key (OEvent e))"
  unfolding pg_validate_card_def Let_def
  by (rule leaves_keyed(3) [OF key], (rule lasting leaves_bind [OF leaves_log] leaves_answer [OF key] | rule leaves_pass |
      intro keeps_steps | (auto intro!: keeps_steps; fail))+) (auto intro: answered_reference [OF parse])

lemma leaves_move:
  assumes key: "truthy key" and parse: "\<And>i. pg_parse_uuid cd (uuid_str i) = Inr i"
  shows "leaves (\<lambda>_. True) (pg_move_card cd sql cid b actor r key) (\<lambda>c. answered cd key (OCard c))"
  unfolding pg_move_card_def Let_def
  by (rule leaves_keyed(1) [OF key], rule leaves_get_card, (rule lasting leaves_lift leaves_bind [OF leaves_move_row]
      leaves_answer [OF key] | rule leaves_pass | intro keeps_steps)+, rule answered_reference [OF parse]) (auto simp: card_stored_def)

lemma artifacts_answered:
  assumes parse: "\<And>i. pg_parse_uuid cd (uuid_str i) = Inr i"
    and names: "\<forall>r \<in> set rs. uuid_str (artifact_id r) \<noteq> [] \<and> CHR '','' \<notin> set (uuid_str (artifact_id r))"
    and stored: "key_stored (the key) (''artifacts:'' @ join '','' (map (uuid_str \<circ> artifact_id) rs)) v" "artifacts_stored rs v"
  shows "answered cd key (OArtifacts rs) v"
proof (rule answeredI [OF stored(1)])
  have "comma_parts [] (join '','' (map (uuid_str \<circ> artifact_id) rs)) = map uuid_str (map artifact_id rs)"
    using names by (subst comma_parts_join) auto
  moreover have "take (length ''artifact:'') (''artifacts:'' @ x) \<noteq> ''artifact:''" for x by simp
  ultimately show "answers cd (''artifacts:'' @ join '','' (map (uuid_str \<circ> artifact_id) rs)) (OArtifacts rs) v"
    using stored(2) unfolding answers.simps answers_removed by (simp only: parse_all [OF parse] if_False simp_thms)
qed simp

lemma leaves_submit:
  assumes key: "truthy key" and parse: "\<And>i. pg_parse_uuid cd (uuid_str i) = Inr i"
    and names: "\<forall>r \<in> set refs. uuid_str (artifact_id r) \<noteq> [] \<and> CHR '','' \<notin> set (uuid_str (artifact_id r))"
  shows "leaves (\<lambda>_. True) (pg_submit_artifact cd sql lid pipe refs key) (\<lambda>rs. answered cd key (OArtifacts rs))"
  unfolding pg_submit_artifact_def Let_def
  by (rule leaves_keyed(4) [OF key], (rule lasting leaves_raise leaves_if leaves_cases leaves_lift leaves_bind [OF leaves_artifacts]
      leaves_answer [OF key] | rule leaves_pass | intro keeps_steps)+, rule artifacts_answered [OF parse]) (use names in auto)

section \<open>Calls of the durable runtime\<close>

lemma atomic_mapM: "atomic m \<Longrightarrow> atomic (mapM f m)"
  by (simp add: atomic_def wp_mapM)

lemma atomic_ask: "atomic (ask (postgres_runtime nx cd sql) c)"
  by (cases c) (simp_all add: postgres_runtime_def atomic_mapM atomic_calls)

lemma calls_keep:
  fixes s :: "('d, 'z) pg_state_scheme"
  assumes "valid (pg_database s)"
  shows "valid (pg_database (fold (call_runtime (postgres_runtime nx cd sql)) calls s)) \<and>
    rows_kept view s (fold (call_runtime (postgres_runtime nx cd sql)) calls s)"
  using assms
proof (induction calls arbitrary: s)
  case (Cons c calls)
  let ?t = "call_runtime (postgres_runtime nx cd sql) c s"
  have "wp (ask (postgres_runtime nx cd sql) c) (\<lambda>_ t. valid (pg_database t) \<and> rows_kept view s t)
      (\<lambda>_ t. valid (pg_database t) \<and> rows_kept view s t) s"
    by (rule wp_mono [OF atomic_ask [unfolded atomic_def, rule_format, OF Cons.prems]])
       (auto simp: rows_kept_def intro: tables_kept_refl)
  then have "valid (pg_database ?t)" "rows_kept view s ?t"
    unfolding snd_ask [symmetric] by (auto dest: snd_wp)
  with Cons.IH [of ?t] show ?case by (auto simp: rows_kept_def intro: tables_kept_trans)
qed (simp add: rows_kept_def tables_kept_refl)

text \<open>A keyed call and its retry.\<close>

lemma leaves_mapM: "leaves P m (\<lambda>x. Q (f x)) \<Longrightarrow> leaves P (mapM f m) Q"
  by (simp add: leaves_def wp_mapM)

lemma leaves_ask:
  assumes "call_key c = Some k" and "k \<noteq> []" and "plain_ids c" and "\<And>i. pg_parse_uuid cd (uuid_str i) = Inr i"
  shows "leaves (\<lambda>v. \<not> rereleases v c) (ask (postgres_runtime nx cd sql) c) (answered cd (Some k))"
proof (cases c)
  case (Release lid actor key)
  then show ?thesis
    using assms by (auto simp: postgres_runtime_def simp del: rereleases.simps intro!: leaves_mapM leaves_release)
qed (use assms in \<open>auto simp: postgres_runtime_def
      intro!: leaves_mapM leaves_create leaves_claim leaves_submit leaves_renew leaves_validate leaves_move leaves_record\<close>)

lemma again_ask:
  assumes key: "call_key c = Some k" "k \<noteq> []" and u: "valid (pg_database u)" "answered cd (Some k) out (tables_of view u)"
    and first: "ask (postgres_runtime nx cd sql) c s = (Inr out, t)"
  shows "wp (ask (postgres_runtime nx cd sql) c) (\<lambda>out' w. same_answer out out' \<and> tables_of view w = tables_of view u)
    (\<lambda>_ _. False) u"
  using assms
  by (cases c) (auto simp: postgres_runtime_def pg_create_card_def pg_claim_card_def pg_submit_artifact_def pg_renew_lease_def
      pg_release_lease_def pg_validate_card_def pg_move_card_def pg_record_event_def fun_cong [OF mapM_def] wp_mapM
      simp del: same_answer.simps split: if_splits prod.splits sum.splits
      intro!: again_card again_lease again_event again_artifacts)

end

text \<open>
  Property C33. A durable call is all or nothing: whatever the call, when it raises, no row of any table differs from
  before, even if it had written some; and when it returns, every row of the sixteen tables in use that was there still is.
  At most these fields of it have changed: the bucket of a card, the expiry and release of a lease (a released one stays
  released), the status and exit time of a location of a card. The tables of participants, roles, assignments, grants,
  audit events and registry entries are as before.
\<close>

theorem durable_failed_call_changes_nothing:
  fixes s :: "('d, 'z) pg_state_scheme"
  assumes "sql_database sql valid view" and "valid (pg_database s)"
  shows "case ask (postgres_runtime nx cd sql) c s of
      (Inl e, t) \<Rightarrow> view (pg_database t) = view (pg_database s)
    | (Inr out, t) \<Rightarrow> tables_kept (view (pg_database s)) (view (pg_database t))"
proof -
  have "wp (ask (postgres_runtime nx cd sql) c) (\<lambda>_ t. valid (pg_database t) \<and> rows_kept view s t)
      (\<lambda>_ t. valid (pg_database t) \<and> tables_of view t = tables_of view s) s"
    using sql_database.atomic_ask [OF assms(1)] assms(2) unfolding sql_database.atomic_def [OF assms(1)] by blast
  then show ?thesis by (auto simp: wp_def rows_kept_def split: prod.splits sum.splits)
qed

theorem durable_failed_call_changes_nothing_witness:
  "\<exists>e t. ask (postgres_runtime list_networkx sample_codecs list_sql)
      (Validate (card_id sample_card) ''ann'' True None (Some ''nowhere'') None None) sample_board = (Inl e, t) \<and>
     list_view (pg_database t) = list_view (pg_database sample_board)"
proof -
  have "case ask (postgres_runtime list_networkx sample_codecs list_sql)
      (Validate (card_id sample_card) ''ann'' True None (Some ''nowhere'') None None) sample_board of
      (Inl _, _) \<Rightarrow> True | _ \<Rightarrow> False"
    by code_simp
  moreover have "list_valid (pg_database sample_board)" using sample_board_ok by (simp add: pg_lease_ok_def)
  ultimately show ?thesis
    using durable_failed_call_changes_nothing [OF list_db.sql_database_axioms, of sample_board list_networkx sample_codecs
        "Validate (card_id sample_card) ''ann'' True None (Some ''nowhere'') None None"]
    by (auto split: prod.splits sum.splits)
qed

text \<open>
  Property C34. A durable call with a non-empty idempotency key can be repeated: once it has returned, then after any
  calls that others make, with the same key or other keys, the same call returns again, answers with the same object and
  changes no row. The card or the lease it answers with is the row as it is by then. The exception is the release of a
  lease that was released before the call, which stores no key. It relies on identifiers whose text is read back as
  the same identifier, and for a submission on artifact identifiers whose texts are not empty and hold no comma.
\<close>

theorem durable_idempotent_replay:
  fixes s :: "('d, 'z) pg_state_scheme"
  assumes db: "sql_database sql valid view" and s: "valid (pg_database s)"
    and parse: "\<And>i. pg_parse_uuid cd (uuid_str i) = Inr i" and ids: "plain_ids c"
    and key: "call_key c = Some k" "k \<noteq> []" and effect: "\<not> rereleases (view (pg_database s)) c"
    and first: "ask (postgres_runtime nx cd sql) c s = (Inr out, t)"
    and others: "u = fold (call_runtime (postgres_runtime nx cd sql)) calls t"
  shows "\<exists>out' w. ask (postgres_runtime nx cd sql) c u = (Inr out', w) \<and> same_answer out out' \<and>
    view (pg_database w) = view (pg_database u)"
proof -
  note leaves = sql_database.leaves_ask [OF db key ids parse, of nx, unfolded sql_database.leaves_def [OF db]]
  have t: "valid (pg_database t)" "answered cd (Some k) out (tables_of view t)"
    using leaves s effect first by (auto simp: wp_def)
  have u: "valid (pg_database u)" "rows_kept view t u"
    unfolding others using sql_database.calls_keep [OF db t(1)] by blast+
  then have "answered cd (Some k) out (tables_of view u)"
    using t(2) lasts_answered unfolding lasts_def rows_kept_def by blast
  from sql_database.again_ask [OF db key u(1) this first] show ?thesis
    by (auto simp: wp_def split: prod.splits sum.splits)
qed

text \<open>The claim of the board's card is repeated after its lease was released with a key, and so is that release.\<close>

theorem durable_idempotent_replay_witness:
  "\<exists>l t m w x. ask (postgres_runtime list_networkx sample_codecs list_sql) (Claim ''w.in'' ''ann'' 60 (Some ''k'')) sample_board =
       (Inr (OLease l), t) \<and>
     ask (postgres_runtime list_networkx sample_codecs list_sql) (Claim ''w.in'' ''ann'' 60 (Some ''k''))
       (fold (call_runtime (postgres_runtime list_networkx sample_codecs list_sql)) [Release (lease_id l) None (Some ''r''), Expire] t) =
       (Inr (OLease m), w) \<and> lease_id m = lease_id l"
proof -
  let ?rt = "postgres_runtime list_networkx sample_codecs list_sql :: list_db pg_state card_runtime"
  let ?c = "Claim ''w.in'' ''ann'' 60 (Some ''k'')"
  have "case ask ?rt ?c sample_board of (Inr (OLease _), _) \<Rightarrow> True | _ \<Rightarrow> False" by code_simp
  then obtain l t where first: "ask ?rt ?c sample_board = (Inr (OLease l), t)"
    by (auto split: prod.splits sum.splits outcome.splits)
  have board: "list_valid (pg_database sample_board)" using sample_board_ok by (simp add: pg_lease_ok_def)
  have parse: "pg_parse_uuid sample_codecs (uuid_str i) = Inr i" for i by (cases i) (simp add: sample_codecs_def)
  have hyps: "plain_ids ?c" "call_key ?c = Some ''k''" "''k'' \<noteq> []" "\<not> rereleases (list_view (pg_database sample_board)) ?c"
    by simp_all
  obtain out' w where again: "ask ?rt ?c (fold (call_runtime ?rt) [Release (lease_id l) None (Some ''r''), Expire] t) = (Inr out', w)"
    and same: "same_answer (OLease l) out'"
    using durable_idempotent_replay [OF list_db.sql_database_axioms board parse hyps first refl,
        of "[Release (lease_id l) None (Some ''r''), Expire]"]
    by blast
  from same obtain m where "out' = OLease m" "lease_id m = lease_id l" by (cases out') (auto simp: lease_kept_def)
  with first again show ?thesis by blast
qed

end
