(* ===== verification/PostgresEffects.thy ===== *)
theory PostgresEffects
  imports PostgresProperties
begin

text \<open>
  What a claim and a submission write to the tables when they return: exactly which rows are read, added and changed.
\<close>

section \<open>What the rows show\<close>

text \<open>A card moves without an event: its active locations are left, one is entered.\<close>

definition moved_to :: "card \<Rightarrow> string \<Rightarrow> tables \<Rightarrow> tables \<Rightarrow> bool" where
  "moved_to c b v w \<longleftrightarrow> (\<exists>loc t. loc_card_id loc = card_id c \<and> loc_bucket loc = b \<and> loc_status loc = ''active'' \<and>
     w = v\<lparr>tb_card_locations := (\<lambda>k. map_option (\<lambda>r. if loc_card_id r = card_id c \<and> loc_status r = ''active''
             then r\<lparr>loc_status := ''exited'', loc_exited_at := Some t\<rparr> else r) (tb_card_locations v k))(loc_id loc \<mapsto> loc),
           tb_cards := (\<lambda>k. map_option (\<lambda>r. if card_id r = card_id c then r\<lparr>card_current_bucket := b\<rparr> else r) (tb_cards v k))\<rparr>)"

text \<open>A submission: the card moves to the destination, the lease ends, the event and the artifacts are added.\<close>

definition submitted ::
  "lease \<Rightarrow> card \<Rightarrow> string \<Rightarrow> artifact_reference list \<Rightarrow> artifact_reference list \<Rightarrow> tables \<Rightarrow> tables \<Rightarrow> bool" where
  "submitted l c dest refs stored v w \<longleftrightarrow> (\<exists>u t e ks. moved_to c dest v u \<and>
     event_card_id e = card_id c \<and> event_type e = ''artifact_submitted'' \<and> event_actor_id e = Some (lease_worker_id l) \<and>
     tb_card_events v (event_id e) = None \<and> distinct (map artifact_id refs) \<and> (\<forall>r \<in> set refs. tb_artifacts v (artifact_id r) = None) \<and>
     stored = map (\<lambda>r. r\<lparr>artifact_card_id := card_id c, artifact_event_id := Some (event_id e)\<rparr>) refs \<and>
     w = u\<lparr>tb_leases := (\<lambda>k. map_option (\<lambda>r. if lease_id r = lease_id l then r\<lparr>lease_released_at := Some t\<rparr> else r) (tb_leases v k)),
           tb_card_events := (tb_card_events v)(event_id e \<mapsto> e),
           tb_artifacts := tb_artifacts v ++ map_of (map (\<lambda>r. (artifact_id r, r)) stored),
           tb_idempotency_records := ks\<rparr>)"

text \<open>A claim: a lease of the card and its event are added.\<close>

definition granted :: "card \<Rightarrow> lease \<Rightarrow> tables \<Rightarrow> tables \<Rightarrow> bool" where
  "granted c l v w \<longleftrightarrow> (\<exists>e ks. lease_card_id l = card_id c \<and> tb_leases v (lease_id l) = None \<and> event_card_id e = card_id c \<and>
     event_type e = ''card_claimed'' \<and> event_actor_id e = Some (lease_worker_id l) \<and> tb_card_events v (event_id e) = None \<and>
     w = v\<lparr>tb_leases := (tb_leases v)(lease_id l \<mapsto> l), tb_card_events := (tb_card_events v)(event_id e \<mapsto> e),
           tb_idempotency_records := ks\<rparr>)"

text \<open>No earlier call has stored the key.\<close>

definition key_unused :: "string option \<Rightarrow> tables \<Rightarrow> bool" where
  "key_unused key v \<longleftrightarrow> truthy key \<longrightarrow> tb_idempotency_records v (the key) = None"

text \<open>The row of the panel that a card names.\<close>

definition panel_row_of :: "card \<Rightarrow> tables \<Rightarrow> panel_row option" where
  "panel_row_of c v = (let pid = split_colon (card_workflow_version c) in
     tb_patch_panels v (pid, drop (Suc (length pid)) (card_workflow_version c)))"

section \<open>Statements on known tables\<close>

context sql_database
begin

text \<open>The rules of \<open>leaves\<close> for tables that are known up to what is drawn.\<close>

lemma leaves_pure: "(A \<Longrightarrow> leaves P m Q) \<Longrightarrow> leaves (\<lambda>v. A \<and> P v) m Q"
  by (auto simp: leaves_def)

lemma leaves_ex: "(\<And>y. leaves (P y) m Q) \<Longrightarrow> leaves (\<lambda>v. \<exists>y. P y v) m Q"
  by (auto simp: leaves_def)

lemma leaves_drawn: "leaves P uuid4 (\<lambda>_. P)" "leaves P now_utc (\<lambda>_. P)"
  by (simp_all add: leaves_def wp_rules)

lemma at_insert:
  assumes "sql_table_laws tab valid view get put key refers"
  shows "leaves (\<lambda>v. v = X) (insert_into tab r) (\<lambda>_ v. get X (key r) = None \<and> v = put ((get X)(key r \<mapsto> r)) X)"
  unfolding leaves_def
proof (intro allI impI, elim conjE)
  fix s :: "('d, 'z) pg_state_scheme"
  assume s: "valid (pg_database s)" "tables_of view s = X"
  show "wp (insert_into tab r)
      (\<lambda>_ t. valid (pg_database t) \<and> get X (key r) = None \<and> tables_of view t = put ((get X)(key r \<mapsto> r)) X) (\<lambda>_ _. True) s"
    by (rule sql_table_laws.wp_insert_into [OF assms s(1)]) (use s(2) in auto)
qed

lemma at_update:
  assumes "sql_table_laws tab valid view get put key refers" and "\<And>r. P r \<Longrightarrow> key (f r) = key r"
  shows "leaves (\<lambda>v. v = X) (update_where tab P f)
    (\<lambda>_ v. v = put (\<lambda>k. map_option (\<lambda>r. if P r then f r else r) (get X k)) X)"
  unfolding leaves_def
proof (intro allI impI, elim conjE)
  fix s :: "('d, 'z) pg_state_scheme"
  assume s: "valid (pg_database s)" "tables_of view s = X"
  show "wp (update_where tab P f) (\<lambda>_ t. valid (pg_database t) \<and>
      tables_of view t = put (\<lambda>k. map_option (\<lambda>r. if P r then f r else r) (get X k)) X) (\<lambda>_ _. True) s"
    by (rule sql_table_laws.wp_update [OF assms(1) s(1) assms(2)]) (use s(2) in auto)
qed

lemmas at_location = at_insert [OF locations.sql_table_laws_axioms]
lemmas at_lease = at_insert [OF leases.sql_table_laws_axioms]
lemmas at_event = at_insert [OF events.sql_table_laws_axioms]
lemmas at_artifact = at_insert [OF artifacts.sql_table_laws_axioms]
lemmas at_key = at_insert [OF keys.sql_table_laws_axioms]

lemma at_new_event:
  "leaves (\<lambda>v. v = X) (new_card_event cid ty actor data)
     (\<lambda>e v. (event_card_id e = cid \<and> event_type e = ty \<and> event_actor_id e = actor \<and> event_payload e = data) \<and> v = X)"
  by (simp add: new_card_event_def leaves_def wp_rules)

lemma at_log:
  "leaves (\<lambda>v. v = X) (pg_log sql cid ty actor data)
     (\<lambda>e v. (event_card_id e = cid \<and> event_type e = ty \<and> event_actor_id e = actor \<and> event_payload e = data \<and>
        tb_card_events X (event_id e) = None) \<and> v = X\<lparr>tb_card_events := (tb_card_events X)(event_id e \<mapsto> e)\<rparr>)"
  unfolding pg_log_def pg_insert_event_def
  by (rule leaves_bind [OF at_new_event], rule leaves_pure, rule leaves_bind [OF at_event], rule leaves_return) simp

lemma at_store: "leaves (\<lambda>v. v = X) (pg_store_idempotency sql key op ref) (\<lambda>_ v. \<exists>ks. v = X\<lparr>tb_idempotency_records := ks\<rparr>)"
proof (cases "truthy key")
  case True
  then show ?thesis
    unfolding pg_store_idempotency_def
    by (simp, intro leaves_bind [OF leaves_drawn(2)] leaves_weaken [OF leaves_caught [OF at_key]]) auto
next
  case False
  then show ?thesis
    unfolding keyless(2) [OF False] by (intro leaves_return exI [of _ "tb_idempotency_records X"]) simp
qed

lemma map_add_first:
  assumes "\<forall>r \<in> set rs. key r \<noteq> key q"
  shows "m(key q \<mapsto> q) ++ map_of (map (\<lambda>r. (key r, r)) rs) = m ++ map_of (map (\<lambda>r. (key r, r)) (q # rs))"
proof -
  have "map_of (map (\<lambda>r. (key r, r)) rs) (key q) = None" using assms by (auto simp: map_of_eq_None_iff)
  then have "key q \<notin> dom (map_of (map (\<lambda>r. (key r, r)) rs))" by auto
  then show ?thesis by (simp add: map_add_upd_left)
qed

lemma at_artifacts:
  "leaves (\<lambda>v. v = X) (forM rs (insert_into (t_artifacts sql)))
     (\<lambda>_ v. (distinct (map artifact_id rs) \<and> (\<forall>r \<in> set rs. tb_artifacts X (artifact_id r) = None)) \<and>
        v = X\<lparr>tb_artifacts := tb_artifacts X ++ map_of (map (\<lambda>r. (artifact_id r, r)) rs)\<rparr>)"
proof (induction rs arbitrary: X)
  case Nil
  then show ?case by (simp add: leaves_return)
next
  case (Cons r rs)
  show ?case
    unfolding forM.simps
  proof (rule leaves_bind [OF at_artifact], rule leaves_pure, rule leaves_bind [OF Cons.IH], rule leaves_return, goal_cases)
    case (1 _ _ v)
    then have fresh: "\<forall>q \<in> set rs. artifact_id q \<noteq> artifact_id r"
      and new: "distinct (map artifact_id rs)" "\<forall>q \<in> set rs. tb_artifacts X (artifact_id q) = None" "tb_artifacts X (artifact_id r) = None"
      by (auto split: if_splits)
    from 1 have "v = X\<lparr>tb_artifacts := (tb_artifacts X)(artifact_id r \<mapsto> r) ++ map_of (map (\<lambda>r. (artifact_id r, r)) rs)\<rparr>"
      by (simp del: fun_upd_apply)
    with new fresh show ?case unfolding map_add_first [OF fresh] by (auto simp del: fun_upd_apply)
  qed
qed

lemma at_insert_location:
  "leaves (\<lambda>v. v = X) (pg_insert_location sql cid b t)
     (\<lambda>_ v. \<exists>loc. (loc_card_id loc = cid \<and> loc_bucket loc = b \<and> loc_status loc = ''active'') \<and>
        v = X\<lparr>tb_card_locations := (tb_card_locations X)(loc_id loc \<mapsto> loc)\<rparr>)"
  unfolding pg_insert_location_def
  by (rule leaves_bind [OF leaves_drawn(1)], rule leaves_weaken [OF at_location], elim conjE, rule exI, rule conjI [rotated], assumption) simp

lemma at_move:
  "leaves (\<lambda>v. v = X) (pg_move_card_row sql c b actor reason False) (\<lambda>_ v. moved_to c b X v)"
  unfolding pg_move_card_row_def
  apply (rule leaves_bind [OF leaves_drawn(2)])
  apply (rule leaves_bind [OF at_update [OF locations.sql_table_laws_axioms]], simp)
  apply (rule leaves_bind [OF at_insert_location])
  apply (rule leaves_ex, rule leaves_pure)
  apply (rule leaves_bind [OF at_update [OF cards.sql_table_laws_axioms]], simp)
  apply (simp only: if_False bindM_return)
  apply (rule leaves_return)
  apply (auto simp: moved_to_def)
  done

lemma leaves_at: "(\<And>Y. P Y \<Longrightarrow> leaves (\<lambda>v. v = Y) m Q) \<Longrightarrow> leaves P m Q"
  by (auto simp: leaves_def)

lemma moved_rest:
  "moved_to c b v u \<Longrightarrow> tb_leases u = tb_leases v \<and> tb_card_events u = tb_card_events v \<and> tb_artifacts u = tb_artifacts v"
  by (auto simp: moved_to_def)

lemma at_submit:
  "leaves (\<lambda>v. v = X)
     (bindM (pg_move_card_row sql c dest (Some (lease_worker_id l)) (Some ''artifact_submitted'') False) (\<lambda>_.
      bindM now_utc (\<lambda>t.
      bindM (update_where (t_leases sql) (\<lambda>r. lease_id r = lease_id l) (\<lambda>r. r\<lparr>lease_released_at := Some t\<rparr>)) (\<lambda>_.
      bindM (pg_log sql (card_id c) ''artifact_submitted'' (Some (lease_worker_id l)) data) (\<lambda>e.
      let stored = map (\<lambda>r. r\<lparr>artifact_card_id := card_id c, artifact_event_id := Some (event_id e)\<rparr>) refs in
      bindM (forM stored (insert_into (t_artifacts sql))) (\<lambda>_.
      bindM (pg_store_idempotency sql key op (ref stored)) (\<lambda>_.
      returnM stored)))))))
     (\<lambda>stored v. submitted l c dest refs stored X v)"
  unfolding Let_def
proof (rule leaves_bind [OF at_move], rule leaves_at, rule leaves_bind [OF leaves_drawn(2)],
    rule leaves_bind [OF at_update [OF leases.sql_table_laws_axioms]], simp,
    rule leaves_bind [OF at_log], rule leaves_pure, rule leaves_bind [OF at_artifacts], rule leaves_pure,
    rule leaves_bind [OF at_store], rule leaves_return, goal_cases)
  case (1 _ u t _ e _ _ v)
  then obtain ks where v: "v = u\<lparr>tb_leases := (\<lambda>k. map_option (\<lambda>r. if lease_id r = lease_id l then r\<lparr>lease_released_at := Some t\<rparr> else r) (tb_leases X k)),
      tb_card_events := (tb_card_events X)(event_id e \<mapsto> e),
      tb_artifacts := tb_artifacts X ++ map_of (map (\<lambda>r. (artifact_id r, r))
        (map (\<lambda>r. r\<lparr>artifact_card_id := card_id c, artifact_event_id := Some (event_id e)\<rparr>) refs)),
      tb_idempotency_records := ks\<rparr>"
    by (auto dest!: moved_rest simp del: list.map_comp map_map)
  show ?case
    unfolding submitted_def
    by (rule exI [of _ u], rule exI [of _ t], rule exI [of _ e], rule exI [of _ ks])
       (use 1 v in \<open>auto dest!: moved_rest simp: comp_def\<close>)
qed

text \<open>The guards of a submission.\<close>

lemma wp_unused:
  assumes "valid (pg_database s)" and "key_unused key (tables_of view s)"
  shows "wp (pg_idempotently sql key replay body) Q E s = wp body Q E s"
  using assms by (cases "truthy key")
    (simp_all add: keyless key_unused_def pg_idempotently_def pg_get_idempotency_def wp_bind keys.wp_first_key wp_return truthy_def)

lemma guard_wp:
  assumes s: "valid (pg_database s)"
  shows get_lease_wp: "(\<And>l. tb_leases (tables_of view s) lid = Some l \<Longrightarrow> Q l s) \<Longrightarrow> wp (pg_get_lease sql lid) Q (\<lambda>_ _. True) s"
    and get_card_wp: "(\<And>c. tb_cards (tables_of view s) cid = Some c \<Longrightarrow> R c s) \<Longrightarrow> wp (pg_get_card sql cid) R (\<lambda>_ _. True) s"
    and get_panel_wp: "(\<And>row p. panel_row_of c (tables_of view s) = Some row \<Longrightarrow> pg_decode_panel cd (prow_definition row) = Inr p \<Longrightarrow>
        S p s) \<Longrightarrow> wp (pg_get_patch_panel_for_card cd sql c) S (\<lambda>_ _. True) s"
proof -
  have "wp (select_first (t_patch_panels sql) (\<lambda>p. prow_id p = a \<and> prow_version p = b)) S (\<lambda>_ _. True) s =
      S (tb_patch_panels (tables_of view s) (a, b)) s" for a b and S :: "panel_row option \<Rightarrow> _"
    using panels.wp_first_key [OF s, of "(a, b)"] by simp
  then show "(\<And>row p. panel_row_of c (tables_of view s) = Some row \<Longrightarrow> pg_decode_panel cd (prow_definition row) = Inr p \<Longrightarrow>
        S p s) \<Longrightarrow> wp (pg_get_patch_panel_for_card cd sql c) S (\<lambda>_ _. True) s"
    by (auto simp: pg_get_patch_panel_for_card_def Let_def wp_raise wp_bind wp_lift panel_row_of_def split: option.split sum.split)
qed (auto simp: pg_get_lease_def wp_bind leases.wp_first_key [OF s] wp_pg_get_card card_rows [OF s] wp_raise wp_return split: option.split)

lemma guard_steps:
  "wp m (\<lambda>x. wp (f x) Q E) E s \<Longrightarrow> wp (bindM m f) Q E s"
  "(lease_active (next_reading s) l \<Longrightarrow> R () (s\<lparr>clock_pos := Suc (clock_pos s)\<rparr>)) \<Longrightarrow> wp (ensure_active_lease l) R (\<lambda>_ _. True) s"
  "(\<And>x. r = Inr x \<Longrightarrow> S x s) \<Longrightarrow> wp (liftM r) S (\<lambda>_ _. True) s"
  "(\<not> b \<Longrightarrow> wp n Q (\<lambda>_ _. True) s) \<Longrightarrow> wp (if b then raiseM e else n) Q (\<lambda>_ _. True) s"
  "(\<And>a b. y = (a, b) \<Longrightarrow> wp (g a b) Q E s) \<Longrightarrow> wp (case y of (a, b) \<Rightarrow> g a b) Q E s"
  by (auto simp: wp_rules lease_active_def split: sum.split prod.split)

lemma leaves_wp:
  fixes m :: "(('d, 'z) pg_state_scheme, 'a) M"
  assumes "leaves (\<lambda>v. v = X) m Q" and "valid (pg_database s)" and "tables_of view s = X"
    and "\<And>x t. valid (pg_database t) \<Longrightarrow> Q x (tables_of view t) \<Longrightarrow> R x t"
  shows "wp m R (\<lambda>_ _. True) s"
proof -
  have "wp m (\<lambda>x t. valid (pg_database t) \<and> Q x (tables_of view t)) (\<lambda>_ _. True) s"
    using assms(1-3) unfolding leaves_def by blast
  then show ?thesis by (rule wp_mono) (use assms(4) in blast)+
qed

lemma submit_run:
  fixes s :: "('d, 'z) pg_state_scheme"
  assumes s: "valid (pg_database s)" and key: "key_unused key (tables_of view s)"
  shows "wp (pg_submit_artifact cd sql lid pipe refs key)
    (\<lambda>stored t. \<exists>l c row p dest. tb_leases (tables_of view s) lid = Some l \<and> lease_active (next_reading s) l \<and>
       tb_cards (tables_of view s) (lease_card_id l) = Some c \<and> panel_row_of c (tables_of view s) = Some row \<and>
       pg_decode_panel cd (prow_definition row) = Inr p \<and> resolve_pipe_bucket p pipe Output = Inr (dest, lease_node_id l) \<and>
       ensure_artifact_refs_belong_to_card (card_id c) refs = Inr () \<and> ensure_artifacts_accepted p dest refs = Inr () \<and>
       submitted l c dest refs stored (tables_of view s) (tables_of view t)) (\<lambda>_ _. True) s"
  unfolding pg_submit_artifact_def wp_transaction wp_unused [OF s key]
proof (rule guard_steps(1), rule get_lease_wp [OF s], rule guard_steps(1), rule guard_steps(2), rule guard_steps(1),
    rule get_card_wp, simp add: s, rule guard_steps(1), rule get_panel_wp, simp add: s, rule guard_steps(1),
    rule guard_steps(3), rule guard_steps(5), rule guard_steps(1), rule guard_steps(3), rule guard_steps(1), rule guard_steps(3),
    rule guard_steps(4), rule leaves_wp [OF at_submit], simp add: s, rule refl, goal_cases)
  case 1
  then show ?case by (auto simp: commit_law)
qed

lemma at_claim:
  assumes "lease_card_id l = card_id c"
  shows "leaves (\<lambda>v. v = X)
     (bindM (insert_into (t_leases sql) l) (\<lambda>_.
      bindM (pg_log sql (card_id c) ''card_claimed'' (Some (lease_worker_id l)) data) (\<lambda>_.
      bindM (pg_store_idempotency sql key op ref) (\<lambda>_.
      returnM l))))
     (\<lambda>m v. m = l \<and> granted c l X v)"
proof (rule leaves_bind [OF at_lease], rule leaves_pure, rule leaves_bind [OF at_log], rule leaves_pure,
    rule leaves_bind [OF at_store], rule leaves_return, goal_cases)
  case (1 _ e _ v)
  then obtain ks where v: "v = X\<lparr>tb_leases := (tb_leases X)(lease_id l \<mapsto> l), tb_card_events := (tb_card_events X)(event_id e \<mapsto> e),
      tb_idempotency_records := ks\<rparr>" by auto
  show ?case
    unfolding granted_def
    by (rule conjI [OF refl], rule exI [of _ e], rule exI [of _ ks]) (use 1 v assms in auto)
qed

text \<open>The reads of a claim.\<close>

lemma claim_wp:
  assumes s: "valid (pg_database s)"
  shows single_panel_wp: "(\<And>row p. ran (tb_patch_panels (tables_of view s)) = {row} \<Longrightarrow>
      pg_decode_panel cd (prow_definition row) = Inr p \<Longrightarrow> S p s) \<Longrightarrow> wp (pg_single_patch_panel cd sql) S (\<lambda>_ _. True) s"
    and first_card_wp: "(\<And>c. tb_cards (tables_of view s) (card_id c) = Some c \<Longrightarrow> P c \<Longrightarrow> wp (f c) Q (\<lambda>_ _. True) s) \<Longrightarrow>
      wp (bindM (select_first (t_cards sql) P) (\<lambda>row. case row of None \<Rightarrow> raiseM e | Some c \<Rightarrow> f c)) Q (\<lambda>_ _. True) s"
    and held_wp: "(\<And>held. set held = {l. l \<in> ran (tb_leases (tables_of view s)) \<and> G l} \<Longrightarrow> H held s) \<Longrightarrow>
      wp (select_where (t_leases sql) G) H (\<lambda>_ _. True) s"
proof -
  let ?rows = "sql_select (t_patch_panels sql) (\<lambda>_. True) (pg_database s)"
  assume "\<And>row p. ran (tb_patch_panels (tables_of view s)) = {row} \<Longrightarrow> pg_decode_panel cd (prow_definition row) = Inr p \<Longrightarrow> S p s"
  moreover have "ran (tb_patch_panels (tables_of view s)) = set ?rows"
    using conjunct1 [OF panels.select_law [OF s, of "\<lambda>_. True"]] by simp
  ultimately show "wp (pg_single_patch_panel cd sql) S (\<lambda>_ _. True) s"
    by (auto simp: pg_single_patch_panel_def wp_rules split: list.split sum.split)
next
  assume f: "\<And>c. tb_cards (tables_of view s) (card_id c) = Some c \<Longrightarrow> P c \<Longrightarrow> wp (f c) Q (\<lambda>_ _. True) s"
  have "tb_cards (tables_of view s) (card_id c) = Some c \<and> P c" if "c \<in> set (sql_select (t_cards sql) P (pg_database s))" for c
    using that cards.keyed_law [OF s] unfolding conjunct1 [OF cards.select_law [OF s]] by (auto simp: ran_def)
  then show "wp (bindM (select_first (t_cards sql) P) (\<lambda>row. case row of None \<Rightarrow> raiseM e | Some c \<Rightarrow> f c)) Q (\<lambda>_ _. True) s"
    using f by (auto simp: select_first_def wp_rules split: list.split)
next
  assume "\<And>held. set held = {l. l \<in> ran (tb_leases (tables_of view s)) \<and> G l} \<Longrightarrow> H held s"
  then show "wp (select_where (t_leases sql) G) H (\<lambda>_ _. True) s"
    using conjunct1 [OF leases.select_law [OF s, of G]] by (simp add: wp_rules)
qed

lemma new_lease_wp:
  "(\<And>l t. lease_card_id l = card_id c \<Longrightarrow> lease_node_id l = node \<Longrightarrow> lease_worker_id l = worker \<Longrightarrow> lease_input_pipe l = pipe \<Longrightarrow>
      lease_released_at l = None \<Longrightarrow> plus_seconds (next_reading s) n = Inr (lease_expires_at l) \<Longrightarrow>
      pg_database t = pg_database s \<Longrightarrow> Q l t) \<Longrightarrow> wp (new_lease c node worker pipe n) Q (\<lambda>_ _. True) s"
  by (auto simp: new_lease_def wp_rules next_reading_def split: sum.split)

lemma claim_run:
  fixes s :: "('d, 'z) pg_state_scheme"
  assumes s: "valid (pg_database s)" and key: "key_unused key (tables_of view s)"
  shows "wp (pg_claim_card cd sql pipe worker n key)
    (\<lambda>l t. \<exists>row p bucket c. ran (tb_patch_panels (tables_of view s)) = {row} \<and> pg_decode_panel cd (prow_definition row) = Inr p \<and>
       resolve_pipe_bucket p pipe Input = Inr (bucket, lease_node_id l) \<and>
       tb_cards (tables_of view s) (card_id c) = Some c \<and> card_current_bucket c = bucket \<and>
       (\<forall>i m. tb_leases (tables_of view s) i = Some m \<and> lease_card_id m = card_id c \<longrightarrow> \<not> lease_active (next_reading s) m) \<and>
       lease_worker_id l = worker \<and> lease_input_pipe l = pipe \<and> lease_released_at l = None \<and>
       plus_seconds (clock_src s (Suc (clock_pos s))) n = Inr (lease_expires_at l) \<and>
       granted c l (tables_of view s) (tables_of view t)) (\<lambda>_ _. True) s"
  unfolding pg_claim_card_def wp_transaction wp_unused [OF s key]
proof (rule guard_steps(1), rule single_panel_wp [OF s], rule guard_steps(1), rule guard_steps(3), rule guard_steps(5),
    unfold wp_bind [of now_utc] wp_now, rule guard_steps(1), rule held_wp, simp add: s, rule first_card_wp, simp add: s,
    rule guard_steps(1), rule new_lease_wp, goal_cases)
  case (1 row p x bucket node held c l t)
  from 1(9) have leaves: "leaves (\<lambda>v. v = tables_of view s)
     (bindM (insert_into (t_leases sql) l) (\<lambda>_.
      bindM (pg_log sql (card_id c) ''card_claimed'' (Some worker) data) (\<lambda>_.
      bindM (pg_store_idempotency sql key op ref) (\<lambda>_. returnM l)))) (\<lambda>m v. m = l \<and> granted c l (tables_of view s) v)" for data op ref
    using at_claim [of l c] 1 by simp
  have free: "\<not> lease_active (next_reading s) m" if "tb_leases (tables_of view s) i = Some m" "lease_card_id m = card_id c" for i m
    using 1 that by (auto simp: lease_active_def next_reading_def ran_def image_iff)
  show ?case
    by (rule leaves_wp [OF leaves], use 1 s in simp, use 1 in simp, rule exI [of _ row], rule exI [of _ p],
        rule exI [of _ bucket], rule exI [of _ c]) (use 1 free in \<open>auto simp: commit_law next_reading_def simp del: ex_simps\<close>)
qed

text \<open>The rows are stored under their keys.\<close>

lemma leases_keyed:
  assumes "valid (pg_database s)"
  shows "tb_leases (tables_of view s) i = Some l \<Longrightarrow> lease_id l = i" "tb_cards (tables_of view s) k = Some c \<Longrightarrow> card_id c = k"
  using leases.keyed_law [OF assms] cards.keyed_law [OF assms] by blast+

end

section \<open>The effects\<close>

lemma update_keyed:
  assumes "\<And>k r. m k = Some r \<Longrightarrow> key r = k" and "m i = Some x"
  shows "(\<lambda>k. map_option (\<lambda>r. if key r = i then f r else r) (m k)) = m(i \<mapsto> f x)"
proof
  fix k
  show "map_option (\<lambda>r. if key r = i then f r else r) (m k) = (m(i \<mapsto> f x)) k"
    using assms by (cases "m k") auto
qed

lemma moved_location:
  assumes "moved_to c b v w"
  shows "{loc_bucket r | r. r \<in> ran (tb_card_locations w) \<and> loc_card_id r = card_id c \<and> loc_status r = ''active''} = {b}"
proof -
  obtain loc x where loc: "loc_card_id loc = card_id c" "loc_bucket loc = b" "loc_status loc = ''active''"
    and w: "tb_card_locations w = (\<lambda>k. map_option (\<lambda>r. if loc_card_id r = card_id c \<and> loc_status r = ''active''
             then r\<lparr>loc_status := ''exited'', loc_exited_at := Some x\<rparr> else r) (tb_card_locations v k))(loc_id loc \<mapsto> loc)"
    using assms unfolding moved_to_def by force
  have "r = loc" if "r \<in> ran (tb_card_locations w)" "loc_card_id r = card_id c" "loc_status r = ''active''" for r
  proof -
    let ?f = "\<lambda>r. if loc_card_id r = card_id c \<and> loc_status r = ''active''
      then r\<lparr>loc_status := ''exited'', loc_exited_at := Some x\<rparr> else r"
    from that(1) obtain k where k: "((\<lambda>k. map_option ?f (tb_card_locations v k))(loc_id loc \<mapsto> loc)) k = Some r"
      unfolding w ran_def by blast
    have "r = loc \<or> (\<exists>q. r = ?f q)"
    proof (cases "k = loc_id loc")
      case False
      with k have "map_option ?f (tb_card_locations v k) = Some r" by (rule_tac trans [OF fun_upd_other [symmetric]])
      then show ?thesis unfolding map_option_eq_Some by metis
    qed (use k in simp)
    then consider "r = loc" | q where "r = ?f q" by blast
    then show ?thesis
    proof cases
      case 2
      then show ?thesis using that(2,3) by (cases "loc_card_id q = card_id c \<and> loc_status q = ''active''") auto
    qed
  qed
  moreover have "loc \<in> ran (tb_card_locations w)" by (auto simp: w intro: ranI)
  ultimately show ?thesis using loc by blast
qed

text \<open>
  Property C31. A claim in the database that is not a replay leases a free card: the one registered panel resolves the
  pipe, the card stands in the bucket of the pipe and no lease of it was active at the reading of the clock, the lease
  names the worker and the node and expires the given seconds after a reading, and it adds the row of the lease and of
  one event and changes nothing else of the cards, leases and histories.
\<close>

theorem durable_claim_leases_free_card:
  fixes s :: "('d, 'z) pg_state_scheme"
  assumes db: "sql_database sql valid view" and s: "valid (pg_database s)" and key: "key_unused key (view (pg_database s))"
    and run: "pg_claim_card cd sql pipe worker n key s = (Inr l, t)"
  shows "\<exists>row p bucket c e. ran (tb_patch_panels (view (pg_database s))) = {row} \<and> pg_decode_panel cd (prow_definition row) = Inr p \<and>
    resolve_pipe_bucket p pipe Input = Inr (bucket, lease_node_id l) \<and>
    tb_cards (view (pg_database s)) (card_id c) = Some c \<and> card_current_bucket c = bucket \<and>
    (\<forall>i m. tb_leases (view (pg_database s)) i = Some m \<and> lease_card_id m = card_id c \<longrightarrow> \<not> lease_active (next_reading s) m) \<and>
    lease_card_id l = card_id c \<and> lease_worker_id l = worker \<and> lease_input_pipe l = pipe \<and> lease_released_at l = None \<and>
    plus_seconds (clock_src s (Suc (clock_pos s))) n = Inr (lease_expires_at l) \<and>
    tb_cards (view (pg_database t)) = tb_cards (view (pg_database s)) \<and> tb_leases (view (pg_database s)) (lease_id l) = None \<and>
    tb_leases (view (pg_database t)) = (tb_leases (view (pg_database s)))(lease_id l \<mapsto> l) \<and>
    tb_card_events (view (pg_database s)) (event_id e) = None \<and>
    tb_card_events (view (pg_database t)) = (tb_card_events (view (pg_database s)))(event_id e \<mapsto> e) \<and>
    event_card_id e = card_id c \<and> event_type e = ''card_claimed'' \<and> event_actor_id e = Some worker"
proof -
  from wp_okD [OF sql_database.claim_run [OF db s key] run]
  obtain row p bucket c where c: "ran (tb_patch_panels (view (pg_database s))) = {row}" "pg_decode_panel cd (prow_definition row) = Inr p"
    "resolve_pipe_bucket p pipe Input = Inr (bucket, lease_node_id l)"
    "tb_cards (view (pg_database s)) (card_id c) = Some c" "card_current_bucket c = bucket"
    "\<forall>i m. tb_leases (view (pg_database s)) i = Some m \<and> lease_card_id m = card_id c \<longrightarrow> \<not> lease_active (next_reading s) m"
    "lease_worker_id l = worker" "lease_input_pipe l = pipe" "lease_released_at l = None"
    "plus_seconds (clock_src s (Suc (clock_pos s))) n = Inr (lease_expires_at l)"
    and "granted c l (view (pg_database s)) (view (pg_database t))" by blast
  from this(11) obtain e ks where e: "lease_card_id l = card_id c" "tb_leases (view (pg_database s)) (lease_id l) = None"
    "event_card_id e = card_id c" "event_type e = ''card_claimed''" "event_actor_id e = Some (lease_worker_id l)"
    "tb_card_events (view (pg_database s)) (event_id e) = None"
    and w: "view (pg_database t) = (view (pg_database s))\<lparr>tb_leases := (tb_leases (view (pg_database s)))(lease_id l \<mapsto> l),
      tb_card_events := (tb_card_events (view (pg_database s)))(event_id e \<mapsto> e), tb_idempotency_records := ks\<rparr>"
    unfolding granted_def by blast
  show ?thesis
    by (rule exI [of _ row], rule exI [of _ p], rule exI [of _ bucket], rule exI [of _ c], rule exI [of _ e])
       (use c e in \<open>simp add: w\<close>)
qed

theorem durable_claim_leases_free_card_witness:
  "\<exists>l t c. pg_claim_card sample_codecs list_sql ''w.in'' ''ann'' 60 None sample_board = (Inr l, t) \<and>
     tb_cards (list_view (pg_database sample_board)) (card_id c) = Some c \<and> lease_card_id l = card_id c \<and>
     tb_leases (list_view (pg_database t)) (lease_id l) = Some l"
proof -
  let ?run = "pg_claim_card sample_codecs list_sql ''w.in'' ''ann'' 60 None sample_board"
  have "case ?run of (Inr _, _) \<Rightarrow> True | _ \<Rightarrow> False" by code_simp
  then obtain l t where run: "?run = (Inr l, t)" by (auto split: prod.splits sum.splits)
  have board: "list_valid (pg_database sample_board)" using sample_board_ok by (simp add: pg_lease_ok_def)
  have "key_unused None v" for v by (simp add: key_unused_def)
  from durable_claim_leases_free_card [OF list_db.sql_database_axioms board this run]
  obtain c where "tb_cards (list_view (pg_database sample_board)) (card_id c) = Some c" "lease_card_id l = card_id c"
    "tb_leases (list_view (pg_database t)) = (tb_leases (list_view (pg_database sample_board)))(lease_id l \<mapsto> l)" by blast
  with run show ?thesis by auto
qed

text \<open>
  Property C30. A submission in the database that is not a replay was made on an active lease, through an output pipe of
  the node that holds the lease, with at least one artifact, all of the leased card and meeting every rule of the
  destination bucket. It moves the card there, which is then the bucket of its one active location, ends the lease, adds
  the artifacts, all of them new, and records the submission; no other card, lease, artifact or event changes.
\<close>

theorem durable_submit_moves_card:
  fixes s :: "('d, 'z) pg_state_scheme"
  assumes db: "sql_database sql valid view" and s: "valid (pg_database s)" and key: "key_unused key (view (pg_database s))"
    and run: "pg_submit_artifact cd sql lid pipe refs key s = (Inr stored, t)"
  shows "\<exists>l c row p dest e x. tb_leases (view (pg_database s)) lid = Some l \<and> lease_active (next_reading s) l \<and>
    tb_cards (view (pg_database s)) (lease_card_id l) = Some c \<and> panel_row_of c (view (pg_database s)) = Some row \<and>
    pg_decode_panel cd (prow_definition row) = Inr p \<and> resolve_pipe_bucket p pipe Output = Inr (dest, lease_node_id l) \<and>
    refs \<noteq> [] \<and> (\<forall>r \<in> set refs. artifact_card_id r = card_id c) \<and> ensure_artifacts_accepted p dest refs = Inr () \<and>
    tb_cards (view (pg_database t)) = (tb_cards (view (pg_database s)))(card_id c \<mapsto> c\<lparr>card_current_bucket := dest\<rparr>) \<and>
    {loc_bucket r | r. r \<in> ran (tb_card_locations (view (pg_database t))) \<and> loc_card_id r = card_id c \<and> loc_status r = ''active''} = {dest} \<and>
    tb_leases (view (pg_database t)) = (tb_leases (view (pg_database s)))(lid \<mapsto> l\<lparr>lease_released_at := Some x\<rparr>) \<and>
    map artifact_id stored = map artifact_id refs \<and> distinct (map artifact_id refs) \<and>
    (\<forall>r \<in> set refs. tb_artifacts (view (pg_database s)) (artifact_id r) = None) \<and>
    tb_artifacts (view (pg_database t)) = tb_artifacts (view (pg_database s)) ++ map_of (map (\<lambda>r. (artifact_id r, r)) stored) \<and>
    tb_card_events (view (pg_database s)) (event_id e) = None \<and>
    tb_card_events (view (pg_database t)) = (tb_card_events (view (pg_database s)))(event_id e \<mapsto> e) \<and>
    event_card_id e = card_id c \<and> event_type e = ''artifact_submitted'' \<and> event_actor_id e = Some (lease_worker_id l)"
proof -
  let ?v = "view (pg_database s)"
  from wp_okD [OF sql_database.submit_run [OF db s key] run]
  obtain l c row p dest where c: "tb_leases ?v lid = Some l" "lease_active (next_reading s) l"
    "tb_cards ?v (lease_card_id l) = Some c" "panel_row_of c ?v = Some row" "pg_decode_panel cd (prow_definition row) = Inr p"
    "resolve_pipe_bucket p pipe Output = Inr (dest, lease_node_id l)" "ensure_artifacts_accepted p dest refs = Inr ()"
    and refs: "ensure_artifact_refs_belong_to_card (card_id c) refs = Inr ()"
    and sub: "submitted l c dest refs stored ?v (view (pg_database t))" by blast
  from sub obtain u x e ks where u: "moved_to c dest ?v u" and e: "event_card_id e = card_id c" "event_type e = ''artifact_submitted''"
    "event_actor_id e = Some (lease_worker_id l)" "tb_card_events ?v (event_id e) = None" "distinct (map artifact_id refs)"
    "\<forall>r \<in> set refs. tb_artifacts ?v (artifact_id r) = None"
    and stored: "stored = map (\<lambda>r. r\<lparr>artifact_card_id := card_id c, artifact_event_id := Some (event_id e)\<rparr>) refs"
    and w: "view (pg_database t) = u\<lparr>tb_leases := (\<lambda>k. map_option (\<lambda>r. if lease_id r = lease_id l then r\<lparr>lease_released_at := Some x\<rparr> else r) (tb_leases ?v k)),
           tb_card_events := (tb_card_events ?v)(event_id e \<mapsto> e),
           tb_artifacts := tb_artifacts ?v ++ map_of (map (\<lambda>r. (artifact_id r, r)) stored),
           tb_idempotency_records := ks\<rparr>"
    unfolding submitted_def by blast
  have ids: "lease_id l = lid" "card_id c = lease_card_id l"
    using sql_database.leases_keyed [OF db s] c(1,3) by blast+
  have lease: "tb_leases (view (pg_database t)) = (tb_leases ?v)(lid \<mapsto> l\<lparr>lease_released_at := Some x\<rparr>)"
    unfolding w using update_keyed [of "tb_leases ?v" lease_id lid l] sql_database.leases_keyed [OF db s] c(1) ids(1) by simp
  have card: "tb_cards (view (pg_database t)) = (tb_cards ?v)(card_id c \<mapsto> c\<lparr>card_current_bucket := dest\<rparr>)"
    using update_keyed [of "tb_cards ?v" card_id "card_id c" c] sql_database.leases_keyed [OF db s] c(3) ids(2) u
    by (auto simp: w moved_to_def)
  have place: "{loc_bucket r | r. r \<in> ran (tb_card_locations (view (pg_database t))) \<and> loc_card_id r = card_id c \<and> loc_status r = ''active''} = {dest}"
    using moved_location [OF u] by (simp add: w)
  show ?thesis
    by (rule exI [of _ l], rule exI [of _ c], rule exI [of _ row], rule exI [of _ p], rule exI [of _ dest], rule exI [of _ e], rule exI [of _ x])
       (use c e refs lease card place stored in \<open>simp add: w ensure_artifact_refs_ok comp_def\<close>)
qed

theorem durable_submit_moves_card_witness:
  "\<exists>stored t c. pg_submit_artifact sample_codecs list_sql (sample_ids 1) ''w.out'' [sample_ref] None sample_board_after = (Inr stored, t) \<and>
     tb_cards (list_view (pg_database t)) (card_id c) = Some (c\<lparr>card_current_bucket := ''done''\<rparr>)"
proof -
  let ?run = "pg_submit_artifact sample_codecs list_sql (sample_ids 1) ''w.out'' [sample_ref] None sample_board_after"
  have "case ?run of (Inr _, _) \<Rightarrow> True | _ \<Rightarrow> False" by code_simp
  then obtain stored t where run: "?run = (Inr stored, t)" by (auto split: prod.splits sum.splits)
  have board: "list_valid (pg_database sample_board_after)" using sample_board_after_ok by (simp add: pg_lease_ok_def)
  have unused: "key_unused None v" for v by (simp add: key_unused_def)
  have done_bucket: "case resolve_pipe_bucket sample_panel ''w.out'' Output of Inr (b, _) \<Rightarrow> b = ''done'' | Inl _ \<Rightarrow> False" by code_simp
  from durable_submit_moves_card [OF list_db.sql_database_axioms board unused run]
  show ?thesis
  proof (elim exE conjE, goal_cases)
    case (1 l c row p dest e x)
    from 1(5) have "p = sample_panel" by (simp add: sample_codecs_def)
    with 1(6) done_bucket have "dest = ''done''" by simp
    with run 1(10) show ?case by (intro exI [of _ stored] exI [of _ t] exI [of _ c]) simp
  qed
qed

end
