(* ===== verification/Sessions.thy ===== *)
theory Sessions
  imports PostgresLeases Samples
begin

text \<open>
  Several sessions of the database at once. \<^verbatim>\<open>PostgresLeaseStore\<close> (\<^verbatim>\<open>runtime/sqlalchemy_store.py\<close>) and
  \<^verbatim>\<open>PostgresCardRuntime.claim_card\<close> (\<^verbatim>\<open>runtime/postgres.py\<close>) both take the row of the card with
  \<^verbatim>\<open>select ... for update\<close>. Here a transaction is the sequence of its statements, and an interleaving is the list of
  the sessions in the order in which they take a turn. The calls carry no idempotency key. The store locks the row before it
  looks for an active lease, so a card has one holder under every interleaving; a claim looks for a free card in the
  statement that locks it, which under READ COMMITTED lets two claims take the same card.
\<close>

section \<open>Statements of a session\<close>

text \<open>
  The database at isolation READ COMMITTED, the default of PostgreSQL: a statement of session \<open>n\<close> reads what is committed
  and what its own transaction wrote (\<open>ss_leases\<close>); \<open>ss_holder\<close> is the session that has locked the row of a card. The
  tables of cards and panels are only read. \<open>ss_update_leases\<close> is an update in a transaction of its own.
\<close>

record 'd sessions =
  ss_cards :: "(card \<Rightarrow> bool) \<Rightarrow> 'd \<Rightarrow> card list"
  ss_leases :: "nat \<Rightarrow> (lease \<Rightarrow> bool) \<Rightarrow> 'd \<Rightarrow> lease list"
  ss_holder :: "'d \<Rightarrow> uuid \<Rightarrow> nat option"
  ss_lock :: "nat \<Rightarrow> uuid \<Rightarrow> 'd \<Rightarrow> 'd"
  ss_insert_lease :: "nat \<Rightarrow> lease \<Rightarrow> 'd \<Rightarrow> 'd res"
  ss_insert_event :: "nat \<Rightarrow> card_event \<Rightarrow> 'd \<Rightarrow> 'd res"
  ss_update_leases :: "(lease \<Rightarrow> bool) \<Rightarrow> (lease \<Rightarrow> lease) \<Rightarrow> 'd \<Rightarrow> 'd"
  ss_commit :: "nat \<Rightarrow> 'd \<Rightarrow> 'd"
  ss_rollback :: "nat \<Rightarrow> 'd \<Rightarrow> 'd"

text \<open>How far a transaction has come: the card it wants, the row it holds, the lease it wrote, what it answered.\<close>

datatype stage = Begun | Choosing card | Locked card | Checked card | Written lease | Finished "uuid res"

datatype call =
    CallAcquire uuid string string string int
  | CallRelease uuid
  | CallClaim patch_panel string string int

record 'd race = world +
  race_db :: 'd
  race_stage :: "nat \<Rightarrow> stage"

definition race_insert :: "('d \<Rightarrow> 'd res) \<Rightarrow> ('d race, unit) M" where
  "race_insert f = (\<lambda>s. case f (race_db s) of Inl e \<Rightarrow> (Inl e, s) | Inr d \<Rightarrow> (Inr (), s\<lparr>race_db := d\<rparr>))"

text \<open>\<^verbatim>\<open>with_for_update()\<close>: the statement waits, at stage \<open>st\<close>, while another session holds the row.\<close>

definition lock_row :: "'d sessions \<Rightarrow> nat \<Rightarrow> card \<Rightarrow> stage \<Rightarrow> ('d race, stage) M" where
  "lock_row ss n c st = (\<lambda>s. case ss_holder ss (race_db s) (card_id c) of
       None \<Rightarrow> (Inr (Locked c), s\<lparr>race_db := ss_lock ss n (card_id c) (race_db s)\<rparr>)
     | Some k \<Rightarrow> (Inr (if k = n then Locked c else st), s))"

definition commit_step :: "'d sessions \<Rightarrow> nat \<Rightarrow> lease \<Rightarrow> ('d race, stage) M" where
  "commit_step ss n l =
     bindM (modifyM (\<lambda>s. s\<lparr>race_db := ss_commit ss n (race_db s)\<rparr>)) (\<lambda>_. returnM (Finished (Inr (lease_id l))))"

section \<open>The transactions\<close>

text \<open>\<^verbatim>\<open>PostgresLeaseStore.acquire_lease\<close>: the row of the card is locked, then the active leases are read.\<close>

definition acquire_step ::
  "'d sessions \<Rightarrow> nat \<Rightarrow> uuid \<Rightarrow> string \<Rightarrow> string \<Rightarrow> string \<Rightarrow> int \<Rightarrow> stage \<Rightarrow> ('d race, stage) M" where
  "acquire_step ss n cid node worker pipe seconds st = (case st of
     Begun \<Rightarrow>
       bindM (getsM (\<lambda>s. ss_cards ss (\<lambda>c. card_id c = cid) (race_db s))) (\<lambda>rows. case rows of
         [] \<Rightarrow> raiseM (NotFoundError (''card '' @ quoted (uuid_str cid) @ '' does not exist''))
       | c # _ \<Rightarrow> lock_row ss n c Begun)
   | Locked c \<Rightarrow>
       bindM now_utc (\<lambda>t.
       bindM (getsM (\<lambda>s. ss_leases ss n (\<lambda>l. lease_card_id l = card_id c \<and> lease_released_at l = None \<and>
                lease_expires_at l > t) (race_db s))) (\<lambda>active.
       if active \<noteq> []
       then raiseM (ConflictError (''card '' @ quoted (uuid_str (card_id c)) @ '' already has an active lease''))
       else returnM (Checked c)))
   | Checked c \<Rightarrow>
       bindM uuid4 (\<lambda>i.
       bindM now_utc (\<lambda>claimed.
       bindM now_utc (\<lambda>t.
       bindM (liftM (plus_seconds t seconds)) (\<lambda>expires.
       let l = \<lparr>lease_id = i, lease_card_id = card_id c, lease_node_id = node, lease_worker_id = worker,
                lease_input_pipe = pipe, lease_claimed_at = claimed, lease_expires_at = expires, lease_released_at = None\<rparr> in
       bindM (race_insert (ss_insert_lease ss n l)) (\<lambda>_. returnM (Written l))))))
   | Written l \<Rightarrow> commit_step ss n l
   | _ \<Rightarrow> returnM st)"

definition release_step :: "'d sessions \<Rightarrow> nat \<Rightarrow> uuid \<Rightarrow> stage \<Rightarrow> ('d race, stage) M" where
  "release_step ss n lid st = (case st of
     Begun \<Rightarrow>
       bindM now_utc (\<lambda>t.
       bindM (getsM (\<lambda>s. ss_leases ss n (\<lambda>l. lease_id l = lid \<and> lease_released_at l = None) (race_db s))) (\<lambda>rows.
       if rows = [] then raiseM (NotFoundError (''active lease '' @ quoted (uuid_str lid) @ '' does not exist''))
       else
         bindM (modifyM (\<lambda>s. s\<lparr>race_db := ss_update_leases ss (\<lambda>l. lease_id l = lid \<and> lease_released_at l = None)
                  (\<lambda>l. l\<lparr>lease_released_at := Some t\<rparr>) (race_db s)\<rparr>)) (\<lambda>_.
         returnM (Finished (Inr lid)))))
   | _ \<Rightarrow> returnM st)"

text \<open>
  \<^verbatim>\<open>PostgresCardRuntime.claim_card\<close> with the panel it read: the statement finds a card without an active lease in its
  snapshot, then waits for the row. The transaction that it waited for changes no row of a card, so the row is returned without
  a second look at the leases.
\<close>

definition claim_step :: "'d sessions \<Rightarrow> nat \<Rightarrow> patch_panel \<Rightarrow> string \<Rightarrow> string \<Rightarrow> int \<Rightarrow> stage \<Rightarrow> ('d race, stage) M" where
  "claim_step ss n p pipe worker seconds st = (case st of
     Begun \<Rightarrow>
       bindM (liftM (resolve_pipe_bucket p pipe Input)) (\<lambda>(bucket, node).
       bindM now_utc (\<lambda>t.
       bindM (getsM (\<lambda>s. ss_leases ss n (\<lambda>l. lease_released_at l = None \<and> lease_expires_at l > t) (race_db s))) (\<lambda>held.
       bindM (getsM (\<lambda>s. ss_cards ss (\<lambda>c. card_current_bucket c = bucket \<and> card_id c \<notin> lease_card_id ` set held)
                (race_db s))) (\<lambda>rows. case rows of
         [] \<Rightarrow> raiseM (NotFoundError (''no claimable cards in bucket '' @ quoted bucket))
       | c # _ \<Rightarrow> returnM (Choosing c)))))
   | Choosing c \<Rightarrow> lock_row ss n c (Choosing c)
   | Locked c \<Rightarrow>
       bindM (liftM (resolve_pipe_bucket p pipe Input)) (\<lambda>(bucket, node).
       bindM (new_lease c node worker pipe seconds) (\<lambda>l.
       bindM (race_insert (ss_insert_lease ss n l)) (\<lambda>_.
       bindM (new_card_event (card_id c) ''card_claimed'' (Some worker)
                [(''lease_id'', JStr (uuid_str (lease_id l))), (''input_pipe'', JStr pipe)]) (\<lambda>e.
       bindM (race_insert (ss_insert_event ss n e)) (\<lambda>_. returnM (Written l))))))
   | Written l \<Rightarrow> commit_step ss n l
   | _ \<Rightarrow> returnM st)"

fun session_step :: "'d sessions \<Rightarrow> nat \<Rightarrow> call \<Rightarrow> stage \<Rightarrow> ('d race, stage) M" where
  "session_step ss n (CallAcquire cid node worker pipe seconds) = acquire_step ss n cid node worker pipe seconds"
| "session_step ss n (CallRelease lid) = release_step ss n lid"
| "session_step ss n (CallClaim p pipe worker seconds) = claim_step ss n p pipe worker seconds"

text \<open>\<^verbatim>\<open>session.begin()\<close> rolls back when a statement raises. An interleaving is a list of turns.\<close>

definition turn :: "'d sessions \<Rightarrow> (nat \<Rightarrow> call) \<Rightarrow> nat \<Rightarrow> 'd race \<Rightarrow> 'd race" where
  "turn ss calls n s = (case session_step ss n (calls n) (race_stage s n) s of
       (Inl e, t) \<Rightarrow> t\<lparr>race_db := ss_rollback ss n (race_db t), race_stage := (race_stage t)(n := Finished (Inl e))\<rparr>
     | (Inr st, t) \<Rightarrow> t\<lparr>race_stage := (race_stage t)(n := st)\<rparr>)"

definition interleave :: "'d sessions \<Rightarrow> (nat \<Rightarrow> call) \<Rightarrow> nat list \<Rightarrow> 'd race \<Rightarrow> 'd race" where
  "interleave ss calls sched s = fold (turn ss calls) sched s"

lemma wp_race_insert [wp_rules]:
  "wp (race_insert f) Q E s = (case f (race_db s) of Inl e \<Rightarrow> E e s | Inr d \<Rightarrow> Q () (s\<lparr>race_db := d\<rparr>))"
  by (auto simp: wp_def race_insert_def split: sum.split)

lemma wp_lock_row [wp_rules]:
  "wp (lock_row ss n c st) Q E s = (case ss_holder ss (race_db s) (card_id c) of
       None \<Rightarrow> Q (Locked c) (s\<lparr>race_db := ss_lock ss n (card_id c) (race_db s)\<rparr>)
     | Some k \<Rightarrow> Q (if k = n then Locked c else st) s)"
  by (auto simp: wp_def lock_row_def split: option.split)

lemma wp_commit_step [wp_rules]:
  "wp (commit_step ss n l) Q E s = Q (Finished (Inr (lease_id l))) (s\<lparr>race_db := ss_commit ss n (race_db s)\<rparr>)"
  by (simp add: commit_step_def wp_rules)

text \<open>The calls that lock the row before they read the leases.\<close>

fun locks_first :: "call \<Rightarrow> bool" where
  "locks_first (CallClaim p pipe worker seconds) = False"
| "locks_first _ = True"

text \<open>The turns that a call still needs when it does not wait.\<close>

fun turns_left :: "stage \<Rightarrow> nat" where
  "turns_left Begun = 5"
| "turns_left (Choosing c) = 4"
| "turns_left (Locked c) = 3"
| "turns_left (Checked c) = 2"
| "turns_left (Written l) = 1"
| "turns_left (Finished r) = 0"

text \<open>The stages that the transaction of a call goes through.\<close>

fun reaches :: "call \<Rightarrow> stage \<Rightarrow> bool" where
  "reaches (CallAcquire cid node worker pipe seconds) st = (case st of Choosing c \<Rightarrow> False | _ \<Rightarrow> True)"
| "reaches (CallRelease lid) st = (case st of Begun \<Rightarrow> True | Finished r \<Rightarrow> True | _ \<Rightarrow> False)"
| "reaches (CallClaim p pipe worker seconds) st = (case st of Checked c \<Rightarrow> False | _ \<Rightarrow> True)"

lemma interleave_append: "interleave ss calls (xs @ ys) s = interleave ss calls ys (interleave ss calls xs s)"
  by (simp add: interleave_def)

section \<open>What the database promises\<close>

text \<open>The row that a transaction holds at a stage, and what it has written.\<close>

fun held_row :: "stage \<Rightarrow> uuid option" where
  "held_row (Locked c) = Some (card_id c)"
| "held_row (Checked c) = Some (card_id c)"
| "held_row (Written l) = Some (lease_card_id l)"
| "held_row _ = None"

fun unpublished :: "stage \<Rightarrow> lease set" where
  "unpublished (Written l) = {l}"
| "unpublished _ = {}"

text \<open>The card that a transaction is about to give to its caller, once it knows that nobody holds it.\<close>

fun granting :: "stage \<Rightarrow> uuid option" where
  "granting (Checked c) = Some (card_id c)"
| "granting (Written l) = Some (lease_card_id l)"
| "granting _ = None"

lemma granting_held: "granting st = Some c \<Longrightarrow> held_row st = Some c"
  by (cases st) auto

text \<open>
  Every statement reads the committed leases and those of its own transaction, an insert is seen by the others at the
  commit, a free row can be locked, and the end of a transaction gives up its locks.
\<close>

locale row_locks =
  fixes ss :: "'d sessions"
    and valid :: "'d \<Rightarrow> bool"
    and committed :: "'d \<Rightarrow> lease set"
    and written :: "'d \<Rightarrow> nat \<Rightarrow> lease set"
  assumes read_law: "valid d \<Longrightarrow> set (ss_leases ss n P d) = {l \<in> committed d \<union> written d n. P l}"
    and lock_law: "valid d \<Longrightarrow> ss_holder ss d c = None \<Longrightarrow> d' = ss_lock ss n c d \<Longrightarrow>
      valid d' \<and> committed d' = committed d \<and> written d' = written d \<and> ss_holder ss d' = (ss_holder ss d)(c := Some n)"
    and insert_law: "valid d \<Longrightarrow> ss_insert_lease ss n l d = Inr d' \<Longrightarrow>
      valid d' \<and> committed d' = committed d \<and> written d' = (written d)(n := insert l (written d n)) \<and>
      ss_holder ss d' = ss_holder ss d"
    and event_law: "valid d \<Longrightarrow> ss_insert_event ss n e d = Inr d' \<Longrightarrow>
      valid d' \<and> committed d' = committed d \<and> written d' = written d \<and> ss_holder ss d' = ss_holder ss d"
    and update_law: "valid d \<Longrightarrow> (\<And>l. P l \<Longrightarrow> lease_id (f l) = lease_id l) \<Longrightarrow> d' = ss_update_leases ss P f d \<Longrightarrow>
      valid d' \<and> committed d' = (\<lambda>l. if P l then f l else l) ` committed d \<and> written d' = written d \<and>
      ss_holder ss d' = ss_holder ss d"
    and commit_law: "valid d \<Longrightarrow> d' = ss_commit ss n d \<Longrightarrow>
      valid d' \<and> committed d' = committed d \<union> written d n \<and> written d' = (written d)(n := {}) \<and>
      ss_holder ss d' = (\<lambda>c. if ss_holder ss d c = Some n then None else ss_holder ss d c)"
    and rollback_law: "valid d \<Longrightarrow> d' = ss_rollback ss n d \<Longrightarrow>
      valid d' \<and> committed d' = committed d \<and> written d' = (written d)(n := {}) \<and>
      ss_holder ss d' = (\<lambda>c. if ss_holder ss d c = Some n then None else ss_holder ss d c)"
begin

section \<open>Rows are held\<close>

text \<open>Exactly the transactions that got a row hold it, and only an inserted lease is unpublished.\<close>

definition in_step :: "'d \<Rightarrow> (nat \<Rightarrow> stage) \<Rightarrow> bool" where
  "in_step d g \<longleftrightarrow> valid d \<and> (\<forall>c n. ss_holder ss d c = Some n \<longleftrightarrow> held_row (g n) = Some c) \<and>
     (\<forall>n. written d n = unpublished (g n))"

lemma holderD: "in_step d g \<Longrightarrow> held_row (g n) = Some c \<Longrightarrow> ss_holder ss d c = Some n"
  by (simp add: in_step_def)

lemma held_once:
  assumes "in_step d g" "held_row (g n) = Some c" "held_row (g m) = Some c"
  shows "m = n"
  using holderD [OF assms(1,2)] holderD [OF assms(1,3)] by simp

lemma step_lock:
  assumes g: "in_step d g" "ss_holder ss d (card_id c) = None" and n: "held_row (g n) = None" "unpublished (g n) = {}"
  shows "in_step (ss_lock ss n (card_id c) d) (g(n := Locked c))"
proof -
  have "held_row (g m) \<noteq> Some (card_id c)" for m using holderD [OF g(1), of m "card_id c"] g(2) by auto
  then show ?thesis using g n lock_law [of d "card_id c" _ n] by (auto simp: in_step_def)
qed

lemma step_insert:
  assumes "in_step d g" "ss_insert_lease ss n l d = Inr d'" "held_row (g n) = Some (lease_card_id l)" "unpublished (g n) = {}"
  shows "in_step d' (g(n := Written l))"
  using assms insert_law [of d n l d'] by (auto simp: in_step_def)

lemma step_end:
  assumes g: "in_step d g" and d': "d' = ss_commit ss n d \<or> d' = ss_rollback ss n d"
  shows "in_step d' (g(n := Finished r))"
proof -
  have "valid d' \<and> written d' = (written d)(n := {}) \<and>
      ss_holder ss d' = (\<lambda>c. if ss_holder ss d c = Some n then None else ss_holder ss d c)"
    using g d' commit_law [of d d' n] rollback_law [of d d' n] by (auto simp only: in_step_def)
  then show ?thesis using g held_once [OF g] by (auto simp: in_step_def)
qed

lemma step_event: "in_step d g \<Longrightarrow> ss_insert_event ss n e d = Inr d' \<Longrightarrow> in_step d' g"
  using event_law [of d n e d'] by (auto simp: in_step_def)

lemma step_update:
  assumes "in_step d g" "\<And>l. P l \<Longrightarrow> lease_id (f l) = lease_id l"
  shows "in_step (ss_update_leases ss P f d) g"
  using assms update_law [of d P f] by (auto simp: in_step_def)

lemma step_stage: "in_step d g \<Longrightarrow> held_row st = held_row (g n) \<Longrightarrow> unpublished st = unpublished (g n) \<Longrightarrow> in_step d (g(n := st))"
  by (auto simp: in_step_def)

section \<open>A granted card has no other holder\<close>

text \<open>At time \<open>x\<close>: no two committed leases of a card are active, and none is when a transaction is about to add one.\<close>

definition sole :: "datetime \<Rightarrow> 'd \<Rightarrow> (nat \<Rightarrow> stage) \<Rightarrow> bool" where
  "sole x d g \<longleftrightarrow>
     (\<forall>l \<in> committed d. \<forall>m \<in> committed d. lease_card_id l = lease_card_id m \<and> lease_active x l \<and> lease_active x m \<longrightarrow> l = m) \<and>
     (\<forall>n c. granting (g n) = Some c \<longrightarrow> (\<forall>l \<in> committed d. lease_card_id l = c \<longrightarrow> \<not> lease_active x l))"

lemma sole_once: "sole x d g \<Longrightarrow> l \<in> committed d \<Longrightarrow> m \<in> committed d \<Longrightarrow> lease_card_id l = lease_card_id m \<Longrightarrow>
  lease_active x l \<Longrightarrow> lease_active x m \<Longrightarrow> l = m"
  by (simp add: sole_def)

lemma sole_free: "sole x d g \<Longrightarrow> granting (g n) = Some (lease_card_id l) \<Longrightarrow> l \<in> committed d \<Longrightarrow> \<not> lease_active x l"
  by (auto simp: sole_def)

lemma soleI:
  assumes "\<And>l m. l \<in> committed d \<Longrightarrow> m \<in> committed d \<Longrightarrow> lease_card_id l = lease_card_id m \<Longrightarrow>
      lease_active x l \<Longrightarrow> lease_active x m \<Longrightarrow> l = m"
    and "\<And>n l. granting (g n) = Some (lease_card_id l) \<Longrightarrow> l \<in> committed d \<Longrightarrow> lease_active x l \<Longrightarrow> False"
  shows "sole x d g"
  unfolding sole_def using assms by blast

text \<open>Time passes and leases end.\<close>

lemma sole_less:
  assumes s: "sole x d g" and fewer: "\<And>m. m \<in> committed d' \<Longrightarrow> lease_active y m \<Longrightarrow> m \<in> committed d \<and> lease_active x m"
    and g: "\<And>n. granting (g' n) = None \<or> granting (g' n) = granting (g n)"
  shows "sole y d' g'"
proof (rule soleI)
  fix n l assume "granting (g' n) = Some (lease_card_id l)" "l \<in> committed d'" "lease_active y l"
  then show False using g [of n] sole_free [OF s, of n l] fewer [of l] by auto
qed (use fewer sole_once [OF s] in blast)

lemma sole_later: "sole x d g \<Longrightarrow> x \<le> y \<Longrightarrow> sole y d g"
  by (erule sole_less) (auto intro: lease_active_mono)

lemma sole_same: "sole x d g \<Longrightarrow> committed d' = committed d \<Longrightarrow> granting st = None \<or> granting st = granting (g n) \<Longrightarrow> sole x d' (g(n := st))"
  by (erule sole_less) auto

lemma sole_check:
  assumes "sole x d g" "valid d" "ss_leases ss n (\<lambda>l. lease_card_id l = card_id c \<and> lease_released_at l = None \<and> lease_expires_at l > x) d = []"
  shows "sole x d (g(n := Checked c))"
proof -
  have "\<not> lease_active x l" if "l \<in> committed d" "lease_card_id l = card_id c" for l
    using read_law [OF assms(2), of n "\<lambda>l. lease_card_id l = card_id c \<and> lease_released_at l = None \<and> lease_expires_at l > x"]
      assms(3) that by (auto simp: lease_active_def)
  then show ?thesis using assms(1) by (auto simp: sole_def)
qed

lemma sole_commit:
  assumes g: "sole x d g" "in_step d g" "g n = Written l"
  shows "sole x (ss_commit ss n d) (g(n := Finished r))"
proof -
  have v: "valid d" and w: "written d n = {l}" using g by (auto simp: in_step_def)
  have c: "committed (ss_commit ss n d) = insert l (committed d)" using commit_law [OF v refl, of n] w by simp
  have free: "\<not> lease_active x m" if "m \<in> committed d" "lease_card_id m = lease_card_id l" for m
    using sole_free [OF g(1), of n m] g(3) that by simp
  have other: "granting (g k) \<noteq> Some (lease_card_id l)" if "k \<noteq> n" for k
    using held_once [OF g(2), of n "lease_card_id l" k] g(3) granting_held [of "g k"] that by auto
  show ?thesis
  proof (rule soleI, unfold c)
    fix a b assume "a \<in> insert l (committed d)" "b \<in> insert l (committed d)"
      "lease_card_id a = lease_card_id b" "lease_active x a" "lease_active x b"
    then show "a = b" using free [of a] free [of b] sole_once [OF g(1), of a b] by (elim insertE) simp_all
  next
    fix k a assume "granting ((g(n := Finished r)) k) = Some (lease_card_id a)" "a \<in> insert l (committed d)" "lease_active x a"
    then show False using other [of k] sole_free [OF g(1), of k a] by (cases "k = n"; elim insertE) simp_all
  qed
qed

lemma sole_update:
  assumes "sole x d g" "valid d" "d' = ss_update_leases ss P (\<lambda>l. l\<lparr>lease_released_at := Some t\<rparr>) d"
  shows "sole x d' g"
proof -
  have "m \<in> committed d" if "m \<in> committed d'" "lease_active x m" for m
    using update_law [OF assms(2) _ assms(3)] that by (auto simp: lease_active_def split: if_splits)
  then show ?thesis using assms(1) by (auto intro: sole_less)
qed

section \<open>A turn keeps both\<close>

text \<open>With \<open>b\<close>, also that no two active leases of a card are committed.\<close>

definition kept_at :: "bool \<Rightarrow> datetime \<Rightarrow> 'd \<Rightarrow> (nat \<Rightarrow> stage) \<Rightarrow> bool" where
  "kept_at b x d g \<longleftrightarrow> in_step d g \<and> (b \<longrightarrow> sole x d g)"

lemma in_valid: "in_step d g \<Longrightarrow> valid d"
  by (simp add: in_step_def)

lemma kept_valid: "kept_at b x d g \<Longrightarrow> valid d"
  by (auto simp: kept_at_def intro: in_valid)

lemma kept_atI:
  assumes "kept_at b x d g" "in_step d g \<Longrightarrow> in_step d' g'" "in_step d g \<Longrightarrow> sole x d g \<Longrightarrow> sole y d' g'"
  shows "kept_at b y d' g'"
  using assms by (auto simp: kept_at_def)

lemma kept_time: "kept_at b x d g \<Longrightarrow> x \<le> y \<Longrightarrow> kept_at b y d g"
  by (erule kept_atI) (simp_all add: sole_later)

lemma kept_lock:
  assumes "kept_at b x d g" "ss_holder ss d (card_id c) = None" "held_row (g n) = None" "unpublished (g n) = {}"
  shows "kept_at b x (ss_lock ss n (card_id c) d) (g(n := Locked c))"
proof (rule kept_atI [OF assms(1)])
  assume d: "in_step d g"
  then show "in_step (ss_lock ss n (card_id c) d) (g(n := Locked c))" using assms by (simp add: step_lock)
  assume "sole x d g"
  then show "sole x (ss_lock ss n (card_id c) d) (g(n := Locked c))"
    using lock_law [OF in_valid [OF d] assms(2) refl, of n] by (auto intro: sole_same)
qed

lemma kept_check:
  assumes "kept_at b x d g" "g n = Locked c"
    and "ss_leases ss n (\<lambda>l. lease_card_id l = card_id c \<and> lease_released_at l = None \<and> lease_expires_at l > x) d = []"
  shows "kept_at b x d (g(n := Checked c))"
proof (rule kept_atI [OF assms(1)])
  assume d: "in_step d g"
  then show "in_step d (g(n := Checked c))" using assms(2) by (simp add: step_stage)
  assume "sole x d g"
  then show "sole x d (g(n := Checked c))" using sole_check in_valid [OF d] assms(3) by blast
qed

lemma kept_insert:
  assumes k: "kept_at b x d g" "ss_insert_lease ss n l d = Inr d'"
    and n: "g n = Checked c \<or> \<not> b \<and> g n = Locked c" "lease_card_id l = card_id c"
  shows "kept_at b x d' (g(n := Written l))"
proof -
  have d: "in_step d g" using k by (simp add: kept_at_def)
  have "in_step d' (g(n := Written l))" by (rule step_insert [OF d k(2)]) (use n in auto)
  moreover have "sole x d' (g(n := Written l))" if b
    by (rule sole_same [of x d]) (use k n that insert_law [OF in_valid [OF d] k(2)] in \<open>auto simp: kept_at_def\<close>)
  ultimately show ?thesis by (simp add: kept_at_def)
qed

lemma kept_commit: "kept_at b x d g \<Longrightarrow> g n = Written l \<Longrightarrow> kept_at b x (ss_commit ss n d) (g(n := Finished r))"
  by (erule kept_atI) (auto intro: step_end sole_commit)

lemma kept_rollback: "kept_at b x d g \<Longrightarrow> kept_at b x (ss_rollback ss n d) (g(n := Finished r))"
  by (erule kept_atI) (simp_all add: step_end sole_same rollback_law [OF in_valid refl])

lemma kept_event: "kept_at b x d g \<Longrightarrow> ss_insert_event ss n e d = Inr d' \<Longrightarrow> kept_at b x d' g"
  by (erule kept_atI) (auto intro: step_event sole_less dest: event_law [OF in_valid])

lemma kept_stage:
  assumes "kept_at b x d g" "g n = Begun" "st = Begun \<or> st = Choosing c \<or> st = Finished r"
  shows "kept_at b x d (g(n := st))"
  by (rule kept_atI [OF assms(1)]) (use assms in \<open>auto intro!: step_stage sole_same\<close>)

lemma kept_release:
  assumes "kept_at b x d g" "g n = Begun"
  shows "kept_at b x (ss_update_leases ss P (\<lambda>l. l\<lparr>lease_released_at := Some t\<rparr>) d) (g(n := Finished r))"
proof -
  have "kept_at b x (ss_update_leases ss P (\<lambda>l. l\<lparr>lease_released_at := Some t\<rparr>) d) g"
  proof (rule kept_atI [OF assms(1)])
    assume d: "in_step d g"
    then show "in_step (ss_update_leases ss P (\<lambda>l. l\<lparr>lease_released_at := Some t\<rparr>) d) g" by (simp add: step_update)
    assume "sole x d g"
    then show "sole x (ss_update_leases ss P (\<lambda>l. l\<lparr>lease_released_at := Some t\<rparr>) d) g"
      using sole_update in_valid [OF d] by blast
  qed
  then show ?thesis using assms(2) by (auto intro: kept_stage)
qed

definition keeping :: "bool \<Rightarrow> nat \<Rightarrow> 'd race \<Rightarrow> stage \<Rightarrow> 'd race \<Rightarrow> bool" where
  "keeping b n s st t \<longleftrightarrow> race_stage t = race_stage s \<and> clock_src t = clock_src s \<and>
     kept_at b (next_reading t) (race_db t) ((race_stage s)(n := st))"

abbreviation keeps_turn :: "bool \<Rightarrow> nat \<Rightarrow> 'd race \<Rightarrow> ('d race, stage) M \<Rightarrow> bool" where
  "keeps_turn b n s m \<equiv> wp m (keeping b n s) (\<lambda>_ t. \<exists>st. keeping b n s st t) s"

lemma own_row: "kept_at b x d g \<Longrightarrow> held_row (g n) = None \<Longrightarrow> ss_holder ss d c \<noteq> Some n"
  by (auto simp: kept_at_def in_step_def)

lemma acquire_keeps:
  assumes later: "\<And>j. clock_pos s \<le> j \<Longrightarrow> kept_at b (clock_src s j) (race_db s) (race_stage s)" and mono: "mono (clock_src s)"
  shows "keeps_turn b n s (acquire_step ss n cid node worker pipe seconds (race_stage s n))"
proof (cases "race_stage s n")
  case Begun
  then have "ss_holder ss (race_db s) c \<noteq> Some n" for c by (intro own_row [OF later [OF order_refl]]) simp
  with Begun show ?thesis
    by (auto simp: acquire_step_def wp_rules keeping_def next_reading_def fun_upd_idem split: list.split option.split
        intro!: later kept_lock exI [of _ Begun])
next
  case (Locked c)
  then show ?thesis
    by (auto simp: acquire_step_def wp_rules keeping_def next_reading_def fun_upd_idem
        intro!: later kept_time [OF kept_check] monoD [OF mono] exI [of _ "Locked c"])
next
  case (Checked c)
  then show ?thesis
    by (auto simp: acquire_step_def wp_rules keeping_def next_reading_def Let_def fun_upd_idem split: sum.split
        intro!: later kept_insert exI [of _ "Checked c"])
next
  case (Written l)
  then show ?thesis
    by (auto simp: acquire_step_def wp_rules keeping_def next_reading_def intro!: later kept_commit)
qed (auto simp: acquire_step_def wp_rules keeping_def next_reading_def fun_upd_idem intro!: later)

lemma release_keeps:
  assumes later: "\<And>j. clock_pos s \<le> j \<Longrightarrow> kept_at b (clock_src s j) (race_db s) (race_stage s)"
  shows "keeps_turn b n s (release_step ss n lid (race_stage s n))"
  by (cases "race_stage s n")
    (auto simp: release_step_def wp_rules keeping_def next_reading_def fun_upd_idem intro!: later kept_release exI [of _ Begun])

lemma claim_keeps:
  assumes later: "\<And>j. clock_pos s \<le> j \<Longrightarrow> kept_at b (clock_src s j) (race_db s) (race_stage s)" and "\<not> b"
  shows "keeps_turn b n s (claim_step ss n p pipe worker seconds (race_stage s n))"
proof (cases "race_stage s n")
  case Begun
  then show ?thesis
    by (auto simp: claim_step_def wp_rules keeping_def next_reading_def fun_upd_idem split: list.split sum.split
        intro!: later kept_stage exI [of _ Begun])
next
  case (Choosing c)
  then have "ss_holder ss (race_db s) e \<noteq> Some n" for e by (intro own_row [OF later [OF order_refl]]) simp
  with Choosing show ?thesis
    by (auto simp: claim_step_def wp_rules keeping_def next_reading_def fun_upd_idem split: option.split
        intro!: later kept_lock)
next
  case (Locked c)
  have lease: "wp (new_lease c node worker pipe seconds)
      (\<lambda>l t. lease_card_id l = card_id c \<and> race_db t = race_db s \<and> race_stage t = race_stage s \<and> clock_src t = clock_src s \<and>
         clock_pos s \<le> clock_pos t)
      (\<lambda>_ t. race_db t = race_db s \<and> race_stage t = race_stage s \<and> clock_src t = clock_src s \<and> clock_pos s \<le> clock_pos t) s" for node
    by (simp add: new_lease_def wp_rules split: sum.split)
  show ?thesis
  proof (cases "resolve_pipe_bucket p pipe Input")
    case (Inl e)
    then show ?thesis
      using later [OF order_refl] Locked
      by (auto simp: claim_step_def wp_rules keeping_def next_reading_def fun_upd_idem intro!: exI [of _ "Locked c"])
  next
    case (Inr r)
    show ?thesis
      unfolding claim_step_def Locked Inr stage.case wp_bind wp_lift sum.case wp_case_prod case_prod_beta
    proof (rule wp_mono [OF lease], goal_cases)
      case (1 l t)
      have insert: "kept_at b (clock_src s j) d ((race_stage s)(n := Written l))"
        if "clock_pos s \<le> j" "ss_insert_lease ss n l (race_db s) = Inr d" for j d
        using kept_insert [OF later [OF that(1)] that(2)] Locked assms(2) 1 by auto
      show ?case
        using Locked 1 later insert kept_event [OF insert]
        by (auto simp: wp_rules new_card_event_def keeping_def next_reading_def fun_upd_idem split: sum.split
            intro!: exI [of _ "if \<exists>d. ss_insert_lease ss n l (race_db s) = Inr d then Written l else Locked c"])
    next
      case (2 e t)
      then show ?case
        using later Locked by (intro exI [of _ "Locked c"]) (simp add: fun_upd_idem keeping_def next_reading_def)
    qed
  qed
next
  case (Written l)
  then show ?thesis
    by (auto simp: claim_step_def wp_rules keeping_def next_reading_def intro!: later kept_commit)
qed (auto simp: claim_step_def wp_rules keeping_def next_reading_def fun_upd_idem intro!: later)

definition going :: "bool \<Rightarrow> 'd race \<Rightarrow> bool" where
  "going b s \<longleftrightarrow> mono (clock_src s) \<and> kept_at b (next_reading s) (race_db s) (race_stage s)"

lemma step_keeps:
  assumes "going b s" "b \<longrightarrow> locks_first call"
  shows "keeps_turn b n s (session_step ss n call (race_stage s n))"
proof -
  have "kept_at b (clock_src s j) (race_db s) (race_stage s)" if "clock_pos s \<le> j" for j
    using assms(1) that by (auto simp: going_def next_reading_def intro: kept_time monoD)
  then show ?thesis
    using assms by (cases call) (auto simp: going_def intro!: acquire_keeps release_keeps claim_keeps)
qed

lemma turn_keeps:
  assumes "going b s" "b \<longrightarrow> locks_first (calls n)"
  shows "going b (turn ss calls n s)"
proof -
  note step = step_keeps [OF assms, of n]
  obtain r t where run: "session_step ss n (calls n) (race_stage s n) s = (r, t)" by fastforce
  have mono: "mono (clock_src s)" using assms(1) by (simp add: going_def)
  show ?thesis
  proof (cases r)
    case (Inr st)
    with step run mono show ?thesis by (auto simp: wp_def keeping_def turn_def going_def next_reading_def)
  next
    case (Inl e)
    with step run obtain st where "keeping b n s st t" by (auto simp: wp_def)
    then show ?thesis
      using Inl run mono kept_rollback [of b "next_reading t" "race_db t" "(race_stage s)(n := st)" n "Inl e"]
      by (auto simp: keeping_def turn_def going_def next_reading_def)
  qed
qed

lemma interleave_keeps:
  "going b s \<Longrightarrow> b \<longrightarrow> (\<forall>n. locks_first (calls n)) \<Longrightarrow> going b (interleave ss calls sched s)"
  unfolding interleave_def by (induction sched arbitrary: s) (auto intro: turn_keeps)

section \<open>Every call ends\<close>

text \<open>A turn that leaves a call where it is waits for the row of another session.\<close>

definition waits :: "'d race \<Rightarrow> nat \<Rightarrow> bool" where
  "waits s n \<longleftrightarrow> (\<exists>r. race_stage s n = Finished r) \<or>
     held_row (race_stage s n) = None \<and> (\<exists>c k. k \<noteq> n \<and> ss_holder ss (race_db s) c = Some k)"

lemma reaches_finished: "reaches call (Finished r)"
  by (cases call) auto

lemma step_moves:
  assumes "reaches call (race_stage s n)"
  shows "wp (session_step ss n call (race_stage s n))
     (\<lambda>st t. race_stage t = race_stage s \<and> reaches call st \<and>
        (turns_left st < turns_left (race_stage s n) \<or> t = s \<and> st = race_stage s n \<and> waits s n))
     (\<lambda>_ t. race_stage t = race_stage s \<and> 0 < turns_left (race_stage s n)) s"
  using assms
  by (cases call; cases "race_stage s n")
    (auto simp: acquire_step_def release_step_def claim_step_def wp_rules waits_def new_lease_def new_card_event_def Let_def
      split: option.split sum.split list.split prod.split)

lemma turn_moves:
  assumes "\<And>m. reaches (calls m) (race_stage s m)"
  shows "reaches (calls m) (race_stage (turn ss calls n s) m)" "m \<noteq> n \<Longrightarrow> race_stage (turn ss calls n s) m = race_stage s m"
    "turns_left (race_stage (turn ss calls n s) n) < turns_left (race_stage s n) \<or> turn ss calls n s = s \<and> waits s n"
proof -
  obtain r t where run: "session_step ss n (calls n) (race_stage s n) s = (r, t)" by fastforce
  have "reaches (calls m) (race_stage (turn ss calls n s) m) \<and> (m \<noteq> n \<longrightarrow> race_stage (turn ss calls n s) m = race_stage s m) \<and>
      (turns_left (race_stage (turn ss calls n s) n) < turns_left (race_stage s n) \<or> turn ss calls n s = s \<and> waits s n)"
    using step_moves [OF assms, of n] assms [of m] run
    by (cases r) (auto simp: wp_def turn_def fun_upd_idem reaches_finished)
  then show "reaches (calls m) (race_stage (turn ss calls n s) m)" "m \<noteq> n \<Longrightarrow> race_stage (turn ss calls n s) m = race_stage s m"
    "turns_left (race_stage (turn ss calls n s) n) < turns_left (race_stage s n) \<or> turn ss calls n s = s \<and> waits s n"
    by auto
qed

text \<open>All the calls together, and one round in which each has a turn.\<close>

abbreviation all_left :: "nat \<Rightarrow> 'd race \<Rightarrow> nat" where
  "all_left N s \<equiv> \<Sum>n < N. turns_left (race_stage s n)"

lemma turn_sum:
  assumes "\<And>m. reaches (calls m) (race_stage s m)" "n < N"
  shows "all_left N (turn ss calls n s) < all_left N s \<or> turn ss calls n s = s \<and> waits s n"
proof (cases "turn ss calls n s = s \<and> waits s n")
  case False
  then have less: "turns_left (race_stage (turn ss calls n s) n) < turns_left (race_stage s n)"
    using turn_moves(3) [OF assms(1)] by blast
  then have "turns_left (race_stage (turn ss calls n s) m) \<le> turns_left (race_stage s m)" for m
    using turn_moves(2) [OF assms(1)] by (cases "m = n") auto
  then show ?thesis using less assms(2) by (intro disjI1 sum_strict_mono_ex1) auto
qed simp

lemma round_sum:
  assumes "\<And>m. reaches (calls m) (race_stage s m)" "set ns \<subseteq> {..<N}"
  shows "all_left N (interleave ss calls ns s) < all_left N s \<or>
    interleave ss calls ns s = s \<and> (\<forall>n \<in> set ns. waits s n)"
  using assms
proof (induction ns arbitrary: s)
  case (Cons n ns)
  have "interleave ss calls (n # ns) s = interleave ss calls ns (turn ss calls n s)" by (simp add: interleave_def)
  with turn_sum [OF Cons.prems(1), of n N] Cons.IH [of "turn ss calls n s"] Cons.prems turn_moves(1) [OF Cons.prems(1)]
  show ?case by force
qed (simp add: interleave_def)

text \<open>Sessions from \<open>N\<close> on do nothing.\<close>

definition among :: "(nat \<Rightarrow> call) \<Rightarrow> nat \<Rightarrow> 'd race \<Rightarrow> bool" where
  "among calls N s \<longleftrightarrow> going False s \<and> (\<forall>m. reaches (calls m) (race_stage s m)) \<and> (\<forall>k. N \<le> k \<longrightarrow> race_stage s k = Begun)"

lemma among_interleave:
  "among calls N s \<Longrightarrow> set ns \<subseteq> {..<N} \<Longrightarrow> among calls N (interleave ss calls ns s)"
proof (induction ns arbitrary: s)
  case (Cons n ns)
  then have "\<And>m. reaches (calls m) (race_stage s m)" by (simp add: among_def)
  note moves = turn_moves(1,2) [of calls, OF this]
  have "among calls N (turn ss calls n s)"
    using Cons.prems turn_keeps [of False s calls n] moves(1) moves(2) [where n = n] by (auto simp: among_def)
  then show ?case using Cons by (simp add: interleave_def)
qed (simp add: interleave_def)

text \<open>The session that another waits for has the row and moves.\<close>

lemma round_moves:
  assumes s: "among calls N s" and n: "n < N" "\<And>r. race_stage s n \<noteq> Finished r"
  shows "all_left N (interleave ss calls [0..<N] s) < all_left N s"
proof (rule ccontr)
  assume "\<not> ?thesis"
  then have waits: "waits s m" if "m < N" for m
    using round_sum [of calls s "[0..<N]" N] s that by (simp add: among_def atLeast_upt subset_iff)
  obtain c k where "ss_holder ss (race_db s) c = Some k" using waits [OF n(1)] n(2) by (auto simp: waits_def)
  then have k: "held_row (race_stage s k) = Some c" using s by (simp add: among_def going_def kept_at_def in_step_def)
  moreover have "k < N" using s k by (force simp: among_def not_le [symmetric])
  ultimately show False using waits [of k] by (auto simp: waits_def)
qed

lemma all_left_finished: "all_left N s = 0 \<Longrightarrow> n < N \<Longrightarrow> \<exists>r. race_stage s n = Finished r"
  by (cases "race_stage s n") (auto dest: bspec [of _ _ n])

lemma rounds_sum:
  "among calls N s \<Longrightarrow> all_left N (interleave ss calls (concat (replicate j [0..<N])) s) \<le> all_left N s - j"
proof (induction j arbitrary: s)
  case (Suc j)
  let ?t = "interleave ss calls [0..<N] s"
  have t: "among calls N ?t" by (rule among_interleave [OF Suc.prems]) auto
  have "all_left N ?t \<le> all_left N s - 1"
  proof (cases "\<forall>n < N. \<exists>r. race_stage s n = Finished r")
    case True
    then have "all_left N s = 0" by auto
    then show ?thesis using round_sum [of calls s "[0..<N]" N] Suc.prems by (simp add: among_def atLeast_upt subset_iff)
  next
    case False
    then show ?thesis using round_moves [OF Suc.prems] by fastforce
  qed
  then show ?case using Suc.IH [OF t] by (simp add: interleave_def)
qed (simp add: interleave_def)

lemma all_left_bound: "all_left N s \<le> 5 * N"
proof -
  have "turns_left st \<le> 5" for st by (cases st) auto
  then have "all_left N s \<le> (\<Sum>n < N. 5)" by (intro sum_mono)
  then show ?thesis by simp
qed

end

section \<open>A database of lists\<close>

record lease_tables =
  lt_cards :: "card list"
  lt_leases :: "lease list"
  lt_written :: "(nat \<times> lease) list"
  lt_events :: "card_event list"
  lt_new_events :: "(nat \<times> card_event) list"
  lt_locks :: "(uuid \<times> nat) list"

text \<open>The part of a list of writes that session \<open>n\<close> made.\<close>

definition own :: "nat \<Rightarrow> (nat \<times> 'a) list \<Rightarrow> 'a list" where
  "own n ws = map snd (filter (\<lambda>w. fst w = n) ws)"

definition end_transaction :: "nat \<Rightarrow> lease_tables \<Rightarrow> lease_tables" where
  "end_transaction n d = d\<lparr>lt_written := filter (\<lambda>w. fst w \<noteq> n) (lt_written d),
     lt_new_events := filter (\<lambda>w. fst w \<noteq> n) (lt_new_events d),
     lt_locks := filter (\<lambda>w. snd w \<noteq> n) (lt_locks d)\<rparr>"

definition list_sessions :: "lease_tables sessions" where
  "list_sessions = \<lparr>
     ss_cards = (\<lambda>P d. filter P (lt_cards d)),
     ss_leases = (\<lambda>n P d. filter P (lt_leases d @ own n (lt_written d))),
     ss_holder = (\<lambda>d. map_of (lt_locks d)),
     ss_lock = (\<lambda>n c d. d\<lparr>lt_locks := (c, n) # lt_locks d\<rparr>),
     ss_insert_lease = (\<lambda>n l d.
       if lease_id l \<in> lease_id ` set (lt_leases d @ map snd (lt_written d))
       then Inl (IntegrityError ''leases_pkey'') else Inr (d\<lparr>lt_written := (n, l) # lt_written d\<rparr>)),
     ss_insert_event = (\<lambda>n e d.
       if event_id e \<in> event_id ` set (lt_events d @ map snd (lt_new_events d))
       then Inl (IntegrityError ''card_events_pkey'') else Inr (d\<lparr>lt_new_events := (n, e) # lt_new_events d\<rparr>)),
     ss_update_leases = (\<lambda>P f d. d\<lparr>lt_leases := map (\<lambda>l. if P l then f l else l) (lt_leases d)\<rparr>),
     ss_commit = (\<lambda>n d. end_transaction n (d\<lparr>lt_leases := lt_leases d @ own n (lt_written d),
                          lt_events := lt_events d @ own n (lt_new_events d)\<rparr>)),
     ss_rollback = end_transaction\<rparr>"

lemma own_cons: "own m ((n, x) # ws) = (if n = m then x # own m ws else own m ws)"
  by (simp add: own_def)

lemma own_other: "own m (filter (\<lambda>w. fst w \<noteq> n) ws) = (if m = n then [] else own m ws)"
  by (induction ws) (auto simp: own_def)

lemma map_of_release:
  "distinct (map fst ps) \<Longrightarrow> map_of (filter (\<lambda>w. snd w \<noteq> n) ps) c = (if map_of ps c = Some n then None else map_of ps c)"
  by (induction ps) (auto simp: map_of_eq_None_iff, force+)

lemma distinct_release: "distinct (map fst ps) \<Longrightarrow> distinct (map fst (filter P ps))"
  by (induction ps) auto

interpretation lists: row_locks list_sessions "\<lambda>d. distinct (map fst (lt_locks d))" "\<lambda>d. set (lt_leases d)"
  "\<lambda>d n. set (own n (lt_written d))"
  by unfold_locales
    (auto simp: list_sessions_def end_transaction_def own_other own_cons map_of_release distinct_release fun_eq_iff
      map_of_eq_None_iff split: if_splits)

text \<open>A free card that nobody has claimed, at an instant \<open>t\<close> at which the clock stands still.\<close>

definition waiting_card :: "(nat \<Rightarrow> uuid) \<Rightarrow> datetime \<Rightarrow> card \<Rightarrow> lease_tables race" where
  "waiting_card u t c = \<lparr>uuid_src = u, uuid_pos = 0, clock_src = (\<lambda>_. t), clock_pos = 0,
     race_db = \<lparr>lt_cards = [c], lt_leases = [], lt_written = [], lt_events = [], lt_new_events = [], lt_locks = []\<rparr>,
     race_stage = (\<lambda>_. Begun)\<rparr>"

section \<open>Properties\<close>

text \<open>Before any transaction begins, and the leases that are in force afterwards.\<close>

definition no_transaction :: "'d sessions \<Rightarrow> ('d \<Rightarrow> nat \<Rightarrow> lease set) \<Rightarrow> 'd race \<Rightarrow> bool" where
  "no_transaction ss written s \<longleftrightarrow> (\<forall>n. race_stage s n = Begun \<and> written (race_db s) n = {}) \<and>
     (\<forall>c. ss_holder ss (race_db s) c = None)"

definition one_holder :: "('d \<Rightarrow> lease set) \<Rightarrow> 'd race \<Rightarrow> bool" where
  "one_holder committed s \<longleftrightarrow> (\<forall>l \<in> committed (race_db s). \<forall>m \<in> committed (race_db s).
     lease_card_id l = lease_card_id m \<and> lease_active (next_reading s) l \<and> lease_active (next_reading s) m \<longrightarrow> l = m)"

lemma going_start:
  assumes "row_locks ss valid committed written" "valid (race_db s)" "mono (clock_src s)" "no_transaction ss written s"
    "b \<longrightarrow> one_holder committed s"
  shows "row_locks.going ss valid committed written b s"
  using assms
  by (simp add: row_locks.going_def row_locks.kept_at_def row_locks.in_step_def row_locks.sole_def no_transaction_def one_holder_def)

text \<open>
  Property C27. The lease store gives a card one holder under every interleaving of any number of sessions, each
  acquiring or releasing without an idempotency key: on a clock that does not run backwards, from a state in which no
  transaction is under way (no row locked, nothing written but not committed) and no card has two committed leases that
  are active, whatever the order in which the statements reach the database, afterwards no two different committed leases
  of one card are active. It relies on the documented row locks of \<^verbatim>\<open>select ... for update\<close>.
\<close>

theorem store_keeps_one_holder:
  assumes "row_locks ss valid committed written" and "valid (race_db s)" and "mono (clock_src s)"
    and "no_transaction ss written s" and "one_holder committed s" and "\<forall>n. locks_first (calls n)"
  shows "one_holder committed (interleave ss calls sched s)"
proof -
  have "row_locks.going ss valid committed written True (interleave ss calls sched s)"
    using row_locks.interleave_keeps [OF assms(1) going_start [OF assms(1-4)]] assms(5,6) by blast
  then show ?thesis
    by (simp add: row_locks.going_def [OF assms(1)] row_locks.kept_at_def [OF assms(1)] row_locks.sole_def [OF assms(1)] one_holder_def)
qed

theorem store_keeps_one_holder_witness:
  "one_holder (\<lambda>d. set (lt_leases d)) (interleave list_sessions
     (\<lambda>n. if n = 3 then CallRelease (sample_ids 0) else CallAcquire (card_id sample_card) ''work'' ''w'' ''w.in'' 60)
     [0, 1, 0, 0, 1, 0, 3, 1, 2, 1] (waiting_card sample_ids 0 sample_card))"
  by (rule store_keeps_one_holder [OF lists.row_locks_axioms])
    (simp_all add: waiting_card_def no_transaction_def one_holder_def list_sessions_def own_def mono_def)

text \<open>
  Property C28. No interleaving of claims, acquisitions and releases ends in a deadlock: after any prefix of turns of \<open>N\<close>
  sessions, five rounds per session in which each has a turn bring every call to its answer.
\<close>

theorem sessions_finish:
  assumes "row_locks ss valid committed written" and "valid (race_db s)" and "mono (clock_src s)"
    and "no_transaction ss written s" and "set sched \<subseteq> {..<N}" and "n < N"
  shows "\<exists>r. race_stage (interleave ss calls (sched @ concat (replicate (5 * N) [0..<N])) s) n = Finished r"
proof -
  have "reaches (calls m) Begun" for m by (cases "calls m") auto
  then have "row_locks.among ss valid committed written calls N s"
    using going_start [OF assms(1-4)] assms(4) by (auto simp: row_locks.among_def [OF assms(1)] no_transaction_def)
  then have "row_locks.among ss valid committed written calls N (interleave ss calls sched s)"
    using row_locks.among_interleave [OF assms(1)] assms(5) by blast
  from row_locks.rounds_sum [OF assms(1) this, of "5 * N"]
  have "(\<Sum>n < N. turns_left (race_stage (interleave ss calls (sched @ concat (replicate (5 * N) [0..<N])) s) n)) = 0"
    using row_locks.all_left_bound [OF assms(1), of "interleave ss calls sched s" N] by (simp add: interleave_def)
  then show ?thesis using row_locks.all_left_finished [OF assms(1)] assms(6) by blast
qed

theorem sessions_finish_witness:
  "\<exists>r. race_stage (interleave list_sessions
     (\<lambda>n. if n = 0 then CallClaim sample_panel ''w.in'' ''w'' 60 else CallAcquire (card_id sample_card) ''work'' ''v'' ''w.in'' 60)
     ([0, 1, 1] @ concat (replicate (5 * 2) [0..<2])) (waiting_card sample_ids 0 sample_card)) 1 = Finished r"
  by (rule sessions_finish [OF lists.row_locks_axioms])
    (simp_all add: waiting_card_def no_transaction_def list_sessions_def own_def mono_def)

text \<open>
  Property C29. Two claims can take the same card: both find it free, the second waits for its row, and when the first has
  committed the second gets the row and commits a second lease. Both workers are told that they hold the card.
\<close>

theorem claims_share_card:
  assumes "resolve_pipe_bucket p pipe Input = Inr (card_current_bucket c, node)"
    and "plus_seconds t seconds = Inr e" and "t < e" and "inj u"
    and "s = interleave list_sessions (\<lambda>n. CallClaim p pipe (worker n) seconds) [0, 1, 0, 1, 0, 0, 1, 1, 1] (waiting_card u t c)"
  shows "race_stage s 0 = Finished (Inr (u 0)) \<and> race_stage s 1 = Finished (Inr (u 2)) \<and> u 0 \<noteq> u 2 \<and>
    map lease_id (filter (\<lambda>l. lease_card_id l = card_id c \<and> lease_active t l) (lt_leases (race_db s))) = [u 0, u 2]"
proof -
  let ?calls = "\<lambda>n. CallClaim p pipe (worker n) seconds"
  let ?state = "\<lambda>k j L E m g. \<lparr>uuid_src = u, uuid_pos = k, clock_src = (\<lambda>_. t), clock_pos = j,
     race_db = \<lparr>lt_cards = [c], lt_leases = L, lt_written = [], lt_events = E, lt_new_events = [], lt_locks = m\<rparr>,
     race_stage = g\<rparr>"
  have u: "u i = u j \<longleftrightarrow> i = j" for i j using assms(4) by (auto simp: inj_def)
  note turns = turn_def claim_step_def lock_row_def list_sessions_def run_defs assms(1-3)
  have chosen: "interleave list_sessions ?calls [0, 1, 0, 1] (waiting_card u t c) =
      ?state 0 2 [] [] [(card_id c, 0)] ((\<lambda>_. Begun)(0 := Locked c, 1 := Choosing c))"
    by (simp add: interleave_def turns waiting_card_def now_utc_def fun_upd_twist own_def)
  have locks: "interleave list_sessions ?calls [1] (?state k j L E [] g) = ?state k j L E [(card_id c, 1)] (g(1 := Locked c))"
    if "g 1 = Choosing c" for k j L E g
    using that by (simp add: interleave_def turns)
  have grants: "\<exists>l e. lease_id l = u k \<and> lease_card_id l = card_id c \<and> lease_active t l \<and> event_id e = u (Suc k) \<and>
      interleave list_sessions ?calls [n, n] (?state k j L E [(card_id c, n)] g) =
      ?state (k + 2) (j + 3) (L @ [l]) (E @ [e]) [] (g(n := Finished (Inr (u k))))"
    if "g n = Locked c" "u k \<notin> lease_id ` set L" "u (Suc k) \<notin> event_id ` set E" for n k j L E g
    using that assms(3)
    by (simp add: interleave_def turns new_lease_def new_card_event_def now_utc_def uuid4_def race_insert_def commit_step_def
        end_transaction_def own_def lease_active_def eval_nat_numeral)
  let ?chosen = "(\<lambda>_. Begun)(0 := Locked c, 1 := Choosing c)"
  obtain l e where first: "lease_id l = u 0" "lease_card_id l = card_id c" "lease_active t l" "event_id e = u 1"
    "interleave list_sessions ?calls [0, 0] (?state 0 2 [] [] [(card_id c, 0)] ?chosen) =
       ?state 2 5 [l] [e] [] (?chosen(0 := Finished (Inr (u 0))))"
    using grants [of ?chosen 0 0 "[]" "[]" 2] by auto
  let ?second = "?chosen(0 := Finished (Inr (u 0)), 1 := Locked c)"
  obtain l' e' where second: "lease_id l' = u 2" "lease_card_id l' = card_id c" "lease_active t l'"
    "interleave list_sessions ?calls [1, 1] (?state 2 5 [l] [e] [(card_id c, 1)] ?second) =
       ?state 4 8 [l, l'] [e, e'] [] (?second(1 := Finished (Inr (u 2))))"
    using grants [of ?second 1 2 "[l]" "[e]" 5] first(1,4) by (auto simp: u)
  have "s = interleave list_sessions ?calls ([0, 1, 0, 1] @ [0, 0] @ [1] @ [1, 1]) (waiting_card u t c)"
    using assms(5) by simp
  also have "\<dots> = ?state 4 8 [l, l'] [e, e'] [] (?second(1 := Finished (Inr (u 2))))"
    unfolding interleave_append chosen first(5) by (subst locks, simp, rule second(4))
  finally show ?thesis using first second by (simp add: u)
qed

theorem claims_share_card_witness:
  "race_stage (interleave list_sessions (\<lambda>n. CallClaim sample_panel ''w.in'' ''w'' 60) [0, 1, 0, 1, 0, 0, 1, 1, 1]
     (waiting_card sample_ids 0 sample_card)) 1 = Finished (Inr (sample_ids 2))"
proof -
  have panel: "resolve_pipe_bucket sample_panel ''w.in'' Input = Inr (card_current_bucket sample_card, ''work'')" by code_simp
  have time: "plus_seconds 0 60 = Inr 60000000" by code_simp
  from claims_share_card [OF panel time _ sample_ids_inj refl, of "\<lambda>_. ''w''"] show ?thesis by simp
qed

end
