(* ===== verification/Deployment.thy ===== *)
theory Deployment
  imports MeshSamples PostgresProperties
begin

text \<open>
  A process over a database: the services that live in the process keep their dictionaries (\<open>mesh\<close>), the
  runtime keeps its rows in the database. What the durable runtime does to its part of the state is lifted to the
  whole, and with it its contract, so that the services of the process run over it: the shadow service
  (\<^verbatim>\<open>create_app\<close> builds \<^verbatim>\<open>ShadowService(runtime)\<close>) as well.
\<close>

section \<open>The state of the process\<close>

record 'd deployment = mesh +
  dep_database :: 'd

definition durable_part :: "('d, 'z) deployment_scheme \<Rightarrow> 'd pg_state" where
  "durable_part s = \<lparr>uuid_src = uuid_src s, uuid_pos = uuid_pos s, clock_src = clock_src s, clock_pos = clock_pos s,
     pg_database = dep_database s\<rparr>"

definition with_durable :: "'d pg_state \<Rightarrow> ('d, 'z) deployment_scheme \<Rightarrow> ('d, 'z) deployment_scheme" where
  "with_durable t s = s\<lparr>uuid_src := uuid_src t, uuid_pos := uuid_pos t, clock_src := clock_src t, clock_pos := clock_pos t,
     dep_database := pg_database t\<rparr>"

definition on_database :: "('d pg_state, 'a) M \<Rightarrow> (('d, 'z) deployment_scheme, 'a) M" where
  "on_database m = (\<lambda>s. case m (durable_part s) of (r, t) \<Rightarrow> (r, with_durable t s))"

definition deployed_runtime :: "'d pg_state card_runtime \<Rightarrow> ('d, 'z) deployment_scheme card_runtime" where
  "deployed_runtime rt =
     \<lparr>rt_register_patch_panel = (\<lambda>p. on_database (rt_register_patch_panel rt p)),
      rt_list_patch_panels = on_database (rt_list_patch_panels rt),
      rt_create_card = (\<lambda>pid payload md key. on_database (rt_create_card rt pid payload md key)),
      rt_list_cards = on_database (rt_list_cards rt),
      rt_get_card = (\<lambda>i. on_database (rt_get_card rt i)),
      rt_get_lease = (\<lambda>i. on_database (rt_get_lease rt i)),
      rt_list_leases = on_database (rt_list_leases rt),
      rt_claim_card = (\<lambda>pipe worker n key. on_database (rt_claim_card rt pipe worker n key)),
      rt_submit_artifact = (\<lambda>lid pipe refs key. on_database (rt_submit_artifact rt lid pipe refs key)),
      rt_renew_lease = (\<lambda>lid n key. on_database (rt_renew_lease rt lid n key)),
      rt_release_lease = (\<lambda>lid actor key. on_database (rt_release_lease rt lid actor key)),
      rt_expire_leases = on_database (rt_expire_leases rt),
      rt_validate_card = (\<lambda>cid v a r pipe payload key. on_database (rt_validate_card rt cid v a r pipe payload key)),
      rt_move_card = (\<lambda>cid b actor r key. on_database (rt_move_card rt cid b actor r key)),
      rt_card_history = (\<lambda>cid. on_database (rt_card_history rt cid)),
      rt_record_event = (\<lambda>cid ty actor payload key. on_database (rt_record_event rt cid ty actor payload key))\<rparr>"

lemma durable_part_with [simp]: "durable_part (with_durable t s) = t"
  by (cases t) (simp add: durable_part_def with_durable_def)

lemma with_durable_part [simp]: "with_durable (durable_part s) s = s"
  by (cases s) (simp add: durable_part_def with_durable_def)

lemma with_durable_twice [simp]: "with_durable u (with_durable t s) = with_durable u s"
  by (simp add: with_durable_def)

lemma with_durable_sel [simp]: "shadow_links (with_durable t s) = shadow_links s" "shadow_mutations (with_durable t s) = shadow_mutations s"
  by (simp_all add: with_durable_def)

lemma durable_part_shadow [simp]:
  "durable_part (s\<lparr>shadow_links := d\<rparr>) = durable_part s" "durable_part (s\<lparr>shadow_mutations := m\<rparr>) = durable_part s"
  by (simp_all add: durable_part_def)

lemma wp_on_database [wp_rules]:
  "wp (on_database m) Q E s = wp m (\<lambda>x t. Q x (with_durable t s)) (\<lambda>e t. E e (with_durable t s)) (durable_part s)"
  by (simp add: wp_def on_database_def split: prod.split sum.split)

section \<open>The contract over the process\<close>

definition deployed_grown :: "('d pg_state \<Rightarrow> 'd pg_state \<Rightarrow> bool) \<Rightarrow> ('d, 'z) deployment_scheme \<Rightarrow> ('d, 'z) deployment_scheme \<Rightarrow> bool" where
  "deployed_grown grown s t \<longleftrightarrow> grown (durable_part s) (durable_part t) \<and> t = with_durable (durable_part t) s"

lemma deployed_contract:
  assumes "sink_runtime rt ok cards events grown"
  shows "shadow_runtime (deployed_runtime rt) (\<lambda>s. ok (durable_part s)) (\<lambda>s. cards (durable_part s)) (\<lambda>s. events (durable_part s))
    (deployed_grown grown)"
proof -
  note sink = assms
  note contract = sink_runtime.axioms(1) [OF sink]
  note laws = card_runtime_contract.record_law [OF contract] card_runtime_contract.create_law [OF contract]
    card_runtime_contract.create_new_law [OF contract] card_runtime_contract.keep_law [OF contract]
  show ?thesis
  proof (intro shadow_runtime.intro sink_runtime.intro card_runtime_contract.intro sink_runtime_axioms.intro shadow_runtime_axioms.intro,
      goal_cases)
    case (1 cid s)
    then show ?case
      by (simp add: deployed_runtime_def on_database_def card_runtime_contract.get_card_law [OF contract] split: option.split)
  next
    case (2 s cid c)
    then show ?case by (rule card_runtime_contract.card_key [OF contract])
  next
    case (3 cid s)
    then show ?case
      by (simp add: deployed_runtime_def on_database_def card_runtime_contract.history_law [OF contract] split: option.split)
  next
    case (5 s pid payload md key)
    then show ?case
      using card_runtime_contract.create_law [OF contract, of "durable_part s" pid payload md key]
      by (simp add: deployed_runtime_def wp_on_database deployed_grown_def)
  next
    case (21 s t u)
    then show ?case
      unfolding deployed_grown_def
      by (metis card_runtime_contract.grown_trans [OF contract] with_durable_twice)
  next
    case (24 s t)
    then have "advance (durable_part s) (durable_part t)" "t = with_durable (durable_part t) s"
      by (auto simp: advance_def durable_part_def with_durable_def)
    then show ?case using sink_runtime.advance_law [OF sink 24(1)] by (simp add: deployed_grown_def)
  next
    case (25 s t)
    then have "t = with_durable (durable_part t) s" by (simp add: deployed_grown_def)
    then show ?case by (metis with_durable_sel(1))
  next
    case (26 s t)
    then have "t = with_durable (durable_part t) s" by (simp add: deployed_grown_def)
    then show ?case by (metis with_durable_sel(2))
  qed (auto simp: deployed_runtime_def wp_on_database deployed_grown_def laws
      intro: card_runtime_contract.grown_refl [OF contract] dest: card_runtime_contract.grown_cards [OF contract]
        card_runtime_contract.grown_events [OF contract])
qed

interpretation deployed: shadow_runtime "deployed_runtime (postgres_runtime nx cd list_sql)"
    "\<lambda>s. pg_ok list_valid list_view (durable_part s)" "\<lambda>s. pg_cards list_sql (durable_part s)"
    "\<lambda>s. pg_events list_sql (durable_part s)" "deployed_grown (pg_grown list_sql)" for nx cd
  using postgres_contract [OF list_db.sql_database_axioms] by (rule deployed_contract)

text \<open>A call of the process is the call of the durable runtime on its part.\<close>

lemma snd_on_database: "snd (on_database m s) = with_durable (snd (m (durable_part s))) s"
  by (simp add: on_database_def split: prod.split)

lemma deployed_call:
  "durable_part (call_runtime (deployed_runtime rt) c s) = call_runtime rt c (durable_part s)"
  by (cases c) (simp_all add: deployed_runtime_def snd_on_database)

lemma deployed_calls:
  "durable_part (fold (call_runtime (deployed_runtime rt)) calls s) = fold (call_runtime rt) calls (durable_part s)"
  by (induction calls arbitrary: s) (simp_all add: deployed_call)

section \<open>Shadows over the database\<close>

lemma shadow_card_lasts:
  fixes s :: "('d, 'z) pg_state_scheme"
  assumes db: "sql_database sql valid view" and s: "valid (pg_database s)" and c: "pg_cards sql s cid = Some c"
  shows "\<exists>b. pg_cards sql (fold (call_runtime (postgres_runtime nx cd sql)) calls s) cid = Some (c\<lparr>card_current_bucket := b\<rparr>)"
proof -
  let ?t = "fold (call_runtime (postgres_runtime nx cd sql)) calls s"
  have t: "valid (pg_database ?t)" "rows_kept view s ?t" using sql_database.calls_keep [OF db s] by blast+
  have "tb_cards (tables_of view s) cid = Some c" using c sql_database.card_rows [OF db s] by simp
  with t(2) obtain b where "tb_cards (tables_of view ?t) cid = Some (c\<lparr>card_current_bucket := b\<rparr>)"
    unfolding rows_kept_def tables_kept_def by blast
  then show ?thesis using sql_database.card_rows [OF db t(1)] by auto
qed

text \<open>
  Property C32. Over the database as in memory a shadow is isolated. On a clock that moves forward between two readings
  (else an event of the time of another may be read before it), with identifiers still to be drawn new and the stored
  events in the past: creating a shadow without an idempotency key adds exactly one new card, with the payload of the
  production card and marked as a shadow, draws one active link between the two in the service, appends one
  \<^verbatim>\<open>shadow_created\<close> event to the history of the production card, and changes no other card. And it stays inside:
  whatever calls the durable runtime serves afterwards, executing a sink that does not allow shadow egress for the
  shadow card raises and changes nothing.
\<close>

theorem durable_shadow_contained:
  fixes s :: "('d, 'z) deployment_scheme"
  assumes db: "sql_database sql valid view" and clock: "strict_mono (clock_src s)"
    and settled: "pg_settled valid view (durable_part s)" and key: "\<not> truthy key"
    and rt: "rt = deployed_runtime (postgres_runtime nx cd sql)"
    and p: "pg_cards sql (durable_part s) (card_id p) = Some c"
    and run: "create_shadow_card rt p candidate policy key s = (Inr run, t)" and sh: "sh = run_shadow_card run"
    and ex: "ex_runtime ex = rt" "find_node (ex_patch_panel ex) sink_id SINK = Inr n"
      "\<not> json_true (json_get (node_config n) ''allow_shadow_egress'')"
    and later: "u = fold (call_runtime rt) calls t"
  shows "pg_cards sql (durable_part s) (card_id sh) = None \<and>
    pg_cards sql (durable_part t) = (pg_cards sql (durable_part s))(card_id sh \<mapsto> sh) \<and>
    card_payload sh = card_payload p \<and> dict_get (card_metadata sh) ''shadow'' = Some (JBool True) \<and>
    (\<exists>l. shadow_links t = dict_set (link_id l) l (shadow_links s) \<and> active_link (card_id p) l \<and>
       link_shadow_card_id l = card_id sh \<and> link_candidate_id l = candidate) \<and>
    (\<exists>e. pg_events sql (durable_part t) (card_id p) = pg_events sql (durable_part s) (card_id p) @ [e] \<and>
       event_type e = ''shadow_created'') \<and>
    execute_sink dec ex (card_id sh) sink_id ref key' u =
      (Inl (InvalidOperationError ''shadow cards cannot execute production sinks''), u)"
proof -
  have ok: "pg_ok valid view (durable_part s)" using clock settled by (simp add: pg_ok_def durable_part_def)
  have contract: "shadow_runtime rt (\<lambda>s. pg_ok valid view (durable_part s)) (\<lambda>s. pg_cards sql (durable_part s))
      (\<lambda>s. pg_events sql (durable_part s)) (deployed_grown (pg_grown sql))"
    unfolding rt by (rule deployed_contract [OF postgres_contract [OF db]])
  have "pg_cards sql (durable_part s) (card_id p) \<noteq> None" by (simp add: p)
  from shadow_runtime.create_shadow_run [OF contract ok this key, of candidate policy]
  have "shadow_runtime.shadowed (\<lambda>s. pg_ok valid view (durable_part s)) (\<lambda>s. pg_cards sql (durable_part s))
      (\<lambda>s. pg_events sql (durable_part s)) s t p candidate sh"
    by (simp add: wp_def run sh)
  note shadow = this [unfolded shadow_runtime.shadowed_def [OF contract]]
  then have t: "valid (pg_database (durable_part t))" "pg_cards sql (durable_part t) (card_id sh) = Some sh"
    "dict_get (card_metadata sh) ''shadow'' = Some (JBool True)"
    by (simp_all add: pg_ok_defs)
  obtain b where "pg_cards sql (durable_part u) (card_id sh) = Some (sh\<lparr>card_current_bucket := b\<rparr>)"
    using shadow_card_lasts [OF db t(1,2), of nx cd calls] by (auto simp: later rt deployed_calls)
  from sink_runtime.execute_sink_run [OF shadow_runtime.axioms(1) [OF contract] ex(1,2) this] t(3) ex(3)
  have "execute_sink dec ex (card_id sh) sink_id ref key' u =
      (Inl (InvalidOperationError ''shadow cards cannot execute production sinks''), u)"
    by (simp add: json_get_def json_true_def)
  with shadow show ?thesis by blast
qed

text \<open>A process over the database of the one card, its panel and the active version of the panel.\<close>

definition sample_deployment :: "list_db deployment" where
  "sample_deployment =
     \<lparr>uuid_src = sample_ids, uuid_pos = 1, clock_src = int, clock_pos = 1, mem_patch_panels = [], mem_cards = [], mem_leases = [],
      mem_artifacts = [], mem_events = [], mem_idempotency = [], mem_entries = [], auth_participants = [],
      auth_role_assignments = [], auth_permission_grants = [], auth_audit_events = [], shadow_links = [], shadow_mutations = [],
      genesis_intents = [], genesis_index = [],
      dep_database = (pg_database sample_board)\<lparr>ld_workflow_versions := [(''p:1'', \<lparr>vrow_id = ''p:1'', vrow_patch_panel_id = ''p'',
        vrow_version = ''1'', vrow_active = True, vrow_created_at = 0\<rparr>)]\<rparr>\<rparr>"

lemma sample_deployment_ok: "strict_mono (clock_src sample_deployment)" "pg_settled list_valid list_view (durable_part sample_deployment)"
  using sample_ids_inj
  by (simp_all add: pg_settled_def durable_part_def sample_deployment_def sample_board_def sample_rows_def empty_list_db_def list_valid_def
      list_view_def fresh_uuids_def py.keyed_def strict_mono_def)

theorem durable_shadow_contained_witness:
  "\<exists>run t. create_shadow_card (deployed_runtime (postgres_runtime list_networkx sample_codecs list_sql)) sample_card ''c'' None None
       sample_deployment = (Inr run, t) \<and>
     pg_cards list_sql (durable_part t) (card_id (run_shadow_card run)) = Some (run_shadow_card run) \<and>
     fst (execute_sink sample_decoders (sample_executor (deployed_runtime (postgres_runtime list_networkx sample_codecs list_sql)))
       (card_id (run_shadow_card run)) ''authority_provisioner_sink'' None None t) =
     Inl (InvalidOperationError ''shadow cards cannot execute production sinks'')"
proof -
  let ?rt = "deployed_runtime (postgres_runtime list_networkx sample_codecs list_sql) :: list_db deployment card_runtime"
  have "case create_shadow_card ?rt sample_card ''c'' None None sample_deployment of (Inr _, _) \<Rightarrow> True | _ \<Rightarrow> False"
    unfolding create_shadow_card_def default_policy_def option.case shadow_policy.select_convs Let_def
      deployed_runtime_def postgres_runtime_def card_runtime.select_convs
    by (simp only: not_one_le_zero if_False, code_simp)
  then obtain run t where run: "create_shadow_card ?rt sample_card ''c'' None None sample_deployment = (Inr run, t)"
    by (auto split: prod.splits sum.splits)
  have card: "pg_cards list_sql (durable_part sample_deployment) (card_id sample_card) = Some sample_card" by code_simp
  have key: "\<not> truthy None" by simp
  have "\<not> json_true (json_get (node_config sample_sink) ''allow_shadow_egress'')"
    by (simp add: sample_sink_def sample_node_def json_get_def json_true_def)
  from durable_shadow_contained [OF list_db.sql_database_axioms sample_deployment_ok(1,2) key refl card run refl
      sample_executor_runtime sample_executor_node this, of t "[]" sample_decoders None None]
  show ?thesis using run by (intro exI [of _ run] exI [of _ t]) auto
qed

end
