(* ===== verification/Schema.thy ===== *)
theory Schema
  imports PyData
begin

text \<open>
  The database schema: the tables that \<^verbatim>\<open>src/src/ghostmesh/persistence/tables.py\<close> declares and the migrations
  under \<^verbatim>\<open>src/alembic/versions/\<close> that build them. A migration is the list of the operations it calls. Alembic and
  the database that execute an operation are a parameter of the theorems, the locale \<open>migration_engine\<close>:
  an operation that the reference semantics \<open>apply_ddl\<close> carries out on the shape of the tables and their rows is
  carried out by the engine, unless its text asks for a bind parameter: the migrations never give one a value, and such a
  statement raises. Nothing is assumed of an operation that the reference semantics refuses.
\<close>

section \<open>Tables\<close>

datatype sql_type = SqlString | SqlText | SqlJSON | SqlDateTime | SqlBoolean | SqlInteger | SqlUuid

text \<open>A column with its name, its type and whether it takes nulls.\<close>

datatype column = Column (column_name: string) (column_type: sql_type) (column_nullable: bool)

text \<open>
  The constraints of a table. A foreign key has a name or not, the column, and the table and column it refers to.
\<close>

datatype table_constraint =
    Primary_Key "string list"
  | Foreign_Key "string option" string string string
  | Unique_Key string
  | Check_Constraint string string

record shape =
  shape_columns :: "column list"
  shape_constraints :: "table_constraint list"

section \<open>Declared tables\<close>

text \<open>
  A column as \<^verbatim>\<open>tables.py\<close> declares it: name, type, the column it refers to, whether it belongs to the primary key,
  whether it takes nulls and whether it is unique. SQLAlchemy makes the columns of the primary key not null and turns these
  marks into constraints of the table.
\<close>

datatype declared_column =
  Declared (declared_name: string) (declared_type: sql_type) (declared_foreign: "(string \<times> string) option")
    (declared_primary: bool) (declared_nullable: bool) (declared_unique: bool)

definition table_shape :: "string \<Rightarrow> declared_column list \<Rightarrow> table_constraint list \<Rightarrow> string \<times> shape" where
  "table_shape name cs checks = (name,
     \<lparr>shape_columns = map (\<lambda>c. Column (declared_name c) (declared_type c) (declared_nullable c)) cs,
      shape_constraints =
        Primary_Key (map declared_name (filter declared_primary cs)) #
        concat (map (\<lambda>c. case declared_foreign c of None \<Rightarrow> []
          | Some (t, k) \<Rightarrow> [Foreign_Key None (declared_name c) t k]) cs) @
        map (\<lambda>c. Unique_Key (declared_name c)) (filter declared_unique cs) @ checks\<rparr>)"

definition patch_panels_table :: "string \<times> shape" where
  "patch_panels_table = table_shape ''patch_panels''
    [Declared ''id'' SqlString None True False False, Declared ''version'' SqlString None True False False,
     Declared ''definition'' SqlJSON None False False False,
     Declared ''created_at'' SqlDateTime None False False False]
    []"

definition participants_table :: "string \<times> shape" where
  "participants_table = table_shape ''participants''
    [Declared ''id'' SqlString None True False False, Declared ''type'' SqlString None False False False,
     Declared ''display_name'' SqlString None False True False,
     Declared ''status'' SqlString None False False False,
     Declared ''trust_level'' SqlString None False True False,
     Declared ''auth_method'' SqlString None False True False,
     Declared ''participant_metadata'' SqlJSON None False False False,
     Declared ''created_at'' SqlDateTime None False False False,
     Declared ''archived_at'' SqlDateTime None False True False]
    []"

definition roles_table :: "string \<times> shape" where
  "roles_table = table_shape ''roles''
    [Declared ''id'' SqlString None True False False, Declared ''name'' SqlString None False False True,
     Declared ''description'' SqlText None False True False,
     Declared ''role_metadata'' SqlJSON None False False False,
     Declared ''created_at'' SqlDateTime None False False False]
    []"

definition participant_roles_table :: "string \<times> shape" where
  "participant_roles_table = table_shape ''participant_roles''
    [Declared ''id'' SqlUuid None True False False,
     Declared ''participant_id'' SqlString (Some (''participants'', ''id'')) False False False,
     Declared ''role_id'' SqlString (Some (''roles'', ''id'')) False False False,
     Declared ''scope_type'' SqlString None False False False,
     Declared ''scope_id'' SqlString None False True False,
     Declared ''assigned_by'' SqlString (Some (''participants'', ''id'')) False True False,
     Declared ''expires_at'' SqlDateTime None False True False,
     Declared ''created_at'' SqlDateTime None False False False,
     Declared ''revoked_at'' SqlDateTime None False True False,
     Declared ''assignment_metadata'' SqlJSON None False False False]
    []"

definition permission_grants_table :: "string \<times> shape" where
  "permission_grants_table = table_shape ''permission_grants''
    [Declared ''id'' SqlUuid None True False False,
     Declared ''participant_id'' SqlString (Some (''participants'', ''id'')) False True False,
     Declared ''role_id'' SqlString (Some (''roles'', ''id'')) False True False,
     Declared ''permission'' SqlString None False False False,
     Declared ''scope_type'' SqlString None False False False,
     Declared ''scope_id'' SqlString None False True False,
     Declared ''granted_by'' SqlString (Some (''participants'', ''id'')) False True False,
     Declared ''expires_at'' SqlDateTime None False True False,
     Declared ''created_at'' SqlDateTime None False False False,
     Declared ''revoked_at'' SqlDateTime None False True False,
     Declared ''grant_metadata'' SqlJSON None False False False]
    [Check_Constraint ''ck_permission_grants_one_target'' ''(participant_id IS NOT NULL AND role_id IS NULL) OR (participant_id IS NULL AND role_id IS NOT NULL)'']"

definition authorization_audit_events_table :: "string \<times> shape" where
  "authorization_audit_events_table = table_shape ''authorization_audit_events''
    [Declared ''id'' SqlUuid None True False False, Declared ''action'' SqlString None False False False,
     Declared ''participant_id'' SqlString (Some (''participants'', ''id'')) False True False,
     Declared ''permission'' SqlString None False True False,
     Declared ''scope_type'' SqlString None False True False,
     Declared ''scope_id'' SqlString None False True False,
     Declared ''allowed'' SqlBoolean None False True False, Declared ''reason'' SqlText None False True False,
     Declared ''request_ref'' SqlText None False True False,
     Declared ''target_ref'' SqlText None False True False,
     Declared ''event_metadata'' SqlJSON None False False False,
     Declared ''created_at'' SqlDateTime None False False False]
    []"

definition patch_panel_registry_entries_table :: "string \<times> shape" where
  "patch_panel_registry_entries_table = table_shape ''patch_panel_registry_entries''
    [Declared ''id'' SqlUuid None True False False,
     Declared ''patch_panel_id'' SqlString None False False False,
     Declared ''version'' SqlString None False False False, Declared ''name'' SqlString None False False False,
     Declared ''description'' SqlText None False True False, Declared ''tags'' SqlJSON None False False False,
     Declared ''input_types'' SqlJSON None False False False,
     Declared ''output_types'' SqlJSON None False False False,
     Declared ''required_tools'' SqlJSON None False False False,
     Declared ''required_permissions'' SqlJSON None False False False,
     Declared ''risk_level'' SqlString None False True False,
     Declared ''estimated_cost'' SqlString None False True False,
     Declared ''estimated_latency'' SqlString None False True False,
     Declared ''owner_participant_id'' SqlString (Some (''participants'', ''id'')) False True False,
     Declared ''status'' SqlString None False False False,
     Declared ''supersedes_entry_id'' SqlUuid (Some (''patch_panel_registry_entries'', ''id'')) False True False,
     Declared ''registry_metadata'' SqlJSON None False False False,
     Declared ''created_at'' SqlDateTime None False False False,
     Declared ''updated_at'' SqlDateTime None False False False,
     Declared ''archived_at'' SqlDateTime None False True False]
    []"

definition workflow_versions_table :: "string \<times> shape" where
  "workflow_versions_table = table_shape ''workflow_versions''
    [Declared ''id'' SqlString None True False False,
     Declared ''patch_panel_id'' SqlString None False False False,
     Declared ''version'' SqlString None False False False,
     Declared ''active'' SqlBoolean None False False False,
     Declared ''created_at'' SqlDateTime None False False False]
    []"

definition buckets_table :: "string \<times> shape" where
  "buckets_table = table_shape ''buckets''
    [Declared ''workflow_version'' SqlString (Some (''workflow_versions'', ''id'')) True False False,
     Declared ''id'' SqlString None True False False, Declared ''definition'' SqlJSON None False False False,
     Declared ''created_at'' SqlDateTime None False False False]
    []"

definition cards_table :: "string \<times> shape" where
  "cards_table = table_shape ''cards''
    [Declared ''id'' SqlUuid None True False False,
     Declared ''workflow_version'' SqlString None False False False,
     Declared ''current_bucket'' SqlString None False False False,
     Declared ''payload'' SqlJSON None False False False,
     Declared ''card_metadata'' SqlJSON None False False False,
     Declared ''created_at'' SqlDateTime None False False False]
    []"

definition card_locations_table :: "string \<times> shape" where
  "card_locations_table = table_shape ''card_locations''
    [Declared ''id'' SqlUuid None True False False,
     Declared ''card_id'' SqlUuid (Some (''cards'', ''id'')) False False False,
     Declared ''bucket'' SqlString None False False False,
     Declared ''status'' SqlString None False False False,
     Declared ''entered_at'' SqlDateTime None False False False,
     Declared ''accepted_at'' SqlDateTime None False True False,
     Declared ''exited_at'' SqlDateTime None False True False]
    []"

definition leases_table :: "string \<times> shape" where
  "leases_table = table_shape ''leases''
    [Declared ''id'' SqlUuid None True False False,
     Declared ''card_id'' SqlUuid (Some (''cards'', ''id'')) False False False,
     Declared ''node_id'' SqlString None False False False,
     Declared ''worker_id'' SqlString None False False False,
     Declared ''participant_id'' SqlString (Some (''participants'', ''id'')) False True False,
     Declared ''input_pipe'' SqlString None False False False,
     Declared ''claimed_at'' SqlDateTime None False False False,
     Declared ''expires_at'' SqlDateTime None False False False,
     Declared ''released_at'' SqlDateTime None False True False]
    []"

definition validation_results_table :: "string \<times> shape" where
  "validation_results_table = table_shape ''validation_results''
    [Declared ''id'' SqlUuid None True False False,
     Declared ''card_id'' SqlUuid (Some (''cards'', ''id'')) False False False,
     Declared ''validator_id'' SqlString None False False False,
     Declared ''participant_id'' SqlString (Some (''participants'', ''id'')) False True False,
     Declared ''accepted'' SqlBoolean None False False False,
     Declared ''reason'' SqlText None False True False,
     Declared ''output_pipe'' SqlString None False True False,
     Declared ''payload'' SqlJSON None False False False,
     Declared ''created_at'' SqlDateTime None False False False]
    []"

definition artifacts_table :: "string \<times> shape" where
  "artifacts_table = table_shape ''artifacts''
    [Declared ''id'' SqlUuid None True False False,
     Declared ''card_id'' SqlUuid (Some (''cards'', ''id'')) False False False,
     Declared ''event_id'' SqlUuid None False True False,
     Declared ''storage_ref'' SqlText None False False False,
     Declared ''content_hash'' SqlString None False False False,
     Declared ''content_type'' SqlString None False False False,
     Declared ''size_bytes'' SqlInteger None False False False,
     Declared ''artifact_metadata'' SqlJSON None False False False,
     Declared ''created_at'' SqlDateTime None False False False]
    []"

definition card_events_table :: "string \<times> shape" where
  "card_events_table = table_shape ''card_events''
    [Declared ''id'' SqlUuid None True False False,
     Declared ''card_id'' SqlUuid (Some (''cards'', ''id'')) False False False,
     Declared ''event_type'' SqlString None False False False,
     Declared ''actor_id'' SqlString None False True False,
     Declared ''participant_id'' SqlString (Some (''participants'', ''id'')) False True False,
     Declared ''payload'' SqlJSON None False False False,
     Declared ''occurred_at'' SqlDateTime None False False False]
    []"

definition idempotency_records_table :: "string \<times> shape" where
  "idempotency_records_table = table_shape ''idempotency_records''
    [Declared ''key'' SqlString None True False False, Declared ''operation'' SqlString None False False False,
     Declared ''response_ref'' SqlText None False False False,
     Declared ''created_at'' SqlDateTime None False False False]
    []"

definition shadow_card_links_table :: "string \<times> shape" where
  "shadow_card_links_table = table_shape ''shadow_card_links''
    [Declared ''id'' SqlUuid None True False False,
     Declared ''production_card_id'' SqlUuid (Some (''cards'', ''id'')) False False False,
     Declared ''shadow_card_id'' SqlUuid (Some (''cards'', ''id'')) False False False,
     Declared ''candidate_id'' SqlString None False False False,
     Declared ''status'' SqlString None False False False, Declared ''metrics'' SqlJSON None False False False,
     Declared ''created_at'' SqlDateTime None False False False]
    []"

definition proposed_mutations_table :: "string \<times> shape" where
  "proposed_mutations_table = table_shape ''proposed_mutations''
    [Declared ''id'' SqlUuid None True False False,
     Declared ''mutation_type'' SqlString None False False False,
     Declared ''proposed_by'' SqlString None False False False,
     Declared ''participant_id'' SqlString (Some (''participants'', ''id'')) False True False,
     Declared ''payload'' SqlJSON None False False False, Declared ''status'' SqlString None False False False,
     Declared ''created_at'' SqlDateTime None False False False,
     Declared ''validated_at'' SqlDateTime None False True False,
     Declared ''promoted_at'' SqlDateTime None False True False]
    []"

definition declared_tables :: "(string, shape) dict" where
  "declared_tables =
    [patch_panels_table, participants_table, roles_table, participant_roles_table, permission_grants_table,
     authorization_audit_events_table, patch_panel_registry_entries_table, workflow_versions_table,
     buckets_table, cards_table, card_locations_table, leases_table, validation_results_table, artifacts_table,
     card_events_table, idempotency_records_table, shadow_card_links_table, proposed_mutations_table]"

section \<open>Operations of a migration\<close>

text \<open>
  The operations the migrations call: \<^verbatim>\<open>op.create_table\<close>, \<^verbatim>\<open>op.drop_table\<close>, \<^verbatim>\<open>op.add_column\<close>,
  \<^verbatim>\<open>op.drop_column\<close>, \<^verbatim>\<open>op.alter_column\<close> with \<^verbatim>\<open>nullable=False\<close>, \<^verbatim>\<open>op.create_foreign_key\<close>,
  \<^verbatim>\<open>op.drop_constraint\<close> and \<^verbatim>\<open>op.execute\<close> of an update of every row. An updated column gets a value or what
  the database makes of an SQL expression.
\<close>

datatype sql_value = Sql_Value json | Sql_Text string

datatype ddl =
    Create_Table string "column list" "table_constraint list"
  | Drop_Table string
  | Add_Column string column
  | Drop_Column string string
  | Set_Not_Null string string
  | Create_Foreign_Key string string string string string
  | Drop_Constraint string string
  | Update_Rows string "(string \<times> sql_value) list"

definition legacy_hash :: string where
  "legacy_hash = ''sha256:'' @ replicate 64 (CHR ''0'')"

definition legacy_prefix :: string where
  "legacy_prefix = ''legacy-postgres-artifact:''"

definition legacy_metadata :: string where
  \<open>legacy_metadata = ''{"migration":"legacy_payload_removed", "requires_manual_rehydration":true}''\<close>

section \<open>Migrations\<close>

definition upgrade_0001 :: "ddl list" where
  "upgrade_0001 =
    [Create_Table ''patch_panels''
       [Column ''id'' SqlString False, Column ''version'' SqlString False, Column ''definition'' SqlJSON False,
        Column ''created_at'' SqlDateTime False]
       [Primary_Key [''id'', ''version'']],
     Create_Table ''cards''
       [Column ''id'' SqlUuid False, Column ''workflow_version'' SqlString False,
        Column ''current_bucket'' SqlString False, Column ''payload'' SqlJSON False,
        Column ''card_metadata'' SqlJSON False, Column ''created_at'' SqlDateTime False]
       [Primary_Key [''id'']],
     Create_Table ''idempotency_records''
       [Column ''key'' SqlString False, Column ''operation'' SqlString False,
        Column ''response_ref'' SqlText False, Column ''created_at'' SqlDateTime False]
       [Primary_Key [''key'']],
     Create_Table ''artifacts''
       [Column ''id'' SqlUuid False, Column ''card_id'' SqlUuid False, Column ''node_id'' SqlString False,
        Column ''worker_id'' SqlString True, Column ''payload'' SqlJSON False,
        Column ''created_at'' SqlDateTime False]
       [Foreign_Key None ''card_id'' ''cards'' ''id'', Primary_Key [''id'']],
     Create_Table ''card_events''
       [Column ''id'' SqlUuid False, Column ''card_id'' SqlUuid False, Column ''event_type'' SqlString False,
        Column ''actor_id'' SqlString True, Column ''payload'' SqlJSON False,
        Column ''occurred_at'' SqlDateTime False]
       [Foreign_Key None ''card_id'' ''cards'' ''id'', Primary_Key [''id'']],
     Create_Table ''leases''
       [Column ''id'' SqlUuid False, Column ''card_id'' SqlUuid False, Column ''node_id'' SqlString False,
        Column ''worker_id'' SqlString False, Column ''input_pipe'' SqlString False,
        Column ''claimed_at'' SqlDateTime False, Column ''expires_at'' SqlDateTime False,
        Column ''released_at'' SqlDateTime True]
       [Foreign_Key None ''card_id'' ''cards'' ''id'', Primary_Key [''id'']]]"

definition downgrade_0001 :: "ddl list" where
  "downgrade_0001 =
    [Drop_Table ''leases'',
     Drop_Table ''card_events'',
     Drop_Table ''artifacts'',
     Drop_Table ''idempotency_records'',
     Drop_Table ''cards'',
     Drop_Table ''patch_panels'']"

definition upgrade_0002 :: "ddl list" where
  "upgrade_0002 =
    [Create_Table ''workflow_versions''
       [Column ''id'' SqlString False, Column ''patch_panel_id'' SqlString False,
        Column ''version'' SqlString False, Column ''active'' SqlBoolean False,
        Column ''created_at'' SqlDateTime False]
       [Primary_Key [''id'']],
     Create_Table ''buckets''
       [Column ''workflow_version'' SqlString False, Column ''id'' SqlString False,
        Column ''definition'' SqlJSON False, Column ''created_at'' SqlDateTime False]
       [Foreign_Key None ''workflow_version'' ''workflow_versions'' ''id'',
        Primary_Key [''workflow_version'', ''id'']],
     Create_Table ''card_locations''
       [Column ''id'' SqlUuid False, Column ''card_id'' SqlUuid False, Column ''bucket'' SqlString False,
        Column ''status'' SqlString False, Column ''entered_at'' SqlDateTime False,
        Column ''accepted_at'' SqlDateTime True, Column ''exited_at'' SqlDateTime True]
       [Foreign_Key None ''card_id'' ''cards'' ''id'', Primary_Key [''id'']],
     Create_Table ''validation_results''
       [Column ''id'' SqlUuid False, Column ''card_id'' SqlUuid False, Column ''validator_id'' SqlString False,
        Column ''accepted'' SqlBoolean False, Column ''reason'' SqlText True, Column ''payload'' SqlJSON False,
        Column ''created_at'' SqlDateTime False]
       [Foreign_Key None ''card_id'' ''cards'' ''id'', Primary_Key [''id'']]]"

definition downgrade_0002 :: "ddl list" where
  "downgrade_0002 =
    [Drop_Table ''validation_results'',
     Drop_Table ''card_locations'',
     Drop_Table ''buckets'',
     Drop_Table ''workflow_versions'']"

definition upgrade_0003 :: "ddl list" where
  "upgrade_0003 =
    [Create_Table ''shadow_card_links''
       [Column ''id'' SqlUuid False, Column ''production_card_id'' SqlUuid False,
        Column ''shadow_card_id'' SqlUuid False, Column ''candidate_id'' SqlString False,
        Column ''status'' SqlString False, Column ''metrics'' SqlJSON False,
        Column ''created_at'' SqlDateTime False]
       [Foreign_Key None ''production_card_id'' ''cards'' ''id'',
        Foreign_Key None ''shadow_card_id'' ''cards'' ''id'', Primary_Key [''id'']],
     Create_Table ''proposed_mutations''
       [Column ''id'' SqlUuid False, Column ''mutation_type'' SqlString False,
        Column ''proposed_by'' SqlString False, Column ''payload'' SqlJSON False,
        Column ''status'' SqlString False, Column ''created_at'' SqlDateTime False,
        Column ''validated_at'' SqlDateTime True, Column ''promoted_at'' SqlDateTime True]
       [Primary_Key [''id'']]]"

definition downgrade_0003 :: "ddl list" where
  "downgrade_0003 =
    [Drop_Table ''proposed_mutations'',
     Drop_Table ''shadow_card_links'']"

definition upgrade_0004 :: "ddl list" where
  "upgrade_0004 =
    [Add_Column ''artifacts'' (Column ''event_id'' SqlUuid True),
     Add_Column ''artifacts'' (Column ''storage_ref'' SqlText True),
     Add_Column ''artifacts'' (Column ''content_hash'' SqlString True),
     Add_Column ''artifacts'' (Column ''content_type'' SqlString True),
     Add_Column ''artifacts'' (Column ''size_bytes'' SqlInteger True),
     Add_Column ''artifacts'' (Column ''artifact_metadata'' SqlJSON True),
     Update_Rows ''artifacts''
       [(''storage_ref'', Sql_Text (quoted legacy_prefix @ '' || id::text'')),
        (''content_hash'', Sql_Value (JStr legacy_hash)),
        (''content_type'', Sql_Value (JStr ''application/json'')), (''size_bytes'', Sql_Value (JInt 0)),
        (''artifact_metadata'', Sql_Text (quoted legacy_metadata @ ''::json''))],
     Set_Not_Null ''artifacts'' ''storage_ref'',
     Set_Not_Null ''artifacts'' ''content_hash'',
     Set_Not_Null ''artifacts'' ''content_type'',
     Set_Not_Null ''artifacts'' ''size_bytes'',
     Set_Not_Null ''artifacts'' ''artifact_metadata'',
     Drop_Column ''artifacts'' ''payload'',
     Drop_Column ''artifacts'' ''node_id'',
     Drop_Column ''artifacts'' ''worker_id'']"

definition downgrade_0004 :: "ddl list" where
  "downgrade_0004 =
    [Add_Column ''artifacts'' (Column ''worker_id'' SqlString True),
     Add_Column ''artifacts'' (Column ''node_id'' SqlString True),
     Add_Column ''artifacts'' (Column ''payload'' SqlJSON True),
     Update_Rows ''artifacts''
       [(''payload'', Sql_Text (quoted ''{}'' @ ''::json'')), (''node_id'', Sql_Text (quoted ''legacy_external_store''))],
     Set_Not_Null ''artifacts'' ''payload'',
     Set_Not_Null ''artifacts'' ''node_id'',
     Drop_Column ''artifacts'' ''artifact_metadata'',
     Drop_Column ''artifacts'' ''size_bytes'',
     Drop_Column ''artifacts'' ''content_type'',
     Drop_Column ''artifacts'' ''content_hash'',
     Drop_Column ''artifacts'' ''storage_ref'',
     Drop_Column ''artifacts'' ''event_id'']"

definition upgrade_0005 :: "ddl list" where
  "upgrade_0005 =
    [Create_Table ''participants''
       [Column ''id'' SqlString False, Column ''type'' SqlString False, Column ''display_name'' SqlString True,
        Column ''status'' SqlString False, Column ''trust_level'' SqlString True,
        Column ''auth_method'' SqlString True, Column ''participant_metadata'' SqlJSON False,
        Column ''created_at'' SqlDateTime False, Column ''archived_at'' SqlDateTime True]
       [Primary_Key [''id'']],
     Create_Table ''roles''
       [Column ''id'' SqlString False, Column ''name'' SqlString False, Column ''description'' SqlText True,
        Column ''role_metadata'' SqlJSON False, Column ''created_at'' SqlDateTime False]
       [Primary_Key [''id''], Unique_Key ''name''],
     Create_Table ''participant_roles''
       [Column ''id'' SqlUuid False, Column ''participant_id'' SqlString False,
        Column ''role_id'' SqlString False, Column ''scope_type'' SqlString False,
        Column ''scope_id'' SqlString True, Column ''assigned_by'' SqlString True,
        Column ''expires_at'' SqlDateTime True, Column ''created_at'' SqlDateTime False,
        Column ''revoked_at'' SqlDateTime True, Column ''assignment_metadata'' SqlJSON False]
       [Foreign_Key None ''assigned_by'' ''participants'' ''id'',
        Foreign_Key None ''participant_id'' ''participants'' ''id'',
        Foreign_Key None ''role_id'' ''roles'' ''id'', Primary_Key [''id'']],
     Create_Table ''permission_grants''
       [Column ''id'' SqlUuid False, Column ''participant_id'' SqlString True,
        Column ''role_id'' SqlString True, Column ''permission'' SqlString False,
        Column ''scope_type'' SqlString False, Column ''scope_id'' SqlString True,
        Column ''granted_by'' SqlString True, Column ''expires_at'' SqlDateTime True,
        Column ''created_at'' SqlDateTime False, Column ''revoked_at'' SqlDateTime True,
        Column ''grant_metadata'' SqlJSON False]
       [Check_Constraint ''ck_permission_grants_one_target'' ''(participant_id IS NOT NULL AND role_id IS NULL) OR (participant_id IS NULL AND role_id IS NOT NULL)'',
        Foreign_Key None ''granted_by'' ''participants'' ''id'',
        Foreign_Key None ''participant_id'' ''participants'' ''id'',
        Foreign_Key None ''role_id'' ''roles'' ''id'', Primary_Key [''id'']],
     Create_Table ''authorization_audit_events''
       [Column ''id'' SqlUuid False, Column ''action'' SqlString False,
        Column ''participant_id'' SqlString True, Column ''permission'' SqlString True,
        Column ''scope_type'' SqlString True, Column ''scope_id'' SqlString True,
        Column ''allowed'' SqlBoolean True, Column ''reason'' SqlText True,
        Column ''request_ref'' SqlText True, Column ''target_ref'' SqlText True,
        Column ''event_metadata'' SqlJSON False, Column ''created_at'' SqlDateTime False]
       [Foreign_Key None ''participant_id'' ''participants'' ''id'', Primary_Key [''id'']],
     Create_Table ''patch_panel_registry_entries''
       [Column ''id'' SqlUuid False, Column ''patch_panel_id'' SqlString False,
        Column ''version'' SqlString False, Column ''name'' SqlString False,
        Column ''description'' SqlText True, Column ''tags'' SqlJSON False,
        Column ''input_types'' SqlJSON False, Column ''output_types'' SqlJSON False,
        Column ''required_tools'' SqlJSON False, Column ''required_permissions'' SqlJSON False,
        Column ''risk_level'' SqlString True, Column ''estimated_cost'' SqlString True,
        Column ''estimated_latency'' SqlString True, Column ''owner_participant_id'' SqlString True,
        Column ''status'' SqlString False, Column ''supersedes_entry_id'' SqlUuid True,
        Column ''registry_metadata'' SqlJSON False, Column ''created_at'' SqlDateTime False,
        Column ''updated_at'' SqlDateTime False, Column ''archived_at'' SqlDateTime True]
       [Foreign_Key None ''owner_participant_id'' ''participants'' ''id'',
        Foreign_Key None ''supersedes_entry_id'' ''patch_panel_registry_entries'' ''id'', Primary_Key [''id'']],
     Add_Column ''leases'' (Column ''participant_id'' SqlString True),
     Create_Foreign_Key ''fk_leases_participant_id_participants'' ''leases'' ''participants'' ''participant_id'' ''id'',
     Add_Column ''validation_results'' (Column ''participant_id'' SqlString True),
     Create_Foreign_Key ''fk_validation_results_participant_id_participants'' ''validation_results'' ''participants'' ''participant_id'' ''id'',
     Add_Column ''card_events'' (Column ''participant_id'' SqlString True),
     Create_Foreign_Key ''fk_card_events_participant_id_participants'' ''card_events'' ''participants'' ''participant_id'' ''id'',
     Add_Column ''proposed_mutations'' (Column ''participant_id'' SqlString True),
     Create_Foreign_Key ''fk_proposed_mutations_participant_id_participants'' ''proposed_mutations'' ''participants'' ''participant_id'' ''id'']"

definition downgrade_0005 :: "ddl list" where
  "downgrade_0005 =
    [Drop_Constraint ''fk_proposed_mutations_participant_id_participants'' ''proposed_mutations'',
     Drop_Column ''proposed_mutations'' ''participant_id'',
     Drop_Constraint ''fk_card_events_participant_id_participants'' ''card_events'',
     Drop_Column ''card_events'' ''participant_id'',
     Drop_Constraint ''fk_validation_results_participant_id_participants'' ''validation_results'',
     Drop_Column ''validation_results'' ''participant_id'',
     Drop_Constraint ''fk_leases_participant_id_participants'' ''leases'',
     Drop_Column ''leases'' ''participant_id'',
     Drop_Table ''patch_panel_registry_entries'',
     Drop_Table ''authorization_audit_events'',
     Drop_Table ''permission_grants'',
     Drop_Table ''participant_roles'',
     Drop_Table ''roles'',
     Drop_Table ''participants'']"

definition upgrade_0006 :: "ddl list" where
  "upgrade_0006 =
    [Add_Column ''validation_results'' (Column ''output_pipe'' SqlString True)]"

definition downgrade_0006 :: "ddl list" where
  "downgrade_0006 =
    [Drop_Column ''validation_results'' ''output_pipe'']"

text \<open>
  A revision with its identifier, the one it revises, and its two directions; Alembic runs the upgrades along the
  chain of \<^verbatim>\<open>down_revision\<close>, which starts at the one that revises nothing.
\<close>

record revision =
  revision_id :: string
  down_revision :: "string option"
  upgrade :: "ddl list"
  downgrade :: "ddl list"

definition migrations :: "revision list" where
  "migrations =
    [\<lparr>revision_id = ''20260514_0001'', down_revision = None, upgrade = upgrade_0001, downgrade = downgrade_0001\<rparr>,
     \<lparr>revision_id = ''20260514_0002'', down_revision = Some ''20260514_0001'', upgrade = upgrade_0002, downgrade = downgrade_0002\<rparr>,
     \<lparr>revision_id = ''20260514_0003'', down_revision = Some ''20260514_0002'', upgrade = upgrade_0003, downgrade = downgrade_0003\<rparr>,
     \<lparr>revision_id = ''20260514_0004'', down_revision = Some ''20260514_0003'', upgrade = upgrade_0004, downgrade = downgrade_0004\<rparr>,
     \<lparr>revision_id = ''20260514_0005'', down_revision = Some ''20260514_0004'', upgrade = upgrade_0005, downgrade = downgrade_0005\<rparr>,
     \<lparr>revision_id = ''20260514_0006'', down_revision = Some ''20260514_0005'', upgrade = upgrade_0006, downgrade = downgrade_0006\<rparr>]"

section \<open>What an operation does\<close>

text \<open>The shape of the tables, and the rows of each; a column of a row without a value is null.\<close>

type_synonym db_row = "string \<Rightarrow> json option"

record db_view =
  view_shape :: "(string, shape) dict"
  view_rows :: "string \<Rightarrow> db_row list"

definition column_of :: "(string, shape) dict \<Rightarrow> string \<Rightarrow> string \<Rightarrow> column option" where
  "column_of sh t c = (case dict_get sh t of None \<Rightarrow> None | Some x \<Rightarrow> find (\<lambda>k. column_name k = c) (shape_columns x))"

fun refers_to :: "string \<Rightarrow> (string \<Rightarrow> bool) \<Rightarrow> table_constraint \<Rightarrow> bool" where
  "refers_to t C (Foreign_Key _ _ u c) = (u = t \<and> C c)"
| "refers_to _ _ _ = False"

fun mentions :: "string \<Rightarrow> table_constraint \<Rightarrow> bool" where
  "mentions c (Primary_Key cs) = (c \<in> set cs)"
| "mentions c (Foreign_Key _ k _ _) = (k = c)"
| "mentions c (Unique_Key k) = (k = c)"
| "mentions c (Check_Constraint _ _) = True"

text \<open>No other table has a foreign key to the table, or to a column of it that satisfies the predicate.\<close>

definition unreferenced :: "(string, shape) dict \<Rightarrow> string \<Rightarrow> (string \<Rightarrow> bool) \<Rightarrow> bool" where
  "unreferenced sh t C \<longleftrightarrow> list_all (\<lambda>(u, x). u = t \<or> \<not> list_ex (refers_to t C) (shape_constraints x)) sh"

definition on_table :: "(string, shape) dict \<Rightarrow> string \<Rightarrow> (shape \<Rightarrow> shape option) \<Rightarrow> (string, shape) dict option" where
  "on_table sh t f = (case dict_get sh t of None \<Rightarrow> None | Some x \<Rightarrow>
     (case f x of None \<Rightarrow> None | Some y \<Rightarrow> Some (dict_set t y sh)))"

text \<open>What an operation makes of the shapes; \<open>None\<close> when it is refused or not described here.\<close>

fun shape_ddl :: "ddl \<Rightarrow> (string, shape) dict \<Rightarrow> (string, shape) dict option" where
  "shape_ddl (Create_Table t cs ks) sh =
     (if dict_get sh t = None \<and> distinct (map column_name cs) \<and>
         list_all (\<lambda>k. case k of Foreign_Key _ _ u c \<Rightarrow>
           (if u = t then list_ex (\<lambda>x. column_name x = c) cs else column_of sh u c \<noteq> None) | _ \<Rightarrow> True) ks
      then Some (sh @ [(t, \<lparr>shape_columns = cs, shape_constraints = ks\<rparr>)]) else None)"
| "shape_ddl (Drop_Table t) sh =
     (if dict_get sh t \<noteq> None \<and> unreferenced sh t (\<lambda>_. True) then Some (filter (\<lambda>(u, _). u \<noteq> t) sh) else None)"
| "shape_ddl (Add_Column t c) sh = on_table sh t (\<lambda>x.
     if list_all (\<lambda>k. column_name k \<noteq> column_name c) (shape_columns x) \<and> column_nullable c
     then Some (x\<lparr>shape_columns := shape_columns x @ [c]\<rparr>) else None)"
| "shape_ddl (Drop_Column t c) sh =
     (if unreferenced sh t (\<lambda>k. k = c) then on_table sh t (\<lambda>x.
        if list_ex (\<lambda>k. column_name k = c) (shape_columns x) \<and> \<not> list_ex (mentions c) (shape_constraints x)
        then Some (x\<lparr>shape_columns := filter (\<lambda>k. column_name k \<noteq> c) (shape_columns x)\<rparr>) else None)
      else None)"
| "shape_ddl (Set_Not_Null t c) sh = on_table sh t (\<lambda>x.
     if list_ex (\<lambda>k. column_name k = c) (shape_columns x)
     then Some (x\<lparr>shape_columns := map (\<lambda>k. if column_name k = c then Column c (column_type k) False else k) (shape_columns x)\<rparr>)
     else None)"
| "shape_ddl (Create_Foreign_Key name t u c k) sh =
     (if column_of sh u k \<noteq> None then on_table sh t (\<lambda>x.
        if list_ex (\<lambda>y. column_name y = c) (shape_columns x) \<and>
           \<not> list_ex (\<lambda>y. case y of Foreign_Key n _ _ _ \<Rightarrow> n = Some name | Check_Constraint n _ \<Rightarrow> n = name | _ \<Rightarrow> False) (shape_constraints x)
        then Some (x\<lparr>shape_constraints := shape_constraints x @ [Foreign_Key (Some name) c u k]\<rparr>) else None)
      else None)"
| "shape_ddl (Drop_Constraint name t) sh = on_table sh t (\<lambda>x.
     if list_ex (\<lambda>y. case y of Foreign_Key n _ _ _ \<Rightarrow> n = Some name | _ \<Rightarrow> False) (shape_constraints x)
     then Some (x\<lparr>shape_constraints := filter (\<lambda>y. case y of Foreign_Key n _ _ _ \<Rightarrow> n \<noteq> Some name | _ \<Rightarrow> True) (shape_constraints x)\<rparr>)
     else None)"
| "shape_ddl (Update_Rows t vs) sh = on_table sh t (\<lambda>x.
     if list_all (\<lambda>(c, _). list_ex (\<lambda>k. column_name k = c \<and> column_nullable k) (shape_columns x) \<and>
          \<not> list_ex (mentions c) (shape_constraints x)) vs
     then Some x else None)"

text \<open>What the rows must satisfy for it, and what it makes of them; \<open>ev\<close> evaluates an SQL expression on a row.\<close>

fun rows_fit :: "ddl \<Rightarrow> (string \<Rightarrow> db_row list) \<Rightarrow> bool" where
  "rows_fit (Set_Not_Null t c) rows = list_all (\<lambda>r. r c \<noteq> None) (rows t)"
| "rows_fit (Create_Foreign_Key _ t u c k) rows =
     list_all (\<lambda>r. r c = None \<or> list_ex (\<lambda>q. q k = r c) (rows u)) (rows t)"
| "rows_fit _ _ = True"

fun sql_value_of :: "(string \<Rightarrow> db_row \<Rightarrow> json option) \<Rightarrow> db_row \<Rightarrow> sql_value \<Rightarrow> json option" where
  "sql_value_of ev r (Sql_Value v) = Some v"
| "sql_value_of ev r (Sql_Text e) = ev e r"

definition update_row :: "(string \<Rightarrow> db_row \<Rightarrow> json option) \<Rightarrow> (string \<times> sql_value) list \<Rightarrow> db_row \<Rightarrow> db_row" where
  "update_row ev vs r = (\<lambda>c. case dict_get vs c of None \<Rightarrow> r c | Some v \<Rightarrow> sql_value_of ev r v)"

fun rows_ddl :: "(string \<Rightarrow> db_row \<Rightarrow> json option) \<Rightarrow> ddl \<Rightarrow> (string \<Rightarrow> db_row list) \<Rightarrow> (string \<Rightarrow> db_row list)" where
  "rows_ddl ev (Create_Table t _ _) rows = rows(t := [])"
| "rows_ddl ev (Drop_Table t) rows = rows(t := [])"
| "rows_ddl ev (Add_Column t c) rows = rows(t := map (\<lambda>r. r(column_name c := None)) (rows t))"
| "rows_ddl ev (Drop_Column t c) rows = rows(t := map (\<lambda>r. r(c := None)) (rows t))"
| "rows_ddl ev (Update_Rows t vs) rows = rows(t := map (update_row ev vs) (rows t))"
| "rows_ddl ev _ rows = rows"

definition apply_ddl :: "(string \<Rightarrow> db_row \<Rightarrow> json option) \<Rightarrow> ddl \<Rightarrow> db_view \<Rightarrow> db_view option" where
  "apply_ddl ev c v = (case shape_ddl c (view_shape v) of
     None \<Rightarrow> None
   | Some sh \<Rightarrow> if rows_fit c (view_rows v) then Some \<lparr>view_shape = sh, view_rows = rows_ddl ev c (view_rows v)\<rparr> else None)"

section \<open>Lists of operations\<close>

fun shape_ops :: "ddl list \<Rightarrow> (string, shape) dict \<Rightarrow> (string, shape) dict option" where
  "shape_ops [] sh = Some sh"
| "shape_ops (c # cs) sh = (case shape_ddl c sh of None \<Rightarrow> None | Some sh' \<Rightarrow> shape_ops cs sh')"

fun rows_fit_ops :: "(string \<Rightarrow> db_row \<Rightarrow> json option) \<Rightarrow> ddl list \<Rightarrow> (string \<Rightarrow> db_row list) \<Rightarrow> bool" where
  "rows_fit_ops ev [] rows = True"
| "rows_fit_ops ev (c # cs) rows = (rows_fit c rows \<and> rows_fit_ops ev cs (rows_ddl ev c rows))"

definition rows_ops :: "(string \<Rightarrow> db_row \<Rightarrow> json option) \<Rightarrow> ddl list \<Rightarrow> (string \<Rightarrow> db_row list) \<Rightarrow> (string \<Rightarrow> db_row list)" where
  "rows_ops ev cs = fold (rows_ddl ev) cs"

fun run_ops :: "(ddl \<Rightarrow> 'd \<Rightarrow> 'd res) \<Rightarrow> ddl list \<Rightarrow> 'd \<Rightarrow> 'd res" where
  "run_ops run [] d = Inr d"
| "run_ops run (c # cs) d = (case run c d of Inl e \<Rightarrow> Inl e | Inr d' \<Rightarrow> run_ops run cs d')"

lemma shape_ops_append: "shape_ops (cs @ ds) sh = (case shape_ops cs sh of None \<Rightarrow> None | Some sh' \<Rightarrow> shape_ops ds sh')"
  by (induction cs arbitrary: sh) (simp_all split: option.split)

lemma rows_fit_ops_append:
  "rows_fit_ops ev (cs @ ds) rows \<longleftrightarrow> rows_fit_ops ev cs rows \<and> rows_fit_ops ev ds (rows_ops ev cs rows)"
  by (induction cs arbitrary: rows) (simp_all add: rows_ops_def)

section \<open>Bind parameters\<close>

text \<open>
  \<^verbatim>\<open>sa.text\<close> takes \<^verbatim>\<open>:name\<close> in a text for a bind parameter, unless the colon stands after another one, as in
  a cast, or is escaped. Every colon of a text, with the character before it, the word after it and the character after that:
\<close>

definition name_char :: "char \<Rightarrow> bool" where
  "name_char c = (let n = of_char c :: nat in
     48 \<le> n \<and> n \<le> 57 \<or> 65 \<le> n \<and> n \<le> 90 \<or> 97 \<le> n \<and> n \<le> 122 \<or> n = 95 \<or> 127 < n)"

fun colons :: "char option \<Rightarrow> string \<Rightarrow> (char option \<times> string \<times> char option) list" where
  "colons p [] = []"
| "colons p (c # cs) =
     (if c = CHR '':''
      then [(p, takeWhile name_char cs, case dropWhile name_char cs of [] \<Rightarrow> None | q # _ \<Rightarrow> Some q)] else []) @
     colons (Some c) cs"

text \<open>A text surely has a bind parameter, and surely has none.\<close>

definition asks_value :: "string \<Rightarrow> bool" where
  "asks_value e \<longleftrightarrow> list_ex (\<lambda>(p, n, q). n \<noteq> [] \<and> q \<noteq> Some (CHR '':'') \<and>
     (case p of None \<Rightarrow> True | Some c \<Rightarrow> c \<noteq> CHR '':'' \<and> c \<noteq> CHR 0x5C \<and> \<not> name_char c)) (colons None e)"

definition asks_nothing :: "string \<Rightarrow> bool" where
  "asks_nothing e \<longleftrightarrow> list_all (\<lambda>(p, n, q). n = [] \<or> p = Some (CHR '':'')) (colons None e)"

text \<open>The texts of an operation.\<close>

fun texts :: "ddl \<Rightarrow> string list" where
  "texts (Update_Rows t vs) = concat (map (\<lambda>(c, v). case v of Sql_Text e \<Rightarrow> [e] | Sql_Value x \<Rightarrow> []) vs)"
| "texts _ = []"

section \<open>The engine\<close>

locale migration_engine =
  fixes run :: "ddl \<Rightarrow> 'd \<Rightarrow> 'd res"
    and ev :: "string \<Rightarrow> db_row \<Rightarrow> json option"
    and view :: "'d \<Rightarrow> db_view"
  assumes run_law: "list_all asks_nothing (texts c) \<Longrightarrow> apply_ddl ev c (view d) = Some v \<Longrightarrow>
      \<exists>d'. run c d = Inr d' \<and> view d' = v"
    and unbound_law: "list_ex asks_value (texts c) \<Longrightarrow> \<exists>e. run c d = Inl e"
    and cast_law: "ev (quoted ''{}'' @ ''::json'') r = Some (JDict [])"
    and literal_law: "ev (quoted ''legacy_external_store'') r = Some (JStr ''legacy_external_store'')"
begin

lemma run_ops_law:
  assumes "shape_ops cs (view_shape (view d)) = Some sh" and "rows_fit_ops ev cs (view_rows (view d))"
    and "list_all (\<lambda>c. list_all asks_nothing (texts c)) cs"
  shows "\<exists>d'. run_ops run cs d = Inr d' \<and> view d' = \<lparr>view_shape = sh, view_rows = rows_ops ev cs (view_rows (view d))\<rparr>"
  using assms
proof (induction cs arbitrary: d)
  case Nil
  then show ?case by (simp add: rows_ops_def)
next
  case (Cons c cs)
  then obtain sh' where sh': "shape_ddl c (view_shape (view d)) = Some sh'" by (auto split: option.splits)
  with Cons.prems have "apply_ddl ev c (view d) = Some \<lparr>view_shape = sh', view_rows = rows_ddl ev c (view_rows (view d))\<rparr>"
    by (simp add: apply_ddl_def)
  then obtain d1 where d1: "run c d = Inr d1" "view d1 = \<lparr>view_shape = sh', view_rows = rows_ddl ev c (view_rows (view d))\<rparr>"
    using run_law [of c d] Cons.prems(3) by auto
  with Cons.IH [of d1] Cons.prems sh' show ?case by (simp add: rows_ops_def)
qed

end
section \<open>The chain of revisions\<close>

text \<open>
  Two tables have the same shape when they have the same columns and constraints, whatever their order and the names of
  the foreign keys.
\<close>

definition unnamed :: "table_constraint \<Rightarrow> table_constraint" where
  "unnamed k = (case k of Foreign_Key _ c t r \<Rightarrow> Foreign_Key None c t r | _ \<Rightarrow> k)"

definition same_shape :: "shape \<Rightarrow> shape \<Rightarrow> bool" where
  "same_shape x y \<longleftrightarrow> set (shape_columns x) = set (shape_columns y) \<and>
     unnamed ` set (shape_constraints x) = unnamed ` set (shape_constraints y)"

lemma same_shape_code [code]:
  "same_shape x y \<longleftrightarrow> x = y \<or> set (shape_columns x) = set (shape_columns y) \<and>
     unnamed ` set (shape_constraints x) = unnamed ` set (shape_constraints y)"
  by (auto simp: same_shape_def)

definition same_tables :: "(string, shape) dict \<Rightarrow> (string, shape) dict \<Rightarrow> bool" where
  "same_tables sh sh' \<longleftrightarrow> set (dict_keys sh) = set (dict_keys sh') \<and>
     list_all (\<lambda>(t, x). case dict_get sh' t of None \<Rightarrow> False | Some y \<Rightarrow> same_shape x y) sh"

text \<open>The tables after the first revisions, from nothing.\<close>

definition revision_shape :: "nat \<Rightarrow> (string, shape) dict option" where
  "revision_shape k = shape_ops (concat (map upgrade (take k migrations))) []"

text \<open>The tables that operations create or drop, and the columns of a table they write.\<close>

fun rebuilds :: "string \<Rightarrow> ddl \<Rightarrow> bool" where
  "rebuilds t (Create_Table u _ _) = (u = t)"
| "rebuilds t (Drop_Table u) = (u = t)"
| "rebuilds t _ = False"

fun writes :: "string \<Rightarrow> string \<Rightarrow> ddl \<Rightarrow> bool" where
  "writes t c (Add_Column u k) = (u = t \<and> column_name k = c)"
| "writes t c (Drop_Column u k) = (u = t \<and> k = c)"
| "writes t c (Update_Rows u vs) = (u = t \<and> c \<in> set (dict_keys vs))"
| "writes t c _ = False"

fun reversible :: "revision list \<Rightarrow> (string, shape) dict \<Rightarrow> bool" where
  "reversible [] sh = same_tables sh declared_tables"
| "reversible (r # rs) sh =
     (list_all (\<lambda>(t, _). \<not> list_ex (rebuilds t) (upgrade r @ downgrade r)) sh \<and>
      (case shape_ops (upgrade r) sh of None \<Rightarrow> False | Some s \<Rightarrow>
        (case shape_ops (downgrade r) s of None \<Rightarrow> False | Some t \<Rightarrow> same_tables t sh \<and> reversible rs s)))"

lemma migrations_reversible: "reversible migrations []"
  by code_simp

lemma reversible_take:
  assumes "reversible rs sh" and "k \<le> length rs"
  shows "\<exists>s. shape_ops (concat (map upgrade (take k rs))) sh = Some s \<and> reversible (drop k rs) s"
  using assms
proof (induction rs arbitrary: sh k)
  case Nil
  then show ?case by simp
next
  case (Cons r rs)
  show ?case
  proof (cases k)
    case 0
    with Cons.prems show ?thesis by simp
  next
    case (Suc j)
    from Cons.prems(1) obtain s where "shape_ops (upgrade r) sh = Some s" "reversible rs s" by (auto split: option.splits)
    with Cons.IH [of s j] Cons.prems(2) Suc show ?thesis by (simp add: shape_ops_append)
  qed
qed

lemma revision_reversible: "k \<le> 6 \<Longrightarrow> \<exists>s. revision_shape k = Some s \<and> reversible (drop k migrations) s"
  unfolding revision_shape_def using migrations_reversible by (rule reversible_take) (simp add: migrations_def)

text \<open>What the operations leave of the rows.\<close>

lemma rows_kept:
  assumes "\<not> list_ex (rebuilds t) cs" and "\<not> list_ex (writes t c) cs"
  shows "map (\<lambda>r. r c) (rows_ops ev cs rows t) = map (\<lambda>r. r c) (rows t)"
  using assms
proof (induction cs arbitrary: rows)
  case Nil
  then show ?case by (simp add: rows_ops_def)
next
  case (Cons d cs)
  have "map (\<lambda>r. r c) (rows_ddl ev d rows t) = map (\<lambda>r. r c) (rows t)"
    using Cons.prems by (cases d) (auto simp: update_row_def iffD2 [OF map_of_eq_None_iff])
  with Cons show ?case by (simp add: rows_ops_def)
qed

section \<open>Rows through the migrations\<close>

text \<open>The revision whose update asks for a value that it never gets, and the operations that are no updates.\<close>

lemma texts_checked:
  "asks_value (quoted legacy_metadata @ ''::json'')" "asks_nothing (quoted ''{}'' @ ''::json'')"
  "asks_nothing (quoted ''legacy_external_store'')"
  by code_simp+

fun structural :: "ddl \<Rightarrow> bool" where
  "structural (Update_Rows t vs) = False"
| "structural _ = True"

lemma structural_texts: "structural c \<Longrightarrow> texts c = []"
  by (cases c) simp_all

lemma upgrades_checked:
  "r \<in> set migrations \<Longrightarrow> revision_id r \<noteq> ''20260514_0004'' \<Longrightarrow> list_all (\<lambda>c. list_all asks_nothing (texts c)) (upgrade r)"
  by (auto simp: migrations_def upgrade_0001_def upgrade_0002_def upgrade_0003_def upgrade_0005_def upgrade_0006_def)

lemma downgrades_checked: "r \<in> set migrations \<Longrightarrow> list_all (\<lambda>c. list_all asks_nothing (texts c)) (downgrade r)"
  by (auto simp: migrations_def downgrade_0001_def downgrade_0002_def downgrade_0003_def downgrade_0004_def downgrade_0005_def
      downgrade_0006_def texts_checked)

definition without_updates :: "ddl list" where
  "without_updates = filter structural (concat (map upgrade migrations))"

lemma without_updates_split:
  "without_updates = upgrade_0001 @ upgrade_0002 @ upgrade_0003 @ filter structural upgrade_0004 @ upgrade_0005 @ upgrade_0006"
proof -
  have "filter structural upgrade_0001 = upgrade_0001" "filter structural upgrade_0002 = upgrade_0002"
    "filter structural upgrade_0003 = upgrade_0003" "filter structural upgrade_0005 = upgrade_0005"
    "filter structural upgrade_0006 = upgrade_0006"
    by (simp_all add: upgrade_0001_def upgrade_0002_def upgrade_0003_def upgrade_0005_def upgrade_0006_def)
  then show ?thesis by (simp add: without_updates_def migrations_def)
qed

text \<open>An update leaves the shapes as they are.\<close>

lemma dict_set_same: "dict_get sh t = Some x \<Longrightarrow> dict_set t x sh = sh"
  by (induction sh) (auto split: if_splits)

lemma shape_structural: "shape_ops cs sh = Some s \<Longrightarrow> shape_ops (filter structural cs) sh = Some s"
proof (induction cs arbitrary: sh)
  case (Cons c cs)
  have "shape_ddl (Update_Rows t vs) sh = Some sh' \<Longrightarrow> sh' = sh" for t vs sh'
    by (auto simp: on_table_def dict_set_same split: option.splits if_splits)
  note update = this
  from Cons.prems obtain sh' where sh': "shape_ddl c sh = Some sh'" "shape_ops cs sh' = Some s" by (auto split: option.splits)
  show ?case
  proof (cases "structural c")
    case True
    with sh' Cons.IH show ?thesis by simp
  next
    case False
    then obtain t vs where "c = Update_Rows t vs" by (cases c) simp_all
    with sh' update Cons.IH show ?thesis by fastforce
  qed
qed simp

lemma without_updates_shape: "\<exists>s. shape_ops without_updates [] = Some s \<and> same_tables s declared_tables"
proof -
  have all: "length migrations = 6" by (simp add: migrations_def)
  then obtain s where "shape_ops (concat (map upgrade migrations)) [] = Some s" "same_tables s declared_tables"
    using revision_reversible [of 6] by (auto simp: revision_shape_def)
  then show ?thesis unfolding without_updates_def by (blast intro: shape_structural)
qed

context migration_engine
begin

lemma upgrade_rows_fit:
  "rows_fit_ops ev upgrade_0001 rows" "rows_fit_ops ev upgrade_0002 rows" "rows_fit_ops ev upgrade_0003 rows"
  "rows_fit_ops ev upgrade_0005 rows" "rows_fit_ops ev upgrade_0006 rows"
  by (simp_all add: upgrade_0001_def upgrade_0002_def upgrade_0003_def upgrade_0005_def upgrade_0006_def list_all_iff)

lemma downgrade_rows_fit:
  "rows_fit_ops ev downgrade_0001 rows" "rows_fit_ops ev downgrade_0002 rows" "rows_fit_ops ev downgrade_0003 rows"
  "rows_fit_ops ev downgrade_0005 rows" "rows_fit_ops ev downgrade_0006 rows"
  by (simp_all add: downgrade_0001_def downgrade_0002_def downgrade_0003_def downgrade_0005_def downgrade_0006_def)

lemmas fit_simps = rows_fit_ops.simps rows_fit.simps rows_ddl.simps fun_upd_same list.pred_map
  list_all_iff list.set_map image_iff simp_thms ball_simps fun_upd_upd column.sel update_row_def

lemma downgrade_0004_fit: "rows_fit_ops ev downgrade_0004 rows"
  unfolding downgrade_0004_def fit_simps using cast_law literal_law by simp

lemma upgrades_fit: "r \<in> set migrations \<Longrightarrow> revision_id r \<noteq> ''20260514_0004'' \<Longrightarrow> rows_fit_ops ev (upgrade r) rows"
  using upgrade_rows_fit by (auto simp: migrations_def)

lemma downgrades_fit: "r \<in> set migrations \<Longrightarrow> rows_fit_ops ev (downgrade r) rows"
  using downgrade_rows_fit downgrade_0004_fit by (auto simp: migrations_def)

text \<open>Every other revision can be applied and undone, whatever the rows, and loses no row of a table that stands.\<close>

lemma undone_run:
  assumes k: "k < 6" "k \<noteq> 3" and sh: "revision_shape k = Some (view_shape (view d))"
  shows "\<exists>e f. run_ops run (upgrade (migrations ! k)) d = Inr e \<and> revision_shape (Suc k) = Some (view_shape (view e)) \<and>
    run_ops run (downgrade (migrations ! k)) e = Inr f \<and> same_tables (view_shape (view f)) (view_shape (view d)) \<and>
    (\<forall>t c. dict_get (view_shape (view d)) t \<noteq> None \<and> \<not> list_ex (writes t c) (upgrade (migrations ! k) @ downgrade (migrations ! k)) \<longrightarrow>
       map (\<lambda>r. r c) (view_rows (view e) t) = map (\<lambda>r. r c) (view_rows (view d) t) \<and>
       map (\<lambda>r. r c) (view_rows (view f) t) = map (\<lambda>r. r c) (view_rows (view d) t))"
proof -
  let ?r = "migrations ! k"
  have len: "length migrations = 6" by (simp add: migrations_def)
  then have r: "?r \<in> set migrations" and "drop k migrations = ?r # drop (Suc k) migrations"
    using k by (simp_all add: Cons_nth_drop_Suc)
  then have "reversible (?r # drop (Suc k) migrations) (view_shape (view d))" using revision_reversible [of k] k sh by auto
  then obtain s t where s: "shape_ops (upgrade ?r) (view_shape (view d)) = Some s" "shape_ops (downgrade ?r) s = Some t"
      "same_tables t (view_shape (view d))"
    and stands: "list_all (\<lambda>(t, _). \<not> list_ex (rebuilds t) (upgrade ?r @ downgrade ?r)) (view_shape (view d))"
    by (auto split: option.splits)
  have next_shape: "revision_shape (Suc k) = Some s"
    using sh s(1) k len by (simp add: revision_shape_def take_Suc_conv_app_nth shape_ops_append)
  have "k \<in> {0, 1, 2, 4, 5}" using k by auto
  then have id: "revision_id ?r \<noteq> ''20260514_0004''" by (auto simp: migrations_def)
  obtain e where e: "run_ops run (upgrade ?r) d = Inr e"
      "view e = \<lparr>view_shape = s, view_rows = rows_ops ev (upgrade ?r) (view_rows (view d))\<rparr>"
    using run_ops_law [OF s(1) upgrades_fit [OF r id] upgrades_checked [OF r id]] by blast
  with s(2) obtain f where f: "run_ops run (downgrade ?r) e = Inr f"
      "view f = \<lparr>view_shape = t, view_rows = rows_ops ev (downgrade ?r) (view_rows (view e))\<rparr>"
    using run_ops_law [of "downgrade ?r" e t] downgrades_fit [OF r] downgrades_checked [OF r] by auto
  have "map (\<lambda>r. r c) (view_rows (view e) u) = map (\<lambda>r. r c) (view_rows (view d) u) \<and>
       map (\<lambda>r. r c) (view_rows (view f) u) = map (\<lambda>r. r c) (view_rows (view d) u)"
    if "dict_get (view_shape (view d)) u \<noteq> None" "\<not> list_ex (writes u c) (upgrade ?r @ downgrade ?r)" for u c
  proof -
    from that(1) obtain x where "(u, x) \<in> set (view_shape (view d))" by (auto dest: map_of_SomeD)
    with stands have "\<not> list_ex (rebuilds u) (upgrade ?r)" "\<not> list_ex (rebuilds u) (downgrade ?r)" by (auto simp: list_all_iff)
    with that(2) show ?thesis by (simp add: e(2) f(2) rows_kept)
  qed
  with e f s next_shape show ?thesis by (intro exI conjI) auto
qed

lemma structural_run:
  assumes "view_shape (view d) = []"
  shows "\<exists>e. run_ops run without_updates d = Inr e \<and> same_tables (view_shape (view e)) declared_tables"
proof -
  obtain s where s: "shape_ops without_updates [] = Some s" "same_tables s declared_tables"
    using without_updates_shape by blast
  have "rows_ops ev upgrade_0003 (rows_ops ev upgrade_0002 (rows_ops ev upgrade_0001 rows)) ''artifacts'' = []" for rows
    by (simp add: rows_ops_def upgrade_0001_def upgrade_0002_def upgrade_0003_def)
  moreover have "rows ''artifacts'' = [] \<Longrightarrow> rows_fit_ops ev (filter structural upgrade_0004) rows" for rows
    by (simp add: upgrade_0004_def)
  ultimately have "rows_fit_ops ev without_updates rows" for rows
    using upgrade_rows_fit by (simp add: without_updates_split rows_fit_ops_append)
  moreover have "list_all (\<lambda>c. list_all asks_nothing (texts c)) without_updates"
    by (auto simp: without_updates_def list_all_iff structural_texts)
  ultimately show ?thesis using run_ops_law [of without_updates d s] s assms by auto
qed

text \<open>No database gets past the fourth revision.\<close>

lemma run_ops_append:
  "run_ops run (xs @ ys) d = (case run_ops run xs d of Inl e \<Rightarrow> Inl e | Inr d' \<Rightarrow> run_ops run ys d')"
  by (induction xs arbitrary: d) (simp_all split: sum.split)

lemma update_raises: "\<exists>x. run (upgrade_0004 ! 6) d = Inl x"
  by (rule unbound_law) (simp add: upgrade_0004_def texts_checked)

lemma upgrade_0004_split: "upgrade_0004 = take 6 upgrade_0004 @ upgrade_0004 ! 6 # drop 7 upgrade_0004"
  by (simp add: upgrade_0004_def)

lemma upgrade_0004_raises: "\<exists>x. run_ops run upgrade_0004 d = Inl x"
proof (cases "run_ops run (take 6 upgrade_0004) d")
  case (Inr e)
  then show ?thesis
    using update_raises [of e] by (subst upgrade_0004_split) (auto simp: run_ops_append simp del: take_Suc_Cons)
qed (subst upgrade_0004_split, simp add: run_ops_append)

lemma stops_run:
  assumes d: "view_shape (view d) = []"
  shows "\<exists>e x. run_ops run (concat (map upgrade (take 3 migrations)) @ take 6 upgrade_0004) d = Inr e \<and>
    run (upgrade_0004 ! 6) e = Inl x \<and> run_ops run (concat (map upgrade migrations)) d = Inl x"
proof -
  let ?first = "concat (map upgrade (take 3 migrations)) @ take 6 upgrade_0004"
  have "concat (map upgrade migrations) = concat (map upgrade (take 3 migrations)) @ upgrade_0004 @ upgrade_0005 @ upgrade_0006"
    by (simp add: migrations_def)
  then have all: "concat (map upgrade migrations) = ?first @ upgrade_0004 ! 6 # drop 7 upgrade_0004 @ upgrade_0005 @ upgrade_0006"
    using upgrade_0004_split by (metis append.assoc append_Cons)
  have "case shape_ops ?first [] of None \<Rightarrow> False | Some s \<Rightarrow> True" by code_simp
  then obtain s where "shape_ops ?first [] = Some s" by (auto split: option.splits)
  moreover have "rows_fit_ops ev ?first rows" for rows
    by (simp add: migrations_def upgrade_0001_def upgrade_0002_def upgrade_0003_def upgrade_0004_def)
  moreover have "list_all (\<lambda>c. list_all asks_nothing (texts c)) ?first"
    by (simp add: migrations_def upgrade_0001_def upgrade_0002_def upgrade_0003_def upgrade_0004_def)
  ultimately obtain e where e: "run_ops run ?first d = Inr e" using run_ops_law [of ?first d s] d by auto
  obtain x where "run (upgrade_0004 ! 6) e = Inl x" using update_raises by blast
  moreover from this have "run_ops run (concat (map upgrade migrations)) d = Inl x"
    unfolding all by (subst run_ops_append) (simp only: e sum.case run_ops.simps)
  ultimately show ?thesis using e by blast
qed

end

text \<open>
  Property C39. The migrations declare the schema, and never get there. Whatever engine carries the operations out, on a
  database without tables the first three revisions succeed and the fourth adds its columns; its update then raises, because
  \<^verbatim>\<open>sa.text\<close> takes \<^verbatim>\<open>:true\<close> in the text of the JSON value for a bind parameter without a value, and with it
  the whole chain. The fourth revision raises on every database. Without that update the upgrades succeed on a database
  without tables and leave exactly the tables that \<^verbatim>\<open>tables.py\<close> declares, each with the declared columns, types, null
  marks, keys, foreign keys, unique marks and checks.
\<close>

theorem schema_built:
  assumes "migration_engine run ev view" and "view_shape (view d) = []"
  shows "(\<exists>e x. run_ops run (concat (map upgrade (take 3 migrations)) @ take 6 upgrade_0004) d = Inr e \<and>
      run (upgrade_0004 ! 6) e = Inl x \<and> run_ops run (concat (map upgrade migrations)) d = Inl x) \<and>
    (\<forall>e. \<exists>x. run_ops run upgrade_0004 e = Inl x) \<and>
    (\<exists>e. run_ops run (filter structural (concat (map upgrade migrations))) d = Inr e \<and>
      same_tables (view_shape (view e)) declared_tables)"
  using migration_engine.stops_run [OF assms] migration_engine.upgrade_0004_raises [OF assms(1)]
    migration_engine.structural_run [OF assms] unfolding without_updates_def by blast

text \<open>
  Property C40. Every migration but the fourth can be undone: on a database of the shape that the revisions before it
  declare, with any rows, its upgrade succeeds and gives the shape of its revision, its downgrade then succeeds and restores
  the shape of every table, and both keep every row and every value of the columns they do not write, in order. The upgrade of
  the fourth raises.
\<close>

theorem migration_undone:
  assumes "migration_engine run ev view" and "k < 6" and "revision_shape k = Some (view_shape (view d))"
  shows "if k = 3 then \<exists>x. run_ops run (upgrade (migrations ! k)) d = Inl x
    else \<exists>e f. run_ops run (upgrade (migrations ! k)) d = Inr e \<and> revision_shape (Suc k) = Some (view_shape (view e)) \<and>
      run_ops run (downgrade (migrations ! k)) e = Inr f \<and> same_tables (view_shape (view f)) (view_shape (view d)) \<and>
      (\<forall>t c. dict_get (view_shape (view d)) t \<noteq> None \<and> \<not> list_ex (writes t c) (upgrade (migrations ! k) @ downgrade (migrations ! k)) \<longrightarrow>
         map (\<lambda>r. r c) (view_rows (view e) t) = map (\<lambda>r. r c) (view_rows (view d) t) \<and>
         map (\<lambda>r. r c) (view_rows (view f) t) = map (\<lambda>r. r c) (view_rows (view d) t))"
proof (cases "k = 3")
  case True
  moreover have "upgrade (migrations ! 3) = upgrade_0004" by (simp add: migrations_def)
  ultimately show ?thesis using migration_engine.upgrade_0004_raises [OF assms(1)] by simp
next
  case False
  then show ?thesis using migration_engine.undone_run [OF assms(1,2) False assms(3)] by (simp only: if_False)
qed

section \<open>An engine\<close>

text \<open>The reference semantics, which refuses a text that asks for a value, with expressions evaluated as the laws say.\<close>

definition sample_ev :: "string \<Rightarrow> db_row \<Rightarrow> json option" where
  "sample_ev e r =
     (if e = quoted ''legacy_external_store'' then Some (JStr ''legacy_external_store'') else Some (JDict []))"

definition sample_run :: "ddl \<Rightarrow> db_view \<Rightarrow> db_view res" where
  "sample_run c v = (if list_ex asks_value (texts c) then Inl (RuntimeError ''a value is required for a bind parameter'')
     else case apply_ddl sample_ev c v of None \<Rightarrow> Inl (RuntimeError ''refused'') | Some w \<Rightarrow> Inr w)"

lemma asks_exclusive: "asks_nothing e \<Longrightarrow> \<not> asks_value e"
  by (auto simp: asks_nothing_def asks_value_def list_all_iff list_ex_iff)

interpretation reference_engine: migration_engine sample_run sample_ev "\<lambda>v. v"
  by unfold_locales (auto simp: sample_run_def sample_ev_def quoted_def list_ex_iff list_all_iff dest: asks_exclusive)

text \<open>A database without tables, and one of the first revision with two cards.\<close>

definition sample_void :: db_view where
  "sample_void = \<lparr>view_shape = [], view_rows = (\<lambda>_. [])\<rparr>"

definition sample_first :: db_view where
  "sample_first = \<lparr>view_shape = the (revision_shape 1),
     view_rows = (\<lambda>t. if t = ''cards'' then [[''id'' \<mapsto> JStr ''a''], [''id'' \<mapsto> JStr ''b'']] else [])\<rparr>"

theorem schema_built_witness:
  "(\<exists>x. run_ops sample_run (concat (map upgrade migrations)) sample_void = Inl x) \<and>
   (\<exists>e. run_ops sample_run (filter structural (concat (map upgrade migrations))) sample_void = Inr e \<and>
      same_tables (view_shape e) declared_tables)"
  using schema_built [OF reference_engine.migration_engine_axioms, of sample_void] by (simp add: sample_void_def) blast

theorem migration_undone_witness:
  "\<exists>e f. run_ops sample_run upgrade_0002 sample_first = Inr e \<and> run_ops sample_run downgrade_0002 e = Inr f \<and>
     map (\<lambda>r. r ''id'') (view_rows f ''cards'') = [Some (JStr ''a''), Some (JStr ''b'')]"
proof -
  have "dict_get (view_shape sample_first) ''cards'' \<noteq> None" by code_simp
  moreover have "\<not> list_ex (writes ''cards'' ''id'') (upgrade (migrations ! 1) @ downgrade (migrations ! 1))" by code_simp
  moreover have "migrations ! 1 = \<lparr>revision_id = ''20260514_0002'', down_revision = Some ''20260514_0001'',
      upgrade = upgrade_0002, downgrade = downgrade_0002\<rparr>" by (simp add: migrations_def)
  moreover have "revision_shape 1 = Some (view_shape sample_first)" using revision_reversible [of 1] by (auto simp: sample_first_def)
  ultimately show ?thesis
    using migration_undone [OF reference_engine.migration_engine_axioms, of 1 sample_first]
    by (fastforce simp: sample_first_def)
qed

end
