(* ===== verification/ArtifactStore.thy ===== *)
theory ArtifactStore
  imports RuntimeService
begin

text \<open>
  Artifact stores: \<^verbatim>\<open>src/src/ghostmesh/artifacts/store.py\<close>. A store puts bytes somewhere and returns the reference
  that accounts for them. The file system, the S3 client and SHA-256 are parameters. The contract of a store is
  the locale \<open>artifact_store\<close>, which the local store and the S3 store both keep.
\<close>

section \<open>Paths\<close>

text \<open>
  A POSIX path of \<^verbatim>\<open>pathlib\<close>: its root, empty for a relative path, and its components. The text is split at slashes;
  empty components and single dots are dropped, two dots are kept.
\<close>

datatype pure_path = Path (path_root: string) (path_parts: "string list")

fun split_slash :: "string \<Rightarrow> string list" where
  "split_slash [] = [[]]"
| "split_slash (c # s) = (if c = CHR ''/'' then [] # split_slash s
     else case split_slash s of [] \<Rightarrow> [[c]] | p # ps \<Rightarrow> (c # p) # ps)"

definition text_parts :: "string \<Rightarrow> string list" where
  "text_parts s = filter (\<lambda>p. p \<noteq> [] \<and> p \<noteq> ''.'') (split_slash s)"

definition text_root :: "string \<Rightarrow> string" where
  "text_root s = (if take 2 s = ''//'' \<and> take 3 s \<noteq> ''///'' then ''//'' else if take 1 s = ''/'' then ''/'' else [])"

definition to_path :: "string \<Rightarrow> pure_path" where
  "to_path s = Path (text_root s) (text_parts s)"

definition join_path :: "pure_path \<Rightarrow> string \<Rightarrow> pure_path" where
  "join_path p s = (if text_root s \<noteq> [] then to_path s else Path (path_root p) (path_parts p @ text_parts s))"

definition path_name :: "pure_path \<Rightarrow> string" where
  "path_name p = (if path_parts p = [] then [] else last (path_parts p))"

definition path_parent :: "pure_path \<Rightarrow> pure_path" where
  "path_parent p = Path (path_root p) (butlast (path_parts p))"

definition as_posix :: "pure_path \<Rightarrow> string" where
  "as_posix p = (let t = path_root p @ join ''/'' (path_parts p) in if t = [] then ''.'' else t)"

definition relative_to :: "pure_path \<Rightarrow> pure_path \<Rightarrow> pure_path option" where
  "relative_to p q = (if path_root p = path_root q \<and> take (length (path_parts q)) (path_parts p) = path_parts q
     then Some (Path [] (drop (length (path_parts q)) (path_parts p))) else None)"

text \<open>\<^verbatim>\<open>as_uri\<close> quotes every byte of the text but letters, digits, slashes and \<^verbatim>\<open>_.-~\<close>.\<close>

definition uri_char :: "char \<Rightarrow> string" where
  "uri_char c = (let n = (of_char c :: nat); hex = (\<lambda>k. char_of (if k < 10 then 48 + k else 55 + k)) in
     if 48 \<le> n \<and> n \<le> 57 \<or> 65 \<le> n \<and> n \<le> 90 \<or> 97 \<le> n \<and> n \<le> 122 \<or> c \<in> set ''_.-~/'' then [c]
     else [CHR ''%'', hex (n div 16), hex (n mod 16)])"

definition as_uri :: "pure_path \<Rightarrow> string" where
  "as_uri p = ''file://'' @ concat (map uri_char (as_posix p))"

section \<open>References\<close>

text \<open>
  \<^verbatim>\<open>ArtifactReference(...)\<close> with the fields a store gives; pydantic refuses an empty reference, hash or content type.
\<close>

definition new_artifact_reference ::
  "uuid \<Rightarrow> uuid \<Rightarrow> string \<Rightarrow> string \<Rightarrow> string \<Rightarrow> nat \<Rightarrow> jdict option \<Rightarrow> ('z world_scheme, artifact_reference) M" where
  "new_artifact_reference i cid storage_ref content_hash content_type count metadata =
     bindM now_utc (\<lambda>t.
     if storage_ref = [] \<or> content_hash = [] \<or> content_type = []
     then raiseM (ValueError ''String should have at least 1 character'')
     else returnM \<lparr>artifact_id = i, artifact_card_id = cid, artifact_event_id = None, artifact_storage_ref = storage_ref,
       artifact_content_hash = content_hash, artifact_content_type = content_type, artifact_size_bytes = int count,
       artifact_metadata = (case metadata of None \<Rightarrow> [] | Some m \<Rightarrow> m), artifact_created_at = t\<rparr>)"

text \<open>The hash of the content; \<open>sha\<close> is the hexadecimal digest of \<^verbatim>\<open>hashlib.sha256\<close>.\<close>

definition sha256_text :: "(string \<Rightarrow> string) \<Rightarrow> string \<Rightarrow> string" where
  "sha256_text sha data = ''sha256:'' @ sha data"

text \<open>The last component of the file name, and the name of the object it gives.\<close>

definition safe_name :: "string \<Rightarrow> string" where
  "safe_name filename = (let n = path_name (to_path filename) in if n = [] then ''artifact.bin'' else n)"

definition object_name :: "uuid \<Rightarrow> string \<Rightarrow> string" where
  "object_name i filename = uuid_str i @ ''-'' @ safe_name filename"

section \<open>The local store\<close>

text \<open>
  What the store uses of the file system: \<^verbatim>\<open>mkdir(parents=True, exist_ok=True)\<close>, \<^verbatim>\<open>write_bytes\<close>,
  \<^verbatim>\<open>resolve\<close> and \<^verbatim>\<open>exists\<close>.
\<close>

record 's file_system =
  fs_mkdir :: "pure_path \<Rightarrow> ('s, unit) M"
  fs_write_bytes :: "pure_path \<Rightarrow> string \<Rightarrow> ('s, unit) M"
  fs_resolve :: "pure_path \<Rightarrow> ('s, pure_path) M"
  fs_exists :: "pure_path \<Rightarrow> ('s, bool) M"

record local_store =
  local_root :: pure_path
  local_repo_root :: "pure_path option"

fun find_git :: "'s file_system \<Rightarrow> pure_path list \<Rightarrow> ('s, pure_path option) M" where
  "find_git fs [] = returnM None"
| "find_git fs (c # cs) =
     bindM (fs_exists fs (join_path c ''.git'')) (\<lambda>found. if found then returnM (Some c) else find_git fs cs)"

definition discover_git_root :: "'s file_system \<Rightarrow> pure_path \<Rightarrow> ('s, pure_path option) M" where
  "discover_git_root fs path =
     bindM (fs_resolve fs path) (\<lambda>current.
     find_git fs (map (\<lambda>n. Path (path_root current) (take n (path_parts current))) (rev [0..<Suc (length (path_parts current))])))"

definition new_local_store :: "'s file_system \<Rightarrow> string \<Rightarrow> string option \<Rightarrow> ('s, local_store) M" where
  "new_local_store fs root repo_root =
     bindM (if truthy repo_root then bindM (fs_resolve fs (to_path (the repo_root))) (\<lambda>p. returnM (Some p))
       else discover_git_root fs (to_path root)) (\<lambda>repo.
     returnM \<lparr>local_root = to_path root, local_repo_root = repo\<rparr>)"

definition storage_ref :: "'s file_system \<Rightarrow> local_store \<Rightarrow> pure_path \<Rightarrow> ('s, string) M" where
  "storage_ref fs store path =
     bindM (fs_resolve fs path) (\<lambda>resolved.
     returnM (case local_repo_root store of
         None \<Rightarrow> as_uri resolved
       | Some repo \<Rightarrow> (case relative_to resolved repo of
           None \<Rightarrow> as_uri resolved
         | Some rel \<Rightarrow> ''git:working-tree:'' @ as_posix rel)))"

definition local_path :: "local_store \<Rightarrow> uuid \<Rightarrow> uuid \<Rightarrow> string \<Rightarrow> pure_path" where
  "local_path store cid i filename =
     join_path (join_path (local_root store) (uuid_str cid)) (object_name i filename)"

definition local_put_bytes ::
  "'z world_scheme file_system \<Rightarrow> (string \<Rightarrow> string) \<Rightarrow> local_store \<Rightarrow> uuid \<Rightarrow> string \<Rightarrow> string \<Rightarrow> string \<Rightarrow> jdict option \<Rightarrow>
   ('z world_scheme, artifact_reference) M" where
  "local_put_bytes fs sha store cid data filename content_type metadata =
     bindM uuid4 (\<lambda>i.
     let path = local_path store cid i filename in
     bindM (fs_mkdir fs (path_parent path)) (\<lambda>_.
     bindM (fs_write_bytes fs path data) (\<lambda>_.
     bindM (storage_ref fs store path) (\<lambda>ref.
     new_artifact_reference i cid ref (sha256_text sha data) content_type (length data) metadata))))"

section \<open>The S3 store\<close>

record s3_store =
  s3_bucket :: string
  s3_prefix :: string

text \<open>\<^verbatim>\<open>prefix.strip("/")\<close> removes slashes at both ends.\<close>

definition strip_slashes :: "string \<Rightarrow> string" where
  "strip_slashes s = rev (dropWhile (\<lambda>c. c = CHR ''/'') (rev (dropWhile (\<lambda>c. c = CHR ''/'') s)))"

definition new_s3_store :: "string \<Rightarrow> string \<Rightarrow> s3_store" where
  "new_s3_store bucket pre = \<lparr>s3_bucket = bucket, s3_prefix = strip_slashes pre\<rparr>"

definition s3_key :: "s3_store \<Rightarrow> uuid \<Rightarrow> uuid \<Rightarrow> string \<Rightarrow> string" where
  "s3_key store cid i filename = s3_prefix store @ ''/'' @ uuid_str cid @ ''/'' @ object_name i filename"

text \<open>The client: \<^verbatim>\<open>put_object\<close> with bucket, key, body, content type and metadata.\<close>

type_synonym 's s3_client = "string \<Rightarrow> string \<Rightarrow> string \<Rightarrow> string \<Rightarrow> (string, string) dict \<Rightarrow> ('s, unit) M"

definition s3_put_bytes ::
  "'z world_scheme s3_client \<Rightarrow> (string \<Rightarrow> string) \<Rightarrow> s3_store \<Rightarrow> uuid \<Rightarrow> string \<Rightarrow> string \<Rightarrow> string \<Rightarrow> jdict option \<Rightarrow>
   ('z world_scheme, artifact_reference) M" where
  "s3_put_bytes put_object sha store cid data filename content_type metadata =
     bindM uuid4 (\<lambda>i.
     let key = s3_key store cid i filename in
     bindM (put_object (s3_bucket store) key data content_type
       (map (\<lambda>(k, v). (k, py_str v)) (case metadata of None \<Rightarrow> [] | Some m \<Rightarrow> m))) (\<lambda>_.
     new_artifact_reference i cid (''s3://'' @ s3_bucket store @ ''/'' @ key) (sha256_text sha data) content_type
       (length data) metadata))"

section \<open>Names\<close>

text \<open>The text of a UUID has 36 characters and no slash.\<close>

definition canonical :: "uuid \<Rightarrow> bool" where
  "canonical i \<longleftrightarrow> length (uuid_str i) = 36 \<and> CHR ''/'' \<notin> set (uuid_str i)"

lemma split_slash_free: "p \<in> set (split_slash s) \<Longrightarrow> CHR ''/'' \<notin> set p"
  by (induction s arbitrary: p rule: split_slash.induct) (auto split: if_splits list.splits)

lemma split_slash_single: "CHR ''/'' \<notin> set s \<Longrightarrow> split_slash s = [s]"
  by (induction s) auto

lemma safe_name_free: "CHR ''/'' \<notin> set (safe_name filename)"
proof (cases "text_parts filename = []")
  case True
  then show ?thesis by (simp add: safe_name_def path_name_def to_path_def)
next
  case False
  then have "last (text_parts filename) \<in> set (split_slash filename)"
    using last_in_set [OF False] by (simp add: text_parts_def)
  with False show ?thesis by (auto simp: safe_name_def path_name_def to_path_def Let_def dest: split_slash_free)
qed

lemma object_name_free: "canonical i \<Longrightarrow> CHR ''/'' \<notin> set (object_name i filename)"
  using safe_name_free by (simp add: object_name_def canonical_def)

lemma object_name_inj: "canonical i \<Longrightarrow> canonical j \<Longrightarrow> object_name i f = object_name j g \<Longrightarrow> i = j"
  by (simp add: object_name_def canonical_def uuid.expand)

lemma join_single:
  assumes "CHR ''/'' \<notin> set s" and "36 \<le> length s"
  shows "join_path p s = Path (path_root p) (path_parts p @ [s])"
proof -
  have "take 1 s \<noteq> ''/''" "take 2 s \<noteq> ''//''" using assms by (cases s rule: list.exhaust; auto simp: take_Suc_conv_app_nth)+
  with assms show ?thesis by (auto simp: join_path_def text_root_def text_parts_def split_slash_single)
qed

lemma local_path_parts:
  assumes "canonical cid" and "canonical i"
  shows "local_path store cid i filename =
    Path (path_root (local_root store)) (path_parts (local_root store) @ [uuid_str cid, object_name i filename])"
  using assms object_name_free [OF assms(2)]
  by (simp add: local_path_def join_single canonical_def) (simp add: join_single object_name_def canonical_def)

section \<open>The contract of a store\<close>

record upload =
  up_card :: uuid
  up_data :: string
  up_filename :: string
  up_content_type :: string
  up_metadata :: "jdict option"

text \<open>A sequence of uploads, those that raise included; the references of the others with what was uploaded.\<close>

fun uploads ::
  "(uuid \<Rightarrow> string \<Rightarrow> string \<Rightarrow> string \<Rightarrow> jdict option \<Rightarrow> ('s, artifact_reference) M) \<Rightarrow> upload list \<Rightarrow> 's \<Rightarrow>
   (artifact_reference \<times> upload) list \<times> 's" where
  "uploads put [] s = ([], s)"
| "uploads put (u # us) s =
     (case put (up_card u) (up_data u) (up_filename u) (up_content_type u) (up_metadata u) s of
        (Inl _, t) \<Rightarrow> uploads put us t
      | (Inr r, t) \<Rightarrow> (case uploads put us t of (rs, t') \<Rightarrow> ((r, u) # rs, t')))"

locale artifact_store =
  fixes put :: "uuid \<Rightarrow> string \<Rightarrow> string \<Rightarrow> string \<Rightarrow> jdict option \<Rightarrow> ('z world_scheme, artifact_reference) M"
    and hash :: "string \<Rightarrow> string"
    and objects :: "'z world_scheme \<Rightarrow> 'l \<Rightarrow> string option"
    and location :: "uuid \<Rightarrow> uuid \<Rightarrow> string \<Rightarrow> 'l"
    and ok :: "'z world_scheme \<Rightarrow> bool"
  assumes put_law: "\<lbrakk>ok s; canonical cid; canonical (uuid_src s (uuid_pos s))\<rbrakk> \<Longrightarrow>
    wp (put cid data filename ctype md)
      (\<lambda>r t. ok t \<and> uuid_src t = uuid_src s \<and> uuid_pos t = Suc (uuid_pos s) \<and>
         artifact_id r = uuid_src s (uuid_pos s) \<and> artifact_card_id r = cid \<and>
         artifact_content_hash r = hash data \<and> artifact_content_type r = ctype \<and> artifact_size_bytes r = int (length data) \<and>
         objects t = (objects s)(location cid (artifact_id r) filename \<mapsto> data))
      (\<lambda>e t. ok t \<and> uuid_src t = uuid_src s \<and> uuid_pos t = Suc (uuid_pos s) \<and>
         (\<forall>l. l \<noteq> location cid (uuid_src s (uuid_pos s)) filename \<longrightarrow> objects t l = objects s l)) s"
    and location_law: "\<lbrakk>canonical c; canonical d; canonical i; canonical j; location c i f = location d j g\<rbrakk> \<Longrightarrow> i = j"
begin

text \<open>Uploads leave alone what identifiers drawn before them located.\<close>

lemma uploads_elsewhere:
  assumes "ok s" and "inj_on (uuid_src s) {..<uuid_pos s + length us}" and "\<forall>n < uuid_pos s + length us. canonical (uuid_src s n)" and "\<forall>u \<in> set us. canonical (up_card u)"
    and "canonical c" and "n < uuid_pos s"
  shows "objects (snd (uploads put us s)) (location c (uuid_src s n) f) = objects s (location c (uuid_src s n) f)"
  using assms
proof (induction us arbitrary: s)
  case Nil
  then show ?case by simp
next
  case (Cons u us)
  obtain r t where run: "put (up_card u) (up_data u) (up_filename u) (up_content_type u) (up_metadata u) s = (r, t)" by fastforce
  have u: "canonical (up_card u)" "canonical (uuid_src s (uuid_pos s))" using Cons.prems by auto
  note law = put_law [OF Cons.prems(1) u, of "up_data u" "up_filename u" "up_content_type u" "up_metadata u", unfolded wp_def run prod.case]
  have ids: "inj_on (uuid_src s) {..<Suc (uuid_pos s) + length us}" "\<forall>n < Suc (uuid_pos s) + length us. canonical (uuid_src s n)"
    using Cons.prems(2,3) by simp_all
  have "uuid_src s (uuid_pos s) \<noteq> uuid_src s n" using Cons.prems(6) inj_onD [OF ids(1), of "uuid_pos s" n] by auto
  then have away: "location c (uuid_src s n) f \<noteq> location (up_card u) (uuid_src s (uuid_pos s)) (up_filename u)"
    using location_law [OF Cons.prems(5) u(1) _ u(2), of "uuid_src s n" f "up_filename u"] Cons.prems(3,6) by auto
  have t: "ok t" "uuid_src t = uuid_src s" "uuid_pos t = Suc (uuid_pos s)"
      "objects t (location c (uuid_src s n) f) = objects s (location c (uuid_src s n) f)"
    using law away by (auto split: sum.splits)
  with Cons.IH [of t] Cons.prems ids
  have "objects (snd (uploads put us t)) (location c (uuid_src s n) f) = objects s (location c (uuid_src s n) f)" by auto
  then show ?case by (cases r) (auto simp: run split: prod.split)
qed

lemma uploads_kept:
  assumes "ok s" and "inj_on (uuid_src s) {..<uuid_pos s + length us}" and "\<forall>n < uuid_pos s + length us. canonical (uuid_src s n)" and "\<forall>u \<in> set us. canonical (up_card u)"
    and "(r, u) \<in> set (fst (uploads put us s))"
  shows "(\<exists>n < uuid_pos s + length us. artifact_id r = uuid_src s n) \<and> u \<in> set us \<and>
    objects (snd (uploads put us s)) (location (up_card u) (artifact_id r) (up_filename u)) = Some (up_data u) \<and>
    artifact_card_id r = up_card u \<and> artifact_content_hash r = hash (up_data u) \<and>
    artifact_content_type r = up_content_type u \<and> artifact_size_bytes r = int (length (up_data u))"
  using assms
proof (induction us arbitrary: s)
  case Nil
  then show ?case by simp
next
  case (Cons v us)
  obtain x t where run: "put (up_card v) (up_data v) (up_filename v) (up_content_type v) (up_metadata v) s = (x, t)" by fastforce
  have v: "canonical (up_card v)" "canonical (uuid_src s (uuid_pos s))" using Cons.prems by auto
  note law = put_law [OF Cons.prems(1) v, of "up_data v" "up_filename v" "up_content_type v" "up_metadata v", unfolded wp_def run prod.case]
  have t: "ok t" "uuid_src t = uuid_src s" "uuid_pos t = Suc (uuid_pos s)" using law by (auto split: sum.splits)
  have ids: "inj_on (uuid_src s) {..<Suc (uuid_pos s) + length us}" "\<forall>n < Suc (uuid_pos s) + length us. canonical (uuid_src s n)"
    using Cons.prems(2,3) by simp_all
  have later: ?case if "(r, u) \<in> set (fst (uploads put us t))"
    using Cons.IH [of t] that t ids Cons.prems run by (auto split: sum.splits prod.splits)
  show ?case
  proof (cases x)
    case (Inl e)
    with Cons.prems(5) run later show ?thesis by simp
  next
    case (Inr q)
    show ?thesis
    proof (cases "(r, u) = (q, v)")
      case True
      from law Inr have q: "artifact_id q = uuid_src s (uuid_pos s)" "artifact_card_id q = up_card v"
        "artifact_content_hash q = hash (up_data v)" "artifact_content_type q = up_content_type v"
        "artifact_size_bytes q = int (length (up_data v))"
        "objects t (location (up_card v) (uuid_src s (uuid_pos s)) (up_filename v)) = Some (up_data v)" by auto
      have "objects (snd (uploads put us t)) (location (up_card v) (uuid_src s (uuid_pos s)) (up_filename v)) = Some (up_data v)"
        using uploads_elsewhere [of t us "up_card v" "uuid_pos s" "up_filename v"] t q(6) v ids Cons.prems by auto
      with True q Inr run show ?thesis by (auto split: prod.split intro!: exI [of _ "uuid_pos s"])
    next
      case False
      with Cons.prems(5) Inr run later show ?thesis by (auto split: prod.splits)
    qed
  qed
qed

end

text \<open>Building a reference takes the time and touches nothing else.\<close>

lemma reference_wp:
  fixes s :: "'z world_scheme"
  assumes "content_hash \<noteq> []"
    and clock: "\<And>k. ok (s\<lparr>uuid_pos := uuid_pos s, clock_pos := k\<rparr>) \<and> view (s\<lparr>uuid_pos := uuid_pos s, clock_pos := k\<rparr>) = view s"
  shows "wp (new_artifact_reference i cid ref content_hash ctype count md)
    (\<lambda>r t. ok t \<and> view t = view s \<and> uuid_src t = uuid_src s \<and> uuid_pos t = uuid_pos s \<and> artifact_id r = i \<and>
       artifact_card_id r = cid \<and> artifact_content_hash r = content_hash \<and> artifact_content_type r = ctype \<and>
       artifact_size_bytes r = int count)
    (\<lambda>_ t. ok t \<and> view t = view s \<and> uuid_src t = uuid_src s \<and> uuid_pos t = uuid_pos s) s"
proof -
  have "ok (s\<lparr>clock_pos := k\<rparr>) \<and> view (s\<lparr>clock_pos := k\<rparr>) = view s" for k using clock [of k] by simp
  with assms(1) show ?thesis by (simp add: new_artifact_reference_def wp_rules)
qed

section \<open>The local store keeps the contract\<close>

text \<open>
  A file system without links under the root of the store: making directories changes no file, writing a file below the
  root changes no other one, and looking changes nothing. A write that fails may leave the file in any state.
\<close>

definition below :: "pure_path \<Rightarrow> pure_path \<Rightarrow> bool" where
  "below p q \<longleftrightarrow> path_root q = path_root p \<and> strict_prefix (path_parts p) (path_parts q)"

locale store_files =
  fixes fs :: "'z world_scheme file_system"
    and root :: pure_path
    and files :: "'z world_scheme \<Rightarrow> pure_path \<Rightarrow> string option"
    and ok :: "'z world_scheme \<Rightarrow> bool"
  assumes drawn_law: "ok s \<Longrightarrow> ok (s\<lparr>uuid_pos := n, clock_pos := k\<rparr>) \<and> files (s\<lparr>uuid_pos := n, clock_pos := k\<rparr>) = files s"
    and mkdir_law: "ok s \<Longrightarrow> wp (fs_mkdir fs p)
      (\<lambda>_ t. ok t \<and> files t = files s \<and> uuid_src t = uuid_src s \<and> uuid_pos t = uuid_pos s)
      (\<lambda>_ t. ok t \<and> files t = files s \<and> uuid_src t = uuid_src s \<and> uuid_pos t = uuid_pos s) s"
    and write_law: "ok s \<Longrightarrow> below root p \<Longrightarrow> wp (fs_write_bytes fs p data)
      (\<lambda>_ t. ok t \<and> files t = (files s)(p \<mapsto> data) \<and> uuid_src t = uuid_src s \<and> uuid_pos t = uuid_pos s)
      (\<lambda>_ t. ok t \<and> (\<forall>q. q \<noteq> p \<longrightarrow> files t q = files s q) \<and> uuid_src t = uuid_src s \<and> uuid_pos t = uuid_pos s) s"
    and resolve_law: "wp (fs_resolve fs p) (\<lambda>_ t. t = s) (\<lambda>_ t. t = s) s"
begin

lemma put_wp:
  assumes "ok s" and "canonical cid" and "canonical (uuid_src s (uuid_pos s))" and store: "local_root store = root"
  shows "wp (local_put_bytes fs sha store cid data filename ctype md)
    (\<lambda>r t. ok t \<and> uuid_src t = uuid_src s \<and> uuid_pos t = Suc (uuid_pos s) \<and>
       artifact_id r = uuid_src s (uuid_pos s) \<and> artifact_card_id r = cid \<and>
       artifact_content_hash r = sha256_text sha data \<and> artifact_content_type r = ctype \<and>
       artifact_size_bytes r = int (length data) \<and>
       files t = (files s)(local_path store cid (artifact_id r) filename \<mapsto> data))
    (\<lambda>e t. ok t \<and> uuid_src t = uuid_src s \<and> uuid_pos t = Suc (uuid_pos s) \<and>
       (\<forall>l. l \<noteq> local_path store cid (uuid_src s (uuid_pos s)) filename \<longrightarrow> files t l = files s l)) s"
proof -
  let ?i = "uuid_src s (uuid_pos s)" and ?s = "s\<lparr>uuid_pos := Suc (uuid_pos s)\<rparr>"
  let ?path = "local_path store cid ?i filename"
  have "s\<lparr>uuid_pos := n\<rparr> = s\<lparr>uuid_pos := n, clock_pos := clock_pos s\<rparr>" for n by simp
  with drawn_law [OF assms(1)] have s: "ok ?s" "files ?s = files s" by metis+
  have below: "below root ?path"
    using store by (auto simp: below_def local_path_parts [OF assms(2,3)] strict_prefix_def)
  have hash: "sha256_text sha data \<noteq> []" by (simp add: sha256_text_def)
  show ?thesis
    unfolding local_put_bytes_def wp_bind wp_uuid4 Let_def storage_ref_def
  proof (rule wp_mono [OF mkdir_law [OF s(1)]], goal_cases)
    case (1 u t)
    show ?case
    proof (rule wp_mono [OF write_law [OF _ below]], goal_cases)
      case 1
      show ?case using \<open>ok t \<and> _\<close> by simp
    next
      case (2 v t')
      show ?case
      proof (rule wp_mono [OF resolve_law], goal_cases)
        case (1 w t'')
        show ?case unfolding wp_return
          by (rule wp_mono [OF reference_wp [of _ ok _ files, OF hash drawn_law]]) (use 1 2 \<open>ok t \<and> _\<close> s in auto)
      qed (use 2 \<open>ok t \<and> _\<close> s in auto)
    qed (use 1 s in auto)
  qed (use s in auto)
qed

end

sublocale store_files \<subseteq> disk: artifact_store "local_put_bytes fs sha \<lparr>local_root = root, local_repo_root = repo\<rparr>" "sha256_text sha"
  files "local_path \<lparr>local_root = root, local_repo_root = repo\<rparr>" ok for sha repo
proof unfold_locales
  fix s cid data filename ctype md
  assume "ok s" "canonical cid" "canonical (uuid_src s (uuid_pos s))"
  then show "wp (local_put_bytes fs sha \<lparr>local_root = root, local_repo_root = repo\<rparr> cid data filename ctype md)
      (\<lambda>r t. ok t \<and> uuid_src t = uuid_src s \<and> uuid_pos t = Suc (uuid_pos s) \<and>
         artifact_id r = uuid_src s (uuid_pos s) \<and> artifact_card_id r = cid \<and>
         artifact_content_hash r = sha256_text sha data \<and> artifact_content_type r = ctype \<and>
         artifact_size_bytes r = int (length data) \<and>
         files t = (files s)(local_path \<lparr>local_root = root, local_repo_root = repo\<rparr> cid (artifact_id r) filename \<mapsto> data))
      (\<lambda>e t. ok t \<and> uuid_src t = uuid_src s \<and> uuid_pos t = Suc (uuid_pos s) \<and>
         (\<forall>l. l \<noteq> local_path \<lparr>local_root = root, local_repo_root = repo\<rparr> cid (uuid_src s (uuid_pos s)) filename \<longrightarrow>
            files t l = files s l)) s"
    by (rule put_wp) simp
qed (auto simp: local_path_parts dest: object_name_inj)

context store_files
begin

lemma disk_store: "artifact_store (local_put_bytes fs sha \<lparr>local_root = root, local_repo_root = repo\<rparr>) (sha256_text sha) files
  (local_path \<lparr>local_root = root, local_repo_root = repo\<rparr>) ok"
  by (rule disk.artifact_store_axioms)

end

section \<open>The S3 store keeps the contract\<close>

locale s3_objects =
  fixes put_object :: "'z world_scheme s3_client"
    and bucket_objects :: "'z world_scheme \<Rightarrow> string \<times> string \<Rightarrow> string option"
    and ok :: "'z world_scheme \<Rightarrow> bool"
  assumes drawn_law: "ok s \<Longrightarrow>
      ok (s\<lparr>uuid_pos := n, clock_pos := k\<rparr>) \<and> bucket_objects (s\<lparr>uuid_pos := n, clock_pos := k\<rparr>) = bucket_objects s"
    and put_object_law: "ok s \<Longrightarrow> wp (put_object bucket key body ctype md)
      (\<lambda>_ t. ok t \<and> bucket_objects t = (bucket_objects s)((bucket, key) \<mapsto> body) \<and> uuid_src t = uuid_src s \<and> uuid_pos t = uuid_pos s)
      (\<lambda>_ t. ok t \<and> (\<forall>l. l \<noteq> (bucket, key) \<longrightarrow> bucket_objects t l = bucket_objects s l) \<and> uuid_src t = uuid_src s \<and>
         uuid_pos t = uuid_pos s) s"

sublocale s3_objects \<subseteq> s3: artifact_store "s3_put_bytes put_object sha store" "sha256_text sha"
  bucket_objects "\<lambda>cid i filename. (s3_bucket store, s3_key store cid i filename)" ok for sha store
proof unfold_locales
  fix s cid data filename ctype md
  assume "ok s" "canonical cid" "canonical (uuid_src s (uuid_pos s))"
  let ?s = "s\<lparr>uuid_pos := Suc (uuid_pos s)\<rparr>"
  have "s\<lparr>uuid_pos := n\<rparr> = s\<lparr>uuid_pos := n, clock_pos := clock_pos s\<rparr>" for n by simp
  with drawn_law [OF \<open>ok s\<close>] have s: "ok ?s" "bucket_objects ?s = bucket_objects s" by metis+
  have hash: "sha256_text sha data \<noteq> []" by (simp add: sha256_text_def)
  show "wp (s3_put_bytes put_object sha store cid data filename ctype md)
      (\<lambda>r t. ok t \<and> uuid_src t = uuid_src s \<and> uuid_pos t = Suc (uuid_pos s) \<and>
         artifact_id r = uuid_src s (uuid_pos s) \<and> artifact_card_id r = cid \<and>
         artifact_content_hash r = sha256_text sha data \<and> artifact_content_type r = ctype \<and>
         artifact_size_bytes r = int (length data) \<and>
         bucket_objects t = (bucket_objects s)((s3_bucket store, s3_key store cid (artifact_id r) filename) \<mapsto> data))
      (\<lambda>e t. ok t \<and> uuid_src t = uuid_src s \<and> uuid_pos t = Suc (uuid_pos s) \<and>
         (\<forall>l. l \<noteq> (s3_bucket store, s3_key store cid (uuid_src s (uuid_pos s)) filename) \<longrightarrow>
            bucket_objects t l = bucket_objects s l)) s"
    unfolding s3_put_bytes_def wp_bind wp_uuid4 Let_def
  proof (rule wp_mono [OF put_object_law [OF s(1)]], goal_cases)
    case (1 u t)
    show ?case
      by (rule wp_mono [OF reference_wp [of _ ok _ bucket_objects, OF hash drawn_law]]) (use 1 s in auto)
  qed (use s in auto)
next
  fix c d i j f g
  assume *: "canonical c" "canonical d" "canonical i" "canonical j"
    "(s3_bucket store, s3_key store c i f) = (s3_bucket store, s3_key store d j g)"
  then have "uuid_str c @ ''/'' @ object_name i f = uuid_str d @ ''/'' @ object_name j g" by (simp add: s3_key_def)
  with * have "object_name i f = object_name j g" by (simp add: canonical_def)
  with * show "i = j" by (simp add: object_name_inj)
qed

context s3_objects
begin

lemma bucket_store: "artifact_store (s3_put_bytes put_object sha store) (sha256_text sha) bucket_objects
  (\<lambda>cid i filename. (s3_bucket store, s3_key store cid i filename)) ok"
  by (rule s3.artifact_store_axioms)

end

section \<open>Uploads\<close>

text \<open>
  Property C37. The local store keeps what is uploaded and stays in its directory: in any sequence of uploads,
  some of which may fail, with any file names (absolute ones, or with dots, included), each upload that returned a
  reference has its bytes, still in the end, in the file of the directory of its card whose name is the reference's id, a
  dash and the last component of the file name: no later upload overwrites it. The reference names the card, the hash, the
  type and the size of what was uploaded.
\<close>

theorem local_uploads_kept:
  assumes "store_files fs root files ok" and "ok s" and "inj_on (uuid_src s) {..<uuid_pos s + length us}"
    and "\<forall>n < uuid_pos s + length us. canonical (uuid_src s n)"
    and "\<forall>u \<in> set us. canonical (up_card u)"
    and "(r, u) \<in> set (fst (uploads (local_put_bytes fs sha \<lparr>local_root = root, local_repo_root = repo\<rparr>) us s))"
  shows "u \<in> set us \<and> CHR ''/'' \<notin> set (object_name (artifact_id r) (up_filename u)) \<and>
    files (snd (uploads (local_put_bytes fs sha \<lparr>local_root = root, local_repo_root = repo\<rparr>) us s))
      (Path (path_root root) (path_parts root @ [uuid_str (up_card u), object_name (artifact_id r) (up_filename u)])) =
      Some (up_data u) \<and>
    artifact_card_id r = up_card u \<and> artifact_content_hash r = sha256_text sha (up_data u) \<and>
    artifact_content_type r = up_content_type u \<and> artifact_size_bytes r = int (length (up_data u))"
proof -
  note kept = artifact_store.uploads_kept [OF store_files.disk_store [OF assms(1)] assms(2-6)]
  have "canonical (artifact_id r)" "canonical (up_card u)" using kept assms(4,5) by auto
  with kept show ?thesis by (simp add: local_path_parts object_name_free)
qed

text \<open>
  The S3 store keeps what is uploaded: in any sequence of uploads, some of which may fail, each upload that
  returned a reference has its bytes, still in the end, in the bucket under the key of its reference.
\<close>

theorem s3_uploads_kept:
  assumes "s3_objects put_object bucket_objects ok" and "ok s" and "inj_on (uuid_src s) {..<uuid_pos s + length us}"
    and "\<forall>n < uuid_pos s + length us. canonical (uuid_src s n)"
    and "\<forall>u \<in> set us. canonical (up_card u)"
    and "(r, u) \<in> set (fst (uploads (s3_put_bytes put_object sha store) us s))"
  shows "u \<in> set us \<and> bucket_objects (snd (uploads (s3_put_bytes put_object sha store) us s))
      (s3_bucket store, s3_key store (up_card u) (artifact_id r) (up_filename u)) = Some (up_data u) \<and>
    artifact_card_id r = up_card u \<and> artifact_content_hash r = sha256_text sha (up_data u)"
  using artifact_store.uploads_kept [OF s3_objects.bucket_store [OF assms(1)] assms(2-6)] by simp

section \<open>A disk and a bucket in memory\<close>

record ram = world +
  ram_files :: "(pure_path, string) dict"
  ram_objects :: "(string \<times> string, string) dict"

definition ram_fs :: "ram file_system" where
  "ram_fs = \<lparr>fs_mkdir = (\<lambda>_. returnM ()),
     fs_write_bytes = (\<lambda>p data. modifyM (\<lambda>s. s\<lparr>ram_files := dict_set p data (ram_files s)\<rparr>)),
     fs_resolve = returnM, fs_exists = (\<lambda>p. getsM (\<lambda>s. dict_get (ram_files s) p \<noteq> None))\<rparr>"

definition ram_put_object :: "ram s3_client" where
  "ram_put_object bucket key body _ _ = modifyM (\<lambda>s. s\<lparr>ram_objects := dict_set (bucket, key) body (ram_objects s)\<rparr>)"

interpretation ram_disk: store_files ram_fs root "\<lambda>s. dict_get (ram_files s)" "\<lambda>_. True" for root
  by unfold_locales (simp_all add: ram_fs_def wp_rules)

interpretation ram_bucket: s3_objects ram_put_object "\<lambda>s. dict_get (ram_objects s)" "\<lambda>_. True"
  by unfold_locales (simp_all add: ram_put_object_def wp_rules)

text \<open>Two uploads of one card under one name, which tries to leave the directory.\<close>

definition sample_ram :: ram where
  "sample_ram = \<lparr>uuid_src = (\<lambda>n. UUID (replicate n CHR ''a'' @ replicate (36 - n) CHR ''b'')), uuid_pos = 0, clock_src = int,
     clock_pos = 0, ram_files = [], ram_objects = []\<rparr>"

definition sample_uploads :: "upload list" where
  "sample_uploads = map (\<lambda>d. \<lparr>up_card = UUID (replicate 36 CHR ''c''), up_data = d, up_filename = ''../../etc/passwd'',
     up_content_type = ''text/plain'', up_metadata = None\<rparr>) [''one'', ''two'']"

lemma sample_ram_ids: "inj_on (uuid_src sample_ram) {..<2}" "n < 2 \<Longrightarrow> canonical (uuid_src sample_ram n)"
proof -
  have "uuid_src sample_ram 0 \<noteq> uuid_src sample_ram 1" "canonical (uuid_src sample_ram 0)" "canonical (uuid_src sample_ram 1)"
    by code_simp+
  then show "inj_on (uuid_src sample_ram) {..<2}" "n < 2 \<Longrightarrow> canonical (uuid_src sample_ram n)"
    by (auto simp: inj_on_def less_2_cases_iff)
qed

abbreviation sample_stored :: "(artifact_reference \<times> upload) list \<times> ram" where
  "sample_stored \<equiv> uploads (local_put_bytes ram_fs rev \<lparr>local_root = to_path ''/data'', local_repo_root = None\<rparr>) sample_uploads sample_ram"

theorem local_uploads_kept_witness:
  "map snd (fst sample_stored) = sample_uploads \<and>
   (\<exists>r. (r, sample_uploads ! 0) \<in> set (fst sample_stored) \<and>
      dict_get (ram_files (snd sample_stored)) (Path ''/'' [''data'', replicate 36 CHR ''c'', object_name (artifact_id r) ''../../etc/passwd'']) =
        Some ''one'' \<and> artifact_size_bytes r = 3)"
proof -
  have all: "map snd (fst sample_stored) = sample_uploads" by code_simp
  have u: "sample_uploads ! 0 \<in> set sample_uploads" "up_data (sample_uploads ! 0) = ''one''"
    "up_card (sample_uploads ! 0) = UUID (replicate 36 CHR ''c'')" "up_filename (sample_uploads ! 0) = ''../../etc/passwd''"
    "\<forall>u \<in> set sample_uploads. canonical (up_card u)" "uuid_pos sample_ram + length sample_uploads = 2"
    "to_path ''/data'' = Path ''/'' [''data'']" by code_simp+
  from u(1) have "sample_uploads ! 0 \<in> snd ` set (fst sample_stored)" by (simp only: set_map [symmetric] all)
  then obtain p where "sample_uploads ! 0 = snd p" "p \<in> set (fst sample_stored)" by (rule imageE)
  then have r: "(fst p, sample_uploads ! 0) \<in> set (fst sample_stored)" by (simp only: prod.collapse)
  have "\<forall>n < uuid_pos sample_ram + length sample_uploads. canonical (uuid_src sample_ram n)" using sample_ram_ids(2) u(6) by simp
  note kept = local_uploads_kept [OF ram_disk.store_files_axioms TrueI _ this u(5) r, unfolded u(2-4,6,7) pure_path.sel append.simps
    uuid.sel, OF sample_ram_ids(1)]
  show ?thesis by (intro conjI all exI [of _ "fst p"] r) (use kept u(7) in simp_all)
qed

end
