(* ===== verification/WorkerSdk.thy ===== *)
theory WorkerSdk
  imports ArtifactStore
begin

text \<open>
  The client for workers: class \<^verbatim>\<open>WorkerClient\<close> of \<^verbatim>\<open>src/src/ghostmesh/sdk/worker.py\<close>. The HTTP library, the
  encoding of artifact references and the reading of UUIDs are parameters.
\<close>

section \<open>The client\<close>

text \<open>What the client uses of \<^verbatim>\<open>httpx\<close>: requests with a timeout, \<^verbatim>\<open>raise_for_status\<close> and \<^verbatim>\<open>json\<close>.\<close>

record ('s, 'r) http =
  http_post :: "string \<Rightarrow> json \<Rightarrow> (string, string) dict \<Rightarrow> json \<Rightarrow> ('s, 'r) M"
  http_get :: "string \<Rightarrow> (string, string) dict \<Rightarrow> json \<Rightarrow> ('s, 'r) M"
  raise_for_status :: "'r \<Rightarrow> unit res"
  response_json :: "'r \<Rightarrow> json res"

record worker_client =
  client_base_url :: string
  client_worker_id :: string
  client_timeout :: json
  client_auth_token :: "string option"
  client_participant_id :: "string option"

text \<open>\<^verbatim>\<open>base_url.rstrip("/")\<close>.\<close>

definition new_worker_client :: "string \<Rightarrow> string \<Rightarrow> json \<Rightarrow> string option \<Rightarrow> string option \<Rightarrow> worker_client" where
  "new_worker_client base_url worker_id timeout auth_token pid =
     \<lparr>client_base_url = rev (dropWhile (\<lambda>c. c = CHR ''/'') (rev base_url)), client_worker_id = worker_id,
      client_timeout = timeout, client_auth_token = auth_token, client_participant_id = pid\<rparr>"

definition idempotency_headers :: "string option \<Rightarrow> (string, string) dict" where
  "idempotency_headers key = (if truthy key then [(''Idempotency-Key'', the key)] else [])"

definition client_headers :: "worker_client \<Rightarrow> string option \<Rightarrow> (string, string) dict" where
  "client_headers c key =
     (let h = idempotency_headers key;
          h = (if truthy (client_auth_token c) then dict_set ''Authorization'' (''Bearer '' @ the (client_auth_token c)) h else h)
      in if truthy (client_participant_id c) then dict_set ''X-Ghostmesh-Participant'' (the (client_participant_id c)) h else h)"

text \<open>The end of every method: raise on an error status, decode the body otherwise.\<close>

definition read_response :: "('s, 'r) http \<Rightarrow> 'r \<Rightarrow> ('s, json) M" where
  "read_response h r = bindM (liftM (raise_for_status h r)) (\<lambda>_. liftM (response_json h r))"

definition worker_claim :: "('s, 'r) http \<Rightarrow> worker_client \<Rightarrow> string \<Rightarrow> int \<Rightarrow> string option \<Rightarrow> ('s, json) M" where
  "worker_claim h c input_pipe n key =
     bindM (http_post h (client_base_url c @ ''/cards/claim'')
       (JDict [(''input_pipe'', JStr input_pipe), (''worker_id'', JStr (client_worker_id c)), (''lease_seconds'', JInt n)])
       (client_headers c key) (client_timeout c)) (read_response h)"

text \<open>An artifact is given as a reference, which \<^verbatim>\<open>dump\<close> encodes, or already encoded.\<close>

definition worker_submit ::
  "('s, 'r) http \<Rightarrow> (artifact_reference \<Rightarrow> json) \<Rightarrow> worker_client \<Rightarrow> string \<Rightarrow> string \<Rightarrow> (artifact_reference + json) list \<Rightarrow>
   string option \<Rightarrow> ('s, json) M" where
  "worker_submit h dump c lid output_pipe refs key =
     (let serialized = map (\<lambda>r. case r of Inl a \<Rightarrow> dump a | Inr d \<Rightarrow> d) refs in
      bindM (http_post h (client_base_url c @ ''/cards/submit'')
        (JDict [(''lease_id'', JStr lid), (''output_pipe'', JStr output_pipe), (''artifact_refs'', JList serialized)])
        (client_headers c key) (client_timeout c)) (read_response h))"

definition worker_upload_bytes ::
  "(uuid \<Rightarrow> string \<Rightarrow> string \<Rightarrow> string \<Rightarrow> jdict option \<Rightarrow> ('s, artifact_reference) M) \<Rightarrow> (string \<Rightarrow> uuid res) \<Rightarrow>
   string \<Rightarrow> string \<Rightarrow> string \<Rightarrow> string \<Rightarrow> jdict option \<Rightarrow> ('s, artifact_reference) M" where
  "worker_upload_bytes put parse_uuid cid data filename content_type metadata =
     bindM (liftM (parse_uuid cid)) (\<lambda>i. put i data filename content_type metadata)"

definition worker_renew :: "('s, 'r) http \<Rightarrow> worker_client \<Rightarrow> string \<Rightarrow> int \<Rightarrow> string option \<Rightarrow> ('s, json) M" where
  "worker_renew h c lid n key =
     bindM (http_post h (client_base_url c @ ''/leases/'' @ lid @ ''/renew'') (JDict [(''lease_seconds'', JInt n)])
       (client_headers c key) (client_timeout c)) (read_response h)"

definition worker_release :: "('s, 'r) http \<Rightarrow> worker_client \<Rightarrow> string \<Rightarrow> string option \<Rightarrow> ('s, json) M" where
  "worker_release h c lid key =
     bindM (http_post h (client_base_url c @ ''/leases/'' @ lid @ ''/release'') (JDict [(''actor_id'', JStr (client_worker_id c))])
       (client_headers c key) (client_timeout c)) (read_response h)"

definition worker_context :: "('s, 'r) http \<Rightarrow> worker_client \<Rightarrow> string \<Rightarrow> ('s, json) M" where
  "worker_context h c lid =
     bindM (http_get h (client_base_url c @ ''/workers/leases/'' @ lid @ ''/context'') (client_headers c None) (client_timeout c))
       (read_response h)"

section \<open>What the client does\<close>

text \<open>The headers carry the key, the token and the participant exactly when they are given.\<close>

lemma client_headers_get:
  "dict_get (client_headers c key) ''Idempotency-Key'' = (if truthy key then key else None)"
  "dict_get (client_headers c key) ''X-Ghostmesh-Participant'' = (if truthy (client_participant_id c) then client_participant_id c else None)"
  "dict_get (client_headers c key) ''Authorization'' =
     (if truthy (client_auth_token c) then map_option (\<lambda>t. ''Bearer '' @ t) (client_auth_token c) else None)"
  by (auto simp: client_headers_def idempotency_headers_def Let_def truthy_def split: option.splits)

text \<open>
  What is uploaded for a card passes the guard of a submission under a lease of that card: references a store returned for
  the card belong to it.
\<close>

lemma uploaded_refs_belong:
  assumes "artifact_store put hash objects location ok" and "ok s" and "inj_on (uuid_src s) {..<uuid_pos s + length us}"
    and "\<forall>n < uuid_pos s + length us. canonical (uuid_src s n)" and "canonical cid" and "\<forall>u \<in> set us. up_card u = cid"
    and "fst (uploads put us s) \<noteq> []"
  shows "ensure_artifact_refs_belong_to_card cid (map fst (fst (uploads put us s))) = Inr ()"
proof -
  have "artifact_card_id r = cid" if "(r, u) \<in> set (fst (uploads put us s))" for r u
    using artifact_store.uploads_kept [OF assms(1-4) _ that] assms(5,6) by auto
  with assms(7) show ?thesis by (auto simp: ensure_artifact_refs_ok)
qed

end
