(* ===== verification/WorkerHttp.thy ===== *)
theory WorkerHttp
  imports WorkerSdk ApiProperties Rows
begin

text \<open>
  The worker client against the HTTP API: the routes of \<^verbatim>\<open>src/src/ghostmesh/api/main.py\<close> that
  \<^verbatim>\<open>WorkerClient\<close> calls, with the request classes they decode. What pydantic makes of one value and the
  encoding of a response are parameters, the record \<open>wire\<close>. What lies between the client and the handlers,
  \<^verbatim>\<open>httpx\<close>, the network and the server, is a parameter as well, with the locale \<open>transport\<close> as its contract.
\<close>

section \<open>Decoding\<close>

record wire =
  wire_str :: "json \<Rightarrow> string res"
  wire_int :: "json \<Rightarrow> int res"
  wire_uuid :: "json \<Rightarrow> uuid res"
  wire_artifact :: "json \<Rightarrow> artifact_reference res"
  wire_response :: "api_response \<Rightarrow> json"
  wire_detail :: "error \<Rightarrow> json"

text \<open>A field of a request body: required, or with a default.\<close>

definition invalid_request :: error where
  "invalid_request = HTTPException 422 ''invalid request''"

definition required :: "(json \<Rightarrow> 'a res) \<Rightarrow> json \<Rightarrow> string \<Rightarrow> 'a res" where
  "required dec body k = (case body of
       JDict d \<Rightarrow> (case dict_get d k of Some v \<Rightarrow> dec v | None \<Rightarrow> Inl invalid_request)
     | _ \<Rightarrow> Inl invalid_request)"

definition defaulted :: "(json \<Rightarrow> 'a res) \<Rightarrow> 'a \<Rightarrow> json \<Rightarrow> string \<Rightarrow> 'a res" where
  "defaulted dec x body k = (case body of
       JDict d \<Rightarrow> (case dict_get d k of Some v \<Rightarrow> dec v | None \<Rightarrow> Inr x)
     | _ \<Rightarrow> Inl invalid_request)"

definition optional_str :: "wire \<Rightarrow> json \<Rightarrow> string option res" where
  "optional_str w v = (if v = JNull then Inr None else case wire_str w v of Inl e \<Rightarrow> Inl e | Inr x \<Rightarrow> Inr (Some x))"

definition artifact_list :: "wire \<Rightarrow> json \<Rightarrow> artifact_reference list res" where
  "artifact_list w v = (case v of JList vs \<Rightarrow> map_res (wire_artifact w) vs | _ \<Rightarrow> Inl invalid_request)"

definition decode_claim :: "wire \<Rightarrow> json \<Rightarrow> claim_card_request res" where
  "decode_claim w body =
     (case (required (wire_str w) body ''input_pipe'', required (wire_str w) body ''worker_id'',
            defaulted (wire_int w) 300 body ''lease_seconds'') of
        (Inr p, Inr i, Inr n) \<Rightarrow> Inr \<lparr>clr_input_pipe = p, clr_worker_id = i, clr_lease_seconds = n\<rparr>
      | _ \<Rightarrow> Inl invalid_request)"

definition decode_submit :: "wire \<Rightarrow> json \<Rightarrow> submit_artifact_request res" where
  "decode_submit w body =
     (case (required (wire_uuid w) body ''lease_id'', required (wire_str w) body ''output_pipe'',
            required (artifact_list w) body ''artifact_refs'') of
        (Inr i, Inr p, Inr rs) \<Rightarrow> Inr \<lparr>sar_lease_id = i, sar_output_pipe = p, sar_artifact_refs = rs\<rparr>
      | _ \<Rightarrow> Inl invalid_request)"

definition decode_renew :: "wire \<Rightarrow> string \<Rightarrow> json \<Rightarrow> card_request res" where
  "decode_renew w lid body =
     (case (wire_uuid w (JStr lid), defaulted (wire_int w) 300 body ''lease_seconds'') of
        (Inr i, Inr n) \<Rightarrow> Inr (RenewLease i n) | _ \<Rightarrow> Inl invalid_request)"

definition decode_release :: "wire \<Rightarrow> string \<Rightarrow> json \<Rightarrow> card_request res" where
  "decode_release w lid body =
     (case (wire_uuid w (JStr lid), defaulted (optional_str w) None body ''actor_id'') of
        (Inr i, Inr a) \<Rightarrow> Inr (ReleaseLease i a) | _ \<Rightarrow> Inl invalid_request)"

section \<open>Routing\<close>

text \<open>The routes the client calls; \<open>None\<close> is any other route.\<close>

definition worker_route :: "wire \<Rightarrow> string \<Rightarrow> string \<Rightarrow> json \<Rightarrow> card_request res option" where
  "worker_route w verb path body =
     (let ps = split_slash path in
      if verb = ''POST'' \<and> ps = [[], ''cards'', ''claim'']
      then Some (case decode_claim w body of Inl e \<Rightarrow> Inl e | Inr r \<Rightarrow> Inr (ClaimCard r))
      else if verb = ''POST'' \<and> ps = [[], ''cards'', ''submit'']
      then Some (case decode_submit w body of Inl e \<Rightarrow> Inl e | Inr r \<Rightarrow> Inr (SubmitArtifact r))
      else case ps of
          [r, a, lid, b] \<Rightarrow>
            if r = [] \<and> verb = ''POST'' \<and> a = ''leases'' \<and> b = ''renew'' then Some (decode_renew w lid body)
            else if r = [] \<and> verb = ''POST'' \<and> a = ''leases'' \<and> b = ''release'' then Some (decode_release w lid body)
            else None
        | [r, a, b, lid, c] \<Rightarrow>
            if r = [] \<and> verb = ''GET'' \<and> a = ''workers'' \<and> b = ''leases'' \<and> c = ''context''
            then Some (case wire_uuid w (JStr lid) of Inl e \<Rightarrow> Inl invalid_request | Inr i \<Rightarrow> Inr (WorkerLeaseContext i))
            else None
        | _ \<Rightarrow> None)"

section \<open>Between client and handler\<close>

text \<open>
  A header value that \<^verbatim>\<open>httpx\<close> sends and the server reads as it is: printable ASCII without a space at either end
  (other values raise in \<^verbatim>\<open>httpx\<close>), and a path that an URL carries as it is.
\<close>

definition plain_header :: "string \<Rightarrow> bool" where
  "plain_header x \<longleftrightarrow> x \<noteq> [] \<and> hd x \<noteq> CHR '' '' \<and> last x \<noteq> CHR '' '' \<and>
     (\<forall>c \<in> set x. 32 \<le> (of_char c :: nat) \<and> (of_char c :: nat) < 127)"

definition plain_headers :: "(string, string) dict \<Rightarrow> bool" where
  "plain_headers d \<longleftrightarrow> (\<forall>(k, v) \<in> set d. plain_header v)"

definition path_char :: "char \<Rightarrow> bool" where
  "path_char c \<longleftrightarrow> c = CHR ''/'' \<or> c = CHR ''-'' \<or> CHR ''0'' \<le> c \<and> c \<le> CHR ''9'' \<or> CHR ''a'' \<le> c \<and> c \<le> CHR ''z''"

text \<open>The request handled by the application, its result or its exception turned into a response.\<close>

definition served ::
  "('g, 'z mesh_scheme) app \<Rightarrow> wire \<Rightarrow> (nat \<Rightarrow> json \<Rightarrow> 'r) \<Rightarrow> (string, string) dict \<Rightarrow> card_request \<Rightarrow> ('z mesh_scheme, 'r) M" where
  "served app w resp headers r =
     (\<lambda>s. case handle app (dict_get headers ''X-Ghostmesh-Participant'') (dict_get headers ''Idempotency-Key'') (Cards r) s of
         (Inl e, t) \<Rightarrow> (Inr (resp (status_of e) (wire_detail w e)), t)
       | (Inr x, t) \<Rightarrow> (Inr (resp 200 (wire_response w x)), t))"

text \<open>
  What client and application rely on: a request for one of the routes, with headers and a path of that kind, reaches the
  application that serves \<open>base\<close>, and its response comes back in time. \<open>resp n v\<close> is the response with status \<open>n\<close> and
  the JSON body \<open>v\<close>; \<^verbatim>\<open>raise_for_status\<close> raises outside of the 2xx codes, \<open>failed n\<close> being its exception.
\<close>

locale transport =
  fixes h :: "('z mesh_scheme, 'r) http"
    and app :: "('g, 'z mesh_scheme) app"
    and w :: wire
    and base :: string
    and resp :: "nat \<Rightarrow> json \<Rightarrow> 'r"
    and failed :: "nat \<Rightarrow> error"
  assumes post_law: "worker_route w ''POST'' path body = Some (Inr r) \<Longrightarrow> list_all path_char path \<Longrightarrow> plain_headers headers \<Longrightarrow>
      http_post h (base @ path) body headers timeout = served app w resp headers r"
    and get_law: "worker_route w ''GET'' path JNull = Some (Inr r) \<Longrightarrow> list_all path_char path \<Longrightarrow> plain_headers headers \<Longrightarrow>
      http_get h (base @ path) headers timeout = served app w resp headers r"
    and status_law: "raise_for_status h (resp n v) = (if n div 100 = 2 then Inr () else Inl (failed n))"
    and body_law: "response_json h (resp n v) = Inr v"

text \<open>
  One that keeps the contract: the client calls the application directly. A request that does not decode is answered with
  422; \<open>other\<close> are the other routes.
\<close>

definition app_answer ::
  "('g, 'z mesh_scheme) app \<Rightarrow> wire \<Rightarrow> (string \<Rightarrow> string \<Rightarrow> json \<Rightarrow> (string, string) dict \<Rightarrow> ('z mesh_scheme, nat \<times> json) M) \<Rightarrow>
   string \<Rightarrow> string \<Rightarrow> string \<Rightarrow> json \<Rightarrow> (string, string) dict \<Rightarrow> ('z mesh_scheme, nat \<times> json) M" where
  "app_answer app w other base verb url body headers =
     (if take (length base) url \<noteq> base then raiseM (RuntimeError ''no such host'')
      else case worker_route w verb (drop (length base) url) body of
        None \<Rightarrow> other verb (drop (length base) url) body headers
      | Some (Inl e) \<Rightarrow> returnM (422, wire_detail w e)
      | Some (Inr r) \<Rightarrow> served app w Pair headers r)"

definition app_http ::
  "('g, 'z mesh_scheme) app \<Rightarrow> wire \<Rightarrow> (string \<Rightarrow> string \<Rightarrow> json \<Rightarrow> (string, string) dict \<Rightarrow> ('z mesh_scheme, nat \<times> json) M) \<Rightarrow>
   string \<Rightarrow> ('z mesh_scheme, nat \<times> json) http" where
  "app_http app w other base =
     \<lparr>http_post = (\<lambda>url body headers _. app_answer app w other base ''POST'' url body headers),
      http_get = (\<lambda>url headers _. app_answer app w other base ''GET'' url JNull headers),
      raise_for_status = (\<lambda>r. if fst r div 100 = 2 then Inr () else Inl (HTTPException (fst r) [])),
      response_json = (\<lambda>r. Inr (snd r))\<rparr>"

interpretation direct: transport "app_http app w other base" app w base Pair "\<lambda>n. HTTPException n []" for app w other base
  by unfold_locales (simp_all add: app_http_def app_answer_def)

section \<open>What the client gets\<close>

text \<open>The text of an identifier, and values that pydantic reads as they are sent.\<close>

definition uuid_text :: "uuid \<Rightarrow> bool" where
  "uuid_text i \<longleftrightarrow> canonical i \<and> list_all path_char (uuid_str i)"

definition wire_ok :: "wire \<Rightarrow> bool" where
  "wire_ok w \<longleftrightarrow> (\<forall>x. wire_str w (JStr x) = Inr x) \<and> (\<forall>n. wire_int w (JInt n) = Inr n) \<and>
     (\<forall>i. uuid_text i \<longrightarrow> wire_uuid w (JStr (uuid_str i)) = Inr i)"

definition given :: "string option \<Rightarrow> string option" where
  "given x = (if truthy x then x else None)"

text \<open>A request of the client handled by the application, as the client sees it.\<close>

definition client_sees ::
  "('g, 'z mesh_scheme) app \<Rightarrow> wire \<Rightarrow> (nat \<Rightarrow> error) \<Rightarrow> worker_client \<Rightarrow> string option \<Rightarrow> card_request \<Rightarrow> ('z mesh_scheme, json) M" where
  "client_sees app w failed c key r = (\<lambda>s. case handle app (given (client_participant_id c)) (given key) (Cards r) s of
       (Inl e, t) \<Rightarrow> (if status_of e div 100 = 2 then Inr (wire_detail w e) else Inl (failed (status_of e)), t)
     | (Inr x, t) \<Rightarrow> (Inr (wire_response w x), t))"

lemma split_slash_append: "CHR ''/'' \<notin> set p \<Longrightarrow> split_slash (p @ CHR ''/'' # s) = p # split_slash s"
  by (induction p) auto

lemma client_headers_given:
  "dict_get (client_headers c key) ''Idempotency-Key'' = given key"
  "dict_get (client_headers c key) ''X-Ghostmesh-Participant'' = given (client_participant_id c)"
  by (simp_all add: client_headers_get given_def)

lemma keyless_headers: "plain_headers (client_headers c key) \<Longrightarrow> plain_headers (client_headers c None)"
  by (auto simp: client_headers_def idempotency_headers_def plain_headers_def Let_def split: if_splits)

text \<open>Every call of the client is routed to the request it means.\<close>

lemma claim_routed:
  "wire_ok w \<Longrightarrow> worker_route w ''POST'' ''/cards/claim''
     (JDict [(''input_pipe'', JStr p), (''worker_id'', JStr i), (''lease_seconds'', JInt n)]) =
   Some (Inr (ClaimCard \<lparr>clr_input_pipe = p, clr_worker_id = i, clr_lease_seconds = n\<rparr>))"
  by (simp add: worker_route_def decode_claim_def required_def defaulted_def wire_ok_def Let_def)

lemma dumped: "\<forall>a \<in> set refs. wire_artifact w (dump a) = Inr a \<Longrightarrow> map_res (wire_artifact w) (map dump refs) = Inr refs"
  by (induction refs) simp_all

lemma submit_routed:
  "wire_ok w \<Longrightarrow> \<forall>a \<in> set refs. wire_artifact w (dump a) = Inr a \<Longrightarrow> uuid_text i \<Longrightarrow> worker_route w ''POST'' ''/cards/submit''
     (JDict [(''lease_id'', JStr (uuid_str i)), (''output_pipe'', JStr p), (''artifact_refs'', JList (map dump refs))]) =
   Some (Inr (SubmitArtifact \<lparr>sar_lease_id = i, sar_output_pipe = p, sar_artifact_refs = refs\<rparr>))"
  by (simp add: worker_route_def decode_submit_def required_def artifact_list_def dumped Let_def) (simp add: wire_ok_def)

lemma lease_path:
  assumes "CHR ''/'' \<notin> set lid"
  shows "split_slash (''/leases/'' @ lid @ ''/renew'') = [[], ''leases'', lid, ''renew'']"
    and "split_slash (''/leases/'' @ lid @ ''/release'') = [[], ''leases'', lid, ''release'']"
    and "split_slash (''/workers/leases/'' @ lid @ ''/context'') = [[], ''workers'', ''leases'', lid, ''context'']"
  using split_slash_append [OF assms] by simp_all

lemma lease_routed:
  assumes w: "wire_ok w" and i: "uuid_text i"
  shows "worker_route w ''POST'' (''/leases/'' @ uuid_str i @ ''/renew'') (JDict [(''lease_seconds'', JInt n)]) = Some (Inr (RenewLease i n))"
    and "worker_route w ''POST'' (''/leases/'' @ uuid_str i @ ''/release'') (JDict [(''actor_id'', JStr a)]) = Some (Inr (ReleaseLease i (Some a)))"
    and "worker_route w ''GET'' (''/workers/leases/'' @ uuid_str i @ ''/context'') JNull = Some (Inr (WorkerLeaseContext i))"
proof -
  have "CHR ''/'' \<notin> set (uuid_str i)" using i by (simp add: uuid_text_def canonical_def)
  note paths = lease_path [OF this]
  show "worker_route w ''POST'' (''/leases/'' @ uuid_str i @ ''/renew'') (JDict [(''lease_seconds'', JInt n)]) = Some (Inr (RenewLease i n))"
    unfolding worker_route_def paths Let_def using w i by (simp add: decode_renew_def defaulted_def wire_ok_def)
  show "worker_route w ''POST'' (''/leases/'' @ uuid_str i @ ''/release'') (JDict [(''actor_id'', JStr a)]) = Some (Inr (ReleaseLease i (Some a)))"
    unfolding worker_route_def paths Let_def using w i by (simp add: decode_release_def defaulted_def optional_str_def wire_ok_def)
  show "worker_route w ''GET'' (''/workers/leases/'' @ uuid_str i @ ''/context'') JNull = Some (Inr (WorkerLeaseContext i))"
    unfolding worker_route_def paths Let_def using w i by (simp add: wire_ok_def)
qed

context transport
begin

lemma client_served:
  "bindM (served app w resp (client_headers c key) r) (read_response h) = client_sees app w failed c key r"
  by (auto simp: fun_eq_iff bindM_def served_def client_sees_def read_response_def client_headers_given liftM_def status_law body_law
      split: prod.split sum.split)

lemma path_chars:
  "list_all path_char ''/cards/claim''" "list_all path_char ''/cards/submit''"
  "uuid_text i \<Longrightarrow> list_all path_char (''/leases/'' @ uuid_str i @ ''/renew'')"
  "uuid_text i \<Longrightarrow> list_all path_char (''/leases/'' @ uuid_str i @ ''/release'')"
  "uuid_text i \<Longrightarrow> list_all path_char (''/workers/leases/'' @ uuid_str i @ ''/context'')"
  by (simp_all add: uuid_text_def path_char_def)

lemma calls_arrive:
  assumes w: "wire_ok w" "\<forall>a \<in> set refs. wire_artifact w (dump a) = Inr a" and base: "client_base_url c = base"
    and i: "uuid_text i" and headers: "plain_headers (client_headers c key)"
  shows "worker_claim h c pipe n key =
      client_sees app w failed c key (ClaimCard \<lparr>clr_input_pipe = pipe, clr_worker_id = client_worker_id c, clr_lease_seconds = n\<rparr>)"
    and "worker_submit h dump c (uuid_str i) pipe (map Inl refs) key =
      client_sees app w failed c key (SubmitArtifact \<lparr>sar_lease_id = i, sar_output_pipe = pipe, sar_artifact_refs = refs\<rparr>)"
    and "worker_renew h c (uuid_str i) n key = client_sees app w failed c key (RenewLease i n)"
    and "worker_release h c (uuid_str i) key = client_sees app w failed c key (ReleaseLease i (Some (client_worker_id c)))"
    and "worker_context h c (uuid_str i) = client_sees app w failed c None (WorkerLeaseContext i)"
proof -
  have dumps: "map (\<lambda>r. case r of Inl a \<Rightarrow> dump a | Inr d \<Rightarrow> d) (map Inl refs) = map dump refs" by (simp add: comp_def)
  show "worker_claim h c pipe n key =
      client_sees app w failed c key (ClaimCard \<lparr>clr_input_pipe = pipe, clr_worker_id = client_worker_id c, clr_lease_seconds = n\<rparr>)"
    unfolding worker_claim_def base post_law [OF claim_routed [OF w(1)] path_chars(1) headers] by (rule client_served)
  show "worker_submit h dump c (uuid_str i) pipe (map Inl refs) key =
      client_sees app w failed c key (SubmitArtifact \<lparr>sar_lease_id = i, sar_output_pipe = pipe, sar_artifact_refs = refs\<rparr>)"
    unfolding worker_submit_def Let_def dumps base post_law [OF submit_routed [OF w i] path_chars(2) headers] by (rule client_served)
  show "worker_renew h c (uuid_str i) n key = client_sees app w failed c key (RenewLease i n)"
    unfolding worker_renew_def base post_law [OF lease_routed(1) [OF w(1) i] path_chars(3) [OF i] headers] by (rule client_served)
  show "worker_release h c (uuid_str i) key = client_sees app w failed c key (ReleaseLease i (Some (client_worker_id c)))"
    unfolding worker_release_def base post_law [OF lease_routed(2) [OF w(1) i] path_chars(4) [OF i] headers] by (rule client_served)
  show "worker_context h c (uuid_str i) = client_sees app w failed c None (WorkerLeaseContext i)"
    unfolding worker_context_def base get_law [OF lease_routed(3) [OF w(1) i] path_chars(5) [OF i] keyless_headers [OF headers]]
    by (rule client_served)
qed

end

text \<open>
  Property C38. The worker client and the API agree, over every transport that keeps the contract \<open>transport\<close>: every call of
  the client whose headers (idempotency key, bearer token, participant) are printable ASCII without a space at the ends,
  sent to the application at its base URL and answered in time, arrives as the request it means, with the worker of the
  client, the lease, the pipe, the artifacts, the idempotency key and the participant, is handled, and comes back as
  the encoded result, or as the HTTP error of the status of the exception; nothing else happens to the state. It relies on
  pydantic reading texts, integers, identifiers and the dumped artifacts as they were sent.
\<close>

theorem worker_calls_arrive:
  assumes "transport h app w base resp failed"
    and "wire_ok w" and "\<forall>a \<in> set refs. wire_artifact w (dump a) = Inr a" and "client_base_url c = base"
    and "uuid_text i" and "plain_headers (client_headers c key)"
  shows "worker_claim h c pipe n key =
      client_sees app w failed c key (ClaimCard \<lparr>clr_input_pipe = pipe, clr_worker_id = client_worker_id c, clr_lease_seconds = n\<rparr>) \<and>
    worker_submit h dump c (uuid_str i) pipe (map Inl refs) key =
      client_sees app w failed c key (SubmitArtifact \<lparr>sar_lease_id = i, sar_output_pipe = pipe, sar_artifact_refs = refs\<rparr>) \<and>
    worker_renew h c (uuid_str i) n key = client_sees app w failed c key (RenewLease i n) \<and>
    worker_release h c (uuid_str i) key = client_sees app w failed c key (ReleaseLease i (Some (client_worker_id c))) \<and>
    worker_context h c (uuid_str i) = client_sees app w failed c None (WorkerLeaseContext i)"
  by (intro conjI transport.calls_arrive [OF assms])

text \<open>A wire that writes artifacts as lists, the sample application without authorization, and a client of it.\<close>

definition sample_dump :: "artifact_reference \<Rightarrow> json" where
  "sample_dump r = JList [JStr (uuid_str (artifact_id r)), JStr (uuid_str (artifact_card_id r)),
     (case artifact_event_id r of None \<Rightarrow> JNull | Some e \<Rightarrow> JStr (uuid_str e)), JStr (artifact_storage_ref r),
     JStr (artifact_content_hash r), JStr (artifact_content_type r), JInt (artifact_size_bytes r), JDict (artifact_metadata r),
     JInt (artifact_created_at r)]"

definition sample_wire :: wire where
  "sample_wire =
     \<lparr>wire_str = (\<lambda>v. case v of JStr x \<Rightarrow> Inr x | _ \<Rightarrow> Inl invalid_request),
      wire_int = (\<lambda>v. case v of JInt n \<Rightarrow> Inr n | _ \<Rightarrow> Inl invalid_request),
      wire_uuid = (\<lambda>v. case v of JStr x \<Rightarrow> Inr (UUID x) | _ \<Rightarrow> Inl invalid_request),
      wire_artifact = (\<lambda>v. case v of
          JList [JStr i, JStr c, e, JStr st, JStr h, JStr ty, JInt n, JDict d, JInt t] \<Rightarrow>
            Inr \<lparr>artifact_id = UUID i, artifact_card_id = UUID c, artifact_event_id = (case e of JStr x \<Rightarrow> Some (UUID x) | _ \<Rightarrow> None),
              artifact_storage_ref = st, artifact_content_hash = h, artifact_content_type = ty, artifact_size_bytes = n,
              artifact_metadata = d, artifact_created_at = t\<rparr>
        | _ \<Rightarrow> Inl invalid_request),
      wire_response = (\<lambda>r. case r of ALease l \<Rightarrow> JStr (uuid_str (lease_id l)) | _ \<Rightarrow> JNull),
      wire_detail = (\<lambda>_. JNull)\<rparr>"

definition sample_client :: worker_client where
  "sample_client = new_worker_client ''http://mesh/'' ''ann'' (JInt 10) None None"

lemma sample_wire_ok: "wire_ok sample_wire" "\<forall>a \<in> set refs. wire_artifact sample_wire (sample_dump a) = Inr a"
proof -
  have "wire_artifact sample_wire (sample_dump r) = Inr r" for r
    by (cases r) (simp add: sample_wire_def sample_dump_def split: option.split)
  then show "\<forall>a \<in> set refs. wire_artifact sample_wire (sample_dump a) = Inr a" by simp
  show "wire_ok sample_wire" by (simp add: wire_ok_def) (simp add: sample_wire_def)
qed

theorem worker_calls_arrive_witness:
  "\<exists>lid t. worker_claim (app_http (sample_app\<lparr>app_authorization_enabled := False\<rparr>) sample_wire (\<lambda>_ _ _ _. raiseM (RuntimeError []))
       ''http://mesh'') sample_client ''w.in'' 60 (Some ''key'') (in_mesh sample_created) = (Inr (JStr lid), t) \<and> mem_leases t \<noteq> []"
proof -
  have id: "uuid_text (UUID (replicate 36 CHR ''0''))" by (simp add: uuid_text_def canonical_def path_char_def list.pred_set)
  have base: "client_base_url sample_client = ''http://mesh''" by (simp add: sample_client_def new_worker_client_def)
  have headers: "plain_headers (client_headers sample_client (Some ''key''))"
    by (simp add: sample_client_def new_worker_client_def client_headers_def idempotency_headers_def plain_headers_def plain_header_def
        truthy_def)
  have refs: "\<forall>a \<in> set []. wire_artifact sample_wire (sample_dump a) = Inr a" by simp
  have open_claim: "api_claim_card (sample_app\<lparr>app_authorization_enabled := False\<rparr>) None (Some ''key'')
      \<lparr>clr_input_pipe = ''w.in'', clr_worker_id = ''ann'', clr_lease_seconds = 60\<rparr> = claim_card ''w.in'' ''ann'' 60 (Some ''key'')"
    by (simp add: api_claim_card_def authorize_scoped_def authorize_call_def authorize_request_def scoped_def validate_scope_id_def
        sample_app_def memory_runtime_def liftM_def bindM_def returnM_def fun_eq_iff)
  have "case claim_card ''w.in'' ''ann'' 60 (Some ''key'') (in_mesh sample_created) of (Inr _, t) \<Rightarrow> mem_leases t \<noteq> [] | _ \<Rightarrow> False"
    unfolding in_mesh_def sample_created_state sample_registered_code sample_start_def empty_runtime_def
      mem_runtime.simps world.simps
    by code_simp
  then have "case client_sees (sample_app\<lparr>app_authorization_enabled := False\<rparr>) sample_wire (\<lambda>n. HTTPException n []) sample_client (Some ''key'')
      (ClaimCard \<lparr>clr_input_pipe = ''w.in'', clr_worker_id = client_worker_id sample_client, clr_lease_seconds = 60\<rparr>)
      (in_mesh sample_created) of (Inr (JStr _), t) \<Rightarrow> mem_leases t \<noteq> [] | _ \<Rightarrow> False"
    by (auto simp: client_sees_def sample_client_def new_worker_client_def given_def open_claim mapM_def sample_wire_def
        split: prod.splits sum.splits)
  with worker_calls_arrive [where app = "sample_app\<lparr>app_authorization_enabled := False\<rparr>" and pipe = "''w.in''" and n = 60,
      OF direct.transport_axioms [where other = "\<lambda>_ _ _ _. raiseM (RuntimeError [])"] sample_wire_ok(1) refs base id headers]
  show ?thesis by (auto split: prod.splits sum.splits json.splits)
qed

end
