(* ===== verification/Spec2Isabelle.thy ===== *)
theory Spec2Isabelle
  imports MemoryProperties PanelProperties AuthProperties ExecutorProperties ShadowProperties ServiceProperties
    ApiProperties PostgresContract PostgresRegistry PostgresAuth PostgresLeases
    PostgresProperties PostgresEffects Sessions Deployment Schema WorkerHttp
begin

text \<open>
  \<^bold>\<open>Ghost Mesh.\<close> A Python service that moves cards (units of work) through the buckets of a Patch Panel (a
  versioned workflow graph). Workers claim a card through a pipe under a lease, submit artifact references into an output
  pipe, validators judge, sinks end the work; shadows try out changed panels, genesis turns intents into panels or cards,
  boundary adapters connect the outside, and participants act under scoped permission grants. Paths below are relative to
  \<^verbatim>\<open>src/src/ghostmesh\<close>.

  \<^bold>\<open>How the model is built.\<close> An operation is a command \<open>('s, 'a) M\<close>: a function from the state to a result or a raised
  exception, and the new state; what a Python method writes before it raises stays written. The state is one
  record, extended by each component with its dictionaries: \<open>world\<close> (the sources of \<^verbatim>\<open>uuid4()\<close> and of the clock),
  \<open>mem_runtime\<close>, \<open>mem_registry\<close>, \<open>mem_auth\<close>, \<open>shadow_state\<close>, \<open>mesh\<close>; the durable services work on
  \<open>pg_state\<close>, which holds a database, and \<open>deployment\<close> is a process over one. A protocol class is a record of operations (\<open>card_runtime\<close>,
  \<open>patch_panel_registry\<close>, \<open>auth_repository\<close>), so that the services are defined once over every implementation. All
  definitions compute.

  \<^bold>\<open>Parts and theories.\<close>
  \<^item> \<^verbatim>\<open>Prelude\<close>, \<^verbatim>\<open>PyData\<close>: commands, weakest preconditions, invariants and preorders of commands,
    dictionaries; Python strings, JSON values, identifiers and time.
  \<^item> \<^verbatim>\<open>Domain\<close> (\<^verbatim>\<open>domain/models.py\<close>, \<^verbatim>\<open>domain/authority.py\<close>), \<^verbatim>\<open>Artifacts\<close>
    (\<^verbatim>\<open>artifacts/validation.py\<close>), \<^verbatim>\<open>Topology\<close> (\<^verbatim>\<open>patchpanel/validator.py\<close>),
    \<^verbatim>\<open>RuntimeService\<close> (\<^verbatim>\<open>runtime/service.py\<close>): data, acceptance of artifacts, validation of panels,
    resolution of pipes and the guards of the runtimes.
  \<^item> \<^verbatim>\<open>MemoryRuntime\<close> (\<^verbatim>\<open>runtime/memory.py\<close>), \<^verbatim>\<open>MemorySteps\<close> (its abstract step relation and
    invariants), \<^verbatim>\<open>MemoryRefinement\<close> (every method takes exactly the steps of the relation).
  \<^item> \<^verbatim>\<open>Registry\<close> (\<^verbatim>\<open>registry/service.py\<close>), \<^verbatim>\<open>Auth\<close> and \<^verbatim>\<open>RoleCatalog\<close>
    (\<^verbatim>\<open>auth/\<close>, the authority part of \<^verbatim>\<open>bootstrap.py\<close>).
  \<^item> \<^verbatim>\<open>Executor\<close> (\<^verbatim>\<open>nodes/executor.py\<close>), \<^verbatim>\<open>RuntimeContract\<close> (what clients of a runtime rely on),
    \<^verbatim>\<open>Shadow\<close> (\<^verbatim>\<open>runtime/shadow.py\<close>), \<^verbatim>\<open>Genesis\<close> (\<^verbatim>\<open>genesis/service.py\<close>),
    \<^verbatim>\<open>Boundaries\<close> (\<^verbatim>\<open>boundaries.py\<close>), \<^verbatim>\<open>Observability\<close> (\<^verbatim>\<open>observability.py\<close>),
    \<^verbatim>\<open>SystemBootstrap\<close> (\<^verbatim>\<open>bootstrap.py\<close>, \<^verbatim>\<open>config.py\<close>, \<^verbatim>\<open>patchpanel/loader.py\<close>,
    \<^verbatim>\<open>defaults/bootstrap.py\<close>).
  \<^item> \<^verbatim>\<open>ApiRequests\<close>, \<^verbatim>\<open>Api\<close> (\<^verbatim>\<open>api/main.py\<close>), \<^verbatim>\<open>Mcp\<close>
    (\<^verbatim>\<open>mcp/server.py\<close>): the two front ends, over the same services.
  \<^item> \<^verbatim>\<open>Rows\<close>, \<^verbatim>\<open>Database\<close> (\<^verbatim>\<open>persistence/tables.py\<close> as rows and statements),
    \<^verbatim>\<open>Postgres\<close> and \<^verbatim>\<open>PostgresContract\<close> (\<^verbatim>\<open>runtime/postgres.py\<close>),
    \<^verbatim>\<open>PostgresRegistry\<close>, \<^verbatim>\<open>PostgresAuth\<close> (the durable classes of \<^verbatim>\<open>registry/service.py\<close> and
    \<^verbatim>\<open>auth/repositories.py\<close>), \<^verbatim>\<open>PostgresLeases\<close> (\<^verbatim>\<open>runtime/sqlalchemy_store.py\<close>, and leases of
    the durable runtime), \<^verbatim>\<open>PostgresProperties\<close> and \<^verbatim>\<open>PostgresEffects\<close> (what its calls keep and write),
    \<^verbatim>\<open>Sessions\<close> (the statements of the lease store and of \<^verbatim>\<open>claim_card\<close>, interleaved between sessions),
    \<^verbatim>\<open>Deployment\<close> (the services of a process over the durable runtime).
  \<^item> \<^verbatim>\<open>Schema\<close> (the declared tables and the revisions under \<^verbatim>\<open>src/alembic/versions\<close>),
    \<^verbatim>\<open>ArtifactStore\<close> (\<^verbatim>\<open>artifacts/store.py\<close>), \<^verbatim>\<open>WorkerSdk\<close> (\<^verbatim>\<open>sdk/worker.py\<close>),
    \<^verbatim>\<open>WorkerHttp\<close> (the routes of \<^verbatim>\<open>api/main.py\<close> it calls, their decoding, and the contract of the transport
    between them).
  \<^item> \<^verbatim>\<open>Samples\<close>, \<^verbatim>\<open>MeshSamples\<close>: concrete panels and states for the witnesses.

  \<^bold>\<open>Interfaces.\<close> Each locale states the laws of one interface, is used for the client lemmas and is interpreted on the
  definitions that provide it: \<open>networkx_graph\<close> (an executable graph library), \<open>card_runtime_contract\<close> with
  \<open>sink_runtime\<close> and \<open>shadow_runtime\<close> (the in-memory runtime and, deployed in a process, the durable one),
  \<open>registry_contract\<close> (both registries), \<open>authorization_repository\<close> (the in-memory repository),
  \<open>sql_database\<close> over \<open>sql_table_laws\<close> (a database of lists), \<open>row_locks\<close> (sessions at READ COMMITTED over lists), \<open>migration_engine\<close> (the reference
  semantics), \<open>transport\<close> (httpx, network and server between the worker client and the handlers; a direct call of the
  handlers), \<open>artifact_store\<close> (the local and the S3 store, over \<open>store_files\<close> and \<open>s3_objects\<close>),
  \<open>evolution\<close> and \<open>kept\<close> (relations and invariants that commands keep).

  \<^bold>\<open>What is shown.\<close>
  \<^item> The in-memory runtime: its invariant, one holder per card, histories that only grow, failed calls that change
    nothing, idempotent replay (but for the release of a lease released before, which stores no key), the exact effect of claims, submissions and expiry (\<^verbatim>\<open>MemoryProperties\<close>).
  \<^item> Panels: a panel registers exactly when it is well formed, a contract accepts exactly the right references, and on
    a registered panel cards can be created (\<^verbatim>\<open>PanelProperties\<close>).
  \<^item> Authority: authorization decides exactly by the grants in force, the request guard, the seeding of the root
    operator, and how role grants cross scopes (\<^verbatim>\<open>AuthProperties\<close>).
  \<^item> Sinks demand approval and publish, shadows stay isolated, bounded and inside, mutations pass their gate
    (\<^verbatim>\<open>ExecutorProperties\<close>, \<^verbatim>\<open>ShadowProperties\<close>); registry entries, intents and external deliveries
    (\<^verbatim>\<open>ServiceProperties\<close>); requests and tools without authority change nothing but the audit log
    (\<^verbatim>\<open>ApiProperties\<close>).
  \<^item> The durable services implement the contracts over every database that keeps its documented laws, keep one holder
    per card and decide by the rows (\<^verbatim>\<open>PostgresContract\<close>, \<^verbatim>\<open>PostgresRegistry\<close>,
    \<^verbatim>\<open>PostgresAuth\<close>, \<^verbatim>\<open>PostgresLeases\<close>). A call of the durable runtime loses no row and
    changes only the fields it may, changes nothing when it raises, and answers a retry with the same object (\<^verbatim>\<open>PostgresProperties\<close>); claims and submissions
    write exactly the rows they should (\<^verbatim>\<open>PostgresEffects\<close>). The contract, and with it what is shown of
    histories over the database, needs a clock that moves between two readings, since rows are ordered by time; shadows over the database are isolated and
    stay inside (\<^verbatim>\<open>Deployment\<close>).
  \<^item> Under every interleaving of sessions the lease store gives a card one holder and every call ends, while two claims
    of the durable runtime can take the same card: \<^verbatim>\<open>claim_card\<close> looks for an active lease in the statement that locks
    the row (\<^verbatim>\<open>Sessions\<close>). One holder per card in \<^verbatim>\<open>PostgresLeases\<close> is about transactions that run one
    after another.
  \<^item> What the worker client calls arrives at the API as the request it means, when its headers are printable ASCII
    (\<^verbatim>\<open>WorkerHttp\<close>).
  \<^item> The migrations declare exactly the tables of \<^verbatim>\<open>tables.py\<close>, but the update of revision 0004 asks for a bind
    parameter nobody gives, so the chain stops there; every other revision can be undone and keeps rows
    (\<^verbatim>\<open>Schema\<close>). Uploads stay in their place and are never overwritten (\<^verbatim>\<open>ArtifactStore\<close>).

  \<^bold>\<open>Parameters.\<close> What is not under \<^verbatim>\<open>src/\<close> is an argument: networkx, pydantic's decoding and dumping of models,
  files, YAML and environment, the parts of \<^verbatim>\<open>str.format\<close> beyond plain fields, SQLAlchemy with its database, Alembic,
  the reading of UUIDs, httpx, the file system, the S3 client and SHA-256. Their laws are the \<open>assumes\<close> of the locales above.

  \<^bold>\<open>Bounds.\<close> No definition uses fuel (\<open>interleave\<close> runs a given list of turns, and five rounds for each session end every call): every loop of the program runs over a list or dictionary that it does not extend.
  Python integers are unbounded; a datetime is a number of microseconds, and adding seconds raises
  \<^verbatim>\<open>OverflowError\<close> outside the years 1 to 9999. A string is a list of characters with code points below 256.
  A clock may stand still but not run backwards where a property says so. Identifiers drawn are distinct where a property
  says so.

  \<^bold>\<open>Not modelled.\<close> The text of pydantic's own errors and its field checks beyond those of the model classes; failures of a
  database statement other than \<^verbatim>\<open>IntegrityError\<close>, such as a lost connection; the two health routes as requests (they ask
  for no authority), and the API over durable services; the routing
  and decoding of FastAPI beyond the routes of the worker client, its encoding and FastMCP's transport; the
  interleaving of sessions beyond leases without idempotency keys (acquired, released and claimed), that is, of submissions,
  moves and the uniqueness of keys, and the threads of a process over its in-memory dictionaries; the classes
  \<^verbatim>\<open>WorkflowVersion\<close> and \<^verbatim>\<open>CardLocation\<close>, which nothing constructs; \<^verbatim>\<open>logging.py\<close>,
  \<^verbatim>\<open>cli.py\<close>, \<^verbatim>\<open>db.py\<close> and Alembic's \<^verbatim>\<open>env.py\<close>, which call libraries and have no logic
  of their own. What the map leaves uncovered is otherwise imports, \<^verbatim>\<open>__init__\<close> modules that re-export names, the
  conversions of rows whose row type is the domain class itself, and request classes with a single field, which the handlers take as
  that field.
\<close>

end
